(* ===== verification/Prelude.thy ===== *)
theory Prelude
  imports Main
begin

text \<open>
  The vocabulary every component shares.

  Go code is embedded as state-passing functions.  A computation takes the state of the
  process and returns an outcome: a value, a run-time panic, or (for a loop that is given
  fuel) the exhaustion of that fuel.  Go's pair of a result and an error is a sum
  \<open>error + result\<close> inside \<open>Val\<close>.  The state carries the history of every call that leaves
  the process (BOSH director, Cloud Foundry, UAA, CredHub, service adapter, mutexes, random
  identifiers), each call with the answer it got.  An answer is computed by an oracle from
  the history so far, so a theorem about all oracles is a theorem about all environments,
  whatever they remember and however other clients interfere.

  \<open>ensures\<close> is the verification condition of the embedding: all runs that start with the
  calls \<open>tr\<close> already made end with an outcome and calls related by \<open>\<Phi>\<close>.  Its rules (the
  collection \<open>ens\<close>) replace every oracle by an arbitrary answer.
\<close>

named_theorems client_defs \<open>calls that leave the process\<close>
named_theorems run \<open>equations that run a computation on a state\<close>
named_theorems ens \<open>introduction rules for ensures\<close>
named_theorems wp \<open>equations for wp\<close>

section \<open>Outcomes and computations\<close>

datatype 'a outcome = Val 'a | Panic string | OutOfFuel

record 'e gstate =
  hist :: "'e list"

type_synonym ('s, 'a) go = "'s \<Rightarrow> 'a outcome \<times> 's"

definition ret :: "'a \<Rightarrow> ('s, 'a) go" where
  "ret x s = (Val x, s)"

definition gopanic :: "string \<Rightarrow> ('s, 'a) go" where
  "gopanic msg s = (Panic msg, s)"

definition out_of_fuel :: "('s, 'a) go" where
  "out_of_fuel s = (OutOfFuel, s)"

definition seq :: "('s, 'a) go \<Rightarrow> ('a \<Rightarrow> ('s, 'b) go) \<Rightarrow> ('s, 'b) go" where
  "seq m k s = (case m s of
      (Val a, s') \<Rightarrow> k a s'
    | (Panic p, s') \<Rightarrow> (Panic p, s')
    | (OutOfFuel, s') \<Rightarrow> (OutOfFuel, s'))"

text \<open>\<open>x, err := m(); if err != nil { h(err) }; k(x)\<close>\<close>

definition attempt :: "('s, 'e + 'a) go \<Rightarrow> ('e \<Rightarrow> ('s, 'b) go) \<Rightarrow> ('a \<Rightarrow> ('s, 'b) go) \<Rightarrow> ('s, 'b) go" where
  "attempt m h k = seq m (\<lambda>r. case r of Inl e \<Rightarrow> h e | Inr x \<Rightarrow> k x)"

definition read_state :: "('s \<Rightarrow> 'a) \<Rightarrow> ('s, 'a) go" where
  "read_state f s = (Val (f s), s)"

definition write_state :: "('s \<Rightarrow> 's) \<Rightarrow> ('s, unit) go" where
  "write_state f s = (Val (), f s)"

text \<open>A pure function that may panic, used inside a computation, and two of them in sequence\<close>

definition lift_outcome :: "'a outcome \<Rightarrow> ('s, 'a) go" where
  "lift_outcome r s = (r, s)"

fun obind :: "'a outcome \<Rightarrow> ('a \<Rightarrow> 'b outcome) \<Rightarrow> 'b outcome" where
  "obind (Val a) k = k a"
| "obind (Panic p) k = Panic p"
| "obind OutOfFuel k = OutOfFuel"

lemma obind_fuel: "obind m k = OutOfFuel \<longleftrightarrow> m = OutOfFuel \<or> (\<exists>a. m = Val a \<and> k a = OutOfFuel)"
  by (cases m) auto

text \<open>A call that leaves the process: the oracle answers, the call and its answer are recorded.\<close>

definition ext_call :: "('e list \<Rightarrow> 'r) \<Rightarrow> ('r \<Rightarrow> 'e) \<Rightarrow> (('e, 'z) gstate_scheme, 'r) go" where
  "ext_call orc ev s = (let r = orc (hist s) in (Val r, s\<lparr>hist := hist s @ [ev r]\<rparr>))"

definition emit :: "'e \<Rightarrow> (('e, 'z) gstate_scheme, unit) go" where
  "emit e s = (Val (), s\<lparr>hist := hist s @ [e]\<rparr>)"

text \<open>
  \<open>mu.Lock(); defer mu.Unlock(); m\<close>: the deferred call runs on return and on panic.
\<close>

definition with_lock :: "'e \<Rightarrow> 'e \<Rightarrow> (('e, 'z) gstate_scheme, 'a) go \<Rightarrow> (('e, 'z) gstate_scheme, 'a) go" where
  "with_lock lck unlck m s =
     (case m (s\<lparr>hist := hist s @ [lck]\<rparr>) of
        (OutOfFuel, s') \<Rightarrow> (OutOfFuel, s')
      | (r, s') \<Rightarrow> (r, s'\<lparr>hist := hist s' @ [unlck]\<rparr>))"

lemma ret_run [run]: "ret x s = (Val x, s)"
  by (simp add: ret_def)

lemma seq_ret [simp]: "seq (ret x) k = k x"
  by (rule ext) (simp add: seq_def ret_def)

lemma seq_gopanic [simp]: "seq (gopanic p) k = gopanic p"
  by (rule ext) (simp add: seq_def gopanic_def)

lemma attempt_ret [simp]: "attempt (ret r) h k = (case r of Inl e \<Rightarrow> h e | Inr x \<Rightarrow> k x)"
  by (simp add: attempt_def)

lemma seq_seq [simp]: "seq (seq m f) g = seq m (\<lambda>a. seq (f a) g)"
  by (rule ext) (simp add: seq_def split: prod.splits outcome.splits)

lemma seq_if [simp]: "seq (if b then m else n) k = (if b then seq m k else seq n k)"
  by simp

declare seq_def [run] attempt_def [run] gopanic_def [run] out_of_fuel_def [run] ext_call_def [run]
  emit_def [run] read_state_def [run] write_state_def [run] lift_outcome_def [run] Let_def [run]

section \<open>What every run of a computation ensures\<close>

definition ensures :: "('a outcome \<Rightarrow> 'e list \<Rightarrow> bool) \<Rightarrow> 'e list \<Rightarrow> (('e, 'z) gstate_scheme, 'a) go \<Rightarrow> bool" where
  "ensures \<Phi> tr m \<longleftrightarrow>
     (\<forall>s h0. hist s = h0 @ tr \<longrightarrow>
        (case m s of (r, s') \<Rightarrow> \<exists>tr'. hist s' = h0 @ tr' \<and> \<Phi> r tr'))"

lemma ensures_run:
  "ensures \<Phi> tr m \<Longrightarrow> hist s = h0 @ tr \<Longrightarrow> m s = (r, s')
   \<Longrightarrow> \<exists>tr'. hist s' = h0 @ tr' \<and> \<Phi> r tr'"
  unfolding ensures_def by fastforce

lemma ensuresD:
  "ensures \<Phi> [] m \<Longrightarrow> m s = (r, s') \<Longrightarrow> \<exists>tr. hist s' = hist s @ tr \<and> \<Phi> r tr"
  by (erule ensures_run) simp_all

lemma ensures_mono:
  assumes "ensures \<Psi> tr m" and "\<And>r t. \<Psi> r t \<Longrightarrow> \<Phi> r t"
  shows "ensures \<Phi> tr m"
  using assms unfolding ensures_def by (fastforce split: prod.splits)

lemma ensures_frame:
  fixes m :: "(('e, 'z) gstate_scheme, 'a) go"
  assumes "ensures \<Psi> [] m"
  shows "ensures (\<lambda>r t. \<exists>d. t = tr @ d \<and> \<Psi> r d) tr m"
  unfolding ensures_def
proof (intro allI impI)
  fix s :: "('e, 'z) gstate_scheme" and h0
  assume h: "hist s = h0 @ tr"
  obtain r s' where run: "m s = (r, s')" by force
  from ensuresD [OF assms run] h
  show "case m s of (r, s') \<Rightarrow> \<exists>tr'. hist s' = h0 @ tr' \<and> (\<exists>d. tr' = tr @ d \<and> \<Psi> r d)"
    by (auto simp: run)
qed

lemma ens_ret [ens]: "\<Phi> (Val x) tr \<Longrightarrow> ensures \<Phi> tr (ret x)"
  by (auto simp: ensures_def ret_def)

lemma ens_gopanic [ens]: "\<Phi> (Panic p) tr \<Longrightarrow> ensures \<Phi> tr (gopanic p)"
  by (auto simp: ensures_def gopanic_def)

lemma ens_ext_call [ens]:
  "(\<And>x. \<Phi> (Val x) (tr @ [ev x])) \<Longrightarrow> ensures \<Phi> tr (ext_call orc ev)"
  by (auto simp: ensures_def ext_call_def Let_def)

lemma ens_emit [ens]: "\<Phi> (Val ()) (tr @ [e]) \<Longrightarrow> ensures \<Phi> tr (emit e)"
  by (auto simp: ensures_def emit_def)

lemma ens_read [ens]: "(\<And>x. \<Phi> (Val x) tr) \<Longrightarrow> ensures \<Phi> tr (read_state f)"
  by (auto simp: ensures_def read_state_def)

lemma ens_seq_general:
  fixes m :: "(('e, 'z) gstate_scheme, 'a) go"
  assumes "ensures (\<lambda>r t. case r of Val a \<Rightarrow> ensures \<Phi> t (k a)
      | Panic p \<Rightarrow> \<Phi> (Panic p) t | OutOfFuel \<Rightarrow> \<Phi> OutOfFuel t) tr m"
  shows "ensures \<Phi> tr (seq m k)"
  unfolding ensures_def
proof (intro allI impI)
  fix s :: "('e, 'z) gstate_scheme" and h0
  assume h: "hist s = h0 @ tr"
  obtain r s1 where run: "m s = (r, s1)" by force
  from ensures_run [OF assms h run]
  obtain t where t: "hist s1 = h0 @ t"
      "case r of Val a \<Rightarrow> ensures \<Phi> t (k a)
      | Panic p \<Rightarrow> \<Phi> (Panic p) t | OutOfFuel \<Rightarrow> \<Phi> OutOfFuel t"
    by auto
  show "case seq m k s of (r, s') \<Rightarrow> \<exists>tr'. hist s' = h0 @ tr' \<and> \<Phi> r tr'"
  proof (cases r)
    case (Val a)
    with t have "ensures \<Phi> t (k a)" by simp
    from ensures_run [OF this t(1)]
    show ?thesis by (auto simp: seq_def run Val)
  qed (use t in \<open>auto simp: seq_def run\<close>)
qed

lemma ens_seq_call [ens]:
  "(\<And>x. ensures \<Phi> (tr @ [ev x]) (k x)) \<Longrightarrow> ensures \<Phi> tr (seq (ext_call orc ev) k)"
  by (rule ens_seq_general) (auto intro!: ens)

lemma ens_attempt_call [ens]:
  "(\<And>e. ensures \<Phi> (tr @ [ev (Inl e)]) (h e)) \<Longrightarrow> (\<And>x. ensures \<Phi> (tr @ [ev (Inr x)]) (k x))
   \<Longrightarrow> ensures \<Phi> tr (attempt (ext_call orc ev) h k)"
  unfolding attempt_def by (rule ens_seq_general) (auto intro!: ens split: sum.splits)

lemma ens_seq_emit [ens]:
  "ensures \<Phi> (tr @ [e]) (k ()) \<Longrightarrow> ensures \<Phi> tr (seq (emit e) k)"
  by (rule ens_seq_general) (auto intro!: ens)

lemma ens_seq_read [ens]:
  "(\<And>x. ensures \<Phi> tr (k x)) \<Longrightarrow> ensures \<Phi> tr (seq (read_state f) k)"
  by (rule ens_seq_general) (auto intro!: ens)

lemma ens_seq_lift [ens]:
  "(\<And>a. r = Val a \<Longrightarrow> ensures \<Phi> tr (k a)) \<Longrightarrow> (\<And>p. r = Panic p \<Longrightarrow> \<Phi> (Panic p) tr)
   \<Longrightarrow> (r = OutOfFuel \<Longrightarrow> \<Phi> OutOfFuel tr) \<Longrightarrow> ensures \<Phi> tr (seq (lift_outcome r) k)"
  by (rule ens_seq_general) (cases r; simp add: ensures_def lift_outcome_def)

text \<open>When something is known about the oracle, the answers are restricted to what it can say.\<close>

lemma ens_attempt_answer:
  fixes orc :: "'e list \<Rightarrow> 'x + 'y" and k :: "'y \<Rightarrow> (('e, 'z) gstate_scheme, 'a) go"
  assumes "\<And>h e. orc h = Inl e \<Longrightarrow> ensures \<Phi> (tr @ [ev (Inl e)]) (f e)"
    and "\<And>h x. orc h = Inr x \<Longrightarrow> ensures \<Phi> (tr @ [ev (Inr x)]) (k x)"
  shows "ensures \<Phi> tr (attempt (ext_call orc ev) f k)"
  unfolding ensures_def
proof (intro allI impI)
  fix s :: "('e, 'z) gstate_scheme" and h0
  assume h: "hist s = h0 @ tr"
  show "case attempt (ext_call orc ev) f k s of (r, s') \<Rightarrow> \<exists>tr'. hist s' = h0 @ tr' \<and> \<Phi> r tr'"
  proof (cases "orc (h0 @ tr)")
    case (Inl e)
    from assms(1) [OF Inl] h show ?thesis
      by (auto simp: attempt_def seq_def ext_call_def Inl Let_def ensures_def
          dest!: spec [of _ "s\<lparr>hist := hist s @ [ev (Inl e)]\<rparr>"])
  next
    case (Inr x)
    from assms(2) [OF Inr] h show ?thesis
      by (auto simp: attempt_def seq_def ext_call_def Inr Let_def ensures_def
          dest!: spec [of _ "s\<lparr>hist := hist s @ [ev (Inr x)]\<rparr>"])
  qed
qed

text \<open>A procedure with a specification of its own is used through that specification.\<close>

lemma ens_seq_sub:
  assumes "ensures \<Psi> [] m"
    and "\<And>a d. \<Psi> (Val a) d \<Longrightarrow> ensures \<Phi> (tr @ d) (k a)"
    and "\<And>p d. \<Psi> (Panic p) d \<Longrightarrow> \<Phi> (Panic p) (tr @ d)"
    and "\<And>d. \<Psi> OutOfFuel d \<Longrightarrow> \<Phi> OutOfFuel (tr @ d)"
  shows "ensures \<Phi> tr (seq m k)"
  by (rule ens_seq_general, rule ensures_mono [OF ensures_frame [OF assms(1)]])
     (use assms(2-) in \<open>auto split: outcome.splits\<close>)

lemma ens_attempt_sub:
  assumes "ensures \<Psi> [] m"
    and "\<And>e d. \<Psi> (Val (Inl e)) d \<Longrightarrow> ensures \<Phi> (tr @ d) (h e)"
    and "\<And>x d. \<Psi> (Val (Inr x)) d \<Longrightarrow> ensures \<Phi> (tr @ d) (k x)"
    and "\<And>p d. \<Psi> (Panic p) d \<Longrightarrow> \<Phi> (Panic p) (tr @ d)"
    and "\<And>d. \<Psi> OutOfFuel d \<Longrightarrow> \<Phi> OutOfFuel (tr @ d)"
  shows "ensures \<Phi> tr (attempt m h k)"
  unfolding attempt_def
  by (rule ens_seq_sub [OF assms(1)]) (use assms(2-) in \<open>auto split: sum.splits\<close>)

lemma ens_sub:
  assumes "ensures \<Psi> [] m" and "\<And>r d. \<Psi> r d \<Longrightarrow> \<Phi> r (tr @ d)"
  shows "ensures \<Phi> tr m"
  by (rule ensures_mono [OF ensures_frame [OF assms(1)]]) (use assms(2) in auto)

text \<open>A lock scope: the body runs after the lock event, the unlock event follows the body.\<close>

lemma ens_with_lock:
  fixes m :: "(('e, 'z) gstate_scheme, 'a) go"
  assumes "ensures (\<lambda>r t. if r = OutOfFuel then \<Phi> OutOfFuel t else \<Phi> r (t @ [u])) (tr @ [l]) m"
  shows "ensures \<Phi> tr (with_lock l u m)"
  unfolding ensures_def
proof (intro allI impI)
  fix s :: "('e, 'z) gstate_scheme" and h0
  assume h: "hist s = h0 @ tr"
  let ?s = "s\<lparr>hist := hist s @ [l]\<rparr>"
  obtain r s1 where run: "m ?s = (r, s1)" by force
  have "hist ?s = h0 @ (tr @ [l])" using h by simp
  from ensures_run [OF assms this run]
  show "case with_lock l u m s of (r, s') \<Rightarrow> \<exists>tr'. hist s' = h0 @ tr' \<and> \<Phi> r tr'"
    by (cases r) (auto simp: with_lock_def run)
qed

section \<open>What one run of a computation establishes\<close>

text \<open>
  \<open>wp m Q s\<close>: the run of \<open>m\<close> from state \<open>s\<close> ends with an outcome and a state related by \<open>Q\<close>.  The
  equations of the collection \<open>wp\<close> push it through a computation; they are used where a
  component has state of its own beside the history.
\<close>

definition wp :: "('s, 'a) go \<Rightarrow> ('a outcome \<Rightarrow> 's \<Rightarrow> bool) \<Rightarrow> 's \<Rightarrow> bool" where
  "wp m Q s = (case m s of (r, s') \<Rightarrow> Q r s')"

lemma wpD: "wp m Q s \<Longrightarrow> m s = (r, s') \<Longrightarrow> Q r s'"
  by (simp add: wp_def)

lemma wp_mono: "wp m Q s \<Longrightarrow> (\<And>r s'. Q r s' \<Longrightarrow> R r s') \<Longrightarrow> wp m R s"
  by (auto simp: wp_def split: prod.splits)

lemma wp_ret [wp]: "wp (ret x) Q s \<longleftrightarrow> Q (Val x) s"
  and wp_gopanic [wp]: "wp (gopanic p) Q s \<longleftrightarrow> Q (Panic p) s"
  and wp_out_of_fuel [wp]: "wp out_of_fuel Q s \<longleftrightarrow> Q OutOfFuel s"
  and wp_read [wp]: "wp (read_state f) Q s \<longleftrightarrow> Q (Val (f s)) s"
  and wp_write [wp]: "wp (write_state g) Q' s \<longleftrightarrow> Q' (Val ()) (g s)"
  by (simp_all add: wp_def run)

lemma wp_emit [wp]: "wp (emit e) Q s \<longleftrightarrow> Q (Val ()) (s\<lparr>hist := hist s @ [e]\<rparr>)"
  and wp_ext_call [wp]: "wp (ext_call orc ev) Q' s \<longleftrightarrow>
    Q' (Val (orc (hist s))) (s\<lparr>hist := hist s @ [ev (orc (hist s))]\<rparr>)"
  by (simp_all add: wp_def run)

lemma wp_seq [wp]:
  "wp (seq m k) Q s \<longleftrightarrow> wp m (\<lambda>r s'. case r of Val a \<Rightarrow> wp (k a) Q s' | Panic p \<Rightarrow> Q (Panic p) s'
      | OutOfFuel \<Rightarrow> Q OutOfFuel s') s"
  by (auto simp: wp_def seq_def split: prod.splits outcome.splits)

lemma wp_attempt [wp]:
  "wp (attempt m h k) Q s \<longleftrightarrow> wp m (\<lambda>r s'. case r of Val (Inl e) \<Rightarrow> wp (h e) Q s'
      | Val (Inr x) \<Rightarrow> wp (k x) Q s' | Panic p \<Rightarrow> Q (Panic p) s' | OutOfFuel \<Rightarrow> Q OutOfFuel s') s"
  by (auto simp: attempt_def wp_seq intro!: arg_cong [where f = "\<lambda>Q. wp m Q s"] ext split: outcome.splits sum.splits)

section \<open>Order of events in a trace\<close>

text \<open>\<open>guarded_by G B tr\<close>: no event of \<open>B\<close> occurs before the first event of \<open>G\<close>.\<close>

fun guarded_by :: "('e \<Rightarrow> bool) \<Rightarrow> ('e \<Rightarrow> bool) \<Rightarrow> 'e list \<Rightarrow> bool" where
  "guarded_by G B [] = True"
| "guarded_by G B (e # es) = (\<not> B e \<and> (G e \<or> guarded_by G B es))"

lemma guarded_by_append:
  "guarded_by G B (xs @ ys) \<longleftrightarrow> guarded_by G B xs \<and> ((\<exists>x\<in>set xs. G x) \<or> guarded_by G B ys)"
  by (induction xs) auto

lemma guarded_by_none: "(\<And>e. e \<in> set tr \<Longrightarrow> \<not> B e) \<Longrightarrow> guarded_by G B tr"
  by (induction tr) auto

lemma guarded_by_sound:
  "guarded_by G B tr \<Longrightarrow> tr = pre @ e # post \<Longrightarrow> B e \<Longrightarrow> \<exists>g\<in>set pre. G g"
  by (induction pre arbitrary: tr) auto

section \<open>Integers and their decimal rendering\<close>

text \<open>Go's \<open>int\<close> is 64 bits wide on the platforms the broker ships for; \<open>wrap64\<close> is its wrap-around.\<close>

definition wrap64 :: "int \<Rightarrow> int" where
  "wrap64 x = (x + 2 ^ 63) mod 2 ^ 64 - 2 ^ 63"

definition in_int64 :: "int \<Rightarrow> bool" where
  "in_int64 x \<longleftrightarrow> - (2 ^ 63) \<le> x \<and> x < 2 ^ 63"

lemma wrap64_id [simp]: "in_int64 x \<Longrightarrow> wrap64 x = x"
  by (simp add: wrap64_def in_int64_def)

lemma wrap64_range: "in_int64 (wrap64 x)"
  by (simp add: wrap64_def in_int64_def)

lemma wrap64_add: "wrap64 (wrap64 x + y) = wrap64 (x + y)"
proof -
  have "((x + 2 ^ 63) mod 2 ^ 64 + y) mod 2 ^ 64 = (x + 2 ^ 63 + y) mod (2 ^ 64 :: int)"
    by (rule mod_add_left_eq)
  then show ?thesis by (simp add: wrap64_def algebra_simps)
qed

fun show_nat :: "nat \<Rightarrow> string" where
  "show_nat n = (if n < 10 then [char_of (48 + n)]
                 else show_nat (n div 10) @ [char_of (48 + n mod 10)])"

declare show_nat.simps [simp del]

definition show_int :: "int \<Rightarrow> string" where
  "show_int i = (if i < 0 then ''-'' @ show_nat (nat (- i)) else show_nat (nat i))"

fun join :: "string \<Rightarrow> string list \<Rightarrow> string" where
  "join sep [] = ''''"
| "join sep [x] = x"
| "join sep (x # y # zs) = x @ sep @ join sep (y # zs)"

section \<open>Small list and map facts\<close>

definition has_prefix :: "string \<Rightarrow> string \<Rightarrow> bool" where
  "has_prefix s p \<longleftrightarrow> take (length p) s = p"

definition has_suffix :: "string \<Rightarrow> string \<Rightarrow> bool" where
  "has_suffix s t \<longleftrightarrow> has_prefix (rev s) (rev t)"

definition trim_prefix :: "string \<Rightarrow> string \<Rightarrow> string" where
  "trim_prefix s p = (if has_prefix s p then drop (length p) s else s)"

lemma has_prefix_append [simp]: "has_prefix (p @ s) p"
  by (simp add: has_prefix_def)

lemma trim_prefix_append [simp]: "trim_prefix (p @ s) p = s"
  by (simp add: trim_prefix_def)

lemma has_prefixE: "has_prefix s p \<Longrightarrow> \<exists>t. s = p @ t"
  by (metis append_take_drop_id has_prefix_def)

end
