(* ===== verification/Errors.thy ===== *)
theory Errors
  imports Prelude
begin

text \<open>
  The error values of the broker and of the packages it calls (\<open>broker/errors.go\<close>, the error
  types of \<open>serviceadapter/client.go\<close>, \<open>boshdirector\<close> and \<open>cf/errors.go\<close>, the failure
  responses of the vendored \<open>brokerapi\<close> package), the request context of
  \<open>brokercontext/brokercontext.go\<close>, and the translation of an error into what the platform
  user sees.

  A Go error is a value of \<open>gerr\<close> whose constructor is the dynamic type the code switches on;
  \<open>errmsg\<close> is its \<open>Error()\<close> method.
\<close>

section \<open>Error values\<close>

datatype gerr =
    ErrorString string
  | FailureResponse string int string bool string
  | RequestError string
  | NotImplementedError string
  | UnknownFailureError string
  | AppGuidNotProvidedError string
  | BindingAlreadyExistsError string
  | BindingNotFoundError string
  | ResourceNotFoundError string
  | UnauthorizedError string
  | ForbiddenError string
  | InvalidResponseError string
  | DisplayableError gerr gerr
  | OperationInProgressError gerr
  | PlanNotFoundError string
  | DeploymentNotFoundError gerr
  | TaskInProgressError string
  | ServiceError gerr
  | PendingChangesNotAppliedError gerr
  | OperationAlreadyCompletedError gerr
  | WarningMaintenanceInfoNil
  | InstanceNotFoundError

fun errmsg :: "gerr \<Rightarrow> string" where
  "errmsg (ErrorString m) = m"
| "errmsg (FailureResponse m _ _ _ _) = m"
| "errmsg (RequestError m) = m"
| "errmsg (NotImplementedError m) = m"
| "errmsg (UnknownFailureError m) = m"
| "errmsg (AppGuidNotProvidedError m) = m"
| "errmsg (BindingAlreadyExistsError m) = m"
| "errmsg (BindingNotFoundError m) = m"
| "errmsg (ResourceNotFoundError m) = m"
| "errmsg (UnauthorizedError m) = m"
| "errmsg (ForbiddenError m) = m"
| "errmsg (InvalidResponseError m) = m"
| "errmsg (DisplayableError u oper) =
     ''error: '' @ errmsg oper @ ''. error for user: '' @ errmsg u @ ''.''"
| "errmsg (OperationInProgressError e) = errmsg e"
| "errmsg (PlanNotFoundError g) = ''plan '' @ g @ '' does not exist''"
| "errmsg (DeploymentNotFoundError e) = errmsg e"
| "errmsg (TaskInProgressError m) = m"
| "errmsg (ServiceError e) = errmsg e"
| "errmsg (PendingChangesNotAppliedError e) = errmsg e"
| "errmsg (OperationAlreadyCompletedError e) = errmsg e"
| "errmsg WarningMaintenanceInfoNil =
     ''maintenance info defined in broker service catalog, but not passed in request''"
| "errmsg InstanceNotFoundError = ''Service instance not found''"

text \<open>\<open>fmt.Errorf(prefix + "%s", err)\<close> and \<open>errors.Wrap(err, prefix)\<close>\<close>

definition errorf :: "string \<Rightarrow> gerr \<Rightarrow> gerr" where
  "errorf prefix e = ErrorString (prefix @ errmsg e)"

section \<open>Failure responses of the brokerapi package\<close>

definition ErrInstanceAlreadyExists :: gerr where
  "ErrInstanceAlreadyExists =
     FailureResponse ''instance already exists'' 409 ''instance-already-exists'' True ''''"

definition ErrInstanceDoesNotExist :: gerr where
  "ErrInstanceDoesNotExist =
     FailureResponse ''instance does not exist'' 410 ''instance-missing'' True ''''"

definition ErrBindingAlreadyExists :: gerr where
  "ErrBindingAlreadyExists =
     FailureResponse ''binding already exists'' 409 ''binding-already-exists'' False ''''"

definition ErrBindingDoesNotExist :: gerr where
  "ErrBindingDoesNotExist =
     FailureResponse ''binding does not exist'' 410 ''binding-missing'' True ''''"

definition ErrAppGuidNotProvided :: gerr where
  "ErrAppGuidNotProvided =
     FailureResponse ''app_guid is a required field but was not provided'' 422
       ''app-guid-not-provided'' False ''''"

definition ErrRawParamsInvalid :: gerr where
  "ErrRawParamsInvalid =
     FailureResponse ''The format of the parameters is not valid JSON'' 422
       ''invalid-raw-params'' False ''''"

definition ErrAsyncRequired :: gerr where
  "ErrAsyncRequired =
     FailureResponse ''This service plan requires client support for asynchronous service operations.''
       422 ''async-required'' False ''AsyncRequired''"

definition ErrMaintenanceInfoConflict :: gerr where
  "ErrMaintenanceInfoConflict =
     FailureResponse ''passed maintenance_info does not match the catalog maintenance_info''
       422 ''maintenance-info-conflict'' False ''MaintenanceInfoConflict''"

definition ErrMaintenanceInfoNilConflict :: gerr where
  "ErrMaintenanceInfoNilConflict =
     FailureResponse ''maintenance_info was passed, but the broker catalog contains no maintenance_info''
       422 ''maintenance-info-conflict'' False ''MaintenanceInfoConflict''"

definition paramsValidationFailed :: "gerr \<Rightarrow> gerr" where
  "paramsValidationFailed e = FailureResponse (errmsg e) 400 ''params-validation-failed'' False ''''"

section \<open>The request context\<close>

record context_info =
  ctx_operation :: string
  ctx_reqID :: string
  ctx_serviceName :: string
  ctx_instanceID :: string
  ctx_boshTaskID :: int

definition background :: context_info where
  "background = \<lparr> ctx_operation = '''', ctx_reqID = '''', ctx_serviceName = '''',
     ctx_instanceID = '''', ctx_boshTaskID = 0 \<rparr>"

definition brokercontext_New :: "context_info \<Rightarrow> string \<Rightarrow> string \<Rightarrow> string \<Rightarrow> string \<Rightarrow> context_info" where
  "brokercontext_New ctx operation requestID serviceName instanceID =
     ctx\<lparr>ctx_operation := operation, ctx_reqID := requestID,
         ctx_serviceName := serviceName, ctx_instanceID := instanceID\<rparr>"

definition WithOperation :: "context_info \<Rightarrow> string \<Rightarrow> context_info" where
  "WithOperation ctx operation = ctx\<lparr>ctx_operation := operation\<rparr>"

definition WithBoshTaskID :: "context_info \<Rightarrow> int \<Rightarrow> context_info" where
  "WithBoshTaskID ctx boshTaskID = ctx\<lparr>ctx_boshTaskID := boshTaskID\<rparr>"

section \<open>Building and exposing errors\<close>

definition GenericErrorPrefix :: string where
  "GenericErrorPrefix = ''There was a problem completing your request. Please contact your operations team providing the following information:''"

definition PendingChangesErrorMessage :: string where
  "PendingChangesErrorMessage = ''The service broker has been updated, and this service instance is out of date. Please contact your operator.''"

definition OperationInProgressMessage :: string where
  "OperationInProgressMessage = ''An operation is in progress for your service instance. Please try again later.''"

definition UnableToDeleteMessage :: string where
  "UnableToDeleteMessage = ''Unable to delete service. Please try again later or contact your operator.''"

text \<open>The user half of \<open>NewGenericError\<close>; the operator half is the error that was passed.\<close>

definition genericErrorForCFUser :: "context_info \<Rightarrow> gerr" where
  "genericErrorForCFUser ctx = ErrorString
     (GenericErrorPrefix @ '' service: '' @ ctx_serviceName ctx
      @ '', service-instance-guid: '' @ ctx_instanceID ctx
      @ '', broker-request-id: '' @ ctx_reqID ctx
      @ (if ctx_boshTaskID ctx \<noteq> 0 then '', task-id: '' @ show_int (ctx_boshTaskID ctx) else '''')
      @ (if ctx_operation ctx \<noteq> '''' then '', operation: '' @ ctx_operation ctx else ''''))"

definition NewGenericError :: "context_info \<Rightarrow> gerr \<Rightarrow> gerr" where
  "NewGenericError ctx err = DisplayableError (genericErrorForCFUser ctx) err"

definition NewBoshRequestError :: "string \<Rightarrow> gerr \<Rightarrow> gerr" where
  "NewBoshRequestError action requestError = DisplayableError
     (ErrorString (''Currently unable to '' @ action @ '' service instance, please try again later''))
     requestError"

text \<open>\<open>DisplayableError.ExtendedCFError\<close>\<close>

definition ExtendedCFError :: "gerr \<Rightarrow> gerr \<Rightarrow> gerr" where
  "ExtendedCFError u oper = (case u of
      FailureResponse m code action emptyResp key \<Rightarrow>
        FailureResponse (m @ '' '' @ ''- error-message: '' @ errmsg oper) code action emptyResp key
    | _ \<Rightarrow> ErrorString (errmsg u @ '' - error-message: '' @ errmsg oper))"

text \<open>\<open>Broker.processError\<close> of \<open>broker/broker.go\<close> (it also logs the error).\<close>

definition processError :: "bool \<Rightarrow> gerr \<Rightarrow> gerr" where
  "processError exposeOperationalErrors err = (case err of
      DisplayableError u oper \<Rightarrow> if exposeOperationalErrors then ExtendedCFError u oper else u
    | _ \<Rightarrow> err)"

definition adapterToAPIError :: "context_info \<Rightarrow> gerr \<Rightarrow> gerr" where
  "adapterToAPIError ctx err = (case err of
      BindingAlreadyExistsError _ \<Rightarrow> ErrBindingAlreadyExists
    | BindingNotFoundError _ \<Rightarrow> ErrBindingDoesNotExist
    | AppGuidNotProvidedError _ \<Rightarrow> ErrAppGuidNotProvided
    | UnknownFailureError m \<Rightarrow> if m = '''' then genericErrorForCFUser ctx else err
    | _ \<Rightarrow> genericErrorForCFUser ctx)"

section \<open>What the user gets to see\<close>

text \<open>The HTTP status code a failure response carries survives the extension of its message.\<close>

fun statusCode :: "gerr \<Rightarrow> int option" where
  "statusCode (FailureResponse _ code _ _ _) = Some code"
| "statusCode _ = None"

lemma statusCode_ExtendedCFError: "statusCode (ExtendedCFError u oper) = statusCode u"
  by (cases u) (simp_all add: ExtendedCFError_def)

lemma processError_hides: "processError False (DisplayableError u oper) = u"
  by (simp add: processError_def)

lemma processError_other: "(\<And>u oper. e \<noteq> DisplayableError u oper) \<Longrightarrow> processError b e = e"
  by (cases e) (auto simp: processError_def)

lemma processError_statusCode:
  "statusCode (processError b (DisplayableError u oper)) = statusCode u"
  by (simp add: processError_def statusCode_ExtendedCFError)

lemma processError_simps [simp]:
  "processError b (ErrorString m) = ErrorString m"
  "processError b (FailureResponse m1 c a e k) = FailureResponse m1 c a e k"
  "processError b (PlanNotFoundError g) = PlanNotFoundError g"
  "processError b (DeploymentNotFoundError e1) = DeploymentNotFoundError e1"
  "processError b (OperationInProgressError e1) = OperationInProgressError e1"
  "processError b (OperationAlreadyCompletedError e1) = OperationAlreadyCompletedError e1"
  by (simp_all add: processError_def)

end
