(* ===== verification/Config.thy ===== *)
theory Config
  imports Errors
begin

text \<open>
  The part of \<open>config/config.go\<close> the broker's operations read: the service offering with its
  plans, quotas, lifecycle errands and maintenance information, and the functions on them.
  JSON-like values of Go (\<open>map[string]interface{}\<close>, \<open>interface{}\<close>, parsed YAML) are trees of
  type \<open>json\<close>; a Go map whose iteration order the code lets escape is an association list
  whose order stands for the order of that iteration.
\<close>

datatype json = JNull | JBool bool | JNum int | JFloat int int | JStr string | JArr "json list" | JObj "(string \<times> json) list"

type_synonym smap = "(string \<times> string) list"

record Errand =
  errand_Name :: string
  errand_Instances :: "string list"

record LifecycleErrands =
  PostDeploy :: "Errand list"
  PreDelete :: "Errand list"

record ResourceQuota =
  quota_Limit :: int
  quota_Cost :: int

record Quotas =
  ServiceInstanceLimit :: "int option"
  Resources :: "(string \<times> ResourceQuota) list option"

record ConfigMaintenanceInfo =
  cmi_Public :: smap
  cmi_Private :: smap
  cmi_Version :: string
  cmi_Description :: string

record BindingDNS =
  dns_Name :: string
  dns_LinkProvider :: string
  dns_InstanceGroup :: string
  dns_AZS :: "string list"
  dns_Status :: string

record PlanMetadata =
  pm_DisplayName :: string
  pm_Bullets :: "string list"
  pm_Costs :: "(json \<times> string) list"
  pm_AdditionalMetadata :: "(string \<times> json) list"

record Plan =
  plan_ID :: string
  plan_Name :: string
  plan_Free :: "bool option"
  plan_Bindable :: "bool option"
  plan_Description :: string
  plan_Metadata :: PlanMetadata
  plan_Quotas :: Quotas
  plan_Properties :: "(string \<times> json) list"
  plan_InstanceGroups :: "json list"
  plan_Update :: "json option"
  plan_LifecycleErrands :: "LifecycleErrands option"
  plan_BindingWithDNS :: "BindingDNS list"
  plan_MaintenanceInfo :: "ConfigMaintenanceInfo option"

record ServiceMetadata =
  sm_DisplayName :: string
  sm_ImageURL :: string
  sm_LongDescription :: string
  sm_ProviderDisplayName :: string
  sm_DocumentationURL :: string
  sm_SupportURL :: string
  sm_Shareable :: bool
  sm_AdditionalMetadata :: "(string \<times> json) list"

record DashboardClient =
  dc_ID :: string
  dc_Secret :: string
  dc_RedirectUri :: string

record ServiceOffering =
  off_ID :: string
  off_Name :: string
  off_Description :: string
  off_Bindable :: bool
  off_PlanUpdatable :: bool
  off_Requires :: "string list"
  off_Metadata :: ServiceMetadata
  off_DashboardClient :: "DashboardClient option"
  off_Tags :: "string list"
  off_GlobalProperties :: "(string \<times> json) list"
  off_GlobalQuotas :: Quotas
  off_Plans :: "Plan list"
  off_MaintenanceInfo :: "ConfigMaintenanceInfo option"

text \<open>The zero value \<open>Plan{}\<close>\<close>

definition zeroPlan :: Plan where
  "zeroPlan = \<lparr> plan_ID = '''', plan_Name = '''', plan_Free = None, plan_Bindable = None,
     plan_Description = '''',
     plan_Metadata = \<lparr> pm_DisplayName = '''', pm_Bullets = [], pm_Costs = [], pm_AdditionalMetadata = [] \<rparr>,
     plan_Quotas = \<lparr> ServiceInstanceLimit = None, Resources = None \<rparr>,
     plan_Properties = [], plan_InstanceGroups = [], plan_Update = None,
     plan_LifecycleErrands = None, plan_BindingWithDNS = [], plan_MaintenanceInfo = None \<rparr>"

fun FindByID :: "Plan list \<Rightarrow> string \<Rightarrow> Plan \<times> bool" where
  "FindByID [] _ = (zeroPlan, False)"
| "FindByID (p # ps) i = (if plan_ID p = i then (p, True) else FindByID ps i)"

definition FindPlanByID :: "ServiceOffering \<Rightarrow> string \<Rightarrow> Plan \<times> bool" where
  "FindPlanByID s i = FindByID (off_Plans s) i"

definition PostDeployErrands :: "Plan \<Rightarrow> Errand list" where
  "PostDeployErrands p =
     (case plan_LifecycleErrands p of None \<Rightarrow> [] | Some l \<Rightarrow> map (\<lambda>e. e) (PostDeploy l))"

definition PreDeleteErrands :: "Plan \<Rightarrow> Errand list" where
  "PreDeleteErrands p =
     (case plan_LifecycleErrands p of None \<Rightarrow> [] | Some l \<Rightarrow> map (\<lambda>e. e) (PreDelete l))"

fun HasLifecycleErrands_plans :: "Plan list \<Rightarrow> bool" where
  "HasLifecycleErrands_plans [] = False"
| "HasLifecycleErrands_plans (p # ps) =
     (case plan_LifecycleErrands p of
        None \<Rightarrow> HasLifecycleErrands_plans ps
      | Some l \<Rightarrow> if 0 < length (PostDeploy l) \<or> 0 < length (PreDelete l) then True
                  else HasLifecycleErrands_plans ps)"

definition HasLifecycleErrands :: "ServiceOffering \<Rightarrow> bool" where
  "HasLifecycleErrands s = HasLifecycleErrands_plans (off_Plans s)"

text \<open>A write to a Go map that has no significant order: the value of an existing key is replaced.\<close>

fun map_set :: "string \<Rightarrow> 'v \<Rightarrow> (string \<times> 'v) list \<Rightarrow> (string \<times> 'v) list" where
  "map_set k v [] = [(k, v)]"
| "map_set k v ((k', v') # m) = (if k = k' then (k, v) # m else (k', v') # map_set k v m)"

definition copy_map :: "(string \<times> 'v) list \<Rightarrow> (string \<times> 'v) list \<Rightarrow> (string \<times> 'v) list" where
  "copy_map dst src = foldl (\<lambda>m (k, v). map_set k v m) dst src"

definition mergeProperties :: "(string \<times> json) list \<Rightarrow> (string \<times> json) list \<Rightarrow> (string \<times> json) list" where
  "mergeProperties planProperties globalProperties = copy_map (copy_map [] globalProperties) planProperties"

text \<open>The service adapter's view of a plan (\<open>serviceadapter.Plan\<close>)\<close>

record AdapterPlanT =
  ap_Properties :: "(string \<times> json) list"
  ap_InstanceGroups :: "json list"
  ap_Update :: "json option"
  ap_LifecycleErrands :: LifecycleErrands

definition AdapterPlan :: "Plan \<Rightarrow> (string \<times> json) list \<Rightarrow> AdapterPlanT" where
  "AdapterPlan p globalProperties = \<lparr>
     ap_Properties = mergeProperties (plan_Properties p) globalProperties,
     ap_InstanceGroups = plan_InstanceGroups p,
     ap_Update = plan_Update p,
     ap_LifecycleErrands = (case plan_LifecycleErrands p of
        None \<Rightarrow> \<lparr> PostDeploy = [], PreDelete = [] \<rparr> | Some l \<Rightarrow> l) \<rparr>"

section \<open>Validation of the errand instances\<close>

text \<open>\<open>strings.Split(s, "/")\<close>\<close>

fun split_slash :: "string \<Rightarrow> string list" where
  "split_slash [] = [[]]"
| "split_slash (c # cs) =
     (if c = CHR ''/'' then [] # split_slash cs
      else (case split_slash cs of [] \<Rightarrow> [[c]] | w # ws \<Rightarrow> (c # w) # ws))"

definition instanceFormatError :: "string \<Rightarrow> gerr" where
  "instanceFormatError n = ErrorString (''Must specify pool or instance '' @ [CHR 0x27] @ n @ [CHR 0x27]
     @ '' in format '' @ [CHR 0x27] @ ''name'' @ [CHR 0x27] @ '' or '' @ [CHR 0x27] @ ''name/id-or-index'' @ [CHR 0x27])"

fun validateLifecycleErrands :: "string list \<Rightarrow> gerr option" where
  "validateLifecycleErrands [] = None"
| "validateLifecycleErrands (n # ns) =
     (let pieces = split_slash n in
      if length pieces \<noteq> 1 \<and> length pieces \<noteq> 2 then Some (instanceFormatError n)
      else if length (pieces ! 0) = 0 then Some (instanceFormatError n)
      else if length pieces = 2 \<and> length (pieces ! 1) = 0 then Some (instanceFormatError n)
      else validateLifecycleErrands ns)"

fun first_error :: "('a \<Rightarrow> gerr option) \<Rightarrow> 'a list \<Rightarrow> gerr option" where
  "first_error f [] = None"
| "first_error f (x # xs) = (case f x of Some e \<Rightarrow> Some e | None \<Rightarrow> first_error f xs)"

definition validatePlanErrands :: "Plan \<Rightarrow> gerr option" where
  "validatePlanErrands p = (case plan_LifecycleErrands p of
      None \<Rightarrow> None
    | Some l \<Rightarrow> (case first_error (\<lambda>e. validateLifecycleErrands (errand_Instances e)) (PostDeploy l) of
        Some e \<Rightarrow> Some e
      | None \<Rightarrow> first_error (\<lambda>e. validateLifecycleErrands (errand_Instances e)) (PreDelete l)))"

definition ServiceOffering_Validate :: "ServiceOffering \<Rightarrow> gerr option" where
  "ServiceOffering_Validate s = first_error validatePlanErrands (off_Plans s)"

section \<open>Facts\<close>

lemma FindByID_found: "FindByID ps i = (p, True) \<Longrightarrow> p \<in> set ps \<and> plan_ID p = i"
  by (induction ps) (auto split: if_splits)

lemma FindByID_not_found: "FindByID ps i = (p, False) \<Longrightarrow> p = zeroPlan \<and> i \<notin> plan_ID ` set ps"
  by (induction ps) (auto split: if_splits)

lemma map_of_map_set: "map_of (map_set k v m) = (map_of m)(k \<mapsto> v)"
  by (induction k v m rule: map_set.induct) (auto simp: fun_eq_iff)

lemma keys_map_set: "set (map fst (map_set k v m)) = insert k (set (map fst m))"
  by (induction k v m rule: map_set.induct) auto

lemma distinct_map_set: "distinct (map fst m) \<Longrightarrow> distinct (map fst (map_set k v m))"
  by (induction k v m rule: map_set.induct) (simp_all add: keys_map_set del: set_map)

lemma copy_map_Cons: "copy_map dst ((k, v) # src) = copy_map (map_set k v dst) src"
  by (simp add: copy_map_def)

lemma copy_map_Nil [simp]: "copy_map dst [] = dst"
  by (simp add: copy_map_def)

lemma map_of_copy_map: "distinct (map fst src) \<Longrightarrow> map_of (copy_map dst src) = map_of dst ++ map_of src"
proof (induction src arbitrary: dst)
  case Nil
  then show ?case by simp
next
  case (Cons kv src)
  obtain k v where kv: "kv = (k, v)" by force
  from Cons have "map_of (copy_map (map_set k v dst) src) = (map_of dst)(k \<mapsto> v) ++ map_of src"
    by (simp add: map_of_map_set)
  moreover from Cons.prems kv have "k \<notin> dom (map_of src)" by (simp add: dom_map_of_conv_image_fst)
  ultimately show ?case by (auto simp: kv copy_map_Cons fun_eq_iff map_add_def domIff split: option.splits)
qed

lemma split_slash_nonempty [simp]: "split_slash s \<noteq> []"
  by (induction s) (auto split: list.splits)

lemma split_slash_length: "length (split_slash s) = Suc (count_list s (CHR ''/''))"
  by (induction s) (auto split: list.splits)

lemma first_error_None: "first_error f xs = None \<longleftrightarrow> (\<forall>x\<in>set xs. f x = None)"
  by (induction xs) (auto split: option.splits)

end
