(* ===== verification/Domain.thy ===== *)
theory Domain
  imports Config
begin

text \<open>
  The values that cross the broker's interfaces: the Open Service Broker types of the vendored
  \<open>brokerapi/domain\<close> package, BOSH tasks (\<open>boshdirector/task.go\<close>, \<open>boshdirector/tasks.go\<close>), the
  operation data the broker hands to the platform and gets back when it is polled
  (\<open>broker/broker.go\<close>), and the JSON conversions of \<open>broker/broker_helpers.go\<close>.

  A JSON document on the wire is a value of \<open>wire\<close>: absent or empty, text that does not parse,
  or the tree it parses to.  The text layer of \<open>encoding/json\<close> is not modelled; the struct
  layer (tags, \<open>omitempty\<close>, case-insensitive keys, \<open>null\<close>) is.
\<close>

datatype wire = WEmpty | WMalformed string | WJson json

section \<open>Maintenance information\<close>

text \<open>A nil map and an empty map differ for \<open>reflect.DeepEqual\<close>: \<open>None\<close> is nil.\<close>

record MaintenanceInfo =
  mi_Public :: "smap option"
  mi_Private :: string
  mi_Version :: string
  mi_Description :: string

definition smap_equal :: "smap \<Rightarrow> smap \<Rightarrow> bool" where
  "smap_equal m n \<longleftrightarrow>
     list_all (\<lambda>(k, _). map_of m k = map_of n k) m \<and> list_all (\<lambda>(k, _). map_of n k = map_of m k) n"

definition DeepEqual_map :: "smap option \<Rightarrow> smap option \<Rightarrow> bool" where
  "DeepEqual_map a b = (case (a, b) of
      (None, None) \<Rightarrow> True
    | (Some m, Some n) \<Rightarrow> smap_equal m n
    | _ \<Rightarrow> False)"

definition MaintenanceInfo_Equals :: "MaintenanceInfo \<Rightarrow> MaintenanceInfo \<Rightarrow> bool" where
  "MaintenanceInfo_Equals m input \<longleftrightarrow>
     mi_Version m = mi_Version input \<and> mi_Private m = mi_Private input
     \<and> DeepEqual_map (mi_Public m) (mi_Public input)"

lemma smap_equal_iff: "smap_equal m n \<longleftrightarrow> map_of m = map_of n"
proof
  assume eq: "smap_equal m n"
  show "map_of m = map_of n"
  proof
    fix k
    show "map_of m k = map_of n k"
    proof (cases "map_of m k")
      case (Some v)
      then have "(k, v) \<in> set m" by (rule map_of_SomeD)
      with eq show ?thesis by (auto simp: smap_equal_def list_all_iff)
    next
      case None
      show ?thesis
      proof (cases "map_of n k")
        case (Some v)
        then have "(k, v) \<in> set n" by (rule map_of_SomeD)
        with eq show ?thesis by (auto simp: smap_equal_def list_all_iff)
      qed (simp add: None)
    qed
  qed
qed (simp add: smap_equal_def list_all_iff)

lemma DeepEqual_map_refl [simp]: "DeepEqual_map a a"
  by (simp add: DeepEqual_map_def smap_equal_iff split: option.splits)

lemma DeepEqual_map_iff: "DeepEqual_map a b \<longleftrightarrow> map_option map_of a = map_option map_of b"
  by (auto simp: DeepEqual_map_def smap_equal_iff split: option.splits)

lemma MaintenanceInfo_Equals_refl [simp]: "MaintenanceInfo_Equals m m"
  by (simp add: MaintenanceInfo_Equals_def)

lemma MaintenanceInfo_Equals_sym: "MaintenanceInfo_Equals m n \<longleftrightarrow> MaintenanceInfo_Equals n m"
  by (auto simp: MaintenanceInfo_Equals_def DeepEqual_map_iff)

lemma MaintenanceInfo_Equals_trans:
  "MaintenanceInfo_Equals m n \<Longrightarrow> MaintenanceInfo_Equals n k \<Longrightarrow> MaintenanceInfo_Equals m k"
  by (auto simp: MaintenanceInfo_Equals_def DeepEqual_map_iff)

section \<open>Catalog\<close>

record ServiceSchemas =
  schema_InstanceCreate :: "(string \<times> json) list"
  schema_InstanceUpdate :: "(string \<times> json) list"
  schema_BindingCreate :: "(string \<times> json) list"

record ServicePlan =
  sp_ID :: string
  sp_Name :: string
  sp_Description :: string
  sp_Free :: "bool option"
  sp_Bindable :: "bool option"
  sp_Metadata :: PlanMetadata
  sp_MaintenanceInfo :: "MaintenanceInfo option"
  sp_Schemas :: "ServiceSchemas option"

record Service =
  svc_ID :: string
  svc_Name :: string
  svc_Description :: string
  svc_Bindable :: bool
  svc_PlanUpdatable :: bool
  svc_Plans :: "ServicePlan list"
  svc_Metadata :: ServiceMetadata
  svc_DashboardClient :: "DashboardClient option"
  svc_Requires :: "string list"
  svc_Tags :: "string list"

section \<open>Requests and their answers\<close>

record ProvisionDetails =
  pd_ServiceID :: string
  pd_PlanID :: string
  pd_OrganizationGUID :: string
  pd_SpaceGUID :: string
  pd_RawContext :: wire
  pd_RawParameters :: wire
  pd_MaintenanceInfo :: "MaintenanceInfo option"

record PreviousValues =
  pv_PlanID :: string
  pv_ServiceID :: string
  pv_OrgID :: string
  pv_SpaceID :: string
  pv_MaintenanceInfo :: "MaintenanceInfo option"

record UpdateDetails =
  ud_ServiceID :: string
  ud_PlanID :: string
  ud_RawParameters :: wire
  ud_PreviousValues :: PreviousValues
  ud_RawContext :: wire
  ud_MaintenanceInfo :: "MaintenanceInfo option"

record BindResource =
  br_AppGuid :: string
  br_SpaceGuid :: string
  br_Route :: string
  br_CredentialClientID :: string
  br_BackupAgent :: bool

record BindDetails =
  bd_AppGUID :: string
  bd_PlanID :: string
  bd_ServiceID :: string
  bd_BindResource :: "BindResource option"
  bd_RawContext :: wire
  bd_RawParameters :: wire

record UnbindDetails =
  ubd_PlanID :: string
  ubd_ServiceID :: string

record DeprovisionDetails =
  dd_PlanID :: string
  dd_ServiceID :: string
  dd_Force :: bool

record ProvisionedServiceSpec =
  pss_IsAsync :: bool
  pss_OperationData :: wire
  pss_DashboardURL :: string
  pss_Labels :: "(string \<times> json) list"

record UpdateServiceSpec =
  uss_IsAsync :: bool
  uss_OperationData :: wire
  uss_DashboardURL :: string
  uss_Labels :: "(string \<times> json) list"

record DeprovisionServiceSpec =
  dss_IsAsync :: bool
  dss_OperationData :: wire

record Binding =
  bind_Credentials :: "(string \<times> json) list"
  bind_SyslogDrainURL :: string
  bind_RouteServiceURL :: string
  bind_BackupAgentURL :: "string"

datatype LastOperationState = InProgress | Succeeded | Failed

record LastOperation =
  lo_State :: LastOperationState
  lo_Description :: string

record Instance =
  inst_GUID :: string
  inst_PlanUniqueID :: string
  inst_SpaceGUID :: string

section \<open>BOSH tasks\<close>

record BoshTask =
  task_ID :: int
  task_State :: string
  task_Description :: string
  task_Result :: string
  task_ContextID :: string

datatype TaskStateType = TaskComplete | TaskIncomplete | TaskFailed | TaskUnknown

definition StateType :: "BoshTask \<Rightarrow> TaskStateType" where
  "StateType t =
     (if task_State t = ''done'' then TaskComplete
      else if task_State t = ''processing'' \<or> task_State t = ''queued'' \<or> task_State t = ''cancelling''
        then TaskIncomplete
      else if task_State t = ''cancelled'' \<or> task_State t = ''error'' \<or> task_State t = ''timeout''
        then TaskFailed
      else TaskUnknown)"

fun findTasksInStates :: "BoshTask list \<Rightarrow> TaskStateType \<Rightarrow> BoshTask list" where
  "findTasksInStates [] _ = []"
| "findTasksInStates (t # ts) st =
     (if StateType t = st then t # findTasksInStates ts st else findTasksInStates ts st)"

definition IncompleteTasks :: "BoshTask list \<Rightarrow> BoshTask list" where
  "IncompleteTasks ts = findTasksInStates ts TaskIncomplete"

definition FailedTasks :: "BoshTask list \<Rightarrow> BoshTask list" where
  "FailedTasks ts = findTasksInStates ts TaskFailed"

definition DoneTasks :: "BoshTask list \<Rightarrow> BoshTask list" where
  "DoneTasks ts = findTasksInStates ts TaskComplete"

definition AllTasksAreDone :: "BoshTask list \<Rightarrow> bool" where
  "AllTasksAreDone ts \<longleftrightarrow> length (DoneTasks ts) = length ts"

lemma findTasksInStates_filter: "findTasksInStates ts st = filter (\<lambda>t. StateType t = st) ts"
  by (induction ts) auto

lemma AllTasksAreDone_iff: "AllTasksAreDone ts \<longleftrightarrow> (\<forall>t\<in>set ts. StateType t = TaskComplete)"
proof -
  have "length (filter P xs) = length xs \<longleftrightarrow> (\<forall>x\<in>set xs. P x)" for P and xs :: "BoshTask list"
  proof (induction xs)
    case (Cons x xs)
    have "length (filter P xs) < Suc (length xs)" by (simp add: le_imp_less_Suc)
    then have "length (filter P xs) \<noteq> Suc (length xs)" by (rule less_imp_neq)
    with Cons show ?case by auto
  qed simp
  then show ?thesis by (simp add: AllTasksAreDone_def DoneTasks_def findTasksInStates_filter)
qed

section \<open>Operation data\<close>

datatype OperationType =
    OperationTypeCreate | OperationTypeUpdate | OperationTypeUpgrade | OperationTypeRecreate
  | OperationTypeDelete | OperationTypeForceDelete | OperationTypeBind | OperationTypeUnbind
  | OtherOperationType string

fun operationTypeString :: "OperationType \<Rightarrow> string" where
  "operationTypeString OperationTypeCreate = ''create''"
| "operationTypeString OperationTypeUpdate = ''update''"
| "operationTypeString OperationTypeUpgrade = ''upgrade''"
| "operationTypeString OperationTypeRecreate = ''recreate''"
| "operationTypeString OperationTypeDelete = ''delete''"
| "operationTypeString OperationTypeForceDelete = ''force-delete''"
| "operationTypeString OperationTypeBind = ''bind''"
| "operationTypeString OperationTypeUnbind = ''unbind''"
| "operationTypeString (OtherOperationType s) = s"

definition operationTypeOf :: "string \<Rightarrow> OperationType" where
  "operationTypeOf s =
     (if s = ''create'' then OperationTypeCreate else if s = ''update'' then OperationTypeUpdate
      else if s = ''upgrade'' then OperationTypeUpgrade else if s = ''recreate'' then OperationTypeRecreate
      else if s = ''delete'' then OperationTypeDelete else if s = ''force-delete'' then OperationTypeForceDelete
      else if s = ''bind'' then OperationTypeBind else if s = ''unbind'' then OperationTypeUnbind
      else OtherOperationType s)"

text \<open>\<open>OtherOperationType\<close> stands for the strings that are none of the named constants.\<close>

definition wf_operationType :: "OperationType \<Rightarrow> bool" where
  "wf_operationType ty \<longleftrightarrow> operationTypeOf (operationTypeString ty) = ty"

lemma operationTypeString_of [simp]: "operationTypeString (operationTypeOf s) = s"
  by (simp add: operationTypeOf_def)

lemma operationTypeOf_wf [simp]: "wf_operationType (operationTypeOf s)"
  by (simp add: wf_operationType_def)

record OperationData =
  od_BoshTaskID :: int
  od_BoshContextID :: string
  od_OperationType :: OperationType
  od_PlanID :: string
  od_PostDeployErrand :: Errand
  od_PreDeleteErrand :: Errand
  od_Errands :: "Errand list"

definition zeroErrand :: Errand where
  "zeroErrand = \<lparr> errand_Name = '''', errand_Instances = [] \<rparr>"

definition zeroOperationData :: OperationData where
  "zeroOperationData = \<lparr> od_BoshTaskID = 0, od_BoshContextID = '''',
     od_OperationType = OtherOperationType '''', od_PlanID = '''',
     od_PostDeployErrand = zeroErrand, od_PreDeleteErrand = zeroErrand, od_Errands = [] \<rparr>"

definition omitempty_str :: "string \<Rightarrow> string \<Rightarrow> (string \<times> json) list" where
  "omitempty_str k s = (if s = '''' then [] else [(k, JStr s)])"

definition omitempty_strs :: "string \<Rightarrow> string list \<Rightarrow> (string \<times> json) list" where
  "omitempty_strs k ss = (if ss = [] then [] else [(k, JArr (map JStr ss))])"

text \<open>\<open>PostDeployErrand\<close> and \<open>PreDeleteErrand\<close>: both fields carry \<open>omitempty\<close>.\<close>

definition marshalOldErrand :: "Errand \<Rightarrow> json" where
  "marshalOldErrand e = JObj (omitempty_str ''Name'' (errand_Name e)
     @ omitempty_strs ''Instances'' (errand_Instances e))"

text \<open>\<open>config.Errand\<close> has no tags: a nil slice is rendered as \<open>null\<close>.\<close>

definition marshalErrand :: "Errand \<Rightarrow> json" where
  "marshalErrand e = JObj [(''Name'', JStr (errand_Name e)),
     (''Instances'', if errand_Instances e = [] then JNull else JArr (map JStr (errand_Instances e)))]"

definition marshalOperationData :: "OperationData \<Rightarrow> json" where
  "marshalOperationData d = JObj
     ([(''BoshTaskID'', JNum (od_BoshTaskID d))]
      @ omitempty_str ''BoshContextID'' (od_BoshContextID d)
      @ [(''OperationType'', JStr (operationTypeString (od_OperationType d)))]
      @ omitempty_str ''PlanID'' (od_PlanID d)
      @ [(''PostDeployErrand'', marshalOldErrand (od_PostDeployErrand d)),
         (''PreDeleteErrand'', marshalOldErrand (od_PreDeleteErrand d))]
      @ (if od_Errands d = [] then [] else [(''Errands'', JArr (map marshalErrand (od_Errands d)))]))"

text \<open>Decoding: keys match their field without regard to case, \<open>null\<close> leaves the field alone.\<close>

definition lower :: "char \<Rightarrow> char" where
  "lower c = (let n = of_char c :: nat in if 65 \<le> n \<and> n \<le> 90 then char_of (n + 32) else c)"

definition key_is :: "string \<Rightarrow> string \<Rightarrow> bool" where
  "key_is k field \<longleftrightarrow> map lower k = map lower field"

definition typeError :: "string \<Rightarrow> gerr" where
  "typeError field = ErrorString (''json: cannot unmarshal value into Go struct field '' @ field)"

fun decodeStr :: "string \<Rightarrow> json \<Rightarrow> string \<Rightarrow> gerr + string" where
  "decodeStr f JNull old = Inr old"
| "decodeStr f (JStr s) old = Inr s"
| "decodeStr f _ old = Inl (typeError f)"

fun decodeInt :: "string \<Rightarrow> json \<Rightarrow> int \<Rightarrow> gerr + int" where
  "decodeInt f JNull old = Inr old"
| "decodeInt f (JNum n) old = (if in_int64 n then Inr n else Inl (typeError f))"
| "decodeInt f _ old = Inl (typeError f)"

fun decodeStrs :: "string \<Rightarrow> json list \<Rightarrow> gerr + string list" where
  "decodeStrs f [] = Inr []"
| "decodeStrs f (j # js) = (case decodeStr f j '''' of Inl e \<Rightarrow> Inl e
     | Inr s \<Rightarrow> (case decodeStrs f js of Inl e \<Rightarrow> Inl e | Inr ss \<Rightarrow> Inr (s # ss)))"

fun decodeStrSlice :: "string \<Rightarrow> json \<Rightarrow> string list \<Rightarrow> gerr + string list" where
  "decodeStrSlice f JNull old = Inr []"
| "decodeStrSlice f (JArr js) old = decodeStrs f js"
| "decodeStrSlice f _ old = Inl (typeError f)"

fun decodeErrandFields :: "(string \<times> json) list \<Rightarrow> Errand \<Rightarrow> gerr + Errand" where
  "decodeErrandFields [] e = Inr e"
| "decodeErrandFields ((k, j) # kvs) e =
     (if key_is k ''Name'' then
        (case decodeStr k j (errand_Name e) of Inl er \<Rightarrow> Inl er
         | Inr s \<Rightarrow> decodeErrandFields kvs (e\<lparr>errand_Name := s\<rparr>))
      else if key_is k ''Instances'' then
        (case decodeStrSlice k j (errand_Instances e) of Inl er \<Rightarrow> Inl er
         | Inr ss \<Rightarrow> decodeErrandFields kvs (e\<lparr>errand_Instances := ss\<rparr>))
      else decodeErrandFields kvs e)"

fun decodeErrand :: "string \<Rightarrow> json \<Rightarrow> Errand \<Rightarrow> gerr + Errand" where
  "decodeErrand f JNull old = Inr old"
| "decodeErrand f (JObj kvs) old = decodeErrandFields kvs old"
| "decodeErrand f _ old = Inl (typeError f)"

fun decodeErrands :: "string \<Rightarrow> json list \<Rightarrow> gerr + Errand list" where
  "decodeErrands f [] = Inr []"
| "decodeErrands f (j # js) = (case decodeErrand f j zeroErrand of Inl e \<Rightarrow> Inl e
     | Inr x \<Rightarrow> (case decodeErrands f js of Inl e \<Rightarrow> Inl e | Inr xs \<Rightarrow> Inr (x # xs)))"

fun decodeErrandSlice :: "string \<Rightarrow> json \<Rightarrow> gerr + Errand list" where
  "decodeErrandSlice f JNull = Inr []"
| "decodeErrandSlice f (JArr js) = decodeErrands f js"
| "decodeErrandSlice f _ = Inl (typeError f)"

fun decodeOperationFields :: "(string \<times> json) list \<Rightarrow> OperationData \<Rightarrow> gerr + OperationData" where
  "decodeOperationFields [] d = Inr d"
| "decodeOperationFields ((k, j) # kvs) d =
     (if key_is k ''BoshTaskID'' then
        (case decodeInt k j (od_BoshTaskID d) of Inl er \<Rightarrow> Inl er
         | Inr n \<Rightarrow> decodeOperationFields kvs (d\<lparr>od_BoshTaskID := n\<rparr>))
      else if key_is k ''BoshContextID'' then
        (case decodeStr k j (od_BoshContextID d) of Inl er \<Rightarrow> Inl er
         | Inr s \<Rightarrow> decodeOperationFields kvs (d\<lparr>od_BoshContextID := s\<rparr>))
      else if key_is k ''OperationType'' then
        (case decodeStr k j (operationTypeString (od_OperationType d)) of Inl er \<Rightarrow> Inl er
         | Inr s \<Rightarrow> decodeOperationFields kvs (d\<lparr>od_OperationType := operationTypeOf s\<rparr>))
      else if key_is k ''PlanID'' then
        (case decodeStr k j (od_PlanID d) of Inl er \<Rightarrow> Inl er
         | Inr s \<Rightarrow> decodeOperationFields kvs (d\<lparr>od_PlanID := s\<rparr>))
      else if key_is k ''PostDeployErrand'' then
        (case decodeErrand k j (od_PostDeployErrand d) of Inl er \<Rightarrow> Inl er
         | Inr e \<Rightarrow> decodeOperationFields kvs (d\<lparr>od_PostDeployErrand := e\<rparr>))
      else if key_is k ''PreDeleteErrand'' then
        (case decodeErrand k j (od_PreDeleteErrand d) of Inl er \<Rightarrow> Inl er
         | Inr e \<Rightarrow> decodeOperationFields kvs (d\<lparr>od_PreDeleteErrand := e\<rparr>))
      else if key_is k ''Errands'' then
        (case decodeErrandSlice k j of Inl er \<Rightarrow> Inl er
         | Inr es \<Rightarrow> decodeOperationFields kvs (d\<lparr>od_Errands := es\<rparr>))
      else decodeOperationFields kvs d)"

text \<open>\<open>json.Unmarshal(raw, &operationData)\<close> into a zero value\<close>

definition unmarshalOperationData :: "wire \<Rightarrow> gerr + OperationData" where
  "unmarshalOperationData w = (case w of
      WEmpty \<Rightarrow> Inl (ErrorString ''unexpected end of JSON input'')
    | WMalformed m \<Rightarrow> Inl (ErrorString m)
    | WJson JNull \<Rightarrow> Inr zeroOperationData
    | WJson (JObj kvs) \<Rightarrow> decodeOperationFields kvs zeroOperationData
    | WJson _ \<Rightarrow> Inl (typeError ''OperationData''))"

section \<open>Operation data survives the trip through the platform\<close>

lemma decodeStrs_map [simp]: "decodeStrs f (map JStr ss) = Inr ss"
  by (induction ss) simp_all

lemma decodeErrand_marshalErrand: "decodeErrand f (marshalErrand e) zeroErrand = Inr e"
  by (cases e) (simp add: marshalErrand_def zeroErrand_def key_is_def lower_def)

lemma decodeErrand_marshalOldErrand: "decodeErrand f (marshalOldErrand e) zeroErrand = Inr e"
  by (cases e) (simp add: marshalOldErrand_def zeroErrand_def key_is_def lower_def
      omitempty_str_def omitempty_strs_def)

lemma decodeErrands_map [simp]: "decodeErrands f (map marshalErrand es) = Inr es"
  by (induction es) (simp_all add: decodeErrand_marshalErrand)

lemma operationData_decode:
  assumes "in_int64 (od_BoshTaskID d)" and "wf_operationType (od_OperationType d)"
  shows "unmarshalOperationData (WJson (marshalOperationData d)) = Inr d"
  using assms
  by (cases d) (simp add: unmarshalOperationData_def marshalOperationData_def zeroOperationData_def
      omitempty_str_def key_is_def lower_def wf_operationType_def decodeErrand_marshalOldErrand)

lemma operationData_decode_task:
  "unmarshalOperationData (WJson (marshalOperationData d)) = Inr d' \<Longrightarrow> in_int64 (od_BoshTaskID d)"
  by (cases d) (simp add: unmarshalOperationData_def marshalOperationData_def key_is_def lower_def
      split: if_splits)

text \<open>
  C30.  The operation data the broker returns to the platform when it accepts a request is what
  it gets back when it is polled: decoding the encoded record gives the record, with every
  field the encoder omits restored to its zero value.  The task id has to be a 64-bit integer
  and the operation type one the string constants name unambiguously.
\<close>

theorem operationData_roundtrip:
  assumes "in_int64 (od_BoshTaskID d)" and "wf_operationType (od_OperationType d)"
  shows "unmarshalOperationData (WJson (marshalOperationData d)) = Inr d"
  by (rule operationData_decode [OF assms])

theorem operationData_roundtrip_witness:
  "unmarshalOperationData (WJson (marshalOperationData
     (zeroOperationData\<lparr>od_BoshTaskID := 42, od_OperationType := OperationTypeDelete,
        od_Errands := [\<lparr>errand_Name = ''drain'', errand_Instances = [''vm/0'']\<rparr>]\<rparr>)))
   = Inr (zeroOperationData\<lparr>od_BoshTaskID := 42, od_OperationType := OperationTypeDelete,
        od_Errands := [\<lparr>errand_Name = ''drain'', errand_Instances = [''vm/0'']\<rparr>]\<rparr>)"
  by (rule operationData_roundtrip)
     (simp_all add: in_int64_def wf_operationType_def operationTypeOf_def)

end
