(* ===== verification/World.thy ===== *)
theory World
  imports Domain
begin

text \<open>
  The broker's surroundings.  \<open>event\<close> lists the calls the broker makes through its interfaces
  (\<open>BoshClient\<close>, \<open>CloudFoundryClient\<close>, \<open>UAAClient\<close>, \<open>ServiceAdapterClient\<close>,
  \<open>ManifestSecretManager\<close>, \<open>BulkSetter\<close>, \<open>InstanceLister\<close>, \<open>TelemetryLogger\<close>, the mutexes and
  the generator of random identifiers), each with the answer it got; \<open>env\<close> holds one oracle per
  call.  The pure parameters at the end of \<open>env\<close> stand for libraries: the YAML parser of
  manifests, the JSON-schema validator, the text of a JSON document, the \<open>%s\<close> rendering of a
  value, the SHA-256 digest.  Logging is not recorded.
\<close>

record CFServicePlan =
  cfsp_GUID :: string
  cfsp_UniqueID :: string
  cfsp_Name :: string

record Variable =
  var_Path :: string
  var_ID :: string

record BoshConfig =
  bc_Type :: string
  bc_Name :: string
  bc_Content :: string

record ManifestSecret =
  ms_Name :: string
  ms_Path :: string
  ms_Value :: json

text \<open>The arguments of the adapter's \<open>GenerateManifest\<close> and its answer\<close>

record ManifestRequest =
  mr_DeploymentName :: string
  mr_Releases :: json
  mr_Stemcells :: json
  mr_Plan :: AdapterPlanT
  mr_RequestParams :: "(string \<times> json) list"
  mr_PreviousManifest :: string
  mr_PreviousPlan :: "AdapterPlanT option"
  mr_SecretsMap :: smap
  mr_PreviousConfigs :: smap
  mr_UAAClient :: "smap option"

record GeneratedManifest =
  gm_Manifest :: string
  gm_ODBManagedSecrets :: "(string \<times> json) list"
  gm_Configs :: smap
  gm_Labels :: "(string \<times> json) list"

text \<open>A parsed BOSH manifest: the update blocks and everything else\<close>

record InstanceGroup =
  ig_Update :: "json option"
  ig_Rest :: json

record BoshManifest =
  bm_Update :: "json option"
  bm_InstanceGroups :: "InstanceGroup list"
  bm_Rest :: json

datatype event =
    LockDeployment | UnlockDeployment | LockBind | UnlockBind | LockCatalog | UnlockCatalog
  | NewUUID string
  | BoshGetInfo "gerr + unit"
  | BoshGetDeployment string "gerr + (string \<times> bool)"
  | BoshGetDeployments "gerr + string list"
  | BoshVMs string "gerr + json"
  | BoshVariables string "Variable list \<times> gerr option"
  | BoshGetTask int "gerr + BoshTask"
  | BoshTasksInProgress string "gerr + BoshTask list"
  | BoshTasksByContext string string "gerr + BoshTask list"
  | BoshDeleteDeployment string string bool "gerr + int"
  | BoshRunErrand string string "string list" string "gerr + int"
  | BoshGetDNSAddresses string "BindingDNS list" "gerr + smap"
  | BoshDeploy string string "gerr + int"
  | BoshRecreate string string "gerr + int"
  | BoshGetConfigs string "gerr + BoshConfig list"
  | BoshUpdateConfig string string string "gerr + unit"
  | BoshDeleteConfigs string "gerr + unit"
  | CFCountInstances string "gerr + (CFServicePlan \<times> int) list"
  | ListInstances smap "gerr + Instance list"
  | UAACreateClient string string string "gerr + smap option"
  | UAAUpdateClient string string string "gerr + smap option"
  | UAADeleteClient string "gerr + unit"
  | UAAGetClient string "gerr + smap option"
  | AdapterGenerateManifest ManifestRequest "gerr + GeneratedManifest"
  | AdapterDashboardUrl string AdapterPlanT string "string \<times> gerr option"
  | AdapterCreateBinding string json string "(string \<times> json) list" smap smap "gerr + Binding"
  | AdapterDeleteBinding string json string "(string \<times> json) list" smap smap "gerr + unit"
  | AdapterPlanSchema AdapterPlanT "gerr + ServiceSchemas"
  | ResolveManifestSecrets string "Variable list" "smap \<times> gerr option"
  | DeleteSecretsForInstance string "gerr + unit"
  | BulkSet "ManifestSecret list" "gerr + unit"
  | TelemetryLogInstances string

type_synonym history = "event list"

record env =
  o_UUID :: "history \<Rightarrow> string"
  o_GetInfo :: "history \<Rightarrow> gerr + unit"
  o_GetDeployment :: "history \<Rightarrow> string \<Rightarrow> gerr + (string \<times> bool)"
  o_GetDeployments :: "history \<Rightarrow> gerr + string list"
  o_VMs :: "history \<Rightarrow> string \<Rightarrow> gerr + json"
  o_Variables :: "history \<Rightarrow> string \<Rightarrow> Variable list \<times> gerr option"
  o_GetTask :: "history \<Rightarrow> int \<Rightarrow> gerr + BoshTask"
  o_TasksInProgress :: "history \<Rightarrow> string \<Rightarrow> gerr + BoshTask list"
  o_TasksByContext :: "history \<Rightarrow> string \<Rightarrow> string \<Rightarrow> gerr + BoshTask list"
  o_DeleteDeployment :: "history \<Rightarrow> string \<Rightarrow> string \<Rightarrow> bool \<Rightarrow> gerr + int"
  o_RunErrand :: "history \<Rightarrow> string \<Rightarrow> string \<Rightarrow> string list \<Rightarrow> string \<Rightarrow> gerr + int"
  o_GetDNSAddresses :: "history \<Rightarrow> string \<Rightarrow> BindingDNS list \<Rightarrow> gerr + smap"
  o_Deploy :: "history \<Rightarrow> string \<Rightarrow> string \<Rightarrow> gerr + int"
  o_Recreate :: "history \<Rightarrow> string \<Rightarrow> string \<Rightarrow> gerr + int"
  o_GetConfigs :: "history \<Rightarrow> string \<Rightarrow> gerr + BoshConfig list"
  o_UpdateConfig :: "history \<Rightarrow> string \<Rightarrow> string \<Rightarrow> string \<Rightarrow> gerr + unit"
  o_DeleteConfigs :: "history \<Rightarrow> string \<Rightarrow> gerr + unit"
  o_CountInstances :: "history \<Rightarrow> string \<Rightarrow> gerr + (CFServicePlan \<times> int) list"
  o_ListInstances :: "history \<Rightarrow> smap \<Rightarrow> gerr + Instance list"
  o_HasClientDefinition :: bool
  o_CreateClient :: "history \<Rightarrow> string \<Rightarrow> string \<Rightarrow> string \<Rightarrow> gerr + smap option"
  o_UpdateClient :: "history \<Rightarrow> string \<Rightarrow> string \<Rightarrow> string \<Rightarrow> gerr + smap option"
  o_DeleteClient :: "history \<Rightarrow> string \<Rightarrow> gerr + unit"
  o_GetClient :: "history \<Rightarrow> string \<Rightarrow> gerr + smap option"
  o_GenerateManifest :: "history \<Rightarrow> ManifestRequest \<Rightarrow> gerr + GeneratedManifest"
  o_DashboardUrl :: "history \<Rightarrow> string \<Rightarrow> AdapterPlanT \<Rightarrow> string \<Rightarrow> string \<times> gerr option"
  o_CreateBinding :: "history \<Rightarrow> string \<Rightarrow> json \<Rightarrow> string \<Rightarrow> (string \<times> json) list \<Rightarrow> smap \<Rightarrow> smap \<Rightarrow> gerr + Binding"
  o_DeleteBinding :: "history \<Rightarrow> string \<Rightarrow> json \<Rightarrow> string \<Rightarrow> (string \<times> json) list \<Rightarrow> smap \<Rightarrow> smap \<Rightarrow> gerr + unit"
  o_PlanSchema :: "history \<Rightarrow> AdapterPlanT \<Rightarrow> gerr + ServiceSchemas"
  o_ResolveSecrets :: "history \<Rightarrow> string \<Rightarrow> Variable list \<Rightarrow> smap \<times> gerr option"
  o_DeleteSecrets :: "history \<Rightarrow> string \<Rightarrow> gerr + unit"
  o_BulkSet :: "history \<Rightarrow> ManifestSecret list \<Rightarrow> gerr + unit"
  unmarshalManifest :: "string \<Rightarrow> gerr + BoshManifest"
  schemaConforms :: "(string \<times> json) list \<Rightarrow> bool"
  schemaErrors :: "(string \<times> json) list \<Rightarrow> (string \<times> json) list \<Rightarrow> gerr + string list"
  wireText :: "wire \<Rightarrow> string"
  fmtValue :: "json option \<Rightarrow> string"
  sha256hex :: "string \<Rightarrow> string"
  sha256raw :: "string \<Rightarrow> string"

text \<open>The state of the broker process: the history of its calls and the cached catalog\<close>

record bstate = "event gstate" +
  cachedCatalog :: "Service list option"

type_synonym 'a broker_m = "bstate \<Rightarrow> 'a outcome \<times> bstate"

section \<open>The interfaces\<close>

definition uuid_New :: "env \<Rightarrow> string broker_m" where
  [client_defs]: "uuid_New E = ext_call (o_UUID E) NewUUID"

definition bosh_GetInfo :: "env \<Rightarrow> (gerr + unit) broker_m" where
  [client_defs]: "bosh_GetInfo E = ext_call (o_GetInfo E) BoshGetInfo"

definition bosh_GetDeployment :: "env \<Rightarrow> string \<Rightarrow> (gerr + (string \<times> bool)) broker_m" where
  [client_defs]: "bosh_GetDeployment E n = ext_call (\<lambda>h. o_GetDeployment E h n) (BoshGetDeployment n)"

definition bosh_GetDeployments :: "env \<Rightarrow> (gerr + string list) broker_m" where
  [client_defs]: "bosh_GetDeployments E = ext_call (o_GetDeployments E) BoshGetDeployments"

definition bosh_VMs :: "env \<Rightarrow> string \<Rightarrow> (gerr + json) broker_m" where
  [client_defs]: "bosh_VMs E n = ext_call (\<lambda>h. o_VMs E h n) (BoshVMs n)"

definition bosh_Variables :: "env \<Rightarrow> string \<Rightarrow> (Variable list \<times> gerr option) broker_m" where
  [client_defs]: "bosh_Variables E n = ext_call (\<lambda>h. o_Variables E h n) (BoshVariables n)"

definition bosh_GetTask :: "env \<Rightarrow> int \<Rightarrow> (gerr + BoshTask) broker_m" where
  [client_defs]: "bosh_GetTask E t = ext_call (\<lambda>h. o_GetTask E h t) (BoshGetTask t)"

definition bosh_GetTasksInProgress :: "env \<Rightarrow> string \<Rightarrow> (gerr + BoshTask list) broker_m" where
  [client_defs]: "bosh_GetTasksInProgress E n = ext_call (\<lambda>h. o_TasksInProgress E h n) (BoshTasksInProgress n)"

definition bosh_GetNormalisedTasksByContext :: "env \<Rightarrow> string \<Rightarrow> string \<Rightarrow> (gerr + BoshTask list) broker_m" where
  [client_defs]: "bosh_GetNormalisedTasksByContext E n c =
     ext_call (\<lambda>h. o_TasksByContext E h n c) (BoshTasksByContext n c)"

definition bosh_DeleteDeployment :: "env \<Rightarrow> string \<Rightarrow> string \<Rightarrow> bool \<Rightarrow> (gerr + int) broker_m" where
  [client_defs]: "bosh_DeleteDeployment E n c force =
     ext_call (\<lambda>h. o_DeleteDeployment E h n c force) (BoshDeleteDeployment n c force)"

definition bosh_RunErrand :: "env \<Rightarrow> string \<Rightarrow> string \<Rightarrow> string list \<Rightarrow> string \<Rightarrow> (gerr + int) broker_m" where
  [client_defs]: "bosh_RunErrand E n errand insts c =
     ext_call (\<lambda>h. o_RunErrand E h n errand insts c) (BoshRunErrand n errand insts c)"

definition bosh_GetDNSAddresses :: "env \<Rightarrow> string \<Rightarrow> BindingDNS list \<Rightarrow> (gerr + smap) broker_m" where
  [client_defs]: "bosh_GetDNSAddresses E n dns =
     ext_call (\<lambda>h. o_GetDNSAddresses E h n dns) (BoshGetDNSAddresses n dns)"

definition bosh_Deploy :: "env \<Rightarrow> string \<Rightarrow> string \<Rightarrow> (gerr + int) broker_m" where
  [client_defs]: "bosh_Deploy E manifest c = ext_call (\<lambda>h. o_Deploy E h manifest c) (BoshDeploy manifest c)"

definition bosh_Recreate :: "env \<Rightarrow> string \<Rightarrow> string \<Rightarrow> (gerr + int) broker_m" where
  [client_defs]: "bosh_Recreate E n c = ext_call (\<lambda>h. o_Recreate E h n c) (BoshRecreate n c)"

definition bosh_GetConfigs :: "env \<Rightarrow> string \<Rightarrow> (gerr + BoshConfig list) broker_m" where
  [client_defs]: "bosh_GetConfigs E n = ext_call (\<lambda>h. o_GetConfigs E h n) (BoshGetConfigs n)"

definition bosh_UpdateConfig :: "env \<Rightarrow> string \<Rightarrow> string \<Rightarrow> string \<Rightarrow> (gerr + unit) broker_m" where
  [client_defs]: "bosh_UpdateConfig E ty n content =
     ext_call (\<lambda>h. o_UpdateConfig E h ty n content) (BoshUpdateConfig ty n content)"

definition bosh_DeleteConfigs :: "env \<Rightarrow> string \<Rightarrow> (gerr + unit) broker_m" where
  [client_defs]: "bosh_DeleteConfigs E n = ext_call (\<lambda>h. o_DeleteConfigs E h n) (BoshDeleteConfigs n)"

definition cf_CountInstancesOfServiceOffering :: "env \<Rightarrow> string \<Rightarrow> (gerr + (CFServicePlan \<times> int) list) broker_m" where
  [client_defs]: "cf_CountInstancesOfServiceOffering E i =
     ext_call (\<lambda>h. o_CountInstances E h i) (CFCountInstances i)"

definition lister_Instances :: "env \<Rightarrow> smap \<Rightarrow> (gerr + Instance list) broker_m" where
  [client_defs]: "lister_Instances E filters = ext_call (\<lambda>h. o_ListInstances E h filters) (ListInstances filters)"

definition uaa_CreateClient :: "env \<Rightarrow> string \<Rightarrow> string \<Rightarrow> string \<Rightarrow> (gerr + smap option) broker_m" where
  [client_defs]: "uaa_CreateClient E i name space =
     ext_call (\<lambda>h. o_CreateClient E h i name space) (UAACreateClient i name space)"

definition uaa_UpdateClient :: "env \<Rightarrow> string \<Rightarrow> string \<Rightarrow> string \<Rightarrow> (gerr + smap option) broker_m" where
  [client_defs]: "uaa_UpdateClient E i url space =
     ext_call (\<lambda>h. o_UpdateClient E h i url space) (UAAUpdateClient i url space)"

definition uaa_DeleteClient :: "env \<Rightarrow> string \<Rightarrow> (gerr + unit) broker_m" where
  [client_defs]: "uaa_DeleteClient E i = ext_call (\<lambda>h. o_DeleteClient E h i) (UAADeleteClient i)"

definition uaa_GetClient :: "env \<Rightarrow> string \<Rightarrow> (gerr + smap option) broker_m" where
  [client_defs]: "uaa_GetClient E i = ext_call (\<lambda>h. o_GetClient E h i) (UAAGetClient i)"

definition adapter_GenerateManifest :: "env \<Rightarrow> ManifestRequest \<Rightarrow> (gerr + GeneratedManifest) broker_m" where
  [client_defs]: "adapter_GenerateManifest E r =
     ext_call (\<lambda>h. o_GenerateManifest E h r) (AdapterGenerateManifest r)"

definition adapter_GenerateDashboardUrl :: "env \<Rightarrow> string \<Rightarrow> AdapterPlanT \<Rightarrow> string \<Rightarrow> (string \<times> gerr option) broker_m" where
  [client_defs]: "adapter_GenerateDashboardUrl E i p manifest =
     ext_call (\<lambda>h. o_DashboardUrl E h i p manifest) (AdapterDashboardUrl i p manifest)"

definition adapter_CreateBinding :: "env \<Rightarrow> string \<Rightarrow> json \<Rightarrow> string \<Rightarrow> (string \<times> json) list \<Rightarrow> smap \<Rightarrow> smap \<Rightarrow> (gerr + Binding) broker_m" where
  [client_defs]: "adapter_CreateBinding E b vms manifest params secrets dns =
     ext_call (\<lambda>h. o_CreateBinding E h b vms manifest params secrets dns)
       (AdapterCreateBinding b vms manifest params secrets dns)"

definition adapter_DeleteBinding :: "env \<Rightarrow> string \<Rightarrow> json \<Rightarrow> string \<Rightarrow> (string \<times> json) list \<Rightarrow> smap \<Rightarrow> smap \<Rightarrow> (gerr + unit) broker_m" where
  [client_defs]: "adapter_DeleteBinding E b vms manifest params secrets dns =
     ext_call (\<lambda>h. o_DeleteBinding E h b vms manifest params secrets dns)
       (AdapterDeleteBinding b vms manifest params secrets dns)"

definition adapter_GeneratePlanSchema :: "env \<Rightarrow> AdapterPlanT \<Rightarrow> (gerr + ServiceSchemas) broker_m" where
  [client_defs]: "adapter_GeneratePlanSchema E p = ext_call (\<lambda>h. o_PlanSchema E h p) (AdapterPlanSchema p)"

definition secrets_Resolve :: "env \<Rightarrow> string \<Rightarrow> Variable list \<Rightarrow> (smap \<times> gerr option) broker_m" where
  [client_defs]: "secrets_Resolve E manifest vars =
     ext_call (\<lambda>h. o_ResolveSecrets E h manifest vars) (ResolveManifestSecrets manifest vars)"

definition secrets_DeleteForInstance :: "env \<Rightarrow> string \<Rightarrow> (gerr + unit) broker_m" where
  [client_defs]: "secrets_DeleteForInstance E i =
     ext_call (\<lambda>h. o_DeleteSecrets E h i) (DeleteSecretsForInstance i)"

definition bulk_Set :: "env \<Rightarrow> ManifestSecret list \<Rightarrow> (gerr + unit) broker_m" where
  [client_defs]: "bulk_Set E ms = ext_call (\<lambda>h. o_BulkSet E h ms) (BulkSet ms)"

definition telemetry_LogInstances :: "string \<Rightarrow> unit broker_m" where
  [client_defs]: "telemetry_LogInstances operation = emit (TelemetryLogInstances operation)"

section \<open>Classes of events\<close>

text \<open>
  Calls that change a deployment, and calls that change anything outside the broker.  Looking up DNS addresses creates
  consumers of links at BOSH and deletes them again (theory \<open>BoshLinks\<close>).
\<close>

fun changes_deployment :: "event \<Rightarrow> bool" where
  "changes_deployment (BoshDeploy _ _ _) = True"
| "changes_deployment (BoshRecreate _ _ _) = True"
| "changes_deployment (BoshDeleteDeployment _ _ _ _) = True"
| "changes_deployment (BoshRunErrand _ _ _ _ _) = True"
| "changes_deployment _ = False"

fun changes_world :: "event \<Rightarrow> bool" where
  "changes_world (BoshDeploy _ _ _) = True"
| "changes_world (BoshRecreate _ _ _) = True"
| "changes_world (BoshDeleteDeployment _ _ _ _) = True"
| "changes_world (BoshRunErrand _ _ _ _ _) = True"
| "changes_world (BoshUpdateConfig _ _ _ _) = True"
| "changes_world (BoshDeleteConfigs _ _) = True"
| "changes_world (UAACreateClient _ _ _ _) = True"
| "changes_world (UAAUpdateClient _ _ _ _) = True"
| "changes_world (UAADeleteClient _ _) = True"
| "changes_world (AdapterCreateBinding _ _ _ _ _ _ _) = True"
| "changes_world (AdapterDeleteBinding _ _ _ _ _ _ _) = True"
| "changes_world (BoshGetDNSAddresses _ _ _) = True"
| "changes_world (DeleteSecretsForInstance _ _) = True"
| "changes_world (BulkSet _ _) = True"
| "changes_world _ = False"

lemma changes_deployment_changes_world: "changes_deployment e \<Longrightarrow> changes_world e"
  by (cases e) simp_all

fun is_Deploy :: "event \<Rightarrow> bool" where
  "is_Deploy (BoshDeploy _ _ _) = True"
| "is_Deploy _ = False"

section \<open>Locking\<close>

text \<open>
  \<open>locked tr\<close>: every call in \<open>tr\<close> that changes a deployment is made while the deployment
  mutex is held, the mutex is never taken twice and is free at the end.
\<close>

fun locked_from :: "bool \<Rightarrow> event list \<Rightarrow> bool" where
  "locked_from held [] = (\<not> held)"
| "locked_from held (e # es) =
     (if e = LockDeployment then \<not> held \<and> locked_from True es
      else if e = UnlockDeployment then held \<and> locked_from False es
      else (changes_deployment e \<longrightarrow> held) \<and> locked_from held es)"

text \<open>\<open>lock_free tr\<close>: the deployment mutex is not touched.\<close>

definition lock_free :: "event list \<Rightarrow> bool" where
  "lock_free tr \<longleftrightarrow> LockDeployment \<notin> set tr \<and> UnlockDeployment \<notin> set tr"

lemma locked_from_free:
  "lock_free tr \<Longrightarrow> locked_from True (tr @ [UnlockDeployment])"
  by (induction tr) (auto simp: lock_free_def)

lemma lock_free_append [simp]: "lock_free (xs @ ys) \<longleftrightarrow> lock_free xs \<and> lock_free ys"
  by (auto simp: lock_free_def)

end
