(* ===== verification/Requests.thy ===== *)
theory Requests
  imports World
begin

text \<open>
  Turning a request into the map the service adapter gets (\<open>broker/broker_helpers.go\<close>), reading
  the platform context out of that map, and the UAA client of a service instance
  (\<open>broker/service_instance_client.go\<close>).  A Go type assertion that does not hold is a panic.
\<close>

definition InstancePrefix :: string where
  "InstancePrefix = ''service-instance_''"

definition deploymentName :: "string \<Rightarrow> string" where
  "deploymentName instanceID = InstancePrefix @ instanceID"

definition instanceID :: "string \<Rightarrow> string" where
  "instanceID name = trim_prefix name InstancePrefix"

lemma instanceID_deploymentName [simp]: "instanceID (deploymentName i) = i"
  by (simp add: instanceID_def deploymentName_def)

lemma deploymentName_inj: "deploymentName i = deploymentName j \<longleftrightarrow> i = j"
  by (simp add: deploymentName_def)

section \<open>JSON objects\<close>

text \<open>\<open>json.Unmarshal\<close> into a \<open>map[string]interface{}\<close>: the last of two equal keys wins.\<close>

definition unmarshalObject :: "wire \<Rightarrow> gerr + (string \<times> json) list" where
  "unmarshalObject w = (case w of
      WEmpty \<Rightarrow> Inl (ErrorString ''unexpected end of JSON input'')
    | WMalformed m \<Rightarrow> Inl (ErrorString m)
    | WJson (JObj kvs) \<Rightarrow> Inr (copy_map [] kvs)
    | WJson JNull \<Rightarrow> Inr []
    | WJson _ \<Rightarrow> Inl (ErrorString ''json: cannot unmarshal value into Go value of type map[string]interface {}''))"

text \<open>A \<open>json.RawMessage\<close> field with \<open>omitempty\<close>\<close>

definition rawField :: "string \<Rightarrow> wire \<Rightarrow> gerr + (string \<times> json) list" where
  "rawField k w = (case w of
      WEmpty \<Rightarrow> Inr []
    | WMalformed m \<Rightarrow> Inl (ErrorString (''json: error calling MarshalJSON for type json.RawMessage: '' @ m))
    | WJson j \<Rightarrow> Inr [(k, j)])"

definition marshalMaintenanceInfo :: "MaintenanceInfo \<Rightarrow> json" where
  "marshalMaintenanceInfo m = JObj
     ((case mi_Public m of None \<Rightarrow> [] | Some [] \<Rightarrow> []
       | Some kvs \<Rightarrow> [(''public'', JObj (map (\<lambda>(k, v). (k, JStr v)) kvs))])
      @ omitempty_str ''private'' (mi_Private m) @ omitempty_str ''version'' (mi_Version m)
      @ omitempty_str ''description'' (mi_Description m))"

definition maintenanceInfoField :: "MaintenanceInfo option \<Rightarrow> (string \<times> json) list" where
  "maintenanceInfoField m = (case m of None \<Rightarrow> [] | Some i \<Rightarrow> [(''maintenance_info'', marshalMaintenanceInfo i)])"

definition provisionDetailsMap :: "ProvisionDetails \<Rightarrow> gerr + (string \<times> json) list" where
  "provisionDetailsMap d =
     (case rawField ''context'' (pd_RawContext d) of Inl e \<Rightarrow> Inl e | Inr c \<Rightarrow>
      (case rawField ''parameters'' (pd_RawParameters d) of Inl e \<Rightarrow> Inl e | Inr p \<Rightarrow>
        Inr ([(''service_id'', JStr (pd_ServiceID d)), (''plan_id'', JStr (pd_PlanID d)),
              (''organization_guid'', JStr (pd_OrganizationGUID d)), (''space_guid'', JStr (pd_SpaceGUID d))]
             @ c @ p @ maintenanceInfoField (pd_MaintenanceInfo d))))"

definition marshalPreviousValues :: "PreviousValues \<Rightarrow> json" where
  "marshalPreviousValues v = JObj
     ([(''plan_id'', JStr (pv_PlanID v)), (''service_id'', JStr (pv_ServiceID v)),
       (''organization_id'', JStr (pv_OrgID v)), (''space_id'', JStr (pv_SpaceID v))]
      @ maintenanceInfoField (pv_MaintenanceInfo v))"

definition updateDetailsMap :: "UpdateDetails \<Rightarrow> gerr + (string \<times> json) list" where
  "updateDetailsMap d =
     (case rawField ''parameters'' (ud_RawParameters d) of Inl e \<Rightarrow> Inl e | Inr p \<Rightarrow>
      (case rawField ''context'' (ud_RawContext d) of Inl e \<Rightarrow> Inl e | Inr c \<Rightarrow>
        Inr ([(''service_id'', JStr (ud_ServiceID d)), (''plan_id'', JStr (ud_PlanID d))] @ p
             @ [(''previous_values'', marshalPreviousValues (ud_PreviousValues d))] @ c
             @ maintenanceInfoField (ud_MaintenanceInfo d))))"

definition marshalBindResource :: "BindResource \<Rightarrow> json" where
  "marshalBindResource r = JObj (omitempty_str ''app_guid'' (br_AppGuid r)
     @ omitempty_str ''space_guid'' (br_SpaceGuid r) @ omitempty_str ''route'' (br_Route r)
     @ omitempty_str ''credential_client_id'' (br_CredentialClientID r)
     @ (if br_BackupAgent r then [(''backup_agent'', JBool True)] else []))"

definition bindDetailsMap :: "BindDetails \<Rightarrow> gerr + (string \<times> json) list" where
  "bindDetailsMap d =
     (case rawField ''context'' (bd_RawContext d) of Inl e \<Rightarrow> Inl e | Inr c \<Rightarrow>
      (case rawField ''parameters'' (bd_RawParameters d) of Inl e \<Rightarrow> Inl e | Inr p \<Rightarrow>
        Inr ([(''app_guid'', JStr (bd_AppGUID d)), (''plan_id'', JStr (bd_PlanID d)),
              (''service_id'', JStr (bd_ServiceID d))]
             @ (case bd_BindResource d of None \<Rightarrow> [] | Some r \<Rightarrow> [(''bind_resource'', marshalBindResource r)])
             @ c @ p)))"

text \<open>\<open>convertDetailsToMap\<close>: \<open>asMap\<close> is \<open>convertToMap\<close> of the request's struct.\<close>

definition convertDetailsToMap :: "wire \<Rightarrow> gerr + (string \<times> json) list \<Rightarrow> gerr + (string \<times> json) list" where
  "convertDetailsToMap rawParameters asMap =
     (case (if rawParameters \<noteq> WEmpty then unmarshalObject rawParameters else Inr []) of
        Inl _ \<Rightarrow> Inl ErrRawParamsInvalid
      | Inr arbitraryParams \<Rightarrow> (case asMap of
          Inl e \<Rightarrow> Inl e
        | Inr requestParams \<Rightarrow> Inr (map_set ''parameters'' (JObj arbitraryParams) requestParams)))"

text \<open>\<open>convertToMap(details.RawContext)\<close>: a nil message is rendered as \<open>null\<close>.\<close>

definition rawContextMap :: "wire \<Rightarrow> gerr + (string \<times> json) list" where
  "rawContextMap w = (case w of WEmpty \<Rightarrow> Inr [] | _ \<Rightarrow> unmarshalObject w)"

section \<open>The platform context\<close>

text \<open>\<open>requestContext.(map[string]interface{})\<close>\<close>

definition assertMap :: "json \<Rightarrow> (string \<times> json) list outcome" where
  "assertMap j = (case j of
      JObj kvs \<Rightarrow> Val (copy_map [] kvs)
    | _ \<Rightarrow> Panic ''interface conversion: interface {} is not map[string]interface {}'')"

definition assertString :: "json \<Rightarrow> string outcome" where
  "assertString j = (case j of JStr s \<Rightarrow> Val s
    | _ \<Rightarrow> Panic ''interface conversion: interface {} is not string'')"

definition getInstanceNameFromContext :: "(string \<times> json) list \<Rightarrow> string outcome" where
  "getInstanceNameFromContext contextMap =
     (case map_of contextMap ''instance_name'' of None \<Rightarrow> Val '''' | Some j \<Rightarrow> assertString j)"

definition getSpaceGUIDFromContext :: "(string \<times> json) list \<Rightarrow> string outcome" where
  "getSpaceGUIDFromContext contextMap =
     (case map_of contextMap ''space_guid'' of None \<Rightarrow> Val '''' | Some j \<Rightarrow> assertString j)"

section \<open>The UAA client of a service instance\<close>

definition GetServiceInstanceClient :: "env \<Rightarrow> string \<Rightarrow> (string \<times> json) list \<Rightarrow> (gerr + smap option) broker_m" where
  "GetServiceInstanceClient E iid contextMap =
     attempt (uaa_GetClient E iid) (\<lambda>e. ret (Inl e)) (\<lambda>instanceClient.
     if instanceClient = None then
       seq (lift_outcome (getInstanceNameFromContext contextMap)) (\<lambda>name.
       seq (lift_outcome (getSpaceGUIDFromContext contextMap)) (\<lambda>space.
       attempt (uaa_CreateClient E iid name space) (\<lambda>e. ret (Inl e)) (\<lambda>c. ret (Inr c))))
     else ret (Inr instanceClient))"

definition UpdateServiceInstanceClient :: "env \<Rightarrow> string \<Rightarrow> string \<Rightarrow> smap option \<Rightarrow> (string \<times> json) list \<Rightarrow> (gerr + unit) broker_m" where
  "UpdateServiceInstanceClient E iid dashboardURL siClient contextMap =
     (if siClient \<noteq> None then
        if o_HasClientDefinition E then
          seq (lift_outcome (getSpaceGUIDFromContext contextMap)) (\<lambda>space.
          attempt (uaa_UpdateClient E iid dashboardURL space) (\<lambda>e. ret (Inl e)) (\<lambda>_. ret (Inr ())))
        else
          seq (uaa_DeleteClient E iid) (\<lambda>_. ret (Inr ()))
      else ret (Inr ()))"

section \<open>Facts\<close>

lemma convertDetailsToMap_malformed:
  "unmarshalObject w = Inl e \<Longrightarrow> w \<noteq> WEmpty \<Longrightarrow> convertDetailsToMap w m = Inl ErrRawParamsInvalid"
  by (simp add: convertDetailsToMap_def)

lemma convertDetailsToMap_parameters:
  "convertDetailsToMap w m = Inr r \<Longrightarrow> \<exists>kvs. map_of r ''parameters'' = Some (JObj kvs)"
  by (auto simp: convertDetailsToMap_def map_of_map_set split: sum.splits if_splits)

fun is_UAA :: "event \<Rightarrow> bool" where
  "is_UAA (UAACreateClient _ _ _ _) = True"
| "is_UAA (UAAUpdateClient _ _ _ _) = True"
| "is_UAA (UAADeleteClient _ _) = True"
| "is_UAA (UAAGetClient _ _) = True"
| "is_UAA _ = False"

lemma is_UAA_benign [simp]:
  "is_UAA e \<Longrightarrow> \<not> changes_deployment e" "is_UAA e \<Longrightarrow> e \<noteq> LockDeployment" "is_UAA e \<Longrightarrow> e \<noteq> UnlockDeployment"
  by (cases e; simp)+

lemma GetServiceInstanceClient_calls:
  "ensures (\<lambda>r tr. (\<forall>e\<in>set tr. is_UAA e)) [] (GetServiceInstanceClient E iid c)"
  unfolding GetServiceInstanceClient_def client_defs by (auto intro!: ens)

lemma UpdateServiceInstanceClient_calls:
  "ensures (\<lambda>r tr. (\<forall>e\<in>set tr. is_UAA e)) [] (UpdateServiceInstanceClient E iid url si c)"
  unfolding UpdateServiceInstanceClient_def client_defs by (auto intro!: ens)

end
