(* ===== verification/Sample.thy ===== *)
theory Sample
  imports Requests
begin

text \<open>
  Concrete surroundings, offerings and requests at which the theorems about the broker are
  instantiated: every call succeeds, no deployment exists, and no task is running.
\<close>

definition sample_task :: "int \<Rightarrow> string \<Rightarrow> BoshTask" where
  "sample_task t st = \<lparr> task_ID = t, task_State = st, task_Description = ''d'', task_Result = ''r'',
     task_ContextID = '''' \<rparr>"

definition sample_manifest :: GeneratedManifest where
  "sample_manifest = \<lparr> gm_Manifest = ''m'', gm_ODBManagedSecrets = [], gm_Configs = [], gm_Labels = [] \<rparr>"

definition sample_env :: env where
  "sample_env = \<lparr>
     o_UUID = (\<lambda>h. ''uuid''),
     o_GetInfo = (\<lambda>h. Inr ()),
     o_GetDeployment = (\<lambda>h n. Inr ('''', False)),
     o_GetDeployments = (\<lambda>h. Inr []),
     o_VMs = (\<lambda>h n. Inr JNull),
     o_Variables = (\<lambda>h n. ([], None)),
     o_GetTask = (\<lambda>h t. Inr (sample_task t ''done'')),
     o_TasksInProgress = (\<lambda>h n. Inr []),
     o_TasksByContext = (\<lambda>h n c. Inr []),
     o_DeleteDeployment = (\<lambda>h n c f. Inr 9),
     o_RunErrand = (\<lambda>h n e i c. Inr 8),
     o_GetDNSAddresses = (\<lambda>h n d. Inr []),
     o_Deploy = (\<lambda>h m c. Inr 7),
     o_Recreate = (\<lambda>h n c. Inr 6),
     o_GetConfigs = (\<lambda>h n. Inr []),
     o_UpdateConfig = (\<lambda>h t n c. Inr ()),
     o_DeleteConfigs = (\<lambda>h n. Inr ()),
     o_CountInstances = (\<lambda>h i. Inr []),
     o_ListInstances = (\<lambda>h f. Inr []),
     o_HasClientDefinition = True,
     o_CreateClient = (\<lambda>h i n s. Inr None),
     o_UpdateClient = (\<lambda>h i u s. Inr None),
     o_DeleteClient = (\<lambda>h i. Inr ()),
     o_GetClient = (\<lambda>h i. Inr None),
     o_GenerateManifest = (\<lambda>h r. Inr sample_manifest),
     o_DashboardUrl = (\<lambda>h i p m. (''url'', None)),
     o_CreateBinding = (\<lambda>h b v m p s d. Inr \<lparr> bind_Credentials = [], bind_SyslogDrainURL = '''',
        bind_RouteServiceURL = '''', bind_BackupAgentURL = '''' \<rparr>),
     o_DeleteBinding = (\<lambda>h b v m p s d. Inr ()),
     o_PlanSchema = (\<lambda>h p. Inl (NotImplementedError ''no schemas'')),
     o_ResolveSecrets = (\<lambda>h m v. ([], None)),
     o_DeleteSecrets = (\<lambda>h i. Inr ()),
     o_BulkSet = (\<lambda>h ms. Inr ()),
     unmarshalManifest = (\<lambda>m. Inr \<lparr> bm_Update = None, bm_InstanceGroups = [], bm_Rest = JStr m \<rparr>),
     schemaConforms = (\<lambda>s. True),
     schemaErrors = (\<lambda>s p. Inr []),
     wireText = (\<lambda>w. ''''),
     fmtValue = (\<lambda>j. ''''),
     sha256hex = (\<lambda>s. s),
     sha256raw = (\<lambda>s. s) \<rparr>"

definition sample_state :: bstate where
  "sample_state = \<lparr> hist = [], cachedCatalog = None \<rparr>"

definition sample_plan :: Plan where
  "sample_plan = zeroPlan\<lparr>plan_ID := ''small'', plan_Name := ''small''\<rparr>"

definition errand_plan :: Plan where
  "errand_plan = zeroPlan\<lparr>plan_ID := ''errands'', plan_Name := ''errands'', plan_LifecycleErrands := Some
     \<lparr> PostDeploy = [\<lparr> errand_Name = ''smoke'', errand_Instances = [] \<rparr>],
       PreDelete = [\<lparr> errand_Name = ''drain'', errand_Instances = [''vm/0''] \<rparr>] \<rparr>\<rparr>"

definition sample_offering :: ServiceOffering where
  "sample_offering = \<lparr> off_ID = ''svc'', off_Name = ''svc'', off_Description = '''', off_Bindable = True,
     off_PlanUpdatable = True, off_Requires = [],
     off_Metadata = \<lparr> sm_DisplayName = '''', sm_ImageURL = '''', sm_LongDescription = '''',
        sm_ProviderDisplayName = '''', sm_DocumentationURL = '''', sm_SupportURL = '''',
        sm_Shareable = False, sm_AdditionalMetadata = [] \<rparr>,
     off_DashboardClient = None, off_Tags = [], off_GlobalProperties = [],
     off_GlobalQuotas = \<lparr> ServiceInstanceLimit = None, Resources = None \<rparr>,
     off_Plans = [sample_plan, errand_plan], off_MaintenanceInfo = None \<rparr>"

end
