(* ===== verification/Deployer.thy ===== *)
theory Deployer
  imports Sample
begin

text \<open>
  The \<open>task\<close> package: the manifest generator (\<open>task/manifest_generator.go\<close>), the comparison of
  manifests (\<open>task/manifest_comparator.go\<close>), the secrets of the broker in a manifest
  (\<open>manifestsecrets/odb_secrets.go\<close>) and the deployer (\<open>task/task.go\<close>) that creates, updates,
  upgrades and recreates deployments.  The broker reaches the deployer through the interface
  \<open>broker.Deployer\<close>: the record \<open>deployer\<close> is that interface, the locale
  \<open>deployer_interface\<close> its contract, and the interpretation at the end shows that the task
  package keeps the contract.
\<close>

section \<open>Secrets managed by the broker\<close>

fun contains_str :: "string \<Rightarrow> string \<Rightarrow> bool" where
  "contains_str [] sub = (sub = [])"
| "contains_str (c # cs) sub = (has_prefix (c # cs) sub \<or> contains_str cs sub)"

text \<open>\<open>strings.Replace(s, old, new, -1)\<close> for a non-empty \<open>old\<close>\<close>

function replace_all :: "string \<Rightarrow> string \<Rightarrow> string \<Rightarrow> string" where
  "replace_all old new s =
     (case s of [] \<Rightarrow> []
      | c # cs \<Rightarrow> if old \<noteq> [] \<and> has_prefix s old then new @ replace_all old new (drop (length old) s)
                  else c # replace_all old new cs)"
  by pat_completeness auto
termination
  by (relation "measure (\<lambda>(old, new, s). length s)") auto

declare replace_all.simps [simp del]

definition odbRef :: "string \<Rightarrow> string" where
  "odbRef name = ''((odb_secret:'' @ name @ ''))''"

fun GenerateSecretPaths :: "string \<Rightarrow> string \<Rightarrow> string \<Rightarrow> (string \<times> json) list \<Rightarrow> ManifestSecret list" where
  "GenerateSecretPaths offeringID dn manifest [] = []"
| "GenerateSecretPaths offeringID dn manifest ((name, v) # rest) =
     (if contains_str manifest (odbRef name)
      then \<lparr> ms_Name = name, ms_Path = ''/odb/'' @ offeringID @ ''/'' @ dn @ ''/'' @ name, ms_Value = v \<rparr>
           # GenerateSecretPaths offeringID dn manifest rest
      else GenerateSecretPaths offeringID dn manifest rest)"

definition ReplaceODBRefs :: "string \<Rightarrow> ManifestSecret list \<Rightarrow> string" where
  "ReplaceODBRefs manifest secrets =
     foldl (\<lambda>m s. replace_all (odbRef (ms_Name s)) (''(('' @ ms_Path s @ ''))'') m) manifest secrets"

section \<open>Comparing manifests\<close>

definition ignoreUpdateBlock :: "BoshManifest \<Rightarrow> BoshManifest" where
  "ignoreUpdateBlock m = m\<lparr>bm_Update := None,
     bm_InstanceGroups := map (\<lambda>g. g\<lparr>ig_Update := None\<rparr>) (bm_InstanceGroups m)\<rparr>"

definition marshalBoshManifest :: "env \<Rightarrow> string \<Rightarrow> gerr + BoshManifest" where
  "marshalBoshManifest E raw = (case unmarshalManifest E raw of
      Inl e \<Rightarrow> Inl (errorf ''error detecting change in manifest, unable to unmarshal manifest: '' e)
    | Inr m \<Rightarrow> Inr m)"

definition ManifestsAreTheSame :: "env \<Rightarrow> string \<Rightarrow> string \<Rightarrow> gerr + bool" where
  "ManifestsAreTheSame E generateManifest oldManifest =
     (case marshalBoshManifest E generateManifest of Inl e \<Rightarrow> Inl e | Inr regenerated \<Rightarrow>
      (case marshalBoshManifest E oldManifest of Inl e \<Rightarrow> Inl e | Inr boshManifest \<Rightarrow>
        Inr (ignoreUpdateBlock regenerated = ignoreUpdateBlock boshManifest)))"

section \<open>Generating manifests\<close>

record deployer_config =
  dep_DisableBoshConfigs :: bool
  dep_SkipCheckForPendingChanges :: bool
  dep_HasBulkSetter :: bool
  dep_SecretsOfferingID :: string
  gen_serviceOffering :: ServiceOffering
  gen_serviceReleases :: json
  gen_serviceStemcells :: json

record GenerateManifestProperties =
  gp_DeploymentName :: string
  gp_PlanID :: string
  gp_RequestParams :: "(string \<times> json) list"
  gp_OldManifest :: string
  gp_PreviousPlanID :: "string option"
  gp_SecretsMap :: smap
  gp_PreviousConfigs :: smap
  gp_UAAClient :: "smap option"

definition findPlan :: "deployer_config \<Rightarrow> string \<Rightarrow> gerr + AdapterPlanT" where
  "findPlan D planID = (case FindPlanByID (gen_serviceOffering D) planID of
      (_, False) \<Rightarrow> Inl (PlanNotFoundError planID)
    | (plan, True) \<Rightarrow> Inr (AdapterPlan plan (off_GlobalProperties (gen_serviceOffering D))))"

definition findPlans :: "deployer_config \<Rightarrow> string \<Rightarrow> string option \<Rightarrow> gerr + (AdapterPlanT \<times> AdapterPlanT option)" where
  "findPlans D planID previousPlanID = (case findPlan D planID of Inl e \<Rightarrow> Inl e | Inr plan \<Rightarrow>
     (case previousPlanID of
        None \<Rightarrow> Inr (plan, None)
      | Some pid \<Rightarrow> (case findPlan D pid of Inl e \<Rightarrow> Inl e | Inr previousPlan \<Rightarrow> Inr (plan, Some previousPlan))))"

definition GenerateManifest :: "deployer_config \<Rightarrow> env \<Rightarrow> GenerateManifestProperties \<Rightarrow> (gerr + GeneratedManifest) broker_m" where
  "GenerateManifest D E props =
     (case findPlans D (gp_PlanID props) (gp_PreviousPlanID props) of
        Inl e \<Rightarrow> ret (Inl e)
      | Inr (plan, previousPlan) \<Rightarrow>
          adapter_GenerateManifest E \<lparr>
            mr_DeploymentName = gp_DeploymentName props,
            mr_Releases = gen_serviceReleases D, mr_Stemcells = gen_serviceStemcells D,
            mr_Plan = plan, mr_RequestParams = gp_RequestParams props,
            mr_PreviousManifest = gp_OldManifest props, mr_PreviousPlan = previousPlan,
            mr_SecretsMap = gp_SecretsMap props, mr_PreviousConfigs = gp_PreviousConfigs props,
            mr_UAAClient = gp_UAAClient props \<rparr>)"

section \<open>Deploying\<close>

type_synonym labels = "(string \<times> json) list"
type_synonym deployed = "int \<times> string \<times> labels"

definition assertNoOperationsInProgress :: "env \<Rightarrow> string \<Rightarrow> (gerr + unit) broker_m" where
  "assertNoOperationsInProgress E dn =
     attempt (bosh_GetTasksInProgress E dn)
       (\<lambda>err. ret (Inl (ServiceError (ErrorString (''error getting tasks for deployment '' @ dn @ '': ''
                 @ errmsg err @ [CHR 0x0A]))))) (\<lambda>tasksInProgress.
     if length tasksInProgress \<noteq> 0 then ret (Inl (TaskInProgressError ''task in progress''))
     else ret (Inr ()))"

definition getDeploymentManifest :: "env \<Rightarrow> string \<Rightarrow> (gerr + string) broker_m" where
  "getDeploymentManifest E dn =
     attempt (bosh_GetDeployment E dn) (\<lambda>err. ret (Inl err)) (\<lambda>(oldManifest, found).
     if \<not> found then ret (Inl (DeploymentNotFoundError
          (ErrorString (''bosh deployment '' @ [CHR 0x27] @ dn @ [CHR 0x27] @ '' not found''))))
     else ret (Inr oldManifest))"

definition getConfigMap :: "env \<Rightarrow> string \<Rightarrow> (gerr + smap) broker_m" where
  "getConfigMap E dn =
     attempt (bosh_GetConfigs E dn) (\<lambda>err. ret (Inl err)) (\<lambda>boshConfigs.
     ret (Inr (foldl (\<lambda>configs c. map_set (bc_Type c) (bc_Content c) configs) [] boshConfigs)))"

definition pendingChangesError :: gerr where
  "pendingChangesError = PendingChangesNotAppliedError (ErrorString ''There are pending changes'')"

definition checkForPendingChanges :: "deployer_config \<Rightarrow> env \<Rightarrow> string \<Rightarrow> string \<Rightarrow> string \<Rightarrow> smap \<Rightarrow> smap \<Rightarrow> (gerr + unit) broker_m" where
  "checkForPendingChanges D E dn previousPlanID rawOldManifest oldSecretsMap previousConfigs =
     attempt (GenerateManifest D E \<lparr> gp_DeploymentName = dn, gp_PlanID = previousPlanID, gp_RequestParams = [],
         gp_OldManifest = rawOldManifest, gp_PreviousPlanID = Some previousPlanID,
         gp_SecretsMap = oldSecretsMap, gp_PreviousConfigs = previousConfigs, gp_UAAClient = None \<rparr>)
       (\<lambda>err. ret (Inl err)) (\<lambda>regenerated.
     (case ManifestsAreTheSame E (gm_Manifest regenerated) rawOldManifest of
        Inl err \<Rightarrow> ret (Inl err)
      | Inr manifestsSame \<Rightarrow> if \<not> manifestsSame then ret (Inl pendingChangesError) else ret (Inr ())))"

fun updateConfigs :: "env \<Rightarrow> string \<Rightarrow> smap \<Rightarrow> (gerr + unit) broker_m" where
  "updateConfigs E dn [] = ret (Inr ())"
| "updateConfigs E dn ((configType, configContent) # rest) =
     attempt (bosh_UpdateConfig E configType dn configContent)
       (\<lambda>err. ret (Inl (ErrorString (''error updating config: '' @ errmsg err @ [CHR 0x0A]))))
       (\<lambda>_. updateConfigs E dn rest)"

definition setSecrets :: "deployer_config \<Rightarrow> env \<Rightarrow> string \<Rightarrow> GeneratedManifest \<Rightarrow> (gerr + string) broker_m" where
  "setSecrets D E dn out =
     (if dep_HasBulkSetter D then
        (let secrets = GenerateSecretPaths (dep_SecretsOfferingID D) dn (gm_Manifest out) (gm_ODBManagedSecrets out) in
         attempt (bulk_Set E secrets) (\<lambda>err. ret (Inl err)) (\<lambda>_.
         ret (Inr (ReplaceODBRefs (gm_Manifest out) secrets))))
      else ret (Inr (gm_Manifest out)))"

definition writeConfigs :: "deployer_config \<Rightarrow> env \<Rightarrow> string \<Rightarrow> smap \<Rightarrow> (gerr + unit) broker_m" where
  "writeConfigs D E dn configs =
     (if \<not> dep_DisableBoshConfigs D then updateConfigs E dn configs else ret (Inr ()))"

definition doDeploy :: "deployer_config \<Rightarrow> env \<Rightarrow> GenerateManifestProperties \<Rightarrow> string \<Rightarrow> (gerr + deployed) broker_m" where
  "doDeploy D E props boshContextID =
     attempt (GenerateManifest D E props) (\<lambda>err. ret (Inl err)) (\<lambda>out.
     attempt (setSecrets D E (gp_DeploymentName props) out) (\<lambda>err. ret (Inl err)) (\<lambda>manifest.
     if dep_DisableBoshConfigs D \<and> 0 < length (gm_Configs out)
     then ret (Inl (ErrorString ''adapter returned bosh configs but feature is turned off''))
     else
       attempt (writeConfigs D E (gp_DeploymentName props) (gm_Configs out)) (\<lambda>err. ret (Inl err)) (\<lambda>_.
       attempt (bosh_Deploy E manifest boshContextID)
         (\<lambda>err. ret (Inl (ErrorString (''error deploying instance: '' @ errmsg err @ [CHR 0x0A])))) (\<lambda>boshTaskID.
       ret (Inr (boshTaskID, manifest, gm_Labels out))))))"

definition getOldConfigs :: "deployer_config \<Rightarrow> env \<Rightarrow> string \<Rightarrow> (gerr + smap) broker_m" where
  "getOldConfigs D E dn = (if \<not> dep_DisableBoshConfigs D then getConfigMap E dn else ret (Inr []))"

definition Deployer_Create :: "deployer_config \<Rightarrow> env \<Rightarrow> string \<Rightarrow> string \<Rightarrow> (string \<times> json) list \<Rightarrow> string \<Rightarrow> smap option \<Rightarrow> (gerr + deployed) broker_m" where
  "Deployer_Create D E dn planID requestParams boshContextID uaaClient =
     attempt (assertNoOperationsInProgress E dn) (\<lambda>err. ret (Inl err)) (\<lambda>_.
     doDeploy D E \<lparr> gp_DeploymentName = dn, gp_PlanID = planID, gp_RequestParams = requestParams,
        gp_OldManifest = '''', gp_PreviousPlanID = None, gp_SecretsMap = [], gp_PreviousConfigs = [],
        gp_UAAClient = uaaClient \<rparr> boshContextID)"

definition Deployer_Upgrade :: "deployer_config \<Rightarrow> env \<Rightarrow> string \<Rightarrow> Plan \<Rightarrow> (string \<times> json) list \<Rightarrow> string \<Rightarrow> smap option \<Rightarrow> (gerr + deployed) broker_m" where
  "Deployer_Upgrade D E dn plan requestParams boshContextID uaaClient =
     attempt (assertNoOperationsInProgress E dn) (\<lambda>err. ret (Inl err)) (\<lambda>_.
     attempt (getDeploymentManifest E dn) (\<lambda>err. ret (Inl err)) (\<lambda>oldManifest.
     attempt (getOldConfigs D E dn) (\<lambda>err. ret (Inl err)) (\<lambda>oldConfigs.
     doDeploy D E \<lparr> gp_DeploymentName = dn, gp_PlanID = plan_ID plan, gp_RequestParams = requestParams,
        gp_OldManifest = oldManifest, gp_PreviousPlanID = Some (plan_ID plan), gp_SecretsMap = [],
        gp_PreviousConfigs = oldConfigs, gp_UAAClient = uaaClient \<rparr> boshContextID)))"

definition Deployer_Recreate :: "env \<Rightarrow> string \<Rightarrow> string \<Rightarrow> (gerr + int) broker_m" where
  "Deployer_Recreate E dn boshContextID =
     attempt (assertNoOperationsInProgress E dn) (\<lambda>err. ret (Inl err)) (\<lambda>_.
     attempt (bosh_Recreate E dn boshContextID) (\<lambda>err. ret (Inl err)) (\<lambda>taskID.
     ret (Inr taskID)))"

definition pendingChangesGuard :: "deployer_config \<Rightarrow> env \<Rightarrow> string \<Rightarrow> string \<Rightarrow> string \<Rightarrow> smap \<Rightarrow> smap \<Rightarrow> (gerr + unit) broker_m" where
  "pendingChangesGuard D E dn previousPlanID oldManifest oldSecretsMap oldConfigs =
     (if \<not> dep_SkipCheckForPendingChanges D
      then checkForPendingChanges D E dn previousPlanID oldManifest oldSecretsMap oldConfigs
      else ret (Inr ()))"

definition Deployer_Update :: "deployer_config \<Rightarrow> env \<Rightarrow> string \<Rightarrow> string \<Rightarrow> (string \<times> json) list \<Rightarrow> string \<Rightarrow> string \<Rightarrow> smap \<Rightarrow> smap option \<Rightarrow> (gerr + deployed) broker_m" where
  "Deployer_Update D E dn planID requestParams previousPlanID boshContextID oldSecretsMap uaaClient =
     attempt (assertNoOperationsInProgress E dn) (\<lambda>err. ret (Inl err)) (\<lambda>_.
     attempt (getDeploymentManifest E dn) (\<lambda>err. ret (Inl err)) (\<lambda>oldManifest.
     attempt (getOldConfigs D E dn) (\<lambda>err. ret (Inl err)) (\<lambda>oldConfigs.
     attempt (pendingChangesGuard D E dn previousPlanID oldManifest oldSecretsMap oldConfigs) (\<lambda>err. ret (Inl err)) (\<lambda>_.
     doDeploy D E \<lparr> gp_DeploymentName = dn, gp_PlanID = planID, gp_RequestParams = requestParams,
        gp_OldManifest = oldManifest, gp_PreviousPlanID = Some previousPlanID, gp_SecretsMap = oldSecretsMap,
        gp_PreviousConfigs = oldConfigs, gp_UAAClient = uaaClient \<rparr> boshContextID))))"

section \<open>The deployer interface and its contract\<close>

record deployer =
  dep_Create :: "string \<Rightarrow> string \<Rightarrow> (string \<times> json) list \<Rightarrow> string \<Rightarrow> smap option \<Rightarrow> (gerr + deployed) broker_m"
  dep_Update :: "string \<Rightarrow> string \<Rightarrow> (string \<times> json) list \<Rightarrow> string \<Rightarrow> string \<Rightarrow> smap \<Rightarrow> smap option \<Rightarrow> (gerr + deployed) broker_m"
  dep_Upgrade :: "string \<Rightarrow> Plan \<Rightarrow> (string \<times> json) list \<Rightarrow> string \<Rightarrow> smap option \<Rightarrow> (gerr + deployed) broker_m"
  dep_Recreate :: "string \<Rightarrow> string \<Rightarrow> (gerr + int) broker_m"

text \<open>The deployer of the task package, behind the interface\<close>

definition task_Deployer :: "deployer_config \<Rightarrow> env \<Rightarrow> deployer" where
  "task_Deployer D E = \<lparr>
     dep_Create = Deployer_Create D E,
     dep_Update = Deployer_Update D E,
     dep_Upgrade = Deployer_Upgrade D E,
     dep_Recreate = Deployer_Recreate E \<rparr>"

text \<open>What happens before BOSH is asked to deploy: reading, generating, storing secrets and configs\<close>

fun is_prep :: "event \<Rightarrow> bool" where
  "is_prep (BoshTasksInProgress _ _) = True"
| "is_prep (BoshGetDeployment _ _) = True"
| "is_prep (BoshGetConfigs _ _) = True"
| "is_prep (AdapterGenerateManifest _ _) = True"
| "is_prep (BulkSet _ _) = True"
| "is_prep (BoshUpdateConfig _ _ _ _) = True"
| "is_prep _ = False"

lemma is_prep_benign:
  "is_prep e \<Longrightarrow> \<not> changes_deployment e \<and> e \<noteq> LockDeployment \<and> e \<noteq> UnlockDeployment"
  by (cases e) simp_all

definition prepares :: "'a outcome \<Rightarrow> history \<Rightarrow> bool" where
  "prepares r tr \<longleftrightarrow> (\<exists>x. r = Val x) \<and> list_all is_prep tr"

definition no_task_running :: "string \<Rightarrow> event \<Rightarrow> bool" where
  "no_task_running dn e \<longleftrightarrow> e = BoshTasksInProgress dn (Inr [])"

text \<open>
  The contract of Create, Update and Upgrade.  A result comes from exactly one deployment that
  BOSH accepted, as the last call, with that manifest and task id; an error means that BOSH
  accepted none; and nothing is changed before BOSH said that no task is running.
\<close>

definition deploy_contract :: "string \<Rightarrow> string \<Rightarrow> (gerr + deployed) outcome \<Rightarrow> history \<Rightarrow> bool" where
  "deploy_contract dn c r tr \<longleftrightarrow>
     guarded_by (no_task_running dn) changes_world tr
     \<and> (case r of
          Val (Inr (taskID, manifest, labels)) \<Rightarrow>
            \<exists>pre. tr = pre @ [BoshDeploy manifest c (Inr taskID)] \<and> list_all is_prep pre
        | Val (Inl e) \<Rightarrow>
            list_all is_prep tr \<or> (\<exists>pre m e'. tr = pre @ [BoshDeploy m c (Inl e')] \<and> list_all is_prep pre)
        | _ \<Rightarrow> False)"

definition recreate_contract :: "string \<Rightarrow> string \<Rightarrow> (gerr + int) outcome \<Rightarrow> history \<Rightarrow> bool" where
  "recreate_contract dn c r tr \<longleftrightarrow>
     guarded_by (no_task_running dn) changes_world tr
     \<and> (case r of
          Val (Inr taskID) \<Rightarrow> \<exists>pre. tr = pre @ [BoshRecreate dn c (Inr taskID)] \<and> list_all is_prep pre
        | Val (Inl e) \<Rightarrow>
            list_all is_prep tr \<or> (\<exists>pre e'. tr = pre @ [BoshRecreate dn c (Inl e')] \<and> list_all is_prep pre)
        | _ \<Rightarrow> False)"

locale deployer_interface =
  fixes DP :: deployer
  assumes create_law: "ensures (deploy_contract dn c) [] (dep_Create DP dn planID params c uaa)"
    and update_law: "ensures (deploy_contract dn c) [] (dep_Update DP dn planID params prev c secrets uaa)"
    and upgrade_law: "ensures (deploy_contract dn c) [] (dep_Upgrade DP dn plan params c uaa)"
    and recreate_law: "ensures (recreate_contract dn c) [] (dep_Recreate DP dn c)"

section \<open>The task package keeps the contract\<close>

lemma assertNoOperationsInProgress_spec:
  "ensures (\<lambda>r tr. (r = Val (Inr ()) \<and> tr = [BoshTasksInProgress dn (Inr [])])
      \<or> (\<exists>e q. r = Val (Inl e) \<and> tr = [BoshTasksInProgress dn q])) [] (assertNoOperationsInProgress E dn)"
  unfolding assertNoOperationsInProgress_def client_defs by (auto intro!: ens)

lemma GenerateManifest_spec: "ensures prepares [] (GenerateManifest D E props)"
  unfolding GenerateManifest_def client_defs
  by (auto intro!: ens simp: prepares_def split: sum.splits prod.splits)

lemma getDeploymentManifest_spec: "ensures prepares [] (getDeploymentManifest E dn)"
  unfolding getDeploymentManifest_def client_defs
  by (auto intro!: ens simp: prepares_def split: prod.splits)

lemma getOldConfigs_spec: "ensures prepares [] (getOldConfigs D E dn)"
  unfolding getOldConfigs_def getConfigMap_def client_defs by (auto intro!: ens simp: prepares_def)

lemma checkForPendingChanges_spec:
  "ensures prepares [] (checkForPendingChanges D E dn pid m secrets configs)"
  unfolding checkForPendingChanges_def
  by (rule ens_attempt_sub [OF GenerateManifest_spec])
     (auto intro!: ens simp: prepares_def split: sum.splits)

lemma updateConfigs_spec: "ensures prepares [] (updateConfigs E dn cs)"
proof (induction cs)
  case Nil
  show ?case by (auto intro!: ens simp: prepares_def)
next
  case (Cons c cs)
  obtain k v where c: "c = (k, v)" by force
  show ?case
    unfolding c updateConfigs.simps client_defs
    by (rule ens_attempt_call) (auto intro!: ens ens_sub [OF Cons.IH] simp: prepares_def)
qed

lemma setSecrets_spec: "ensures prepares [] (setSecrets D E dn out)"
  unfolding setSecrets_def client_defs Let_def by (auto intro!: ens simp: prepares_def)

definition deploy_body :: "string \<Rightarrow> (gerr + deployed) outcome \<Rightarrow> history \<Rightarrow> bool" where
  "deploy_body c r tr \<longleftrightarrow> (case r of
          Val (Inr (taskID, manifest, labels)) \<Rightarrow>
            \<exists>pre. tr = pre @ [BoshDeploy manifest c (Inr taskID)] \<and> list_all is_prep pre
        | Val (Inl e) \<Rightarrow>
            list_all is_prep tr \<or> (\<exists>pre m e'. tr = pre @ [BoshDeploy m c (Inl e')] \<and> list_all is_prep pre)
        | _ \<Rightarrow> False)"

lemma deploy_body_prefix: "list_all is_prep pre \<Longrightarrow> deploy_body c r tr \<Longrightarrow> deploy_body c r (pre @ tr)"
proof -
  assume pre: "list_all is_prep pre" and body: "deploy_body c r tr"
  have app: "pre @ p @ [e] = (pre @ p) @ [e]" for p and e :: event by simp
  from pre body show "deploy_body c r (pre @ tr)"
    unfolding deploy_body_def
    by (auto split: outcome.splits sum.splits prod.splits simp: app simp del: append_assoc)
qed

lemma deploy_body_error: "list_all is_prep tr \<Longrightarrow> deploy_body c (Val (Inl e)) tr"
  by (simp add: deploy_body_def)

lemma ens_prepare:
  assumes "ensures prepares [] m" and "list_all is_prep tr"
    and "\<And>e t. list_all is_prep t \<Longrightarrow> ensures \<Phi> t (h e)"
    and "\<And>x t. list_all is_prep t \<Longrightarrow> ensures \<Phi> t (k x)"
  shows "ensures \<Phi> tr (attempt m h k)"
  by (rule ens_attempt_sub [OF assms(1)]) (use assms(2-) in \<open>auto simp: prepares_def\<close>)

lemma ret_error_body: "list_all is_prep t \<Longrightarrow> ensures (deploy_body c) t (ret (Inl e))"
  by (auto intro!: ens simp: deploy_body_error)

lemma writeConfigs_spec: "ensures prepares [] (writeConfigs D E dn cs)"
  unfolding writeConfigs_def by (auto intro!: ens updateConfigs_spec simp: prepares_def)

lemma pendingChangesGuard_spec:
  "ensures prepares [] (pendingChangesGuard D E dn pid m secrets configs)"
  unfolding pendingChangesGuard_def by (auto intro!: ens checkForPendingChanges_spec simp: prepares_def)

lemma doDeploy_spec:
  assumes "list_all is_prep tr"
  shows "ensures (deploy_body c) tr (doDeploy D E props c)"
  unfolding doDeploy_def
proof (rule ens_prepare [OF GenerateManifest_spec assms ret_error_body], assumption,
       rule ens_prepare [OF setSecrets_spec _ ret_error_body], assumption, assumption)
  fix out manifest t
  assume t: "list_all is_prep t"
  have dep: "ensures (deploy_body c) t (attempt (bosh_Deploy E manifest c) (\<lambda>err. ret (Inl (f err)))
      (\<lambda>boshTaskID. ret (Inr (boshTaskID, manifest, l))))" if "list_all is_prep t" for t f l
    using that unfolding client_defs by (auto intro!: ens simp: deploy_body_def)
  show "ensures (deploy_body c) t
      (if dep_DisableBoshConfigs D \<and> 0 < length (gm_Configs out)
       then ret (Inl (ErrorString ''adapter returned bosh configs but feature is turned off''))
       else attempt (writeConfigs D E (gp_DeploymentName props) (gm_Configs out)) (\<lambda>err. ret (Inl err)) (\<lambda>_.
          attempt (bosh_Deploy E manifest c)
           (\<lambda>err. ret (Inl (ErrorString (''error deploying instance: '' @ errmsg err @ [CHR 0x0A])))) (\<lambda>boshTaskID.
          ret (Inr (boshTaskID, manifest, gm_Labels out)))))"
    using t by (auto intro!: ret_error_body ens_prepare [OF writeConfigs_spec] dep
        simp del: attempt_ret)
qed

text \<open>The guard: after the first event every later event is free.\<close>

lemma deploy_contract_start:
  "deploy_body c r tr \<Longrightarrow> deploy_contract dn c r (BoshTasksInProgress dn (Inr []) # tr)"
proof -
  assume "deploy_body c r tr"
  then have "deploy_body c r ([BoshTasksInProgress dn (Inr [])] @ tr)"
    by (rule deploy_body_prefix [rotated]) simp
  then show ?thesis by (simp add: deploy_contract_def deploy_body_def no_task_running_def)
qed

lemma ens_guarded:
  assumes "ensures (deploy_body c) [] m"
  shows "ensures (deploy_contract dn c) [] (attempt (assertNoOperationsInProgress E dn) (\<lambda>err. ret (Inl err)) (\<lambda>_. m))"
  by (rule ens_attempt_sub [OF assertNoOperationsInProgress_spec])
     (auto intro!: ens ens_sub [OF assms] simp: deploy_contract_start, simp add: deploy_contract_def)

lemma Deployer_Create_contract: "ensures (deploy_contract dn c) [] (Deployer_Create D E dn planID params c uaa)"
  unfolding Deployer_Create_def by (rule ens_guarded) (simp add: doDeploy_spec)

lemma Deployer_Upgrade_contract: "ensures (deploy_contract dn c) [] (Deployer_Upgrade D E dn plan params c uaa)"
  unfolding Deployer_Upgrade_def
  by (rule ens_guarded, rule ens_prepare [OF getDeploymentManifest_spec _ ret_error_body], simp, assumption,
      rule ens_prepare [OF getOldConfigs_spec _ ret_error_body], assumption, assumption, rule doDeploy_spec)

lemma Deployer_Update_contract:
  "ensures (deploy_contract dn c) [] (Deployer_Update D E dn planID params prev c secrets uaa)"
  unfolding Deployer_Update_def
  by (rule ens_guarded, rule ens_prepare [OF getDeploymentManifest_spec _ ret_error_body], simp, assumption,
      rule ens_prepare [OF getOldConfigs_spec _ ret_error_body], assumption, assumption,
      rule ens_prepare [OF pendingChangesGuard_spec _ ret_error_body],
      assumption, assumption, rule doDeploy_spec)

lemma Deployer_Recreate_contract: "ensures (recreate_contract dn c) [] (Deployer_Recreate E dn c)"
  unfolding Deployer_Recreate_def client_defs
  by (rule ens_attempt_sub [OF assertNoOperationsInProgress_spec])
     (auto intro!: ens simp: recreate_contract_def no_task_running_def)

interpretation task: deployer_interface "task_Deployer D E" for D E
  by unfold_locales
     (simp_all add: task_Deployer_def Deployer_Create_contract Deployer_Update_contract
        Deployer_Upgrade_contract Deployer_Recreate_contract)

section \<open>What a client can conclude from the contract\<close>

lemma prep_only [simp]:
  assumes "list_all is_prep tr"
  shows "filter changes_deployment tr = []" "lock_free tr"
  using assms is_prep_benign by (fastforce simp: filter_empty_conv lock_free_def list_all_iff)+

lemma deploy_contract_guard: "deploy_contract dn c r tr \<Longrightarrow> guarded_by (no_task_running dn) changes_world tr"
  by (simp add: deploy_contract_def)

lemma deploy_contract_cases:
  assumes "deploy_contract dn c r tr"
  obtains (accepted) t m l where "r = Val (Inr (t, m, l))"
      "filter changes_deployment tr = [BoshDeploy m c (Inr t)]" "lock_free tr"
  | (refused) e where "r = Val (Inl e)" "lock_free tr"
      "filter changes_deployment tr = [] \<or> (\<exists>m e'. filter changes_deployment tr = [BoshDeploy m c (Inl e')])"
proof (cases r)
  case (Val x)
  show thesis
  proof (cases x)
    case (Inl e)
    with assms Val show thesis
      by (intro refused [of e]) (auto simp: deploy_contract_def lock_free_def dest: prep_only)
  next
    case (Inr y)
    with assms Val show thesis
      by (cases y) (auto simp: deploy_contract_def lock_free_def dest: prep_only intro!: accepted)
  qed
qed (use assms in \<open>simp_all add: deploy_contract_def\<close>)

lemma recreate_contract_cases:
  assumes "recreate_contract dn c r tr"
  obtains (accepted) t where "r = Val (Inr t)"
      "filter changes_deployment tr = [BoshRecreate dn c (Inr t)]" "lock_free tr"
  | (refused) e where "r = Val (Inl e)" "lock_free tr"
      "filter changes_deployment tr = [] \<or> (\<exists>e'. filter changes_deployment tr = [BoshRecreate dn c (Inl e')])"
proof (cases r)
  case (Val x)
  show thesis
  proof (cases x)
    case (Inl e)
    with assms Val show thesis
      by (intro refused [of e]) (auto simp: recreate_contract_def lock_free_def dest: prep_only)
  next
    case (Inr y)
    with assms Val show thesis
      by (auto simp: recreate_contract_def lock_free_def dest: prep_only intro!: accepted)
  qed
qed (use assms in \<open>simp_all add: recreate_contract_def\<close>)

text \<open>Nothing but reading happens before BOSH is asked; the client's own guards carry over.\<close>

lemma deploy_contract_no_change:
  "deploy_contract dn c r tr \<Longrightarrow> \<not> (\<exists>e\<in>set tr. is_UAA e)"
  by (auto simp: deploy_contract_def list_all_iff split: outcome.splits sum.splits)
     (metis is_UAA.simps(5) is_UAA.elims(2) is_prep.simps)+

section \<open>What the deployer promises\<close>

text \<open>
  Every operation of the deployer keeps its contract in every environment: Create, Update
  and Upgrade return a task id and a manifest only when BOSH accepted exactly this manifest, in
  the last call made, with this task id and
  the context id that was asked for; on an error BOSH has accepted no deployment; and
  nothing (secrets, configs, deployments) is changed before BOSH answered that no task is running
  for the deployment.  Recreate has the same contract with the recreate call.
\<close>

theorem deployer_keeps_contract:
  "ensures (deploy_contract dn c) [] (Deployer_Create D E dn planID params c uaa)
   \<and> ensures (deploy_contract dn c) [] (Deployer_Update D E dn planID params prev c secrets uaa)
   \<and> ensures (deploy_contract dn c) [] (Deployer_Upgrade D E dn plan params c uaa)
   \<and> ensures (recreate_contract dn c) [] (Deployer_Recreate E dn c)"
  using task.create_law [of dn c D E planID params uaa]
    task.update_law [of dn c D E planID params prev secrets uaa]
    task.upgrade_law [of dn c D E plan params uaa] task.recreate_law [of dn c D E]
  by (simp add: task_Deployer_def)

lemma GenerateManifest_exact:
  "ensures (\<lambda>r tr. (tr = [] \<and> (\<exists>e. r = Val (Inl e)))
      \<or> (\<exists>q x. tr = [AdapterGenerateManifest q x] \<and> r = Val x \<and> mr_RequestParams q = gp_RequestParams props
           \<and> mr_PreviousManifest q = gp_OldManifest props
           \<and> findPlans D (gp_PlanID props) (gp_PreviousPlanID props) = Inr (mr_Plan q, mr_PreviousPlan q)))
    [] (GenerateManifest D E props)"
  unfolding GenerateManifest_def client_defs
  by (auto intro!: ens split: sum.splits prod.splits)

lemma getDeploymentManifest_exact:
  "ensures (\<lambda>r tr. (\<exists>m. tr = [BoshGetDeployment dn (Inr (m, True))] \<and> r = Val (Inr m))
      \<or> (\<exists>q e. tr = [BoshGetDeployment dn q] \<and> r = Val (Inl e)))
    [] (getDeploymentManifest E dn)"
  unfolding getDeploymentManifest_def client_defs
  by (rule ens_attempt_call) (auto intro!: ens split: prod.splits)

text \<open>The deployed manifest was regenerated from the previous plan without parameters, and matched.\<close>

definition no_pending_changes :: "deployer_config \<Rightarrow> env \<Rightarrow> string \<Rightarrow> string \<Rightarrow> history \<Rightarrow> bool" where
  "no_pending_changes D E dn prev tr \<longleftrightarrow>
     (\<exists>old q out. BoshGetDeployment dn (Inr (old, True)) \<in> set tr
        \<and> AdapterGenerateManifest q (Inr out) \<in> set tr \<and> mr_RequestParams q = []
        \<and> mr_PreviousManifest q = old \<and> findPlan D prev = Inr (mr_Plan q)
        \<and> ManifestsAreTheSame E (gm_Manifest out) old = Inr True)"

lemma no_pending_changes_append:
  "no_pending_changes D E dn prev tr \<Longrightarrow> no_pending_changes D E dn prev (tr @ d)"
  unfolding no_pending_changes_def by auto

lemma no_pending_changesI:
  "BoshGetDeployment dn (Inr (mr_PreviousManifest q, True)) \<in> set tr
   \<Longrightarrow> AdapterGenerateManifest q (Inr out) \<in> set tr \<Longrightarrow> mr_RequestParams q = []
   \<Longrightarrow> findPlan D prev = Inr (mr_Plan q)
   \<Longrightarrow> ManifestsAreTheSame E (gm_Manifest out) (mr_PreviousManifest q) = Inr True
   \<Longrightarrow> no_pending_changes D E dn prev tr"
  unfolding no_pending_changes_def by blast

lemma no_deploy_in_prep: "list_all is_prep tr \<Longrightarrow> BoshDeploy m c q \<notin> set tr"
  by (auto simp: list_all_iff)

lemma checkForPendingChanges_exact:
  "ensures (\<lambda>r tr. prepares r tr \<and> (r = Val (Inr ()) \<longrightarrow> (\<exists>q out. AdapterGenerateManifest q (Inr out) \<in> set tr
        \<and> mr_RequestParams q = [] \<and> mr_PreviousManifest q = old \<and> findPlan D prev = Inr (mr_Plan q)
        \<and> ManifestsAreTheSame E (gm_Manifest out) old = Inr True)))
    [] (checkForPendingChanges D E dn prev old secrets configs)"
  unfolding checkForPendingChanges_def
  by (rule ens_attempt_sub [OF GenerateManifest_exact])
     (auto intro!: ens simp: prepares_def findPlans_def split: sum.splits)

lemma Deployer_Update_pending:
  assumes "\<not> dep_SkipCheckForPendingChanges D"
  shows "ensures (\<lambda>r tr. (\<exists>m c q. BoshDeploy m c q \<in> set tr) \<longrightarrow> no_pending_changes D E dn prev tr) []
     (Deployer_Update D E dn planID params prev c secrets uaa)"
proof -
  let ?\<Phi> = "\<lambda>r tr. (\<exists>m c q. BoshDeploy m c q \<in> set tr) \<longrightarrow> no_pending_changes D E dn prev tr"
  have err: "ensures ?\<Phi> t (ret (Inl e))" if "list_all is_prep t" for t e
    using that by (auto intro!: ens simp: no_deploy_in_prep)
  have finish: "ensures ?\<Phi> t (doDeploy D E props c)"
    if "list_all is_prep t" and "no_pending_changes D E dn prev t" for t props
    by (rule ens_sub [OF doDeploy_spec]) (auto intro: no_pending_changes_append that(2))
  show ?thesis
    unfolding Deployer_Update_def pendingChangesGuard_def if_P [OF assms]
  proof (rule ens_prepare [OF ensures_mono [OF assertNoOperationsInProgress_spec] _ err])
    fix t assume t: "list_all is_prep t"
    show "ensures ?\<Phi> t (attempt (getDeploymentManifest E dn) (\<lambda>err. ret (Inl err)) (\<lambda>oldManifest.
     attempt (getOldConfigs D E dn) (\<lambda>err. ret (Inl err)) (\<lambda>oldConfigs.
     attempt (checkForPendingChanges D E dn prev oldManifest secrets oldConfigs) (\<lambda>err. ret (Inl err)) (\<lambda>_.
     doDeploy D E \<lparr> gp_DeploymentName = dn, gp_PlanID = planID, gp_RequestParams = params,
        gp_OldManifest = oldManifest, gp_PreviousPlanID = Some prev, gp_SecretsMap = secrets,
        gp_PreviousConfigs = oldConfigs, gp_UAAClient = uaa \<rparr> c))))"
    proof (rule ens_attempt_sub [OF getDeploymentManifest_exact])
      fix old d
      assume "(\<exists>m. d = [BoshGetDeployment dn (Inr (m, True))] \<and> Val (Inr old) = Val (Inr m))
        \<or> (\<exists>q e. d = [BoshGetDeployment dn q] \<and> Val (Inr old) = Val (Inl e))"
      then have d': "d = [BoshGetDeployment dn (Inr (old, True))]" by auto
      show "ensures ?\<Phi> (t @ d) (attempt (getOldConfigs D E dn) (\<lambda>err. ret (Inl err)) (\<lambda>oldConfigs.
        attempt (checkForPendingChanges D E dn prev old secrets oldConfigs) (\<lambda>err. ret (Inl err)) (\<lambda>_.
        doDeploy D E \<lparr> gp_DeploymentName = dn, gp_PlanID = planID, gp_RequestParams = params,
          gp_OldManifest = old, gp_PreviousPlanID = Some prev, gp_SecretsMap = secrets,
          gp_PreviousConfigs = oldConfigs, gp_UAAClient = uaa \<rparr> c)))"
      proof (rule ens_attempt_sub [OF getOldConfigs_spec])
        fix configs d2
        assume d2: "prepares (Val (Inr configs :: gerr + smap)) d2"
        show "ensures ?\<Phi> ((t @ d) @ d2)
          (attempt (checkForPendingChanges D E dn prev old secrets configs) (\<lambda>err. ret (Inl err)) (\<lambda>_.
          doDeploy D E \<lparr> gp_DeploymentName = dn, gp_PlanID = planID, gp_RequestParams = params,
            gp_OldManifest = old, gp_PreviousPlanID = Some prev, gp_SecretsMap = secrets,
            gp_PreviousConfigs = configs, gp_UAAClient = uaa \<rparr> c))"
          by (rule ens_attempt_sub [OF checkForPendingChanges_exact])
             (use t d' d2 in \<open>auto intro!: err finish intro: no_pending_changesI simp: prepares_def\<close>)
      qed (use t d' in \<open>auto intro!: err simp: prepares_def\<close>)
    qed (use t in \<open>auto intro!: err\<close>)
  qed (auto simp: prepares_def)
qed

text \<open>
  Unless the check is switched off, an update is deployed only when the instance has no
  pending changes: the manifest BOSH has was regenerated with the instance's previous plan and
  no request parameters, and the result is the same manifest up to its update blocks.
\<close>

theorem update_requires_no_pending_changes:
  assumes "\<not> dep_SkipCheckForPendingChanges D"
    and "Deployer_Update D E dn planID params prev c secrets uaa s = (r, s')"
  shows "\<exists>tr. hist s' = hist s @ tr
     \<and> ((\<exists>m c q. BoshDeploy m c q \<in> set tr) \<longrightarrow> no_pending_changes D E dn prev tr)"
  using ensuresD [OF Deployer_Update_pending [OF assms(1)] assms(2)] by blast

definition sample_deployer :: deployer_config where
  "sample_deployer = \<lparr> dep_DisableBoshConfigs = False, dep_SkipCheckForPendingChanges = False,
     dep_HasBulkSetter = True, dep_SecretsOfferingID = ''svc'', gen_serviceOffering = sample_offering,
     gen_serviceReleases = JNull, gen_serviceStemcells = JNull \<rparr>"

definition deployed_env :: env where
  "deployed_env = sample_env\<lparr>o_GetDeployment := \<lambda>h n. Inr (''m'', True)\<rparr>"

theorem update_requires_no_pending_changes_witness:
  "\<exists>tr. hist (snd (Deployer_Update sample_deployer deployed_env ''dn'' ''small'' [] ''small'' '''' [] None sample_state))
          = hist sample_state @ tr
     \<and> ((\<exists>m c q. BoshDeploy m c q \<in> set tr) \<longrightarrow> no_pending_changes sample_deployer deployed_env ''dn'' ''small'' tr)"
  by (rule update_requires_no_pending_changes [OF _ prod.collapse [symmetric]])
     (simp add: sample_deployer_def)

lemma setSecrets_exact:
  assumes "dep_HasBulkSetter D"
  shows "ensures (\<lambda>r tr. (\<exists>ms e. tr = [BulkSet ms (Inl e)] \<and> r = Val (Inl e))
      \<or> (\<exists>ms. tr = [BulkSet ms (Inr ())] \<and> r = Val (Inr (ReplaceODBRefs (gm_Manifest out) ms))))
     [] (setSecrets D E dn out)"
  using assms unfolding setSecrets_def client_defs by (auto intro!: ens simp: Let_def)

definition secrets_stored :: "event \<Rightarrow> bool" where
  "secrets_stored e \<longleftrightarrow> (\<exists>ms. e = BulkSet ms (Inr ()))"

text \<open>
  When the broker manages secrets, BOSH never gets a manifest before the secrets it refers
  to were stored in CredHub: no deployment is requested until a bulk set has succeeded.
\<close>

theorem secrets_stored_before_deploy:
  assumes "dep_HasBulkSetter D"
  shows "ensures (\<lambda>r tr. guarded_by secrets_stored is_Deploy tr) [] (doDeploy D E props c)"
proof -
  have prep: "guarded_by secrets_stored is_Deploy t" if "list_all is_prep t" for t
    by (rule guarded_by_none) (use that in \<open>auto simp: list_all_iff elim!: is_Deploy.elims\<close>)
  have stored: "ensures (\<lambda>r tr. guarded_by secrets_stored is_Deploy tr) (t @ [BulkSet ms (Inr u)])
      (if dep_DisableBoshConfigs D \<and> 0 < length (gm_Configs out) then ret (Inl er)
       else attempt (writeConfigs D E (gp_DeploymentName props) (gm_Configs out)) (\<lambda>err. ret (Inl err)) (\<lambda>_.
          attempt (bosh_Deploy E manifest c) (\<lambda>err. ret (Inl (f err))) (\<lambda>boshTaskID.
          ret (Inr (boshTaskID, manifest, gm_Labels out)))))"
    if "list_all is_prep t" for t ms u out manifest f er
    unfolding client_defs using that
    by (auto intro!: ens ens_attempt_sub [OF writeConfigs_spec]
        simp: guarded_by_append prep secrets_stored_def prepares_def)
  show ?thesis
    unfolding doDeploy_def
  proof (rule ens_prepare [OF GenerateManifest_spec])
    fix out t
    assume t: "list_all is_prep t"
    show "ensures (\<lambda>r tr. guarded_by secrets_stored is_Deploy tr) t
      (attempt (setSecrets D E (gp_DeploymentName props) out) (\<lambda>err. ret (Inl err)) (\<lambda>manifest.
       if dep_DisableBoshConfigs D \<and> 0 < length (gm_Configs out)
       then ret (Inl (ErrorString ''adapter returned bosh configs but feature is turned off''))
       else attempt (writeConfigs D E (gp_DeploymentName props) (gm_Configs out)) (\<lambda>err. ret (Inl err)) (\<lambda>_.
         attempt (bosh_Deploy E manifest c)
           (\<lambda>err. ret (Inl (ErrorString (''error deploying instance: '' @ errmsg err @ [CHR 0x0A])))) (\<lambda>boshTaskID.
         ret (Inr (boshTaskID, manifest, gm_Labels out))))))"
    proof (rule ens_attempt_sub [OF setSecrets_exact [OF assms]])
      fix manifest d
      assume "(\<exists>ms e. d = [BulkSet ms (Inl e)] \<and> Val (Inr manifest) = Val (Inl e))
        \<or> (\<exists>ms. d = [BulkSet ms (Inr ())] \<and> Val (Inr manifest) = Val (Inr (ReplaceODBRefs (gm_Manifest out) ms)))"
      then obtain ms where "d = [BulkSet ms (Inr ())]" by auto
      with stored [OF t] show "ensures (\<lambda>r tr. guarded_by secrets_stored is_Deploy tr) (t @ d)
        (if dep_DisableBoshConfigs D \<and> 0 < length (gm_Configs out)
         then ret (Inl (ErrorString ''adapter returned bosh configs but feature is turned off''))
         else attempt (writeConfigs D E (gp_DeploymentName props) (gm_Configs out)) (\<lambda>err. ret (Inl err)) (\<lambda>_.
           attempt (bosh_Deploy E manifest c)
             (\<lambda>err. ret (Inl (ErrorString (''error deploying instance: '' @ errmsg err @ [CHR 0x0A])))) (\<lambda>boshTaskID.
           ret (Inr (boshTaskID, manifest, gm_Labels out)))))"
        by (simp only:)
    qed (use t in \<open>auto intro!: ens simp: guarded_by_append prep\<close>)
  qed (auto intro!: ens simp: prep)
qed

theorem secrets_stored_before_deploy_witness:
  "ensures (\<lambda>r tr. guarded_by secrets_stored is_Deploy tr) []
     (doDeploy sample_deployer sample_env \<lparr>gp_DeploymentName = ''dn'', gp_PlanID = ''small'', gp_RequestParams = [],
        gp_OldManifest = '''', gp_PreviousPlanID = None, gp_SecretsMap = [], gp_PreviousConfigs = [],
        gp_UAAClient = None\<rparr> ''ctx'')"
  by (rule secrets_stored_before_deploy) (simp add: sample_deployer_def)

end
