(* ===== verification/Decider.thy ===== *)
theory Decider
  imports Requests
begin

text \<open>
  \<open>broker/decider/decider.go\<close>: may an instance of a plan be provisioned with the maintenance
  information the platform sent, and is an update request an update, an upgrade or an error?
  The maintenance information of a plan is looked up in the first service of the catalog;
  Go's index expression panics when the catalog is empty.
\<close>

datatype Operation = Update | Upgrade | FailedOperation

definition errInstanceMustBeUpgradedFirst :: gerr where
  "errInstanceMustBeUpgradedFirst =
     FailureResponse ''service instance needs to be upgraded before updating'' 422
       ''previous-maintenance-info-check'' False ''''"

fun planMaintenanceInfo :: "ServicePlan list \<Rightarrow> string \<Rightarrow> gerr + MaintenanceInfo option" where
  "planMaintenanceInfo [] i = Inl (ErrorString (''plan '' @ i @ '' does not exist''))"
| "planMaintenanceInfo (p # ps) i =
     (if sp_ID p = i then Inr (sp_MaintenanceInfo p) else planMaintenanceInfo ps i)"

definition getMaintenanceInfoForPlan :: "string \<Rightarrow> Service list \<Rightarrow> (gerr + MaintenanceInfo option) outcome" where
  "getMaintenanceInfoForPlan i serviceCatalog = (case serviceCatalog of
      [] \<Rightarrow> Panic ''index out of range [0] with length 0''
    | s # _ \<Rightarrow> Val (planMaintenanceInfo (svc_Plans s) i))"

definition maintenanceInfoConflict :: "MaintenanceInfo option \<Rightarrow> MaintenanceInfo option \<Rightarrow> bool" where
  "maintenanceInfoConflict a b = (case (a, b) of
      (Some x, Some y) \<Rightarrow> \<not> MaintenanceInfo_Equals x y
    | (None, None) \<Rightarrow> False
    | _ \<Rightarrow> True)"

definition requestMaintenanceInfoValuesDiffer :: "UpdateDetails \<Rightarrow> bool" where
  "requestMaintenanceInfoValuesDiffer d =
     (case (ud_MaintenanceInfo d, pv_MaintenanceInfo (ud_PreviousValues d)) of
        (None, Some _) \<Rightarrow> True
      | (Some _, None) \<Rightarrow> True
      | (None, None) \<Rightarrow> False
      | (Some m, Some p) \<Rightarrow> \<not> MaintenanceInfo_Equals m p)"

definition planNotChanged :: "UpdateDetails \<Rightarrow> bool" where
  "planNotChanged d \<longleftrightarrow> ud_PlanID d = pv_PlanID (ud_PreviousValues d)"

definition requestParamsEmpty :: "UpdateDetails \<Rightarrow> bool" where
  "requestParamsEmpty d =
     (if ud_RawParameters d = WEmpty then True
      else (case unmarshalObject (ud_RawParameters d) of Inl _ \<Rightarrow> False | Inr params \<Rightarrow> length params = 0))"

definition validateMaintenanceInfo :: "Service list \<Rightarrow> string \<Rightarrow> MaintenanceInfo option \<Rightarrow> gerr option outcome" where
  "validateMaintenanceInfo catalog planID mi =
     obind (getMaintenanceInfoForPlan planID catalog) (\<lambda>r. Val (case r of
        Inl err \<Rightarrow> Some err
      | Inr planInfo \<Rightarrow>
          if maintenanceInfoConflict mi planInfo then
            if mi = None then Some WarningMaintenanceInfoNil
            else if planInfo = None then Some ErrMaintenanceInfoNilConflict
            else Some ErrMaintenanceInfoConflict
          else None))"

definition validatePreviousMaintenanceInfo :: "UpdateDetails \<Rightarrow> Service list \<Rightarrow> gerr option outcome" where
  "validatePreviousMaintenanceInfo d catalog =
     (case pv_MaintenanceInfo (ud_PreviousValues d) of
        None \<Rightarrow> Val None
      | Some prev \<Rightarrow>
          obind (getMaintenanceInfoForPlan (pv_PlanID (ud_PreviousValues d)) catalog) (\<lambda>r. Val (case r of
             Inl _ \<Rightarrow> None
           | Inr planInfo \<Rightarrow> if maintenanceInfoConflict (Some prev) planInfo
                              then Some errInstanceMustBeUpgradedFirst else None)))"

definition CanProvision :: "Service list \<Rightarrow> string \<Rightarrow> MaintenanceInfo option \<Rightarrow> gerr option outcome" where
  "CanProvision catalog planID mi =
     obind (validateMaintenanceInfo catalog planID mi) (\<lambda>err. Val (case err of
        None \<Rightarrow> None
      | Some e \<Rightarrow> if e \<noteq> WarningMaintenanceInfoNil then Some e else None))"

definition DecideOperation :: "Service list \<Rightarrow> UpdateDetails \<Rightarrow> (Operation \<times> gerr option) outcome" where
  "DecideOperation catalog d =
     obind (validateMaintenanceInfo catalog (ud_PlanID d) (ud_MaintenanceInfo d)) (\<lambda>err. case err of
        Some e \<Rightarrow>
          if e = WarningMaintenanceInfoNil then
            obind (validatePreviousMaintenanceInfo d catalog) (\<lambda>err2. Val (case err2 of
               None \<Rightarrow> (Update, None)
             | Some e2 \<Rightarrow> (FailedOperation, Some e2)))
          else Val (FailedOperation, Some e)
      | None \<Rightarrow>
          if planNotChanged d \<and> requestParamsEmpty d \<and> requestMaintenanceInfoValuesDiffer d
          then Val (Upgrade, None)
          else obind (validatePreviousMaintenanceInfo d catalog) (\<lambda>err2. Val (case err2 of
                  None \<Rightarrow> (Update, None)
                | Some e2 \<Rightarrow> (FailedOperation, Some e2))))"

section \<open>What the decision means\<close>

lemma maintenanceInfoConflict_refl [simp]: "\<not> maintenanceInfoConflict a a"
  by (simp add: maintenanceInfoConflict_def split: option.splits)

lemma maintenanceInfoConflict_sym: "maintenanceInfoConflict a b \<longleftrightarrow> maintenanceInfoConflict b a"
  by (auto simp: maintenanceInfoConflict_def MaintenanceInfo_Equals_sym split: option.splits)

lemma no_conflict_trans:
  "\<not> maintenanceInfoConflict a b \<Longrightarrow> \<not> maintenanceInfoConflict b c \<Longrightarrow> \<not> maintenanceInfoConflict a c"
  by (auto simp: maintenanceInfoConflict_def split: option.splits intro: MaintenanceInfo_Equals_trans)

lemma valuesDiffer_conflict:
  "requestMaintenanceInfoValuesDiffer d \<longleftrightarrow>
     maintenanceInfoConflict (ud_MaintenanceInfo d) (pv_MaintenanceInfo (ud_PreviousValues d))"
  by (simp add: requestMaintenanceInfoValuesDiffer_def maintenanceInfoConflict_def split: option.splits)

lemma planMaintenanceInfo_error: "planMaintenanceInfo ps i = Inl e \<Longrightarrow> e \<noteq> WarningMaintenanceInfoNil"
  by (induction ps i rule: planMaintenanceInfo.induct) (auto split: if_splits)

lemmas decider_defs = validateMaintenanceInfo_def validatePreviousMaintenanceInfo_def
  getMaintenanceInfoForPlan_def

text \<open>The catalog information of a plan, as far as the decision is concerned\<close>

definition catalogInfo :: "Service \<Rightarrow> string \<Rightarrow> MaintenanceInfo option \<Rightarrow> bool" where
  "catalogInfo s i info \<longleftrightarrow> planMaintenanceInfo (svc_Plans s) i = Inr info"

text \<open>
  An update request is an upgrade exactly when the plan is in the catalog, the request
  carries the catalog's maintenance information, the plan is not changed, no parameters are
  given and the information differs from what the instance last had.  Anything else is an
  update or an error.
\<close>

theorem decide_upgrade_iff:
  "DecideOperation (s # rest) d = Val (Upgrade, err) \<longleftrightarrow>
     err = None
     \<and> (\<exists>info. catalogInfo s (ud_PlanID d) info \<and> \<not> maintenanceInfoConflict (ud_MaintenanceInfo d) info)
     \<and> ud_PlanID d = pv_PlanID (ud_PreviousValues d) \<and> requestParamsEmpty d
     \<and> maintenanceInfoConflict (ud_MaintenanceInfo d) (pv_MaintenanceInfo (ud_PreviousValues d))"
  by (auto simp: DecideOperation_def decider_defs catalogInfo_def planNotChanged_def valuesDiffer_conflict
      dest: planMaintenanceInfo_error split: sum.splits option.splits if_splits)

text \<open>
  An update is never let through on an instance that is behind the catalog: when the
  decision is Update and the platform reported the maintenance information the instance had,
  then that information equals what the catalog has for the instance's previous plan (if that
  plan is still in the catalog).
\<close>

theorem decide_update_up_to_date:
  assumes "DecideOperation (s # rest) d = Val (Update, err)"
    and "pv_MaintenanceInfo (ud_PreviousValues d) = Some prev"
    and "catalogInfo s (pv_PlanID (ud_PreviousValues d)) info"
  shows "err = None \<and> (\<exists>m. info = Some m \<and> MaintenanceInfo_Equals prev m)"
proof -
  from assms have "err = None \<and> \<not> maintenanceInfoConflict (Some prev) info"
    by (auto simp: DecideOperation_def decider_defs catalogInfo_def
        split: sum.splits option.splits if_splits)
  then show ?thesis by (auto simp: maintenanceInfoConflict_def split: option.splits)
qed

definition example_info :: "string \<Rightarrow> MaintenanceInfo" where
  "example_info v = \<lparr> mi_Public = None, mi_Private = '''', mi_Version = v, mi_Description = '''' \<rparr>"

definition example_service :: "string \<Rightarrow> Service" where
  "example_service v = \<lparr> svc_ID = ''svc'', svc_Name = ''svc'', svc_Description = '''', svc_Bindable = True,
     svc_PlanUpdatable = True,
     svc_Plans = [\<lparr> sp_ID = ''small'', sp_Name = ''small'', sp_Description = '''', sp_Free = None,
        sp_Bindable = None,
        sp_Metadata = \<lparr> pm_DisplayName = '''', pm_Bullets = [], pm_Costs = [], pm_AdditionalMetadata = [] \<rparr>,
        sp_MaintenanceInfo = Some (example_info v), sp_Schemas = None \<rparr>],
     svc_Metadata = \<lparr> sm_DisplayName = '''', sm_ImageURL = '''', sm_LongDescription = '''',
        sm_ProviderDisplayName = '''', sm_DocumentationURL = '''', sm_SupportURL = '''',
        sm_Shareable = False, sm_AdditionalMetadata = [] \<rparr>,
     svc_DashboardClient = None, svc_Requires = [], svc_Tags = [] \<rparr>"

definition example_update :: UpdateDetails where
  "example_update = \<lparr> ud_ServiceID = ''svc'', ud_PlanID = ''small'', ud_RawParameters = WEmpty,
     ud_PreviousValues = \<lparr> pv_PlanID = ''small'', pv_ServiceID = ''svc'', pv_OrgID = '''',
        pv_SpaceID = '''', pv_MaintenanceInfo = Some (example_info ''1.0'') \<rparr>,
     ud_RawContext = WEmpty, ud_MaintenanceInfo = Some (example_info ''1.0'') \<rparr>"

theorem decide_update_up_to_date_witness:
  "\<exists>m. Some (example_info ''1.0'') = Some m \<and> MaintenanceInfo_Equals (example_info ''1.0'') m"
proof -
  have "DecideOperation [example_service ''1.0''] example_update = Val (Update, None)"
    by (simp add: DecideOperation_def decider_defs example_service_def example_update_def
        planNotChanged_def requestParamsEmpty_def valuesDiffer_conflict)
  moreover have "pv_MaintenanceInfo (ud_PreviousValues example_update) = Some (example_info ''1.0'')"
    by (simp add: example_update_def)
  moreover have "catalogInfo (example_service ''1.0'') (pv_PlanID (ud_PreviousValues example_update))
      (Some (example_info ''1.0''))"
    by (simp add: catalogInfo_def example_service_def example_update_def)
  ultimately show ?thesis by (blast dest: decide_update_up_to_date)
qed

text \<open>
  Provisioning is allowed exactly when the plan is in the catalog and the platform either
  sent no maintenance information or sent the information the catalog has for the plan.
\<close>

theorem canProvision_iff:
  "CanProvision (s # rest) planID mi = Val None \<longleftrightarrow>
     (\<exists>info. catalogInfo s planID info \<and> \<not> (mi \<noteq> None \<and> maintenanceInfoConflict mi info))"
  by (auto simp: CanProvision_def decider_defs catalogInfo_def ErrMaintenanceInfoConflict_def
      ErrMaintenanceInfoNilConflict_def dest: planMaintenanceInfo_error
      split: sum.splits option.splits if_splits)

end
