(* ===== verification/Quotas.thy ===== *)
theory Quotas
  imports Requests
begin

text \<open>
  \<open>broker/quotas.go\<close>: the admission control of Provision and Update.  Counts, costs and limits
  are Go \<open>int\<close>s, so sums and products wrap at 64 bits.  The quota maps are association lists
  whose order is the order Go iterates in; it shows only in the text of the error.
\<close>

definition convertCfPlanCounts :: "(CFServicePlan \<times> int) list \<Rightarrow> (string \<times> int) list" where
  "convertCfPlanCounts cfPlanCounts =
     foldl (\<lambda>m (plan, count). map_set (cfsp_UniqueID plan) count m) [] cfPlanCounts"

text \<open>Indexing a Go map: the zero value for a missing key\<close>

definition countOf :: "(string \<times> int) list \<Rightarrow> string \<Rightarrow> int" where
  "countOf planCounts i = (case map_of planCounts i of None \<Rightarrow> 0 | Some c \<Rightarrow> c)"

definition resourceCost :: "Plan \<Rightarrow> string \<Rightarrow> int" where
  "resourceCost p kind = (case Resources (plan_Quotas p) of None \<Rightarrow> 0
     | Some m \<Rightarrow> (case map_of m kind of None \<Rightarrow> 0 | Some q \<Rightarrow> quota_Cost q))"

definition checkPlanServiceCount :: "Plan \<Rightarrow> (string \<times> int) list \<Rightarrow> int \<Rightarrow> string \<Rightarrow> gerr option" where
  "checkPlanServiceCount plan planCounts planInstanceLimit serviceOffering =
     (case map_of planCounts (plan_ID plan) of
        Some count \<Rightarrow> if planInstanceLimit \<le> count
          then Some (ErrorString (''plan instance limit exceeded for service ID: '' @ serviceOffering
                 @ ''. Total instances: '' @ show_int count))
          else None
      | None \<Rightarrow> None)"

definition totalInstances :: "(string \<times> int) list \<Rightarrow> int" where
  "totalInstances planCounts = foldl (\<lambda>total (_, count). wrap64 (total + count)) 0 planCounts"

definition checkGlobalServiceCount :: "(string \<times> int) list \<Rightarrow> int \<Rightarrow> string \<Rightarrow> gerr option" where
  "checkGlobalServiceCount planCounts instanceLimit serviceOffering =
     (if instanceLimit \<le> totalInstances planCounts
      then Some (ErrorString (''global instance limit exceeded for service ID: '' @ serviceOffering
             @ ''. Total instances: '' @ show_int (totalInstances planCounts)))
      else None)"

record exceededQuota =
  eq_name :: string
  eq_limit :: int
  eq_usage :: int
  eq_required :: int

definition quotaDetails :: "exceededQuota list \<Rightarrow> string" where
  "quotaDetails qs = join '', '' (map (\<lambda>q. eq_name q @ '': (limit '' @ show_int (eq_limit q)
      @ '', used '' @ show_int (eq_usage q) @ '', requires '' @ show_int (eq_required q) @ '')'') qs)"

definition globalUsage :: "Plan \<Rightarrow> Plan list \<Rightarrow> (string \<times> int) list \<Rightarrow> string \<Rightarrow> int" where
  "globalUsage plan plans planCounts kind =
     foldl (\<lambda>currentUsage p.
        let instanceCount = countOf planCounts (plan_ID plan); cost = resourceCost p kind in
        if cost \<noteq> 0 then wrap64 (currentUsage + wrap64 (cost * instanceCount)) else currentUsage) 0 plans"

fun globalExceeded :: "Plan \<Rightarrow> Plan list \<Rightarrow> (string \<times> int) list \<Rightarrow> (string \<times> ResourceQuota) list \<Rightarrow> exceededQuota list" where
  "globalExceeded plan plans planCounts [] = []"
| "globalExceeded plan plans planCounts ((kind, quota) # rest) =
     (let currentUsage = globalUsage plan plans planCounts kind;
          required = resourceCost plan kind in
      if quota_Limit quota < wrap64 (currentUsage + required)
      then \<lparr> eq_name = kind, eq_limit = quota_Limit quota, eq_usage = currentUsage, eq_required = required \<rparr>
           # globalExceeded plan plans planCounts rest
      else globalExceeded plan plans planCounts rest)"

definition checkGlobalResourceQuotaNotExceeded ::
  "Plan \<Rightarrow> Plan list \<Rightarrow> (string \<times> int) list \<Rightarrow> (string \<times> ResourceQuota) list \<Rightarrow> gerr option" where
  "checkGlobalResourceQuotaNotExceeded plan plans planCounts globalResourceQuota =
     (case globalExceeded plan plans planCounts globalResourceQuota of
        [] \<Rightarrow> None
      | qs \<Rightarrow> Some (ErrorString (''global quotas ['' @ quotaDetails qs
                 @ ''] would be exceeded by this deployment'')))"

definition planUsage :: "Plan \<Rightarrow> (string \<times> int) list \<Rightarrow> string \<Rightarrow> int" where
  "planUsage plan planCounts kind =
     (let instanceCount = countOf planCounts (plan_ID plan); cost = resourceCost plan kind in
      if cost \<noteq> 0 then wrap64 (cost * instanceCount) else 0)"

fun planExceeded :: "Plan \<Rightarrow> (string \<times> int) list \<Rightarrow> (string \<times> ResourceQuota) list \<Rightarrow> exceededQuota list" where
  "planExceeded plan planCounts [] = []"
| "planExceeded plan planCounts ((kind, quota) # rest) =
     (let currentUsage = planUsage plan planCounts kind; cost = resourceCost plan kind in
      if quota_Limit quota \<noteq> 0 \<and> quota_Limit quota < wrap64 (currentUsage + cost)
      then \<lparr> eq_name = kind, eq_limit = quota_Limit quota, eq_usage = currentUsage, eq_required = cost \<rparr>
           # planExceeded plan planCounts rest
      else planExceeded plan planCounts rest)"

definition checkPlanResourceQuotaNotExceeded ::
  "Plan \<Rightarrow> (string \<times> int) list \<Rightarrow> (string \<times> ResourceQuota) list \<Rightarrow> gerr option" where
  "checkPlanResourceQuotaNotExceeded plan planCounts planResourceQuota =
     (case planExceeded plan planCounts planResourceQuota of
        [] \<Rightarrow> None
      | qs \<Rightarrow> Some (ErrorString (''plan quotas ['' @ quotaDetails qs
                 @ ''] would be exceeded by this deployment'')))"

definition option_list :: "'a option \<Rightarrow> 'a list" where
  "option_list r = (case r of None \<Rightarrow> [] | Some x \<Rightarrow> [x])"

definition quotaErrors :: "ServiceOffering \<Rightarrow> Plan \<Rightarrow> (string \<times> int) list \<Rightarrow> string \<Rightarrow> gerr list" where
  "quotaErrors offering plan planCounts serviceOffering =
     (case ServiceInstanceLimit (plan_Quotas plan) of None \<Rightarrow> []
      | Some l \<Rightarrow> option_list (checkPlanServiceCount plan planCounts l serviceOffering))
     @ (case ServiceInstanceLimit (off_GlobalQuotas offering) of None \<Rightarrow> []
      | Some l \<Rightarrow> option_list (checkGlobalServiceCount planCounts l serviceOffering))
     @ (case Resources (off_GlobalQuotas offering) of None \<Rightarrow> []
      | Some q \<Rightarrow> option_list (checkGlobalResourceQuotaNotExceeded plan (off_Plans offering) planCounts q))
     @ (case Resources (plan_Quotas plan) of None \<Rightarrow> []
      | Some q \<Rightarrow> option_list (checkPlanResourceQuotaNotExceeded plan planCounts q))"

text \<open>\<open>None\<close> is Go's \<open>nil, true\<close>; \<open>Some e\<close> is \<open>e, false\<close>.\<close>

definition checkQuotas :: "ServiceOffering \<Rightarrow> Plan \<Rightarrow> (CFServicePlan \<times> int) list \<Rightarrow> string \<Rightarrow> gerr option" where
  "checkQuotas offering plan cfPlanCounts serviceOffering =
     (let errs = quotaErrors offering plan (convertCfPlanCounts cfPlanCounts) serviceOffering in
      if 0 < length errs then Some (ErrorString (join '', '' (map errmsg errs))) else None)"

section \<open>What admission guarantees\<close>

lemma option_list_empty [simp]: "option_list r = [] \<longleftrightarrow> r = None"
  by (cases r) (auto simp: option_list_def)

lemma checkQuotas_ok:
  "checkQuotas off plan counts sid = None \<longleftrightarrow> quotaErrors off plan (convertCfPlanCounts counts) sid = []"
  by (simp add: checkQuotas_def Let_def)

lemma planExceeded_empty:
  "planExceeded plan counts qs = [] \<longleftrightarrow>
     (\<forall>(kind, q)\<in>set qs. quota_Limit q = 0
        \<or> wrap64 (planUsage plan counts kind + resourceCost plan kind) \<le> quota_Limit q)"
  by (induction plan counts qs rule: planExceeded.induct) (auto simp: Let_def)

lemma globalExceeded_empty:
  "globalExceeded plan plans counts qs = [] \<longleftrightarrow>
     (\<forall>(kind, q)\<in>set qs.
        wrap64 (globalUsage plan plans counts kind + resourceCost plan kind) \<le> quota_Limit q)"
  by (induction plan plans counts qs rule: globalExceeded.induct) (auto simp: Let_def)

lemma planUsage_exact:
  "in_int64 (resourceCost plan kind * countOf counts (plan_ID plan))
   \<Longrightarrow> planUsage plan counts kind = resourceCost plan kind * countOf counts (plan_ID plan)"
  by (simp add: planUsage_def Let_def)

lemma foldl_wrap64:
  "foldl (\<lambda>t x. wrap64 (t + f x)) (wrap64 a) xs = wrap64 (a + sum_list (map f xs))"
  by (induction xs arbitrary: a) (simp_all add: wrap64_add algebra_simps)

lemma totalInstances_sum: "totalInstances counts = wrap64 (sum_list (map snd counts))"
  using foldl_wrap64 [of snd 0 counts]
  by (simp add: totalInstances_def case_prod_unfold in_int64_def)

lemma foldl_wrap64_cond:
  "foldl (\<lambda>u x. if c x \<noteq> 0 then wrap64 (u + wrap64 (c x * n)) else u) (wrap64 a) xs
   = wrap64 (a + sum_list (map c xs) * n)"
proof (induction xs arbitrary: a)
  case (Cons x xs)
  have "wrap64 (wrap64 a + wrap64 (c x * n)) = wrap64 (a + c x * n)"
    using wrap64_add [of a "wrap64 (c x * n)"] wrap64_add [of "c x * n" a] by (simp add: add.commute)
  then show ?case using Cons [of "a + c x * n"] Cons [of a] by (simp add: algebra_simps)
qed simp

lemma globalUsage_sum:
  "globalUsage plan plans counts kind =
     wrap64 (sum_list (map (\<lambda>p. resourceCost p kind) plans) * countOf counts (plan_ID plan))"
  using foldl_wrap64_cond [of "\<lambda>p. resourceCost p kind" "countOf counts (plan_ID plan)" 0 plans]
  by (simp add: globalUsage_def Let_def in_int64_def)

text \<open>
  C29.  Instance limits: when the quota check passes, provisioning one more instance of the plan
  keeps the plan at or below its own instance limit (a plan Cloud Foundry does not list is not
  counted), and keeps the service at or below the global one, as long as the total number of
  instances is a 64-bit integer.
\<close>

theorem quotas_instance_limits:
  assumes "checkQuotas offering plan cfCounts sid = None"
    and "in_int64 (sum_list (map snd (convertCfPlanCounts cfCounts)))"
  shows "(\<forall>limit count. ServiceInstanceLimit (plan_Quotas plan) = Some limit
            \<and> map_of (convertCfPlanCounts cfCounts) (plan_ID plan) = Some count \<longrightarrow> count + 1 \<le> limit)
       \<and> (\<forall>limit. ServiceInstanceLimit (off_GlobalQuotas offering) = Some limit
            \<longrightarrow> sum_list (map snd (convertCfPlanCounts cfCounts)) + 1 \<le> limit)"
  using assms
  by (auto simp: checkQuotas_ok quotaErrors_def checkPlanServiceCount_def checkGlobalServiceCount_def
      totalInstances_sum split: if_splits)

text \<open>
  Plan resource quotas: when the quota check passes, one more instance of the plan stays
  within every non-zero limit of the plan's resource quota, counting all instances of the plan
  at the plan's cost (no 64-bit overflow assumed).
\<close>

theorem quotas_plan_resources:
  assumes "checkQuotas offering plan cfCounts sid = None"
    and "Resources (plan_Quotas plan) = Some qs" and "(kind, q) \<in> set qs" and "quota_Limit q \<noteq> 0"
    and "n = countOf (convertCfPlanCounts cfCounts) (plan_ID plan)"
    and "in_int64 (resourceCost plan kind * n)" and "in_int64 (resourceCost plan kind * (n + 1))"
  shows "resourceCost plan kind * (n + 1) \<le> quota_Limit q"
proof -
  from assms(1,2) have "planExceeded plan (convertCfPlanCounts cfCounts) qs = []"
    by (auto simp: checkQuotas_ok quotaErrors_def checkPlanResourceQuotaNotExceeded_def split: list.splits)
  with assms(3,4) have
    "wrap64 (planUsage plan (convertCfPlanCounts cfCounts) kind + resourceCost plan kind) \<le> quota_Limit q"
    by (auto simp: planExceeded_empty)
  with assms(5-7) show ?thesis by (simp add: planUsage_exact algebra_simps)
qed

text \<open>
  Global resource quotas: the check charges every plan of the catalog with the number of
  instances of the plan being requested.  When it passes, the sum of all plans' costs times that
  number, plus the cost of the new instance, stays within each global limit.
\<close>

theorem quotas_global_resources_as_coded:
  assumes "checkQuotas offering plan cfCounts sid = None"
    and "Resources (off_GlobalQuotas offering) = Some qs" and "(kind, q) \<in> set qs"
    and "usage = sum_list (map (\<lambda>p. resourceCost p kind) (off_Plans offering))
                 * countOf (convertCfPlanCounts cfCounts) (plan_ID plan)"
    and "in_int64 usage" and "in_int64 (usage + resourceCost plan kind)"
  shows "usage + resourceCost plan kind \<le> quota_Limit q"
proof -
  from assms(1,2) have "globalExceeded plan (off_Plans offering) (convertCfPlanCounts cfCounts) qs = []"
    by (auto simp: checkQuotas_ok quotaErrors_def checkGlobalResourceQuotaNotExceeded_def split: list.splits)
  with assms(3-6) show ?thesis by (auto simp: globalExceeded_empty globalUsage_sum)
qed

section \<open>Examples\<close>

definition quota_plan :: "string \<Rightarrow> int \<Rightarrow> Plan" where
  "quota_plan i cost = zeroPlan\<lparr>plan_ID := i, plan_Quotas := \<lparr> ServiceInstanceLimit = Some 10,
     Resources = Some [(''ips'', \<lparr> quota_Limit = 50, quota_Cost = cost \<rparr>)] \<rparr>\<rparr>"

definition quota_offering :: ServiceOffering where
  "quota_offering = \<lparr> off_ID = ''svc'', off_Name = ''svc'', off_Description = '''', off_Bindable = True,
     off_PlanUpdatable = True, off_Requires = [],
     off_Metadata = \<lparr> sm_DisplayName = '''', sm_ImageURL = '''', sm_LongDescription = '''',
        sm_ProviderDisplayName = '''', sm_DocumentationURL = '''', sm_SupportURL = '''',
        sm_Shareable = False, sm_AdditionalMetadata = [] \<rparr>,
     off_DashboardClient = None, off_Tags = [], off_GlobalProperties = [],
     off_GlobalQuotas = \<lparr> ServiceInstanceLimit = Some 100,
        Resources = Some [(''ips'', \<lparr> quota_Limit = 20, quota_Cost = 0 \<rparr>)] \<rparr>,
     off_Plans = [quota_plan ''large'' 10, quota_plan ''small'' 1], off_MaintenanceInfo = None \<rparr>"

definition cf_counts :: "int \<Rightarrow> int \<Rightarrow> (CFServicePlan \<times> int) list" where
  "cf_counts large small =
     [(\<lparr> cfsp_GUID = ''g1'', cfsp_UniqueID = ''large'', cfsp_Name = ''large'' \<rparr>, large),
      (\<lparr> cfsp_GUID = ''g2'', cfsp_UniqueID = ''small'', cfsp_Name = ''small'' \<rparr>, small)]"

lemmas quota_example_defs = quota_plan_def quota_offering_def cf_counts_def convertCfPlanCounts_def
  zeroPlan_def

lemma quota_example_passes:
  "checkQuotas quota_offering (quota_plan ''small'' 1) (cf_counts 5 0) ''svc'' = None"
  by (simp add: checkQuotas_ok quotaErrors_def quota_example_defs checkPlanServiceCount_def
      checkGlobalServiceCount_def totalInstances_def checkGlobalResourceQuotaNotExceeded_def
      checkPlanResourceQuotaNotExceeded_def globalUsage_def planUsage_def resourceCost_def countOf_def
      in_int64_def)

theorem quotas_instance_limits_witness:
  "map_of (convertCfPlanCounts (cf_counts 5 0)) ''small'' = Some 0 \<and> (0::int) + 1 \<le> 10"
proof -
  have c: "map_of (convertCfPlanCounts (cf_counts 5 0)) ''small'' = Some 0"
    by (simp add: quota_example_defs)
  have "in_int64 (sum_list (map snd (convertCfPlanCounts (cf_counts 5 0))))"
    by (simp add: quota_example_defs in_int64_def)
  from quotas_instance_limits [OF quota_example_passes this] c show ?thesis
    by (simp add: quota_plan_def zeroPlan_def)
qed

theorem quotas_plan_resources_witness: "resourceCost (quota_plan ''small'' 1) ''ips'' * (0 + 1) \<le> 50"
  using quotas_plan_resources [OF quota_example_passes, of "[(''ips'', \<lparr> quota_Limit = 50, quota_Cost = 1 \<rparr>)]"
      "''ips''" "\<lparr> quota_Limit = 50, quota_Cost = 1 \<rparr>" 0]
  by (simp add: quota_example_defs resourceCost_def countOf_def in_int64_def)

theorem quotas_global_resources_as_coded_witness:
  "(0::int) + resourceCost (quota_plan ''small'' 1) ''ips'' \<le> 20"
  using quotas_global_resources_as_coded [OF quota_example_passes,
      of "[(''ips'', \<lparr> quota_Limit = 20, quota_Cost = 0 \<rparr>)]" "''ips''" "\<lparr> quota_Limit = 20, quota_Cost = 0 \<rparr>" 0]
  by (simp add: quota_example_defs resourceCost_def countOf_def in_int64_def)

text \<open>
  The global resource quota is not enforced: with five instances of a plan costing ten
  addresses each and a global limit of twenty, fifty addresses are in use, and yet the check
  lets a further instance of another plan through.
\<close>

theorem global_quota_not_enforced:
  "checkQuotas quota_offering (quota_plan ''small'' 1) (cf_counts 5 0) ''svc'' = None
   \<and> sum_list (map (\<lambda>p. resourceCost p ''ips'' * countOf (convertCfPlanCounts (cf_counts 5 0)) (plan_ID p))
        (off_Plans quota_offering)) = 50
   \<and> Resources (off_GlobalQuotas quota_offering) = Some [(''ips'', \<lparr> quota_Limit = 20, quota_Cost = 0 \<rparr>)]"
  by (simp add: quota_example_passes, simp add: quota_example_defs resourceCost_def countOf_def)

end
