(* ===== verification/Broker.thy ===== *)
theory Broker
  imports Deployer Decider Quotas
begin

text \<open>
  The broker object of \<open>broker/broker.go\<close> and its smaller operations: construction with the
  startup checks, reading the deployment an operation works on (\<open>broker/broker_helpers.go\<close>),
  listing and counting instances (\<open>broker/instances.go\<close>, \<open>broker/count_instances.go\<close>), orphan
  deployments (\<open>broker/orphan_deployments.go\<close>), the endpoints that are not implemented
  (\<open>broker/get_instance.go\<close>, \<open>broker/get_binding.go\<close>, \<open>broker/last_binding_operation.go\<close>) and
  the validation of parameters against a plan's JSON schema (\<open>broker/schema.go\<close>).
  The clients behind the broker's interfaces are in \<open>env\<close>; the deployer is a field.
\<close>

record BrokerConfig =
  cfg_ExposeOperationalErrors :: bool
  cfg_EnablePlanSchemas :: bool
  cfg_EnableSecureManifests :: bool
  cfg_DisableBoshConfigs :: bool
  cfg_SupportBackupAgentBinding :: bool

record Broker =
  b_deployer :: deployer
  b_serviceOffering :: ServiceOffering
  ExposeOperationalErrors :: bool
  EnablePlanSchemas :: bool
  EnableSecureManifests :: bool
  SupportBackupAgentBinding :: bool
  DisableBoshConfigs :: bool

text \<open>\<open>startupCheckers\<close> is the answer of each checker's \<open>Check()\<close>, in order.\<close>

fun startupCheckErrMessages :: "gerr option list \<Rightarrow> string list" where
  "startupCheckErrMessages [] = []"
| "startupCheckErrMessages (c # cs) =
     (case c of Some err \<Rightarrow> errmsg err # startupCheckErrMessages cs | None \<Rightarrow> startupCheckErrMessages cs)"

definition Broker_New :: "deployer \<Rightarrow> ServiceOffering \<Rightarrow> BrokerConfig \<Rightarrow> gerr option list \<Rightarrow> gerr + Broker" where
  "Broker_New deployer serviceOffering brokerConfig startupCheckers =
     (let b = \<lparr> b_deployer = deployer, b_serviceOffering = serviceOffering,
            ExposeOperationalErrors = cfg_ExposeOperationalErrors brokerConfig,
            EnablePlanSchemas = cfg_EnablePlanSchemas brokerConfig,
            EnableSecureManifests = cfg_EnableSecureManifests brokerConfig,
            SupportBackupAgentBinding = cfg_SupportBackupAgentBinding brokerConfig,
            DisableBoshConfigs = cfg_DisableBoshConfigs brokerConfig \<rparr>;
          messages = startupCheckErrMessages startupCheckers in
      if 0 < length messages
      then Inl (ErrorString (''The following broker startup checks failed: '' @ join ''; '' messages))
      else Inr b)"

definition b_processError :: "Broker \<Rightarrow> gerr \<Rightarrow> gerr" where
  "b_processError b err = processError (ExposeOperationalErrors b) err"

text \<open>\<open>return ..., b.processError(err, logger)\<close>\<close>

definition b_fail :: "Broker \<Rightarrow> gerr \<Rightarrow> (gerr + 'a) broker_m" where
  "b_fail b err = ret (Inl (b_processError b err))"

section \<open>Endpoints without an implementation\<close>

definition GetInstance :: "gerr" where
  "GetInstance = FailureResponse ''GetInstance Not Implemented'' 404 '''' False ''''"

definition GetBinding :: "gerr" where
  "GetBinding = FailureResponse ''GetBinding Not Implemented'' 404 '''' False ''''"

definition LastBindingOperation :: "gerr" where
  "LastBindingOperation = FailureResponse ''LastBindingOperation Not Implemented'' 404 '''' False ''''"

section \<open>Reading a deployment\<close>

definition getDeploymentInfo :: "env \<Rightarrow> string \<Rightarrow> context_info \<Rightarrow> string \<Rightarrow> (gerr + (string \<times> json)) broker_m" where
  "getDeploymentInfo E iid ctx verb =
     attempt (bosh_GetDeployment E (deploymentName iid))
       (\<lambda>err. ret (Inl (NewGenericError ctx (errorf ''gathering deployment list '' err)))) (\<lambda>(manifest, found).
     if \<not> found then
       ret (Inl (DisplayableError ErrInstanceDoesNotExist
         (ErrorString (''error '' @ verb @ ''ing: instance '' @ iid @ '', not found''))))
     else
       attempt (bosh_VMs E (deploymentName iid))
         (\<lambda>err. ret (Inl (NewGenericError ctx (errorf (''gathering '' @ verb @ ''ing info '') err)))) (\<lambda>vms.
       ret (Inr (manifest, vms))))"

section \<open>Instances and orphan deployments\<close>

definition Instances :: "Broker \<Rightarrow> env \<Rightarrow> smap \<Rightarrow> (gerr + Instance list) broker_m" where
  "Instances b E flt =
     attempt (lister_Instances E flt) (\<lambda>err. b_fail b err) (\<lambda>instances. ret (Inr instances))"

definition CountInstancesOfPlans :: "Broker \<Rightarrow> env \<Rightarrow> (gerr + (CFServicePlan \<times> int) list) broker_m" where
  "CountInstancesOfPlans b E = cf_CountInstancesOfServiceOffering E (off_ID (b_serviceOffering b))"

fun orphanNames :: "string list \<Rightarrow> string list \<Rightarrow> string list" where
  "orphanNames instanceIDs [] = []"
| "orphanNames instanceIDs (name # names) =
     (if \<not> has_prefix name InstancePrefix then orphanNames instanceIDs names
      else if \<not> List.member instanceIDs (instanceID name) then name # orphanNames instanceIDs names
      else orphanNames instanceIDs names)"

definition OrphanDeployments :: "Broker \<Rightarrow> env \<Rightarrow> (gerr + string list) broker_m" where
  "OrphanDeployments b E =
     attempt (Instances b E []) (\<lambda>err. b_fail b err) (\<lambda>rawInstances.
     attempt (bosh_GetDeployments E) (\<lambda>err. b_fail b err) (\<lambda>deployments.
     ret (Inr (orphanNames (map inst_GUID rawInstances) deployments))))"

section \<open>Validation against a JSON schema\<close>

record Validator =
  v_rawSchema :: "(string \<times> json) list"
  v_schemaLoaded :: bool

definition NewValidator :: "(string \<times> json) list \<Rightarrow> Validator" where
  "NewValidator raw = \<lparr> v_rawSchema = raw, v_schemaLoaded = False \<rparr>"

definition ValidateSchema :: "env \<Rightarrow> Validator \<Rightarrow> gerr option \<times> Validator" where
  "ValidateSchema E v = (case map_of (v_rawSchema v) ''$schema'' of
      None \<Rightarrow> (Some (ErrorString ''failed validating schema - no JSON Schema provided''), v)
    | Some version \<Rightarrow>
        if version \<noteq> JStr ''http://json-schema.org/draft-04/schema#''
        then (Some (ErrorString ''failed validating schema - only JSON Schema version draft-04 is supported''), v)
        else if \<not> schemaConforms E (v_rawSchema v)
        then (Some (ErrorString ''failed validating schema - schema does not conform to JSON Schema spec''), v)
        else (None, v\<lparr>v_schemaLoaded := True\<rparr>))"

definition validateLoaded :: "env \<Rightarrow> Validator \<Rightarrow> (string \<times> json) list \<Rightarrow> gerr option" where
  "validateLoaded E v params = (case schemaErrors E (v_rawSchema v) params of
      Inl _ \<Rightarrow> Some (ErrorString ''error occurred when attempting to validate against JSON schema'')
    | Inr [] \<Rightarrow> None
    | Inr errs \<Rightarrow> Some (ErrorString (''validation against JSON schema failed:'' @ [CHR 0x0A] @ join ''; '' errs)))"

definition ValidateParams :: "env \<Rightarrow> Validator \<Rightarrow> (string \<times> json) list \<Rightarrow> gerr option \<times> Validator" where
  "ValidateParams E v params =
     (if \<not> v_schemaLoaded v then
        (case ValidateSchema E v of
           (Some err, v') \<Rightarrow> (Some err, v')
         | (None, v') \<Rightarrow> (validateLoaded E v' params, v'))
      else (validateLoaded E v params, v))"

text \<open>The plan schema the adapter generates, as the three operations that use it ask for it\<close>

definition schemasNotImplemented :: gerr where
  "schemasNotImplemented = ErrorString ''enable_plan_schemas is set to true, but the service adapter does not implement generate-plan-schemas''"

definition adapterPlanSchemas :: "Broker \<Rightarrow> env \<Rightarrow> Plan \<Rightarrow> (gerr + ServiceSchemas) broker_m" where
  "adapterPlanSchemas b E plan =
     attempt (adapter_GeneratePlanSchema E (AdapterPlan plan (off_GlobalProperties (b_serviceOffering b))))
       (\<lambda>err. case err of NotImplementedError _ \<Rightarrow> ret (Inl schemasNotImplemented) | _ \<Rightarrow> ret (Inl err))
       (\<lambda>schemas. ret (Inr schemas))"

section \<open>Facts\<close>

lemma orphanNames_filter:
  "orphanNames ids names =
     filter (\<lambda>n. \<exists>i. n = deploymentName i \<and> i \<notin> set ids) names"
proof (induction names)
  case (Cons n names)
  have "has_prefix n InstancePrefix \<longleftrightarrow> (\<exists>i. n = deploymentName i)"
    by (auto simp: deploymentName_def dest: has_prefixE)
  then show ?case using Cons by (auto simp: deploymentName_inj)
qed simp

text \<open>
  Orphan deployments are exact: whenever the operation succeeds, the names it returns are, in
  BOSH's order, those deployments that carry the name of a service instance which the platform
  does not list, where both lists are the answers of this very call.  Deployments without the
  service-instance prefix are never reported, and an error of either call gives an error.
\<close>

theorem orphan_deployments_exact:
  "ensures (\<lambda>r tr.
      (\<exists>insts names. tr = [ListInstances [] (Inr insts), BoshGetDeployments (Inr names)]
         \<and> r = Val (Inr (filter (\<lambda>n. \<exists>i. n = deploymentName i \<and> i \<notin> inst_GUID ` set insts) names)))
      \<or> (\<exists>e. tr = [ListInstances [] (Inl e)] \<and> r = Val (Inl (b_processError b (b_processError b e))))
      \<or> (\<exists>insts e. tr = [ListInstances [] (Inr insts), BoshGetDeployments (Inl e)]
         \<and> r = Val (Inl (b_processError b e))))
    [] (OrphanDeployments b E)"
proof -
  have inst: "ensures (\<lambda>r tr. (\<exists>insts. tr = [ListInstances [] (Inr insts)] \<and> r = Val (Inr insts))
      \<or> (\<exists>e. tr = [ListInstances [] (Inl e)] \<and> r = Val (Inl (b_processError b e)))) [] (Instances b E [])"
    unfolding Instances_def b_fail_def client_defs by (auto intro!: ens)
  show ?thesis
    unfolding OrphanDeployments_def b_fail_def client_defs
    by (rule ens_attempt_sub [OF inst]) (auto intro!: ens simp: orphanNames_filter)
qed

lemma ValidateSchema_ok:
  "ValidateSchema E v = (None, v') \<longleftrightarrow>
     map_of (v_rawSchema v) ''$schema'' = Some (JStr ''http://json-schema.org/draft-04/schema#'')
     \<and> schemaConforms E (v_rawSchema v) \<and> v' = v\<lparr>v_schemaLoaded := True\<rparr>"
  by (auto simp: ValidateSchema_def split: option.splits if_splits)

lemma validateLoaded_ok:
  "validateLoaded E v params = None \<longleftrightarrow> schemaErrors E (v_rawSchema v) params = Inr []"
  by (auto simp: validateLoaded_def split: sum.splits list.splits)

text \<open>The parameters a plan's schema accepts\<close>

definition conforms :: "env \<Rightarrow> (string \<times> json) list \<Rightarrow> (string \<times> json) list \<Rightarrow> bool" where
  "conforms E schema params \<longleftrightarrow>
     map_of schema ''$schema'' = Some (JStr ''http://json-schema.org/draft-04/schema#'')
     \<and> schemaConforms E schema \<and> schemaErrors E schema params = Inr []"

lemma ValidateParams_ok:
  "(\<exists>v'. ValidateParams E (NewValidator schema) params = (None, v')) \<longleftrightarrow> conforms E schema params"
  by (cases "ValidateSchema E (NewValidator schema)"; cases "fst (ValidateSchema E (NewValidator schema))")
     (auto simp: ValidateParams_def conforms_def NewValidator_def ValidateSchema_ok validateLoaded_ok
        ValidateSchema_def split: option.splits if_splits)

text \<open>
  Every startup check is run before the broker exists, and the broker is built exactly when
  none of them failed; the error then names every check that failed, in order.
\<close>

theorem broker_New_iff:
  "Broker_New dep offering cfg checks =
     (if filter (\<lambda>c. c \<noteq> None) checks = [] then
        Inr \<lparr> b_deployer = dep, b_serviceOffering = offering,
            ExposeOperationalErrors = cfg_ExposeOperationalErrors cfg,
            EnablePlanSchemas = cfg_EnablePlanSchemas cfg,
            EnableSecureManifests = cfg_EnableSecureManifests cfg,
            SupportBackupAgentBinding = cfg_SupportBackupAgentBinding cfg,
            DisableBoshConfigs = cfg_DisableBoshConfigs cfg \<rparr>
      else Inl (ErrorString (''The following broker startup checks failed: ''
              @ join ''; '' (map (errmsg \<circ> the) (filter (\<lambda>c. c \<noteq> None) checks)))))"
proof -
  have "startupCheckErrMessages checks = map (errmsg \<circ> the) (filter (\<lambda>c. c \<noteq> None) checks)"
    by (induction checks) (auto split: option.splits)
  then show ?thesis by (auto simp: Broker_New_def Let_def)
qed

end
