(* ===== verification/Catalog.thy ===== *)
theory Catalog
  imports Broker "HOL-Library.List_Lexorder" "HOL-Library.Char_ord"
begin

text \<open>
  The service catalog (\<open>broker/catalog.go\<close>): the broker's offering rendered for the platform,
  with each plan's maintenance information merged from the global and the plan's own, and its
  JSON schemas from the service adapter when they are enabled.  The first catalog that is
  generated without error is cached for the life of the process.  \<open>hasher/map_hasher.go\<close>
  digests the private maintenance information.
\<close>

section \<open>The map hasher\<close>

text \<open>Indexing a map gives the zero value for a missing key, reading a nil map an empty one.\<close>

definition the_default :: "'a \<Rightarrow> 'a option \<Rightarrow> 'a" where
  "the_default d r = (case r of None \<Rightarrow> d | Some x \<Rightarrow> x)"

definition sortedMapKeys :: "smap \<Rightarrow> string list" where
  "sortedMapKeys m = sort (map fst m)"

definition buildString :: "env \<Rightarrow> smap \<Rightarrow> string list \<Rightarrow> string" where
  "buildString E m sortedKeys =
     foldl (\<lambda>str key. str @ sha256raw E key @ sha256raw E (the_default '''' (map_of m key))) '''' sortedKeys"

definition MapHasher_Hash :: "env \<Rightarrow> smap \<Rightarrow> string" where
  "MapHasher_Hash E m =
     (let strToHash = buildString E m (sortedMapKeys m) in
      if strToHash = '''' then '''' else sha256hex E strToHash)"

section \<open>Maintenance information\<close>

text \<open>\<open>None\<close> is the nil map.\<close>

definition normalize :: "smap \<Rightarrow> smap option" where
  "normalize keyMap = (if length keyMap = 0 then None else Some keyMap)"

definition copyInfo :: "(ConfigMaintenanceInfo \<Rightarrow> smap) \<Rightarrow> smap \<Rightarrow> ConfigMaintenanceInfo option \<Rightarrow> smap" where
  "copyInfo f dst info = (case info of None \<Rightarrow> dst | Some i \<Rightarrow> copy_map dst (f i))"

definition mergeMaintenanceInfo ::
  "ConfigMaintenanceInfo option \<Rightarrow> ConfigMaintenanceInfo option \<Rightarrow> smap option \<times> smap option" where
  "mergeMaintenanceInfo globalInfo planInfo =
     (if globalInfo = None \<and> planInfo = None then (None, None)
      else
        (normalize (copyInfo cmi_Public (copyInfo cmi_Public [] globalInfo) planInfo),
         normalize (copyInfo cmi_Private (copyInfo cmi_Private [] globalInfo) planInfo)))"

definition getMaintenanceInfoVersion ::
  "ConfigMaintenanceInfo option \<Rightarrow> ConfigMaintenanceInfo option \<Rightarrow> string" where
  "getMaintenanceInfoVersion globalInfo planInfo =
     (if planInfo \<noteq> None \<and> cmi_Version (the planInfo) \<noteq> '''' then cmi_Version (the planInfo)
      else if globalInfo \<noteq> None then cmi_Version (the globalInfo) else '''')"

definition getMaintenanceInfoDescription ::
  "ConfigMaintenanceInfo option \<Rightarrow> ConfigMaintenanceInfo option \<Rightarrow> string" where
  "getMaintenanceInfoDescription globalInfo planInfo =
     (if planInfo \<noteq> None \<and> cmi_Description (the planInfo) \<noteq> '''' then cmi_Description (the planInfo)
      else if globalInfo \<noteq> None then cmi_Description (the globalInfo) else '''')"

definition generateMaintenanceInfo :: "Broker \<Rightarrow> env \<Rightarrow> Plan \<Rightarrow> MaintenanceInfo option" where
  "generateMaintenanceInfo b E plan =
     (let globalInfo = off_MaintenanceInfo (b_serviceOffering b);
          (mergedPublic, mergedPrivate) = mergeMaintenanceInfo globalInfo (plan_MaintenanceInfo plan);
          version = getMaintenanceInfoVersion globalInfo (plan_MaintenanceInfo plan);
          description = getMaintenanceInfoDescription globalInfo (plan_MaintenanceInfo plan) in
      if mergedPublic \<noteq> None \<or> mergedPrivate \<noteq> None \<or> version \<noteq> '''' then
        Some \<lparr> mi_Public = mergedPublic, mi_Private = MapHasher_Hash E (the_default [] mergedPrivate),
               mi_Version = version, mi_Description = description \<rparr>
      else None)"

section \<open>Plans\<close>

fun validateSchemas :: "env \<Rightarrow> (string \<times> (string \<times> json) list) list \<Rightarrow> gerr option" where
  "validateSchemas E [] = None"
| "validateSchemas E ((label, schema) # rest) =
     (case fst (ValidateSchema E (NewValidator schema)) of
        Some err \<Rightarrow> Some (ErrorString (''Error validating plan schemas for '' @ label @ '' - '' @ errmsg err))
      | None \<Rightarrow> validateSchemas E rest)"

definition catalog_validatePlanSchemas :: "env \<Rightarrow> ServiceSchemas \<Rightarrow> gerr option" where
  "catalog_validatePlanSchemas E planSchema = validateSchemas E
     [(''instance create'', schema_InstanceCreate planSchema),
      (''instance update'', schema_InstanceUpdate planSchema),
      (''binding create'', schema_BindingCreate planSchema)]"

definition generatePlanSchemas :: "Broker \<Rightarrow> env \<Rightarrow> Plan \<Rightarrow> (gerr + ServiceSchemas option) broker_m" where
  "generatePlanSchemas b E plan =
     (if EnablePlanSchemas b then
        attempt (adapterPlanSchemas b E plan) (\<lambda>err. ret (Inl err)) (\<lambda>planSchema.
        (case catalog_validatePlanSchemas E planSchema of
           Some err \<Rightarrow> ret (Inl (errorf (''Invalid JSON Schema for plan '' @ plan_Name plan @ '': '') err))
         | None \<Rightarrow> ret (Inr (Some planSchema))))
      else ret (Inr None))"

definition generateServicePlan :: "Broker \<Rightarrow> env \<Rightarrow> Plan \<Rightarrow> (gerr + ServicePlan) broker_m" where
  "generateServicePlan b E plan =
     attempt (generatePlanSchemas b E plan) (\<lambda>err. ret (Inl err)) (\<lambda>planSchema.
     ret (Inr \<lparr> sp_ID = plan_ID plan, sp_Name = plan_Name plan, sp_Description = plan_Description plan,
        sp_Free = plan_Free plan, sp_Bindable = plan_Bindable plan, sp_Metadata = plan_Metadata plan,
        sp_MaintenanceInfo = generateMaintenanceInfo b E plan, sp_Schemas = planSchema \<rparr>))"

fun generateServicePlans :: "Broker \<Rightarrow> env \<Rightarrow> Plan list \<Rightarrow> (gerr + ServicePlan list) broker_m" where
  "generateServicePlans b E [] = ret (Inr [])"
| "generateServicePlans b E (plan # plans) =
     attempt (generateServicePlan b E plan) (\<lambda>err. ret (Inl err)) (\<lambda>servicePlan.
     attempt (generateServicePlans b E plans) (\<lambda>err. ret (Inl err)) (\<lambda>servicePlans.
     ret (Inr (servicePlan # servicePlans))))"

section \<open>The catalog\<close>

definition catalogOf :: "Broker \<Rightarrow> ServicePlan list \<Rightarrow> Service list" where
  "catalogOf b servicePlans = (let off = b_serviceOffering b in
     [\<lparr> svc_ID = off_ID off, svc_Name = off_Name off, svc_Description = off_Description off,
        svc_Bindable = off_Bindable off, svc_PlanUpdatable = off_PlanUpdatable off,
        svc_Plans = servicePlans, svc_Metadata = off_Metadata off,
        svc_DashboardClient = off_DashboardClient off, svc_Requires = off_Requires off,
        svc_Tags = off_Tags off \<rparr>])"

definition Services :: "Broker \<Rightarrow> env \<Rightarrow> (gerr + Service list) broker_m" where
  "Services b E = with_lock LockCatalog UnlockCatalog
     (seq (read_state cachedCatalog) (\<lambda>cached. case cached of
        Some catalog \<Rightarrow> ret (Inr catalog)
      | None \<Rightarrow>
          attempt (generateServicePlans b E (off_Plans (b_serviceOffering b))) (\<lambda>err. ret (Inl err)) (\<lambda>servicePlans.
          seq (write_state (\<lambda>s. s\<lparr>cachedCatalog := Some (catalogOf b servicePlans)\<rparr>)) (\<lambda>_.
          ret (Inr (catalogOf b servicePlans))))))"

section \<open>What the catalog says\<close>

definition plan_rendered :: "Broker \<Rightarrow> env \<Rightarrow> Plan \<Rightarrow> ServicePlan \<Rightarrow> bool" where
  "plan_rendered b E p sp \<longleftrightarrow>
     sp_ID sp = plan_ID p \<and> sp_Name sp = plan_Name p \<and> sp_Description sp = plan_Description p
     \<and> sp_Free sp = plan_Free p \<and> sp_Bindable sp = plan_Bindable p \<and> sp_Metadata sp = plan_Metadata p
     \<and> sp_MaintenanceInfo sp = generateMaintenanceInfo b E p
     \<and> (case sp_Schemas sp of None \<Rightarrow> \<not> EnablePlanSchemas b
        | Some schemas \<Rightarrow> EnablePlanSchemas b \<and> catalog_validatePlanSchemas E schemas = None)"

text \<open>Calls made while a catalog is generated\<close>

fun is_catalog :: "event \<Rightarrow> bool" where
  "is_catalog LockCatalog = True"
| "is_catalog UnlockCatalog = True"
| "is_catalog (AdapterPlanSchema _ _) = True"
| "is_catalog _ = False"

lemma is_catalog_benign [simp]:
  "is_catalog e \<Longrightarrow> \<not> changes_world e" "is_catalog e \<Longrightarrow> \<not> changes_deployment e"
  "is_catalog e \<Longrightarrow> e \<noteq> LockDeployment" "is_catalog e \<Longrightarrow> e \<noteq> UnlockDeployment"
  by (cases e; simp)+

definition generated :: "(bstate \<Rightarrow> (gerr + 'a) outcome \<times> bstate) \<Rightarrow> ('a \<Rightarrow> bool) \<Rightarrow> bool" where
  "generated m P \<longleftrightarrow> (\<forall>s. \<exists>x tr. m s = (Val x, s\<lparr>hist := hist s @ tr\<rparr>) \<and> list_all is_catalog tr
      \<and> (case x of Inl _ \<Rightarrow> True | Inr y \<Rightarrow> P y))"

lemma generated_ret: "(case x of Inl _ \<Rightarrow> True | Inr y \<Rightarrow> P y) \<Longrightarrow> generated (ret x) P"
  by (auto simp: generated_def ret_run intro!: exI [of _ "[]"])

lemma generated_attempt:
  assumes "generated m P" and "\<And>x. P x \<Longrightarrow> generated (k x) Q"
  shows "generated (attempt m (\<lambda>e. ret (Inl e)) k) Q"
  unfolding generated_def
proof
  fix s
  obtain x tr where m: "m s = (Val x, s\<lparr>hist := hist s @ tr\<rparr>)" "list_all is_catalog tr"
      "case x of Inl _ \<Rightarrow> True | Inr y \<Rightarrow> P y"
    using assms(1) unfolding generated_def by blast
  show "\<exists>y t. attempt m (\<lambda>e. ret (Inl e)) k s = (Val y, s\<lparr>hist := hist s @ t\<rparr>) \<and> list_all is_catalog t
      \<and> (case y of Inl _ \<Rightarrow> True | Inr z \<Rightarrow> Q z)"
  proof (cases x)
    case (Inl e)
    with m show ?thesis by (intro exI [of _ "Inl e"] exI [of _ tr]) (simp add: run)
  next
    case (Inr y)
    with m assms(2) [of y] obtain x2 t2 where "k y (s\<lparr>hist := hist s @ tr\<rparr>)
        = (Val x2, s\<lparr>hist := hist s @ (tr @ t2)\<rparr>)" "list_all is_catalog t2"
        "case x2 of Inl _ \<Rightarrow> True | Inr z \<Rightarrow> Q z"
      unfolding generated_def by (force dest: spec [of _ "s\<lparr>hist := hist s @ tr\<rparr>"])
    with Inr m show ?thesis by (intro exI [of _ x2] exI [of _ "tr @ t2"]) (simp add: run)
  qed
qed

lemma adapterPlanSchemas_generated: "generated (adapterPlanSchemas b E plan) (\<lambda>_. True)"
  unfolding generated_def adapterPlanSchemas_def client_defs
  by (auto simp: run split: sum.splits gerr.splits)

lemma generatePlanSchemas_generated:
  "generated (generatePlanSchemas b E plan) (\<lambda>r. case r of None \<Rightarrow> \<not> EnablePlanSchemas b
      | Some schemas \<Rightarrow> EnablePlanSchemas b \<and> catalog_validatePlanSchemas E schemas = None)"
  unfolding generatePlanSchemas_def
  by (auto intro!: generated_ret generated_attempt [OF adapterPlanSchemas_generated] split: option.splits)

lemma generateServicePlan_generated: "generated (generateServicePlan b E plan) (plan_rendered b E plan)"
  unfolding generateServicePlan_def
  by (rule generated_attempt [OF generatePlanSchemas_generated])
     (auto intro!: generated_ret simp: plan_rendered_def)

lemma generateServicePlans_generated:
  "generated (generateServicePlans b E plans) (list_all2 (plan_rendered b E) plans)"
proof (induction plans)
  case (Cons plan plans)
  show ?case
    unfolding generateServicePlans.simps
    by (rule generated_attempt [OF generateServicePlan_generated],
        rule generated_attempt [OF Cons.IH], rule generated_ret) simp
qed (auto intro: generated_ret)

text \<open>One equation describes every run of \<open>Services\<close>: a cached catalog, an error, a new catalog.\<close>

lemma Services_run:
  "Services b E s = (r, s') \<Longrightarrow>
     (\<exists>c. cachedCatalog s = Some c \<and> r = Val (Inr c) \<and> s' = s\<lparr>hist := hist s @ [LockCatalog, UnlockCatalog]\<rparr>)
   \<or> (\<exists>tr. cachedCatalog s = None \<and> hist s' = hist s @ tr \<and> list_all is_catalog tr
        \<and> ((\<exists>e. r = Val (Inl e) \<and> cachedCatalog s' = None)
         \<or> (\<exists>ps. list_all2 (plan_rendered b E) (off_Plans (b_serviceOffering b)) ps
               \<and> r = Val (Inr (catalogOf b ps)) \<and> cachedCatalog s' = Some (catalogOf b ps))))"
proof (cases "cachedCatalog s")
  case (Some c)
  assume "Services b E s = (r, s')"
  with Some show ?thesis by (auto simp: Services_def with_lock_def run)
next
  case None
  assume svc: "Services b E s = (r, s')"
  obtain x tr where g: "generateServicePlans b E (off_Plans (b_serviceOffering b)) (s\<lparr>hist := hist s @ [LockCatalog]\<rparr>)
       = (Val x, s\<lparr>hist := (hist s @ [LockCatalog]) @ tr\<rparr>)" "list_all is_catalog tr"
       "case x of Inl _ \<Rightarrow> True | Inr y \<Rightarrow> list_all2 (plan_rendered b E) (off_Plans (b_serviceOffering b)) y"
    using generateServicePlans_generated [of b E "off_Plans (b_serviceOffering b)"]
    unfolding generated_def by (force dest: spec [of _ "s\<lparr>hist := hist s @ [LockCatalog]\<rparr>"])
  from svc None g show ?thesis
    by (cases x) (auto simp: Services_def with_lock_def run intro!: exI [of _ "LockCatalog # tr @ [UnlockCatalog]"])
qed

lemma Services_spec:
  "ensures (\<lambda>r tr. list_all is_catalog tr \<and> (\<exists>x. r = Val x)) [] (Services b E)"
  unfolding ensures_def
proof (intro allI impI)
  fix s :: bstate and h0
  assume h: "hist s = h0 @ []"
  obtain r s' where run: "Services b E s = (r, s')" by force
  from Services_run [OF run] h
  show "case Services b E s of (r, s') \<Rightarrow> \<exists>tr'. hist s' = h0 @ tr' \<and> (list_all is_catalog tr' \<and> (\<exists>x. r = Val x))"
    by (auto simp: run)
qed

text \<open>
  C32.  The catalog is generated once: when \<open>Services\<close> has answered with a catalog, this catalog
  is cached, and every later call answers with the same one without asking the service adapter
  (whatever it would say now); when generation fails nothing is cached.
\<close>

theorem catalog_generated_once:
  assumes "Services b E s = (Val r, s')"
  shows "cachedCatalog s' = (case r of Inl _ \<Rightarrow> None | Inr c \<Rightarrow> Some c)
     \<and> (\<forall>c E'. r = Inr c \<longrightarrow>
          Services b E' s' = (Val (Inr c), s'\<lparr>hist := hist s' @ [LockCatalog, UnlockCatalog]\<rparr>))"
  using Services_run [OF assms]
  by (auto simp: Services_def with_lock_def run)

definition sample_broker :: "Broker" where
  "sample_broker = \<lparr> b_deployer = task_Deployer sample_deployer sample_env,
     b_serviceOffering = sample_offering, ExposeOperationalErrors = False, EnablePlanSchemas = False,
     EnableSecureManifests = False, SupportBackupAgentBinding = False, DisableBoshConfigs = False \<rparr>"

lemma sample_Services:
  "Services sample_broker E sample_state =
     (Val (Inr (catalogOf sample_broker (the_default [] (case fst (generateServicePlans sample_broker E
         [sample_plan, errand_plan] sample_state) of Val (Inr ps) \<Rightarrow> Some ps | _ \<Rightarrow> None)))),
      sample_state\<lparr>hist := [LockCatalog, UnlockCatalog], cachedCatalog :=
        Some (catalogOf sample_broker (the_default [] (case fst (generateServicePlans sample_broker E
         [sample_plan, errand_plan] sample_state) of Val (Inr ps) \<Rightarrow> Some ps | _ \<Rightarrow> None)))\<rparr>)"
  by (simp add: Services_def with_lock_def run sample_state_def sample_broker_def sample_offering_def
      generateServicePlan_def generatePlanSchemas_def the_default_def)

text \<open>A sample catalog exists\<close>

lemma sample_Services_ok: "\<exists>c s'. Services sample_broker E sample_state = (Val (Inr c), s')"
  using sample_Services by blast

theorem catalog_generated_once_witness:
  "\<exists>c s'. Services sample_broker sample_env sample_state = (Val (Inr c), s') \<and> cachedCatalog s' = Some c"
proof -
  obtain c s' where c: "Services sample_broker sample_env sample_state = (Val (Inr c), s')"
    using sample_Services_ok by blast
  with catalog_generated_once [OF c] show ?thesis by auto
qed

lemma planMaintenanceInfo_rendered:
  assumes "list_all2 (plan_rendered b E) plans ps"
  shows "planMaintenanceInfo ps i = (case FindByID plans i of
      (p, True) \<Rightarrow> Inr (generateMaintenanceInfo b E p)
    | (p, False) \<Rightarrow> Inl (ErrorString (''plan '' @ i @ '' does not exist'')))"
  using assms by (induction rule: list_all2_induct) (auto simp: plan_rendered_def)

text \<open>
  The catalog speaks for the offering: with a freshly generated catalog, the decider lets a
  provision request without maintenance information through exactly for the plans of the
  offering, and a request with maintenance information exactly when it equals what the offering
  configures for the plan.  So a plan the broker sells is never refused as unknown, and an
  unknown one never reaches BOSH.
\<close>

theorem catalog_speaks_for_the_offering:
  assumes "cachedCatalog s = None" and "Services b E s = (Val (Inr c), s')"
  shows "CanProvision c planID mi = Val None \<longleftrightarrow>
     (\<exists>p. FindPlanByID (b_serviceOffering b) planID = (p, True)
        \<and> (mi = None \<or> \<not> maintenanceInfoConflict mi (generateMaintenanceInfo b E p)))"
proof -
  from Services_run [OF assms(2)] assms(1) obtain ps
    where ps: "list_all2 (plan_rendered b E) (off_Plans (b_serviceOffering b)) ps" "c = catalogOf b ps"
    by auto
  obtain p found where p: "FindByID (off_Plans (b_serviceOffering b)) planID = (p, found)" by force
  with planMaintenanceInfo_rendered [OF ps(1), of planID] show ?thesis
    by (cases found) (auto simp: ps(2) catalogOf_def CanProvision_def decider_defs FindPlanByID_def Let_def
        ErrMaintenanceInfoConflict_def ErrMaintenanceInfoNilConflict_def)
qed

theorem catalog_speaks_for_the_offering_witness:
  "\<exists>c s'. Services sample_broker sample_env sample_state = (Val (Inr c), s')
     \<and> CanProvision c ''small'' None = Val None \<and> CanProvision c ''huge'' None \<noteq> Val None"
proof -
  obtain c s' where c: "Services sample_broker sample_env sample_state = (Val (Inr c), s')"
    using sample_Services_ok by blast
  have "cachedCatalog sample_state = None" by (simp add: sample_state_def)
  from catalog_speaks_for_the_offering [OF this c, of "''small''" None]
    catalog_speaks_for_the_offering [OF this c, of "''huge''" None]
  show ?thesis using c
    by (auto simp: FindPlanByID_def sample_broker_def sample_offering_def sample_plan_def errand_plan_def)
qed

section \<open>Maintenance information\<close>

lemma the_default_simps [simp]: "the_default d None = d" "the_default d (Some x) = x"
  by (simp_all add: the_default_def)

lemma normalize_Some [simp]: "normalize m = Some x \<longleftrightarrow> m \<noteq> [] \<and> x = m"
  by (auto simp: normalize_def)

lemma the_default_normalize [simp]: "the_default [] (normalize m) = m"
  by (simp add: normalize_def the_default_def)

lemma distinct_foldl_map_set:
  "distinct (map fst dst) \<Longrightarrow> distinct (map fst (foldl (\<lambda>d (k, v). map_set k v d) dst src))"
  by (induction src arbitrary: dst) (auto simp: distinct_map_set simp del: map_map)

lemma Hash_cong:
  assumes "distinct (map fst m)" and "distinct (map fst n)" and "map_of m = map_of n"
  shows "MapHasher_Hash E m = MapHasher_Hash E n"
proof -
  have "set (map fst m) = set (map fst n)"
    using assms(3) by (metis dom_map_of_conv_image_fst list.set_map)
  then have "sortedMapKeys m = sortedMapKeys n"
    unfolding sortedMapKeys_def
    using assms(1,2) by (metis sorted_list_of_set_sort_remdups distinct_remdups_id)
  then show ?thesis by (simp add: MapHasher_Hash_def buildString_def assms(3))
qed

lemma distinct_copyInfo: "distinct (map fst dst) \<Longrightarrow> distinct (map fst (copyInfo f dst info))"
  by (cases info) (simp_all add: copyInfo_def copy_map_def distinct_foldl_map_set)

definition infoMap :: "(ConfigMaintenanceInfo \<Rightarrow> smap) \<Rightarrow> ConfigMaintenanceInfo option \<Rightarrow> (string, string) map" where
  "infoMap f info = (case info of None \<Rightarrow> Map.empty | Some i \<Rightarrow> map_of (f i))"

definition wf_info :: "ConfigMaintenanceInfo option \<Rightarrow> bool" where
  "wf_info info = (case info of None \<Rightarrow> True
     | Some i \<Rightarrow> distinct (map fst (cmi_Public i)) \<and> distinct (map fst (cmi_Private i)))"

lemma merged_map:
  assumes "wf_info g" and "wf_info p" and "f = cmi_Public \<or> f = cmi_Private"
  shows "map_of (copyInfo f (copyInfo f [] g) p) = infoMap f g ++ infoMap f p"
  using assms by (auto simp: copyInfo_def map_of_copy_map infoMap_def wf_info_def split: option.splits)

text \<open>
  The maintenance information of a plan is the global one overridden by the plan's own:
  key by key for the public and the private entries, as a whole for the version.  The private
  entries leave the broker only as a digest, which depends on the entries and not on the order
  in which the maps are iterated.
\<close>

theorem maintenance_info_merged:
  assumes "g = off_MaintenanceInfo (b_serviceOffering b)" and "p = plan_MaintenanceInfo plan"
    and "wf_info g" and "wf_info p" and "generateMaintenanceInfo b E plan = Some mi"
  shows "map_of (the_default [] (mi_Public mi)) = infoMap cmi_Public g ++ infoMap cmi_Public p
     \<and> (\<forall>m. distinct (map fst m) \<and> map_of m = infoMap cmi_Private g ++ infoMap cmi_Private p
            \<longrightarrow> mi_Private mi = MapHasher_Hash E m)
     \<and> mi_Version mi = (case p of Some i \<Rightarrow> if cmi_Version i \<noteq> '''' then cmi_Version i
            else getMaintenanceInfoVersion g None | None \<Rightarrow> getMaintenanceInfoVersion g None)"
proof -
  let ?pub = "copyInfo cmi_Public (copyInfo cmi_Public [] g) p"
  let ?priv = "copyInfo cmi_Private (copyInfo cmi_Private [] g) p"
  have nil: "?pub = []" "?priv = []" if "g = None" "p = None"
    using that by (simp_all add: copyInfo_def)
  have mi: "the_default [] (mi_Public mi) = ?pub" "mi_Private mi = MapHasher_Hash E ?priv"
      "mi_Version mi = getMaintenanceInfoVersion g p"
    using assms nil
    by (auto simp: generateMaintenanceInfo_def mergeMaintenanceInfo_def Let_def
        split: if_splits prod.splits)
  have "distinct (map fst ?priv)" by (simp add: distinct_copyInfo)
  then have "mi_Private mi = MapHasher_Hash E m"
    if "distinct (map fst m)" "map_of m = infoMap cmi_Private g ++ infoMap cmi_Private p" for m
    using that assms(3,4) merged_map [of g p cmi_Private] Hash_cong mi(2) by metis
  moreover have "map_of ?pub = infoMap cmi_Public g ++ infoMap cmi_Public p"
    using assms(3,4) by (simp add: merged_map)
  ultimately show ?thesis
    by (auto simp: mi getMaintenanceInfoVersion_def split: option.splits)
qed

definition versioned_plan :: Plan where
  "versioned_plan = sample_plan\<lparr>plan_MaintenanceInfo := Some \<lparr> cmi_Public = [(''stemcell'', ''1'')],
     cmi_Private = [(''key'', ''k'')], cmi_Version = ''2.0'', cmi_Description = '''' \<rparr>\<rparr>"

theorem maintenance_info_merged_witness:
  "\<exists>mi. generateMaintenanceInfo sample_broker sample_env versioned_plan = Some mi
     \<and> map_of (the_default [] (mi_Public mi)) ''stemcell'' = Some ''1'' \<and> mi_Version mi = ''2.0''
     \<and> mi_Private mi = MapHasher_Hash sample_env [(''key'', ''k'')]"
proof -
  obtain mi where mi: "generateMaintenanceInfo sample_broker sample_env versioned_plan = Some mi"
    by (simp add: generateMaintenanceInfo_def mergeMaintenanceInfo_def versioned_plan_def copyInfo_def
        normalize_def copy_map_def sample_broker_def sample_offering_def getMaintenanceInfoVersion_def Let_def)
  have wf: "wf_info (off_MaintenanceInfo (b_serviceOffering sample_broker))"
      "wf_info (plan_MaintenanceInfo versioned_plan)"
    by (simp_all add: wf_info_def sample_broker_def sample_offering_def versioned_plan_def)
  have "map_of [(''key'', ''k'')] = infoMap cmi_Private (off_MaintenanceInfo (b_serviceOffering sample_broker))
      ++ infoMap cmi_Private (plan_MaintenanceInfo versioned_plan)"
    by (simp add: infoMap_def sample_broker_def sample_offering_def versioned_plan_def)
  moreover have "distinct (map fst [(''key'', ''k'')])" by simp
  ultimately have "mi_Private mi = MapHasher_Hash sample_env [(''key'', ''k'')]"
    using maintenance_info_merged [OF refl refl wf mi] by blast
  with mi maintenance_info_merged [OF refl refl wf mi] show ?thesis
    by (simp add: infoMap_def sample_broker_def sample_offering_def versioned_plan_def)
qed

end
