(* ===== verification/Provision.thy ===== *)
theory Provision
  imports Catalog
begin

text \<open>
  \<open>broker/provision.go\<close>: creating a service instance.  The handler runs under the deployment
  lock; it checks the request against the catalog, makes sure that BOSH has no deployment for
  the instance, checks the quotas and the parameters, creates the instance's UAA client and asks
  the deployer for the deployment.
\<close>

section \<open>The operation\<close>

definition checkPlanSchemas :: "Broker \<Rightarrow> env \<Rightarrow> (string \<times> json) list \<Rightarrow> Plan \<Rightarrow> (gerr + unit) broker_m" where
  "checkPlanSchemas b E requestParams plan =
     (if EnablePlanSchemas b then
        attempt (adapterPlanSchemas b E plan) (\<lambda>err. ret (Inl err)) (\<lambda>schemas.
        (case ValidateSchema E (NewValidator (schema_InstanceCreate schemas)) of
           (Some err, _) \<Rightarrow> ret (Inl err)
         | (None, validator) \<Rightarrow>
             (case map_of requestParams ''parameters'' of
                Some (JObj paramsToValidate) \<Rightarrow>
                  (case fst (ValidateParams E validator paramsToValidate) of
                     Some err \<Rightarrow> ret (Inl (paramsValidationFailed err))
                   | None \<Rightarrow> ret (Inr ()))
              | p \<Rightarrow> ret (Inl (ErrorString (''provision request params are malformed: '' @ fmtValue E p))))))
      else ret (Inr ()))"

text \<open>\<open>if requestContext != nil { x = f(requestContext.(map[string]interface{})) }\<close>\<close>

definition fromContext :: "((string \<times> json) list \<Rightarrow> string outcome) \<Rightarrow> (string \<times> json) list \<Rightarrow> string outcome" where
  "fromContext f requestParams = (case map_of requestParams ''context'' of
      None \<Rightarrow> Val ''''
    | Some JNull \<Rightarrow> Val ''''
    | Some requestContext \<Rightarrow> obind (assertMap requestContext) f)"

definition createError :: "context_info \<Rightarrow> gerr \<Rightarrow> gerr" where
  "createError ctx err = (case err of
      RequestError _ \<Rightarrow> NewBoshRequestError ''create'' err
    | DisplayableError _ _ \<Rightarrow> err
    | UnknownFailureError _ \<Rightarrow> adapterToAPIError ctx err
    | _ \<Rightarrow> NewGenericError ctx err)"

text \<open>The last part of \<open>provisionInstance\<close>: the dashboard and the client's redirect URL\<close>

definition finishProvision ::
  "Broker \<Rightarrow> env \<Rightarrow> context_info \<Rightarrow> string \<Rightarrow> Plan \<Rightarrow> string \<Rightarrow> string \<Rightarrow> deployed
   \<Rightarrow> (gerr + (OperationData \<times> string \<times> labels)) broker_m" where
  "finishProvision b E ctx iid plan spaceGUID boshContextID dep = (case dep of (boshTaskID, manifest, brokerLabels) \<Rightarrow>
     (let ctx = WithBoshTaskID ctx boshTaskID in
      seq (adapter_GenerateDashboardUrl E iid (AdapterPlan plan (off_GlobalProperties (b_serviceOffering b))) manifest) (\<lambda>(dashboardUrl, err).
      (let operationData = zeroOperationData\<lparr>od_BoshTaskID := boshTaskID,
             od_OperationType := OperationTypeCreate, od_BoshContextID := boshContextID,
             od_Errands := PostDeployErrands plan\<rparr> in
       case err of
         Some (NotImplementedError _) \<Rightarrow> ret (Inr (operationData, dashboardUrl, brokerLabels))
       | Some e \<Rightarrow> ret (Inl (adapterToAPIError ctx e))
       | None \<Rightarrow>
           attempt (uaa_UpdateClient E iid dashboardUrl spaceGUID) (\<lambda>err. ret (Inl (NewGenericError ctx err))) (\<lambda>_.
           ret (Inr (operationData, dashboardUrl, brokerLabels)))))))"

definition newContextID :: "env \<Rightarrow> bool \<Rightarrow> string broker_m" where
  "newContextID E needed = (if needed then uuid_New E else ret '''')"

text \<open>The part of \<open>provisionInstance\<close> that changes something, once the request is admitted\<close>

definition createDeployment ::
  "Broker \<Rightarrow> env \<Rightarrow> context_info \<Rightarrow> string \<Rightarrow> Plan \<Rightarrow> (string \<times> json) list \<Rightarrow> string
   \<Rightarrow> (gerr + (OperationData \<times> string \<times> labels)) broker_m" where
  "createDeployment b E ctx iid plan requestParams instanceName =
     seq (newContextID E (plan_LifecycleErrands plan \<noteq> None)) (\<lambda>boshContextID.
     seq (lift_outcome (fromContext getSpaceGUIDFromContext requestParams)) (\<lambda>spaceGUID.
     attempt (uaa_CreateClient E iid instanceName spaceGUID) (\<lambda>err. ret (Inl (NewGenericError ctx err))) (\<lambda>serviceInstanceClient.
     attempt (dep_Create (b_deployer b) (deploymentName iid) (plan_ID plan) requestParams boshContextID serviceInstanceClient)
       (\<lambda>err. ret (Inl (createError ctx err))) (\<lambda>dep.
     finishProvision b E ctx iid plan spaceGUID boshContextID dep))))"

definition provisionInstance ::
  "Broker \<Rightarrow> env \<Rightarrow> context_info \<Rightarrow> string \<Rightarrow> ProvisionDetails \<Rightarrow> (string \<times> json) list \<Rightarrow> string
   \<Rightarrow> (gerr + (OperationData \<times> string \<times> labels)) broker_m" where
  "provisionInstance b E ctx iid details requestParams instanceName =
     (case FindPlanByID (b_serviceOffering b) (pd_PlanID details) of
        (_, False) \<Rightarrow> ret (Inl (DisplayableError (ErrorString (''plan '' @ pd_PlanID details @ '' not found''))
           (ErrorString (''finding plan ID '' @ pd_PlanID details))))
      | (plan, True) \<Rightarrow>
     attempt (bosh_GetDeployment E (deploymentName iid))
       (\<lambda>err. case err of
          RequestError _ \<Rightarrow> ret (Inl (NewBoshRequestError ''create'' (errorf ''could not get manifest: '' err)))
        | _ \<Rightarrow> ret (Inl (NewGenericError ctx (errorf ''could not get manifest: '' err)))) (\<lambda>(_, found).
     if found then
       ret (Inl (DisplayableError ErrInstanceAlreadyExists (ErrorString (''deploying instance '' @ iid))))
     else
     attempt (cf_CountInstancesOfServiceOffering E (off_ID (b_serviceOffering b)))
       (\<lambda>err. ret (Inl (NewGenericError ctx err))) (\<lambda>cfPlanCounts.
     (case checkQuotas (b_serviceOffering b) plan cfPlanCounts (off_ID (b_serviceOffering b)) of
        Some quotasErrors \<Rightarrow> ret (Inl quotasErrors)
      | None \<Rightarrow>
     attempt (checkPlanSchemas b E requestParams plan) (\<lambda>err. ret (Inl err)) (\<lambda>_.
     createDeployment b E ctx iid plan requestParams instanceName)))))"

definition provisionedSpec :: "OperationData \<Rightarrow> string \<Rightarrow> labels \<Rightarrow> ProvisionedServiceSpec" where
  "provisionedSpec operationData dashboardURL brokerLabels =
     \<lparr> pss_IsAsync = True, pss_OperationData = WJson (marshalOperationData operationData),
       pss_DashboardURL = dashboardURL, pss_Labels = brokerLabels \<rparr>"

definition provisionLocked ::
  "Broker \<Rightarrow> env \<Rightarrow> context_info \<Rightarrow> string \<Rightarrow> ProvisionDetails \<Rightarrow> bool \<Rightarrow> (gerr + ProvisionedServiceSpec) broker_m" where
  "provisionLocked b E ctx0 iid details asyncAllowed =
     seq (uuid_New E) (\<lambda>requestID.
     let ctx = brokercontext_New ctx0 (operationTypeString OperationTypeCreate) requestID (off_Name (b_serviceOffering b)) iid in
     if \<not> asyncAllowed then b_fail b ErrAsyncRequired
     else (case convertDetailsToMap (pd_RawParameters details) (provisionDetailsMap details) of
        Inl err \<Rightarrow> b_fail b err
      | Inr requestParams \<Rightarrow>
     attempt (Services b E) (\<lambda>err. b_fail b err) (\<lambda>serviceCatalog.
     seq (lift_outcome (CanProvision serviceCatalog (pd_PlanID details) (pd_MaintenanceInfo details))) (\<lambda>verdict.
     (case verdict of
        Some err \<Rightarrow> b_fail b err
      | None \<Rightarrow>
     attempt (bosh_GetInfo E) (\<lambda>err. b_fail b (NewBoshRequestError ''create'' err)) (\<lambda>_.
     seq (lift_outcome (fromContext getInstanceNameFromContext requestParams)) (\<lambda>instanceName.
     attempt (provisionInstance b E ctx iid details requestParams instanceName) (\<lambda>err. b_fail b err)
       (\<lambda>(operationData, dashboardURL, brokerLabels).
     ret (Inr (provisionedSpec operationData dashboardURL brokerLabels))))))))))"

definition Provision ::
  "Broker \<Rightarrow> env \<Rightarrow> context_info \<Rightarrow> string \<Rightarrow> ProvisionDetails \<Rightarrow> bool \<Rightarrow> (gerr + ProvisionedServiceSpec) broker_m" where
  "Provision b E ctx iid details asyncAllowed =
     with_lock LockDeployment UnlockDeployment (provisionLocked b E ctx iid details asyncAllowed)"

section \<open>What a run does\<close>

text \<open>No function without a loop runs out of fuel.\<close>

lemma assertMap_fuel [simp]: "assertMap j \<noteq> OutOfFuel"
  by (simp add: assertMap_def split: json.splits)

lemma context_fuel [simp]:
  "getSpaceGUIDFromContext m \<noteq> OutOfFuel" "getInstanceNameFromContext m \<noteq> OutOfFuel"
  by (simp_all add: getSpaceGUIDFromContext_def getInstanceNameFromContext_def assertString_def
      split: option.splits json.splits)

lemma fromContext_fuel [simp]:
  "fromContext getSpaceGUIDFromContext params \<noteq> OutOfFuel"
  "fromContext getInstanceNameFromContext params \<noteq> OutOfFuel"
  by (simp_all add: fromContext_def obind_fuel split: option.splits json.splits)

lemma CanProvision_fuel [simp]: "CanProvision c p mi \<noteq> OutOfFuel"
  by (simp add: CanProvision_def decider_defs obind_fuel split: list.splits)

definition not_deployed :: "string \<Rightarrow> event \<Rightarrow> bool" where
  "not_deployed iid e \<longleftrightarrow> (\<exists>m. e = BoshGetDeployment (deploymentName iid) (Inr (m, False)))"

definition quotas_passed :: "ServiceOffering \<Rightarrow> string \<Rightarrow> event \<Rightarrow> bool" where
  "quotas_passed off planID e \<longleftrightarrow> (\<exists>plan counts.
     FindPlanByID off planID = (plan, True)
     \<and> e = CFCountInstances (off_ID off) (Inr counts)
     \<and> checkQuotas off plan counts (off_ID off) = None)"

fun is_follow_up :: "event \<Rightarrow> bool" where
  "is_follow_up (AdapterDashboardUrl _ _ _ _) = True"
| "is_follow_up (UAAUpdateClient _ _ _ _) = True"
| "is_follow_up (UAADeleteClient _ _) = True"
| "is_follow_up _ = False"

text \<open>Failures that can hit the broker after BOSH has accepted a deployment\<close>

fun follow_up_failed :: "event \<Rightarrow> bool" where
  "follow_up_failed (AdapterDashboardUrl _ _ _ (_, Some _)) = True"
| "follow_up_failed (UAAUpdateClient _ _ _ (Inl _)) = True"
| "follow_up_failed _ = False"

lemma is_follow_up_benign [simp]:
  "is_follow_up e \<Longrightarrow> \<not> changes_deployment e"
  "is_follow_up e \<Longrightarrow> e \<noteq> LockDeployment" "is_follow_up e \<Longrightarrow> e \<noteq> UnlockDeployment"
  by (cases e; simp)+

lemma follow_up_only [simp]:
  assumes "list_all is_follow_up tr"
  shows "filter changes_deployment tr = []" "lock_free tr"
  using assms by (fastforce simp: filter_empty_conv lock_free_def list_all_iff)+

definition created :: "int \<Rightarrow> string \<Rightarrow> Plan \<Rightarrow> OperationData" where
  "created t c plan = zeroOperationData\<lparr>od_BoshTaskID := t, od_OperationType := OperationTypeCreate,
     od_BoshContextID := c, od_Errands := PostDeployErrands plan\<rparr>"

definition finish_post :: "OperationData \<Rightarrow> labels \<Rightarrow> (gerr + (OperationData \<times> string \<times> labels)) outcome \<Rightarrow> history \<Rightarrow> bool" where
  "finish_post od labels r tr \<longleftrightarrow> list_all is_follow_up tr \<and> (case r of
      Val (Inr (od', url, ls)) \<Rightarrow> od' = od \<and> ls = labels
    | Val (Inl e) \<Rightarrow> \<exists>e\<in>set tr. follow_up_failed e
    | _ \<Rightarrow> False)"

lemma finishProvision_spec:
  "ensures (finish_post (created t c plan) labels) [] (finishProvision b E ctx iid plan space c (t, m, labels))"
  unfolding finishProvision_def client_defs
  by (auto intro!: ens simp: Let_def created_def finish_post_def split: option.splits gerr.splits)

text \<open>
  The result of the locked part: on success exactly one deployment was accepted and its task is
  in the operation data; on an error none was, unless a later step failed; on a panic none was.
\<close>

definition create_outcome :: "ServiceOffering \<Rightarrow> string \<Rightarrow> (OperationData \<Rightarrow> 'a \<Rightarrow> bool) \<Rightarrow> (gerr + 'a) outcome \<Rightarrow> history \<Rightarrow> bool" where
  "create_outcome off planID carries r tr \<longleftrightarrow> (case r of
      Val (Inr x) \<Rightarrow> \<exists>plan m c t. FindPlanByID off planID = (plan, True)
          \<and> filter changes_deployment tr = [BoshDeploy m c (Inr t)] \<and> carries (created t c plan) x
    | Val (Inl e) \<Rightarrow> filter changes_deployment tr = []
          \<or> (\<exists>m c e'. filter changes_deployment tr = [BoshDeploy m c (Inl e')])
          \<or> (\<exists>m c t. filter changes_deployment tr = [BoshDeploy m c (Inr t)] \<and> (\<exists>e\<in>set tr. follow_up_failed e))
    | Panic _ \<Rightarrow> filter changes_deployment tr = []
    | OutOfFuel \<Rightarrow> False)"

definition create_guards :: "ServiceOffering \<Rightarrow> string \<Rightarrow> string \<Rightarrow> history \<Rightarrow> bool" where
  "create_guards off iid planID tr \<longleftrightarrow>
     guarded_by (not_deployed iid) changes_world tr
     \<and> guarded_by (quotas_passed off planID) changes_world tr
     \<and> guarded_by (no_task_running (deploymentName iid)) changes_deployment tr"

lemmas create_simps = create_outcome_def create_guards_def guarded_by_append not_deployed_def
  quotas_passed_def

text \<open>Nothing of the world has changed yet\<close>

definition quiet :: "history \<Rightarrow> bool" where
  "quiet tr \<longleftrightarrow> list_all (\<lambda>e. \<not> changes_world e \<and> e \<noteq> LockDeployment \<and> e \<noteq> UnlockDeployment) tr"

lemma quietD:
  assumes "quiet tr"
  shows "filter changes_deployment tr = []" "lock_free tr" "guarded_by G changes_world tr"
    "guarded_by G changes_deployment tr"
  using assms changes_deployment_changes_world
  by (auto simp: quiet_def filter_empty_conv lock_free_def list_all_iff intro!: guarded_by_none)

lemma quiet_append [simp]: "quiet (xs @ ys) \<longleftrightarrow> quiet xs \<and> quiet ys"
  by (simp add: quiet_def)

lemma catalog_quiet [simp]: "list_all is_catalog tr \<Longrightarrow> quiet tr"
  by (auto simp: quiet_def list_all_iff)

lemma checkPlanSchemas_spec:
  "ensures (\<lambda>r tr. quiet tr \<and> (\<exists>x. r = Val x)) [] (checkPlanSchemas b E params plan)"
proof -
  have ask: "ensures (\<lambda>r tr. quiet tr \<and> (\<exists>x. r = Val x)) [] (adapterPlanSchemas b E plan)"
    unfolding adapterPlanSchemas_def client_defs
    by (auto intro!: ens simp: quiet_def split: gerr.splits)
  show ?thesis
    unfolding checkPlanSchemas_def
    by (auto intro!: ens ens_attempt_sub [OF ask] simp: quiet_def
        split: prod.splits option.splits json.splits)
qed

definition admitted :: "ServiceOffering \<Rightarrow> string \<Rightarrow> string \<Rightarrow> history \<Rightarrow> bool" where
  "admitted off iid planID t \<longleftrightarrow> lock_free t \<and> filter changes_deployment t = []
     \<and> create_guards off iid planID t \<and> (\<exists>e\<in>set t. not_deployed iid e) \<and> (\<exists>e\<in>set t. quotas_passed off planID e)"

definition create_post :: "ServiceOffering \<Rightarrow> string \<Rightarrow> string \<Rightarrow> (OperationData \<Rightarrow> 'a \<Rightarrow> bool) \<Rightarrow> (gerr + 'a) outcome \<Rightarrow> history \<Rightarrow> bool" where
  "create_post off iid planID carries r tr \<longleftrightarrow>
     lock_free tr \<and> create_guards off iid planID tr \<and> create_outcome off planID carries r tr"

lemma quiet_error: "quiet t \<Longrightarrow> ensures (create_post (b_serviceOffering b) iid planID carries) t (ret (Inl e))"
  by (rule ens_ret) (simp add: create_post_def create_guards_def create_outcome_def quietD)

lemma admitted_error: "admitted (b_serviceOffering b) iid planID t \<Longrightarrow> ensures (create_post (b_serviceOffering b) iid planID carries) t (ret (Inl e))"
  by (rule ens_ret) (simp add: create_post_def create_outcome_def admitted_def)

lemma create_guards_append:
  "admitted (b_serviceOffering b) iid planID t \<Longrightarrow> guarded_by (no_task_running (deploymentName iid)) changes_deployment d
   \<Longrightarrow> create_guards (b_serviceOffering b) iid planID (t @ d)"
  unfolding admitted_def create_guards_def guarded_by_append by auto

lemma admitted_client:
  "admitted (b_serviceOffering b) iid planID t \<Longrightarrow> is_UAA e \<Longrightarrow> admitted (b_serviceOffering b) iid planID (t @ [e])"
  by (auto simp: admitted_def create_guards_def guarded_by_append lock_free_def)

lemma guarded_by_weaken: "guarded_by G B tr \<Longrightarrow> (\<And>e. B' e \<Longrightarrow> B e) \<Longrightarrow> guarded_by G B' tr"
  by (induction tr) auto

lemma guarded_follow_up: "list_all is_follow_up d \<Longrightarrow> guarded_by G changes_deployment d"
  by (rule guarded_by_none) (auto simp: list_all_iff)

text \<open>After the deployer has answered, on a trace that admits the deployment\<close>

lemma after_deploy:
  assumes "admitted (b_serviceOffering b) iid planID t" and "deploy_contract (deploymentName iid) c (Val (Inr (task, m, ls))) d"
    and "FindPlanByID (b_serviceOffering b) planID = (plan, True)"
  shows "ensures (create_post (b_serviceOffering b) iid planID (\<lambda>od (od', url, ls'). od' = od)) (t @ d)
    (finishProvision b E ctx iid plan space c (task, m, ls))"
proof (rule ens_sub [OF finishProvision_spec [of task c plan ls b E ctx iid space m]])
  fix r d2
  assume post: "finish_post (created task c plan) ls r d2"
  then have d2: "list_all is_follow_up d2" by (simp add: finish_post_def)
  from assms(2) have d: "filter changes_deployment d = [BoshDeploy m c (Inr task)]" "lock_free d"
    by (cases rule: deploy_contract_cases; simp)+
  have "guarded_by (no_task_running (deploymentName iid)) changes_deployment (d @ d2)"
    using d2 deploy_contract_guard [OF assms(2)] changes_deployment_changes_world
    by (auto simp: guarded_by_append guarded_follow_up intro: guarded_by_weaken)
  then have "create_guards (b_serviceOffering b) iid planID (t @ d @ d2)" by (rule create_guards_append [OF assms(1)])
  moreover have "lock_free ((t @ d) @ d2)" using assms(1) d d2 by (simp add: admitted_def)
  moreover have "create_outcome (b_serviceOffering b) planID (\<lambda>od (od', url, ls'). od' = od) r ((t @ d) @ d2)"
    using post assms(1,3) d
    by (auto simp: create_outcome_def admitted_def finish_post_def split: outcome.splits sum.splits)
  ultimately show "create_post (b_serviceOffering b) iid planID (\<lambda>od (od', url, ls). od' = od) r ((t @ d) @ d2)"
    by (simp add: create_post_def)
qed

lemma after_refused:
  assumes "admitted (b_serviceOffering b) iid planID t" and "deploy_contract (deploymentName iid) c (Val (Inl e)) d"
  shows "ensures (create_post (b_serviceOffering b) iid planID carries) (t @ d) (ret (Inl e2))"
proof (rule ens_ret)
  have g: "create_guards (b_serviceOffering b) iid planID (t @ d)"
    using create_guards_append [OF assms(1)] deploy_contract_guard [OF assms(2)]
      changes_deployment_changes_world by (auto intro: guarded_by_weaken)
  from assms(2) show "create_post (b_serviceOffering b) iid planID carries (Val (Inl e2)) (t @ d)"
  proof (cases rule: deploy_contract_cases)
    case refused
    with assms(1) g show ?thesis by (auto simp: create_post_def create_outcome_def admitted_def)
  qed simp
qed

lemma deploy_contract_Val [simp]: "\<not> deploy_contract dn c (Panic p) d" "\<not> deploy_contract dn c OutOfFuel d"
  by (simp_all add: deploy_contract_def)

lemma quiet_events [simp]:
  "quiet []" "quiet (e # t) \<longleftrightarrow> \<not> changes_world e \<and> e \<noteq> LockDeployment \<and> e \<noteq> UnlockDeployment \<and> quiet t"
  by (simp_all add: quiet_def)

lemma admitted_quiet:
  "quiet t \<Longrightarrow> \<exists>e\<in>set t. not_deployed iid e \<Longrightarrow> \<exists>e\<in>set t. quotas_passed (b_serviceOffering b) planID e
   \<Longrightarrow> admitted (b_serviceOffering b) iid planID t"
  by (simp add: admitted_def create_guards_def quietD)

lemma admitted_panic: "admitted (b_serviceOffering b) iid planID t \<Longrightarrow> create_post (b_serviceOffering b) iid planID carries (Panic p) t"
  by (simp add: create_post_def create_outcome_def admitted_def)

lemma admitted_uuid: "admitted (b_serviceOffering b) iid planID t \<Longrightarrow> admitted (b_serviceOffering b) iid planID (t @ [NewUUID u])"
  by (auto simp: admitted_def create_guards_def guarded_by_append lock_free_def)

lemma create_post_prefix:
  assumes "quiet t" and "create_post (b_serviceOffering b) iid planID carries r d"
  shows "(case r of Val (Inl _) \<Rightarrow> create_post (b_serviceOffering b) iid planID carries' (Val (Inl e)) (t @ d)
    | Val (Inr x) \<Rightarrow> (\<forall>od. carries od x \<longrightarrow> carries' od y) \<longrightarrow> create_post (b_serviceOffering b) iid planID carries' (Val (Inr y)) (t @ d)
    | Panic p \<Rightarrow> create_post (b_serviceOffering b) iid planID carries' (Panic p) (t @ d)
    | OutOfFuel \<Rightarrow> False)"
  using assms quietD [OF assms(1)]
  by (auto simp: create_post_def create_guards_def guarded_by_append create_outcome_def
      split: outcome.splits sum.splits)

text \<open>A body that never touches the lock, run under it\<close>

lemma locked_body:
  "lock_free tr \<Longrightarrow> locked_from False ([LockDeployment] @ tr @ [UnlockDeployment])"
  by (simp add: locked_from_free)

definition carries_data :: "OperationData \<Rightarrow> ProvisionedServiceSpec \<Rightarrow> bool" where
  "carries_data od spec \<longleftrightarrow> pss_IsAsync spec \<and> pss_OperationData spec = WJson (marshalOperationData od)"

lemma create_post_fuel [simp]: "\<not> create_post (b_serviceOffering b) iid planID carries OutOfFuel d"
  by (simp add: create_post_def create_outcome_def)

lemma quiet_panic: "quiet t \<Longrightarrow> create_post (b_serviceOffering b) iid planID carries (Panic p) t"
  by (simp add: create_post_def create_guards_def create_outcome_def quietD)

context deployer_interface begin

lemma createDeployment_spec:
  assumes "b_deployer b = DP" and "admitted (b_serviceOffering b) iid planID t"
    and "FindPlanByID (b_serviceOffering b) planID = (plan, True)"
  shows "ensures (create_post (b_serviceOffering b) iid planID (\<lambda>od (od', url, ls). od' = od)) t
    (createDeployment b E ctx iid plan params name)"
proof -
  let ?\<Phi> = "create_post (b_serviceOffering b) iid planID (\<lambda>od (od', url, ls). od' = od)"
  have deploy: "ensures ?\<Phi> t
      (attempt (dep_Create (b_deployer b) (deploymentName iid) (plan_ID plan) params c client)
        (\<lambda>err. ret (Inl (createError ctx err))) (\<lambda>dep. finishProvision b E ctx iid plan space c dep))"
    if "admitted (b_serviceOffering b) iid planID t" for t c client space
    unfolding assms(1)
    by (rule ens_attempt_sub [OF create_law]) (auto intro!: after_refused after_deploy that assms(3))
  show ?thesis
    unfolding createDeployment_def newContextID_def client_defs
    using assms(2)
    by (auto intro!: ens deploy admitted_client admitted_error admitted_uuid intro: admitted_panic
        simp del: attempt_ret)
qed

lemma provisionInstance_spec:
  assumes "b_deployer b = DP"
  shows "ensures (create_post (b_serviceOffering b) iid (pd_PlanID details) (\<lambda>od (od', url, ls). od' = od)) []
    (provisionInstance b E ctx iid details params name)"
proof -
  obtain plan found where p: "FindPlanByID (b_serviceOffering b) (pd_PlanID details) = (plan, found)" by force
  show ?thesis
  proof (cases found)
    case False
    then show ?thesis by (auto simp: provisionInstance_def p intro!: quiet_error)
  next
    case True
    show ?thesis
      unfolding provisionInstance_def p True client_defs prod.case bool.case
      by (auto intro!: ens quiet_error createDeployment_spec [OF assms] admitted_quiet
            ens_attempt_sub [OF checkPlanSchemas_spec]
          simp: p True not_deployed_def quotas_passed_def split: gerr.splits option.splits)
  qed
qed

lemma provisionLocked_spec:
  assumes "b_deployer b = DP"
  shows "ensures (create_post (b_serviceOffering b) iid (pd_PlanID details) carries_data) []
    (provisionLocked b E ctx0 iid details async)"
proof -
  let ?\<Phi> = "create_post (b_serviceOffering b) iid (pd_PlanID details) carries_data"
  have inst: "ensures ?\<Phi> t
      (attempt (provisionInstance b E ctx iid details params name) (\<lambda>err. ret (Inl (b_processError b err)))
        (\<lambda>(operationData, dashboardURL, brokerLabels).
         ret (Inr (provisionedSpec operationData dashboardURL brokerLabels))))"
    if t: "quiet t" for t ctx params name
    using create_post_prefix [OF t, where carries = "\<lambda>od (od', url, ls). od' = od" and carries' = carries_data
        and b = b and iid = iid and planID = "pd_PlanID details"]
    by (intro ens_attempt_sub [OF provisionInstance_spec [OF assms]])
       (fastforce intro!: ens_ret simp: carries_data_def provisionedSpec_def)+
  show ?thesis
    unfolding provisionLocked_def client_defs b_fail_def Let_def
    by (auto intro!: ens quiet_error quiet_panic inst ens_attempt_sub [OF Services_spec]
        split: sum.splits option.splits)
qed

end

section \<open>What Provision promises\<close>

text \<open>
  The contract of Provision: the deployment lock is held around every change of a deployment and
  released at the end; the client and the deployment are created only after BOSH said that there
  is no deployment and Cloud Foundry's counts passed the quota check, the deployment only after
  BOSH said that no task is running; and the answer tells what happened to the deployment.
\<close>

definition provision_contract ::
  "ServiceOffering \<Rightarrow> string \<Rightarrow> string \<Rightarrow> (gerr + ProvisionedServiceSpec) outcome \<Rightarrow> history \<Rightarrow> bool" where
  "provision_contract off iid planID r tr \<longleftrightarrow>
     locked_from False tr \<and> create_guards off iid planID tr \<and> create_outcome off planID carries_data r tr"

lemma create_post_locked:
  assumes "create_post (b_serviceOffering b) iid planID carries_data r d"
  shows "provision_contract (b_serviceOffering b) iid planID r (LockDeployment # d @ [UnlockDeployment])"
  using assms
  by (auto simp: provision_contract_def create_post_def locked_from_free create_guards_def
      guarded_by_append not_deployed_def quotas_passed_def create_outcome_def
      split: outcome.splits sum.splits)

context deployer_interface begin

lemma Provision_keeps_contract:
  assumes "b_deployer b = DP"
  shows "ensures (provision_contract (b_serviceOffering b) iid (pd_PlanID details)) [] (Provision b E ctx0 iid details async)"
  unfolding Provision_def
  by (rule ens_with_lock, rule ens_sub [OF provisionLocked_spec [OF assms]])
     (auto dest: create_post_locked)

end

text \<open>
  C1.  Provision, with the deployer of the task package and in every environment: a deployment is
  created only under the deployment lock, after BOSH answered that the instance has no deployment
  and no task running and after the quotas passed on Cloud Foundry's counts; nothing outside the
  broker is changed before the first two checks; success means that exactly one deployment was
  accepted, and the operation data carries its task, its context and the plan's post-deploy
  errands; an error or a panic means that no deployment was started, unless the dashboard or the
  UAA update failed afterwards; the lock is always released.
\<close>

theorem provision_safe:
  "ensures (provision_contract (b_serviceOffering b) iid (pd_PlanID details)) []
     (Provision (b\<lparr>b_deployer := task_Deployer D E\<rparr>) E ctx iid details async)"
  using task.Provision_keeps_contract [where b = "b\<lparr>b_deployer := task_Deployer D E\<rparr>"] by simp

text \<open>No success, nothing changed, and once BOSH was asked the answer is a 409 Conflict\<close>

definition already_exists :: "string \<Rightarrow> (gerr + 'a) outcome \<Rightarrow> history \<Rightarrow> bool" where
  "already_exists iid r tr \<longleftrightarrow> list_all (\<lambda>e. \<not> changes_world e) tr
     \<and> (case r of
          Val (Inr _) \<Rightarrow> False
        | Val (Inl e) \<Rightarrow>
            statusCode e = Some 409 \<or> (\<forall>m. BoshGetDeployment (deploymentName iid) (Inr (m, True)) \<notin> set tr)
        | Panic _ \<Rightarrow> True
        | OutOfFuel \<Rightarrow> False)"

text \<open>BOSH has not been asked yet\<close>

fun is_lookup :: "event \<Rightarrow> bool" where
  "is_lookup (BoshGetDeployment _ _) = True"
| "is_lookup _ = False"

definition unasked :: "history \<Rightarrow> bool" where
  "unasked t \<longleftrightarrow> list_all (\<lambda>e. \<not> changes_world e \<and> \<not> is_lookup e) t"

lemma unasked_simps [simp]:
  "unasked []" "unasked (xs @ ys) \<longleftrightarrow> unasked xs \<and> unasked ys"
  "unasked (e # t) \<longleftrightarrow> \<not> changes_world e \<and> \<not> is_lookup e \<and> unasked t"
  by (simp_all add: unasked_def)

lemma catalog_no_lookup [simp]: "is_catalog e \<Longrightarrow> \<not> is_lookup e"
  by (cases e) simp_all

lemma catalog_unasked [simp]: "list_all is_catalog t \<Longrightarrow> unasked t"
  by (simp add: unasked_def list_all_iff)

lemma unaskedD:
  "unasked t \<Longrightarrow> list_all (\<lambda>e. \<not> changes_world e) t"
  "unasked t \<Longrightarrow> BoshGetDeployment n q \<notin> set t"
  by (auto simp: unasked_def list_all_iff)

lemma unasked_already:
  "unasked t \<Longrightarrow> ensures (already_exists iid) t (ret (Inl e))"
  "unasked t \<Longrightarrow> already_exists iid (Panic p) t"
  by (auto intro!: ens_ret simp: already_exists_def dest: unaskedD)

lemma provisionInstance_existing:
  assumes "\<And>h. \<exists>m. o_GetDeployment E h (deploymentName iid) = Inr (m, True)"
  shows "ensures (\<lambda>r tr. list_all (\<lambda>e. \<not> changes_world e) tr \<and> (\<exists>e. r = Val (Inl e)
      \<and> ((\<exists>m. tr = [BoshGetDeployment (deploymentName iid) (Inr (m, True))]) \<and> (\<exists>oper. e = DisplayableError ErrInstanceAlreadyExists oper) \<or> tr = [])))
    [] (provisionInstance b E ctx iid details params name)"
proof -
  have "False" if "o_GetDeployment E h (deploymentName iid) = Inl e" for h e
    using assms [of h] that by auto
  moreover have "found" if "o_GetDeployment E h (deploymentName iid) = Inr (m, found)" for h m found
    using assms [of h] that by auto
  ultimately show ?thesis
    unfolding provisionInstance_def client_defs
    by (auto intro!: ens_ret ens_attempt_answer split: prod.splits bool.splits) blast+
qed

lemma provisionLocked_existing:
  assumes "\<And>h. \<exists>m. o_GetDeployment E h (deploymentName iid) = Inr (m, True)"
  shows "ensures (already_exists iid) [LockDeployment] (provisionLocked b E ctx0 iid details async)"
proof -
  have inst: "ensures (already_exists iid) t
      (attempt (provisionInstance b E ctx iid details params name) (\<lambda>err. ret (Inl (b_processError b err)))
        (\<lambda>(operationData, dashboardURL, brokerLabels).
         ret (Inr (provisionedSpec operationData dashboardURL brokerLabels))))"
    if t: "unasked t" for t ctx params name
    by (rule ens_attempt_sub [OF provisionInstance_existing [OF assms]])
       (use t in \<open>auto intro!: ens_ret simp: already_exists_def b_processError_def
          processError_statusCode ErrInstanceAlreadyExists_def dest: unaskedD\<close>)
  show ?thesis
    unfolding provisionLocked_def client_defs b_fail_def Let_def
    by (auto intro!: ens unasked_already inst ens_attempt_sub [OF Services_spec]
        split: sum.splits option.splits)
qed

text \<open>
  A repeated request is harmless: when BOSH has a deployment for the instance, Provision
  never succeeds and changes nothing outside the broker (no UAA client, no secrets, no
  deployment), and if the request gets as far as asking BOSH the platform is answered with 409
  Conflict, whether or not operational errors are exposed.
\<close>

theorem provision_existing_instance:
  assumes "\<And>h. \<exists>m. o_GetDeployment E h (deploymentName iid) = Inr (m, True)"
  shows "ensures (already_exists iid) [] (Provision b E ctx iid details async)"
  unfolding Provision_def
  by (rule ens_with_lock, simp only: append_Nil, rule ensures_mono [OF provisionLocked_existing [OF assms]])
     (auto simp: already_exists_def split: outcome.splits sum.splits)

theorem provision_existing_instance_witness:
  "ensures (already_exists ''i1'') [] (Provision sample_broker deployed_env background ''i1''
     \<lparr>pd_ServiceID = ''offering'', pd_PlanID = ''small'', pd_OrganizationGUID = '''', pd_SpaceGUID = '''',
      pd_RawContext = WEmpty, pd_RawParameters = WEmpty, pd_MaintenanceInfo = None\<rparr> True)"
  by (rule provision_existing_instance) (simp add: deployed_env_def)

end
