(* ===== verification/Update.thy ===== *)
theory Update
  imports Provision
begin

text \<open>
  Changing a service instance: \<open>broker/update.go\<close> (the platform's update request, which the
  decider turns into an update or an upgrade), \<open>broker/upgrade.go\<close> and \<open>broker/recreate.go\<close>
  (also reached through the management API).  Each of them takes the deployment lock for the
  part that talks to the deployer.
\<close>

section \<open>Errors of the deployer\<close>

definition UpdateLoggerAction :: string where
  "UpdateLoggerAction = ''''"

definition handleUpdateError :: "Broker \<Rightarrow> context_info \<Rightarrow> gerr \<Rightarrow> gerr" where
  "handleUpdateError b ctx err = b_processError b (case err of
      ServiceError _ \<Rightarrow> NewBoshRequestError ''update'' (errorf ''error deploying instance: '' err)
    | PendingChangesNotAppliedError _ \<Rightarrow> FailureResponse PendingChangesErrorMessage 422 UpdateLoggerAction False ''''
    | TaskInProgressError _ \<Rightarrow> OperationInProgressError (ErrorString OperationInProgressMessage)
    | PlanNotFoundError _ \<Rightarrow> err
    | DeploymentNotFoundError _ \<Rightarrow> err
    | OperationAlreadyCompletedError _ \<Rightarrow> err
    | UnknownFailureError _ \<Rightarrow> adapterToAPIError ctx err
    | _ \<Rightarrow> NewGenericError ctx (errorf ''error deploying instance: '' err))"

section \<open>Shared steps\<close>

definition operationOf :: "OperationType \<Rightarrow> int \<Rightarrow> string \<Rightarrow> Plan \<Rightarrow> OperationData" where
  "operationOf ty taskID boshContextID plan = zeroOperationData\<lparr>od_BoshTaskID := taskID,
     od_OperationType := ty, od_BoshContextID := boshContextID, od_Errands := PostDeployErrands plan\<rparr>"

text \<open>After the deployer: the dashboard URL and the redirect URL of the instance's UAA client\<close>

definition refreshClient ::
  "Broker \<Rightarrow> env \<Rightarrow> context_info \<Rightarrow> string \<Rightarrow> Plan \<Rightarrow> smap option \<Rightarrow> (string \<times> json) list \<Rightarrow> string \<Rightarrow> (gerr + string) broker_m" where
  "refreshClient b E ctx iid plan siClient contextMap manifest =
     seq (adapter_GenerateDashboardUrl E iid (AdapterPlan plan (off_GlobalProperties (b_serviceOffering b))) manifest) (\<lambda>(dashboardUrl, err).
     let finish = attempt (UpdateServiceInstanceClient E iid dashboardUrl siClient contextMap)
           (\<lambda>err. b_fail b (NewGenericError ctx err)) (\<lambda>_. ret (Inr dashboardUrl)) in
     (case err of
        Some (NotImplementedError _) \<Rightarrow> finish
      | Some e \<Rightarrow> b_fail b (NewGenericError ctx e)
      | None \<Rightarrow> finish))"

section \<open>Update\<close>

definition findPlanInCatalog :: "Broker \<Rightarrow> UpdateDetails \<Rightarrow> gerr + Plan" where
  "findPlanInCatalog b details = (case FindPlanByID (b_serviceOffering b) (ud_PlanID details) of
      (_, False) \<Rightarrow> Inl (PlanNotFoundError (ud_PlanID details))
    | (plan, True) \<Rightarrow> Inr plan)"

definition validateQuotasForUpdate ::
  "Broker \<Rightarrow> env \<Rightarrow> context_info \<Rightarrow> Plan \<Rightarrow> UpdateDetails \<Rightarrow> (gerr + unit) broker_m" where
  "validateQuotasForUpdate b E ctx plan details =
     (if pv_PlanID (ud_PreviousValues details) \<noteq> plan_ID plan then
        attempt (cf_CountInstancesOfServiceOffering E (off_ID (b_serviceOffering b)))
          (\<lambda>err. ret (Inl (NewGenericError ctx err))) (\<lambda>cfPlanCounts.
        (case checkQuotas (b_serviceOffering b) plan cfPlanCounts (off_ID (b_serviceOffering b)) of
           Some quotasErrors \<Rightarrow> ret (Inl quotasErrors)
         | None \<Rightarrow> ret (Inr ())))
      else ret (Inr ()))"

definition update_validatePlanSchemas :: "Broker \<Rightarrow> env \<Rightarrow> Plan \<Rightarrow> UpdateDetails \<Rightarrow> (gerr + unit) broker_m" where
  "update_validatePlanSchemas b E plan details =
     (if EnablePlanSchemas b then
        attempt (adapterPlanSchemas b E plan) (\<lambda>err. ret (Inl err)) (\<lambda>schemas.
        (case ValidateSchema E (NewValidator (schema_InstanceUpdate schemas)) of
           (Some err, _) \<Rightarrow> ret (Inl err)
         | (None, validator) \<Rightarrow>
             (let parsed = unmarshalObject (ud_RawParameters details) in
              if isl parsed \<and> ud_RawParameters details \<noteq> WEmpty
              then ret (Inl (ErrorString (''update request params are malformed: '' @ wireText E (ud_RawParameters details))))
              else (case fst (ValidateParams E validator (case parsed of Inl _ \<Rightarrow> [] | Inr params \<Rightarrow> params)) of
                  Some err \<Rightarrow> ret (Inl (paramsValidationFailed err))
                | None \<Rightarrow> ret (Inr ())))))
      else ret (Inr ()))"

definition getSecretMap :: "env \<Rightarrow> string \<Rightarrow> (gerr + smap) broker_m" where
  "getSecretMap E iid =
     attempt (bosh_GetDeployment E (deploymentName iid)) (\<lambda>err. ret (Inl err)) (\<lambda>(manifest, _).
     seq (bosh_Variables E (deploymentName iid)) (\<lambda>(deploymentVariables, err). case err of
       Some e \<Rightarrow> ret (Inl e)
     | None \<Rightarrow>
     seq (secrets_Resolve E manifest deploymentVariables) (\<lambda>(secretMap, err). case err of
       Some e \<Rightarrow> ret (Inl e)
     | None \<Rightarrow> ret (Inr secretMap))))"

text \<open>The part of \<open>doUpdate\<close> from the deployer on\<close>

definition updateDeployment ::
  "Broker \<Rightarrow> env \<Rightarrow> context_info \<Rightarrow> string \<Rightarrow> UpdateDetails \<Rightarrow> (string \<times> json) list \<Rightarrow> (string \<times> json) list
   \<Rightarrow> smap option \<Rightarrow> Plan \<Rightarrow> string \<Rightarrow> smap \<Rightarrow> (gerr + UpdateServiceSpec) broker_m" where
  "updateDeployment b E ctx iid details detailsMap contextMap siClient plan boshContextID secretMap =
     attempt (dep_Update (b_deployer b) (deploymentName iid) (ud_PlanID details) detailsMap
         (pv_PlanID (ud_PreviousValues details)) boshContextID secretMap siClient)
       (\<lambda>err. ret (Inl (handleUpdateError b ctx err))) (\<lambda>(boshTaskID, manifest, brokerLabels).
     attempt (refreshClient b E ctx iid plan siClient contextMap manifest) (\<lambda>err. ret (Inl err)) (\<lambda>dashboardUrl.
     ret (Inr \<lparr> uss_IsAsync = True,
       uss_OperationData = WJson (marshalOperationData (operationOf OperationTypeUpdate boshTaskID boshContextID plan)),
       uss_DashboardURL = dashboardUrl, uss_Labels = brokerLabels \<rparr>)))"

definition doUpdate ::
  "Broker \<Rightarrow> env \<Rightarrow> context_info \<Rightarrow> string \<Rightarrow> UpdateDetails \<Rightarrow> (string \<times> json) list \<Rightarrow> (string \<times> json) list
   \<Rightarrow> smap option \<Rightarrow> (gerr + UpdateServiceSpec) broker_m" where
  "doUpdate b E ctx iid details detailsMap contextMap siClient =
     with_lock LockDeployment UnlockDeployment
     (case findPlanInCatalog b details of
        Inl err \<Rightarrow> b_fail b err
      | Inr plan \<Rightarrow>
     attempt (validateQuotasForUpdate b E ctx plan details) (\<lambda>err. b_fail b err) (\<lambda>_.
     attempt (update_validatePlanSchemas b E plan details) (\<lambda>err. b_fail b err) (\<lambda>_.
     seq (newContextID E (0 < length (PostDeployErrands plan))) (\<lambda>boshContextID.
     attempt (getSecretMap E iid) (\<lambda>err. b_fail b (NewGenericError ctx err)) (\<lambda>secretMap.
     updateDeployment b E ctx iid details detailsMap contextMap siClient plan boshContextID secretMap)))))"

section \<open>Upgrade and recreate\<close>

text \<open>A nil map is rendered as \<open>null\<close>.\<close>

definition contextValue :: "wire \<Rightarrow> (string \<times> json) list \<Rightarrow> json" where
  "contextValue raw rawCtx = (if raw = WEmpty \<or> raw = WJson JNull then JNull else JObj rawCtx)"

definition upgradeDeployment ::
  "Broker \<Rightarrow> env \<Rightarrow> context_info \<Rightarrow> string \<Rightarrow> Plan \<Rightarrow> (string \<times> json) list \<Rightarrow> (string \<times> json) list
   \<Rightarrow> smap option \<Rightarrow> string \<Rightarrow> (gerr + (OperationData \<times> string \<times> labels)) broker_m" where
  "upgradeDeployment b E ctx iid plan contextMap rawCtx instanceClient boshContextID =
     attempt (dep_Upgrade (b_deployer b) (deploymentName iid) plan contextMap boshContextID instanceClient)
       (\<lambda>err. ret (Inl (handleUpdateError b ctx err))) (\<lambda>(taskID, manifest, brokerLabels).
     attempt (refreshClient b E ctx iid plan instanceClient rawCtx manifest) (\<lambda>err. ret (Inl err)) (\<lambda>dashboardUrl.
     ret (Inr (operationOf OperationTypeUpgrade taskID boshContextID plan, dashboardUrl, brokerLabels))))"

definition upgradeLocked ::
  "Broker \<Rightarrow> env \<Rightarrow> context_info \<Rightarrow> string \<Rightarrow> UpdateDetails \<Rightarrow> (gerr + (OperationData \<times> string \<times> labels)) broker_m" where
  "upgradeLocked b E ctx iid details =
     (if ud_PlanID details = '''' then b_fail b (ErrorString ''no plan ID provided in upgrade request body'')
      else (case FindPlanByID (b_serviceOffering b) (ud_PlanID details) of
        (_, False) \<Rightarrow> b_fail b (ErrorString (''plan '' @ ud_PlanID details @ '' not found''))
      | (plan, True) \<Rightarrow>
     seq (newContextID E (plan_LifecycleErrands plan \<noteq> None)) (\<lambda>boshContextID.
     (case rawContextMap (ud_RawContext details) of
        Inl _ \<Rightarrow> b_fail b (ErrorString ''invalid request context'')
      | Inr rawCtx \<Rightarrow>
     (let contextMap = [(''context'', contextValue (ud_RawContext details) rawCtx)] in
     attempt (GetServiceInstanceClient E iid contextMap) (\<lambda>err. b_fail b (NewGenericError ctx err)) (\<lambda>instanceClient.
     upgradeDeployment b E ctx iid plan contextMap rawCtx instanceClient boshContextID))))))"

definition Broker_Upgrade ::
  "Broker \<Rightarrow> env \<Rightarrow> context_info \<Rightarrow> string \<Rightarrow> UpdateDetails \<Rightarrow> (gerr + (OperationData \<times> string \<times> labels)) broker_m" where
  "Broker_Upgrade b E ctx iid details = with_lock LockDeployment UnlockDeployment (upgradeLocked b E ctx iid details)"

definition recreateError :: "context_info \<Rightarrow> gerr \<Rightarrow> gerr" where
  "recreateError ctx err = (case err of
      UnknownFailureError _ \<Rightarrow> adapterToAPIError ctx err
    | TaskInProgressError _ \<Rightarrow> OperationInProgressError err
    | _ \<Rightarrow> err)"

definition Broker_Recreate :: "Broker \<Rightarrow> env \<Rightarrow> context_info \<Rightarrow> string \<Rightarrow> UpdateDetails \<Rightarrow> (gerr + OperationData) broker_m" where
  "Broker_Recreate b E ctx iid details = with_lock LockDeployment UnlockDeployment
     (if ud_PlanID details = '''' then b_fail b (ErrorString ''no plan ID provided in recreate request body'')
      else (case FindPlanByID (b_serviceOffering b) (ud_PlanID details) of
        (_, False) \<Rightarrow> b_fail b (ErrorString (''plan '' @ ud_PlanID details @ '' not found''))
      | (plan, True) \<Rightarrow>
     seq (newContextID E (plan_LifecycleErrands plan \<noteq> None)) (\<lambda>boshContextID.
     attempt (dep_Recreate (b_deployer b) (deploymentName iid) boshContextID)
       (\<lambda>err. b_fail b (recreateError ctx err)) (\<lambda>taskID.
     ret (Inr (operationOf OperationTypeRecreate taskID boshContextID plan))))))"

section \<open>The platform's update request\<close>

definition doUpgrade ::
  "Broker \<Rightarrow> env \<Rightarrow> context_info \<Rightarrow> string \<Rightarrow> UpdateDetails \<Rightarrow> (gerr + UpdateServiceSpec) broker_m" where
  "doUpgrade b E ctx iid details =
     attempt (Broker_Upgrade b E ctx iid details)
       (\<lambda>err. case err of
          OperationAlreadyCompletedError _ \<Rightarrow> ret (Inr \<lparr> uss_IsAsync = False, uss_OperationData = WEmpty,
             uss_DashboardURL = '''', uss_Labels = [] \<rparr>)
        | _ \<Rightarrow> ret (Inl err)) (\<lambda>(operationData, dashboardURL, brokerLabels).
     ret (Inr \<lparr> uss_IsAsync = True, uss_OperationData = WJson (marshalOperationData operationData),
       uss_DashboardURL = dashboardURL, uss_Labels = brokerLabels \<rparr>))"

text \<open>\<open>if requestContext, ok := detailsMap["context"]; ok\<close>: no check for \<open>null\<close> here.\<close>

definition updateContext :: "(string \<times> json) list \<Rightarrow> (string \<times> json) list outcome" where
  "updateContext detailsMap = (case map_of detailsMap ''context'' of
      None \<Rightarrow> Val [] | Some requestContext \<Rightarrow> assertMap requestContext)"

definition Broker_Update ::
  "Broker \<Rightarrow> env \<Rightarrow> context_info \<Rightarrow> string \<Rightarrow> UpdateDetails \<Rightarrow> bool \<Rightarrow> (gerr + UpdateServiceSpec) broker_m" where
  "Broker_Update b E ctx0 iid details asyncAllowed =
     seq (uuid_New E) (\<lambda>requestID.
     let ctx = brokercontext_New ctx0 (operationTypeString OperationTypeUpdate) requestID (off_Name (b_serviceOffering b)) iid in
     if \<not> asyncAllowed then b_fail b ErrAsyncRequired
     else
     seq (Services b E) (\<lambda>catalog.
     let servicesCatalog = (case catalog of Inl _ \<Rightarrow> [] | Inr c \<Rightarrow> c) in
     seq (lift_outcome (DecideOperation servicesCatalog details)) (\<lambda>(operation, err).
     (case err of
        Some e \<Rightarrow> b_fail b e
      | None \<Rightarrow>
     if operation = Upgrade then doUpgrade b E ctx iid details
     else (case convertDetailsToMap (ud_RawParameters details) (updateDetailsMap details) of
        Inl err \<Rightarrow> b_fail b (NewGenericError ctx err)
      | Inr detailsMap \<Rightarrow>
     seq (lift_outcome (updateContext detailsMap)) (\<lambda>contextMap.
     attempt (GetServiceInstanceClient E iid contextMap) (\<lambda>err. b_fail b (NewGenericError ctx err)) (\<lambda>instanceClient.
     doUpdate b E ctx iid details detailsMap contextMap instanceClient)))))))"

section \<open>What a run does\<close>

definition change_outcome ::
  "OperationType \<Rightarrow> ServiceOffering \<Rightarrow> string \<Rightarrow> (OperationData \<Rightarrow> 'a \<Rightarrow> bool) \<Rightarrow> (gerr + 'a) outcome \<Rightarrow> history \<Rightarrow> bool" where
  "change_outcome ty off planID carries r tr \<longleftrightarrow> (case r of
      Val (Inr x) \<Rightarrow> \<exists>plan m c t. FindPlanByID off planID = (plan, True)
          \<and> filter changes_deployment tr = [BoshDeploy m c (Inr t)] \<and> carries (operationOf ty t c plan) x
    | Val (Inl e) \<Rightarrow> filter changes_deployment tr = []
          \<or> (\<exists>m c e'. filter changes_deployment tr = [BoshDeploy m c (Inl e')])
          \<or> (\<exists>m c t. filter changes_deployment tr = [BoshDeploy m c (Inr t)] \<and> (\<exists>e\<in>set tr. follow_up_failed e))
    | Panic _ \<Rightarrow> filter changes_deployment tr = []
          \<or> (\<exists>m c t. filter changes_deployment tr = [BoshDeploy m c (Inr t)])
    | OutOfFuel \<Rightarrow> False)"

text \<open>\<open>Q\<close>: the plan is changed, so the quotas of the new plan have to be checked.\<close>

definition change_post ::
  "bool \<Rightarrow> string \<Rightarrow> OperationType \<Rightarrow> ServiceOffering \<Rightarrow> string \<Rightarrow> (OperationData \<Rightarrow> 'a \<Rightarrow> bool)
   \<Rightarrow> (gerr + 'a) outcome \<Rightarrow> history \<Rightarrow> bool" where
  "change_post Q iid ty off planID carries r tr \<longleftrightarrow> lock_free tr
     \<and> guarded_by (no_task_running (deploymentName iid)) changes_deployment tr
     \<and> (Q \<longrightarrow> guarded_by (quotas_passed off planID) changes_deployment tr)
     \<and> change_outcome ty off planID carries r tr"

definition idle :: "bool \<Rightarrow> ServiceOffering \<Rightarrow> string \<Rightarrow> history \<Rightarrow> bool" where
  "idle Q off planID t \<longleftrightarrow> lock_free t \<and> filter changes_deployment t = []
     \<and> (Q \<longrightarrow> (\<exists>e\<in>set t. quotas_passed off planID e))"

definition calm :: "history \<Rightarrow> bool" where
  "calm t \<longleftrightarrow> list_all (\<lambda>e. \<not> changes_deployment e \<and> e \<noteq> LockDeployment \<and> e \<noteq> UnlockDeployment) t"

lemma calm_simps [simp]:
  "calm []" "calm (xs @ ys) \<longleftrightarrow> calm xs \<and> calm ys"
  "calm (e # t) \<longleftrightarrow> \<not> changes_deployment e \<and> e \<noteq> LockDeployment \<and> e \<noteq> UnlockDeployment \<and> calm t"
  by (simp_all add: calm_def)

lemma calmD:
  assumes "calm t"
  shows "filter changes_deployment t = []" "lock_free t" "guarded_by G changes_deployment t"
  using assms by (auto simp: calm_def filter_empty_conv lock_free_def list_all_iff intro!: guarded_by_none)

lemma quiet_calm [simp]: "quiet t \<Longrightarrow> calm t"
  by (auto simp: quiet_def calm_def list_all_iff dest: changes_deployment_changes_world)

lemma UAA_calm [simp]: "\<forall>e\<in>set t. is_UAA e \<Longrightarrow> calm t"
  by (auto simp: calm_def list_all_iff)

lemma follow_up_calm [simp]: "list_all is_follow_up t \<Longrightarrow> calm t"
  by (auto simp: calm_def list_all_iff)

lemma calm_idle: "calm t \<Longrightarrow> (Q \<Longrightarrow> \<exists>e\<in>set t. quotas_passed off planID e) \<Longrightarrow> idle Q off planID t"
  by (simp add: idle_def calmD)

lemma calm_error: "calm t \<Longrightarrow> ensures (change_post Q iid ty off planID carries) t (ret (Inl e))"
  by (rule ens_ret) (simp add: change_post_def change_outcome_def calmD)

lemma calm_panic: "calm t \<Longrightarrow> change_post Q iid ty off planID carries (Panic p) t"
  by (simp add: change_post_def change_outcome_def calmD)

lemma idle_guards:
  assumes "idle Q off planID t" and "deploy_contract (deploymentName iid) c r d" and "calm d2"
  shows "guarded_by (no_task_running (deploymentName iid)) changes_deployment ((t @ d) @ d2)"
    "Q \<longrightarrow> guarded_by (quotas_passed off planID) changes_deployment ((t @ d) @ d2)"
proof -
  have t: "guarded_by G changes_deployment t" for G
    using assms(1) by (auto simp: idle_def filter_empty_conv intro!: guarded_by_none)
  have "guarded_by (no_task_running (deploymentName iid)) changes_deployment d"
    using deploy_contract_guard [OF assms(2)] changes_deployment_changes_world
    by (auto intro: guarded_by_weaken)
  then show "guarded_by (no_task_running (deploymentName iid)) changes_deployment ((t @ d) @ d2)"
    by (simp add: guarded_by_append t calmD [OF assms(3)])
  show "Q \<longrightarrow> guarded_by (quotas_passed off planID) changes_deployment ((t @ d) @ d2)"
    using assms(1) by (auto simp: guarded_by_append t idle_def)
qed

lemma change_refused:
  assumes "idle Q off planID t" and "deploy_contract (deploymentName iid) c (Val (Inl e)) d"
  shows "ensures (change_post Q iid ty off planID carries) (t @ d) (ret (Inl e2))"
  using idle_guards [OF assms, of "[]"] assms(1)
  by (cases rule: deploy_contract_cases [OF assms(2)])
     (auto intro!: ens_ret simp: change_post_def change_outcome_def idle_def)

definition refresh_post :: "(gerr + string) outcome \<Rightarrow> history \<Rightarrow> bool" where
  "refresh_post r tr \<longleftrightarrow> list_all is_follow_up tr \<and> (case r of
      Val (Inl e) \<Rightarrow> \<exists>e\<in>set tr. follow_up_failed e | OutOfFuel \<Rightarrow> False | _ \<Rightarrow> True)"

lemma refresh_post_fuel [simp]: "\<not> refresh_post OutOfFuel d"
  by (simp add: refresh_post_def)

lemma UpdateServiceInstanceClient_follow_up:
  "ensures (\<lambda>r tr. list_all is_follow_up tr \<and> (case r of
      Val (Inl e) \<Rightarrow> \<exists>e\<in>set tr. follow_up_failed e | OutOfFuel \<Rightarrow> False | _ \<Rightarrow> True))
    [] (UpdateServiceInstanceClient E iid url si c)"
  unfolding UpdateServiceInstanceClient_def client_defs by (auto intro!: ens)

lemma refreshClient_spec:
  "ensures refresh_post [] (refreshClient b E ctx iid plan si c m)"
proof -
  have finish: "ensures refresh_post t
      (attempt (UpdateServiceInstanceClient E iid url si c) (\<lambda>err. ret (Inl (f err))) (\<lambda>_. ret (Inr url)))"
    if "list_all is_follow_up t" for t url f
    by (rule ens_attempt_sub [OF UpdateServiceInstanceClient_follow_up])
       (use that in \<open>auto intro!: ens simp: refresh_post_def\<close>)
  show ?thesis
    unfolding refreshClient_def client_defs Let_def b_fail_def
    by (auto intro!: ens finish split: option.splits gerr.splits) (auto simp: refresh_post_def)
qed

lemma change_accepted:
  assumes "idle Q off planID t" and "deploy_contract (deploymentName iid) c (Val (Inr (task, m, ls))) d"
    and "FindPlanByID off planID = (plan, True)" and "\<And>url. carries (operationOf ty task c plan) (x url)"
  shows "ensures (change_post Q iid ty off planID carries) (t @ d)
    (attempt (refreshClient b E ctx iid plan si cm m) (\<lambda>err. ret (Inl err)) (\<lambda>url. ret (Inr (x url))))"
proof -
  from assms(2) have d: "filter changes_deployment d = [BoshDeploy m c (Inr task)]" "lock_free d"
    by (cases rule: deploy_contract_cases; simp)+
  have post: "change_post Q iid ty off planID carries r (t @ d @ d2)"
    if "refresh_post r' d2" and "case r' of Val (Inl e) \<Rightarrow> (\<exists>e2. r = Val (Inl e2))
        | Val (Inr url) \<Rightarrow> r = Val (Inr (x url)) | Panic p \<Rightarrow> r = Panic p | OutOfFuel \<Rightarrow> False" for r r' d2
  proof -
    have d2: "calm d2" using that(1) by (simp add: refresh_post_def)
    have "lock_free (t @ d @ d2)" using assms(1) d calmD [OF d2] by (simp add: idle_def)
    moreover have "change_outcome ty off planID carries r (t @ d @ d2)"
      using that assms(1,3,4) d calmD [OF d2]
      by (auto simp: change_outcome_def idle_def refresh_post_def split: outcome.splits sum.splits)
    ultimately show ?thesis using idle_guards [OF assms(1,2) d2] by (simp add: change_post_def)
  qed
  show ?thesis
    by (rule ens_attempt_sub [OF refreshClient_spec]) (auto intro!: ens_ret post)
qed

lemma getSecretMap_spec: "ensures (\<lambda>r tr. calm tr \<and> (\<exists>x. r = Val x)) [] (getSecretMap E iid)"
  unfolding getSecretMap_def client_defs by (auto intro!: ens split: option.splits)

lemma adapterPlanSchemas_calm: "ensures (\<lambda>r tr. calm tr \<and> (\<exists>x. r = Val x)) [] (adapterPlanSchemas b E plan)"
  unfolding adapterPlanSchemas_def client_defs by (auto intro!: ens split: gerr.splits)

lemma update_validatePlanSchemas_spec:
  "ensures (\<lambda>r tr. calm tr \<and> (\<exists>x. r = Val x)) [] (update_validatePlanSchemas b E plan details)"
  unfolding update_validatePlanSchemas_def Let_def
  by (auto intro!: ens ens_attempt_sub [OF adapterPlanSchemas_calm] split: prod.splits option.splits sum.splits)

lemma FindByID_ID: "FindByID ps i = (p, True) \<Longrightarrow> plan_ID p = i"
  by (rule FindByID_found [THEN conjunct2])

lemma validateQuotasForUpdate_spec:
  assumes "FindPlanByID (b_serviceOffering b) (ud_PlanID details) = (plan, True)"
  shows "ensures (\<lambda>r tr. calm tr \<and> ((\<exists>e. r = Val (Inl e)) \<or> r = Val (Inr ())
      \<and> (ud_PlanID details \<noteq> pv_PlanID (ud_PreviousValues details)
         \<longrightarrow> (\<exists>e\<in>set tr. quotas_passed (b_serviceOffering b) (ud_PlanID details) e)))) []
    (validateQuotasForUpdate b E ctx plan details)"
proof -
  have "plan_ID plan = ud_PlanID details"
    using assms FindByID_ID by (auto simp: FindPlanByID_def)
  then show ?thesis
    unfolding validateQuotasForUpdate_def client_defs
    by (auto intro!: ens simp: quotas_passed_def assms split: option.splits)
qed

lemma GetServiceInstanceClient_fuel:
  "ensures (\<lambda>r tr. calm tr \<and> r \<noteq> OutOfFuel) [] (GetServiceInstanceClient E iid c)"
  unfolding GetServiceInstanceClient_def client_defs by (auto intro!: ens)

definition carries_update :: "OperationData \<Rightarrow> UpdateServiceSpec \<Rightarrow> bool" where
  "carries_update od spec \<longleftrightarrow> uss_IsAsync spec \<and> uss_OperationData spec = WJson (marshalOperationData od)"

definition plan_changed :: "UpdateDetails \<Rightarrow> bool" where
  "plan_changed details \<longleftrightarrow> ud_PlanID details \<noteq> pv_PlanID (ud_PreviousValues details)"

lemma deploy_contract_triple:
  "deploy_contract dn c (Val (Inr x)) d \<Longrightarrow> (\<And>t m l. x = (t, m, l) \<Longrightarrow> deploy_contract dn c (Val (Inr (t, m, l))) d \<Longrightarrow> P) \<Longrightarrow> P"
  by (cases x) auto

context deployer_interface begin

lemma updateDeployment_spec:
  assumes "b_deployer b = DP" and "idle Q (b_serviceOffering b) (ud_PlanID details) t"
    and "FindPlanByID (b_serviceOffering b) (ud_PlanID details) = (plan, True)"
  shows "ensures (change_post Q iid OperationTypeUpdate (b_serviceOffering b) (ud_PlanID details) carries_update) t
    (updateDeployment b E ctx iid details detailsMap contextMap si plan c secrets)"
  unfolding updateDeployment_def assms(1)
  by (rule ens_attempt_sub [OF update_law])
     (auto intro!: change_refused change_accepted assms(2,3) simp: carries_update_def)

lemma doUpdate_body:
  assumes "b_deployer b = DP" and "FindPlanByID (b_serviceOffering b) (ud_PlanID details) = (plan, True)"
  shows "ensures (change_post (plan_changed details) iid OperationTypeUpdate (b_serviceOffering b) (ud_PlanID details) carries_update) []
     (attempt (validateQuotasForUpdate b E ctx plan details) (\<lambda>err. ret (Inl (b_processError b err))) (\<lambda>_.
      attempt (update_validatePlanSchemas b E plan details) (\<lambda>err. ret (Inl (b_processError b err))) (\<lambda>_.
      seq (newContextID E (0 < length (PostDeployErrands plan))) (\<lambda>boshContextID.
      attempt (getSecretMap E iid) (\<lambda>err. ret (Inl (b_processError b (NewGenericError ctx err)))) (\<lambda>secretMap.
      updateDeployment b E ctx iid details detailsMap contextMap si plan boshContextID secretMap)))))"
  unfolding newContextID_def client_defs
  by (auto intro!: ens calm_error calm_idle updateDeployment_spec [OF assms(1) _ assms(2)]
      ens_attempt_sub [OF validateQuotasForUpdate_spec [OF assms(2)]]
      ens_attempt_sub [OF update_validatePlanSchemas_spec] ens_attempt_sub [OF getSecretMap_spec]
      simp: plan_changed_def simp del: attempt_ret)

lemma upgradeDeployment_spec:
  assumes "b_deployer b = DP" and "idle Q (b_serviceOffering b) planID t"
    and "FindPlanByID (b_serviceOffering b) planID = (plan, True)"
  shows "ensures (change_post Q iid OperationTypeUpgrade (b_serviceOffering b) planID (\<lambda>od (od', url, ls). od' = od)) t
    (upgradeDeployment b E ctx iid plan cm rawCtx client c)"
  unfolding upgradeDeployment_def assms(1)
  by (rule ens_attempt_sub [OF upgrade_law])
     (auto intro!: change_refused change_accepted assms(2,3))

lemma upgradeLocked_spec:
  assumes "b_deployer b = DP"
  shows "ensures (change_post False iid OperationTypeUpgrade (b_serviceOffering b) (ud_PlanID details) (\<lambda>od (od', url, ls). od' = od)) []
    (upgradeLocked b E ctx iid details)"
proof -
  obtain plan found where p: "FindPlanByID (b_serviceOffering b) (ud_PlanID details) = (plan, found)" by force
  show ?thesis
    unfolding upgradeLocked_def newContextID_def client_defs b_fail_def Let_def
    by (auto intro!: ens calm_error calm_panic calm_idle upgradeDeployment_spec [OF assms]
        ens_attempt_sub [OF GetServiceInstanceClient_fuel]
        simp: p simp del: attempt_ret split: bool.splits sum.splits)
qed

end

section \<open>What the operations promise\<close>

definition change_contract ::
  "bool \<Rightarrow> string \<Rightarrow> OperationType \<Rightarrow> ServiceOffering \<Rightarrow> string \<Rightarrow> (OperationData \<Rightarrow> 'a \<Rightarrow> bool)
   \<Rightarrow> (gerr + 'a) outcome \<Rightarrow> history \<Rightarrow> bool" where
  "change_contract Q iid ty off planID carries r tr \<longleftrightarrow> locked_from False tr
     \<and> guarded_by (no_task_running (deploymentName iid)) changes_deployment tr
     \<and> (Q \<longrightarrow> guarded_by (quotas_passed off planID) changes_deployment tr)
     \<and> change_outcome ty off planID carries r tr"

lemma change_post_locked:
  "change_post Q iid ty off planID carries r d
   \<Longrightarrow> change_contract Q iid ty off planID carries r (LockDeployment # d @ [UnlockDeployment])"
  by (auto simp: change_contract_def change_post_def locked_from_free guarded_by_append
      no_task_running_def quotas_passed_def change_outcome_def split: outcome.splits sum.splits)

lemma change_post_fuel [simp]: "\<not> change_post Q iid ty off planID carries OutOfFuel d"
  by (simp add: change_post_def change_outcome_def)

lemma under_lock:
  assumes "ensures (change_post Q iid ty off planID carries) [] m"
  shows "ensures (change_contract Q iid ty off planID carries) [] (with_lock LockDeployment UnlockDeployment m)"
  by (rule ens_with_lock, rule ens_sub [OF assms]) (auto dest: change_post_locked)

lemma calm_locked: "calm t \<Longrightarrow> locked_from h (t @ d) = locked_from h d"
  by (induction t) auto

lemma change_contract_calm:
  "calm t \<Longrightarrow> change_contract Q iid ty off planID carries r d
   \<Longrightarrow> change_contract Q iid ty off planID carries r (t @ d)"
  by (auto simp: change_contract_def calm_locked guarded_by_append calmD change_outcome_def
      split: outcome.splits sum.splits)

context deployer_interface begin

lemma Upgrade_keeps_contract:
  assumes "b_deployer b = DP"
  shows "ensures (change_contract False iid OperationTypeUpgrade (b_serviceOffering b) (ud_PlanID details)
      (\<lambda>od (od', url, ls). od' = od)) [] (Broker_Upgrade b E ctx iid details)"
  unfolding Broker_Upgrade_def
  by (rule under_lock [OF upgradeLocked_spec [OF assms]])

lemma doUpdate_keeps_contract:
  assumes "b_deployer b = DP"
  shows "ensures (change_contract (plan_changed details) iid OperationTypeUpdate (b_serviceOffering b)
      (ud_PlanID details) carries_update) [] (doUpdate b E ctx iid details detailsMap cm si)"
proof -
  obtain plan found where p: "FindPlanByID (b_serviceOffering b) (ud_PlanID details) = (plan, found)" by force
  show ?thesis
    unfolding doUpdate_def findPlanInCatalog_def b_fail_def p
    by (rule under_lock, cases found)
       (auto intro!: calm_error doUpdate_body [OF assms, simplified] simp: p)
qed

end

lemma obind_Val: "obind r k = Val x \<longleftrightarrow> (\<exists>a. r = Val a \<and> k a = Val x)"
  by (cases r) auto

lemma decide_upgrade_plan: "DecideOperation c d = Val (Upgrade, err) \<Longrightarrow> \<not> plan_changed d"
  by (auto simp: DecideOperation_def planNotChanged_def plan_changed_def obind_Val
      split: option.splits if_splits)

definition update_contract ::
  "string \<Rightarrow> ServiceOffering \<Rightarrow> UpdateDetails \<Rightarrow> (gerr + UpdateServiceSpec) outcome \<Rightarrow> history \<Rightarrow> bool" where
  "update_contract iid off details r tr \<longleftrightarrow>
     (\<exists>ty\<in>{OperationTypeUpdate, OperationTypeUpgrade}.
        change_contract (plan_changed details) iid ty off (ud_PlanID details) carries_update r tr)
     \<or> (\<exists>spec e. r = Val (Inr spec) \<and> \<not> uss_IsAsync spec
        \<and> change_contract (plan_changed details) iid OperationTypeUpgrade off (ud_PlanID details) carries_update (Val (Inl e)) tr)"

lemma update_contract_calm:
  "calm t \<Longrightarrow> update_contract iid off details r d \<Longrightarrow> update_contract iid off details r (t @ d)"
  unfolding update_contract_def by (blast intro: change_contract_calm)

lemma calm_update_error: "calm t \<Longrightarrow> ensures (update_contract iid off details) t (ret (Inl e))"
  by (rule ens_ret) (use calm_locked [of t False "[]"] in \<open>auto simp: update_contract_def change_contract_def calmD change_outcome_def\<close>)

lemma calm_update_panic: "calm t \<Longrightarrow> update_contract iid off details (Panic p) t"
  using calm_locked [of t False "[]"]
  by (auto simp: update_contract_def change_contract_def calmD change_outcome_def)

lemma DecideOperation_fuel [simp]: "DecideOperation c d \<noteq> OutOfFuel"
  by (auto simp: DecideOperation_def decider_defs obind_fuel split: list.splits option.splits if_splits)

lemma change_contract_upgrade:
  "change_contract False iid OperationTypeUpgrade off planID (\<lambda>od (od', url, ls). od' = od) r d \<Longrightarrow> \<not> Q \<Longrightarrow>
   (case r of
      Val (Inl e) \<Rightarrow> \<forall>e'. change_contract Q iid OperationTypeUpgrade off planID carries_update (Val (Inl e')) d
    | Val (Inr (od, url, ls)) \<Rightarrow> change_contract Q iid OperationTypeUpgrade off planID carries_update
        (Val (Inr \<lparr> uss_IsAsync = True, uss_OperationData = WJson (marshalOperationData od),
           uss_DashboardURL = url, uss_Labels = ls \<rparr>)) d
    | Panic p \<Rightarrow> change_contract Q iid OperationTypeUpgrade off planID carries_update (Panic p) d
    | OutOfFuel \<Rightarrow> False)"
  by (auto simp: change_contract_def change_outcome_def carries_update_def
      split: outcome.splits sum.splits prod.splits)

context deployer_interface begin

lemma doUpgrade_spec:
  assumes "b_deployer b = DP" and "\<not> plan_changed details"
  shows "ensures (update_contract iid (b_serviceOffering b) details) [] (doUpgrade b E ctx iid details)"
  unfolding doUpgrade_def
  using change_contract_upgrade [OF _ assms(2), where planID = "ud_PlanID details" and iid = iid and off = "b_serviceOffering b"]
  by (intro ens_attempt_sub [OF Upgrade_keeps_contract [OF assms(1)]])
     (fastforce intro!: ens_ret simp: update_contract_def split: gerr.splits)+

lemma doUpdate_spec:
  assumes "b_deployer b = DP"
  shows "ensures (update_contract iid (b_serviceOffering b) details) [] (doUpdate b E ctx iid details dm cm si)"
  by (rule ensures_mono [OF doUpdate_keeps_contract [OF assms]]) (auto simp: update_contract_def)

lemma Update_keeps_contract:
  assumes "b_deployer b = DP"
  shows "ensures (update_contract iid (b_serviceOffering b) details) [] (Broker_Update b E ctx0 iid details async)"
proof -
  have updateContext: "updateContext m \<noteq> OutOfFuel" for m
    by (simp add: updateContext_def split: option.splits)
  have upgrade: "ensures (update_contract iid (b_serviceOffering b) details) t (doUpgrade b E ctx iid details)"
    if "calm t" and "\<not> plan_changed details" for t ctx
    by (rule ens_sub [OF doUpgrade_spec [OF assms that(2)]]) (rule update_contract_calm [OF that(1)])
  have update: "ensures (update_contract iid (b_serviceOffering b) details) t (doUpdate b E ctx iid details dm cm si)"
    if "calm t" for t ctx dm cm si
    by (rule ens_sub [OF doUpdate_spec [OF assms]]) (rule update_contract_calm [OF that])
  show ?thesis
    unfolding Broker_Update_def client_defs b_fail_def Let_def
    by (auto intro!: ens calm_update_error calm_update_panic ens_seq_sub [OF Services_spec]
        ens_attempt_sub [OF GetServiceInstanceClient_fuel] upgrade update
        simp: updateContext decide_upgrade_plan split: option.splits sum.splits)
qed

end

text \<open>
  C2.  The platform's update request, with the deployer of the task package and in every
  environment: the deployment changes only under the deployment lock and after BOSH answered that
  no task is running; when the request changes the plan, only after the quotas of the new plan
  passed on Cloud Foundry's counts; an asynchronous success means that exactly one deployment was
  accepted, and the operation data carries its task, its context and the plan's post-deploy
  errands; an error means that none was started, unless the dashboard or the UAA update failed
  afterwards; the lock is always released.
\<close>

theorem update_safe:
  "ensures (update_contract iid (b_serviceOffering b) details) []
     (Broker_Update (b\<lparr>b_deployer := task_Deployer D E\<rparr>) E ctx iid details async)"
  using task.Update_keeps_contract [where b = "b\<lparr>b_deployer := task_Deployer D E\<rparr>"] by simp

text \<open>
  Upgrade, as the management API and the decider call it, keeps the same contract: lock,
  no running task, and operation data for exactly the deployment that was started, with the
  post-deploy errands of the plan that was asked for.
\<close>

theorem upgrade_safe:
  "ensures (change_contract False iid OperationTypeUpgrade (b_serviceOffering b) (ud_PlanID details)
      (\<lambda>od (od', url, labels). od' = od)) []
     (Broker_Upgrade (b\<lparr>b_deployer := task_Deployer D E\<rparr>) E ctx iid details)"
  using task.Upgrade_keeps_contract [where b = "b\<lparr>b_deployer := task_Deployer D E\<rparr>"] by simp

section \<open>Recreate\<close>

definition recreate_outcome :: "ServiceOffering \<Rightarrow> string \<Rightarrow> string \<Rightarrow> (gerr + OperationData) outcome \<Rightarrow> history \<Rightarrow> bool" where
  "recreate_outcome off iid planID r tr \<longleftrightarrow> locked_from False tr
     \<and> guarded_by (no_task_running (deploymentName iid)) changes_deployment tr
     \<and> (case r of
          Val (Inr od) \<Rightarrow> \<exists>plan c t. FindPlanByID off planID = (plan, True)
              \<and> filter changes_deployment tr = [BoshRecreate (deploymentName iid) c (Inr t)]
              \<and> od = operationOf OperationTypeRecreate t c plan
        | Val (Inl e) \<Rightarrow> filter changes_deployment tr = []
              \<or> (\<exists>c e'. filter changes_deployment tr = [BoshRecreate (deploymentName iid) c (Inl e')])
        | _ \<Rightarrow> False)"

lemma recreate_contract_guard:
  "recreate_contract dn c r tr \<Longrightarrow> guarded_by (no_task_running dn) changes_deployment tr"
  by (auto simp: recreate_contract_def intro: guarded_by_weaken changes_deployment_changes_world)

lemma recreate_trace:
  assumes "recreate_contract (deploymentName iid) c r d" and "calm t"
    and "FindPlanByID off planID = (plan, True)"
  shows "case r of
      Val (Inl e) \<Rightarrow> \<forall>e2. recreate_outcome off iid planID (Val (Inl e2)) (LockDeployment # (t @ d) @ [UnlockDeployment])
    | Val (Inr task) \<Rightarrow> recreate_outcome off iid planID
        (Val (Inr (operationOf OperationTypeRecreate task c plan))) (LockDeployment # (t @ d) @ [UnlockDeployment])
    | _ \<Rightarrow> False"
  using assms(2,3) recreate_contract_guard [OF assms(1)] calmD [OF assms(2)]
  by (cases rule: recreate_contract_cases [OF assms(1)])
     (auto simp: recreate_outcome_def guarded_by_append calm_locked locked_from_free no_task_running_def)

lemma recreate_rejected:
  "ensures (\<lambda>r t. recreate_outcome off iid planID r (LockDeployment # t @ [UnlockDeployment])) [] (ret (Inl e))"
  by (rule ens_ret) (auto simp: recreate_outcome_def)

context deployer_interface begin

lemma Recreate_keeps_contract:
  assumes "b_deployer b = DP"
  shows "ensures (recreate_outcome (b_serviceOffering b) iid (ud_PlanID details)) [] (Broker_Recreate b E ctx iid details)"
proof -
  let ?\<Phi> = "\<lambda>r t. recreate_outcome (b_serviceOffering b) iid (ud_PlanID details) r (LockDeployment # t @ [UnlockDeployment])"
  obtain plan found where p: "FindPlanByID (b_serviceOffering b) (ud_PlanID details) = (plan, found)" by force
  have recreate: "ensures ?\<Phi> t (attempt (dep_Recreate (b_deployer b) (deploymentName iid) c)
      (\<lambda>err. ret (Inl (f err))) (\<lambda>taskID. ret (Inr (operationOf OperationTypeRecreate taskID c plan))))"
    if "calm t" "found" for t c f
    unfolding assms
    by (rule ens_attempt_sub [OF recreate_law])
       (use recreate_trace [OF _ that(1)] p that(2) in \<open>fastforce intro!: ens_ret\<close>)+
  have "ensures ?\<Phi> [] (if ud_PlanID details = '''' then b_fail b (ErrorString ''no plan ID provided in recreate request body'')
      else (case FindPlanByID (b_serviceOffering b) (ud_PlanID details) of
        (_, False) \<Rightarrow> b_fail b (ErrorString (''plan '' @ ud_PlanID details @ '' not found''))
      | (plan, True) \<Rightarrow>
     seq (newContextID E (plan_LifecycleErrands plan \<noteq> None)) (\<lambda>boshContextID.
     attempt (dep_Recreate (b_deployer b) (deploymentName iid) boshContextID)
       (\<lambda>err. b_fail b (recreateError ctx err)) (\<lambda>taskID.
     ret (Inr (operationOf OperationTypeRecreate taskID boshContextID plan))))))"
    unfolding p b_fail_def newContextID_def client_defs
    by (auto intro!: ens recreate_rejected recreate split: bool.splits)
  moreover have "?\<Phi> r t \<Longrightarrow> r \<noteq> OutOfFuel" for r t by (auto simp: recreate_outcome_def)
  ultimately show ?thesis
    unfolding Broker_Recreate_def
    by (intro ens_with_lock) (rule ens_sub, assumption, auto)
qed

end

text \<open>
  Recreate restarts the machines of exactly the deployment of the instance it was asked for,
  at most once, under the lock and only when no task is running; the operation data carries the
  task BOSH started and the plan's post-deploy errands.
\<close>

theorem recreate_safe:
  "ensures (recreate_outcome (b_serviceOffering b) iid (ud_PlanID details)) []
     (Broker_Recreate (b\<lparr>b_deployer := task_Deployer D E\<rparr>) E ctx iid details)"
  using task.Recreate_keeps_contract [where b = "b\<lparr>b_deployer := task_Deployer D E\<rparr>"] by simp

section \<open>Where the code falls short\<close>

text \<open>
  Update ignores the error of \<open>Services\<close>: when the catalog cannot be generated (the service
  adapter fails to render a plan's schema, say), the decider indexes an empty catalog and the
  request dies with a run-time panic instead of an error.  Provision, in the same situation,
  reports the adapter's error.
\<close>

theorem update_panics_without_catalog:
  assumes "Services b E (s\<lparr>hist := hist s @ [NewUUID (o_UUID E (hist s))]\<rparr>) = (Val (Inl e), s')"
  shows "fst (Broker_Update b E ctx iid details True s) = Panic ''index out of range [0] with length 0''"
  using assms
  by (simp add: Broker_Update_def client_defs run DecideOperation_def decider_defs)

definition schema_broker :: Broker where
  "schema_broker = sample_broker\<lparr>EnablePlanSchemas := True\<rparr>"

theorem update_panics_without_catalog_witness:
  "fst (Broker_Update schema_broker sample_env background ''i1'' example_update True sample_state)
   = Panic ''index out of range [0] with length 0''"
proof -
  have "\<exists>s'. Services schema_broker sample_env
      (sample_state\<lparr>hist := hist sample_state @ [NewUUID (o_UUID sample_env (hist sample_state))]\<rparr>)
    = (Val (Inl schemasNotImplemented), s')"
    by (simp add: Services_def with_lock_def run schema_broker_def sample_broker_def sample_state_def
        sample_offering_def generateServicePlan_def generatePlanSchemas_def adapterPlanSchemas_def
        client_defs sample_env_def)
  then show ?thesis by (auto intro: update_panics_without_catalog)
qed

definition nameless :: "event \<Rightarrow> bool" where
  "nameless e \<longleftrightarrow> (case e of UAACreateClient _ name space _ \<Rightarrow> name = '''' \<and> space = '''' | _ \<Rightarrow> True)"

lemma nameless_other: "\<not> is_UAA e \<Longrightarrow> nameless e"
  by (cases e) (simp_all add: nameless_def)

lemma upgrade_client_calls:
  "ensures (\<lambda>r tr. list_all nameless tr) [] (GetServiceInstanceClient E iid [(''context'', v)])"
  unfolding GetServiceInstanceClient_def client_defs
  by (auto intro!: ens simp: nameless_def getInstanceNameFromContext_def getSpaceGUIDFromContext_def)

lemma refreshClient_nameless: "ensures (\<lambda>r tr. list_all nameless tr) [] (refreshClient b E ctx iid plan si c m)"
proof (rule ensures_mono [OF refreshClient_spec])
  fix r t assume "refresh_post r t"
  moreover have "nameless e" if "is_follow_up e" for e using that by (cases e) (simp_all add: nameless_def)
  ultimately show "list_all nameless t" by (auto simp: refresh_post_def list_all_iff)
qed

context deployer_interface begin

lemma upgradeLocked_nameless:
  assumes "b_deployer b = DP"
  shows "ensures (\<lambda>r tr. list_all nameless tr) [] (upgradeLocked b E ctx iid details)"
proof -
  have dep: "ensures (\<lambda>r tr. list_all nameless tr) [] (dep_Upgrade DP dn plan cm c client)" for dn plan cm c client
    by (rule ensures_mono [OF upgrade_law])
       (auto dest!: deploy_contract_no_change intro: nameless_other simp: list_all_iff)
  show ?thesis
    unfolding upgradeLocked_def upgradeDeployment_def newContextID_def client_defs b_fail_def Let_def assms
    by (auto intro!: ens ens_attempt_sub [OF upgrade_client_calls] ens_attempt_sub [OF dep]
        ens_attempt_sub [OF refreshClient_nameless] simp: nameless_def split: bool.splits sum.splits prod.splits)
qed

end

text \<open>
  Upgrade looks the instance name and the space up one level too high in the map it builds
  (\<open>{"context": ...}\<close>), so every UAA client it creates has neither a name nor a space, even
  when the request's context carries both (Update passes the context itself).
\<close>

theorem upgrade_creates_nameless_client:
  "ensures (\<lambda>r tr. list_all nameless tr) []
     (Broker_Upgrade (b\<lparr>b_deployer := task_Deployer D E\<rparr>) E ctx iid details)"
  unfolding Broker_Upgrade_def
  by (rule ens_with_lock, rule ens_sub [OF task.upgradeLocked_nameless]) (auto simp: nameless_def)

text \<open>
  An explicit \<open>"context": null\<close> is treated differently by the two handlers: the map made of
  an update request then holds a nil context, on which Update's type assertion panics, while
  the reading of the context that Provision uses takes the same map as having no context.
\<close>

theorem update_null_context_panics:
  assumes "convertDetailsToMap (ud_RawParameters details) (updateDetailsMap details) = Inr detailsMap"
    and "ud_RawContext details = WJson JNull"
  shows "(\<exists>msg. updateContext detailsMap = Panic msg) \<and> fromContext f detailsMap = Val ''''"
proof -
  have "map_of detailsMap ''context'' = Some JNull"
    using assms
    by (auto simp: convertDetailsToMap_def updateDetailsMap_def rawField_def maintenanceInfoField_def
        map_of_map_set split: sum.splits wire.splits option.splits if_splits)
  then show ?thesis by (simp add: updateContext_def fromContext_def assertMap_def)
qed

theorem update_null_context_panics_witness:
  "\<exists>detailsMap msg. convertDetailsToMap (ud_RawParameters (example_update\<lparr>ud_RawContext := WJson JNull\<rparr>))
      (updateDetailsMap (example_update\<lparr>ud_RawContext := WJson JNull\<rparr>)) = Inr detailsMap
     \<and> updateContext detailsMap = Panic msg"
proof -
  let ?d = "example_update\<lparr>ud_RawContext := WJson JNull\<rparr>"
  obtain m where m: "convertDetailsToMap (ud_RawParameters ?d) (updateDetailsMap ?d) = Inr m"
    by (simp add: convertDetailsToMap_def updateDetailsMap_def rawField_def example_update_def)
  then show ?thesis using update_null_context_panics [of ?d m "\<lambda>_. Val ''''"] by auto
qed

end
