(* ===== verification/LifeCycle.thy ===== *)
theory LifeCycle
  imports Sample
begin

text \<open>
  \<open>broker/lifecycle_runner.go\<close>: every poll of the platform looks up the task that stands for the
  operation, and the poll that finds the previous task finished starts the next step: the next
  post-deploy errand, the next pre-delete errand, or the deletion of the deployment.
  BOSH lists the tasks of a context newest first.
\<close>

definition validPostDeployOpType :: "OperationType \<Rightarrow> bool" where
  "validPostDeployOpType ty \<longleftrightarrow> ty = OperationTypeCreate \<or> ty = OperationTypeUpdate
     \<or> ty = OperationTypeRecreate \<or> ty = OperationTypeUpgrade"

definition validPreDeleteOpType :: "OperationType \<Rightarrow> bool" where
  "validPreDeleteOpType ty \<longleftrightarrow> ty = OperationTypeDelete \<or> ty = OperationTypeForceDelete"

definition isNotCompleted :: "TaskStateType \<Rightarrow> bool" where
  "isNotCompleted st \<longleftrightarrow> st \<noteq> TaskComplete"

definition shouldSkipError :: "TaskStateType \<Rightarrow> OperationType \<Rightarrow> bool" where
  "shouldSkipError st ty \<longleftrightarrow> st = TaskFailed \<and> ty = OperationTypeForceDelete"

definition taskIsNotDone :: "BoshTask \<Rightarrow> OperationType \<Rightarrow> bool" where
  "taskIsNotDone t ty \<longleftrightarrow> \<not> shouldSkipError (StateType t) ty \<and> isNotCompleted (StateType t)"

definition isOldStylePreDeleteOperationData :: "BoshTask list \<Rightarrow> OperationData \<Rightarrow> bool" where
  "isOldStylePreDeleteOperationData ts d \<longleftrightarrow> length ts = 1 \<and> errand_Name (od_PreDeleteErrand d) \<noteq> ''''"

definition isOldStylePostDeployOperationData :: "BoshTask list \<Rightarrow> OperationData \<Rightarrow> bool" where
  "isOldStylePostDeployOperationData ts d \<longleftrightarrow> length ts = 1 \<and> errand_Name (od_PostDeployErrand d) \<noteq> ''''"

definition shouldRunDeprovision :: "BoshTask list \<Rightarrow> OperationData \<Rightarrow> bool" where
  "shouldRunDeprovision ts d \<longleftrightarrow> length ts = length (od_Errands d) \<or> isOldStylePreDeleteOperationData ts d"

definition hasRunAllErrands :: "BoshTask list \<Rightarrow> OperationData \<Rightarrow> bool" where
  "hasRunAllErrands ts d \<longleftrightarrow> length (od_Errands d) < length ts"

definition shouldForceDelete :: "OperationData \<Rightarrow> bool" where
  "shouldForceDelete d = (if od_OperationType d = OperationTypeForceDelete then True else False)"

definition noTasksError :: "string \<Rightarrow> gerr" where
  "noTasksError c = ErrorString (''no tasks found for context id: '' @ c)"

definition runErrand :: "env \<Rightarrow> string \<Rightarrow> Errand \<Rightarrow> string \<Rightarrow> (gerr + BoshTask) broker_m" where
  "runErrand E dn errand contextID =
     attempt (bosh_RunErrand E dn (errand_Name errand) (errand_Instances errand) contextID) (\<lambda>e. ret (Inl e)) (\<lambda>taskID.
     attempt (bosh_GetTask E taskID) (\<lambda>e. ret (Inl e)) (\<lambda>task.
     ret (Inr task)))"

text \<open>Indexing a Go slice\<close>

definition go_index :: "'a list \<Rightarrow> nat \<Rightarrow> 'a outcome" where
  "go_index xs i = (if i < length xs then Val (xs ! i) else Panic ''index out of range'')"

definition processPostDeployment :: "env \<Rightarrow> string \<Rightarrow> OperationData \<Rightarrow> (gerr + BoshTask) broker_m" where
  "processPostDeployment E dn d =
     attempt (bosh_GetNormalisedTasksByContext E dn (od_BoshContextID d)) (\<lambda>e. ret (Inl e)) (\<lambda>boshTasks.
     if length boshTasks = 0 then ret (Inl (noTasksError (od_BoshContextID d)))
     else
       seq (lift_outcome (go_index boshTasks 0)) (\<lambda>task.
       if StateType task \<noteq> TaskComplete then ret (Inr task)
       else if isOldStylePostDeployOperationData boshTasks d then
         runErrand E dn (od_PostDeployErrand d) (od_BoshContextID d)
       else
         (let nextErrandIndex = length boshTasks - 1 in
          if nextErrandIndex < length (od_Errands d) then
            seq (lift_outcome (go_index (od_Errands d) nextErrandIndex)) (\<lambda>errand.
            runErrand E dn errand (od_BoshContextID d))
          else ret (Inr task))))"

definition getTasks :: "env \<Rightarrow> string \<Rightarrow> OperationData \<Rightarrow> (gerr + BoshTask list) broker_m" where
  "getTasks E dn d =
     attempt (bosh_GetNormalisedTasksByContext E dn (od_BoshContextID d)) (\<lambda>e. ret (Inl e)) (\<lambda>boshTasks.
     if length boshTasks = 0 then ret (Inl (noTasksError (od_BoshContextID d)))
     else ret (Inr boshTasks))"

definition deprovisionAfterAllErrand :: "env \<Rightarrow> string \<Rightarrow> OperationData \<Rightarrow> (gerr + BoshTask) broker_m" where
  "deprovisionAfterAllErrand E dn d =
     attempt (bosh_DeleteDeployment E dn (od_BoshContextID d) (shouldForceDelete d)) (\<lambda>e. ret (Inl e)) (\<lambda>taskID.
     bosh_GetTask E taskID)"

definition processPreDelete :: "env \<Rightarrow> string \<Rightarrow> OperationData \<Rightarrow> (gerr + BoshTask) broker_m" where
  "processPreDelete E dn d =
     attempt (getTasks E dn d) (\<lambda>e. ret (Inl e)) (\<lambda>boshTasks.
     seq (lift_outcome (go_index boshTasks 0)) (\<lambda>currentTask.
     if taskIsNotDone currentTask (od_OperationType d) then ret (Inr currentTask)
     else if shouldRunDeprovision boshTasks d then deprovisionAfterAllErrand E dn d
     else if hasRunAllErrands boshTasks d then ret (Inr currentTask)
     else
       seq (lift_outcome (go_index (od_Errands d) (length boshTasks))) (\<lambda>errand.
       runErrand E dn errand (od_BoshContextID d))))"

definition LifeCycle_GetTask :: "env \<Rightarrow> string \<Rightarrow> OperationData \<Rightarrow> (gerr + BoshTask) broker_m" where
  "LifeCycle_GetTask E dn d =
     (if od_BoshContextID d = '''' then bosh_GetTask E (od_BoshTaskID d)
      else if validPostDeployOpType (od_OperationType d) then processPostDeployment E dn d
      else if validPreDeleteOpType (od_OperationType d) then processPreDelete E dn d
      else bosh_GetTask E (od_BoshTaskID d))"

section \<open>Abstract specification: the step a poll takes\<close>

datatype action = Report BoshTask | StartErrand Errand | StartDelete bool | GiveUp

text \<open>What a poll does when BOSH lists the tasks \<open>ts\<close> (newest first) for the context.\<close>

definition nextAction :: "OperationData \<Rightarrow> BoshTask list \<Rightarrow> action" where
  "nextAction d ts = (case ts of
      [] \<Rightarrow> GiveUp
    | t # earlier \<Rightarrow>
        if validPostDeployOpType (od_OperationType d) then
          if StateType t \<noteq> TaskComplete then Report t
          else if length ts = 1 \<and> errand_Name (od_PostDeployErrand d) \<noteq> '''' then StartErrand (od_PostDeployErrand d)
          else if length earlier < length (od_Errands d) then StartErrand (od_Errands d ! length earlier)
          else Report t
        else
          if StateType t \<noteq> TaskComplete
             \<and> \<not> (StateType t = TaskFailed \<and> od_OperationType d = OperationTypeForceDelete) then Report t
          else if length ts = length (od_Errands d)
             \<or> (length ts = 1 \<and> errand_Name (od_PreDeleteErrand d) \<noteq> '''')
            then StartDelete (od_OperationType d = OperationTypeForceDelete)
          else if length (od_Errands d) < length ts then Report t
          else StartErrand (od_Errands d ! length ts))"

definition perform :: "env \<Rightarrow> string \<Rightarrow> string \<Rightarrow> action \<Rightarrow> (gerr + BoshTask) broker_m" where
  "perform E dn c a = (case a of
      Report t \<Rightarrow> ret (Inr t)
    | StartErrand e \<Rightarrow> runErrand E dn e c
    | StartDelete force \<Rightarrow> attempt (bosh_DeleteDeployment E dn c force) (\<lambda>e. ret (Inl e)) (\<lambda>t. bosh_GetTask E t)
    | GiveUp \<Rightarrow> ret (Inl (noTasksError c)))"

lemma lift_Val [simp]: "seq (lift_outcome (Val a)) k = k a"
  by (rule ext) (simp add: seq_def lift_outcome_def)

lemma lift_Panic [simp]: "seq (lift_outcome (Panic p)) k = gopanic p"
  by (rule ext) (simp add: seq_def lift_outcome_def gopanic_def)

lemma attempt_attempt:
  "attempt (attempt m (\<lambda>e. ret (Inl e)) (\<lambda>x. if b x then ret (Inl (f x)) else ret (Inr x))) h k
   = attempt m h (\<lambda>x. if b x then h (f x) else k x)"
  by (rule ext) (simp add: run split: prod.splits outcome.splits sum.splits)

lemma attempt_cong:
  assumes "\<And>x. k x = k' x"
  shows "attempt m h k = attempt m h k'"
proof -
  from assms have "k = k'" by (rule ext)
  then show ?thesis by simp
qed

lemma GetTask_perform:
  assumes "od_BoshContextID d \<noteq> ''''"
    and "validPostDeployOpType (od_OperationType d) \<or> validPreDeleteOpType (od_OperationType d)"
  shows "LifeCycle_GetTask E dn d =
     attempt (bosh_GetNormalisedTasksByContext E dn (od_BoshContextID d)) (\<lambda>e. ret (Inl e))
       (\<lambda>ts. perform E dn (od_BoshContextID d) (nextAction d ts))"
proof (cases "validPostDeployOpType (od_OperationType d)")
  case True
  then have "LifeCycle_GetTask E dn d = processPostDeployment E dn d"
    using assms(1) by (simp add: LifeCycle_GetTask_def)
  also have "\<dots> = attempt (bosh_GetNormalisedTasksByContext E dn (od_BoshContextID d)) (\<lambda>e. ret (Inl e))
       (\<lambda>ts. perform E dn (od_BoshContextID d) (nextAction d ts))"
    unfolding processPostDeployment_def
    by (rule attempt_cong) (auto simp: nextAction_def perform_def go_index_def True Let_def
        isOldStylePostDeployOperationData_def split: list.splits)
  finally show ?thesis .
next
  case False
  then have "LifeCycle_GetTask E dn d = processPreDelete E dn d"
    using assms by (simp add: LifeCycle_GetTask_def)
  also have "\<dots> = attempt (bosh_GetNormalisedTasksByContext E dn (od_BoshContextID d)) (\<lambda>e. ret (Inl e))
       (\<lambda>ts. perform E dn (od_BoshContextID d) (nextAction d ts))"
    unfolding processPreDelete_def getTasks_def attempt_attempt
  proof (rule attempt_cong)
    fix ts
    show "(if length ts = 0 then ret (Inl (noTasksError (od_BoshContextID d)))
       else seq (lift_outcome (go_index ts 0)) (\<lambda>currentTask.
         if taskIsNotDone currentTask (od_OperationType d) then ret (Inr currentTask)
         else if shouldRunDeprovision ts d then deprovisionAfterAllErrand E dn d
         else if hasRunAllErrands ts d then ret (Inr currentTask)
         else seq (lift_outcome (go_index (od_Errands d) (length ts))) (\<lambda>errand.
           runErrand E dn errand (od_BoshContextID d))))
      = perform E dn (od_BoshContextID d) (nextAction d ts)"
      by (cases ts) (simp_all add: nextAction_def perform_def go_index_def False taskIsNotDone_def
        shouldSkipError_def isNotCompleted_def shouldRunDeprovision_def hasRunAllErrands_def
        isOldStylePreDeleteOperationData_def deprovisionAfterAllErrand_def shouldForceDelete_def)
  qed
  finally show ?thesis .
qed

text \<open>
  C16.  Polling an operation that has a context id refines the abstract specification: it asks
  BOSH for the tasks of the context and performs exactly the action \<open>nextAction\<close> chooses.  In
  particular no index into the errands is ever out of range.
\<close>

theorem lifecycle_refines:
  assumes "od_BoshContextID d \<noteq> ''''"
    and "validPostDeployOpType (od_OperationType d) \<or> validPreDeleteOpType (od_OperationType d)"
  shows "LifeCycle_GetTask E dn d =
     attempt (bosh_GetNormalisedTasksByContext E dn (od_BoshContextID d)) (\<lambda>e. ret (Inl e))
       (\<lambda>ts. perform E dn (od_BoshContextID d) (nextAction d ts))"
  by (rule GetTask_perform [OF assms])

section \<open>Repeated polling under a director that finishes its tasks\<close>

text \<open>The tasks a history started in a context, oldest first\<close>

definition started_task :: "string \<Rightarrow> event \<Rightarrow> int list" where
  "started_task c e = (case e of
      BoshDeploy _ c' (Inr t) \<Rightarrow> if c' = c then [t] else []
    | BoshRecreate _ c' (Inr t) \<Rightarrow> if c' = c then [t] else []
    | BoshRunErrand _ _ _ c' (Inr t) \<Rightarrow> if c' = c then [t] else []
    | BoshDeleteDeployment _ c' _ (Inr t) \<Rightarrow> if c' = c then [t] else []
    | _ \<Rightarrow> [])"

definition ctxTaskIDs :: "string \<Rightarrow> history \<Rightarrow> int list" where
  "ctxTaskIDs c h = concat (map (started_task c) h)"

lemma ctxTaskIDs_append [simp]: "ctxTaskIDs c (h @ h') = ctxTaskIDs c h @ ctxTaskIDs c h'"
  by (simp add: ctxTaskIDs_def)

lemma ctxTaskIDs_Nil [simp]: "ctxTaskIDs c [] = []"
  by (simp add: ctxTaskIDs_def)

lemma ctxTaskIDs_Cons [simp]: "ctxTaskIDs c (e # h) = started_task c e @ ctxTaskIDs c h"
  by (simp add: ctxTaskIDs_def)

definition done_task :: "string \<Rightarrow> int \<Rightarrow> BoshTask" where
  "done_task c t = \<lparr> task_ID = t, task_State = ''done'', task_Description = '''', task_Result = '''',
     task_ContextID = c \<rparr>"

lemma StateType_done [simp]: "StateType (done_task c t) = TaskComplete"
  by (simp add: StateType_def done_task_def)

text \<open>
  A director that accepts errands and deletions, lists the tasks of a context newest first and
  has finished each of them by the time it is asked.
\<close>

definition prompt_director :: "env \<Rightarrow> string \<Rightarrow> string \<Rightarrow> bool" where
  "prompt_director E dn c \<longleftrightarrow>
     (\<forall>h. o_TasksByContext E h dn c = Inr (map (done_task c) (rev (ctxTaskIDs c h))))
     \<and> (\<forall>h t. o_GetTask E h t = Inr (done_task c t))
     \<and> (\<forall>h e i. \<exists>t. o_RunErrand E h dn e i c = Inr t)
     \<and> (\<forall>h f. \<exists>t. o_DeleteDeployment E h dn c f = Inr t)"

text \<open>What a trace did to deployments\<close>

datatype effect = RanErrand string "string list" | Deleted bool | Deployed

definition effect_of :: "event \<Rightarrow> effect list" where
  "effect_of e = (case e of
      BoshRunErrand _ n i _ _ \<Rightarrow> [RanErrand n i]
    | BoshDeleteDeployment _ _ f _ \<Rightarrow> [Deleted f]
    | BoshDeploy _ _ _ \<Rightarrow> [Deployed]
    | BoshRecreate _ _ _ \<Rightarrow> [Deployed]
    | _ \<Rightarrow> [])"

definition effects :: "history \<Rightarrow> effect list" where
  "effects h = concat (map effect_of h)"

lemma effects_simps [simp]:
  "effects [] = []" "effects (e # h) = effect_of e @ effects h" "effects (h @ h') = effects h @ effects h'"
  by (simp_all add: effects_def)

fun polls :: "nat \<Rightarrow> ('s, 'a) go \<Rightarrow> 's \<Rightarrow> 's" where
  "polls 0 m s = s"
| "polls (Suc n) m s = polls n m (snd (m s))"

lemma polls_add: "polls (m + n) f s = polls n f (polls m f s)"
  by (induction m arbitrary: s) auto

definition errand_effect :: "Errand \<Rightarrow> effect" where
  "errand_effect e = RanErrand (errand_Name e) (errand_Instances e)"

text \<open>One poll: the listing, then the action\<close>

lemma poll_run:
  assumes "prompt_director E dn c" and "od_BoshContextID d = c" and "c \<noteq> ''''"
    and "validPostDeployOpType (od_OperationType d) \<or> validPreDeleteOpType (od_OperationType d)"
    and "ts = map (done_task c) (rev (ctxTaskIDs c (hist s)))"
  shows "LifeCycle_GetTask E dn d s =
     perform E dn c (nextAction d ts) (s\<lparr>hist := hist s @ [BoshTasksByContext dn c (Inr ts)]\<rparr>)"
  using assms
  by (simp add: GetTask_perform run prompt_director_def
      bosh_GetNormalisedTasksByContext_def)

lemma perform_StartErrand:
  assumes "prompt_director E dn c"
  shows "\<exists>t. perform E dn c (StartErrand e) s = (Val (Inr (done_task c t)),
     s\<lparr>hist := hist s @ [BoshRunErrand dn (errand_Name e) (errand_Instances e) c (Inr t),
                         BoshGetTask t (Inr (done_task c t))]\<rparr>)"
proof -
  from assms obtain t where "o_RunErrand E (hist s) dn (errand_Name e) (errand_Instances e) c = Inr t"
    unfolding prompt_director_def by blast
  with assms show ?thesis
    by (auto simp: perform_def runErrand_def run
        bosh_RunErrand_def bosh_GetTask_def prompt_director_def)
qed

lemma perform_StartDelete:
  assumes "prompt_director E dn c"
  shows "\<exists>t. perform E dn c (StartDelete f) s = (Val (Inr (done_task c t)),
     s\<lparr>hist := hist s @ [BoshDeleteDeployment dn c f (Inr t), BoshGetTask t (Inr (done_task c t))]\<rparr>)"
proof -
  from assms obtain t where "o_DeleteDeployment E (hist s) dn c f = Inr t"
    unfolding prompt_director_def by blast
  with assms show ?thesis
    by (auto simp: perform_def run
        bosh_DeleteDeployment_def bosh_GetTask_def prompt_director_def)
qed

lemma started_task_simps [simp]:
  "started_task c (BoshTasksByContext n c' r) = []"
  "started_task c (BoshGetTask t x) = []"
  "started_task c (BoshRunErrand n e i c (Inr t)) = [t]"
  "started_task c (BoshDeleteDeployment n c f (Inr t)) = [t]"
  by (simp_all add: started_task_def)

lemma effect_of_simps [simp]:
  "effect_of (BoshTasksByContext n c' r) = []"
  "effect_of (BoshGetTask t x) = []"
  "effect_of (BoshRunErrand n e i c q) = [RanErrand e i]"
  "effect_of (BoshDeleteDeployment n c f q) = [Deleted f]"
  by (simp_all add: effect_of_def)

text \<open>One poll that starts an errand: one more task, one more effect\<close>

lemma poll_errand:
  assumes "prompt_director E dn c" and "od_BoshContextID d = c" and "c \<noteq> ''''"
    and "validPostDeployOpType (od_OperationType d) \<or> validPreDeleteOpType (od_OperationType d)"
    and "nextAction d (map (done_task c) (rev (ctxTaskIDs c (hist s)))) = StartErrand e"
  shows "\<exists>tr. hist (snd (LifeCycle_GetTask E dn d s)) = hist s @ tr \<and> effects tr = [errand_effect e]
       \<and> length (ctxTaskIDs c (hist s @ tr)) = Suc (length (ctxTaskIDs c (hist s)))"
proof -
  let ?l = "BoshTasksByContext dn c (Inr (map (done_task c) (rev (ctxTaskIDs c (hist s)))))"
  obtain t where "perform E dn c (StartErrand e) (s\<lparr>hist := hist s @ [?l]\<rparr>) = (Val (Inr (done_task c t)),
     s\<lparr>hist := hist s @ [?l, BoshRunErrand dn (errand_Name e) (errand_Instances e) c (Inr t),
                         BoshGetTask t (Inr (done_task c t))]\<rparr>)"
    using perform_StartErrand [OF assms(1), of e "s\<lparr>hist := hist s @ [?l]\<rparr>"] by auto
  with poll_run [OF assms(1-4) refl, of s] assms(5) show ?thesis
    by (simp add: errand_effect_def)
qed

text \<open>Several polls in a row that start errands, for any poll that takes one step at a time\<close>

lemma polls_steps:
  fixes p :: "('s, 'a) go" and hst :: "'s \<Rightarrow> history"
  assumes "\<And>s e. nextAction d (map (done_task c) (rev (ctxTaskIDs c (hst s)))) = StartErrand e \<Longrightarrow>
       \<exists>tr. hst (snd (p s)) = hst s @ tr \<and> effects tr = [errand_effect e]
         \<and> length (ctxTaskIDs c (hst s @ tr)) = Suc (length (ctxTaskIDs c (hst s)))"
    and "\<And>ids. j \<le> length ids \<Longrightarrow> length ids < j + n \<Longrightarrow>
          nextAction d (map (done_task c) ids) = StartErrand (es ! (length ids - j))"
    and "length (ctxTaskIDs c (hst s)) = j" and "length es = n"
  shows "\<exists>tr. hst (polls n p s) = hst s @ tr
       \<and> effects tr = map errand_effect es
       \<and> length (ctxTaskIDs c (hst s @ tr)) = j + n"
  using assms(2-4)
proof (induction n arbitrary: s j es)
  case 0
  then show ?case by (intro exI [of _ "[]"]) simp
next
  case (Suc n)
  from Suc.prems obtain e es' where es: "es = e # es'" and n: "length es' = n" by (cases es) auto
  let ?s1 = "snd (p s)"
  from Suc.prems(1) [of "rev (ctxTaskIDs c (hst s))"] Suc.prems(2)
  have "nextAction d (map (done_task c) (rev (ctxTaskIDs c (hst s)))) = StartErrand e"
    by (simp add: es rev_map)
  from assms(1) [OF this] obtain tr where tr: "hst ?s1 = hst s @ tr"
      "effects tr = [errand_effect e]" "length (ctxTaskIDs c (hst ?s1)) = Suc j"
    using Suc.prems(2) by auto
  have "nextAction d (map (done_task c) ids) = StartErrand (es' ! (length ids - Suc j))"
    if "Suc j \<le> length ids" "length ids < Suc j + n" for ids
  proof -
    have "length ids - j = Suc (length ids - Suc j)" using that(1) by simp
    then show ?thesis using Suc.prems(1) [of ids] that by (simp add: es)
  qed
  from Suc.IH [OF this tr(3) n] obtain tr' where "hst (polls n p ?s1) = hst ?s1 @ tr'"
      "effects tr' = map errand_effect es'" "length (ctxTaskIDs c (hst ?s1 @ tr')) = Suc j + n"
    by auto
  with tr show ?case by (intro exI [of _ "tr @ tr'"]) (simp add: es)
qed

lemma polls_errands:
  assumes "prompt_director E dn c" and "od_BoshContextID d = c" and "c \<noteq> ''''"
    and "validPostDeployOpType (od_OperationType d) \<or> validPreDeleteOpType (od_OperationType d)"
    and "\<And>ids. j \<le> length ids \<Longrightarrow> length ids < j + n \<Longrightarrow>
          nextAction d (map (done_task c) ids) = StartErrand (es ! (length ids - j))"
    and "length (ctxTaskIDs c (hist s)) = j" and "length es = n"
  shows "\<exists>tr. hist (polls n (LifeCycle_GetTask E dn d) s) = hist s @ tr
       \<and> effects tr = map errand_effect es
       \<and> length (ctxTaskIDs c (hist s @ tr)) = j + n"
  by (rule polls_steps [where d = d and hst = hist, OF poll_errand [OF assms(1-4)] assms(5-7)])

text \<open>A poll that only reports\<close>

lemma poll_report:
  assumes "prompt_director E dn c" and "od_BoshContextID d = c" and "c \<noteq> ''''"
    and "validPostDeployOpType (od_OperationType d) \<or> validPreDeleteOpType (od_OperationType d)"
    and "nextAction d (map (done_task c) (rev (ctxTaskIDs c (hist s)))) = Report t"
  shows "fst (LifeCycle_GetTask E dn d s) = Val (Inr t)
       \<and> hist (snd (LifeCycle_GetTask E dn d s)) = hist s @ [BoshTasksByContext dn c
            (Inr (map (done_task c) (rev (ctxTaskIDs c (hist s)))))]"
  using poll_run [OF assms(1-4) refl, of s] by (simp add: assms(5) perform_def run)

text \<open>
  Post-deploy errands run in their configured order, each exactly once: under a director
  that finishes its tasks, when the deployment task is the only task of the operation's context,
  as many polls as there are errands start exactly these errands, in order and nothing else, and
  the next poll starts nothing and reports a completed task.
\<close>

theorem post_deploy_errands_in_order:
  assumes "prompt_director E dn (od_BoshContextID d)" and "od_BoshContextID d \<noteq> ''''"
    and "validPostDeployOpType (od_OperationType d)" and "errand_Name (od_PostDeployErrand d) = ''''"
    and "ctxTaskIDs (od_BoshContextID d) (hist s) = [t0]"
    and "s' = polls (length (od_Errands d)) (LifeCycle_GetTask E dn d) s"
  shows "(\<exists>tr. hist s' = hist s @ tr \<and> effects tr = map errand_effect (od_Errands d))
       \<and> (\<exists>t l. LifeCycle_GetTask E dn d s' = (Val (Inr t), s'\<lparr>hist := hist s' @ [l]\<rparr>)
            \<and> StateType t = TaskComplete \<and> effect_of l = [])"
proof -
  let ?c = "od_BoshContextID d" and ?es = "od_Errands d"
  have op: "validPostDeployOpType (od_OperationType d) \<or> validPreDeleteOpType (od_OperationType d)"
    using assms(3) by blast
  have nxt: "nextAction d (map (done_task ?c) ids) = StartErrand (?es ! (length ids - 1))"
    if "1 \<le> length ids" "length ids < 1 + length ?es" for ids
    using that assms(3,4) by (cases ids) (auto simp: nextAction_def)
  have "length (ctxTaskIDs ?c (hist s)) = 1" using assms(5) by simp
  from polls_errands [OF assms(1) refl assms(2) op nxt this refl] obtain tr where
    tr: "hist s' = hist s @ tr" "effects tr = map errand_effect ?es"
      "length (ctxTaskIDs ?c (hist s')) = 1 + length ?es"
    by (auto simp: assms(6))
  then obtain i ids where ids: "rev (ctxTaskIDs ?c (hist s')) = i # ids" "length ids = length ?es"
    by (cases "rev (ctxTaskIDs ?c (hist s'))") (auto dest: arg_cong [of _ _ length])
  let ?ts = "map (done_task ?c) (rev (ctxTaskIDs ?c (hist s')))"
  have rep: "nextAction d ?ts = Report (done_task ?c i)"
    using ids assms(3,4) by (simp add: nextAction_def)
  have "LifeCycle_GetTask E dn d s' = (Val (Inr (done_task ?c i)),
      s'\<lparr>hist := hist s' @ [BoshTasksByContext dn ?c (Inr ?ts)]\<rparr>)"
    using poll_run [OF assms(1) refl assms(2) op refl, of s'] rep by (simp add: perform_def run)
  with tr show ?thesis by (intro conjI exI) (assumption | simp)+
qed

text \<open>
  Deleting an instance of a plan with pre-delete errands: when the first errand (which
  Deprovision starts) is the only task of the context, the following polls start the remaining
  errands in their configured order, each once, then the deletion of the deployment (forced
  exactly when the operation is a forced deletion), and the next poll starts nothing more and
  reports a completed task.  The deletion never starts before all the errands have run.
\<close>

theorem pre_delete_errands_then_delete:
  assumes "prompt_director E dn (od_BoshContextID d)" and "od_BoshContextID d \<noteq> ''''"
    and "validPreDeleteOpType (od_OperationType d)" and "errand_Name (od_PreDeleteErrand d) = ''''"
    and "od_Errands d = first # others"
    and "ctxTaskIDs (od_BoshContextID d) (hist s) = [t0]"
    and "s' = polls (Suc (length others)) (LifeCycle_GetTask E dn d) s"
  shows "(\<exists>tr. hist s' = hist s @ tr \<and> effects tr = map errand_effect others
            @ [Deleted (od_OperationType d = OperationTypeForceDelete)])
       \<and> (\<exists>t l. LifeCycle_GetTask E dn d s' = (Val (Inr t), s'\<lparr>hist := hist s' @ [l]\<rparr>)
            \<and> StateType t = TaskComplete \<and> effect_of l = [])"
proof -
  let ?c = "od_BoshContextID d" and ?f = "od_OperationType d = OperationTypeForceDelete"
  let ?poll = "LifeCycle_GetTask E dn d"
  have op: "validPostDeployOpType (od_OperationType d) \<or> validPreDeleteOpType (od_OperationType d)"
    and notpost: "\<not> validPostDeployOpType (od_OperationType d)"
    using assms(3) by (auto simp: validPreDeleteOpType_def validPostDeployOpType_def)
  have nxt: "nextAction d (map (done_task ?c) ids) = StartErrand (others ! (length ids - 1))"
    if "1 \<le> length ids" "length ids < 1 + length others" for ids
    using that notpost assms(4,5) by (cases ids) (auto simp: nextAction_def)
  have "length (ctxTaskIDs ?c (hist s)) = 1" using assms(6) by simp
  from polls_errands [OF assms(1) refl assms(2) op nxt this refl] obtain tr where
    tr: "hist (polls (length others) ?poll s) = hist s @ tr" "effects tr = map errand_effect others"
      "length (ctxTaskIDs ?c (hist s @ tr)) = 1 + length others"
    by auto
  define s1 where "s1 = polls (length others) ?poll s"
  have s': "s' = snd (?poll s1)"
    using polls_add [of "length others" 1 ?poll s] by (simp add: assms(7) s1_def)
  let ?ts1 = "map (done_task ?c) (rev (ctxTaskIDs ?c (hist s1)))"
  let ?l1 = "BoshTasksByContext dn ?c (Inr ?ts1)"
  from tr have len1: "length (ctxTaskIDs ?c (hist s1)) = Suc (length others)" by (simp add: s1_def)
  then have "nextAction d ?ts1 = StartDelete ?f"
    using notpost assms(4,5) by (cases "rev (ctxTaskIDs ?c (hist s1))") (auto simp: nextAction_def)
  with poll_run [OF assms(1) refl assms(2) op refl, of s1]
    perform_StartDelete [OF assms(1), of ?f "s1\<lparr>hist := hist s1 @ [?l1]\<rparr>"]
  obtain t where t: "hist s' = hist s1 @ [?l1, BoshDeleteDeployment dn ?c ?f (Inr t),
      BoshGetTask t (Inr (done_task ?c t))]"
    by (auto simp: s')
  let ?ts2 = "map (done_task ?c) (rev (ctxTaskIDs ?c (hist s')))"
  have "nextAction d ?ts2 = Report (done_task ?c t)"
    using len1 notpost assms(4,5) by (simp add: t nextAction_def)
  then have rep: "?poll s' = (Val (Inr (done_task ?c t)),
      s'\<lparr>hist := hist s' @ [BoshTasksByContext dn ?c (Inr ?ts2)]\<rparr>)"
    using poll_run [OF assms(1) refl assms(2) op refl, of s'] by (simp add: perform_def run)
  have "\<exists>tr. hist s' = hist s @ tr \<and> effects tr = map errand_effect others @ [Deleted ?f]"
    using tr t by (intro exI [of _ "tr @ [?l1, BoshDeleteDeployment dn ?c ?f (Inr t),
      BoshGetTask t (Inr (done_task ?c t))]"]) (simp add: s1_def)
  then show ?thesis by (rule conjI) (intro exI conjI, rule rep, simp_all)
qed

section \<open>Examples\<close>

definition prompt_env :: env where
  "prompt_env = sample_env\<lparr>
     o_TasksByContext := \<lambda>h n c. Inr (map (done_task c) (rev (ctxTaskIDs c h))),
     o_GetTask := \<lambda>h t. Inr (done_task ''ctx'' t)\<rparr>"

lemma prompt_env_prompt: "prompt_director prompt_env dn ''ctx''"
  by (simp add: prompt_director_def prompt_env_def sample_env_def)

definition deploying :: OperationData where
  "deploying = zeroOperationData\<lparr>od_BoshTaskID := 7, od_BoshContextID := ''ctx'',
     od_OperationType := OperationTypeCreate, od_Errands := PostDeployErrands errand_plan\<rparr>"

definition deleting :: OperationData where
  "deleting = zeroOperationData\<lparr>od_BoshTaskID := 8, od_BoshContextID := ''ctx'',
     od_OperationType := OperationTypeForceDelete, od_Errands := PreDeleteErrands errand_plan\<rparr>"

lemmas lifecycle_example_defs = deploying_def deleting_def errand_plan_def zeroOperationData_def
  zeroErrand_def PostDeployErrands_def PreDeleteErrands_def validPostDeployOpType_def
  validPreDeleteOpType_def started_task_def zeroPlan_def

theorem lifecycle_refines_witness:
  "LifeCycle_GetTask prompt_env ''dn'' deploying =
     attempt (bosh_GetNormalisedTasksByContext prompt_env ''dn'' ''ctx'') (\<lambda>e. ret (Inl e))
       (\<lambda>ts. perform prompt_env ''dn'' ''ctx'' (nextAction deploying ts))"
  using lifecycle_refines [of deploying prompt_env "''dn''"] by (simp add: lifecycle_example_defs)

theorem post_deploy_errands_in_order_witness:
  "\<exists>tr. hist (polls 1 (LifeCycle_GetTask prompt_env ''dn'' deploying)
          (sample_state\<lparr>hist := [BoshDeploy ''m'' ''ctx'' (Inr 7)]\<rparr>))
        = BoshDeploy ''m'' ''ctx'' (Inr 7) # tr
      \<and> effects tr = [RanErrand ''smoke'' []]"
  using post_deploy_errands_in_order [of prompt_env "''dn''" deploying
      "sample_state\<lparr>hist := [BoshDeploy ''m'' ''ctx'' (Inr 7)]\<rparr>" 7, OF _ _ _ _ _ refl]
  by (simp add: lifecycle_example_defs prompt_env_prompt errand_effect_def)

theorem pre_delete_errands_then_delete_witness:
  "\<exists>tr. hist (polls 1 (LifeCycle_GetTask prompt_env ''dn'' deleting)
          (sample_state\<lparr>hist := [BoshRunErrand ''dn'' ''drain'' [''vm/0''] ''ctx'' (Inr 8)]\<rparr>))
        = BoshRunErrand ''dn'' ''drain'' [''vm/0''] ''ctx'' (Inr 8) # tr
      \<and> effects tr = [Deleted True]"
  using pre_delete_errands_then_delete [of prompt_env "''dn''" deleting _ _
      "sample_state\<lparr>hist := [BoshRunErrand ''dn'' ''drain'' [''vm/0''] ''ctx'' (Inr 8)]\<rparr>" 8,
      OF _ _ _ _ _ _ refl]
  by (simp add: lifecycle_example_defs prompt_env_prompt)

end
