(* ===== verification/Deprovision.thy ===== *)
theory Deprovision
  imports Update LifeCycle
begin

text \<open>
  \<open>broker/deprovision.go\<close>: deleting a service instance.  Under the deployment lock the handler
  either clears what is left of an instance BOSH does not know, or starts the first pre-delete
  errand, or asks BOSH to delete the deployment.  The remaining steps of the deletion are taken
  when the platform polls (theories LifeCycle and LastOperation).
  On an error the code also returns a spec with \<open>IsAsync: true\<close>, which the API layer drops.
\<close>

section \<open>The operation\<close>

definition unableToDelete :: "context_info \<Rightarrow> string \<Rightarrow> string \<Rightarrow> gerr \<Rightarrow> gerr" where
  "unableToDelete ctx what iid err = DisplayableError (ErrorString UnableToDeleteMessage)
     (NewGenericError ctx (ErrorString (''error deprovisioning: failed to delete '' @ what @ '' for instance ''
        @ deploymentName iid @ '': '' @ errmsg err)))"

definition deleteConfigsForNotFoundInstance :: "env \<Rightarrow> context_info \<Rightarrow> string \<Rightarrow> (gerr + unit) broker_m" where
  "deleteConfigsForNotFoundInstance E ctx iid =
     attempt (bosh_DeleteConfigs E (deploymentName iid))
       (\<lambda>err. ret (Inl (unableToDelete ctx ''configs'' iid err))) (\<lambda>_. ret (Inr ()))"

definition clearSecretsForNotFoundInstance :: "env \<Rightarrow> context_info \<Rightarrow> string \<Rightarrow> (gerr + unit) broker_m" where
  "clearSecretsForNotFoundInstance E ctx iid =
     attempt (secrets_DeleteForInstance E iid)
       (\<lambda>err. ret (Inl (unableToDelete ctx ''secrets'' iid err))) (\<lambda>_. ret (Inr ()))"

definition assertDeploymentExists :: "env \<Rightarrow> context_info \<Rightarrow> string \<Rightarrow> (gerr + bool) broker_m" where
  "assertDeploymentExists E ctx iid =
     attempt (bosh_GetDeployment E (deploymentName iid))
       (\<lambda>err. case err of
          RequestError _ \<Rightarrow> ret (Inl (NewBoshRequestError ''delete'' err))
        | _ \<Rightarrow> ret (Inl (NewGenericError ctx (ErrorString (''error deprovisioning: cannot get deployment ''
                @ deploymentName iid @ '': '' @ errmsg err))))) (\<lambda>(_, deploymentFound).
     ret (Inr deploymentFound))"

definition marshalTask :: "BoshTask \<Rightarrow> json" where
  "marshalTask t = JObj ([(''ID'', JNum (task_ID t)), (''State'', JStr (task_State t)),
     (''Description'', JStr (task_Description t)), (''Result'', JStr (task_Result t))]
     @ omitempty_str ''context_id'' (task_ContextID t))"

definition BoshTasks_ToLog :: "env \<Rightarrow> BoshTask list \<Rightarrow> string" where
  "BoshTasks_ToLog E ts = wireText E (WJson (JArr (map marshalTask ts)))"

definition deprovision_assertNoOperationsInProgress :: "env \<Rightarrow> context_info \<Rightarrow> string \<Rightarrow> (gerr + unit) broker_m" where
  "deprovision_assertNoOperationsInProgress E ctx iid =
     attempt (bosh_GetTasksInProgress E (deploymentName iid))
       (\<lambda>err. case err of
          RequestError _ \<Rightarrow> ret (Inl (NewBoshRequestError ''delete'' err))
        | _ \<Rightarrow> ret (Inl (NewGenericError ctx (ErrorString (''error deprovisioning: cannot get tasks for deployment ''
                @ deploymentName iid @ '': '' @ errmsg err @ [CHR 0x0A]))))) (\<lambda>incompleteTasks.
     if 0 < length incompleteTasks then
       ret (Inl (DisplayableError (ErrorString OperationInProgressMessage)
         (OperationInProgressError (ErrorString (''error deprovisioning: deployment '' @ deploymentName iid
            @ '' is still in progress: tasks '' @ BoshTasks_ToLog E incompleteTasks @ [CHR 0x0A])))))
     else ret (Inr ()))"

definition getOperationType :: "bool \<Rightarrow> OperationType" where
  "getOperationType forceDelete = (if forceDelete then OperationTypeForceDelete else OperationTypeDelete)"

definition runPreDeleteErrands ::
  "env \<Rightarrow> context_info \<Rightarrow> string \<Rightarrow> Errand list \<Rightarrow> OperationType \<Rightarrow> (gerr + DeprovisionServiceSpec) broker_m" where
  "runPreDeleteErrands E ctx iid preDeleteErrands operationType =
     seq (uuid_New E) (\<lambda>boshContextID.
     seq (lift_outcome (go_index preDeleteErrands 0)) (\<lambda>first.
     attempt (bosh_RunErrand E (deploymentName iid) (errand_Name first) (errand_Instances first) boshContextID)
       (\<lambda>err. ret (Inl (NewGenericError ctx err))) (\<lambda>taskID.
     ret (Inr \<lparr> dss_IsAsync = True, dss_OperationData = WJson (marshalOperationData
        (zeroOperationData\<lparr>od_OperationType := operationType, od_BoshTaskID := taskID,
           od_BoshContextID := boshContextID, od_Errands := preDeleteErrands\<rparr>)) \<rparr>))))"

definition deleteInstance ::
  "env \<Rightarrow> context_info \<Rightarrow> string \<Rightarrow> OperationType \<Rightarrow> (gerr + DeprovisionServiceSpec) broker_m" where
  "deleteInstance E ctx iid operationType =
     attempt (bosh_DeleteDeployment E (deploymentName iid) (''delete-'' @ iid) (operationType = OperationTypeForceDelete))
       (\<lambda>err. case err of
          RequestError _ \<Rightarrow> ret (Inl (NewBoshRequestError ''delete'' err))
        | _ \<Rightarrow> ret (Inl (NewGenericError ctx (errorf ''error deprovisioning: deleting bosh deployment: '' err)))) (\<lambda>taskID.
     ret (Inr \<lparr> dss_IsAsync = True, dss_OperationData = WJson (marshalOperationData
        (zeroOperationData\<lparr>od_OperationType := operationType, od_BoshTaskID := taskID\<rparr>)) \<rparr>))"

text \<open>An instance without a deployment: configs and secrets are cleared, the answer is an error.\<close>

definition deprovisionNotFound ::
  "Broker \<Rightarrow> env \<Rightarrow> context_info \<Rightarrow> string \<Rightarrow> (gerr + DeprovisionServiceSpec) broker_m" where
  "deprovisionNotFound b E ctx iid =
     attempt (if \<not> DisableBoshConfigs b then deleteConfigsForNotFoundInstance E ctx iid else ret (Inr ()))
       (\<lambda>err. b_fail b err) (\<lambda>_.
     attempt (clearSecretsForNotFoundInstance E ctx iid) (\<lambda>secretsErr. b_fail b secretsErr) (\<lambda>_.
     b_fail b (DisplayableError ErrInstanceDoesNotExist
        (ErrorString (''error deprovisioning: instance '' @ iid @ '', not found'')))))"

definition processResult :: "Broker \<Rightarrow> (gerr + 'a) \<Rightarrow> gerr + 'a" where
  "processResult b r = (case r of Inl err \<Rightarrow> Inl (b_processError b err) | Inr x \<Rightarrow> Inr x)"

definition deprovisionFound ::
  "Broker \<Rightarrow> env \<Rightarrow> context_info \<Rightarrow> string \<Rightarrow> DeprovisionDetails \<Rightarrow> (gerr + DeprovisionServiceSpec) broker_m" where
  "deprovisionFound b E ctx iid details =
     (let operationType = getOperationType (dd_Force details);
          (plan, found) = FindPlanByID (b_serviceOffering b) (dd_PlanID details) in
      if found \<and> length (PreDeleteErrands plan) \<noteq> 0 then
        seq (runPreDeleteErrands E ctx iid (PreDeleteErrands plan) operationType) (\<lambda>r. ret (processResult b r))
      else
        seq (deleteInstance E ctx iid operationType) (\<lambda>r.
        seq (uaa_DeleteClient E iid) (\<lambda>_.
        ret (processResult b r))))"

definition deprovisionLocked ::
  "Broker \<Rightarrow> env \<Rightarrow> context_info \<Rightarrow> string \<Rightarrow> DeprovisionDetails \<Rightarrow> bool \<Rightarrow> (gerr + DeprovisionServiceSpec) broker_m" where
  "deprovisionLocked b E ctx0 iid details asyncAllowed =
     seq (uuid_New E) (\<lambda>requestID.
     let ctx = brokercontext_New ctx0 (operationTypeString OperationTypeDelete) requestID (off_Name (b_serviceOffering b)) iid in
     if \<not> asyncAllowed then b_fail b ErrAsyncRequired
     else
     attempt (bosh_GetInfo E) (\<lambda>err. b_fail b (NewBoshRequestError ''delete'' err)) (\<lambda>_.
     attempt (assertDeploymentExists E ctx iid) (\<lambda>err. b_fail b err) (\<lambda>deploymentExists.
     if \<not> deploymentExists then deprovisionNotFound b E ctx iid
     else
     attempt (deprovision_assertNoOperationsInProgress E ctx iid) (\<lambda>err. b_fail b err) (\<lambda>_.
     deprovisionFound b E ctx iid details))))"

definition Broker_Deprovision ::
  "Broker \<Rightarrow> env \<Rightarrow> context_info \<Rightarrow> string \<Rightarrow> DeprovisionDetails \<Rightarrow> bool \<Rightarrow> (gerr + DeprovisionServiceSpec) broker_m" where
  "Broker_Deprovision b E ctx0 iid details asyncAllowed =
     with_lock LockDeployment UnlockDeployment (deprovisionLocked b E ctx0 iid details asyncAllowed)"

section \<open>What Deprovision promises\<close>

definition deployment_found :: "string \<Rightarrow> event \<Rightarrow> bool" where
  "deployment_found iid e \<longleftrightarrow> (\<exists>m. e = BoshGetDeployment (deploymentName iid) (Inr (m, True)))"

definition deletion_data :: "OperationType \<Rightarrow> int \<Rightarrow> OperationData" where
  "deletion_data ty t = zeroOperationData\<lparr>od_OperationType := ty, od_BoshTaskID := t\<rparr>"

definition errand_data :: "OperationType \<Rightarrow> int \<Rightarrow> string \<Rightarrow> Errand list \<Rightarrow> OperationData" where
  "errand_data ty t c errands = zeroOperationData\<lparr>od_OperationType := ty, od_BoshTaskID := t,
     od_BoshContextID := c, od_Errands := errands\<rparr>"

definition planErrands :: "ServiceOffering \<Rightarrow> string \<Rightarrow> Errand list" where
  "planErrands off planID = (case FindPlanByID off planID of (plan, True) \<Rightarrow> PreDeleteErrands plan | _ \<Rightarrow> [])"

text \<open>
  At most one thing is started: the deletion when the plan has no pre-delete errands (or is no
  longer offered), else the first errand; the operation data says which, and carries the errands
  still to be run when the platform polls.
\<close>

definition deprovision_outcome ::
  "ServiceOffering \<Rightarrow> string \<Rightarrow> DeprovisionDetails \<Rightarrow> (gerr + DeprovisionServiceSpec) outcome \<Rightarrow> history \<Rightarrow> bool" where
  "deprovision_outcome off iid details r tr \<longleftrightarrow>
     (let dn = deploymentName iid; ty = getOperationType (dd_Force details); errands = planErrands off (dd_PlanID details) in
      case r of
        Val (Inr spec) \<Rightarrow> dss_IsAsync spec \<and> (\<exists>t c.
            (case errands of
               [] \<Rightarrow> filter changes_deployment tr = [BoshDeleteDeployment dn (''delete-'' @ iid) (dd_Force details) (Inr t)]
                   \<and> dss_OperationData spec = WJson (marshalOperationData (deletion_data ty t))
             | first # _ \<Rightarrow> filter changes_deployment tr = [BoshRunErrand dn (errand_Name first) (errand_Instances first) c (Inr t)]
                   \<and> dss_OperationData spec = WJson (marshalOperationData (errand_data ty t c errands))))
      | Val (Inl e) \<Rightarrow> filter changes_deployment tr = [] \<or> (\<exists>ev. filter changes_deployment tr = [ev])
      | _ \<Rightarrow> False)"

definition deprovision_contract ::
  "ServiceOffering \<Rightarrow> string \<Rightarrow> DeprovisionDetails \<Rightarrow> (gerr + DeprovisionServiceSpec) outcome \<Rightarrow> history \<Rightarrow> bool" where
  "deprovision_contract off iid details r tr \<longleftrightarrow> locked_from False tr
     \<and> guarded_by (deployment_found iid) changes_deployment tr
     \<and> guarded_by (no_task_running (deploymentName iid)) changes_deployment tr
     \<and> deprovision_outcome off iid details r tr"

lemma deprovision_outcome_cong:
  "filter changes_deployment tr = filter changes_deployment tr'
   \<Longrightarrow> deprovision_outcome off iid details r tr = deprovision_outcome off iid details r tr'"
  by (simp only: deprovision_outcome_def)

lemma deprovision_error:
  "calm t \<Longrightarrow> deprovision_contract off iid details (Val (Inl e)) (LockDeployment # t @ [UnlockDeployment])"
  by (auto simp: deprovision_contract_def deprovision_outcome_def guarded_by_append calmD calm_locked Let_def
      deployment_found_def no_task_running_def)

abbreviation under_deployment_lock :: "('r outcome \<Rightarrow> history \<Rightarrow> bool) \<Rightarrow> 'r outcome \<Rightarrow> history \<Rightarrow> bool" where
  "under_deployment_lock P \<equiv> \<lambda>r t. r \<noteq> OutOfFuel \<and> P r (LockDeployment # t @ [UnlockDeployment])"

lemma ens_deployment_lock:
  assumes "ensures (under_deployment_lock P) [] m"
  shows "ensures P [] (with_lock LockDeployment UnlockDeployment m)"
  by (rule ens_with_lock, rule ens_sub [OF assms]) auto

lemma calm_error_deprovision:
  "calm t \<Longrightarrow> ensures (under_deployment_lock (deprovision_contract off iid details)) t (ret (Inl e))"
  by (rule ens_ret) (simp add: deprovision_error)

lemma deprovisionNotFound_spec:
  "ensures (\<lambda>r tr. calm tr \<and> (\<exists>e. r = Val (Inl e))) [] (deprovisionNotFound b E ctx iid)"
  unfolding deprovisionNotFound_def deleteConfigsForNotFoundInstance_def clearSecretsForNotFoundInstance_def
    b_fail_def client_defs
  by (auto simp: attempt_def intro!: ens split: sum.splits)

lemma runPreDeleteErrands_spec:
  assumes "errands = first # rest"
  shows "ensures (\<lambda>r tr. \<exists>c q x. tr = [NewUUID c, BoshRunErrand (deploymentName iid) (errand_Name first) (errand_Instances first) c q]
      \<and> r = Val x \<and> (case q of Inl _ \<Rightarrow> \<exists>e. x = Inl e
         | Inr t \<Rightarrow> x = (Inr \<lparr> dss_IsAsync = True, dss_OperationData = WJson (marshalOperationData (errand_data ty t c errands)) \<rparr>)))
    [] (runPreDeleteErrands E ctx iid errands ty)"
  unfolding runPreDeleteErrands_def client_defs by (auto intro!: ens simp: assms go_index_def errand_data_def)

lemma deleteInstance_spec:
  "ensures (\<lambda>r tr. \<exists>q x. tr = [BoshDeleteDeployment (deploymentName iid) (''delete-'' @ iid) (ty = OperationTypeForceDelete) q]
      \<and> r = Val x \<and> (case q of Inl _ \<Rightarrow> \<exists>e. x = Inl e
         | Inr t \<Rightarrow> x = (Inr \<lparr> dss_IsAsync = True, dss_OperationData = WJson (marshalOperationData (deletion_data ty t)) \<rparr>)))
    [] (deleteInstance E ctx iid ty)"
  unfolding deleteInstance_def client_defs by (auto intro!: ens simp: deletion_data_def split: gerr.splits)

lemma getOperationType_force [simp]: "getOperationType f = OperationTypeForceDelete \<longleftrightarrow> f"
  by (simp add: getOperationType_def)

lemma deprovisionFound_spec:
  assumes "calm t" and "\<exists>e\<in>set t. deployment_found iid e" and "\<exists>e\<in>set t. no_task_running (deploymentName iid) e"
  shows "ensures (under_deployment_lock (deprovision_contract (b_serviceOffering b) iid details)) t
    (deprovisionFound b E ctx iid details)"
proof -
  let ?\<Phi> = "under_deployment_lock (deprovision_contract (b_serviceOffering b) iid details)"
  obtain plan found where p: "FindPlanByID (b_serviceOffering b) (dd_PlanID details) = (plan, found)" by force
  have one: "deprovision_contract (b_serviceOffering b) iid details r (LockDeployment # (t @ pre @ ev # d) @ [UnlockDeployment])"
    if "calm pre" "calm d" and "ev \<noteq> LockDeployment" "ev \<noteq> UnlockDeployment" "changes_deployment ev"
      and "deprovision_outcome (b_serviceOffering b) iid details r [ev]" for ev pre d r
  proof -
    have "filter changes_deployment (LockDeployment # (t @ pre @ ev # d) @ [UnlockDeployment]) = filter changes_deployment [ev]"
      using assms(1) that by (simp add: calmD)
    from deprovision_outcome_cong [OF this] that(6)
    have "deprovision_outcome (b_serviceOffering b) iid details r (LockDeployment # (t @ pre @ ev # d) @ [UnlockDeployment])"
      by (rule iffD2)
    then show ?thesis
      using that(1-4) assms
      by (auto simp: deprovision_contract_def calm_locked guarded_by_append calmD deployment_found_def
          no_task_running_def)
  qed
  show ?thesis
  proof (cases "found \<and> length (PreDeleteErrands plan) \<noteq> 0")
    case True
    then obtain first rest where es: "PreDeleteErrands plan = first # rest" by (cases "PreDeleteErrands plan") auto
    let ?ty = "getOperationType (dd_Force details)"
    have eq: "deprovisionFound b E ctx iid details =
      seq (runPreDeleteErrands E ctx iid (first # rest) ?ty) (\<lambda>r. ret (processResult b r))"
      using True by (simp add: deprovisionFound_def p Let_def es)
    have pe: "planErrands (b_serviceOffering b) (dd_PlanID details) = first # rest"
      using True by (simp add: planErrands_def p es)
    have "deprovision_contract (b_serviceOffering b) iid details (Val (processResult b x))
        (LockDeployment # (t @ [NewUUID c, BoshRunErrand (deploymentName iid) (errand_Name first) (errand_Instances first) c q]) @ [UnlockDeployment])"
      if "case q of Inl _ \<Rightarrow> \<exists>e. x = Inl e | Inr t \<Rightarrow> x = Inr \<lparr> dss_IsAsync = True,
          dss_OperationData = WJson (marshalOperationData (errand_data ?ty t c (first # rest))) \<rparr>" for x c q
      using one [of "[NewUUID c]" "[]" "BoshRunErrand (deploymentName iid) (errand_Name first) (errand_Instances first) c q" "Val (processResult b x)"] that
      by (auto simp: deprovision_outcome_def Let_def pe processResult_def split: sum.splits)
    then show ?thesis
      unfolding eq by (intro ens_seq_sub [OF runPreDeleteErrands_spec [OF refl]] ens_ret) auto
  next
    case False
    let ?ty = "getOperationType (dd_Force details)"
    have eq: "deprovisionFound b E ctx iid details =
      seq (deleteInstance E ctx iid ?ty) (\<lambda>r. seq (uaa_DeleteClient E iid) (\<lambda>_. ret (processResult b r)))"
      using False by (auto simp: deprovisionFound_def p Let_def)
    have pe: "planErrands (b_serviceOffering b) (dd_PlanID details) = []"
      using False by (cases found) (auto simp: planErrands_def p)
    have "deprovision_contract (b_serviceOffering b) iid details (Val (processResult b x))
        (LockDeployment # (t @ [BoshDeleteDeployment (deploymentName iid) (''delete-'' @ iid) (?ty = OperationTypeForceDelete) q, UAADeleteClient iid q2]) @ [UnlockDeployment])"
      if "case q of Inl _ \<Rightarrow> \<exists>e. x = Inl e | Inr t \<Rightarrow> x = Inr \<lparr> dss_IsAsync = True,
          dss_OperationData = WJson (marshalOperationData (deletion_data ?ty t)) \<rparr>" for x q q2
      using one [of "[]" "[UAADeleteClient iid q2]" "BoshDeleteDeployment (deploymentName iid) (''delete-'' @ iid) (?ty = OperationTypeForceDelete) q" "Val (processResult b x)"] that
      by (auto simp: deprovision_outcome_def Let_def pe processResult_def split: sum.splits)
    then show ?thesis
      unfolding eq client_defs
      by (intro ens_seq_sub [OF deleteInstance_spec] ens_seq_call ens_ret) auto
  qed
qed

lemma assertDeploymentExists_spec:
  "ensures (\<lambda>r tr. \<exists>q. tr = [BoshGetDeployment (deploymentName iid) q] \<and> (case q of
      Inl _ \<Rightarrow> \<exists>e. r = Val (Inl e) | Inr (m, found) \<Rightarrow> r = Val (Inr found))) [] (assertDeploymentExists E ctx iid)"
  unfolding assertDeploymentExists_def client_defs by (auto intro!: ens split: gerr.splits)

lemma assertNoOperations_spec:
  "ensures (\<lambda>r tr. (r = Val (Inr ()) \<and> tr = [BoshTasksInProgress (deploymentName iid) (Inr [])])
      \<or> (\<exists>e q. r = Val (Inl e) \<and> tr = [BoshTasksInProgress (deploymentName iid) q]))
    [] (deprovision_assertNoOperationsInProgress E ctx iid)"
  unfolding deprovision_assertNoOperationsInProgress_def client_defs by (auto intro!: ens split: gerr.splits)

text \<open>
  C3.  Deprovision in every environment: it never panics and always releases the deployment lock;
  it starts at most one BOSH task, under the lock, after BOSH answered that the deployment exists
  and that no task is running for it; that task is the first pre-delete errand when the plan has
  such errands and the deletion otherwise (forced exactly when the platform asks for it), and on
  success the operation data carries the task, and the errands the polls have to run.
\<close>

theorem deprovision_safe:
  "ensures (deprovision_contract (b_serviceOffering b) iid details) [] (Broker_Deprovision b E ctx iid details async)"
proof -
  have "ensures (under_deployment_lock (deprovision_contract (b_serviceOffering b) iid details)) []
     (deprovisionLocked b E ctx iid details async)"
    unfolding deprovisionLocked_def client_defs b_fail_def Let_def
    by (auto intro!: ens calm_error_deprovision deprovisionFound_spec ens_attempt_sub [OF assertDeploymentExists_spec]
        ens_attempt_sub [OF assertNoOperations_spec] ens_sub [OF deprovisionNotFound_spec] deprovision_error
        simp: deployment_found_def no_task_running_def split: sum.splits prod.splits)
  then show ?thesis unfolding Broker_Deprovision_def by (rule ens_deployment_lock)
qed

section \<open>When an instance is reported gone\<close>

definition gone_only_when_clean :: "Broker \<Rightarrow> string \<Rightarrow> (gerr + 'a) outcome \<Rightarrow> history \<Rightarrow> bool" where
  "gone_only_when_clean b iid r tr \<longleftrightarrow> (case r of
      Val (Inl e) \<Rightarrow> statusCode e \<noteq> Some 410
        \<or> ((\<exists>m. BoshGetDeployment (deploymentName iid) (Inr (m, False)) \<in> set tr)
           \<and> (DisableBoshConfigs b \<or> BoshDeleteConfigs (deploymentName iid) (Inr ()) \<in> set tr)
           \<and> DeleteSecretsForInstance iid (Inr ()) \<in> set tr)
    | _ \<Rightarrow> True)"

text \<open>Errors that say nothing about the instance\<close>

lemma statusCode_plain [simp]:
  "statusCode (b_processError b (NewGenericError ctx e)) = None"
  "statusCode (b_processError b (NewBoshRequestError a e)) = None"
  "statusCode (b_processError b (unableToDelete ctx w iid e)) = None"
  "statusCode (b_processError b (DisplayableError (ErrorString m) oper)) = None"
  "statusCode (b_processError b ErrAsyncRequired) = Some 422"
  by (simp_all add: b_processError_def NewGenericError_def NewBoshRequestError_def unableToDelete_def
      genericErrorForCFUser_def processError_statusCode ErrAsyncRequired_def)

lemma plain_error:
  "statusCode (b_processError b e) \<noteq> Some 410
   \<Longrightarrow> ensures (gone_only_when_clean b iid) t (ret (Inl (b_processError b e)))"
  by (rule ens_ret) (simp add: gone_only_when_clean_def)

lemma assertDeploymentExists_answer:
  "ensures (\<lambda>r tr. (\<exists>e q. tr = [BoshGetDeployment (deploymentName iid) q] \<and> r = Val (Inl e) \<and> statusCode (b_processError b e) = None)
      \<or> (\<exists>m found. tr = [BoshGetDeployment (deploymentName iid) (Inr (m, found))] \<and> r = Val (Inr found)))
    [] (assertDeploymentExists E ctx iid)"
  unfolding assertDeploymentExists_def client_defs by (auto intro!: ens split: gerr.splits)

lemma assertNoOperations_answer:
  "ensures (\<lambda>r tr. (\<exists>e. r = Val (Inl e) \<and> statusCode (b_processError b e) = None) \<or> r = Val (Inr ()))
    [] (deprovision_assertNoOperationsInProgress E ctx iid)"
  unfolding deprovision_assertNoOperationsInProgress_def client_defs by (auto intro!: ens split: gerr.splits)

lemma deprovisionFound_answer:
  "ensures (gone_only_when_clean b iid) t (deprovisionFound b E ctx iid details)"
proof -
  obtain plan found where p: "FindPlanByID (b_serviceOffering b) (dd_PlanID details) = (plan, found)" by force
  have "ensures (\<lambda>r tr. case r of Val (Inl e) \<Rightarrow> statusCode (b_processError b e) = None | _ \<Rightarrow> True) []
      (runPreDeleteErrands E ctx iid es ty)" for es ty
    unfolding runPreDeleteErrands_def client_defs go_index_def by (auto intro!: ens split: if_splits)
  moreover have "ensures (\<lambda>r tr. case r of Val (Inl e) \<Rightarrow> statusCode (b_processError b e) = None | _ \<Rightarrow> True) []
      (deleteInstance E ctx iid ty)" for ty
    unfolding deleteInstance_def client_defs by (auto intro!: ens split: gerr.splits)
  ultimately show ?thesis
    unfolding deprovisionFound_def p Let_def prod.case client_defs
    by (auto intro!: ens_seq_sub ens_seq_call ens_ret simp: processResult_def gone_only_when_clean_def split: sum.splits)
qed

lemma deprovisionNotFound_answer:
  assumes "\<exists>m. BoshGetDeployment (deploymentName iid) (Inr (m, False)) \<in> set t"
  shows "ensures (gone_only_when_clean b iid) t (deprovisionNotFound b E ctx iid)"
  unfolding deprovisionNotFound_def deleteConfigsForNotFoundInstance_def clearSecretsForNotFoundInstance_def
    b_fail_def client_defs
  using assms
  by (auto simp: attempt_def gone_only_when_clean_def intro!: ens split: sum.splits) blast+

text \<open>
  C4.  Deprovision answers 410 Gone, which makes the platform forget the instance, only when BOSH
  said that the deployment does not exist and the instance's BOSH configs (unless they are
  disabled) and secrets were cleared successfully in this very request; in every other case the
  platform keeps the instance and can retry.
\<close>

theorem deprovision_gone_only_when_clean:
  "ensures (gone_only_when_clean b iid) [] (Broker_Deprovision b E ctx iid details async)"
proof -
  have "ensures (gone_only_when_clean b iid) [LockDeployment] (deprovisionLocked b E ctx iid details async)"
    unfolding deprovisionLocked_def client_defs b_fail_def Let_def
    by (auto intro!: ens plain_error deprovisionFound_answer deprovisionNotFound_answer
        ens_attempt_sub [OF assertDeploymentExists_answer [where b = b]]
        ens_attempt_sub [OF assertNoOperations_answer [where b = b]])
  then show ?thesis
    unfolding Broker_Deprovision_def
    by (intro ens_with_lock) (simp only: append_Nil, erule ensures_mono,
        auto simp: gone_only_when_clean_def split: outcome.splits sum.splits)
qed

end
