(* ===== verification/LastOperation.thy ===== *)
theory LastOperation
  imports Deprovision
begin

text \<open>
  \<open>broker/last_operation.go\<close>: the platform polls an operation.  The handler decodes the
  operation data it gave out, lets the life-cycle runner take the next step (theory LifeCycle),
  clears the configs and secrets of an instance whose deletion is complete, and reports the state
  of the task with a description for the user.
\<close>

section \<open>The operation\<close>

fun descriptions :: "LastOperationState \<Rightarrow> OperationType \<Rightarrow> string" where
  "descriptions InProgress OperationTypeCreate = ''Instance provisioning in progress''"
| "descriptions InProgress OperationTypeUpdate = ''Instance update in progress''"
| "descriptions InProgress OperationTypeUpgrade = ''Instance upgrade in progress''"
| "descriptions InProgress OperationTypeDelete = ''Instance deletion in progress''"
| "descriptions InProgress OperationTypeForceDelete = ''Instance forced deletion in progress''"
| "descriptions InProgress OperationTypeRecreate = ''Instance recreate in progress''"
| "descriptions Succeeded OperationTypeCreate = ''Instance provisioning completed''"
| "descriptions Succeeded OperationTypeUpdate = ''Instance update completed''"
| "descriptions Succeeded OperationTypeUpgrade = ''Instance upgrade completed''"
| "descriptions Succeeded OperationTypeDelete = ''Instance deletion completed''"
| "descriptions Succeeded OperationTypeForceDelete = ''Instance forced deletion completed''"
| "descriptions Succeeded OperationTypeRecreate = ''Instance recreate completed''"
| "descriptions Failed OperationTypeCreate = ''Instance provisioning failed''"
| "descriptions Failed OperationTypeUpdate = ''Instance update failed''"
| "descriptions Failed OperationTypeUpgrade = ''Failed for bosh task''"
| "descriptions Failed OperationTypeDelete = ''Instance deletion failed''"
| "descriptions Failed OperationTypeForceDelete = ''Instance forced deletion failed''"
| "descriptions Failed OperationTypeRecreate = ''Instance recreate failed''"
| "descriptions _ _ = ''''"

definition constructLastOperation ::
  "context_info \<Rightarrow> LastOperationState \<Rightarrow> BoshTask \<Rightarrow> OperationData \<Rightarrow> bool \<Rightarrow> LastOperation" where
  "constructLastOperation ctx taskState lastBoshTask operationData exposeError =
     (let description = descriptions taskState (od_OperationType operationData);
          description2 =
            (if taskState = Failed then
               (let d = (if od_OperationType operationData = OperationTypeUpgrade
                         then description @ '': '' @ show_int (task_ID lastBoshTask)
                         else description @ '': '' @ errmsg (genericErrorForCFUser ctx)) in
                if exposeError then d @ '', error-message: '' @ task_Result lastBoshTask else d)
             else description) in
      \<lparr> lo_State = taskState, lo_Description = description2 \<rparr>)"

definition lastOperationState :: "BoshTask \<Rightarrow> LastOperationState" where
  "lastOperationState task = (case StateType task of
      TaskIncomplete \<Rightarrow> InProgress
    | TaskComplete \<Rightarrow> Succeeded
    | TaskFailed \<Rightarrow> Failed
    | TaskUnknown \<Rightarrow> Failed)"

definition deleteConfigsAndSecretsAfterDelete ::
  "Broker \<Rightarrow> env \<Rightarrow> string \<Rightarrow> OperationType \<Rightarrow> BoshTask \<Rightarrow> (gerr + unit) broker_m" where
  "deleteConfigsAndSecretsAfterDelete b E iid operationType lastBoshTask =
     (if (operationType = OperationTypeDelete \<or> operationType = OperationTypeForceDelete)
         \<and> StateType lastBoshTask = TaskComplete then
        attempt (if \<not> DisableBoshConfigs b then bosh_DeleteConfigs E (deploymentName iid) else ret (Inr ()))
          (\<lambda>err. ret (Inl err)) (\<lambda>_.
        attempt (secrets_DeleteForInstance E iid) (\<lambda>err. ret (Inl err)) (\<lambda>_.
        ret (Inr ())))
      else ret (Inr ()))"

definition pollTask ::
  "Broker \<Rightarrow> env \<Rightarrow> context_info \<Rightarrow> string \<Rightarrow> OperationData \<Rightarrow> (gerr + LastOperation) broker_m" where
  "pollTask b E ctx0 iid operationData =
     (let ctx = WithBoshTaskID ctx0 (od_BoshTaskID operationData) in
      attempt (LifeCycle_GetTask E (deploymentName iid) operationData)
        (\<lambda>err. b_fail b (NewGenericError ctx (ErrorString (''error retrieving tasks from bosh, for deployment ''
           @ [CHR 0x27] @ deploymentName iid @ [CHR 0x27] @ '': '' @ errmsg err)))) (\<lambda>lastBoshTask.
      attempt (deleteConfigsAndSecretsAfterDelete b E iid (od_OperationType operationData) lastBoshTask)
        (\<lambda>err. ret (Inr (constructLastOperation (WithBoshTaskID ctx 0) Failed lastBoshTask operationData
           (ExposeOperationalErrors b)))) (\<lambda>_.
      seq (telemetry_LogInstances (operationTypeString (od_OperationType operationData))) (\<lambda>_.
      ret (Inr (constructLastOperation (WithBoshTaskID ctx (task_ID lastBoshTask)) (lastOperationState lastBoshTask)
         lastBoshTask operationData (ExposeOperationalErrors b)))))))"

definition Broker_LastOperation ::
  "Broker \<Rightarrow> env \<Rightarrow> context_info \<Rightarrow> string \<Rightarrow> wire \<Rightarrow> (gerr + LastOperation) broker_m" where
  "Broker_LastOperation b E ctx0 iid operationDataRaw =
     seq (uuid_New E) (\<lambda>requestID.
     let ctx = brokercontext_New ctx0 '''' requestID (off_Name (b_serviceOffering b)) iid in
     if operationDataRaw = WEmpty then
       b_fail b (NewGenericError ctx (ErrorString ''Request missing operation data, please check your Cloud Foundry version is v238+''))
     else (case unmarshalOperationData operationDataRaw of
        Inl err \<Rightarrow> b_fail b (NewGenericError ctx (errorf ''operation data cannot be parsed: '' err))
      | Inr operationData \<Rightarrow>
          (let ctx = WithOperation ctx (operationTypeString (od_OperationType operationData)) in
           if od_BoshTaskID operationData = 0 then
             b_fail b (NewGenericError ctx (ErrorString ''no task ID found in operation data''))
           else pollTask b E ctx iid operationData)))"

section \<open>What a poll does\<close>

text \<open>The calls of the life-cycle runner\<close>

fun is_lifecycle :: "event \<Rightarrow> bool" where
  "is_lifecycle (BoshTasksByContext _ _ _) = True"
| "is_lifecycle (BoshGetTask _ _) = True"
| "is_lifecycle (BoshRunErrand _ _ _ _ _) = True"
| "is_lifecycle (BoshDeleteDeployment _ _ _ _) = True"
| "is_lifecycle _ = False"

lemma perform_calls:
  "ensures (\<lambda>r tr. list_all is_lifecycle tr \<and> (\<exists>x. r = Val x)) [] (perform E dn c a)"
proof -
  have "ensures (\<lambda>r tr. list_all is_lifecycle tr \<and> (\<exists>x. r = Val x)) [] (runErrand E dn e c)" for e
    unfolding runErrand_def client_defs by (auto intro!: ens)
  then show ?thesis
    unfolding perform_def client_defs by (cases a) (auto intro!: ens)
qed

lemma GetTask_calls:
  "ensures (\<lambda>r tr. list_all is_lifecycle tr \<and> (\<exists>x. r = Val x)) [] (LifeCycle_GetTask E dn d)"
proof (cases "od_BoshContextID d \<noteq> '''' \<and> (validPostDeployOpType (od_OperationType d) \<or> validPreDeleteOpType (od_OperationType d))")
  case True
  then show ?thesis
    unfolding GetTask_perform [OF conjunct1 [OF True] conjunct2 [OF True]] client_defs
    by (auto intro!: ens ens_sub [OF perform_calls])
next
  case False
  then have "LifeCycle_GetTask E dn d = bosh_GetTask E (od_BoshTaskID d)"
    by (auto simp: LifeCycle_GetTask_def)
  then show ?thesis unfolding client_defs by (auto intro!: ens)
qed

text \<open>
  The contract of a poll: it never panics; a deletion is reported as succeeded only when the
  instance's BOSH configs (unless they are disabled) and secrets were deleted in the same poll;
  neither a mutex nor UAA is touched; a deployment is never deployed or recreated.
\<close>

definition poll_contract ::
  "Broker \<Rightarrow> string \<Rightarrow> OperationType \<Rightarrow> (gerr + LastOperation) outcome \<Rightarrow> history \<Rightarrow> bool" where
  "poll_contract b iid ty r tr \<longleftrightarrow>
     list_all (\<lambda>e. \<not> is_UAA e \<and> \<not> is_Deploy e \<and> e \<noteq> LockDeployment \<and> e \<noteq> UnlockDeployment) tr
     \<and> (case r of
          Val (Inr lo) \<Rightarrow>
            validPreDeleteOpType ty \<and> lo_State lo = Succeeded \<longrightarrow>
              (DisableBoshConfigs b \<or> BoshDeleteConfigs (deploymentName iid) (Inr ()) \<in> set tr)
              \<and> DeleteSecretsForInstance iid (Inr ()) \<in> set tr
        | Val (Inl e) \<Rightarrow> statusCode e = None
        | _ \<Rightarrow> False)"

definition bystander :: "event \<Rightarrow> bool" where
  "bystander e \<longleftrightarrow> \<not> is_UAA e \<and> \<not> is_Deploy e \<and> e \<noteq> LockDeployment \<and> e \<noteq> UnlockDeployment"

lemma lifecycle_bystander: "is_lifecycle e \<Longrightarrow> bystander e"
  by (cases e) (simp_all add: bystander_def)

lemma lastOperationState_Succeeded: "lastOperationState t = Succeeded \<longleftrightarrow> StateType t = TaskComplete"
  by (simp add: lastOperationState_def split: TaskStateType.splits)

lemma constructLastOperation_State [simp]: "lo_State (constructLastOperation ctx st t d x) = st"
  by (simp add: constructLastOperation_def Let_def)

lemma cleanup_spec:
  "ensures (\<lambda>r tr. list_all bystander tr \<and> ((\<exists>e. r = Val (Inl e)) \<or> r = Val (Inr ())
      \<and> (validPreDeleteOpType ty \<and> StateType t = TaskComplete \<longrightarrow>
           (DisableBoshConfigs b \<or> BoshDeleteConfigs (deploymentName iid) (Inr ()) \<in> set tr)
           \<and> DeleteSecretsForInstance iid (Inr ()) \<in> set tr)))
    [] (deleteConfigsAndSecretsAfterDelete b E iid ty t)"
  unfolding deleteConfigsAndSecretsAfterDelete_def client_defs validPreDeleteOpType_def
  by (auto intro!: ens simp: bystander_def)

lemma pollTask_spec:
  "ensures (poll_contract b iid (od_OperationType d)) [] (pollTask b E ctx iid d)"
proof -
  have calls: "list_all bystander tr" if "list_all is_lifecycle tr" for tr
    using that by (auto simp: list_all_iff intro: lifecycle_bystander)
  have eq: "poll_contract b iid ty r tr \<longleftrightarrow> list_all bystander tr
     \<and> (case r of
          Val (Inr lo) \<Rightarrow>
            validPreDeleteOpType ty \<and> lo_State lo = Succeeded \<longrightarrow>
              (DisableBoshConfigs b \<or> BoshDeleteConfigs (deploymentName iid) (Inr ()) \<in> set tr)
              \<and> DeleteSecretsForInstance iid (Inr ()) \<in> set tr
        | Val (Inl e) \<Rightarrow> statusCode e = None
        | _ \<Rightarrow> False)" for ty r tr
    by (simp add: poll_contract_def bystander_def [abs_def])
  show ?thesis
    unfolding pollTask_def telemetry_LogInstances_def b_fail_def Let_def
    by (auto intro!: ens ens_attempt_sub [OF GetTask_calls] ens_attempt_sub [OF cleanup_spec]
        simp: eq calls lastOperationState_Succeeded bystander_def)
qed

section \<open>What a poll promises\<close>

text \<open>
  C5.  Polling an operation, with any operation data and in every environment: it never panics and
  never answers with an HTTP status of its own; it takes no lock, calls neither UAA nor the
  deployer, and so can only run errands or delete the deployment; and it reports a deletion as
  succeeded only when the instance's BOSH configs (unless they are disabled) and its secrets were
  deleted during this poll.
\<close>

theorem last_operation_contract:
  "ensures (poll_contract b iid (case unmarshalOperationData w of
      Inr d \<Rightarrow> od_OperationType d | Inl _ \<Rightarrow> OtherOperationType '''')) []
    (Broker_LastOperation b E ctx iid w)"
proof -
  have prefix: "poll_contract b iid ty r ([NewUUID u] @ d)" if "poll_contract b iid ty r d" for u r d ty
    using that by (auto simp: poll_contract_def split: outcome.splits sum.splits)
  have fail: "ensures (poll_contract b iid ty) [NewUUID u] (ret (Inl (b_processError b (NewGenericError c e))))" for u ty c e
    by (rule ens_ret) (simp add: poll_contract_def)
  show ?thesis
    unfolding Broker_LastOperation_def client_defs b_fail_def Let_def
    by (auto intro!: ens fail ens_sub [OF pollTask_spec] prefix [simplified] split: sum.splits)
qed

text \<open>
  What a failed operation tells the user: with operational errors hidden the description does
  not depend on the result text of the BOSH task at all; with operational errors exposed it is the
  same description followed by exactly that text.
\<close>

theorem last_operation_description:
  "constructLastOperation ctx st (t\<lparr>task_Result := text\<rparr>) d False = constructLastOperation ctx st t d False
   \<and> constructLastOperation ctx Failed t d True
     = (constructLastOperation ctx Failed t d False)\<lparr>lo_Description :=
          lo_Description (constructLastOperation ctx Failed t d False) @ '', error-message: '' @ task_Result t\<rparr>"
  by (simp add: constructLastOperation_def Let_def)

lemma deprovisionFound_no_UAA:
  assumes "planErrands (b_serviceOffering b) (dd_PlanID details) \<noteq> []" and "list_all (\<lambda>e. \<not> is_UAA e) t"
  shows "ensures (\<lambda>r tr. list_all (\<lambda>e. \<not> is_UAA e) tr) t (deprovisionFound b E ctx iid details)"
proof -
  obtain plan where p: "FindPlanByID (b_serviceOffering b) (dd_PlanID details) = (plan, True)" and
      ne: "PreDeleteErrands plan \<noteq> []"
    using assms(1) by (auto simp: planErrands_def split: prod.splits bool.splits)
  have "ensures (\<lambda>r tr. list_all (\<lambda>e. \<not> is_UAA e) tr) [] (runPreDeleteErrands E ctx iid es ty)" for es ty
    unfolding runPreDeleteErrands_def client_defs go_index_def by (auto intro!: ens split: if_splits)
  then show ?thesis
    using assms(2) ne unfolding deprovisionFound_def p by (auto intro!: ens_seq_sub ens_ret)
qed

text \<open>
  The UAA client of an instance whose plan has pre-delete errands is never deleted: Deprovision
  makes no call to UAA for such a plan, and no poll of the operation makes one either.  (For a plan
  without errands Deprovision deletes the client, even when the deletion of the deployment was
  refused.)
\<close>

theorem uaa_client_leaks:
  assumes "planErrands (b_serviceOffering b) (dd_PlanID details) \<noteq> []"
  shows "ensures (\<lambda>r tr. list_all (\<lambda>e. \<not> is_UAA e) tr) [] (Broker_Deprovision b E ctx iid details async)
    \<and> ensures (\<lambda>r tr. list_all (\<lambda>e. \<not> is_UAA e) tr) [] (pollTask b E ctx iid d)"
proof
  have exists: "ensures (\<lambda>r tr. list_all (\<lambda>e. \<not> is_UAA e) tr) [] (assertDeploymentExists E c iid)" for c
    by (rule ensures_mono [OF assertDeploymentExists_spec]) auto
  have tasks: "ensures (\<lambda>r tr. list_all (\<lambda>e. \<not> is_UAA e) tr) [] (deprovision_assertNoOperationsInProgress E c iid)" for c
    by (rule ensures_mono [OF assertNoOperations_spec]) auto
  have clear: "ensures (\<lambda>r tr. list_all (\<lambda>e. \<not> is_UAA e) tr) [] (deprovisionNotFound b E c iid)" for c
    unfolding deprovisionNotFound_def deleteConfigsForNotFoundInstance_def clearSecretsForNotFoundInstance_def
      b_fail_def client_defs
    by (auto simp: attempt_def intro!: ens split: sum.splits)
  have "ensures (\<lambda>r tr. list_all (\<lambda>e. \<not> is_UAA e) tr) [LockDeployment] (deprovisionLocked b E ctx iid details async)"
    unfolding deprovisionLocked_def client_defs b_fail_def Let_def
    by (auto intro!: ens deprovisionFound_no_UAA [OF assms] ens_attempt_sub [OF exists] ens_attempt_sub [OF tasks]
        ens_sub [OF clear])
  then show "ensures (\<lambda>r tr. list_all (\<lambda>e. \<not> is_UAA e) tr) [] (Broker_Deprovision b E ctx iid details async)"
    unfolding Broker_Deprovision_def
    by (intro ens_with_lock) (simp only: append_Nil, erule ensures_mono, auto)
  show "ensures (\<lambda>r tr. list_all (\<lambda>e. \<not> is_UAA e) tr) [] (pollTask b E ctx iid d)"
    by (rule ensures_mono [OF pollTask_spec]) (auto simp: poll_contract_def list_all_iff)
qed

definition errand_details :: DeprovisionDetails where
  "errand_details = \<lparr> dd_PlanID = ''errands'', dd_ServiceID = ''svc'', dd_Force = False \<rparr>"

theorem uaa_client_leaks_witness:
  "ensures (\<lambda>r tr. list_all (\<lambda>e. \<not> is_UAA e) tr) []
     (Broker_Deprovision sample_broker sample_env background ''i1'' errand_details True)"
  by (rule uaa_client_leaks [THEN conjunct1])
     (simp add: planErrands_def FindPlanByID_def sample_broker_def sample_offering_def errand_details_def
        sample_plan_def errand_plan_def PreDeleteErrands_def)

section \<open>Polling until the errands have run\<close>

lemma unmarshal_WEmpty: "unmarshalOperationData w = Inr d \<Longrightarrow> w \<noteq> WEmpty"
  by (auto simp: unmarshalOperationData_def)

text \<open>A poll of a post-deploy operation is one step of the runner between two silent events.\<close>

lemma LastOperation_step:
  assumes "unmarshalOperationData w = Inr d" and "od_BoshTaskID d \<noteq> 0"
    and "validPostDeployOpType (od_OperationType d)"
    and "LifeCycle_GetTask E (deploymentName iid) d (s\<lparr>hist := hist s @ [NewUUID (o_UUID E (hist s))]\<rparr>) = (Val (Inr t), s1)"
  shows "\<exists>lo. Broker_LastOperation b E ctx iid w s = (Val (Inr lo), s1\<lparr>hist := hist s1
       @ [TelemetryLogInstances (operationTypeString (od_OperationType d))]\<rparr>)
     \<and> lo_State lo = lastOperationState t"
proof -
  have "\<not> (od_OperationType d = OperationTypeDelete \<or> od_OperationType d = OperationTypeForceDelete)"
    using assms(3) by (auto simp: validPostDeployOpType_def)
  with assms unmarshal_WEmpty [OF assms(1)] show ?thesis
    by (simp add: Broker_LastOperation_def pollTask_def client_defs run deleteConfigsAndSecretsAfterDelete_def)
qed

lemma silent_events [simp]:
  "started_task c (NewUUID u) = []" "started_task c (TelemetryLogInstances t) = []"
  "effect_of (NewUUID u) = []" "effect_of (TelemetryLogInstances t) = []"
  by (simp_all add: started_task_def effect_of_def)

lemma LastOperation_errand:
  assumes "unmarshalOperationData w = Inr d" and "od_BoshTaskID d \<noteq> 0"
    and "validPostDeployOpType (od_OperationType d)"
    and "prompt_director E (deploymentName iid) c" and "od_BoshContextID d = c" and "c \<noteq> ''''"
    and "nextAction d (map (done_task c) (rev (ctxTaskIDs c (hist s)))) = StartErrand e"
  shows "\<exists>tr. hist (snd (Broker_LastOperation b E ctx iid w s)) = hist s @ tr \<and> effects tr = [errand_effect e]
       \<and> length (ctxTaskIDs c (hist s @ tr)) = Suc (length (ctxTaskIDs c (hist s)))"
proof -
  let ?s0 = "s\<lparr>hist := hist s @ [NewUUID (o_UUID E (hist s))]\<rparr>"
  let ?ts = "map (done_task c) (rev (ctxTaskIDs c (hist s)))"
  let ?l = "BoshTasksByContext (deploymentName iid) c (Inr ?ts)"
  have ids: "ctxTaskIDs c (hist ?s0) = ctxTaskIDs c (hist s)" by simp
  have op: "validPostDeployOpType (od_OperationType d) \<or> validPreDeleteOpType (od_OperationType d)" using assms(3) ..
  obtain t where t: "perform E (deploymentName iid) c (StartErrand e) (?s0\<lparr>hist := hist ?s0 @ [?l]\<rparr>) = (Val (Inr (done_task c t)),
     ?s0\<lparr>hist := hist ?s0 @ [?l, BoshRunErrand (deploymentName iid) (errand_Name e) (errand_Instances e) c (Inr t),
                         BoshGetTask t (Inr (done_task c t))]\<rparr>)"
    using perform_StartErrand [OF assms(4), of e "?s0\<lparr>hist := hist ?s0 @ [?l]\<rparr>"] by auto
  have "LifeCycle_GetTask E (deploymentName iid) d ?s0 = perform E (deploymentName iid) c (StartErrand e) (?s0\<lparr>hist := hist ?s0 @ [?l]\<rparr>)"
    using poll_run [OF assms(4-6) op refl, of ?s0] assms(7) by (simp only: ids)
  with t obtain lo where "Broker_LastOperation b E ctx iid w s = (Val (Inr lo), ?s0\<lparr>hist := (hist ?s0 @ [?l,
      BoshRunErrand (deploymentName iid) (errand_Name e) (errand_Instances e) c (Inr t), BoshGetTask t (Inr (done_task c t))])
      @ [TelemetryLogInstances (operationTypeString (od_OperationType d))]\<rparr>)"
    using LastOperation_step [OF assms(1-3), of E iid s] by force
  then show ?thesis
    by (simp add: errand_effect_def)
qed

lemma LastOperation_report:
  assumes "unmarshalOperationData w = Inr d" and "od_BoshTaskID d \<noteq> 0"
    and "validPostDeployOpType (od_OperationType d)"
    and "prompt_director E (deploymentName iid) c" and "od_BoshContextID d = c" and "c \<noteq> ''''"
    and "nextAction d (map (done_task c) (rev (ctxTaskIDs c (hist s)))) = Report (done_task c t)"
  shows "\<exists>lo tr. fst (Broker_LastOperation b E ctx iid w s) = Val (Inr lo) \<and> lo_State lo = Succeeded
       \<and> hist (snd (Broker_LastOperation b E ctx iid w s)) = hist s @ tr \<and> effects tr = []"
proof -
  let ?s0 = "s\<lparr>hist := hist s @ [NewUUID (o_UUID E (hist s))]\<rparr>"
  let ?ts = "map (done_task c) (rev (ctxTaskIDs c (hist s)))"
  have ids: "ctxTaskIDs c (hist ?s0) = ctxTaskIDs c (hist s)" by simp
  have op: "validPostDeployOpType (od_OperationType d) \<or> validPreDeleteOpType (od_OperationType d)" using assms(3) ..
  have "LifeCycle_GetTask E (deploymentName iid) d ?s0 = (Val (Inr (done_task c t)),
      ?s0\<lparr>hist := hist ?s0 @ [BoshTasksByContext (deploymentName iid) c (Inr ?ts)]\<rparr>)"
    using poll_run [OF assms(4-6) op refl, of ?s0] assms(7) by (simp add: ids perform_def run)
  from LastOperation_step [OF assms(1-3) this] obtain lo where
    "Broker_LastOperation b E ctx iid w s = (Val (Inr lo), ?s0\<lparr>hist := (hist ?s0
        @ [BoshTasksByContext (deploymentName iid) c (Inr ?ts)])
        @ [TelemetryLogInstances (operationTypeString (od_OperationType d))]\<rparr>)"
    "lo_State lo = lastOperationState (done_task c t)"
    by auto
  then show ?thesis by (simp add: lastOperationState_Succeeded)
qed

lemma LastOperation_polls:
  assumes "unmarshalOperationData w = Inr d" and "od_BoshTaskID d \<noteq> 0"
    and "validPostDeployOpType (od_OperationType d)" and "errand_Name (od_PostDeployErrand d) = ''''"
    and "prompt_director E (deploymentName iid) (od_BoshContextID d)" and "od_BoshContextID d \<noteq> ''''"
    and "ctxTaskIDs (od_BoshContextID d) (hist s) = [t0]"
    and "s' = polls (length (od_Errands d)) (Broker_LastOperation b E ctx iid w) s"
  shows "(\<exists>tr. hist s' = hist s @ tr \<and> effects tr = map errand_effect (od_Errands d))
    \<and> (\<exists>lo tr. fst (Broker_LastOperation b E ctx iid w s') = Val (Inr lo) \<and> lo_State lo = Succeeded
       \<and> hist (snd (Broker_LastOperation b E ctx iid w s')) = hist s' @ tr \<and> effects tr = [])"
proof -
  let ?c = "od_BoshContextID d" and ?es = "od_Errands d"
  have nxt: "nextAction d (map (done_task ?c) ids) = StartErrand (?es ! (length ids - 1))"
    if "1 \<le> length ids" "length ids < 1 + length ?es" for ids
    using that assms(3,4) by (cases ids) (auto simp: nextAction_def)
  have "length (ctxTaskIDs ?c (hist s)) = 1" using assms(7) by simp
  from polls_steps [where d = d and hst = hist and p = "Broker_LastOperation b E ctx iid w", OF LastOperation_errand [OF assms(1-3,5) refl assms(6)] nxt this refl]
  obtain tr where tr: "hist s' = hist s @ tr" "effects tr = map errand_effect ?es"
      "length (ctxTaskIDs ?c (hist s')) = 1 + length ?es"
    by (auto simp: assms(8))
  then obtain i ids where ids: "rev (ctxTaskIDs ?c (hist s')) = i # ids" "length ids = length ?es"
    by (cases "rev (ctxTaskIDs ?c (hist s'))") (auto dest: arg_cong [of _ _ length])
  then have "nextAction d (map (done_task ?c) (rev (ctxTaskIDs ?c (hist s')))) = Report (done_task ?c i)"
    using assms(3,4) by (simp add: nextAction_def)
  from LastOperation_report [OF assms(1-3,5) refl assms(6) this] tr show ?thesis by blast
qed

lemma started_by_deployments:
  "ctxTaskIDs c tr = ctxTaskIDs c (filter changes_deployment tr)"
proof (induction tr)
  case (Cons e tr)
  have "started_task c e = []" if "\<not> changes_deployment e"
    using that by (cases e) (simp_all add: started_task_def)
  with Cons show ?case by simp
qed simp

lemma wf_created: "wf_operationType (od_OperationType (created t c plan))"
  by (simp add: created_def wf_operationType_def operationTypeOf_def)

text \<open>
  From Provision to the last poll: when Provision has accepted a request for a plan with life-cycle
  errands, polling with the operation data it returned runs the plan's post-deploy errands, in
  order and each once, and then reports success.
\<close>

lemma provision_then_poll_lemma:
  assumes "Provision (b\<lparr>b_deployer := task_Deployer D E\<rparr>) E ctx iid details async s = (Val (Inr spec), s')"
    and "unmarshalOperationData (pss_OperationData spec) = Inr d" and "od_BoshTaskID d \<noteq> 0"
    and "od_BoshContextID d \<noteq> ''''" and "ctxTaskIDs (od_BoshContextID d) (hist s) = []"
    and "prompt_director E (deploymentName iid) (od_BoshContextID d)"
    and "poll = Broker_LastOperation b2 E ctx2 iid (pss_OperationData spec)"
    and "errands = PostDeployErrands (fst (FindPlanByID (b_serviceOffering b) (pd_PlanID details)))"
    and "s2 = polls (length errands) poll s'"
  shows "(\<exists>tr. hist s2 = hist s' @ tr \<and> effects tr = map errand_effect errands)
    \<and> (\<exists>lo tr. fst (poll s2) = Val (Inr lo) \<and> lo_State lo = Succeeded
       \<and> hist (snd (poll s2)) = hist s2 @ tr \<and> effects tr = [])"
proof -
  have contract: "ensures (provision_contract (b_serviceOffering b) iid (pd_PlanID details)) []
     (Provision (b\<lparr>b_deployer := task_Deployer D E\<rparr>) E ctx iid details async)"
    using task.Provision_keeps_contract [where b = "b\<lparr>b_deployer := task_Deployer D E\<rparr>"] by simp
  from ensuresD [OF contract assms(1)] obtain tr plan m c t where tr: "hist s' = hist s @ tr"
      and plan: "FindPlanByID (b_serviceOffering b) (pd_PlanID details) = (plan, True)"
      and dep: "filter changes_deployment tr = [BoshDeploy m c (Inr t)]"
      and carries: "carries_data (created t c plan) spec"
    by (auto simp: provision_contract_def create_outcome_def)
  from carries assms(2) have "unmarshalOperationData (WJson (marshalOperationData (created t c plan))) = Inr d"
    by (simp add: carries_data_def)
  with operationData_decode_task [OF this] operationData_decode [OF _ wf_created] have d: "d = created t c plan" by simp
  have "ctxTaskIDs c tr = [t]" by (subst started_by_deployments) (simp add: dep started_task_def)
  with assms(5) tr have one: "ctxTaskIDs (od_BoshContextID d) (hist s') = [t]" by (simp add: d created_def)
  have es: "errands = od_Errands d" by (simp add: assms(8) plan d created_def)
  have "validPostDeployOpType (od_OperationType d)" "errand_Name (od_PostDeployErrand d) = ''''"
    by (simp_all add: d created_def validPostDeployOpType_def zeroOperationData_def zeroErrand_def)
  from LastOperation_polls [OF assms(2,3) this assms(6,4) one, of s2 b2 ctx2] show ?thesis
    using assms(7,9) by (simp add: es)
qed

end
