(* ===== verification/Semver.thy ===== *)
theory Semver
  imports Errors "HOL-Library.Word" "HOL-Library.Char_ord" "HOL-Library.List_Lexorder"
begin

text \<open>
  Semantic versions (the vendored \<open>blang/semver/v4/semver.go\<close>): parsing, printing and precedence.  The
  checks of the director's and Cloud Foundry's versions rest on it.

  A number of a version is a \<open>uint64\<close>.  No caller reads the text of a parse error, so \<open>Parse\<close> gives an
  option.  Strings are read byte by byte; white space is that of ASCII.

  The locale \<open>precedence\<close> is what the version checks need of a three-way comparison; it is
  interpreted on the comparison of prerelease parts and on that of versions.
\<close>

section \<open>Strings\<close>

text \<open>\<open>strings.Split(s, sep)\<close> and \<open>strings.SplitN(s, sep, n)\<close> for a separator of one byte\<close>

fun Split :: "char \<Rightarrow> string \<Rightarrow> string list" where
  "Split sep [] = [[]]"
| "Split sep (c # cs) =
     (if c = sep then [] # Split sep cs
      else (case Split sep cs of [] \<Rightarrow> [[c]] | w # ws \<Rightarrow> (c # w) # ws))"

fun SplitN :: "char \<Rightarrow> string \<Rightarrow> nat \<Rightarrow> string list" where
  "SplitN sep s 0 = []"
| "SplitN sep s (Suc 0) = [s]"
| "SplitN sep s (Suc (Suc n)) = (case dropWhile (\<lambda>c. c \<noteq> sep) s of
      [] \<Rightarrow> [s] | _ # rest \<Rightarrow> takeWhile (\<lambda>c. c \<noteq> sep) s # SplitN sep rest (Suc n))"

definition is_space :: "char \<Rightarrow> bool" where
  "is_space c \<longleftrightarrow> c \<in> set [CHR 0x09, CHR 0x0A, CHR 0x0B, CHR 0x0C, CHR 0x0D, CHR '' '']"

definition TrimSpace :: "string \<Rightarrow> string" where
  "TrimSpace s = rev (dropWhile is_space (rev (dropWhile is_space s)))"

function Fields :: "string \<Rightarrow> string list" where
  "Fields s = (case dropWhile is_space s of [] \<Rightarrow> []
     | c # cs \<Rightarrow> takeWhile (\<lambda>c. \<not> is_space c) (c # cs) # Fields (dropWhile (\<lambda>c. \<not> is_space c) (c # cs)))"
  by pat_completeness auto

lemma Fields_shorter:
  assumes "dropWhile is_space s = c # cs"
  shows "length (dropWhile (\<lambda>c. \<not> is_space c) (c # cs)) < length s"
proof -
  have "\<not> is_space c" using hd_dropWhile [of is_space s] assms by simp
  then have "length (dropWhile (\<lambda>c. \<not> is_space c) (c # cs)) < length (c # cs)"
    using length_dropWhile_le [of _ cs] by (simp add: le_imp_less_Suc)
  also have "\<dots> \<le> length s" using length_dropWhile_le [of is_space s] assms by simp
  finally show ?thesis .
qed

termination Fields
  by (relation "measure length") (simp_all add: Fields_shorter del: dropWhile.simps)

declare Fields.simps [simp del]

section \<open>Versions\<close>

record PRVersion =
  VersionStr :: string
  VersionNum :: "64 word"
  IsNum :: bool

record Version =
  Major :: "64 word"
  Minor :: "64 word"
  Patch :: "64 word"
  Pre :: "PRVersion list"
  Build :: "string list"

definition zero_version :: Version where
  "zero_version = \<lparr>Major = 0, Minor = 0, Patch = 0, Pre = [], Build = []\<rparr>"

definition numbers :: string where
  "numbers = ''0123456789''"

definition alphanum :: string where
  "alphanum = ''abcdefghijklmnopqrstuvwxyzABCDEFGHIJKLMNOPQRSTUVWXYZ-'' @ numbers"

definition containsOnly :: "string \<Rightarrow> string \<Rightarrow> bool" where
  "containsOnly s cs \<longleftrightarrow> list_all (\<lambda>c. c \<in> set cs) s"

definition hasLeadingZeroes :: "string \<Rightarrow> bool" where
  "hasLeadingZeroes s \<longleftrightarrow> 1 < length s \<and> hd s = CHR ''0''"

text \<open>\<open>strconv.ParseUint(s, 10, 64)\<close>\<close>

definition digitsValue :: "string \<Rightarrow> int" where
  "digitsValue s = foldl (\<lambda>n c. 10 * n + (of_char c - 48)) 0 s"

definition ParseUint :: "string \<Rightarrow> 64 word option" where
  "ParseUint s = (if s = [] \<or> \<not> containsOnly s numbers then None
     else if 2 ^ 64 \<le> digitsValue s then None else Some (of_int (digitsValue s)))"

definition FormatUint :: "64 word \<Rightarrow> string" where
  "FormatUint w = show_nat (unat w)"

definition parseNumber :: "string \<Rightarrow> 64 word option" where
  "parseNumber s = (if \<not> containsOnly s numbers then None else if hasLeadingZeroes s then None else ParseUint s)"

definition NewPRVersion :: "string \<Rightarrow> PRVersion option" where
  "NewPRVersion s =
     (if s = [] then None
      else if containsOnly s numbers then
        (if hasLeadingZeroes s then None
         else map_option (\<lambda>num. \<lparr>VersionStr = [], VersionNum = num, IsNum = True\<rparr>) (ParseUint s))
      else if containsOnly s alphanum then Some \<lparr>VersionStr = s, VersionNum = 0, IsNum = False\<rparr>
      else None)"

fun parsePrerelease :: "string list \<Rightarrow> PRVersion list option" where
  "parsePrerelease [] = Some []"
| "parsePrerelease (prstr # strs) = (case NewPRVersion prstr of None \<Rightarrow> None
     | Some pr \<Rightarrow> map_option (\<lambda>prs. pr # prs) (parsePrerelease strs))"

definition validBuild :: "string \<Rightarrow> bool" where
  "validBuild s \<longleftrightarrow> s \<noteq> [] \<and> containsOnly s alphanum"

text \<open>\<open>strings.IndexRune(s, r)\<close> and the two parts around it\<close>

definition cutAt :: "char \<Rightarrow> string \<Rightarrow> string \<times> string list" where
  "cutAt r s = (case dropWhile (\<lambda>c. c \<noteq> r) s of [] \<Rightarrow> (s, [])
     | _ # rest \<Rightarrow> (takeWhile (\<lambda>c. c \<noteq> r) s, Split (CHR ''.'') rest))"

definition Parse :: "string \<Rightarrow> Version option" where
  "Parse s =
     (if s = [] then None
      else let parts = SplitN (CHR ''.'') s 3 in
      if length parts \<noteq> 3 then None
      else (case parseNumber (parts ! 0) of None \<Rightarrow> None | Some major \<Rightarrow>
      (case parseNumber (parts ! 1) of None \<Rightarrow> None | Some minor \<Rightarrow>
      let (rest, build) = cutAt (CHR ''+'') (parts ! 2);
          (patchStr, prerelease) = cutAt (CHR ''-'') rest in
      (case parseNumber patchStr of None \<Rightarrow> None | Some patch \<Rightarrow>
      (case parsePrerelease prerelease of None \<Rightarrow> None | Some pre \<Rightarrow>
      if list_all validBuild build
      then Some \<lparr>Major = major, Minor = minor, Patch = patch, Pre = pre, Build = build\<rparr> else None)))))"

text \<open>One part of a version without its leading zeros\<close>

definition trimZeros :: "string \<Rightarrow> string" where
  "trimZeros p =
     (if 1 < length p then
        let q = dropWhile (\<lambda>c. c = CHR ''0'') p in
        if q = [] \<or> hd q \<notin> set numbers then CHR ''0'' # q else q
      else p)"

definition ParseTolerant :: "string \<Rightarrow> Version option" where
  "ParseTolerant raw =
     (let s = trim_prefix (TrimSpace raw) ''v'';
          parts = map trimZeros (SplitN (CHR ''.'') s 3) in
      if length parts < 3 then
        if CHR ''+'' \<in> set (last parts) \<or> CHR ''-'' \<in> set (last parts) then None
        else Parse (join ''.'' (parts @ replicate (3 - length parts) ''0''))
      else Parse (join ''.'' parts))"

definition PRVersion_String :: "PRVersion \<Rightarrow> string" where
  "PRVersion_String v = (if IsNum v then FormatUint (VersionNum v) else VersionStr v)"

definition Version_String :: "Version \<Rightarrow> string" where
  "Version_String v = FormatUint (Major v) @ ''.'' @ FormatUint (Minor v) @ ''.'' @ FormatUint (Patch v)
     @ (if Pre v = [] then [] else ''-'' @ join ''.'' (map PRVersion_String (Pre v)))
     @ (if Build v = [] then [] else ''+'' @ join ''.'' (Build v))"

text \<open>Precedence\<close>

definition threeWay :: "'a::linorder \<Rightarrow> 'a \<Rightarrow> int" where
  "threeWay x y = (if x = y then 0 else if x > y then 1 else -1)"

definition PRVersion_Compare :: "PRVersion \<Rightarrow> PRVersion \<Rightarrow> int" where
  "PRVersion_Compare v w =
     (if IsNum v \<and> \<not> IsNum w then -1
      else if \<not> IsNum v \<and> IsNum w then 1
      else if IsNum v \<and> IsNum w then threeWay (VersionNum v) (VersionNum w)
      else threeWay (VersionStr v) (VersionStr w))"

fun comparePre :: "PRVersion list \<Rightarrow> PRVersion list \<Rightarrow> int" where
  "comparePre [] [] = 0"
| "comparePre [] (w # ws) = -1"
| "comparePre (v # vs) [] = 1"
| "comparePre (v # vs) (w # ws) =
     (let comp = PRVersion_Compare v w in
      if comp = 0 then comparePre vs ws else if comp = 1 then 1 else -1)"

definition Version_Compare :: "Version \<Rightarrow> Version \<Rightarrow> int" where
  "Version_Compare v w =
     (if Major v \<noteq> Major w then (if Major v > Major w then 1 else -1)
      else if Minor v \<noteq> Minor w then (if Minor v > Minor w then 1 else -1)
      else if Patch v \<noteq> Patch w then (if Patch v > Patch w then 1 else -1)
      else if Pre v = [] \<and> Pre w = [] then 0
      else if Pre v = [] \<and> Pre w \<noteq> [] then 1
      else if Pre v \<noteq> [] \<and> Pre w = [] then -1
      else comparePre (Pre v) (Pre w))"

definition LT :: "Version \<Rightarrow> Version \<Rightarrow> bool" where
  "LT v w \<longleftrightarrow> Version_Compare v w = -1"

definition GE :: "Version \<Rightarrow> Version \<Rightarrow> bool" where
  "GE v w \<longleftrightarrow> Version_Compare v w \<ge> 0"

section \<open>Comparisons\<close>

text \<open>
  \<open>cmp x y\<close> is negative, zero or positive; its sign orders the values in a line, up to values that
  compare equal.
\<close>

locale precedence =
  fixes cmp :: "'a \<Rightarrow> 'a \<Rightarrow> int"
  assumes cmp_sign: "cmp x y \<in> {-1, 0, 1}"
    and cmp_swap: "cmp y x = - cmp x y"
    and cmp_trans: "cmp x y \<le> 0 \<Longrightarrow> cmp y z \<le> 0 \<Longrightarrow> cmp x z \<le> 0"
begin

lemma cmp_refl [simp]: "cmp x x = 0"
  using cmp_swap [of x x] by simp

lemma cmp_cases: "cmp x y = -1 \<or> cmp x y = 0 \<or> cmp x y = 1"
  using cmp_sign [of x y] by auto

lemma equal_left: "cmp x y = 0 \<Longrightarrow> cmp x z = cmp y z"
  using cmp_trans [of x y z] cmp_trans [of y x z] cmp_trans [of z x y] cmp_trans [of z y x]
    cmp_swap [of x y] cmp_swap [of x z] cmp_swap [of y z] cmp_cases [of x z] cmp_cases [of y z] by auto

lemma equal_right: "cmp y z = 0 \<Longrightarrow> cmp x y = cmp x z"
  using equal_left [of y z x] cmp_swap [of x y] cmp_swap [of x z] by simp

lemma less_trans: "cmp x y = -1 \<Longrightarrow> cmp y z \<le> 0 \<Longrightarrow> cmp x z = -1"
  using cmp_trans [of x y z] equal_left [of x z y] cmp_swap [of z y] cmp_cases [of x z] by auto

lemma at_least_mono: "cmp x m \<ge> 0 \<Longrightarrow> cmp x y \<le> 0 \<Longrightarrow> cmp y m \<ge> 0"
  using cmp_trans [of m x y] cmp_swap [of m x] cmp_swap [of m y] by simp

end

lemma threeWay_le_0: "threeWay x y \<le> 0 \<longleftrightarrow> x \<le> y"
  by (auto simp: threeWay_def)

lemma PRVersion_precedence: "precedence PRVersion_Compare"
proof
  show "PRVersion_Compare x y \<in> {- 1, 0, 1}" and "PRVersion_Compare y x = - PRVersion_Compare x y" for x y
    by (auto simp: PRVersion_Compare_def threeWay_def)
  show "PRVersion_Compare x y \<le> 0 \<Longrightarrow> PRVersion_Compare y z \<le> 0 \<Longrightarrow> PRVersion_Compare x z \<le> 0" for x y z
    by (cases "IsNum x"; cases "IsNum y"; cases "IsNum z")
      (simp_all add: PRVersion_Compare_def threeWay_le_0)
qed

interpretation part: precedence PRVersion_Compare
  by (rule PRVersion_precedence)

lemma comparePre_sign: "comparePre v w \<in> {-1, 0, 1}"
  by (induction v w rule: comparePre.induct) (auto simp: Let_def)

lemma comparePre_swap: "comparePre w v = - comparePre v w"
proof (induction v w rule: comparePre.induct)
  case (4 v vs w ws)
  then show ?case using part.cmp_cases [of v w] part.cmp_swap [of v w] by (auto simp: Let_def)
qed simp_all

lemma comparePre_trans: "comparePre v w \<le> 0 \<Longrightarrow> comparePre w x \<le> 0 \<Longrightarrow> comparePre v x \<le> 0"
proof (induction v w arbitrary: x rule: comparePre.induct)
  case (1 x)
  then show ?case by simp
next
  case (2 w ws x)
  then show ?case by (cases x) simp_all
next
  case (3 v vs x)
  then show ?case by simp
next
  case (4 v vs w ws x)
  from 4(3) have "x \<noteq> []" by auto
  then obtain y ys where x: "x = y # ys" by (cases x) auto
  show ?case
    using 4 part.cmp_cases [of v w] part.cmp_cases [of w y] part.less_trans [of v w y]
      part.equal_left [of v w y] part.equal_right [of w y v]
    by (auto simp: x Let_def split: if_splits)
qed

text \<open>The first number in which two versions differ decides.\<close>

definition decides :: "'x::linorder \<Rightarrow> 'x \<Rightarrow> int \<Rightarrow> int" where
  "decides x y r = (if x \<noteq> y then (if x > y then 1 else -1) else r)"

lemma decides_le_0: "decides x y r \<le> 0 \<longleftrightarrow> x < y \<or> x = y \<and> r \<le> 0"
  and decides_sign: "r \<in> {-1, 0, 1} \<Longrightarrow> decides x y r \<in> {-1, 0, 1}"
  and decides_swap: "r' = - r \<Longrightarrow> decides y x r' = - decides x y r"
  by (auto simp: decides_def)

definition comparePrereleases :: "PRVersion list \<Rightarrow> PRVersion list \<Rightarrow> int" where
  "comparePrereleases v w = (if v = [] \<and> w = [] then 0 else if v = [] \<and> w \<noteq> [] then 1
     else if v \<noteq> [] \<and> w = [] then -1 else comparePre v w)"

lemma Version_Compare_decides: "Version_Compare v w =
    decides (Major v) (Major w) (decides (Minor v) (Minor w) (decides (Patch v) (Patch w) (comparePrereleases (Pre v) (Pre w))))"
  by (simp add: Version_Compare_def decides_def comparePrereleases_def)

lemma Version_le_0:
  "Version_Compare v w \<le> 0 \<longleftrightarrow> Major v < Major w \<or> Major v = Major w \<and> (Minor v < Minor w \<or> Minor v = Minor w \<and>
     (Patch v < Patch w \<or> Patch v = Patch w \<and> (Pre w = [] \<or> Pre v \<noteq> [] \<and> comparePre (Pre v) (Pre w) \<le> 0)))"
  by (simp add: Version_Compare_decides decides_le_0 comparePrereleases_def)

lemma Version_precedence: "precedence Version_Compare"
proof
  fix x y z
  show "Version_Compare x y \<in> {- 1, 0, 1}"
    using comparePre_sign [of "Pre x" "Pre y"] unfolding Version_Compare_decides
    by (intro decides_sign) (simp add: comparePrereleases_def)
  show "Version_Compare y x = - Version_Compare x y"
    using comparePre_swap [of "Pre y" "Pre x"] unfolding Version_Compare_decides
    by (intro decides_swap) (simp add: comparePrereleases_def)
  show "Version_Compare x y \<le> 0 \<Longrightarrow> Version_Compare y z \<le> 0 \<Longrightarrow> Version_Compare x z \<le> 0"
    using comparePre_trans [of "Pre x" "Pre y" "Pre z"] by (auto simp: Version_Compare_def split: if_splits)
qed

interpretation semver: precedence Version_Compare
  by (rule Version_precedence)

text \<open>The comparison sees numbers and prerelease parts, never the build.\<close>

lemma compare_ignores_build: "Version_Compare (v\<lparr>Build := b\<rparr>) w = Version_Compare v w"
  by (simp add: Version_Compare_def)

lemma LT_iff: "LT v w \<longleftrightarrow> \<not> GE v w"
  using semver.cmp_cases [of v w] by (auto simp: LT_def GE_def)

section \<open>Printing and parsing\<close>

lemma Split_nonempty [simp]: "Split sep s \<noteq> []"
  by (induction s) (auto split: list.splits)

lemma Split_none: "sep \<notin> set s \<Longrightarrow> Split sep s = [s]"
  by (induction s) auto

lemma Split_append: "sep \<notin> set s \<Longrightarrow> Split sep (s @ sep # t) = s # Split sep t"
  by (induction s) auto

lemma Split_length: "length (Split sep s) = Suc (count_list s sep)"
  by (induction s) (auto split: list.splits)

lemma Split_join: "xs \<noteq> [] \<Longrightarrow> \<forall>x\<in>set xs. sep \<notin> set x \<Longrightarrow> Split sep (join [sep] xs) = xs"
  by (induction "[sep]" xs rule: join.induct) (auto simp: Split_none Split_append)

lemma join_Split: "join [sep] (Split sep s) = s"
proof (induction s)
  case (Cons c s)
  obtain w ws where "Split sep s = w # ws" by (cases "Split sep s") auto
  with Cons show ?case by (cases ws) auto
qed simp

lemma takeWhile_none: "c \<notin> set s \<Longrightarrow> takeWhile (\<lambda>x. x \<noteq> c) (s @ c # t) = s"
  and dropWhile_none: "c \<notin> set s \<Longrightarrow> dropWhile (\<lambda>x. x \<noteq> c) (s @ c # t) = c # t"
  and dropWhile_all: "c \<notin> set s \<Longrightarrow> dropWhile (\<lambda>x. x \<noteq> c) s = []"
  by (induction s) auto

lemma SplitN_3:
  "sep \<notin> set a \<Longrightarrow> sep \<notin> set b \<Longrightarrow> SplitN sep (a @ sep # b @ sep # c) 3 = [a, b, c]"
  by (simp add: numeral_3_eq_3 takeWhile_none dropWhile_none)

lemma cutAt_none: "r \<notin> set s \<Longrightarrow> cutAt r s = (s, [])"
  by (simp add: cutAt_def dropWhile_all)

lemma cutAt_found: "r \<notin> set s \<Longrightarrow> cutAt r (s @ r # t) = (s, Split (CHR ''.'') t)"
  by (simp add: cutAt_def takeWhile_none dropWhile_none)

subsection \<open>Numbers\<close>

lemma digit_cases: "(n::nat) < 10 \<Longrightarrow> n = 0 \<or> n = 1 \<or> n = 2 \<or> n = 3 \<or> n = 4 \<or> n = 5 \<or> n = 6 \<or> n = 7 \<or> n = 8 \<or> n = 9"
  by presburger

lemma digit_char: "(n::nat) < 10 \<Longrightarrow> (char_of (48 + n) :: char) \<in> set numbers"
  by (drule digit_cases) (elim disjE; simp add: numbers_def char_of_def bit_0)

lemma digit_value: "(n::nat) < 10 \<Longrightarrow> (of_char (char_of (48 + n) :: char) :: int) = 48 + int n"
  by (drule digit_cases) (elim disjE; simp add: char_of_def bit_0)

lemma digit_nonzero: "(n::nat) < 10 \<Longrightarrow> 0 < n \<Longrightarrow> (char_of (48 + n) :: char) \<noteq> CHR ''0''"
  by (drule digit_cases) (elim disjE; simp add: char_of_def bit_0)

lemma digits_show: "set (show_nat n) \<subseteq> set numbers"
proof (induction n rule: show_nat.induct)
  case (1 n)
  then show ?case
    by (subst show_nat.simps) (auto simp: digit_char)
qed

lemma show_nat_nonempty [simp]: "show_nat n \<noteq> []"
  by (subst show_nat.simps) simp

lemma digitsValue_append: "digitsValue (s @ [c]) = 10 * digitsValue s + (of_char c - 48)"
  by (simp add: digitsValue_def)

lemma digitsValue_show: "digitsValue (show_nat n) = int n"
proof (induction n rule: show_nat.induct)
  case (1 n)
  show ?case
  proof (cases "n < 10")
    case True
    then show ?thesis by (subst show_nat.simps) (simp add: digitsValue_def digit_value)
  next
    case False
    then have "digitsValue (show_nat n) = 10 * int (n div 10) + int (n mod 10)"
      using 1 by (subst show_nat.simps) (simp add: digitsValue_append digit_value)
    also have "\<dots> = int n" by presburger
    finally show ?thesis .
  qed
qed

lemma show_nat_leading: "0 < n \<Longrightarrow> hd (show_nat n) \<noteq> CHR ''0''"
proof (induction n rule: show_nat.induct)
  case (1 n)
  show ?case
  proof (cases "n < 10")
    case True
    with 1(2) show ?thesis by (subst show_nat.simps) (simp add: digit_nonzero)
  next
    case False
    then show ?thesis using 1(1) by (subst show_nat.simps) simp
  qed
qed

lemma show_nat_canonical: "\<not> hasLeadingZeroes (show_nat n)"
proof (cases "n = 0")
  case True
  then show ?thesis by (subst True, subst show_nat.simps) (simp add: hasLeadingZeroes_def)
next
  case False
  then show ?thesis using show_nat_leading [of n] by (simp add: hasLeadingZeroes_def)
qed

lemma containsOnly_digits: "containsOnly (FormatUint w) numbers"
  using digits_show [of "unat w"] by (auto simp: containsOnly_def FormatUint_def list_all_iff)

lemma ParseUint_Format: "ParseUint (FormatUint w) = Some w"
proof -
  have "int (unat w) < 2 ^ 64" using unsigned_less [where ?'a = int, of w] by simp
  then show ?thesis
    using containsOnly_digits [of w] by (simp add: ParseUint_def FormatUint_def digitsValue_show)
qed

lemma parseNumber_Format [simp]: "parseNumber (FormatUint w) = Some w"
  using containsOnly_digits show_nat_canonical
  by (simp add: parseNumber_def ParseUint_Format) (simp add: FormatUint_def show_nat_canonical)

lemma FormatUint_no: "c \<notin> set numbers \<Longrightarrow> c \<notin> set (FormatUint w)"
  using digits_show by (auto simp: FormatUint_def)

lemma FormatUint_nonempty [simp]: "FormatUint w \<noteq> []"
  by (simp add: FormatUint_def)

subsection \<open>Versions\<close>

text \<open>The values that \<open>Parse\<close> builds\<close>

definition wf_part :: "PRVersion \<Rightarrow> bool" where
  "wf_part p \<longleftrightarrow> (if IsNum p then VersionStr p = []
     else VersionNum p = 0 \<and> VersionStr p \<noteq> [] \<and> containsOnly (VersionStr p) alphanum \<and> \<not> containsOnly (VersionStr p) numbers)"

definition wf_version :: "Version \<Rightarrow> bool" where
  "wf_version v \<longleftrightarrow> list_all wf_part (Pre v) \<and> list_all validBuild (Build v)"

lemma not_alphanum: "CHR ''.'' \<notin> set alphanum" "CHR ''+'' \<notin> set alphanum" "CHR '' '' \<notin> set alphanum"
  by (simp_all add: alphanum_def numbers_def)

lemma not_number: "CHR ''.'' \<notin> set numbers" "CHR ''+'' \<notin> set numbers" "CHR ''-'' \<notin> set numbers"
    "CHR '' '' \<notin> set numbers" "CHR ''v'' \<notin> set numbers"
  by (simp_all add: numbers_def)

lemma numbers_alphanum: "set numbers \<subseteq> set alphanum"
  unfolding alphanum_def set_append by (rule Un_upper2)

lemma containsOnly_no: "containsOnly s cs \<Longrightarrow> c \<notin> set cs \<Longrightarrow> c \<notin> set s"
  by (auto simp: containsOnly_def list_all_iff)

lemma NewPRVersion_String: "wf_part p \<Longrightarrow> NewPRVersion (PRVersion_String p) = Some p"
  using containsOnly_digits [of "VersionNum p"] show_nat_canonical [of "unat (VersionNum p)"]
  by (cases p) (auto simp: wf_part_def NewPRVersion_def PRVersion_String_def ParseUint_Format FormatUint_def [symmetric]
      split: if_splits)

lemma parsePrerelease_String:
  "list_all wf_part ps \<Longrightarrow> parsePrerelease (map PRVersion_String ps) = Some ps"
  by (induction ps) (auto simp: NewPRVersion_String)

lemma part_String: "wf_part p \<Longrightarrow> set (PRVersion_String p) \<subseteq> set alphanum"
  using digits_show [of "unat (VersionNum p)"] numbers_alphanum
  by (auto simp: wf_part_def PRVersion_String_def containsOnly_def list_all_iff FormatUint_def split: if_splits)

lemma join_no: "c \<notin> set sep \<Longrightarrow> \<forall>x\<in>set xs. c \<notin> set x \<Longrightarrow> c \<notin> set (join sep xs)"
  by (induction sep xs rule: join.induct) auto

lemma parts_no: "list_all wf_part ps \<Longrightarrow> c \<notin> set alphanum \<Longrightarrow> \<forall>x\<in>set (map PRVersion_String ps). c \<notin> set x"
  using part_String by (fastforce simp: list_all_iff)

lemma builds_no: "list_all validBuild bs \<Longrightarrow> c \<notin> set alphanum \<Longrightarrow> \<forall>x\<in>set bs. c \<notin> set x"
  by (fastforce simp: list_all_iff validBuild_def containsOnly_def)

text \<open>The third part of a printed version\<close>

definition tail_String :: "Version \<Rightarrow> string" where
  "tail_String v = FormatUint (Patch v) @ (if Pre v = [] then [] else ''-'' @ join ''.'' (map PRVersion_String (Pre v)))
     @ (if Build v = [] then [] else ''+'' @ join ''.'' (Build v))"

lemma Version_String_parts: "Version_String v = FormatUint (Major v) @ CHR ''.'' # FormatUint (Minor v) @ CHR ''.'' # tail_String v"
  by (simp add: Version_String_def tail_String_def)

lemma SplitN_Version: "SplitN (CHR ''.'') (Version_String v) 3 = [FormatUint (Major v), FormatUint (Minor v), tail_String v]"
  unfolding Version_String_parts by (intro SplitN_3 FormatUint_no not_number)

lemma cut_tail:
  assumes "wf_version v"
  shows "cutAt (CHR ''+'') (tail_String v)
      = (FormatUint (Patch v) @ (if Pre v = [] then [] else ''-'' @ join ''.'' (map PRVersion_String (Pre v))), Build v)"
    and "cutAt (CHR ''-'') (FormatUint (Patch v) @ (if Pre v = [] then [] else ''-'' @ join ''.'' (map PRVersion_String (Pre v))))
      = (FormatUint (Patch v), map PRVersion_String (Pre v))"
proof -
  from assms have pre: "list_all wf_part (Pre v)" and bld: "list_all validBuild (Build v)" by (simp_all add: wf_version_def)
  let ?core = "FormatUint (Patch v) @ (if Pre v = [] then [] else ''-'' @ join ''.'' (map PRVersion_String (Pre v)))"
  have plus: "CHR ''+'' \<notin> set ?core"
    using FormatUint_no [OF not_number(2)] join_no [OF _ parts_no [OF pre not_alphanum(2)], of "''.''"] by simp
  show "cutAt (CHR ''+'') (tail_String v) = (?core, Build v)"
  proof (cases "Build v = []")
    case True
    with cutAt_none [OF plus] show ?thesis by (simp add: tail_String_def)
  next
    case False
    with cutAt_found [OF plus, of "join ''.'' (Build v)"] Split_join [OF False builds_no [OF bld not_alphanum(1)]]
    show ?thesis by (simp add: tail_String_def)
  qed
  show "cutAt (CHR ''-'') ?core = (FormatUint (Patch v), map PRVersion_String (Pre v))"
  proof (cases "Pre v = []")
    case True
    then show ?thesis by (simp add: cutAt_none FormatUint_no not_number)
  next
    case False
    with cutAt_found [OF FormatUint_no [OF not_number(3)], of "Patch v" "join ''.'' (map PRVersion_String (Pre v))"]
      Split_join [OF _ parts_no [OF pre not_alphanum(1)]]
    show ?thesis by simp
  qed
qed

text \<open>What is printed is read back, and only well-formed versions are read.\<close>

lemma Parse_String:
  assumes "wf_version v"
  shows "Parse (Version_String v) = Some v"
proof -
  have "Version_String v \<noteq> []" by (simp add: Version_String_def)
  with assms show ?thesis
    by (simp add: Parse_def SplitN_Version cut_tail parsePrerelease_String wf_version_def)
qed

lemma NewPRVersion_wf: "NewPRVersion s = Some p \<Longrightarrow> wf_part p"
  by (auto simp: NewPRVersion_def wf_part_def split: if_splits)

lemma parsePrerelease_wf: "parsePrerelease s = Some ps \<Longrightarrow> list_all wf_part ps"
  by (induction s arbitrary: ps) (auto simp: NewPRVersion_wf split: option.splits)

lemma Parse_wf: "Parse s = Some v \<Longrightarrow> wf_version v"
  by (auto simp: Parse_def wf_version_def parsePrerelease_wf Let_def split: if_splits option.splits prod.splits)

subsection \<open>The tolerant parser agrees with the strict one on printed versions\<close>

lemma trimZeros_id:
  assumes "hd s \<in> set numbers" and "hd s = CHR ''0'' \<Longrightarrow> tl s = [] \<or> hd (tl s) \<notin> set numbers" and "s \<noteq> []"
  shows "trimZeros s = s"
proof (cases s)
  case (Cons c t)
  show ?thesis
  proof (cases "c = CHR ''0''")
    case True
    show ?thesis
    proof (cases t)
      case (Cons d u)
      with assms True \<open>s = c # t\<close> have "d \<notin> set numbers" by simp
      moreover from this have "d \<noteq> CHR ''0''" by (auto simp: numbers_def)
      ultimately show ?thesis by (simp add: trimZeros_def \<open>s = c # t\<close> Cons True)
    qed (simp add: trimZeros_def \<open>s = c # t\<close>)
  qed (use assms(1) in \<open>simp add: trimZeros_def Cons\<close>)
qed (use assms(3) in simp)

lemma FormatUint_hd: "hd (FormatUint w) \<in> set numbers"
  using digits_show [of "unat w"] by (metis FormatUint_def FormatUint_nonempty list.set_sel(1) subsetD)

lemma FormatUint_zero: "hd (FormatUint w) = CHR ''0'' \<Longrightarrow> tl (FormatUint w) = []"
  using show_nat_canonical [of "unat w"]
  by (cases "FormatUint w") (auto simp: FormatUint_def hasLeadingZeroes_def)

lemma trimZeros_number: "trimZeros (FormatUint w) = FormatUint w"
  by (rule trimZeros_id) (simp_all add: FormatUint_hd FormatUint_zero)

lemma trimZeros_tail: "trimZeros (tail_String v) = tail_String v"
proof (rule trimZeros_id)
  let ?rest = "(if Pre v = [] then [] else ''-'' @ join ''.'' (map PRVersion_String (Pre v)))
     @ (if Build v = [] then [] else ''+'' @ join ''.'' (Build v))"
  have t: "tail_String v = FormatUint (Patch v) @ ?rest" by (simp add: tail_String_def)
  show "hd (tail_String v) \<in> set numbers" by (simp add: t FormatUint_hd)
  show "tail_String v \<noteq> []" by (simp add: t)
  assume "hd (tail_String v) = CHR ''0''"
  then have "tl (FormatUint (Patch v)) = []" using FormatUint_zero [of "Patch v"] by (simp add: t)
  then have "tl (tail_String v) = ?rest" by (simp add: t)
  then show "tl (tail_String v) = [] \<or> hd (tl (tail_String v)) \<notin> set numbers"
    using not_number by simp
qed

lemma no_space:
  "list_all (\<lambda>c. \<not> is_space c) numbers" "list_all (\<lambda>c. \<not> is_space c) alphanum"
  by (simp_all add: is_space_def alphanum_def numbers_def)

lemma no_space_number: "c \<in> set numbers \<Longrightarrow> \<not> is_space c"
  and no_space_alphanum: "c \<in> set alphanum \<Longrightarrow> \<not> is_space c"
  using no_space by (simp_all add: list_all_iff)

lemma set_join: "set (join sep xs) \<subseteq> set sep \<union> \<Union> (set ` set xs)"
  by (induction sep xs rule: join.induct) auto

lemma Version_String_no_space:
  assumes "wf_version v" and c: "c \<in> set (Version_String v)"
  shows "\<not> is_space c"
proof -
  have digits: "set (FormatUint w) \<subseteq> set numbers" for w using digits_show by (simp add: FormatUint_def)
  have "set (join ''.'' (map PRVersion_String (Pre v))) \<subseteq> {CHR ''.''} \<union> set alphanum"
    using set_join [of "''.''" "map PRVersion_String (Pre v)"] assms(1) part_String
    by (fastforce simp: wf_version_def list_all_iff)
  moreover have "set (join ''.'' (Build v)) \<subseteq> {CHR ''.''} \<union> set alphanum"
    using set_join [of "''.''" "Build v"] assms(1)
    by (fastforce simp: wf_version_def list_all_iff validBuild_def containsOnly_def)
  ultimately have "set (Version_String v) \<subseteq> set numbers \<union> set alphanum \<union> {CHR ''.'', CHR ''-'', CHR ''+''}"
    using digits by (auto simp: Version_String_def split: if_splits)
  with c have "c \<in> set numbers \<or> c \<in> set alphanum \<or> c = CHR ''.'' \<or> c = CHR ''-'' \<or> c = CHR ''+''" by blast
  then show ?thesis
    using no_space_number no_space_alphanum by (auto simp: is_space_def)
qed

lemma TrimSpace_none: "\<forall>c\<in>set s. \<not> is_space c \<Longrightarrow> TrimSpace s = s"
proof -
  assume none: "\<forall>c\<in>set s. \<not> is_space c"
  have drop: "\<forall>c\<in>set t. \<not> is_space c \<Longrightarrow> dropWhile is_space t = t" for t by (cases t) auto
  show ?thesis using drop [OF none] drop [of "rev s"] none by (simp add: TrimSpace_def)
qed

lemma Version_String_hd: "hd (Version_String v) \<in> set numbers" "Version_String v \<noteq> []"
  by (simp_all add: Version_String_def FormatUint_hd)

lemma ParseTolerant_String:
  assumes "wf_version v"
  shows "ParseTolerant (Version_String v) = Some v"
proof -
  have trim: "TrimSpace (Version_String v) = Version_String v"
    using TrimSpace_none Version_String_no_space [OF assms] by blast
  have "\<not> has_prefix (Version_String v) ''v''"
    using Version_String_hd [of v] not_number(5) by (cases "Version_String v") (auto simp: has_prefix_def)
  with trim have "ParseTolerant (Version_String v) = Parse (join ''.'' [FormatUint (Major v), FormatUint (Minor v), tail_String v])"
    by (simp add: ParseTolerant_def trim_prefix_def SplitN_Version trimZeros_number trimZeros_tail)
  then show ?thesis using Parse_String [OF assms] by (simp add: Version_String_parts)
qed

subsection \<open>The dots of a printed version\<close>

lemma count_join: "xs \<noteq> [] \<Longrightarrow> \<forall>x\<in>set xs. c \<notin> set x \<Longrightarrow> count_list (join [c] xs) c = length xs - 1"
  by (induction "[c]" xs rule: join.induct) auto

lemma Version_String_dots:
  assumes "wf_version v"
  shows "count_list (Version_String v) (CHR ''.'') = 2 + (length (Pre v) - 1) + (length (Build v) - 1)"
proof -
  from assms have pre: "list_all wf_part (Pre v)" and bld: "list_all validBuild (Build v)" by (simp_all add: wf_version_def)
  have "count_list (FormatUint w) (CHR ''.'') = 0" for w
    using FormatUint_no [OF not_number(1)] by (simp add: count_list_0_iff)
  then show ?thesis
    using count_join [OF _ parts_no [OF pre not_alphanum(1)]] count_join [OF _ builds_no [OF bld not_alphanum(1)]]
    by (auto simp: Version_String_def)
qed

end
