(* ===== verification/CredHub.thy ===== *)
theory CredHub
  imports Deployer Semver
begin

text \<open>
  CredHub: the store on the client of CredHub (\<open>credhub/credhubstore.go\<close>), the references to secrets in
  a manifest (\<open>manifestsecrets/credhub_path_matcher.go\<close>) and the manager that resolves and deletes an
  instance's secrets (\<open>manifestsecrets/manager.go\<close>).

  The client of CredHub is a library; each of its calls is an event with its answer.  A credential's value
  is a JSON value.  \<open>ch_marshal\<close> is \<open>json.Marshal\<close>, \<open>ch_typeName\<close> the rendering \<open>%T\<close>.
\<close>

datatype cevent =
    ChGetById string "gerr + json"
  | ChGetLatestVersion string "gerr + json"
  | ChFindByPartialName string "gerr + string list"
  | ChSetJSON string "(string \<times> json) list" "gerr + unit"
  | ChSetValue string string "gerr + unit"
  | ChAddPermission string string "string list" "gerr + unit"
  | ChDelete string "gerr + unit"

record chenv =
  o_GetById :: "cevent list \<Rightarrow> string \<Rightarrow> gerr + json"
  o_GetLatestVersion :: "cevent list \<Rightarrow> string \<Rightarrow> gerr + json"
  o_FindByPartialName :: "cevent list \<Rightarrow> string \<Rightarrow> gerr + string list"
  o_SetJSON :: "cevent list \<Rightarrow> string \<Rightarrow> (string \<times> json) list \<Rightarrow> gerr + unit"
  o_SetValue :: "cevent list \<Rightarrow> string \<Rightarrow> string \<Rightarrow> gerr + unit"
  o_AddPermission :: "cevent list \<Rightarrow> string \<Rightarrow> string \<Rightarrow> string list \<Rightarrow> gerr + unit"
  o_ChDelete :: "cevent list \<Rightarrow> string \<Rightarrow> gerr + unit"
  ch_marshal :: "json \<Rightarrow> gerr + string"
  ch_typeName :: "json \<Rightarrow> string"

type_synonym 'a store_m = "cevent gstate \<Rightarrow> 'a outcome \<times> cevent gstate"

section \<open>The store\<close>

definition Store_Set :: "chenv \<Rightarrow> string \<Rightarrow> json \<Rightarrow> (gerr + unit) store_m" where
  "Store_Set C key val = (case val of
      JObj kvs \<Rightarrow> ext_call (\<lambda>h. o_SetJSON C h key kvs) (ChSetJSON key kvs)
    | JStr s \<Rightarrow> ext_call (\<lambda>h. o_SetValue C h key s) (ChSetValue key s)
    | _ \<Rightarrow> ret (Inl (ErrorString ''Unknown credential type'')))"

definition Store_AddPermission :: "chenv \<Rightarrow> string \<Rightarrow> string \<Rightarrow> string list \<Rightarrow> (gerr + unit) store_m" where
  "Store_AddPermission C credName actor ops =
     ext_call (\<lambda>h. o_AddPermission C h credName actor ops) (ChAddPermission credName actor ops)"

definition Store_Delete :: "chenv \<Rightarrow> string \<Rightarrow> (gerr + unit) store_m" where
  "Store_Delete C key = ext_call (\<lambda>h. o_ChDelete C h key) (ChDelete key)"

fun BulkDelete :: "chenv \<Rightarrow> string list \<Rightarrow> (gerr + unit) store_m" where
  "BulkDelete C [] = ret (Inr ())"
| "BulkDelete C (path # paths) =
     attempt (Store_Delete C path) (\<lambda>err. ret (Inl err)) (\<lambda>_. BulkDelete C paths)"

fun Store_BulkSet :: "chenv \<Rightarrow> ManifestSecret list \<Rightarrow> (gerr + unit) store_m" where
  "Store_BulkSet C [] = ret (Inr ())"
| "Store_BulkSet C (secret # secrets) =
     attempt (Store_Set C (ms_Path secret) (ms_Value secret)) (\<lambda>err. ret (Inl err)) (\<lambda>_. Store_BulkSet C secrets)"

definition FindNameLike :: "chenv \<Rightarrow> string \<Rightarrow> (gerr + string list) store_m" where
  "FindNameLike C name = ext_call (\<lambda>h. o_FindByPartialName C h name) (ChFindByPartialName name)"

definition getKey :: "chenv \<Rightarrow> json \<Rightarrow> gerr + string" where
  "getKey C requestedValue = (case requestedValue of
      JStr credValue \<Rightarrow> Inr credValue
    | JObj kvs \<Rightarrow> (case ch_marshal C (JObj kvs) of
          Inl err \<Rightarrow> Inl (ErrorString (''failed to marshal secret: '' @ errmsg err))
        | Inr text \<Rightarrow> Inr text)
    | j \<Rightarrow> Inl (ErrorString (''unexpected datatype received from credhub '' @ ch_typeName C j)))"

definition getSubKey :: "chenv \<Rightarrow> json \<Rightarrow> string \<Rightarrow> gerr + string" where
  "getSubKey C credValue subkey = (case credValue of
      JObj kvs \<Rightarrow> (case map_of kvs subkey of
          None \<Rightarrow> Inl (ErrorString (''credential does not contain key '' @ [CHR 0x27] @ subkey @ [CHR 0x27]))
        | Some (JStr jsonStr) \<Rightarrow> Inr jsonStr
        | Some jsonPart \<Rightarrow> ch_marshal C jsonPart)
    | JStr _ \<Rightarrow> Inl (ErrorString (''string type credential cannot have key '' @ [CHR 0x27] @ subkey @ [CHR 0x27]))
    | _ \<Rightarrow> Inl (ErrorString ''unknown credential type''))"

text \<open>\<open>strings.Trim(s, "()")\<close>\<close>

definition trimParens :: "string \<Rightarrow> string" where
  "trimParens s = (let paren = (\<lambda>c. c = CHR ''('' \<or> c = CHR '')'') in rev (dropWhile paren (rev (dropWhile paren s))))"

definition fetchCredential :: "chenv \<Rightarrow> Variable \<Rightarrow> (gerr + json) store_m" where
  "fetchCredential C deploymentVar =
     (if var_ID deploymentVar \<noteq> [] then ext_call (\<lambda>h. o_GetById C h (var_ID deploymentVar)) (ChGetById (var_ID deploymentVar))
      else ext_call (\<lambda>h. o_GetLatestVersion C h (var_Path deploymentVar)) (ChGetLatestVersion (var_Path deploymentVar)))"

definition valueFor :: "chenv \<Rightarrow> string \<Rightarrow> json \<Rightarrow> gerr + string" where
  "valueFor C name cred =
     (let namePieces = Split (CHR ''.'') (trimParens name) in
      if length namePieces = 2 then getSubKey C cred (namePieces ! 1) else getKey C cred)"

text \<open>The loop of \<open>BulkGet\<close> over the map of the secrets to fetch; what cannot be had is logged and left out.\<close>

fun bulkGetLoop :: "chenv \<Rightarrow> (string \<times> Variable) list \<Rightarrow> smap \<Rightarrow> smap store_m" where
  "bulkGetLoop C [] acc = ret acc"
| "bulkGetLoop C ((name, deploymentVar) # rest) acc =
     attempt (fetchCredential C deploymentVar) (\<lambda>err. bulkGetLoop C rest acc) (\<lambda>cred.
       case valueFor C name cred of
         Inl err \<Rightarrow> bulkGetLoop C rest acc
       | Inr keyValue \<Rightarrow> bulkGetLoop C rest (map_set name keyValue acc))"

definition BulkGet :: "chenv \<Rightarrow> (string \<times> Variable) list \<Rightarrow> (gerr + smap) store_m" where
  "BulkGet C secretsToFetch = seq (bulkGetLoop C secretsToFetch []) (\<lambda>result. ret (Inr result))"

section \<open>References in a manifest\<close>

text \<open>The shortest \<open>.*?\<close> before the next \<open>))\<close> of the same line\<close>

fun closing :: "string \<Rightarrow> (string \<times> string) option" where
  "closing [] = None"
| "closing (c # cs) =
     (if has_prefix (c # cs) ''))'' then Some ([], drop 2 (c # cs))
      else if c = CHR 0x0A then None
      else map_option (\<lambda>(body, rest). (c # body, rest)) (closing cs))"

lemma closing_shorter: "closing s = Some (body, rest) \<Longrightarrow> length rest < length s"
  by (induction s arbitrary: body rest) (auto split: if_splits)

text \<open>\<open>FindAllSubmatch\<close> of the pattern \<open>\\(\\(.*?\\)\\)\<close>\<close>

function FindRefs :: "string \<Rightarrow> string list" where
  "FindRefs [] = []"
| "FindRefs (c # cs) =
     (if has_prefix (c # cs) ''(('' then
        (case closing (drop 1 cs) of
           Some (body, rest) \<Rightarrow> (''(('' @ body @ ''))'') # FindRefs rest
         | None \<Rightarrow> FindRefs cs)
      else FindRefs cs)"
  by pat_completeness auto

termination FindRefs
  by (relation "measure length") (auto dest!: closing_shorter)

fun findAbsolutePath :: "string \<Rightarrow> Variable list \<Rightarrow> Variable" where
  "findAbsolutePath name [] = \<lparr>var_Path = name, var_ID = []\<rparr>"
| "findAbsolutePath name (v # vs) = (if var_Path v = name then v else findAbsolutePath name vs)"

fun findRelativePath :: "string \<Rightarrow> Variable list \<Rightarrow> Variable" where
  "findRelativePath name [] = \<lparr>var_Path = name, var_ID = []\<rparr>"
| "findRelativePath name (v # vs) =
     (let namePieces = Split (CHR ''.'') name in
      if has_suffix (var_Path v) (''/'' @ namePieces ! 0) then v else findRelativePath name vs)"

definition variableFor :: "Variable list \<Rightarrow> string \<Rightarrow> Variable" where
  "variableFor deploymentVariables key =
     (let name = trimParens key in
      if has_prefix name ''/'' then findAbsolutePath name deploymentVariables
      else findRelativePath name deploymentVariables)"

definition PathMatcher_Match :: "string \<Rightarrow> Variable list \<Rightarrow> (string \<times> Variable) list" where
  "PathMatcher_Match manifest deploymentVariables =
     foldl (\<lambda>m key. map_set key (variableFor deploymentVariables key) m) [] (FindRefs manifest)"

section \<open>The manager of an instance's secrets\<close>

datatype secretManager = NoopSecretManager | BoshCredHubSecretManager

definition BuildManager :: "bool \<Rightarrow> secretManager" where
  "BuildManager enableSecureManifests = (if \<not> enableSecureManifests then NoopSecretManager else BoshCredHubSecretManager)"

definition ResolveSecrets :: "chenv \<Rightarrow> secretManager \<Rightarrow> string \<Rightarrow> Variable list \<Rightarrow> (gerr + smap) store_m" where
  "ResolveSecrets C r manifest deploymentVariables = (case r of
      NoopSecretManager \<Rightarrow> ret (Inr [])
    | BoshCredHubSecretManager \<Rightarrow> BulkGet C (PathMatcher_Match manifest deploymentVariables))"

definition DeleteSecrets :: "chenv \<Rightarrow> secretManager \<Rightarrow> string \<Rightarrow> (gerr + unit) store_m" where
  "DeleteSecrets C r iid = (case r of
      NoopSecretManager \<Rightarrow> ret (Inr ())
    | BoshCredHubSecretManager \<Rightarrow>
        attempt (FindNameLike C iid) (\<lambda>err. ret (Inl err)) (\<lambda>paths. BulkDelete C paths))"

section \<open>Facts\<close>

text \<open>
  \<open>rendered segs tail\<close>: a manifest with a text before each reference and one after the last.  In its texts and
  names there is no parenthesis, and in its names no line break.
\<close>

definition ref_to :: "string \<Rightarrow> string" where
  "ref_to name = ''(('' @ name @ ''))''"

definition rendered :: "(string \<times> string) list \<Rightarrow> string \<Rightarrow> string" where
  "rendered segs tail = concat (map (\<lambda>(t, name). t @ ref_to name) segs) @ tail"

definition plain_text :: "string \<Rightarrow> bool" where
  "plain_text t \<longleftrightarrow> CHR ''('' \<notin> set t"

definition plain_name :: "string \<Rightarrow> bool" where
  "plain_name n \<longleftrightarrow> n \<noteq> [] \<and> CHR ''('' \<notin> set n \<and> CHR '')'' \<notin> set n \<and> CHR 0x0A \<notin> set n"

lemma closing_name: "CHR '')'' \<notin> set n \<Longrightarrow> CHR 0x0A \<notin> set n \<Longrightarrow> closing (n @ ''))'' @ rest) = Some (n, rest)"
  by (induction n) (auto simp: has_prefix_def)

lemma FindRefs_ref:
  assumes "plain_name n"
  shows "FindRefs (ref_to n @ rest) = ref_to n # FindRefs rest"
  using closing_name [of n rest] assms by (simp add: ref_to_def plain_name_def has_prefix_def)

lemma FindRefs_text: "plain_text t \<Longrightarrow> FindRefs (t @ rest) = FindRefs rest"
  by (induction t) (auto simp: plain_text_def has_prefix_def)

lemma FindRefs_rendered:
  "\<forall>(t, n)\<in>set segs. plain_text t \<and> plain_name n \<Longrightarrow> plain_text tail
   \<Longrightarrow> FindRefs (rendered segs tail) = map (\<lambda>(t, n). ref_to n) segs"
proof (induction segs)
  case Nil
  then show ?case using FindRefs_text [of tail "[]"] by (simp add: rendered_def)
next
  case (Cons seg segs)
  obtain t n where seg: "seg = (t, n)" by force
  have "rendered (seg # segs) tail = t @ ref_to n @ rendered segs tail" by (simp add: rendered_def seg)
  then show ?case using Cons by (simp add: seg FindRefs_text FindRefs_ref)
qed

text \<open>What the matcher returns: the variable of each reference, one entry for each\<close>

lemma matches_map:
  "map_of (foldl (\<lambda>m key. map_set key (f key) m) m keys) = (\<lambda>key. if key \<in> set keys then Some (f key) else map_of m key)"
  by (induction keys arbitrary: m) (auto simp: map_of_map_set fun_eq_iff)

lemma matches_distinct: "distinct (map fst m) \<Longrightarrow> distinct (map fst (foldl (\<lambda>m key. map_set key (f key) m) m keys))"
  by (induction keys arbitrary: m) (simp_all add: distinct_map_set)

lemma PathMatcher_map:
  "map_of (PathMatcher_Match manifest vars) = (\<lambda>key. if key \<in> set (FindRefs manifest) then Some (variableFor vars key) else None)"
  by (simp add: PathMatcher_Match_def matches_map fun_eq_iff)

lemma PathMatcher_distinct: "distinct (map fst (PathMatcher_Match manifest vars))"
  by (simp add: PathMatcher_Match_def matches_distinct)

text \<open>A CredHub that stays as it is while the secrets are read\<close>

definition steady :: "chenv \<Rightarrow> (string \<Rightarrow> gerr + json) \<Rightarrow> (string \<Rightarrow> gerr + json) \<Rightarrow> bool" where
  "steady C byId latest \<longleftrightarrow> (\<forall>h i. o_GetById C h i = byId i) \<and> (\<forall>h n. o_GetLatestVersion C h n = latest n)"

definition storedValue :: "(string \<Rightarrow> gerr + json) \<Rightarrow> (string \<Rightarrow> gerr + json) \<Rightarrow> Variable \<Rightarrow> gerr + json" where
  "storedValue byId latest v = (if var_ID v \<noteq> [] then byId (var_ID v) else latest (var_Path v))"

definition secretValue :: "chenv \<Rightarrow> (string \<Rightarrow> gerr + json) \<Rightarrow> (string \<Rightarrow> gerr + json) \<Rightarrow> string \<Rightarrow> Variable \<Rightarrow> string option" where
  "secretValue C byId latest key v = (case storedValue byId latest v of
      Inl _ \<Rightarrow> None
    | Inr cred \<Rightarrow> (case valueFor C key cred of Inl _ \<Rightarrow> None | Inr x \<Rightarrow> Some x))"

lemma fetch_steady:
  assumes "steady C byId latest"
  shows "\<exists>s'. fetchCredential C v s = (Val (storedValue byId latest v), s')"
  using assms by (simp add: fetchCredential_def steady_def storedValue_def run)

lemma bulkGet_steady:
  assumes "steady C byId latest" and "distinct (map fst secrets)"
  shows "\<exists>m s'. bulkGetLoop C secrets acc s = (Val m, s') \<and> map_of m = (\<lambda>key. case map_of secrets key of
      Some v \<Rightarrow> (case secretValue C byId latest key v of Some x \<Rightarrow> Some x | None \<Rightarrow> map_of acc key) | None \<Rightarrow> map_of acc key)"
  using assms(2)
proof (induction secrets arbitrary: acc s)
  case (Cons kv secrets)
  obtain k v where kv: "kv = (k, v)" by force
  obtain s1 where fetch: "fetchCredential C v s = (Val (storedValue byId latest v), s1)"
    using fetch_steady [OF assms(1)] by blast
  let ?acc = "case secretValue C byId latest k v of Some x \<Rightarrow> map_set k x acc | None \<Rightarrow> acc"
  have step: "bulkGetLoop C (kv # secrets) acc s = bulkGetLoop C secrets ?acc s1"
    using fetch by (simp add: kv run secretValue_def split: sum.splits)
  have new: "map_of secrets k = None" using Cons.prems by (simp add: kv map_of_eq_None_iff)
  from Cons.prems have "distinct (map fst secrets)" by simp
  from Cons.IH [OF this, of ?acc s1] obtain m s' where m: "bulkGetLoop C secrets ?acc s1 = (Val m, s')"
    "map_of m = (\<lambda>key. case map_of secrets key of
      Some v \<Rightarrow> (case secretValue C byId latest key v of Some x \<Rightarrow> Some x | None \<Rightarrow> map_of ?acc key) | None \<Rightarrow> map_of ?acc key)"
    by blast
  have "map_of ?acc key = (if key = k then (case secretValue C byId latest k v of Some x \<Rightarrow> Some x | None \<Rightarrow> map_of acc key)
      else map_of acc key)" for key
    by (simp add: map_of_map_set split: option.splits)
  then have "map_of m = (\<lambda>key. case map_of (kv # secrets) key of
      Some v \<Rightarrow> (case secretValue C byId latest key v of Some x \<Rightarrow> Some x | None \<Rightarrow> map_of acc key) | None \<Rightarrow> map_of acc key)"
    using new by (auto simp: m(2) kv fun_eq_iff split: option.splits)
  with step m(1) show ?case by auto
qed (simp add: run)

text \<open>
  What a reference means, without the code: the variable that a name stands for, and the text that a credential gives for a
  name.  An absolute name stands for the first variable of that very path; any other for the first variable whose path ends
  with a slash and the name up to its first dot.  A name that fits none stands for itself, without a version.
\<close>

definition fits :: "string \<Rightarrow> Variable \<Rightarrow> bool" where
  "fits n v \<longleftrightarrow> (if hd n = CHR ''/'' then var_Path v = n
     else \<exists>dir. var_Path v = dir @ ''/'' @ takeWhile (\<lambda>c. c \<noteq> CHR ''.'') n)"

definition stands_for :: "Variable list \<Rightarrow> string \<Rightarrow> Variable \<Rightarrow> bool" where
  "stands_for vars n v \<longleftrightarrow>
     (\<exists>before after. vars = before @ v # after \<and> fits n v \<and> (\<forall>w\<in>set before. \<not> fits n w))
     \<or> (\<forall>w\<in>set vars. \<not> fits n w) \<and> v = \<lparr>var_Path = n, var_ID = []\<rparr>"

text \<open>With one dot in the name it is the part of the credential after the dot, else all of it.\<close>

definition secret_text :: "chenv \<Rightarrow> string \<Rightarrow> json \<Rightarrow> string \<Rightarrow> bool" where
  "secret_text C n cred x \<longleftrightarrow>
     (if count_list n (CHR ''.'') = 1
      then \<exists>base part kvs val. n = base @ ''.'' @ part \<and> cred = JObj kvs \<and> map_of kvs part = Some val
             \<and> (val = JStr x \<or> (\<nexists>t. val = JStr t) \<and> ch_marshal C val = Inr x)
      else cred = JStr x \<or> (\<exists>kvs. cred = JObj kvs \<and> ch_marshal C cred = Inr x))"

lemma stands_for_Nil: "stands_for [] n v \<longleftrightarrow> v = \<lparr>var_Path = n, var_ID = []\<rparr>"
  by (simp add: stands_for_def)

lemma stands_for_Cons: "stands_for (w # vars) n v \<longleftrightarrow> (if fits n w then v = w else stands_for vars n v)"
proof -
  have first: "(\<exists>before after. w # vars = before @ v # after \<and> fits n v \<and> (\<forall>u\<in>set before. \<not> fits n u)) \<longleftrightarrow>
      (if fits n w then v = w else \<exists>before after. vars = before @ v # after \<and> fits n v \<and> (\<forall>u\<in>set before. \<not> fits n u))"
    (is "?l \<longleftrightarrow> ?r")
  proof
    assume ?l
    then obtain before after where "w # vars = before @ v # after" "fits n v" "\<forall>u\<in>set before. \<not> fits n u" by blast
    then show ?r by (cases before) auto
  next
    assume r: ?r
    show ?l
    proof (cases "fits n w")
      case True
      with r show ?thesis by (intro exI [of _ "[]", OF exI [of _ vars]]) simp
    next
      case False
      with r obtain before after where "vars = before @ v # after" "fits n v" "\<forall>u\<in>set before. \<not> fits n u" by auto
      with False show ?thesis by (intro exI [of _ "w # before", OF exI [of _ after]]) simp
    qed
  qed
  show ?thesis unfolding stands_for_def first by auto
qed

lemma Split_first: "Split sep s ! 0 = takeWhile (\<lambda>c. c \<noteq> sep) s"
proof (cases "sep \<in> set s")
  case True
  then obtain a b where s: "s = a @ sep # b" "sep \<notin> set a" by (meson split_list_first)
  then have "takeWhile (\<lambda>c. c \<noteq> sep) s = a" by (auto simp: takeWhile_append)
  with s show ?thesis by (simp add: Split_append)
next
  case False
  from False have "\<forall>c\<in>set s. c \<noteq> sep" by auto
  then have "takeWhile (\<lambda>c. c \<noteq> sep) s = s" by (rule takeWhile_eq_all_conv [THEN iffD2])
  then show ?thesis by (subst Split_none [OF False]) (simp only: nth_Cons_0)
qed

lemma suffix_exists: "has_suffix s t \<longleftrightarrow> (\<exists>dir. s = dir @ t)"
proof
  assume "has_suffix s t"
  then have "rev s = rev t @ drop (length t) (rev s)"
    by (simp add: has_suffix_def has_prefix_def) (metis append_take_drop_id length_rev)
  then have "s = rev (drop (length t) (rev s)) @ t" by (metis rev_append rev_rev_ident)
  then show "\<exists>dir. s = dir @ t" ..
qed (auto simp: has_suffix_def has_prefix_def)

lemma trimParens_ref:
  assumes "plain_name n"
  shows "trimParens (ref_to n) = n"
proof -
  let ?paren = "\<lambda>c. c = CHR ''('' \<or> c = CHR '')''"
  have n: "n \<noteq> []" "\<not> ?paren (hd n)" "\<not> ?paren (last n)"
    using assms by (auto simp: plain_name_def dest: hd_in_set last_in_set)
  have keep: "xs \<noteq> [] \<Longrightarrow> \<not> P (hd xs) \<Longrightarrow> dropWhile P (xs @ ys) = xs @ ys" for P xs and ys :: string
    by (cases xs) auto
  have "dropWhile ?paren (ref_to n) = n @ ''))''"
    using keep [of n ?paren "''))''"] n by (simp add: ref_to_def)
  moreover have "dropWhile ?paren (rev (n @ ''))'')) = rev n"
    using keep [of "rev n" ?paren "[]"] n by (simp add: hd_rev)
  ultimately show ?thesis by (simp add: trimParens_def Let_def)
qed

lemma variableFor_stands:
  assumes "plain_name n"
  shows "variableFor vars (ref_to n) = v \<longleftrightarrow> stands_for vars n v"
proof -
  have absolute: "has_prefix n ''/'' \<longleftrightarrow> hd n = CHR ''/''"
    using assms by (cases n) (auto simp: has_prefix_def plain_name_def)
  have "findAbsolutePath n vars = v \<longleftrightarrow> stands_for vars n v" if "hd n = CHR ''/''"
    using that by (induction vars) (auto simp: stands_for_Nil stands_for_Cons fits_def)
  moreover have "findRelativePath n vars = v \<longleftrightarrow> stands_for vars n v" if "hd n \<noteq> CHR ''/''"
    using that by (induction vars) (auto simp: stands_for_Nil stands_for_Cons fits_def Split_first suffix_exists)
  ultimately show ?thesis by (simp add: variableFor_def trimParens_ref [OF assms] absolute)
qed

lemma valueFor_text:
  assumes "plain_name n"
  shows "valueFor C (ref_to n) cred = Inr x \<longleftrightarrow> secret_text C n cred x"
proof (cases "count_list n (CHR ''.'') = 1")
  case True
  then have "CHR ''.'' \<in> set n" using count_notin [of "CHR ''.''" n] by auto
  then obtain base part where n: "n = base @ CHR ''.'' # part" "CHR ''.'' \<notin> set base" by (meson split_list_first)
  with True have part: "CHR ''.'' \<notin> set part" by (simp add: count_list_0_iff)
  have "Split (CHR ''.'') n = [base, part]" using n part by (simp add: Split_append Split_none)
  then have split: "valueFor C (ref_to n) cred = getSubKey C cred part"
    by (simp add: valueFor_def trimParens_ref [OF assms])
  have "base' = base \<and> part' = part" if "n = base' @ CHR ''.'' # part'" for base' part'
  proof -
    from that True have "CHR ''.'' \<notin> set base'" by (simp add: count_list_0_iff)
    then have "Split (CHR ''.'') n ! 0 = base'" using that by (simp add: Split_append)
    moreover have "Split (CHR ''.'') n ! 0 = base" using n by (simp add: Split_append)
    ultimately show ?thesis using that n(1) by simp
  qed
  then have "secret_text C n cred x \<longleftrightarrow> (\<exists>kvs val. cred = JObj kvs \<and> map_of kvs part = Some val
      \<and> (val = JStr x \<or> (\<nexists>t. val = JStr t) \<and> ch_marshal C val = Inr x))"
    unfolding secret_text_def using True n(1) by (simp, blast)
  moreover have "getSubKey C cred part = Inr x \<longleftrightarrow> (\<exists>kvs val. cred = JObj kvs \<and> map_of kvs part = Some val
      \<and> (val = JStr x \<or> (\<nexists>t. val = JStr t) \<and> ch_marshal C val = Inr x))"
  proof (cases "\<exists>kvs val. cred = JObj kvs \<and> map_of kvs part = Some val")
    case True
    then obtain kvs val where "cred = JObj kvs" "map_of kvs part = Some val" by blast
    then show ?thesis by (cases val) (simp_all add: getSubKey_def)
  qed (auto simp: getSubKey_def split: json.splits option.splits)
  ultimately show ?thesis using split by simp
next
  case False
  then have "length (Split (CHR ''.'') n) \<noteq> 2" by (simp add: Split_length)
  then show ?thesis using False
    by (auto simp: valueFor_def trimParens_ref [OF assms] secret_text_def getKey_def split: json.splits sum.splits)
qed

lemma ref_to_inject: "ref_to n = ref_to n' \<longleftrightarrow> n = n'"
  by (simp add: ref_to_def)

text \<open>
  C25.  Resolving the secrets of a manifest never fails, and what it gives is exactly this: a reference \<open>((n))\<close> of the
  manifest has the text that CredHub's credential for the variable of \<open>n\<close> gives for \<open>n\<close>, where the credential is the
  variable's version or, without one, the latest under its name; a reference whose credential is missing or gives no text
  has none, and nothing else has one.  What a name stands for is \<open>stands_for\<close>, what a credential gives is \<open>secret_text\<close>: all
  of a string or of a document, or the part after the name's only dot.  This is for a CredHub whose contents stay as they are
  while the secrets are read, for a manifest whose texts between the references have no opening parenthesis and for names that
  are not empty and have no parenthesis and no line break.
\<close>

theorem secrets_resolved:
  assumes "steady C byId latest" and "\<forall>(t, n)\<in>set segs. plain_text t \<and> plain_name n" and "plain_text tail"
  shows "\<exists>m s'. ResolveSecrets C (BuildManager True) (rendered segs tail) vars s = (Val (Inr m), s')
    \<and> (\<forall>key x. map_of m key = Some x \<longleftrightarrow> (\<exists>t n v cred. (t, n) \<in> set segs \<and> key = ref_to n \<and> stands_for vars n v
         \<and> (if var_ID v \<noteq> [] then byId (var_ID v) else latest (var_Path v)) = Inr cred \<and> secret_text C n cred x))"
proof -
  let ?match = "PathMatcher_Match (rendered segs tail) vars"
  have keys: "set (FindRefs (rendered segs tail)) = (\<lambda>(t, n). ref_to n) ` set segs"
    using FindRefs_rendered [OF assms(2,3)] by simp
  obtain m s' where run: "bulkGetLoop C ?match [] s = (Val m, s')" and "map_of m = (\<lambda>key. case map_of ?match key of
      Some v \<Rightarrow> (case secretValue C byId latest key v of Some x \<Rightarrow> Some x | None \<Rightarrow> map_of [] key) | None \<Rightarrow> map_of [] key)"
    using bulkGet_steady [OF assms(1) PathMatcher_distinct] by blast
  then have m: "map_of m key = (if key \<in> (\<lambda>(t, n). ref_to n) ` set segs then secretValue C byId latest key (variableFor vars key) else None)" for key
    by (simp add: PathMatcher_map keys split: option.splits)
  have "map_of m key = Some x \<longleftrightarrow> (\<exists>t n v cred. (t, n) \<in> set segs \<and> key = ref_to n \<and> stands_for vars n v
      \<and> storedValue byId latest v = Inr cred \<and> secret_text C n cred x)" (is "_ \<longleftrightarrow> ?has key x") for key x
  proof (cases "key \<in> (\<lambda>(t, n). ref_to n) ` set segs")
    case True
    then obtain t n where n: "(t, n) \<in> set segs" "key = ref_to n" by auto
    with assms(2) have plain: "plain_name n" by auto
    have "?has key x \<longleftrightarrow> (\<exists>cred. storedValue byId latest (variableFor vars key) = Inr cred \<and> valueFor C key cred = Inr x)"
      using n by (auto simp: ref_to_inject variableFor_stands [OF plain, of vars, symmetric] valueFor_text [OF plain, of C, symmetric])
    with True show ?thesis by (auto simp: m secretValue_def split: sum.splits)
  qed (auto simp: m)
  with run show ?thesis
    by (simp add: ResolveSecrets_def BuildManager_def BulkGet_def Prelude.run storedValue_def)
qed

text \<open>A sub-key is not looked for below an absolute name, though it is below a relative one.\<close>

lemma absolute_subkey:
  "variableFor [\<lparr>var_Path = ''/d/ca'', var_ID = ''1''\<rparr>] ''((/d/ca.private_key))'' = \<lparr>var_Path = ''/d/ca.private_key'', var_ID = []\<rparr>
   \<and> variableFor [\<lparr>var_Path = ''/d/ca'', var_ID = ''1''\<rparr>] ''((ca.private_key))'' = \<lparr>var_Path = ''/d/ca'', var_ID = ''1''\<rparr>"
  by code_simp

section \<open>Deleting an instance's secrets\<close>

text \<open>The deletions of \<open>paths\<close>, up to the first that fails\<close>

definition deletions :: "string list \<Rightarrow> (gerr + unit) outcome \<Rightarrow> cevent list \<Rightarrow> bool" where
  "deletions paths r tr \<longleftrightarrow>
     (r = Val (Inr ()) \<and> tr = map (\<lambda>p. ChDelete p (Inr ())) paths)
   \<or> (\<exists>ok p rest e. paths = ok @ p # rest \<and> r = Val (Inl e)
        \<and> tr = map (\<lambda>p. ChDelete p (Inr ())) ok @ [ChDelete p (Inl e)])"

lemma deletions_Cons_ok: "deletions paths r d \<Longrightarrow> deletions (p # paths) r (ChDelete p (Inr ()) # d)"
  unfolding deletions_def
proof (elim disjE exE)
  fix ok q rest e
  assume "paths = ok @ q # rest \<and> r = Val (Inl e) \<and> d = map (\<lambda>p. ChDelete p (Inr ())) ok @ [ChDelete q (Inl e)]"
  then show "r = Val (Inr ()) \<and> ChDelete p (Inr ()) # d = map (\<lambda>p. ChDelete p (Inr ())) (p # paths)
    \<or> (\<exists>ok q rest e. p # paths = ok @ q # rest \<and> r = Val (Inl e)
        \<and> ChDelete p (Inr ()) # d = map (\<lambda>p. ChDelete p (Inr ())) ok @ [ChDelete q (Inl e)])"
    by (intro disjI2 exI [of _ "p # ok"] exI [of _ q] exI [of _ rest] exI [of _ e]) simp
qed simp

lemma deletions_Cons_error: "deletions (p # paths) (Val (Inl e)) [ChDelete p (Inl e)]"
  unfolding deletions_def by (rule disjI2) (auto intro!: exI [of _ "[]"])

lemma BulkDelete_spec: "ensures (deletions paths) [] (BulkDelete C paths)"
proof (induction paths)
  case (Cons p paths)
  then show ?case
    unfolding BulkDelete.simps Store_Delete_def
    by (auto intro!: ens ens_sub [OF Cons] deletions_Cons_ok deletions_Cons_error)
qed (auto intro!: ens simp: deletions_def)

text \<open>
  Deleting an instance's secrets deletes the credentials that CredHub names for the instance, and nothing
  else, in its order and each once; success means that all of them were deleted, and the first deletion that fails
  is the last one tried.
\<close>

theorem secrets_deleted:
  "ensures (\<lambda>r tr. (\<exists>e. r = Val (Inl e) \<and> tr = [ChFindByPartialName iid (Inl e)])
      \<or> (\<exists>paths dels. tr = ChFindByPartialName iid (Inr paths) # dels \<and> deletions paths r dels))
    [] (DeleteSecrets C (BuildManager True) iid)"
  unfolding DeleteSecrets_def BuildManager_def FindNameLike_def
  by (auto intro!: ens ens_sub [OF BulkDelete_spec])

section \<open>A sample\<close>

text \<open>One credential with parts under its version, one password under its name\<close>

definition sampleById :: "string \<Rightarrow> gerr + json" where
  "sampleById i = (if i = ''1'' then Inr (JObj [(''private_key'', JStr ''pk'')]) else Inl (ErrorString ''missing''))"

definition sampleLatest :: "string \<Rightarrow> gerr + json" where
  "sampleLatest n = (if n = ''/p'' then Inr (JStr ''pw'') else Inl (ErrorString ''missing''))"

definition sample_credhub :: chenv where
  "sample_credhub = \<lparr>o_GetById = \<lambda>h. sampleById, o_GetLatestVersion = \<lambda>h. sampleLatest, o_FindByPartialName = \<lambda>h n. Inr [],
     o_SetJSON = \<lambda>h k v. Inr (), o_SetValue = \<lambda>h k v. Inr (), o_AddPermission = \<lambda>h c a ops. Inr (), o_ChDelete = \<lambda>h k. Inr (),
     ch_marshal = \<lambda>j. Inr [], ch_typeName = \<lambda>j. []\<rparr>"

definition sample_segments :: "(string \<times> string) list" where
  "sample_segments = [(''name: '', ''/p''), (''key: '', ''ca.private_key''), (''none: '', ''/q'')]"

theorem secrets_resolved_witness:
  "\<exists>m s'. ResolveSecrets sample_credhub (BuildManager True) (rendered sample_segments [])
       [\<lparr>var_Path = ''/d/ca'', var_ID = ''1''\<rparr>] \<lparr>hist = []\<rparr> = (Val (Inr m), s')
     \<and> map_of m ''((/p))'' = Some ''pw'' \<and> map_of m ''((ca.private_key))'' = Some ''pk'' \<and> map_of m ''((/q))'' = None"
proof -
  let ?vars = "[\<lparr>var_Path = ''/d/ca'', var_ID = ''1''\<rparr>]"
  have "steady sample_credhub sampleById sampleLatest" by (simp add: steady_def sample_credhub_def)
  moreover have "\<forall>(t, n)\<in>set sample_segments. plain_text t \<and> plain_name n"
    by (simp add: sample_segments_def plain_text_def plain_name_def)
  moreover have "plain_text []" by (simp add: plain_text_def)
  ultimately obtain m s' where result: "ResolveSecrets sample_credhub (BuildManager True) (rendered sample_segments []) ?vars \<lparr>hist = []\<rparr> = (Val (Inr m), s')"
    and m: "\<forall>key x. map_of m key = Some x \<longleftrightarrow> (\<exists>t n v cred. (t, n) \<in> set sample_segments \<and> key = ref_to n \<and> stands_for ?vars n v
         \<and> (if var_ID v \<noteq> [] then sampleById (var_ID v) else sampleLatest (var_Path v)) = Inr cred \<and> secret_text sample_credhub n cred x)"
    using secrets_resolved [of sample_credhub sampleById sampleLatest sample_segments "[]" ?vars "\<lparr>hist = []\<rparr>"] by blast
  have "stands_for ?vars ''/p'' v \<longleftrightarrow> v = \<lparr>var_Path = ''/p'', var_ID = []\<rparr>" "stands_for ?vars ''/q'' v \<longleftrightarrow> v = \<lparr>var_Path = ''/q'', var_ID = []\<rparr>"
    "stands_for ?vars ''ca.private_key'' v \<longleftrightarrow> v = \<lparr>var_Path = ''/d/ca'', var_ID = ''1''\<rparr>" for v
    by (auto simp: stands_for_Cons stands_for_Nil fits_def intro: exI [of _ "''/d''"])
  note stands = this
  have "map_of m ''((/p))'' = Some ''pw''" unfolding m [rule_format]
    by (intro exI [of _ "''name: ''"] exI [of _ "''/p''"])
      (simp add: stands sample_segments_def ref_to_def sampleLatest_def secret_text_def)
  moreover have "map_of m ''((ca.private_key))'' = Some ''pk''" unfolding m [rule_format]
    by (intro exI [of _ "''key: ''"] exI [of _ "''ca.private_key''"])
      (simp add: stands sample_segments_def ref_to_def sampleById_def secret_text_def exI [of _ "''ca''"])
  moreover have "map_of m ''((/q))'' \<noteq> Some x" for x unfolding m [rule_format]
    by (auto simp: stands sample_segments_def ref_to_def sampleLatest_def)
  ultimately show ?thesis using result by blast
qed

end
