(* ===== verification/Binding.thy ===== *)
theory Binding
  imports Catalog
begin

text \<open>
  \<open>broker/bind.go\<close> and \<open>broker/unbind.go\<close>: bindings of an instance.  Both handlers run under the
  bind lock, read the deployment, resolve its secrets as far as possible and leave the binding
  itself to the service adapter.
\<close>

section \<open>Shared steps\<close>

definition requestIDFor :: "context_info \<Rightarrow> string \<Rightarrow> string" where
  "requestIDFor ctx0 fresh = (if 0 < length (ctx_reqID ctx0) then ctx_reqID ctx0 else fresh)"

text \<open>Failures to get variables or to resolve secrets are only logged.\<close>

definition resolveSecrets :: "env \<Rightarrow> string \<Rightarrow> string \<Rightarrow> smap broker_m" where
  "resolveSecrets E iid manifest =
     seq (bosh_Variables E (deploymentName iid)) (\<lambda>(deploymentVariables, _).
     seq (secrets_Resolve E manifest deploymentVariables) (\<lambda>(secretsMap, _).
     ret secretsMap))"

definition createdBinding :: "Broker \<Rightarrow> context_info \<Rightarrow> gerr + 'a \<Rightarrow> gerr + 'a" where
  "createdBinding b ctx r = (case r of
      Inl err \<Rightarrow> Inl (b_processError b (adapterToAPIError ctx err)) | Inr binding \<Rightarrow> Inr binding)"

section \<open>Bind\<close>

definition unsupportedBackupAgent :: gerr where
  "unsupportedBackupAgent = FailureResponse ''service does not support backup agent binding'' 422
     ''unsupported-binding-type'' False ''''"

definition bindCheckSchema ::
  "Broker \<Rightarrow> env \<Rightarrow> context_info \<Rightarrow> BindDetails \<Rightarrow> (string \<times> json) list \<Rightarrow> (gerr + unit) broker_m" where
  "bindCheckSchema b E ctx details mappedParams =
     (let (plan, planFound) = FindPlanByID (b_serviceOffering b) (bd_PlanID details) in
      if EnablePlanSchemas b then
        if \<not> planFound then b_fail b (DisplayableError (ErrorString (''plan '' @ bd_PlanID details @ '' not found''))
             (ErrorString (''finding plan ID '' @ bd_PlanID details)))
        else
          attempt (adapterPlanSchemas b E plan) (\<lambda>err. b_fail b err) (\<lambda>schemas.
          (case map_of mappedParams ''parameters'' of
             Some (JObj params) \<Rightarrow>
               (case fst (ValidateParams E (NewValidator (schema_BindingCreate schemas)) params) of
                  Some err \<Rightarrow> b_fail b (paramsValidationFailed err)
                | None \<Rightarrow> ret (Inr ()))
           | _ \<Rightarrow> b_fail b (NewGenericError ctx (ErrorString ''converting parameters to map failed''))))
      else ret (Inr ()))"

definition bindLocked ::
  "Broker \<Rightarrow> env \<Rightarrow> context_info \<Rightarrow> string \<Rightarrow> string \<Rightarrow> BindDetails \<Rightarrow> (gerr + Binding) broker_m" where
  "bindLocked b E ctx0 iid bindingID details =
     seq (uuid_New E) (\<lambda>fresh.
     let ctx = brokercontext_New ctx0 (operationTypeString OperationTypeBind) (requestIDFor ctx0 fresh) (off_Name (b_serviceOffering b)) iid in
     (case bd_BindResource details of
        None \<Rightarrow> gopanic ''runtime error: invalid memory address or nil pointer dereference''
      | Some bindResource \<Rightarrow>
     if br_BackupAgent bindResource \<and> \<not> SupportBackupAgentBinding b then b_fail b unsupportedBackupAgent
     else
     attempt (getDeploymentInfo E iid ctx ''bind'') (\<lambda>err. b_fail b err) (\<lambda>(manifest, vms).
     seq (resolveSecrets E iid manifest) (\<lambda>secretsMap.
     (case convertDetailsToMap (bd_RawParameters details) (bindDetailsMap details) of
        Inl err \<Rightarrow> b_fail b (NewGenericError ctx (errorf ''converting to map '' err))
      | Inr mappedParams \<Rightarrow>
     attempt (bindCheckSchema b E ctx details mappedParams) (\<lambda>err. ret (Inl err)) (\<lambda>_.
     (let plan = fst (FindPlanByID (b_serviceOffering b) (bd_PlanID details)) in
     attempt (bosh_GetDNSAddresses E (deploymentName iid) (plan_BindingWithDNS plan))
       (\<lambda>err. b_fail b (NewGenericError ctx (errorf ''failed to get required DNS info: '' err))) (\<lambda>dnsAddresses.
     seq (adapter_CreateBinding E bindingID vms manifest mappedParams secretsMap dnsAddresses) (\<lambda>r.
     ret (createdBinding b ctx r))))))))))"

definition Bind ::
  "Broker \<Rightarrow> env \<Rightarrow> context_info \<Rightarrow> string \<Rightarrow> string \<Rightarrow> BindDetails \<Rightarrow> (gerr + Binding) broker_m" where
  "Bind b E ctx0 iid bindingID details =
     with_lock LockBind UnlockBind (bindLocked b E ctx0 iid bindingID details)"

section \<open>Unbind\<close>

text \<open>\<open>%q\<close> of an identifier without characters that need escaping\<close>

definition quoted :: "string \<Rightarrow> string" where
  "quoted s = [CHR 0x22] @ s @ [CHR 0x22]"

definition unbindLocked ::
  "Broker \<Rightarrow> env \<Rightarrow> context_info \<Rightarrow> string \<Rightarrow> string \<Rightarrow> UnbindDetails \<Rightarrow> (gerr + unit) broker_m" where
  "unbindLocked b E ctx0 iid bindingID details =
     seq (uuid_New E) (\<lambda>fresh.
     let ctx = brokercontext_New ctx0 (operationTypeString OperationTypeUnbind) (requestIDFor ctx0 fresh) (off_Name (b_serviceOffering b)) iid in
     attempt (getDeploymentInfo E iid ctx ''unbind'') (\<lambda>err. b_fail b err) (\<lambda>(manifest, vms).
     let requestParams = [(''plan_id'', JStr (ubd_PlanID details)), (''service_id'', JStr (ubd_ServiceID details))] in
     seq (resolveSecrets E iid manifest) (\<lambda>secretsMap.
     (case FindPlanByID (b_serviceOffering b) (ubd_PlanID details) of
        (_, False) \<Rightarrow> b_fail b (DisplayableError (ErrorString (''plan '' @ quoted (ubd_PlanID details) @ '' not found''))
            (ErrorString (''finding plan ID '' @ quoted (ubd_PlanID details))))
      | (plan, True) \<Rightarrow>
     attempt (bosh_GetDNSAddresses E (deploymentName iid) (plan_BindingWithDNS plan))
       (\<lambda>err. b_fail b (NewGenericError ctx (errorf ''failed to get required DNS info: '' err))) (\<lambda>dnsAddresses.
     seq (adapter_DeleteBinding E bindingID vms manifest requestParams secretsMap dnsAddresses) (\<lambda>r.
     ret (createdBinding b ctx r)))))))"

definition Unbind ::
  "Broker \<Rightarrow> env \<Rightarrow> context_info \<Rightarrow> string \<Rightarrow> string \<Rightarrow> UnbindDetails \<Rightarrow> (gerr + unit) broker_m" where
  "Unbind b E ctx0 iid bindingID details =
     with_lock LockBind UnlockBind (unbindLocked b E ctx0 iid bindingID details)"

section \<open>What the handlers promise\<close>

definition topology_read :: "string \<Rightarrow> string \<Rightarrow> json \<Rightarrow> history \<Rightarrow> bool" where
  "topology_read iid manifest vms tr \<longleftrightarrow>
     BoshGetDeployment (deploymentName iid) (Inr (manifest, True)) \<in> set tr
     \<and> BoshVMs (deploymentName iid) (Inr vms) \<in> set tr"

text \<open>Calls that prepare a binding: nothing changes\<close>

definition reads_only :: "history \<Rightarrow> bool" where
  "reads_only tr \<longleftrightarrow> list_all (\<lambda>e. \<not> changes_world e \<and> e \<noteq> LockDeployment \<and> e \<noteq> UnlockDeployment
     \<and> e \<noteq> LockBind \<and> e \<noteq> UnlockBind) tr"

lemma reads_only_simps [simp]:
  "reads_only []" "reads_only (xs @ ys) \<longleftrightarrow> reads_only xs \<and> reads_only ys"
  "reads_only (e # t) \<longleftrightarrow> \<not> changes_world e \<and> e \<noteq> LockDeployment \<and> e \<noteq> UnlockDeployment
     \<and> e \<noteq> LockBind \<and> e \<noteq> UnlockBind \<and> reads_only t"
  by (simp_all add: reads_only_def)

text \<open>
  A run of Bind: the bind lock around everything; either the adapter is never asked, or it is
  asked last and once, with the manifest and the machines BOSH reported in this request, and its
  answer decides the result.  The lookup of the DNS addresses that the plan's bindings have comes just before it.
\<close>

definition dns_lookup :: "Broker \<Rightarrow> string \<Rightarrow> string \<Rightarrow> gerr + smap \<Rightarrow> event" where
  "dns_lookup b iid planID = BoshGetDNSAddresses (deploymentName iid) (plan_BindingWithDNS (fst (FindPlanByID (b_serviceOffering b) planID)))"

definition bind_contract ::
  "Broker \<Rightarrow> string \<Rightarrow> string \<Rightarrow> BindDetails \<Rightarrow> (gerr + Binding) outcome \<Rightarrow> history \<Rightarrow> bool" where
  "bind_contract b iid bindingID details r tr \<longleftrightarrow> (\<exists>pre. reads_only pre \<and>
     (tr = LockBind # pre @ [UnlockBind]
        \<and> (case r of Val (Inl _) \<Rightarrow> True | Panic _ \<Rightarrow> bd_BindResource details = None | _ \<Rightarrow> False)
      \<or> (\<exists>e err. tr = LockBind # pre @ [dns_lookup b iid (bd_PlanID details) (Inl e), UnlockBind] \<and> r = Val (Inl err))
      \<or> (\<exists>vms manifest params secrets dns q ctx.
           tr = LockBind # pre @ [dns_lookup b iid (bd_PlanID details) (Inr dns),
             AdapterCreateBinding bindingID vms manifest params secrets dns q, UnlockBind]
           \<and> topology_read iid manifest vms pre \<and> r = Val (createdBinding b ctx q))))"

definition unbind_contract ::
  "Broker \<Rightarrow> string \<Rightarrow> string \<Rightarrow> UnbindDetails \<Rightarrow> (gerr + unit) outcome \<Rightarrow> history \<Rightarrow> bool" where
  "unbind_contract b iid bindingID details r tr \<longleftrightarrow> (\<exists>pre. reads_only pre \<and>
     (tr = LockBind # pre @ [UnlockBind] \<and> (\<exists>e. r = Val (Inl e))
      \<or> (\<exists>e err. tr = LockBind # pre @ [dns_lookup b iid (ubd_PlanID details) (Inl e), UnlockBind] \<and> r = Val (Inl err))
      \<or> (\<exists>vms manifest params secrets dns q ctx.
           tr = LockBind # pre @ [dns_lookup b iid (ubd_PlanID details) (Inr dns),
             AdapterDeleteBinding bindingID vms manifest params secrets dns q, UnlockBind]
           \<and> topology_read iid manifest vms pre \<and> r = Val (createdBinding b ctx q)
           \<and> snd (FindPlanByID (b_serviceOffering b) (ubd_PlanID details)))))"

lemma getDeploymentInfo_spec:
  "ensures (\<lambda>r tr. reads_only tr \<and> ((\<exists>e. r = Val (Inl e))
      \<or> (\<exists>manifest vms. r = Val (Inr (manifest, vms)) \<and> topology_read iid manifest vms tr)))
    [] (getDeploymentInfo E iid ctx verb)"
  unfolding getDeploymentInfo_def client_defs by (auto intro!: ens simp: topology_read_def)

lemma resolveSecrets_spec: "ensures (\<lambda>r tr. reads_only tr \<and> (\<exists>m. r = Val m)) [] (resolveSecrets E iid m)"
  unfolding resolveSecrets_def client_defs by (auto intro!: ens)

lemma bindCheckSchema_spec:
  "ensures (\<lambda>r tr. reads_only tr \<and> (\<exists>x. r = Val x)) [] (bindCheckSchema b E ctx details params)"
proof -
  have ask: "ensures (\<lambda>r tr. reads_only tr \<and> (\<exists>x. r = Val x)) [] (adapterPlanSchemas b E plan)" for plan
    unfolding adapterPlanSchemas_def client_defs by (auto intro!: ens split: gerr.splits)
  show ?thesis
    unfolding bindCheckSchema_def b_fail_def Let_def
    by (auto intro!: ens ens_attempt_sub [OF ask] split: prod.splits option.splits json.splits)
qed

lemma topology_read_append [simp]: "topology_read iid m v t \<Longrightarrow> topology_read iid m v (t @ d)"
  "topology_read iid m v t \<Longrightarrow> topology_read iid m v (e # t)"
  "topology_read iid m v d \<Longrightarrow> topology_read iid m v (t @ d)"
  by (auto simp: topology_read_def)

definition in_bind_lock :: "('r outcome \<Rightarrow> history \<Rightarrow> bool) \<Rightarrow> 'r outcome \<Rightarrow> history \<Rightarrow> bool" where
  "in_bind_lock P r t \<longleftrightarrow> r \<noteq> OutOfFuel \<and> P r (LockBind # t @ [UnlockBind])"

lemma ens_bind_lock: "ensures (in_bind_lock P) [] m \<Longrightarrow> ensures P [] (with_lock LockBind UnlockBind m)"
  by (rule ens_with_lock, erule ens_sub) (auto simp: in_bind_lock_def)

text \<open>The ends of a run: an error before the addresses are asked for or instead of them, and the adapter's answer\<close>

definition refused_lookup :: "Broker \<Rightarrow> string \<Rightarrow> string \<Rightarrow> history \<Rightarrow> bool" where
  "refused_lookup b iid planID t \<longleftrightarrow> (\<exists>pre e. t = pre @ [dns_lookup b iid planID (Inl e)] \<and> reads_only pre)"

lemma refused_lookup_butlast:
  "refused_lookup b iid planID t \<longleftrightarrow> t \<noteq> [] \<and> reads_only (butlast t) \<and> (\<exists>e. last t = dns_lookup b iid planID (Inl e))"
  unfolding refused_lookup_def by (cases t rule: rev_cases) auto

lemma bind_error:
  "reads_only t \<or> refused_lookup b iid (bd_PlanID details) t
   \<Longrightarrow> ensures (in_bind_lock (bind_contract b iid bid details)) t (ret (Inl e))"
  by (rule ens_ret) (auto simp: in_bind_lock_def bind_contract_def refused_lookup_def)

lemma unbind_error:
  "reads_only t \<or> refused_lookup b iid (ubd_PlanID details) t
   \<Longrightarrow> ensures (in_bind_lock (unbind_contract b iid bid details)) t (ret (Inl e))"
  by (rule ens_ret) (auto simp: in_bind_lock_def unbind_contract_def refused_lookup_def)

lemma bind_done:
  assumes "reads_only pre" and "topology_read iid m vms pre"
  shows "in_bind_lock (bind_contract b iid bid details) (Val (createdBinding b ctx q))
     (pre @ [BoshGetDNSAddresses (deploymentName iid) (plan_BindingWithDNS (fst (FindPlanByID (b_serviceOffering b) (bd_PlanID details)))) (Inr dns),
       AdapterCreateBinding bid vms m params secrets dns q])"
  using assms by (auto simp: in_bind_lock_def bind_contract_def dns_lookup_def)

lemma unbind_done:
  assumes "reads_only pre" and "topology_read iid m vms pre"
    and "FindPlanByID (b_serviceOffering b) (ubd_PlanID details) = (plan, True)"
  shows "in_bind_lock (unbind_contract b iid bid details) (Val (createdBinding b ctx q))
     (pre @ [BoshGetDNSAddresses (deploymentName iid) (plan_BindingWithDNS plan) (Inr dns),
       AdapterDeleteBinding bid vms m params secrets dns q])"
  using assms by (auto simp: in_bind_lock_def unbind_contract_def dns_lookup_def)

lemmas asked_last = refused_lookup_butlast dns_lookup_def butlast_append last_append

lemma bind_contract_holds:
  "ensures (bind_contract b iid bindingID details) [] (Bind b E ctx iid bindingID details)"
proof -
  have panic: "in_bind_lock (bind_contract b iid bindingID details) (Panic p) [NewUUID u]"
    if "bd_BindResource details = None" for p u
    using that by (auto simp: in_bind_lock_def bind_contract_def intro!: exI [of _ "[NewUUID u]"])
  show ?thesis
    unfolding Bind_def bindLocked_def client_defs b_fail_def Let_def
    by (rule ens_bind_lock)
       (auto intro!: ens bind_error panic bind_done [of "NewUUID x # d @ d' @ d''" for x d d' d'', simplified]
          ens_attempt_sub [OF getDeploymentInfo_spec] ens_seq_sub [OF resolveSecrets_spec] ens_attempt_sub [OF bindCheckSchema_spec]
        simp: asked_last split: option.splits sum.splits)
qed

text \<open>
  C28.  Bind: the bind lock is held for the whole request and always released, the deployment lock
  is not touched.  Two calls of a request may change something outside the broker, each made at most once and
  as the last of the request: BOSH is asked for the addresses of the plan's DNS bindings, for which consumers of links
  are created there and deleted again, and the service adapter is asked to create the binding, with
  these addresses and with the manifest and the machines BOSH reported for the instance in this request.  Without the
  addresses the adapter is not asked, and there is an error.  The adapter's binding or its error (translated for the
  platform) is the answer; the handler panics at most when the request has no bind resource.
\<close>

theorem bind_safe:
  "ensures (bind_contract b iid bindingID details) [] (Bind b E ctx iid bindingID details)"
  by (rule bind_contract_holds)

text \<open>
  Unbind keeps the same discipline: bind lock, at most one call to the adapter, as the last
  step, for the deployment BOSH reported and only for a plan the broker offers; it never panics.
\<close>

theorem unbind_safe:
  "ensures (unbind_contract b iid bindingID details) [] (Unbind b E ctx iid bindingID details)"
  unfolding Unbind_def unbindLocked_def client_defs b_fail_def Let_def
  by (rule ens_bind_lock)
     (auto intro!: ens unbind_error unbind_done [of "NewUUID x # d @ d'" for x d d', simplified] ens_attempt_sub [OF getDeploymentInfo_spec]
        ens_seq_sub [OF resolveSecrets_spec]
      simp: asked_last split: prod.splits bool.splits)

text \<open>
  Binding errors of the service adapter reach the platform as the protocol demands: an
  existing binding as 409, a missing one as 410, a missing application GUID as 422, in each case
  with operational errors exposed or hidden; any other error carries no HTTP status, and its
  text is shown to the user only when it is a non-empty user message of the adapter.
\<close>

theorem binding_errors_translated:
  "statusCode (b_processError b (adapterToAPIError ctx (BindingAlreadyExistsError m))) = Some 409
   \<and> statusCode (b_processError b (adapterToAPIError ctx (BindingNotFoundError m))) = Some 410
   \<and> statusCode (b_processError b (adapterToAPIError ctx (AppGuidNotProvidedError m))) = Some 422
   \<and> b_processError b (adapterToAPIError ctx (ErrorString m)) = genericErrorForCFUser ctx
   \<and> b_processError b (adapterToAPIError ctx (UnknownFailureError m))
       = (if m = '''' then genericErrorForCFUser ctx else UnknownFailureError m)"
  by (simp add: adapterToAPIError_def b_processError_def processError_def ErrBindingAlreadyExists_def
      ErrBindingDoesNotExist_def ErrAppGuidNotProvided_def genericErrorForCFUser_def)

text \<open>
  Bind dereferences the optional \<open>bind_resource\<close> of the request: a request without one ends
  in a run-time panic in every environment, before BOSH or the adapter is asked (the bind lock is
  released by the deferred call).
\<close>

theorem bind_panics_without_bind_resource:
  assumes "bd_BindResource details = None"
  shows "fst (Bind b E ctx iid bindingID details s)
      = Panic ''runtime error: invalid memory address or nil pointer dereference''
    \<and> hist (snd (Bind b E ctx iid bindingID details s))
      = hist s @ [LockBind, NewUUID (o_UUID E (hist s @ [LockBind])), UnlockBind]"
  using assms by (simp add: Bind_def bindLocked_def with_lock_def client_defs run)

definition bare_bind :: BindDetails where
  "bare_bind = \<lparr> bd_AppGUID = ''app'', bd_PlanID = ''small'', bd_ServiceID = ''svc'',
     bd_BindResource = None, bd_RawContext = WEmpty, bd_RawParameters = WEmpty \<rparr>"

theorem bind_panics_without_bind_resource_witness:
  "fst (Bind sample_broker sample_env background ''i1'' ''b1'' bare_bind sample_state)
   = Panic ''runtime error: invalid memory address or nil pointer dereference''"
  using bind_panics_without_bind_resource [of bare_bind] by (simp add: bare_bind_def)

end
