(* ===== verification/CredHubBroker.thy ===== *)
theory CredHubBroker
  imports CredHub Binding
begin

text \<open>
  The broker that keeps bindings' credentials in the run-time CredHub (\<open>credhubbroker/credhubbroker.go\<close>).  It wraps
  another broker and changes \<open>Bind\<close> and \<open>Unbind\<close>: the platform gets a reference instead of the
  credentials.

  The wrapped broker and CredHub have states of their own; \<open>hubstate\<close> is the pair.  The locale
  \<open>wrapped_broker\<close> is what the wrapper relies on: a binding that \<open>Bind\<close> returns was made by the service adapter.  It
  is interpreted on the broker of \<open>Binding\<close>.
\<close>

record hubstate =
  h_broker :: bstate
  h_store :: "cevent gstate"

type_synonym 'a hub_m = "hubstate \<Rightarrow> 'a outcome \<times> hubstate"

definition in_broker :: "'a broker_m \<Rightarrow> 'a hub_m" where
  "in_broker m s = (case m (h_broker s) of (r, b) \<Rightarrow> (r, s\<lparr>h_broker := b\<rparr>))"

definition in_store :: "'a store_m \<Rightarrow> 'a hub_m" where
  "in_store m s = (case m (h_store s) of (r, t) \<Rightarrow> (r, s\<lparr>h_store := t\<rparr>))"

text \<open>The embedded \<open>CombinedBroker\<close>: the two operations the wrapper calls\<close>

record combinedBroker =
  cb_Bind :: "context_info \<Rightarrow> string \<Rightarrow> string \<Rightarrow> BindDetails \<Rightarrow> (gerr + Binding) broker_m"
  cb_Unbind :: "context_info \<Rightarrow> string \<Rightarrow> string \<Rightarrow> UnbindDetails \<Rightarrow> (gerr + unit) broker_m"

definition WithReqID :: "context_info \<Rightarrow> string \<Rightarrow> context_info" where
  "WithReqID ctx reqID = ctx\<lparr>ctx_reqID := reqID\<rparr>"

text \<open>\<open>DisplayableError.ErrorForCFUser\<close>\<close>

fun ErrorForCFUser :: "gerr \<Rightarrow> gerr" where
  "ErrorForCFUser (DisplayableError u oper) = u"
| "ErrorForCFUser e = e"

text \<open>Who may read the credentials; without anyone the request is refused.\<close>

definition bindActor :: "BindDetails \<Rightarrow> string option" where
  "bindActor details =
     (if bd_AppGUID details \<noteq> [] then Some (''mtls-app:'' @ bd_AppGUID details)
      else case bd_BindResource details of
          None \<Rightarrow> None
        | Some res \<Rightarrow>
            if br_AppGuid res \<noteq> [] then Some (''mtls-app:'' @ br_AppGuid res)
            else if br_CredentialClientID res \<noteq> [] then Some (''uaa-client:'' @ br_CredentialClientID res)
            else None)"

definition credentialsEmpty :: "json \<Rightarrow> bool" where
  "credentialsEmpty credentials = (case credentials of
      JObj credValue \<Rightarrow> length credValue = 0
    | JStr credValue \<Rightarrow> credValue = []
    | JNull \<Rightarrow> True
    | _ \<Rightarrow> False)"

definition constructKey :: "string \<Rightarrow> string \<Rightarrow> string \<Rightarrow> string" where
  "constructKey serviceID iid bindingID = ''/c/'' @ serviceID @ ''/'' @ iid @ ''/'' @ bindingID @ ''/credentials''"

definition noActor :: gerr where
  "noActor = ErrorString ''No app-guid or credential client ID were provided in the binding request, you must configure one of these''"

definition CredHubBroker_Bind ::
  "combinedBroker \<Rightarrow> chenv \<Rightarrow> env \<Rightarrow> string \<Rightarrow> context_info \<Rightarrow> string \<Rightarrow> string \<Rightarrow> BindDetails \<Rightarrow> (gerr + Binding) hub_m" where
  "CredHubBroker_Bind cb C E serviceName ctx0 iid bindingID details = (case bindActor details of
      None \<Rightarrow> ret (Inl noActor)
    | Some actor \<Rightarrow>
        seq (in_broker (uuid_New E)) (\<lambda>requestID.
        let ctx = WithReqID ctx0 requestID in
        attempt (in_broker (cb_Bind cb ctx iid bindingID details)) (\<lambda>err. ret (Inl err)) (\<lambda>binding.
        if credentialsEmpty (JObj (bind_Credentials binding)) then ret (Inr binding)
        else
          let key = constructKey (bd_ServiceID details) iid bindingID in
          attempt (in_store (Store_Set C key (JObj (bind_Credentials binding))))
            (\<lambda>err. let ctx = brokercontext_New ctx (operationTypeString OperationTypeBind) requestID serviceName iid in
               ret (Inl (ErrorForCFUser (NewGenericError ctx (errorf ''failed to set credentials in credential store: '' err)))))
            (\<lambda>_. seq (in_store (Store_AddPermission C key actor [''read'']))
            (\<lambda>_. ret (Inr (binding\<lparr>bind_Credentials := [(''credhub-ref'', JStr key)]\<rparr>)))))))"

definition CredHubBroker_Unbind ::
  "combinedBroker \<Rightarrow> chenv \<Rightarrow> env \<Rightarrow> context_info \<Rightarrow> string \<Rightarrow> string \<Rightarrow> UnbindDetails \<Rightarrow> (gerr + unit) hub_m" where
  "CredHubBroker_Unbind cb C E ctx0 iid bindingID details =
     seq (in_broker (uuid_New E)) (\<lambda>requestID.
     attempt (in_broker (cb_Unbind cb (WithReqID ctx0 requestID) iid bindingID details)) (\<lambda>err. ret (Inl err)) (\<lambda>unbind.
     seq (in_store (Store_Delete C (constructKey (ubd_ServiceID details) iid bindingID)))
     (\<lambda>_. ret (Inr unbind))))"

section \<open>What is in CredHub\<close>

text \<open>The credentials under each name, by the calls that were answered without an error\<close>

fun stores :: "cevent \<Rightarrow> (string \<Rightarrow> json option) \<Rightarrow> string \<Rightarrow> json option" where
  "stores (ChSetJSON k kvs (Inr _)) m = m(k := Some (JObj kvs))"
| "stores (ChSetValue k v (Inr _)) m = m(k := Some (JStr v))"
| "stores (ChDelete k (Inr _)) m = m(k := None)"
| "stores _ m = m"

definition contents :: "cevent list \<Rightarrow> string \<Rightarrow> json option" where
  "contents tr = foldl (\<lambda>m e. stores e m) (\<lambda>_. None) tr"

lemma contents_append: "contents (xs @ ys) = foldl (\<lambda>m e. stores e m) (contents xs) ys"
  by (simp add: contents_def)

text \<open>A key belongs to one binding of one instance.\<close>

definition slashless :: "string \<Rightarrow> bool" where
  "slashless s \<longleftrightarrow> CHR ''/'' \<notin> set s"

lemma before_slash:
  assumes "slashless x" "slashless x'" "x @ CHR ''/'' # y = x' @ CHR ''/'' # y'"
  shows "x = x' \<and> y = y'"
proof -
  from assms(3) have "Split (CHR ''/'') (x @ CHR ''/'' # y) = Split (CHR ''/'') (x' @ CHR ''/'' # y')" by (rule arg_cong)
  with assms(1,2) have "x = x'" by (simp add: slashless_def Split_append)
  with assms(3) show ?thesis by simp
qed

lemma constructKey_inject:
  assumes "slashless b" "slashless c" "slashless b'" "slashless c'"
  shows "constructKey a b c = constructKey a' b' c' \<longleftrightarrow> a = a' \<and> b = b' \<and> c = c'"
proof
  assume "constructKey a b c = constructKey a' b' c'"
  then have "rev (a @ ''/'' @ b @ ''/'' @ c) = rev (a' @ ''/'' @ b' @ ''/'' @ c')" by (simp add: constructKey_def)
  then have last: "rev c @ CHR ''/'' # (rev b @ CHR ''/'' # rev a) = rev c' @ CHR ''/'' # (rev b' @ CHR ''/'' # rev a')" by simp
  have slashless: "slashless (rev b)" "slashless (rev c)" "slashless (rev b')" "slashless (rev c')"
    using assms by (simp_all add: slashless_def)
  from before_slash [OF slashless(2,4) last] before_slash [OF slashless(1,3)] show "a = a' \<and> b = b' \<and> c = c'" by auto
qed simp

text \<open>An identifier with a slash, which nothing refuses, can make two bindings share a name.\<close>

lemma keys_collide: "constructKey service ''a/b'' ''c'' = constructKey service ''a'' ''b/c''"
  by (simp add: constructKey_def)

section \<open>Binding through the wrapper\<close>

text \<open>
  The ways \<open>Bind\<close> can end: \<open>stored\<close> are its calls of CredHub, \<open>x\<close> is the wrapped broker's binding.
\<close>

definition hub_bind_cases ::
  "BindDetails \<Rightarrow> string \<Rightarrow> (gerr + Binding) outcome \<Rightarrow> Binding option \<Rightarrow> cevent list \<Rightarrow> bool" where
  "hub_bind_cases details key r x stored \<longleftrightarrow> (case x of
      None \<Rightarrow> stored = [] \<and> (\<forall>y. r \<noteq> Val (Inr y))
    | Some binding \<Rightarrow>
        if bind_Credentials binding = [] then stored = [] \<and> r = Val (Inr binding)
        else (\<exists>e. stored = [ChSetJSON key (bind_Credentials binding) (Inl e)] \<and> (\<exists>e'. r = Val (Inl e')))
           \<or> (\<exists>actor q. bindActor details = Some actor
                \<and> stored = [ChSetJSON key (bind_Credentials binding) (Inr ()), ChAddPermission key actor [''read''] q]
                \<and> r = Val (Inr (binding\<lparr>bind_Credentials := [(''credhub-ref'', JStr key)]\<rparr>))))"

lemma hub_bind_run:
  assumes "CredHubBroker_Bind cb C E serviceName ctx0 iid bindingID details s = (r, s')"
    and "bindActor details = Some actor"
  shows "\<exists>ctx b1 r1 x stored. hist b1 = hist (h_broker s) @ [NewUUID (o_UUID E (hist (h_broker s)))]
    \<and> cb_Bind cb ctx iid bindingID details b1 = (r1, h_broker s')
    \<and> x = (case r1 of Val (Inr binding) \<Rightarrow> Some binding | _ \<Rightarrow> None)
    \<and> hist (h_store s') = hist (h_store s) @ stored
    \<and> hub_bind_cases details (constructKey (bd_ServiceID details) iid bindingID) r x stored"
proof -
  let ?u = "o_UUID E (hist (h_broker s))" and ?key = "constructKey (bd_ServiceID details) iid bindingID"
  let ?b1 = "(h_broker s)\<lparr>hist := hist (h_broker s) @ [NewUUID ?u]\<rparr>"
  obtain r1 b2 where inner: "cb_Bind cb (WithReqID ctx0 ?u) iid bindingID details ?b1 = (r1, b2)" by force
  let ?x = "case r1 of Val (Inr binding) \<Rightarrow> Some binding | _ \<Rightarrow> None"
  have "\<exists>stored. h_broker s' = b2 \<and> hist (h_store s') = hist (h_store s) @ stored \<and> hub_bind_cases details ?key r ?x stored"
    using assms inner
    by (auto simp: CredHubBroker_Bind_def uuid_New_def run in_broker_def in_store_def Store_Set_def Store_AddPermission_def
        credentialsEmpty_def hub_bind_cases_def split: outcome.splits sum.splits if_splits)
  with inner show ?thesis by (intro exI [of _ "WithReqID ctx0 ?u"] exI [of _ ?b1] exI [of _ r1]) auto
qed

locale wrapped_broker =
  fixes cb :: combinedBroker and made :: "string \<Rightarrow> Binding \<Rightarrow> event list \<Rightarrow> bool"
  assumes bind_made: "cb_Bind cb ctx iid bindingID details t = (Val (Inr x), t')
    \<Longrightarrow> \<exists>tr. hist t' = hist t @ tr \<and> made bindingID x tr"
begin

lemma hub_bind_success:
  assumes "CredHubBroker_Bind cb C E serviceName ctx0 iid bindingID details s = (Val (Inr y), s')"
  shows "\<exists>binding u tr stored key. key = constructKey (bd_ServiceID details) iid bindingID
    \<and> hist (h_broker s') = hist (h_broker s) @ NewUUID u # tr \<and> made bindingID binding tr
    \<and> hist (h_store s') = hist (h_store s) @ stored
    \<and> (if bind_Credentials binding = [] then stored = [] \<and> y = binding
       else \<exists>actor q. bindActor details = Some actor
         \<and> stored = [ChSetJSON key (bind_Credentials binding) (Inr ()), ChAddPermission key actor [''read''] q]
         \<and> y = binding\<lparr>bind_Credentials := [(''credhub-ref'', JStr key)]\<rparr>)"
proof -
  let ?key = "constructKey (bd_ServiceID details) iid bindingID"
  obtain actor where actor: "bindActor details = Some actor"
    using assms by (cases "bindActor details") (simp_all add: CredHubBroker_Bind_def run)
  obtain ctx b1 r1 x stored where b1: "hist b1 = hist (h_broker s) @ [NewUUID (o_UUID E (hist (h_broker s)))]"
    and inner: "cb_Bind cb ctx iid bindingID details b1 = (r1, h_broker s')"
    and x: "x = (case r1 of Val (Inr binding) \<Rightarrow> Some binding | _ \<Rightarrow> None)"
    and stored: "hist (h_store s') = hist (h_store s) @ stored"
    and cases: "hub_bind_cases details ?key (Val (Inr y)) x stored"
    using hub_bind_run [OF assms actor] by blast
  from cases obtain binding where "x = Some binding" by (cases x) (auto simp: hub_bind_cases_def)
  with x have r1: "r1 = Val (Inr binding)" by (auto split: outcome.splits sum.splits)
  from bind_made [OF inner [unfolded r1]] obtain tr where "hist (h_broker s') = hist b1 @ tr" "made bindingID binding tr" by blast
  with b1 stored cases \<open>x = Some binding\<close> show ?thesis
    by (intro exI [of _ binding] exI [of _ "o_UUID E (hist (h_broker s))"] exI [of _ tr] exI [of _ stored] exI [of _ ?key])
      (auto simp: hub_bind_cases_def split: if_splits)
qed

end

text \<open>The broker of \<open>Binding\<close>, and the binding the adapter made in a run\<close>

definition onDemandBroker :: "Broker \<Rightarrow> env \<Rightarrow> combinedBroker" where
  "onDemandBroker b E = \<lparr>cb_Bind = Bind b E, cb_Unbind = Unbind b E\<rparr>"

definition adapter_made :: "string \<Rightarrow> Binding \<Rightarrow> event list \<Rightarrow> bool" where
  "adapter_made bindingID binding tr \<longleftrightarrow>
     (\<exists>vms manifest params secrets dns. AdapterCreateBinding bindingID vms manifest params secrets dns (Inr binding) \<in> set tr)"

lemma createdBinding_Inr: "createdBinding b ctx q = Inr x \<longleftrightarrow> q = Inr x"
  by (auto simp: createdBinding_def split: sum.splits)

interpretation on_demand: wrapped_broker "onDemandBroker b E" adapter_made for b E
proof
  fix ctx iid bindingID details t x t'
  assume "cb_Bind (onDemandBroker b E) ctx iid bindingID details t = (Val (Inr x), t')"
  then have "Bind b E ctx iid bindingID details t = (Val (Inr x), t')" by (simp add: onDemandBroker_def)
  from ensuresD [OF bind_contract_holds this] obtain tr where tr: "hist t' = hist t @ tr"
    and contract: "bind_contract b iid bindingID details (Val (Inr x)) tr" by blast
  from contract obtain pre vms manifest params secrets dns q c where
    "AdapterCreateBinding bindingID vms manifest params secrets dns q \<in> set tr"
    and made: "Val (Inr x) = Val (createdBinding b c q)"
    unfolding bind_contract_def outcome.case sum.case by fastforce
  moreover have "q = Inr x" using made createdBinding_Inr [of b c q x] by simp
  ultimately have "AdapterCreateBinding bindingID vms manifest params secrets dns (Inr x) \<in> set tr" by simp
  then have "adapter_made bindingID x tr" unfolding adapter_made_def by blast
  with tr show "\<exists>tr. hist t' = hist t @ tr \<and> adapter_made bindingID x tr" by blast
qed

text \<open>
  C18.  The platform never gets credentials: the binding it is given has none, or only a reference to CredHub.  Then
  the credentials that the service adapter made in this request are in CredHub under that reference, and permission
  to read them was asked for the application or the client of the request and nobody else.
\<close>

theorem credentials_stay_in_credhub:
  assumes "CredHubBroker_Bind (onDemandBroker b E) C E serviceName ctx iid bindingID details s = (Val (Inr y), s')"
  shows "\<exists>binding u tr stored key. key = constructKey (bd_ServiceID details) iid bindingID
    \<and> hist (h_broker s') = hist (h_broker s) @ NewUUID u # tr \<and> adapter_made bindingID binding tr
    \<and> hist (h_store s') = hist (h_store s) @ stored
    \<and> (if bind_Credentials binding = [] then stored = [] \<and> y = binding
       else \<exists>actor q. bindActor details = Some actor
         \<and> stored = [ChSetJSON key (bind_Credentials binding) (Inr ()), ChAddPermission key actor [''read''] q]
         \<and> y = binding\<lparr>bind_Credentials := [(''credhub-ref'', JStr key)]\<rparr>)"
  using assms by (rule on_demand.hub_bind_success)

section \<open>Unbinding, and other bindings\<close>

lemma hub_unbind_run:
  assumes "CredHubBroker_Unbind cb C E ctx0 iid bindingID details s = (r, s')"
  shows "(\<exists>q. hist (h_store s') = hist (h_store s) @ [ChDelete (constructKey (ubd_ServiceID details) iid bindingID) q]
        \<and> r = Val (Inr ()) \<and> (\<exists>h. q = o_ChDelete C h (constructKey (ubd_ServiceID details) iid bindingID)))
    \<or> (h_store s' = h_store s \<and> r \<noteq> Val (Inr ()))"
  using assms
  by (auto simp: CredHubBroker_Unbind_def uuid_New_def run in_broker_def in_store_def Store_Delete_def
      split: outcome.splits sum.splits prod.splits)

text \<open>The calls of one request change only the contents under its own key.\<close>

definition only_key :: "string \<Rightarrow> cevent list \<Rightarrow> bool" where
  "only_key key tr \<longleftrightarrow> (\<forall>m k. k \<noteq> key \<longrightarrow> foldl (\<lambda>m e. stores e m) m tr k = m k)"

lemma only_key_simps [simp]: "only_key key []"
  "only_key key [ChSetJSON key kvs (Inl e)]" "only_key key [ChDelete key q]"
  "only_key key [ChSetJSON key kvs (Inr ()), ChAddPermission key actor ops q]"
  by (simp_all add: only_key_def) (cases q; simp)

lemma hub_bind_only_key:
  assumes "CredHubBroker_Bind cb C E serviceName ctx0 iid bindingID details s = (r, s')"
  shows "\<exists>stored. hist (h_store s') = hist (h_store s) @ stored \<and> only_key (constructKey (bd_ServiceID details) iid bindingID) stored"
proof (cases "bindActor details")
  case None
  with assms show ?thesis by (intro exI [of _ "[]"]) (auto simp: CredHubBroker_Bind_def run)
next
  case (Some actor)
  from hub_bind_run [OF assms this] obtain x stored where "hist (h_store s') = hist (h_store s) @ stored"
    "hub_bind_cases details (constructKey (bd_ServiceID details) iid bindingID) r x stored" by blast
  then show ?thesis by (intro exI [of _ stored]) (auto simp: hub_bind_cases_def split: option.splits if_splits)
qed

lemma hub_unbind_only_key:
  assumes "CredHubBroker_Unbind cb C E ctx0 iid bindingID details s = (r, s')"
  shows "\<exists>stored. hist (h_store s') = hist (h_store s) @ stored \<and> only_key (constructKey (ubd_ServiceID details) iid bindingID) stored"
  using hub_unbind_run [OF assms]
proof (elim disjE exE conjE)
  fix q assume "hist (h_store s') = hist (h_store s) @ [ChDelete (constructKey (ubd_ServiceID details) iid bindingID) q]"
  then show ?thesis by (intro exI [of _ "[ChDelete (constructKey (ubd_ServiceID details) iid bindingID) q]"]) simp
next
  assume "h_store s' = h_store s"
  then show ?thesis by (intro exI [of _ "[]"]) simp
qed

text \<open>
  C19.  The credentials of a binding are out of reach of every other one, as long as the identifiers of the instances and
  bindings have no slash: however a request to bind or to unbind ends, the contents of CredHub for any other service, instance
  or binding are as they were.  Whether they have one is not checked, and with one the names can coincide (\<open>keys_collide\<close>).
\<close>

theorem credentials_isolated:
  assumes "slashless iid" "slashless bindingID" "ubd_ServiceID udetails = bd_ServiceID details"
    and "slashless iid'" "slashless bindingID'"
    and "(service', iid', bindingID') \<noteq> (bd_ServiceID details, iid, bindingID)"
  shows "contents (hist (h_store (snd (CredHubBroker_Bind cb C E serviceName ctx iid bindingID details s)))) (constructKey service' iid' bindingID')
      = contents (hist (h_store s)) (constructKey service' iid' bindingID')
    \<and> contents (hist (h_store (snd (CredHubBroker_Unbind cb C E ctx iid bindingID udetails s)))) (constructKey service' iid' bindingID')
      = contents (hist (h_store s)) (constructKey service' iid' bindingID')"
proof -
  have other: "constructKey service' iid' bindingID' \<noteq> constructKey (bd_ServiceID details) iid bindingID"
    using assms by (simp add: constructKey_inject)
  obtain r s1 where bind: "CredHubBroker_Bind cb C E serviceName ctx iid bindingID details s = (r, s1)" by force
  obtain q s2 where unbind: "CredHubBroker_Unbind cb C E ctx iid bindingID udetails s = (q, s2)" by force
  from hub_bind_only_key [OF bind] hub_unbind_only_key [OF unbind] other assms(3) show ?thesis
    by (auto simp: bind unbind contents_append only_key_def)
qed

text \<open>
  Binding and unbinding are inverse to each other in CredHub: after a successful bind the credentials are there, and
  after the unbind that follows nothing is left of them, if CredHub accepts the deletion.
\<close>

theorem bind_then_unbind:
  assumes "CredHubBroker_Bind (onDemandBroker b E) C E serviceName ctx iid bindingID details s = (Val (Inr y), s1)"
    and "CredHubBroker_Unbind cb C E ctx2 iid bindingID udetails s1 = (Val (Inr ()), s2)"
    and "ubd_ServiceID udetails = bd_ServiceID details" and "key = constructKey (bd_ServiceID details) iid bindingID"
    and "\<forall>h. o_ChDelete C h key = Inr ()"
  shows "(bind_Credentials y = [] \<and> contents (hist (h_store s1)) = contents (hist (h_store s))
       \<or> (\<exists>credentials. credentials \<noteq> [] \<and> bind_Credentials y = [(''credhub-ref'', JStr key)]
            \<and> contents (hist (h_store s1)) = (contents (hist (h_store s)))(key := Some (JObj credentials))))
    \<and> contents (hist (h_store s2)) = (contents (hist (h_store s)))(key := None)"
proof -
  from on_demand.hub_bind_success [OF assms(1)] obtain binding stored where
    stored: "hist (h_store s1) = hist (h_store s) @ stored"
    and y: "if bind_Credentials binding = [] then stored = [] \<and> y = binding
       else \<exists>actor q. bindActor details = Some actor
         \<and> stored = [ChSetJSON key (bind_Credentials binding) (Inr ()), ChAddPermission key actor [''read''] q]
         \<and> y = binding\<lparr>bind_Credentials := [(''credhub-ref'', JStr key)]\<rparr>"
    using assms(4) by blast
  from hub_unbind_run [OF assms(2)] assms(3,4,5) have deleted: "hist (h_store s2) = hist (h_store s1) @ [ChDelete key (Inr ())]" by auto
  have bound: "bind_Credentials y = [] \<and> contents (hist (h_store s1)) = contents (hist (h_store s))
       \<or> (\<exists>credentials. credentials \<noteq> [] \<and> bind_Credentials y = [(''credhub-ref'', JStr key)]
            \<and> contents (hist (h_store s1)) = (contents (hist (h_store s)))(key := Some (JObj credentials)))"
    using y by (auto simp: stored contents_append split: if_splits)
  then have "contents (hist (h_store s2)) = (contents (hist (h_store s)))(key := None)"
    by (auto simp: deleted contents_append)
  with bound show ?thesis by blast
qed
section \<open>A sample\<close>

definition binding_env :: env where
  "binding_env = sample_env\<lparr>o_GetDeployment := \<lambda>h n. Inr (''m'', True),
     o_CreateBinding := \<lambda>h i v m p s d. Inr \<lparr>bind_Credentials = [(''password'', JStr ''pw'')], bind_SyslogDrainURL = [],
       bind_RouteServiceURL = [], bind_BackupAgentURL = []\<rparr>, o_DeleteBinding := \<lambda>h i v m p s d. Inr ()\<rparr>"

definition app_binding :: BindDetails where
  "app_binding = \<lparr>bd_AppGUID = ''app'', bd_PlanID = ''small'', bd_ServiceID = ''svc'',
     bd_BindResource = Some \<lparr>br_AppGuid = ''app'', br_SpaceGuid = [], br_Route = [], br_CredentialClientID = [], br_BackupAgent = False\<rparr>,
     bd_RawContext = WEmpty, bd_RawParameters = WEmpty\<rparr>"

definition hub_start :: hubstate where
  "hub_start = \<lparr>h_broker = sample_state, h_store = \<lparr>hist = []\<rparr>\<rparr>"

abbreviation sample_hub_bind :: "(gerr + Binding) outcome \<times> hubstate" where
  "sample_hub_bind \<equiv> CredHubBroker_Bind (onDemandBroker sample_broker binding_env) sample_credhub binding_env ''svc'' background ''i1'' ''b1'' app_binding hub_start"

definition reference :: Binding where
  "reference = \<lparr>bind_Credentials = [(''credhub-ref'', JStr ''/c/svc/i1/b1/credentials'')], bind_SyslogDrainURL = [],
     bind_RouteServiceURL = [], bind_BackupAgentURL = []\<rparr>"

lemma sample_bind: "fst sample_hub_bind = Val (Inr reference)"
  by code_simp

definition app_unbinding :: UnbindDetails where
  "app_unbinding = \<lparr>ubd_PlanID = ''small'', ubd_ServiceID = ''svc''\<rparr>"

abbreviation sample_hub_unbind :: "hubstate \<Rightarrow> (gerr + unit) outcome \<times> hubstate" where
  "sample_hub_unbind \<equiv> CredHubBroker_Unbind (onDemandBroker sample_broker binding_env) sample_credhub binding_env background ''i1'' ''b1'' app_unbinding"

lemma sample_unbind: "fst (sample_hub_unbind s) = Val (Inr ())"
  by (simp add: CredHubBroker_Unbind_def run in_broker_def in_store_def Store_Delete_def uuid_New_def onDemandBroker_def
      Unbind_def with_lock_def unbindLocked_def getDeploymentInfo_def client_defs binding_env_def sample_env_def resolveSecrets_def
      FindPlanByID_def app_unbinding_def sample_broker_def sample_offering_def sample_plan_def zeroPlan_def createdBinding_def)

theorem credentials_stay_in_credhub_witness:
  "\<exists>binding u tr stored s'. sample_hub_bind = (Val (Inr reference), s') \<and> adapter_made ''b1'' binding tr
     \<and> hist (h_broker s') = hist (h_broker hub_start) @ NewUUID u # tr
     \<and> hist (h_store s') = hist (h_store hub_start) @ stored \<and> bind_Credentials binding \<noteq> []
     \<and> (\<exists>q. stored = [ChSetJSON ''/c/svc/i1/b1/credentials'' (bind_Credentials binding) (Inr ()),
          ChAddPermission ''/c/svc/i1/b1/credentials'' ''mtls-app:app'' [''read''] q])"
proof -
  obtain s' where run: "sample_hub_bind = (Val (Inr reference), s')" using sample_bind by (cases sample_hub_bind) auto
  have key: "constructKey (bd_ServiceID app_binding) ''i1'' ''b1'' = ''/c/svc/i1/b1/credentials''"
    and actor: "bindActor app_binding = Some ''mtls-app:app''"
    by (simp_all add: constructKey_def app_binding_def bindActor_def)
  from credentials_stay_in_credhub [OF run, unfolded key actor] obtain binding u tr stored where
    "hist (h_broker s') = hist (h_broker hub_start) @ NewUUID u # tr" "adapter_made ''b1'' binding tr"
    "hist (h_store s') = hist (h_store hub_start) @ stored"
    and y: "if bind_Credentials binding = [] then stored = [] \<and> reference = binding
       else \<exists>actor q. Some ''mtls-app:app'' = Some actor
         \<and> stored = [ChSetJSON ''/c/svc/i1/b1/credentials'' (bind_Credentials binding) (Inr ()),
              ChAddPermission ''/c/svc/i1/b1/credentials'' actor [''read''] q]
         \<and> reference = binding\<lparr>bind_Credentials := [(''credhub-ref'', JStr ''/c/svc/i1/b1/credentials'')]\<rparr>"
    by blast
  moreover from y have "bind_Credentials binding \<noteq> []" by (auto simp: reference_def split: if_splits)
  ultimately show ?thesis using run y by auto
qed

theorem credentials_isolated_witness:
  "contents (hist (h_store (snd sample_hub_bind))) ''/c/svc/i2/b1/credentials'' = None
   \<and> contents (hist (h_store (snd (sample_hub_unbind hub_start)))) ''/c/svc/i2/b1/credentials'' = None"
  using credentials_isolated [of "''i1''" "''b1''" app_unbinding app_binding "''i2''" "''b1''" "''svc''"
      "onDemandBroker sample_broker binding_env" sample_credhub binding_env "''svc''" background hub_start]
  by (simp add: slashless_def app_binding_def app_unbinding_def constructKey_def hub_start_def contents_def)

theorem bind_then_unbind_witness:
  "\<exists>s1 s2. sample_hub_bind = (Val (Inr reference), s1) \<and> sample_hub_unbind s1 = (Val (Inr ()), s2)
     \<and> contents (hist (h_store s1)) ''/c/svc/i1/b1/credentials'' \<noteq> None \<and> contents (hist (h_store s2)) = (\<lambda>_. None)"
proof -
  obtain s1 where run: "sample_hub_bind = (Val (Inr reference), s1)" using sample_bind by (cases sample_hub_bind) auto
  obtain s2 where unbind: "sample_hub_unbind s1 = (Val (Inr ()), s2)" using sample_unbind [of s1] by (cases "sample_hub_unbind s1") auto
  have key: "constructKey (bd_ServiceID app_binding) ''i1'' ''b1'' = ''/c/svc/i1/b1/credentials''"
    by (simp add: constructKey_def app_binding_def)
  have accepts: "\<forall>h. o_ChDelete sample_credhub h ''/c/svc/i1/b1/credentials'' = Inr ()" by (simp add: sample_credhub_def)
  have empty: "contents (hist (h_store hub_start)) = (\<lambda>_. None)" by (simp add: hub_start_def contents_def)
  from bind_then_unbind [OF run unbind _ key [symmetric] accepts] show ?thesis
    using run unbind by (auto simp: empty app_binding_def app_unbinding_def reference_def)
qed

text \<open>When CredHub refuses the permission, the platform still gets the reference, to credentials nobody can read.\<close>

lemma refused_permission_unnoticed:
  assumes "\<And>h c a ops. o_AddPermission C h c a ops = Inl e" and "\<And>h k kvs. o_SetJSON C h k kvs = Inr ()"
    and "bindActor details = Some actor" and "bind_Credentials binding \<noteq> []"
    and "\<And>ctx t. fst (cb_Bind cb ctx iid bindingID details t) = Val (Inr binding)"
  shows "\<exists>y. fst (CredHubBroker_Bind cb C E serviceName ctx iid bindingID details s) = Val (Inr y)
    \<and> bind_Credentials y = [(''credhub-ref'', JStr (constructKey (bd_ServiceID details) iid bindingID))]"
proof -
  let ?u = "o_UUID E (hist (h_broker s))"
  let ?b1 = "(h_broker s)\<lparr>hist := hist (h_broker s) @ [NewUUID ?u]\<rparr>"
  obtain b2 where "cb_Bind cb (WithReqID ctx ?u) iid bindingID details ?b1 = (Val (Inr binding), b2)"
    using assms(5) [of "WithReqID ctx ?u" ?b1] by (cases "cb_Bind cb (WithReqID ctx ?u) iid bindingID details ?b1") auto
  with assms(1-4) show ?thesis
    by (simp add: CredHubBroker_Bind_def uuid_New_def run in_broker_def in_store_def Store_Set_def Store_AddPermission_def credentialsEmpty_def)
qed

end
