(* ===== verification/Iterator_State.thy ===== *)
theory Iterator_State
  imports Domain
begin

text \<open>
  The bookkeeping of a run over all service instances: \<open>instanceiterator/iterator_state.go\<close> and
  the operation values of \<open>instanceiterator/iterator.go\<close>.

  \<open>iteratorState\<close> is the Go struct; its map from GUIDs to \<open>instanceInfo\<close> is an association
  list, a missing key reads as the zero value.  The lemmas relate every count and list the code
  computes to the set of instances in a state, and say what each mutation keeps: the map and the
  list of GUIDs cover the same instances (\<open>covered\<close>), during the canary phase only canaries are
  under way, and an instance behind the read position is not waiting (\<open>behind_settled\<close>).
\<close>

section \<open>Operations and instances\<close>

datatype OperationState =
    OperationAccepted | OperationSucceeded | OperationSkipped | OperationFailed
  | OperationInProgress | InstanceNotFound | OperationPending | OrphanDeployment
  | UnsetState

record TriggeredOperation =
  to_State :: OperationState
  to_Data :: OperationData
  to_Description :: string

definition zeroOperation :: TriggeredOperation where
  "zeroOperation = \<lparr>to_State = UnsetState, to_Data = zeroOperationData, to_Description = ''''\<rparr>"

record instanceInfo =
  ii_status :: OperationState
  ii_initialPlan :: string
  ii_operation :: TriggeredOperation
  ii_couldBeCanary :: bool

definition zeroInfo :: instanceInfo where
  "zeroInfo = \<lparr>ii_status = UnsetState, ii_initialPlan = '''', ii_operation = zeroOperation,
     ii_couldBeCanary = False\<rparr>"

record iteratorState =
  is_guids :: "string list"
  is_states :: "(string \<times> instanceInfo) list"
  is_processCanaries :: bool
  is_canaryLimit :: int
  is_pos :: nat
  is_allInstances :: "Instance list"

record summary =
  sum_orphaned :: nat
  sum_succeeded :: nat
  sum_busy :: nat
  sum_deleted :: nat
  sum_skipped :: nat

text \<open>\<open>is.states[guid]\<close>\<close>

definition info :: "iteratorState \<Rightarrow> string \<Rightarrow> instanceInfo" where
  "info st g = (case map_of (is_states st) g of None \<Rightarrow> zeroInfo | Some i \<Rightarrow> i)"

abbreviation status :: "iteratorState \<Rightarrow> string \<Rightarrow> OperationState" where
  "status st g \<equiv> ii_status (info st g)"

abbreviation couldBeCanary :: "iteratorState \<Rightarrow> string \<Rightarrow> bool" where
  "couldBeCanary st g \<equiv> ii_couldBeCanary (info st g)"

section \<open>Construction\<close>

definition pendingInfo :: "Instance \<Rightarrow> instanceInfo" where
  "pendingInfo i = zeroInfo\<lparr>ii_status := OperationPending, ii_initialPlan := inst_PlanUniqueID i\<rparr>"

definition registered :: "Instance list \<Rightarrow> (string \<times> instanceInfo) list" where
  "registered instances = foldl (\<lambda>m i. map_set (inst_GUID i) (pendingInfo i) m) [] instances"

fun markCanaries :: "Instance list \<Rightarrow> (string \<times> instanceInfo) list \<Rightarrow> gerr + (string \<times> instanceInfo) list" where
  "markCanaries [] m = Inr m"
| "markCanaries (i # canaries) m = (case map_of m (inst_GUID i) of
      None \<Rightarrow> Inl (ErrorString (''Canary '' @ [CHR 0x27] @ inst_GUID i @ [CHR 0x27] @ '' not in instance list''))
    | Some v \<Rightarrow> markCanaries canaries (map_set (inst_GUID i) (v\<lparr>ii_couldBeCanary := True\<rparr>) m))"

definition NewIteratorState :: "Instance list \<Rightarrow> Instance list \<Rightarrow> int \<Rightarrow> gerr + iteratorState" where
  "NewIteratorState canaryInstances allInstances limit =
     (case markCanaries canaryInstances (registered allInstances) of
        Inl e \<Rightarrow> Inl e
      | Inr m \<Rightarrow> Inr \<lparr>is_guids = map inst_GUID allInstances, is_states = m,
          is_processCanaries = (canaryInstances \<noteq> []), is_canaryLimit = limit, is_pos = 0,
          is_allInstances = allInstances\<rparr>)"

section \<open>Queries\<close>

definition AllInstances :: "iteratorState \<Rightarrow> Instance list" where
  "AllInstances st = is_allInstances st"

definition IsProcessingCanaries :: "iteratorState \<Rightarrow> bool" where
  "IsProcessingCanaries st \<longleftrightarrow> is_processCanaries st"

definition isFinalState :: "OperationState \<Rightarrow> bool" where
  "isFinalState s \<longleftrightarrow> s \<noteq> OperationInProgress \<and> s \<noteq> OperationPending \<and> s \<noteq> OperationAccepted"

definition handle :: "iteratorState \<Rightarrow> string \<Rightarrow> Instance" where
  "handle st g = \<lparr>inst_GUID = g, inst_PlanUniqueID = ii_initialPlan (info st g), inst_SpaceGUID = ''''\<rparr>"

text \<open>One entry per GUID of the list and state asked for, canaries only during the canary phase\<close>

definition GetInstancesInStates :: "iteratorState \<Rightarrow> OperationState list \<Rightarrow> Instance list" where
  "GetInstancesInStates st states = concat (map (\<lambda>g.
     if is_processCanaries st \<and> \<not> couldBeCanary st g then []
     else map (\<lambda>_. handle st g) (filter (\<lambda>s. status st g = s) states)) (is_guids st))"

definition GetGUIDsInStates :: "iteratorState \<Rightarrow> OperationState list \<Rightarrow> string list" where
  "GetGUIDsInStates st states = map inst_GUID (GetInstancesInStates st states)"

definition HasInstancesToProcess :: "iteratorState \<Rightarrow> bool" where
  "HasInstancesToProcess st \<longleftrightarrow> GetInstancesInStates st [OperationPending, OperationAccepted] \<noteq> []"

definition HasInstancesProcessing :: "iteratorState \<Rightarrow> bool" where
  "HasInstancesProcessing st \<longleftrightarrow> GetInstancesInStates st [OperationAccepted] \<noteq> []"

definition HasFailures :: "iteratorState \<Rightarrow> bool" where
  "HasFailures st \<longleftrightarrow> GetInstancesInStates st [OperationFailed] \<noteq> []"

definition InProgressInstances :: "iteratorState \<Rightarrow> Instance list" where
  "InProgressInstances st = GetInstancesInStates st [OperationAccepted]"

definition CountInProgressInstances :: "iteratorState \<Rightarrow> nat" where
  "CountInProgressInstances st = length (InProgressInstances st)"

definition GetIteratorIndex :: "iteratorState \<Rightarrow> nat" where
  "GetIteratorIndex st = length (GetInstancesInStates st
     [OperationSucceeded, OperationAccepted, InstanceNotFound, OrphanDeployment]) + 1"

definition Summary :: "iteratorState \<Rightarrow> summary" where
  "Summary st = \<lparr>sum_orphaned = length (GetInstancesInStates st [OrphanDeployment]),
     sum_succeeded = length (GetInstancesInStates st [OperationSucceeded]),
     sum_busy = length (GetInstancesInStates st [OperationInProgress]),
     sum_deleted = length (GetInstancesInStates st [InstanceNotFound]),
     sum_skipped = length (GetInstancesInStates st [OperationSkipped])\<rparr>"

definition GetOperation :: "iteratorState \<Rightarrow> string \<Rightarrow> TriggeredOperation" where
  "GetOperation st g = ii_operation (info st g)"

definition OutstandingCanaryCount :: "iteratorState \<Rightarrow> int" where
  "OutstandingCanaryCount st =
     (let canaries = filter (couldBeCanary st) (is_guids st);
          pending = length (filter (\<lambda>g. status st g = OperationPending) canaries);
          triggered = length (filter (\<lambda>g. status st g \<noteq> OperationPending) canaries)
      in if is_canaryLimit st > 0 then is_canaryLimit st - int triggered else int pending)"

text \<open>
  The loop over the map returns early when the limit is zero and a canary is not final; the
  order in which Go visits the map does not matter.
\<close>

definition canariesCompleted :: "iteratorState \<Rightarrow> bool" where
  "canariesCompleted st \<longleftrightarrow>
     (let canaries = filter ii_couldBeCanary (map snd (is_states st)) in
      \<not> (is_canaryLimit st = 0 \<and> list_ex (\<lambda>i. \<not> isFinalState (ii_status i)) canaries)
      \<and> is_canaryLimit st \<le> int (length (filter (\<lambda>i. isFinalState (ii_status i)) canaries)))"

definition allCompleted :: "iteratorState \<Rightarrow> bool" where
  "allCompleted st \<longleftrightarrow> list_all (\<lambda>i. isFinalState (ii_status i)) (map snd (is_states st))"

definition CurrentPhaseIsComplete :: "iteratorState \<Rightarrow> bool" where
  "CurrentPhaseIsComplete st = (if is_processCanaries st then canariesCompleted st else allCompleted st)"

definition CountInstancesInCurrentPhase :: "iteratorState \<Rightarrow> nat" where
  "CountInstancesInCurrentPhase st =
     length (filter (\<lambda>i. \<not> (is_processCanaries st \<and> \<not> ii_couldBeCanary i)) (map snd (is_states st)))"

definition doingCanariesAndPendingCanary :: "iteratorState \<Rightarrow> string \<Rightarrow> bool" where
  "doingCanariesAndPendingCanary st g \<longleftrightarrow>
     is_processCanaries st \<and> couldBeCanary st g \<and> status st g = OperationPending"

definition notDoingCanariesAndPendingInstance :: "iteratorState \<Rightarrow> string \<Rightarrow> bool" where
  "notDoingCanariesAndPendingInstance st g \<longleftrightarrow>
     \<not> is_processCanaries st \<and> status st g = OperationPending"

definition processable :: "iteratorState \<Rightarrow> string \<Rightarrow> bool" where
  "processable st g \<longleftrightarrow> doingCanariesAndPendingCanary st g \<or> notDoingCanariesAndPendingInstance st g"

section \<open>Mutations\<close>

definition SetState :: "string \<Rightarrow> OperationState \<Rightarrow> iteratorState \<Rightarrow> iteratorState" where
  "SetState g s st = st\<lparr>is_states := map_set g ((info st g)\<lparr>ii_status := s\<rparr>) (is_states st)\<rparr>"

definition SetOperation :: "string \<Rightarrow> TriggeredOperation \<Rightarrow> iteratorState \<Rightarrow> iteratorState" where
  "SetOperation g oper st = st\<lparr>is_states := map_set g ((info st g)\<lparr>ii_operation := oper\<rparr>) (is_states st)\<rparr>"

definition resetBusy :: "instanceInfo \<Rightarrow> instanceInfo" where
  "resetBusy v = (if ii_status v = OperationInProgress then v\<lparr>ii_status := OperationPending\<rparr> else v)"

definition RewindAndResetBusyInstances :: "iteratorState \<Rightarrow> iteratorState" where
  "RewindAndResetBusyInstances st =
     st\<lparr>is_pos := 0, is_states := map (\<lambda>(k, v). (k, resetBusy v)) (is_states st)\<rparr>"

definition RetryBusyInstances :: "iteratorState \<Rightarrow> iteratorState" where
  "RetryBusyInstances st = st\<lparr>is_pos := 0\<rparr>"

definition MarkCanariesCompleted :: "iteratorState \<Rightarrow> iteratorState" where
  "MarkCanariesCompleted st = st\<lparr>is_processCanaries := False, is_pos := 0\<rparr>"

function NextPending :: "iteratorState \<Rightarrow> (gerr + Instance) \<times> iteratorState" where
  "NextPending st =
     (if is_pos st < length (is_guids st) then
        let guid = is_guids st ! is_pos st; st' = st\<lparr>is_pos := is_pos st + 1\<rparr> in
        if processable st' guid then (Inr (handle st' guid), st')
        else NextPending st'
      else (Inl (ErrorString ''Cannot retrieve next pending instance''), st))"
  by pat_completeness auto

termination NextPending
  by (relation "measure (\<lambda>st. length (is_guids st) - is_pos st)") auto

declare NextPending.simps [simp del]

section \<open>What the queries compute\<close>

definition visible :: "iteratorState \<Rightarrow> string \<Rightarrow> bool" where
  "visible st g \<longleftrightarrow> (is_processCanaries st \<longrightarrow> couldBeCanary st g)"

text \<open>The map and the list of GUIDs cover the same instances.\<close>

definition covered :: "iteratorState \<Rightarrow> bool" where
  "covered st \<longleftrightarrow> distinct (map fst (is_states st)) \<and> set (map fst (is_states st)) = set (is_guids st)"

lemma handle_GUID [simp]: "inst_GUID (handle st g) = g"
  by (simp add: handle_def)

lemma mem_in_states:
  "i \<in> set (GetInstancesInStates st states) \<longleftrightarrow>
     (\<exists>g\<in>set (is_guids st). visible st g \<and> status st g \<in> set states \<and> i = handle st g)"
  by (auto simp: GetInstancesInStates_def visible_def)

lemma none_in_states:
  "GetInstancesInStates st states = [] \<longleftrightarrow>
     (\<forall>g\<in>set (is_guids st). visible st g \<longrightarrow> status st g \<notin> set states)"
  using mem_in_states [of _ st states] by (metis (no_types) empty_iff empty_set set_empty2 subsetI subset_antisym)

lemma GUIDs_in_state:
  "GetGUIDsInStates st [s] = filter (\<lambda>g. visible st g \<and> status st g = s) (is_guids st)"
proof -
  have "map inst_GUID (concat (map (\<lambda>g.
      if is_processCanaries st \<and> \<not> couldBeCanary st g then []
      else map (\<lambda>_. handle st g) (filter (\<lambda>s. status st g = s) [s])) gs))
    = filter (\<lambda>g. visible st g \<and> status st g = s) gs" for gs
    by (induction gs) (auto simp: visible_def)
  then show ?thesis by (simp add: GetGUIDsInStates_def GetInstancesInStates_def)
qed

lemma in_progress_GUIDs:
  "map inst_GUID (InProgressInstances st)
     = filter (\<lambda>g. visible st g \<and> status st g = OperationAccepted) (is_guids st)"
  using GUIDs_in_state [of st OperationAccepted]
  by (simp add: InProgressInstances_def GetGUIDsInStates_def)

lemma in_progress_count:
  "CountInProgressInstances st
     = length (filter (\<lambda>g. visible st g \<and> status st g = OperationAccepted) (is_guids st))"
  using arg_cong [OF in_progress_GUIDs, of length st] by (simp add: CountInProgressInstances_def)

lemma info_of_states:
  assumes "covered st"
  shows "list_all P (map snd (is_states st)) \<longleftrightarrow> (\<forall>g\<in>set (is_guids st). P (info st g))"
proof -
  have "g \<in> set (is_guids st) \<longleftrightarrow> (\<exists>i. (g, i) \<in> set (is_states st))" for g
    using assms by (force simp: covered_def)
  moreover have "(g, i) \<in> set (is_states st) \<Longrightarrow> info st g = i" for g i
    using assms by (auto simp: covered_def info_def dest: map_of_is_SomeI)
  ultimately show ?thesis by (force simp: list_all_iff)
qed

lemma allCompleted_iff:
  "covered st \<Longrightarrow> allCompleted st \<longleftrightarrow> (\<forall>g\<in>set (is_guids st). isFinalState (status st g))"
  by (simp add: allCompleted_def info_of_states)

lemma info_outside: "covered st \<Longrightarrow> g \<notin> set (is_guids st) \<Longrightarrow> info st g = zeroInfo"
  unfolding covered_def info_def by (metis map_of_eq_None_iff option.simps(4) set_map)

section \<open>What the mutations keep\<close>

lemma info_SetState: "info (SetState g s st) = (info st)(g := (info st g)\<lparr>ii_status := s\<rparr>)"
  by (auto simp: info_def SetState_def map_of_map_set)

lemma info_SetOperation: "info (SetOperation g oper st) = (info st)(g := (info st g)\<lparr>ii_operation := oper\<rparr>)"
  by (auto simp: info_def SetOperation_def map_of_map_set)

lemma info_pos [simp]: "info (st\<lparr>is_pos := p\<rparr>) = info st"
  by (rule ext) (simp add: info_def)

lemma info_Rewind: "info (RewindAndResetBusyInstances st) g = resetBusy (info st g)"
proof -
  have "map_of (map (\<lambda>(k, v). (k, resetBusy v)) m) g = map_option resetBusy (map_of m g)" for m
    by (induction m) auto
  then show ?thesis
    by (simp add: info_def RewindAndResetBusyInstances_def resetBusy_def zeroInfo_def split: option.split)
qed

lemma info_Mark [simp]: "info (MarkCanariesCompleted st) = info st"
  by (rule ext) (simp add: info_def MarkCanariesCompleted_def)

lemma mutation_fields [simp]:
  "is_guids (SetState g s st) = is_guids st" "is_guids (SetOperation g oper st) = is_guids st"
  "is_guids (RewindAndResetBusyInstances st) = is_guids st" "is_guids (MarkCanariesCompleted st) = is_guids st"
  "is_processCanaries (SetState g s st) = is_processCanaries st"
  "is_processCanaries (SetOperation g oper st) = is_processCanaries st"
  "is_processCanaries (RewindAndResetBusyInstances st) = is_processCanaries st"
  "is_processCanaries (MarkCanariesCompleted st) = False"
  "is_canaryLimit (SetState g s st) = is_canaryLimit st"
  "is_canaryLimit (SetOperation g oper st) = is_canaryLimit st"
  "is_canaryLimit (RewindAndResetBusyInstances st) = is_canaryLimit st"
  "is_canaryLimit (MarkCanariesCompleted st) = is_canaryLimit st"
  "is_pos (SetState g s st) = is_pos st" "is_pos (SetOperation g oper st) = is_pos st"
  "is_pos (RewindAndResetBusyInstances st) = 0" "is_pos (MarkCanariesCompleted st) = 0"
  by (simp_all add: SetState_def SetOperation_def RewindAndResetBusyInstances_def MarkCanariesCompleted_def)

lemma covered_SetState: "covered st \<Longrightarrow> g \<in> set (is_guids st) \<Longrightarrow> covered (SetState g s st)"
  by (auto simp: covered_def SetState_def keys_map_set distinct_map_set simp del: set_map)

lemma covered_SetOperation: "covered st \<Longrightarrow> g \<in> set (is_guids st) \<Longrightarrow> covered (SetOperation g oper st)"
  by (auto simp: covered_def SetOperation_def keys_map_set distinct_map_set simp del: set_map)

lemma covered_Rewind: "covered st \<Longrightarrow> covered (RewindAndResetBusyInstances st)"
proof -
  have "map fst (map (\<lambda>(k, v). (k, resetBusy v)) m) = map fst m" for m :: "(string \<times> instanceInfo) list"
    by (induction m) auto
  then show "covered st \<Longrightarrow> covered (RewindAndResetBusyInstances st)"
    by (simp add: covered_def RewindAndResetBusyInstances_def del: set_map map_map)
qed

lemma covered_Mark: "covered st \<Longrightarrow> covered (MarkCanariesCompleted st)"
  by (simp add: covered_def MarkCanariesCompleted_def)

section \<open>The search for the next instance\<close>

lemma NextPending_spec:
  "NextPending st = (r, st') \<Longrightarrow> is_pos st \<le> length (is_guids st) \<Longrightarrow>
     (\<exists>p. st' = st\<lparr>is_pos := p\<rparr> \<and> is_pos st \<le> p \<and> p \<le> length (is_guids st)
       \<and> (\<forall>q. is_pos st \<le> q \<and> q < p \<and> (isl r \<or> q < p - 1) \<longrightarrow> \<not> processable st (is_guids st ! q))
       \<and> (case r of Inl _ \<Rightarrow> p = length (is_guids st)
           | Inr i \<Rightarrow> is_pos st < p \<and> i = handle st (is_guids st ! (p - 1))
               \<and> processable st (is_guids st ! (p - 1))))"
proof (induction st rule: NextPending.induct)
  case (1 st)
  have proc [simp]: "processable (st\<lparr>is_pos := p\<rparr>) = processable st" for p st
    by (rule ext) (simp add: processable_def doingCanariesAndPendingCanary_def
        notDoingCanariesAndPendingInstance_def)
  have hnd [simp]: "handle (st\<lparr>is_pos := p\<rparr>) = handle st" for p st
    by (rule ext) (simp add: handle_def)
  show ?case
  proof (cases "is_pos st < length (is_guids st)")
    case False
    with 1 show ?thesis
      by (auto simp: NextPending.simps [of st] intro!: exI [of _ "is_pos st"])
  next
    case True
    show ?thesis
    proof (cases "processable st (is_guids st ! is_pos st)")
      case True
      with \<open>is_pos st < _\<close> 1(2) show ?thesis
        by (auto simp: NextPending.simps [of st] Let_def intro!: exI [of _ "Suc (is_pos st)"])
    next
      case no: False
      let ?st = "st\<lparr>is_pos := is_pos st + 1\<rparr>"
      have "NextPending ?st = (r, st')"
        using True no 1(2) by (simp add: NextPending.simps [of st] Let_def)
      from 1(1) [OF True refl refl _ this] True no have "\<exists>p. st' = ?st\<lparr>is_pos := p\<rparr> \<and>
          Suc (is_pos st) \<le> p \<and> p \<le> length (is_guids st) \<and>
          (\<forall>q. Suc (is_pos st) \<le> q \<and> q < p \<and> (isl r \<or> q < p - 1) \<longrightarrow> \<not> processable st (is_guids st ! q)) \<and>
          (case r of Inl _ \<Rightarrow> p = length (is_guids st)
           | Inr i \<Rightarrow> Suc (is_pos st) < p \<and> i = handle st (is_guids st ! (p - 1))
               \<and> processable st (is_guids st ! (p - 1)))"
        by (simp cong: sum.case_cong)
      then obtain p where
        p: "st' = ?st\<lparr>is_pos := p\<rparr>" "Suc (is_pos st) \<le> p" "p \<le> length (is_guids st)"
          "\<forall>q. Suc (is_pos st) \<le> q \<and> q < p \<and> (isl r \<or> q < p - 1) \<longrightarrow> \<not> processable st (is_guids st ! q)"
          "case r of Inl _ \<Rightarrow> p = length (is_guids st)
           | Inr i \<Rightarrow> Suc (is_pos st) < p \<and> i = handle st (is_guids st ! (p - 1))
               \<and> processable st (is_guids st ! (p - 1))"
        by blast
      have "\<not> processable st (is_guids st ! q)"
        if "is_pos st \<le> q" "q < p" "isl r \<or> q < p - 1" for q
        using that no p(4) by (cases "q = is_pos st") auto
      with p show ?thesis by (intro exI [of _ p]) (auto split: sum.splits)
    qed
  qed
qed

section \<open>A fresh state\<close>

lemma registered_snoc:
  "registered (is @ [i]) = map_set (inst_GUID i) (pendingInfo i) (registered is)"
  by (simp add: registered_def)

lemma registered_facts:
  "distinct (map fst (registered is)) \<and> set (map fst (registered is)) = inst_GUID ` set is \<and>
   (\<forall>g v. map_of (registered is) g = Some v \<longrightarrow> ii_status v = OperationPending \<and> \<not> ii_couldBeCanary v)"
proof (induction "is" rule: rev_induct)
  case Nil
  then show ?case by (simp add: registered_def)
next
  case (snoc i "is")
  then show ?case
    by (auto simp: registered_snoc map_of_map_set distinct_map_set keys_map_set pendingInfo_def zeroInfo_def
        split: if_splits simp del: set_map)
qed

lemma markCanaries_facts:
  "markCanaries cs m = Inr m' \<Longrightarrow> distinct (map fst m) \<Longrightarrow>
     distinct (map fst m') \<and> set (map fst m') = set (map fst m) \<and> inst_GUID ` set cs \<subseteq> set (map fst m) \<and>
     (\<forall>g. map_of m' g = map_option (\<lambda>v. v\<lparr>ii_couldBeCanary :=
        (ii_couldBeCanary v \<or> g \<in> inst_GUID ` set cs)\<rparr>) (map_of m g))"
proof (induction cs m arbitrary: m' rule: markCanaries.induct)
  case (1 m)
  then show ?case by (simp add: option.map_ident[unfolded id_def])
next
  case (2 i cs m)
  then obtain v where v: "map_of m (inst_GUID i) = Some v"
      "markCanaries cs (map_set (inst_GUID i) (v\<lparr>ii_couldBeCanary := True\<rparr>) m) = Inr m'"
    by (auto split: option.splits)
  from v(1) have key: "inst_GUID i \<in> set (map fst m)"
    by (metis image_eqI map_of_SomeD prod.sel(1) set_map)
  from 2(1) [OF v(1) v(2)] 2(3) key have
    "distinct (map fst m')" "set (map fst m') = set (map fst m)" "inst_GUID ` set cs \<subseteq> set (map fst m)"
    "\<And>g. map_of m' g = map_option (\<lambda>v. v\<lparr>ii_couldBeCanary :=
        (ii_couldBeCanary v \<or> g \<in> inst_GUID ` set cs)\<rparr>)
        (((map_of m)(inst_GUID i \<mapsto> v\<lparr>ii_couldBeCanary := True\<rparr>)) g)"
    by (auto simp: map_of_map_set distinct_map_set keys_map_set simp del: set_map)
  then show ?case using key v(1) by (auto simp del: set_map)
qed

lemma NewIteratorState_facts:
  assumes "NewIteratorState canaries instances limit = Inr st"
  shows "covered st" and "is_guids st = map inst_GUID instances"
    and "is_processCanaries st = (canaries \<noteq> [])" and "is_canaryLimit st = limit" and "is_pos st = 0"
    and "is_allInstances st = instances"
    and "\<And>g. g \<in> set (is_guids st) \<Longrightarrow> status st g = OperationPending"
    and "\<And>g. couldBeCanary st g \<longleftrightarrow> g \<in> inst_GUID ` set canaries"
proof -
  from assms obtain m where m: "markCanaries canaries (registered instances) = Inr m"
    and st: "st = \<lparr>is_guids = map inst_GUID instances, is_states = m,
          is_processCanaries = (canaries \<noteq> []), is_canaryLimit = limit, is_pos = 0,
          is_allInstances = instances\<rparr>"
    by (auto simp: NewIteratorState_def split: sum.splits)
  note reg = registered_facts [of instances]
  note marked = markCanaries_facts [OF m] reg
  show "covered st" using marked st by (simp add: covered_def del: set_map) (simp)
  show "is_guids st = map inst_GUID instances" "is_processCanaries st = (canaries \<noteq> [])"
    "is_canaryLimit st = limit" "is_pos st = 0" "is_allInstances st = instances" by (simp_all add: st)
  show "status st g = OperationPending" if "g \<in> set (is_guids st)" for g
  proof -
    from that reg have "g \<in> set (map fst (registered instances))" by (auto simp: st)
    then obtain v where "map_of (registered instances) g = Some v"
      by (metis map_of_eq_None_iff not_None_eq set_map)
    with marked show ?thesis by (simp add: info_def st)
  qed
  show "couldBeCanary st g \<longleftrightarrow> g \<in> inst_GUID ` set canaries" for g
  proof (cases "map_of (registered instances) g")
    case None
    then have "g \<notin> set (map fst (registered instances))" by (simp add: map_of_eq_None_iff)
    with marked have "g \<notin> inst_GUID ` set canaries" "map_of m g = None" using None by auto
    then show ?thesis by (simp add: info_def st zeroInfo_def)
  next
    case (Some v)
    with marked show ?thesis by (auto simp: info_def st)
  qed
qed

end
