(* ===== verification/Services.thy ===== *)
theory Services
  imports Iterator_State "HOL-Library.Char_ord" "HOL-Library.List_Lexorder"
begin

text \<open>
  The world of the processes that act on all service instances, and the client they use to talk
  to the broker: \<open>broker/services/services.go\<close> and \<open>broker/services/response_converter.go\<close>.

  What leaves the process is an HTTP exchange with the broker, a call of the Cloud Foundry
  client, a sleep, or a notice to the listener; all are events of \<open>ievent\<close>.  The iterator calls
  the broker and the triggerer through interfaces, and the history also records what such a call
  returned (\<open>IInstances\<close>, \<open>ILatest\<close>, \<open>ITriggered\<close>, \<open>IChecked\<close>).
\<close>

section \<open>Events\<close>

record HttpRequest =
  rq_Method :: string
  rq_URL :: string
  rq_Headers :: smap
  rq_Body :: string

text \<open>A response body is its text and what a JSON decoder reads from it.\<close>

record HttpResponse =
  rs_StatusCode :: int
  rs_Status :: string
  rs_Text :: string
  rs_Json :: wire

record CFLastOperation =
  cflo_Type :: string
  cflo_State :: string

datatype ievent =
    EAuthHeader "gerr + smap"
  | EHttp HttpRequest "gerr + HttpResponse"
  | EGetPlan string "gerr + string"
  | EUpgradeInstance string string "gerr + CFLastOperation"
  | EGetLastOperation string "gerr + CFLastOperation"
  | ECheckOSBAPI string bool
  | ESleep int
  | IInstances "smap option" "gerr + Instance list"
  | ILatest string "gerr + Instance"
  | ITriggered string "gerr + TriggeredOperation"
  | IChecked string "gerr + TriggeredOperation"
  | LUpgradeStrategy string
  | LStarting int
  | LRetryAttempt nat int
  | LRetryCanariesAttempt nat int int
  | LInstancesToProcess "Instance list"
  | LOperationStarting string nat nat bool
  | LOperationStartResult string OperationState
  | LOperationFinished string string
  | LWaitingFor string int
  | LProgress int nat nat nat nat nat
  | LFinished nat nat nat nat "string list" "string list"
  | LCanariesStarting int smap
  | LCanariesFinished
  | LFailedToRefresh string

text \<open>
  The environment: its answers depend on all that happened before.  \<open>urlError\<close> is the check of
  the URL by \<open>http.NewRequest\<close>, \<open>jsonText\<close> the text \<open>json.Marshal\<close> produces.
\<close>

record ienv =
  o_AuthHeader :: "ievent list \<Rightarrow> gerr + smap"
  o_Do :: "ievent list \<Rightarrow> HttpRequest \<Rightarrow> gerr + HttpResponse"
  o_GetPlanByServiceInstanceGUID :: "ievent list \<Rightarrow> string \<Rightarrow> gerr + string"
  o_UpgradeServiceInstance :: "ievent list \<Rightarrow> string \<Rightarrow> string \<Rightarrow> gerr + CFLastOperation"
  o_GetLastOperationForInstance :: "ievent list \<Rightarrow> string \<Rightarrow> gerr + CFLastOperation"
  o_CheckMinimumOSBAPIVersion :: "ievent list \<Rightarrow> string \<Rightarrow> bool"
  urlError :: "string \<Rightarrow> gerr option"
  jsonText :: "json \<Rightarrow> string"
  durationText :: "int \<Rightarrow> string"

text \<open>The state of the iterator process beside its history: the mutable fields of \<open>Iterator\<close>\<close>

record instanceFailure =
  fail_guid :: string
  fail_err :: gerr

record itstate = "ievent gstate" +
  it_failures :: "instanceFailure list"
  it_canaries :: int
  it_state :: iteratorState

type_synonym 'a it_m = "itstate \<Rightarrow> 'a outcome \<times> itstate"

text \<open>An event of the outside world, as opposed to what the iterator itself notes\<close>

fun is_exchange :: "ievent \<Rightarrow> bool" where
  "is_exchange (EAuthHeader _) = True"
| "is_exchange (EHttp _ _) = True"
| "is_exchange (EGetPlan _ _) = True"
| "is_exchange (EUpgradeInstance _ _ _) = True"
| "is_exchange (EGetLastOperation _ _) = True"
| "is_exchange (ECheckOSBAPI _ _) = True"
| "is_exchange _ = False"

section \<open>URLs\<close>

definition hexDigit :: "nat \<Rightarrow> char" where
  "hexDigit n = (if n < 10 then char_of (48 + n) else char_of (55 + n))"

definition unreserved :: "char \<Rightarrow> bool" where
  "unreserved c \<longleftrightarrow> (let n = of_char c :: nat in
     (48 \<le> n \<and> n \<le> 57) \<or> (65 \<le> n \<and> n \<le> 90) \<or> (97 \<le> n \<and> n \<le> 122) \<or> n \<in> {45, 95, 46, 126})"

text \<open>\<open>url.QueryEscape\<close> and \<open>url.Values.Encode\<close> of single-valued parameters\<close>

definition escapeChar :: "char \<Rightarrow> string" where
  "escapeChar c = (let n = of_char c :: nat in
     if unreserved c then [c] else if n = 32 then ''+''
     else [CHR 0x25, hexDigit (n div 16), hexDigit (n mod 16)])"

definition QueryEscape :: "string \<Rightarrow> string" where
  "QueryEscape s = concat (map escapeChar s)"

definition encodeValues :: "smap \<Rightarrow> string" where
  "encodeValues values = join ''&''
     (map (\<lambda>k. QueryEscape k @ ''='' @ QueryEscape (case map_of values k of None \<Rightarrow> '''' | Some v \<Rightarrow> v))
       (sort (map fst values)))"

definition appendQuery :: "string \<Rightarrow> smap \<Rightarrow> string" where
  "appendQuery u query = u @ ''?'' @ encodeValues (copy_map [] query)"

definition createRequestPath :: "string \<Rightarrow> smap option \<Rightarrow> string" where
  "createRequestPath path flt =
     (let values = copy_map [] (case flt of None \<Rightarrow> [] | Some m \<Rightarrow> m) in appendQuery path values)"

definition trimRightSlashes :: "string \<Rightarrow> string" where
  "trimRightSlashes s = rev (dropWhile (\<lambda>c. c = CHR ''/'') (rev s))"

definition buildURL :: "string \<Rightarrow> string \<Rightarrow> string" where
  "buildURL base path =
     (let baseURL = (if base \<noteq> '''' \<and> last base = CHR ''/'' then trimRightSlashes base else base);
          path' = (if \<not> has_prefix path ''/'' \<and> path \<noteq> '''' then ''/'' @ path else path)
      in baseURL @ path')"

section \<open>Reading responses\<close>

datatype BOSHOperationType =
    BInstanceNotFound | BOrphanDeployment | BOperationAccepted | BOperationFailed
  | BOperationInProgress | BOperationPending | BOperationSucceeded | BOperationSkipped

record BOSHOperation =
  bo_Type :: BOSHOperationType
  bo_Data :: OperationData
  bo_Description :: string

definition boshOperation :: "BOSHOperationType \<Rightarrow> BOSHOperation" where
  "boshOperation t = \<lparr>bo_Type = t, bo_Data = zeroOperationData, bo_Description = ''''\<rparr>"

text \<open>\<open>json.NewDecoder(body).Decode(&x)\<close>: an empty body is the end of the input.\<close>

definition decodeBody :: "(json \<Rightarrow> gerr + 'a) \<Rightarrow> wire \<Rightarrow> gerr + 'a" where
  "decodeBody dec w = (case w of WEmpty \<Rightarrow> Inl (ErrorString ''EOF'')
     | WMalformed m \<Rightarrow> Inl (ErrorString m) | WJson j \<Rightarrow> dec j)"

text \<open>The description of an \<open>apiresponses.ErrorResponse\<close>\<close>

fun decodeErrorResponse :: "(string \<times> json) list \<Rightarrow> string \<Rightarrow> gerr + string" where
  "decodeErrorResponse [] d = Inr d"
| "decodeErrorResponse ((k, j) # kvs) d =
     (if key_is k ''error'' then
        (case decodeStr k j '''' of Inl er \<Rightarrow> Inl er | Inr s \<Rightarrow> decodeErrorResponse kvs d)
      else if key_is k ''description'' then
        (case decodeStr k j d of Inl er \<Rightarrow> Inl er | Inr s \<Rightarrow> decodeErrorResponse kvs s)
      else decodeErrorResponse kvs d)"

definition unmarshalErrorResponse :: "wire \<Rightarrow> gerr + string" where
  "unmarshalErrorResponse w = (case w of WJson JNull \<Rightarrow> Inr ''''
     | WJson (JObj kvs) \<Rightarrow> decodeErrorResponse kvs ''''
     | _ \<Rightarrow> Inl (typeError ''ErrorResponse''))"

definition ExtractOperationFrom :: "HttpResponse \<Rightarrow> gerr + BOSHOperation" where
  "ExtractOperationFrom response =
     (let code = rs_StatusCode response;
          unexpected = ''unexpected status code: '' @ show_int code in
      if code = 202 then
        (case decodeBody (\<lambda>j. unmarshalOperationData (WJson j)) (rs_Json response) of
           Inl err \<Rightarrow> Inl (errorf ''cannot parse upgrade response: '' err)
         | Inr d \<Rightarrow> Inr ((boshOperation BOperationAccepted)\<lparr>bo_Data := d\<rparr>))
      else if code = 404 then Inr (boshOperation BInstanceNotFound)
      else if code = 410 then Inr (boshOperation BOrphanDeployment)
      else if code = 409 then Inr (boshOperation BOperationInProgress)
      else if code = 204 then Inr (boshOperation BOperationSkipped)
      else if code = 500 then
        (case unmarshalErrorResponse (rs_Json response) of
           Inl err \<Rightarrow> Inl (ErrorString (unexpected @ ''. cannot parse upgrade response: '' @ [CHR 0x27]
             @ rs_Text response @ [CHR 0x27]))
         | Inr description \<Rightarrow> Inl (ErrorString (unexpected @ ''. description: '' @ description)))
      else Inl (ErrorString (unexpected @ ''. body: '' @ rs_Text response)))"

definition decodeBodyInto :: "HttpResponse \<Rightarrow> (json \<Rightarrow> gerr + 'a) \<Rightarrow> gerr + 'a" where
  "decodeBodyInto response dec =
     (if rs_StatusCode response \<noteq> 200 then Inl (ErrorString (''HTTP response status: '' @ rs_Status response))
      else decodeBody dec (rs_Json response))"

text \<open>A \<open>domain.LastOperation\<close> as the client reads it: the state is any string.\<close>

record ClientLastOperation =
  clo_State :: string
  clo_Description :: string

fun decodeLastOperationFields :: "(string \<times> json) list \<Rightarrow> ClientLastOperation \<Rightarrow> gerr + ClientLastOperation" where
  "decodeLastOperationFields [] l = Inr l"
| "decodeLastOperationFields ((k, j) # kvs) l =
     (if key_is k ''state'' then
        (case decodeStr k j (clo_State l) of Inl er \<Rightarrow> Inl er
         | Inr s \<Rightarrow> decodeLastOperationFields kvs (l\<lparr>clo_State := s\<rparr>))
      else if key_is k ''description'' then
        (case decodeStr k j (clo_Description l) of Inl er \<Rightarrow> Inl er
         | Inr s \<Rightarrow> decodeLastOperationFields kvs (l\<lparr>clo_Description := s\<rparr>))
      else decodeLastOperationFields kvs l)"

fun decodeLastOperation :: "json \<Rightarrow> gerr + ClientLastOperation" where
  "decodeLastOperation JNull = Inr \<lparr>clo_State = '''', clo_Description = ''''\<rparr>"
| "decodeLastOperation (JObj kvs) =
     decodeLastOperationFields kvs \<lparr>clo_State = '''', clo_Description = ''''\<rparr>"
| "decodeLastOperation _ = Inl (typeError ''LastOperation'')"

definition LastOperationFrom :: "HttpResponse \<Rightarrow> gerr + ClientLastOperation" where
  "LastOperationFrom response = decodeBodyInto response decodeLastOperation"

fun decodeInstanceFields :: "(string \<times> json) list \<Rightarrow> Instance \<Rightarrow> gerr + Instance" where
  "decodeInstanceFields [] i = Inr i"
| "decodeInstanceFields ((k, j) # kvs) i =
     (if key_is k ''service_instance_id'' then
        (case decodeStr k j (inst_GUID i) of Inl er \<Rightarrow> Inl er
         | Inr s \<Rightarrow> decodeInstanceFields kvs (i\<lparr>inst_GUID := s\<rparr>))
      else if key_is k ''plan_id'' then
        (case decodeStr k j (inst_PlanUniqueID i) of Inl er \<Rightarrow> Inl er
         | Inr s \<Rightarrow> decodeInstanceFields kvs (i\<lparr>inst_PlanUniqueID := s\<rparr>))
      else if key_is k ''space_guid'' then
        (case decodeStr k j (inst_SpaceGUID i) of Inl er \<Rightarrow> Inl er
         | Inr s \<Rightarrow> decodeInstanceFields kvs (i\<lparr>inst_SpaceGUID := s\<rparr>))
      else decodeInstanceFields kvs i)"

fun decodeInstances :: "json list \<Rightarrow> gerr + Instance list" where
  "decodeInstances [] = Inr []"
| "decodeInstances (j # js) =
     (case (case j of JNull \<Rightarrow> Inr \<lparr>inst_GUID = '''', inst_PlanUniqueID = '''', inst_SpaceGUID = ''''\<rparr>
        | JObj kvs \<Rightarrow> decodeInstanceFields kvs \<lparr>inst_GUID = '''', inst_PlanUniqueID = '''', inst_SpaceGUID = ''''\<rparr>
        | _ \<Rightarrow> Inl (typeError ''Instance'')) of
        Inl e \<Rightarrow> Inl e
      | Inr i \<Rightarrow> (case decodeInstances js of Inl e \<Rightarrow> Inl e | Inr is \<Rightarrow> Inr (i # is)))"

definition decodeServiceInstanceResponse :: "HttpResponse \<Rightarrow> gerr + Instance list" where
  "decodeServiceInstanceResponse response =
     decodeBody (\<lambda>j. case j of JNull \<Rightarrow> Inr [] | JArr js \<Rightarrow> decodeInstances js | _ \<Rightarrow> Inl (typeError ''Instance''))
       (rs_Json response)"

section \<open>The client\<close>

text \<open>The base URL is the only field of \<open>BrokerServices\<close> that is not part of the environment.\<close>

definition doRequest :: "ienv \<Rightarrow> string \<Rightarrow> string \<Rightarrow> string \<Rightarrow> string \<Rightarrow> (gerr + HttpResponse) it_m" where
  "doRequest E baseURL meth path body =
     (let url = buildURL baseURL path in
      case urlError E url of Some err \<Rightarrow> ret (Inl err)
      | None \<Rightarrow>
        attempt (ext_call (o_AuthHeader E) EAuthHeader) (\<lambda>err. ret (Inl err)) (\<lambda>auth.
        let request = \<lparr>rq_Method = meth, rq_URL = url,
              rq_Headers = (''X-Broker-Api-Version'', ''2.13'') # auth, rq_Body = body\<rparr> in
        ext_call (\<lambda>h. o_Do E h request) (EHttp request)))"

definition processBody :: "Instance \<Rightarrow> string" where
  "processBody i = (let q = [CHR 0x22] in
     ''{'' @ q @ ''plan_id'' @ q @ '': '' @ q @ inst_PlanUniqueID i @ q @ '', '' @ q @ ''context'' @ q @ '':{''
     @ q @ ''space_guid'' @ q @ '':'' @ q @ inst_SpaceGUID i @ q @ ''}}'')"

definition ProcessInstance :: "ienv \<Rightarrow> string \<Rightarrow> Instance \<Rightarrow> string \<Rightarrow> (gerr + BOSHOperation) it_m" where
  "ProcessInstance E baseURL i operationType =
     attempt (doRequest E baseURL ''PATCH''
        (''/mgmt/service_instances/'' @ inst_GUID i @ ''?operation_type='' @ operationType) (processBody i))
       (\<lambda>err. ret (Inl err)) (\<lambda>response. ret (ExtractOperationFrom response))"

definition services_LastOperation :: "ienv \<Rightarrow> string \<Rightarrow> string \<Rightarrow> OperationData \<Rightarrow> (gerr + ClientLastOperation) it_m" where
  "services_LastOperation E baseURL guid operationData =
     (let asJSON = jsonText E (marshalOperationData operationData);
          path = ''/v2/service_instances/'' @ guid @ ''/last_operation'' in
      attempt (doRequest E baseURL ''GET'' (appendQuery path [(''operation'', asJSON)]) '''')
        (\<lambda>err. ret (Inl err)) (\<lambda>response. ret (LastOperationFrom response)))"

definition services_Instances :: "ienv \<Rightarrow> string \<Rightarrow> smap option \<Rightarrow> (gerr + Instance list) it_m" where
  "services_Instances E baseURL flt =
     attempt (doRequest E baseURL ''GET'' (createRequestPath ''/mgmt/service_instances'' flt) '''')
       (\<lambda>err. ret (Inl err)) (\<lambda>response.
       if rs_StatusCode response \<noteq> 200 then
         ret (Inl (ErrorString (''failed to get service instances with status code: ''
           @ show_int (rs_StatusCode response))))
       else (case decodeServiceInstanceResponse response of
           Inl err \<Rightarrow> ret (Inl (errorf ''failed to decode service instance response body with error: '' err))
         | Inr instances \<Rightarrow> ret (Inr instances)))"

fun findInstance :: "string \<Rightarrow> Instance list \<Rightarrow> Instance option" where
  "findInstance g [] = None"
| "findInstance g (i # is) = (if inst_GUID i = g then Some i else findInstance g is)"

definition services_LatestInstanceInfo :: "ienv \<Rightarrow> string \<Rightarrow> Instance \<Rightarrow> (gerr + Instance) it_m" where
  "services_LatestInstanceInfo E baseURL i =
     attempt (services_Instances E baseURL None) (\<lambda>err. ret (Inl err)) (\<lambda>instances.
     case findInstance (inst_GUID i) instances of
       Some inst \<Rightarrow> ret (Inr inst) | None \<Rightarrow> ret (Inl InstanceNotFoundError))"

fun decodeDeployments :: "json list \<Rightarrow> gerr + string list" where
  "decodeDeployments [] = Inr []"
| "decodeDeployments (j # js) =
     (case (case j of JNull \<Rightarrow> Inr ''''
        | JObj kvs \<Rightarrow> foldl (\<lambda>r (k, v). case r of Inl e \<Rightarrow> Inl e
            | Inr s \<Rightarrow> if key_is k ''deployment_name'' then decodeStr k v s else Inr s) (Inr '''') kvs
        | _ \<Rightarrow> Inl (typeError ''Deployment'')) of
        Inl e \<Rightarrow> Inl e
      | Inr n \<Rightarrow> (case decodeDeployments js of Inl e \<Rightarrow> Inl e | Inr ns \<Rightarrow> Inr (n # ns)))"

definition OrphanDeploymentsFrom :: "HttpResponse \<Rightarrow> gerr + string list" where
  "OrphanDeploymentsFrom response = decodeBodyInto response
     (\<lambda>j. case j of JNull \<Rightarrow> Inr [] | JArr js \<Rightarrow> decodeDeployments js | _ \<Rightarrow> Inl (typeError ''Deployment''))"

definition services_OrphanDeployments :: "ienv \<Rightarrow> string \<Rightarrow> (gerr + string list) it_m" where
  "services_OrphanDeployments E baseURL =
     attempt (doRequest E baseURL ''GET'' ''/mgmt/orphan_deployments'' '''')
       (\<lambda>err. ret (Inl err)) (\<lambda>response. ret (OrphanDeploymentsFrom response))"

end
