(* ===== verification/CFClient.thy ===== *)
theory CFClient
  imports Services "HOL-Library.AList"
begin

text \<open>
  The client of the Cloud Foundry API: \<open>cf/http_json_client.go\<close>, \<open>cf/client.go\<close>,
  \<open>cf/service_instances.go\<close>, \<open>cf/service_plans_client.go\<close>, \<open>cf/info.go\<close>, with the resources of
  \<open>cf/domain.go\<close> and the error types of \<open>cf/errors.go\<close>.

  What leaves the process is the computation of the authorization header and the HTTP exchange, as
  in \<open>Services\<close>.  A listing follows \<open>next_url\<close> from page to page; nothing bounds the number of
  pages, so a listing gets fuel, and \<open>pages_chain\<close> says how much is enough.
\<close>

section \<open>The environment\<close>

text \<open>
  \<open>fmtJson\<close> is \<open>%s\<close> of a decoded number, boolean, array or object, \<open>quoted\<close> is \<open>%q\<close>;
  \<open>ParseTolerant\<close> and \<open>semverGE\<close> are the vendored \<open>semver\<close> package, its versions in a normal form.
\<close>

record cfenv = ienv +
  fmtJson :: "json \<Rightarrow> string"
  quoted :: "string \<Rightarrow> string"
  ParseTolerant :: "string \<Rightarrow> gerr + string"
  semverGE :: "string \<Rightarrow> string \<Rightarrow> bool"

record Client =
  cf_url :: string

type_synonym 'a cf_m = "ievent gstate \<Rightarrow> 'a outcome \<times> ievent gstate"

section \<open>Decoding\<close>

text \<open>An object is decoded field by field into the value that is there; \<open>null\<close> leaves it alone.\<close>

fun decodeFields :: "(string \<Rightarrow> json \<Rightarrow> 'a \<Rightarrow> gerr + 'a) \<Rightarrow> (string \<times> json) list \<Rightarrow> 'a \<Rightarrow> gerr + 'a" where
  "decodeFields step [] x = Inr x"
| "decodeFields step ((k, j) # kvs) x =
     (case step k j x of Inl e \<Rightarrow> Inl e | Inr x' \<Rightarrow> decodeFields step kvs x')"

definition decodeStruct :: "string \<Rightarrow> (string \<Rightarrow> json \<Rightarrow> 'a \<Rightarrow> gerr + 'a) \<Rightarrow> json \<Rightarrow> 'a \<Rightarrow> gerr + 'a" where
  "decodeStruct name step j x = (case j of JNull \<Rightarrow> Inr x | JObj kvs \<Rightarrow> decodeFields step kvs x
     | _ \<Rightarrow> Inl (typeError name))"

text \<open>A slice keeps the elements it has and decodes into them, element by element.\<close>

fun decodeElems :: "(json \<Rightarrow> 'a \<Rightarrow> gerr + 'a) \<Rightarrow> 'a \<Rightarrow> json list \<Rightarrow> 'a list \<Rightarrow> gerr + 'a list" where
  "decodeElems dec zero [] old = Inr []"
| "decodeElems dec zero (j # js) old =
     (case dec j (case old of [] \<Rightarrow> zero | x # xs \<Rightarrow> x) of Inl e \<Rightarrow> Inl e
      | Inr y \<Rightarrow> (case decodeElems dec zero js (tl old) of Inl e \<Rightarrow> Inl e | Inr ys \<Rightarrow> Inr (y # ys)))"

definition decodeSlice :: "(json \<Rightarrow> 'a \<Rightarrow> gerr + 'a) \<Rightarrow> 'a \<Rightarrow> string \<Rightarrow> json \<Rightarrow> 'a list \<Rightarrow> gerr + 'a list" where
  "decodeSlice dec zero k j old = (case j of JNull \<Rightarrow> Inr [] | JArr js \<Rightarrow> decodeElems dec zero js old
     | _ \<Rightarrow> Inl (typeError k))"

section \<open>Resources\<close>

record GetInstancesFilter =
  gif_ServiceOfferingID :: string
  gif_OrgName :: string
  gif_SpaceName :: string

text \<open>\<open>service\<close> is \<open>type service\<close> with its entity's fields.\<close>

record cfservice =
  srv_UniqueID :: string
  srv_ServicePlansUrl :: string

definition decodeServiceEntity :: "json \<Rightarrow> cfservice \<Rightarrow> gerr + cfservice" where
  "decodeServiceEntity = decodeStruct ''entity'' (\<lambda>k j x.
     if key_is k ''unique_id'' then map_sum id (\<lambda>s. x\<lparr>srv_UniqueID := s\<rparr>) (decodeStr k j (srv_UniqueID x))
     else if key_is k ''service_plans_url'' then
       map_sum id (\<lambda>s. x\<lparr>srv_ServicePlansUrl := s\<rparr>) (decodeStr k j (srv_ServicePlansUrl x))
     else Inr x)"

definition decodeService :: "json \<Rightarrow> cfservice \<Rightarrow> gerr + cfservice" where
  "decodeService = decodeStruct ''service'' (\<lambda>k j x.
     if key_is k ''entity'' then decodeServiceEntity j x else Inr x)"

definition zero_service :: cfservice where
  "zero_service = \<lparr>srv_UniqueID = [], srv_ServicePlansUrl = []\<rparr>"

definition decodeGUID :: "json \<Rightarrow> string \<Rightarrow> gerr + string" where
  "decodeGUID = decodeStruct ''metadata'' (\<lambda>k j g. if key_is k ''guid'' then decodeStr k j g else Inr g)"

definition decodeVersion :: "json \<Rightarrow> string \<Rightarrow> gerr + string" where
  "decodeVersion = decodeStruct ''maintenance_info''
     (\<lambda>k j v. if key_is k ''version'' then decodeStr k j v else Inr v)"

text \<open>\<open>ServicePlan\<close>: the GUID of its metadata, the fields of its entity\<close>

record cfplan =
  pl_GUID :: string
  pl_UniqueID :: string
  pl_ServiceInstancesUrl :: string
  pl_Name :: string
  pl_Version :: string

definition decodePlanEntity :: "json \<Rightarrow> cfplan \<Rightarrow> gerr + cfplan" where
  "decodePlanEntity = decodeStruct ''entity'' (\<lambda>k j p.
     if key_is k ''unique_id'' then map_sum id (\<lambda>s. p\<lparr>pl_UniqueID := s\<rparr>) (decodeStr k j (pl_UniqueID p))
     else if key_is k ''service_instances_url'' then
       map_sum id (\<lambda>s. p\<lparr>pl_ServiceInstancesUrl := s\<rparr>) (decodeStr k j (pl_ServiceInstancesUrl p))
     else if key_is k ''name'' then map_sum id (\<lambda>s. p\<lparr>pl_Name := s\<rparr>) (decodeStr k j (pl_Name p))
     else if key_is k ''maintenance_info'' then map_sum id (\<lambda>v. p\<lparr>pl_Version := v\<rparr>) (decodeVersion j (pl_Version p))
     else Inr p)"

definition decodePlan :: "json \<Rightarrow> cfplan \<Rightarrow> gerr + cfplan" where
  "decodePlan = decodeStruct ''ServicePlan'' (\<lambda>k j p.
     if key_is k ''metadata'' then map_sum id (\<lambda>g. p\<lparr>pl_GUID := g\<rparr>) (decodeGUID j (pl_GUID p))
     else if key_is k ''entity'' then decodePlanEntity j p
     else Inr p)"

definition zero_plan :: cfplan where
  "zero_plan = \<lparr>pl_GUID = [], pl_UniqueID = [], pl_ServiceInstancesUrl = [], pl_Name = [], pl_Version = []\<rparr>"

text \<open>\<open>ServiceInstanceResource\<close>\<close>

record cfinstance =
  si_GUID :: string
  si_SpaceGUID :: string
  si_ServicePlanURL :: string
  si_LastOperation :: CFLastOperation
  si_Version :: string

definition decodeCFLastOperation :: "json \<Rightarrow> CFLastOperation \<Rightarrow> gerr + CFLastOperation" where
  "decodeCFLastOperation = decodeStruct ''last_operation'' (\<lambda>k j l.
     if key_is k ''type'' then map_sum id (\<lambda>s. l\<lparr>cflo_Type := s\<rparr>) (decodeStr k j (cflo_Type l))
     else if key_is k ''state'' then map_sum id (\<lambda>s. l\<lparr>cflo_State := s\<rparr>) (decodeStr k j (cflo_State l))
     else Inr l)"

definition decodeInstanceEntity :: "json \<Rightarrow> cfinstance \<Rightarrow> gerr + cfinstance" where
  "decodeInstanceEntity = decodeStruct ''entity'' (\<lambda>k j i.
     if key_is k ''space_guid'' then map_sum id (\<lambda>s. i\<lparr>si_SpaceGUID := s\<rparr>) (decodeStr k j (si_SpaceGUID i))
     else if key_is k ''service_plan_url'' then
       map_sum id (\<lambda>s. i\<lparr>si_ServicePlanURL := s\<rparr>) (decodeStr k j (si_ServicePlanURL i))
     else if key_is k ''last_operation'' then
       map_sum id (\<lambda>l. i\<lparr>si_LastOperation := l\<rparr>) (decodeCFLastOperation j (si_LastOperation i))
     else if key_is k ''maintenance_info'' then
       map_sum id (\<lambda>v. i\<lparr>si_Version := v\<rparr>) (decodeVersion j (si_Version i))
     else Inr i)"

definition decodeInstanceResource :: "json \<Rightarrow> cfinstance \<Rightarrow> gerr + cfinstance" where
  "decodeInstanceResource = decodeStruct ''ServiceInstanceResource'' (\<lambda>k j i.
     if key_is k ''metadata'' then map_sum id (\<lambda>g. i\<lparr>si_GUID := g\<rparr>) (decodeGUID j (si_GUID i))
     else if key_is k ''entity'' then decodeInstanceEntity j i
     else Inr i)"

definition zero_instance :: cfinstance where
  "zero_instance = \<lparr>si_GUID = [], si_SpaceGUID = [], si_ServicePlanURL = [],
     si_LastOperation = \<lparr>cflo_Type = [], cflo_State = []\<rparr>, si_Version = []\<rparr>"

record cfbinding =
  bd_GUID :: string
  bd_AppGUID :: string

definition decodeBindingResource :: "json \<Rightarrow> cfbinding \<Rightarrow> gerr + cfbinding" where
  "decodeBindingResource = decodeStruct ''bindingResource'' (\<lambda>k j b.
     if key_is k ''Metadata'' then map_sum id (\<lambda>g. b\<lparr>bd_GUID := g\<rparr>) (decodeGUID j (bd_GUID b))
     else if key_is k ''Entity'' then decodeStruct ''Entity'' (\<lambda>k j b.
       if key_is k ''app_guid'' then map_sum id (\<lambda>s. b\<lparr>bd_AppGUID := s\<rparr>) (decodeStr k j (bd_AppGUID b))
       else if key_is k ''service_instance_guid'' then map_sum id (\<lambda>_. b) (decodeStr k j [])
       else Inr b) j b
     else Inr b)"

text \<open>Service keys and plan visibilities are read for their GUID alone.\<close>

definition decodeGUIDResource :: "json \<Rightarrow> string \<Rightarrow> gerr + string" where
  "decodeGUIDResource = decodeStruct ''Metadata'' (\<lambda>k j g. if key_is k ''Metadata'' then decodeGUID j g else Inr g)"

record ServiceBroker =
  sb_GUID :: string
  sb_Name :: string

definition decodeBrokerResource :: "json \<Rightarrow> ServiceBroker \<Rightarrow> gerr + ServiceBroker" where
  "decodeBrokerResource = decodeStruct ''serviceBrokerResource'' (\<lambda>k j b.
     if key_is k ''Metadata'' then map_sum id (\<lambda>g. b\<lparr>sb_GUID := g\<rparr>) (decodeGUID j (sb_GUID b))
     else if key_is k ''Entity'' then decodeStruct ''Entity'' (\<lambda>k j b.
       if key_is k ''Name'' then map_sum id (\<lambda>s. b\<lparr>sb_Name := s\<rparr>) (decodeStr k j (sb_Name b)) else Inr b) j b
     else Inr b)"

text \<open>\<open>CFResponse\<close>: entity and metadata are maps of any values; a nil map is empty.\<close>

record anyresource =
  ar_Entity :: "(string \<times> json) list"
  ar_Metadata :: "(string \<times> json) list"

definition decodeAnyMap :: "string \<Rightarrow> json \<Rightarrow> (string \<times> json) list \<Rightarrow> gerr + (string \<times> json) list" where
  "decodeAnyMap k j old = (case j of JNull \<Rightarrow> Inr [] | JObj kvs \<Rightarrow> Inr (foldl (\<lambda>m (f, v). map_set f v m) old kvs)
     | _ \<Rightarrow> Inl (typeError k))"

definition decodeAnyResource :: "json \<Rightarrow> anyresource \<Rightarrow> gerr + anyresource" where
  "decodeAnyResource = decodeStruct ''resources'' (\<lambda>k j r.
     if key_is k ''entity'' then map_sum id (\<lambda>m. r\<lparr>ar_Entity := m\<rparr>) (decodeAnyMap k j (ar_Entity r))
     else if key_is k ''metadata'' then map_sum id (\<lambda>m. r\<lparr>ar_Metadata := m\<rparr>) (decodeAnyMap k j (ar_Metadata r))
     else Inr r)"

definition decodeCFResponse :: "json \<Rightarrow> gerr + anyresource list" where
  "decodeCFResponse j = decodeStruct ''CFResponse'' (\<lambda>k j rs.
     if key_is k ''resources'' then decodeSlice decodeAnyResource \<lparr>ar_Entity = [], ar_Metadata = []\<rparr> k j rs
     else Inr rs) j []"

section \<open>Pages\<close>

text \<open>The embedded \<open>pagination\<close> and the resources of a listing\<close>

record 'r page =
  pg_TotalResults :: int
  pg_TotalPages :: int
  pg_NextPath :: string
  pg_Resources :: "'r list"

definition emptyPage :: "'r page" where
  "emptyPage = \<lparr>pg_TotalResults = 0, pg_TotalPages = 0, pg_NextPath = [], pg_Resources = []\<rparr>"

definition decodePage :: "(json \<Rightarrow> 'r \<Rightarrow> gerr + 'r) \<Rightarrow> 'r \<Rightarrow> json \<Rightarrow> gerr + 'r page" where
  "decodePage dec zero j = decodeStruct ''response'' (\<lambda>k j p.
     if key_is k ''total_results'' then map_sum id (\<lambda>n. p\<lparr>pg_TotalResults := n\<rparr>) (decodeInt k j (pg_TotalResults p))
     else if key_is k ''total_pages'' then map_sum id (\<lambda>n. p\<lparr>pg_TotalPages := n\<rparr>) (decodeInt k j (pg_TotalPages p))
     else if key_is k ''next_url'' then map_sum id (\<lambda>s. p\<lparr>pg_NextPath := s\<rparr>) (decodeStr k j (pg_NextPath p))
     else if key_is k ''resources'' then map_sum id (\<lambda>rs. p\<lparr>pg_Resources := rs\<rparr>) (decodeSlice dec zero k j (pg_Resources p))
     else Inr p) j emptyPage"

text \<open>
  \<open>infoResponse\<close>: the decoder notes the first value of a wrong type and goes on, and one caller uses
  what it read although there was an error.
\<close>

record infoResponse =
  info_APIVersion :: string
  info_OSBAPIVersion :: string

fun decodeInfoFields :: "(string \<times> json) list \<Rightarrow> gerr option \<times> infoResponse \<Rightarrow> gerr option \<times> infoResponse" where
  "decodeInfoFields [] (er, i) = (er, i)"
| "decodeInfoFields ((k, j) # kvs) (er, i) =
     (let first = \<lambda>e. (case er of None \<Rightarrow> Some e | Some e' \<Rightarrow> Some e') in
      if key_is k ''api_version'' then
        (case decodeStr k j (info_APIVersion i) of Inl e \<Rightarrow> decodeInfoFields kvs (first e, i)
         | Inr s \<Rightarrow> decodeInfoFields kvs (er, i\<lparr>info_APIVersion := s\<rparr>))
      else if key_is k ''osbapi_version'' then
        (case decodeStr k j (info_OSBAPIVersion i) of Inl e \<Rightarrow> decodeInfoFields kvs (first e, i)
         | Inr s \<Rightarrow> decodeInfoFields kvs (er, i\<lparr>info_OSBAPIVersion := s\<rparr>))
      else decodeInfoFields kvs (er, i))"

definition zero_info :: infoResponse where
  "zero_info = \<lparr>info_APIVersion = [], info_OSBAPIVersion = []\<rparr>"

definition decodeInfo :: "json \<Rightarrow> gerr option \<times> infoResponse" where
  "decodeInfo j = (case j of JNull \<Rightarrow> (None, zero_info) | JObj kvs \<Rightarrow> decodeInfoFields kvs (None, zero_info)
     | _ \<Rightarrow> (Some (typeError ''infoResponse''), zero_info))"

section \<open>Requests\<close>

text \<open>\<open>json.Unmarshal\<close> of a whole body\<close>

definition unmarshalBody :: "(json \<Rightarrow> gerr option \<times> 'a) \<Rightarrow> 'a \<Rightarrow> wire \<Rightarrow> gerr option \<times> 'a" where
  "unmarshalBody dec zero w = (case w of
      WEmpty \<Rightarrow> (Some (ErrorString ''unexpected end of JSON input''), zero)
    | WMalformed m \<Rightarrow> (Some (ErrorString m), zero)
    | WJson j \<Rightarrow> dec j)"

text \<open>A decoder whose partial result nobody looks at\<close>

definition orZero :: "(json \<Rightarrow> gerr + 'a) \<Rightarrow> 'a \<Rightarrow> json \<Rightarrow> gerr option \<times> 'a" where
  "orZero dec zero j = (case dec j of Inl e \<Rightarrow> (Some e, zero) | Inr x \<Rightarrow> (None, x))"

definition errorMessageFromRawBody :: "HttpResponse \<Rightarrow> string" where
  "errorMessageFromRawBody response =
     (let dec = (\<lambda>j. decodeStruct ''errorResponse''
            (\<lambda>k j d. if key_is k ''description'' then decodeStr k j d else Inr d) j []) in
      case unmarshalBody (orZero dec []) [] (rs_Json response) of
        (Some _, _) \<Rightarrow> rs_Text response
      | (None, description) \<Rightarrow> description)"

definition unexpectedStatus :: "cfenv \<Rightarrow> HttpResponse \<Rightarrow> gerr" where
  "unexpectedStatus E response = ErrorString (''Unexpected reponse status '' @ show_int (rs_StatusCode response)
     @ '', '' @ quoted E (rs_Text response))"

definition readResponse :: "cfenv \<Rightarrow> (json \<Rightarrow> gerr option \<times> 'a) \<Rightarrow> 'a \<Rightarrow> HttpResponse \<Rightarrow> gerr option \<times> 'a" where
  "readResponse E dec obj response =
     (let code = rs_StatusCode response in
      if code = 200 then
        (if rs_Text response = ''{}'' then (Some (InvalidResponseError ''Empty response body''), obj)
         else (case unmarshalBody dec obj (rs_Json response) of
             (Some err, x) \<Rightarrow> (Some (InvalidResponseError (''Invalid response body: '' @ errmsg err)), x)
           | (None, x) \<Rightarrow> (None, x)))
      else if code = 404 then (Some (ResourceNotFoundError (errorMessageFromRawBody response)), obj)
      else if code = 401 then (Some (UnauthorizedError (errorMessageFromRawBody response)), obj)
      else if code = 403 then (Some (ForbiddenError (errorMessageFromRawBody response)), obj)
      else (Some (unexpectedStatus E response), obj))"

text \<open>\<open>http.NewRequest\<close>, \<open>AddAuthHeader\<close>, one more header, \<open>client.Do\<close>\<close>

definition exchange :: "cfenv \<Rightarrow> string \<Rightarrow> string \<Rightarrow> smap \<Rightarrow> string \<Rightarrow> (gerr + HttpResponse) cf_m" where
  "exchange E meth url header body =
     (case urlError E url of Some err \<Rightarrow> ret (Inl err)
      | None \<Rightarrow>
        attempt (ext_call (o_AuthHeader E) EAuthHeader) (\<lambda>err. ret (Inl err)) (\<lambda>auth.
        let request = \<lparr>rq_Method = meth, rq_URL = url, rq_Headers = auth @ header, rq_Body = body\<rparr> in
        ext_call (\<lambda>h. o_Do E h request) (EHttp request)))"

definition cf_get :: "cfenv \<Rightarrow> string \<Rightarrow> (json \<Rightarrow> gerr option \<times> 'a) \<Rightarrow> 'a \<Rightarrow> (gerr option \<times> 'a) cf_m" where
  "cf_get E url dec obj =
     attempt (exchange E ''GET'' url [] []) (\<lambda>err. ret (Some err, obj)) (\<lambda>response.
     ret (readResponse E dec obj response))"

definition cf_read :: "cfenv \<Rightarrow> string \<Rightarrow> (json \<Rightarrow> gerr + 'a) \<Rightarrow> 'a \<Rightarrow> (gerr + 'a) cf_m" where
  "cf_read E url dec zero = seq (cf_get E url (orZero dec zero) zero) (\<lambda>r. case r of
      (Some err, _) \<Rightarrow> ret (Inl err) | (None, x) \<Rightarrow> ret (Inr x))"

definition formEncoded :: smap where
  "formEncoded = [(''Content-Type'', ''application/x-www-form-urlencoded'')]"

definition cf_post :: "cfenv \<Rightarrow> string \<Rightarrow> string \<Rightarrow> (gerr + HttpResponse) cf_m" where
  "cf_post E url body = exchange E ''POST'' url [(''Content-Type'', ''application/json'')] body"

definition cf_put :: "cfenv \<Rightarrow> string \<Rightarrow> string \<Rightarrow> (gerr + HttpResponse) cf_m" where
  "cf_put E url body = exchange E ''PUT'' url formEncoded body"

definition cf_delete :: "cfenv \<Rightarrow> string \<Rightarrow> (gerr + unit) cf_m" where
  "cf_delete E url =
     attempt (exchange E ''DELETE'' url formEncoded []) (\<lambda>err. ret (Inl err)) (\<lambda>resp.
     if rs_StatusCode resp \<in> {204, 202, 404} then ret (Inr ()) else ret (Inl (unexpectedStatus E resp)))"

section \<open>Listings\<close>

definition defaultPerPage :: int where
  "defaultPerPage = 100"

definition perPage :: string where
  "perPage = ''results-per-page='' @ show_int defaultPerPage"

text \<open>\<open>for path != "" { get(c.url + path); ...; path = NextPath }\<close>\<close>

fun listPages :: "nat \<Rightarrow> cfenv \<Rightarrow> Client \<Rightarrow> (json \<Rightarrow> 'r \<Rightarrow> gerr + 'r) \<Rightarrow> 'r \<Rightarrow> string \<Rightarrow> 'r list \<Rightarrow> (gerr + 'r list) cf_m" where
  "listPages 0 E c dec zero path acc = (if path = [] then ret (Inr acc) else out_of_fuel)"
| "listPages (Suc n) E c dec zero path acc =
     (if path = [] then ret (Inr acc)
      else attempt (cf_read E (cf_url c @ path) (decodePage dec zero) emptyPage) (\<lambda>err. ret (Inl err)) (\<lambda>p.
        listPages n E c dec zero (pg_NextPath p) (acc @ pg_Resources p)))"

definition listServiceBrokers :: "nat \<Rightarrow> cfenv \<Rightarrow> Client \<Rightarrow> (gerr + ServiceBroker list) cf_m" where
  "listServiceBrokers n E c =
     attempt (listPages n E c decodeBrokerResource \<lparr>sb_GUID = [], sb_Name = []\<rparr> ''/v2/service_brokers'' [])
       (\<lambda>err. ret (Inl (errorf ''failed to retrieve list of brokers: '' err))) (\<lambda>brokers. ret (Inr brokers))"

definition ServiceBrokers :: "nat \<Rightarrow> cfenv \<Rightarrow> Client \<Rightarrow> (gerr + ServiceBroker list) cf_m" where
  "ServiceBrokers n E c = listServiceBrokers n E c"

fun findByUniqueID :: "string \<Rightarrow> cfservice list \<Rightarrow> cfservice option" where
  "findByUniqueID i [] = None"
| "findByUniqueID i (x # xs) = (if srv_UniqueID x = i then Some x else findByUniqueID i xs)"

fun findService :: "nat \<Rightarrow> cfenv \<Rightarrow> Client \<Rightarrow> string \<Rightarrow> string \<Rightarrow> (gerr + cfservice option) cf_m" where
  "findService 0 E c uniqueID path = (if path = [] then ret (Inr None) else out_of_fuel)"
| "findService (Suc n) E c uniqueID path =
     (if path = [] then ret (Inr None)
      else attempt (cf_read E (cf_url c @ path) (decodePage decodeService zero_service) emptyPage) (\<lambda>err. ret (Inl err)) (\<lambda>resp.
        case findByUniqueID uniqueID (pg_Resources resp) of
          Some s \<Rightarrow> ret (Inr (Some s))
        | None \<Rightarrow> findService n E c uniqueID (pg_NextPath resp)))"

definition findServiceByUniqueID :: "nat \<Rightarrow> cfenv \<Rightarrow> Client \<Rightarrow> string \<Rightarrow> (gerr + cfservice option) cf_m" where
  "findServiceByUniqueID n E c uniqueID = findService n E c uniqueID (''/v2/services?'' @ perPage)"

definition listAllPlans :: "nat \<Rightarrow> cfenv \<Rightarrow> Client \<Rightarrow> string \<Rightarrow> (gerr + cfplan list) cf_m" where
  "listAllPlans n E c path = listPages n E c decodePlan zero_plan (path @ ''?'' @ perPage) []"

definition getPlansForServiceID :: "nat \<Rightarrow> cfenv \<Rightarrow> Client \<Rightarrow> string \<Rightarrow> (gerr + cfplan list) cf_m" where
  "getPlansForServiceID n E c serviceID =
     attempt (findServiceByUniqueID n E c serviceID) (\<lambda>err. ret (Inl err)) (\<lambda>requiredService.
     case requiredService of None \<Rightarrow> ret (Inr [])
     | Some s \<Rightarrow> listAllPlans n E c (srv_ServicePlansUrl s))"

definition getServicePlanVisibilities :: "nat \<Rightarrow> cfenv \<Rightarrow> Client \<Rightarrow> string \<Rightarrow> (gerr + string list) cf_m" where
  "getServicePlanVisibilities n E c planGUID = listPages n E c decodeGUIDResource []
     (''/v2/service_plan_visibilities?q=service_plan_guid:'' @ planGUID @ ''&'' @ perPage) []"

definition GetBindingsForInstance :: "nat \<Rightarrow> cfenv \<Rightarrow> Client \<Rightarrow> string \<Rightarrow> (gerr + cfbinding list) cf_m" where
  "GetBindingsForInstance n E c instanceGUID =
     listPages n E c decodeBindingResource \<lparr>bd_GUID = [], bd_AppGUID = []\<rparr>
       (''/v2/service_instances/'' @ instanceGUID @ ''/service_bindings?'' @ perPage) []"

definition GetServiceKeysForInstance :: "nat \<Rightarrow> cfenv \<Rightarrow> Client \<Rightarrow> string \<Rightarrow> (gerr + string list) cf_m" where
  "GetServiceKeysForInstance n E c instanceGUID = listPages n E c decodeGUIDResource []
     (''/v2/service_instances/'' @ instanceGUID @ ''/service_keys?'' @ perPage) []"

definition toInstance :: "cfplan \<Rightarrow> cfinstance \<Rightarrow> Instance" where
  "toInstance plan i = \<lparr>inst_GUID = si_GUID i, inst_PlanUniqueID = pl_UniqueID plan, inst_SpaceGUID = si_SpaceGUID i\<rparr>"

definition instancesPath :: "cfplan \<Rightarrow> string \<Rightarrow> string" where
  "instancesPath plan query = ''/v2/service_plans/'' @ pl_GUID plan @ ''/service_instances?'' @ perPage @ query"

fun getInstances :: "nat \<Rightarrow> cfenv \<Rightarrow> Client \<Rightarrow> cfplan list \<Rightarrow> string \<Rightarrow> Instance list \<Rightarrow> (gerr + Instance list) cf_m" where
  "getInstances n E c [] query acc = ret (Inr acc)"
| "getInstances n E c (plan # plans) query acc =
     attempt (listPages n E c decodeInstanceResource zero_instance (instancesPath plan query) []) (\<lambda>err. ret (Inl err))
       (\<lambda>is. getInstances n E c plans query (acc @ map (toInstance plan) is))"

definition getOrganization :: "cfenv \<Rightarrow> Client \<Rightarrow> string \<Rightarrow> (gerr + anyresource list) cf_m" where
  "getOrganization E c orgName =
     attempt (cf_read E (cf_url c @ ''/v2/organizations?q=name:'' @ orgName) decodeCFResponse []) (\<lambda>err. ret (Inl err))
       (\<lambda>resources. if resources = [] then ret (Inl (ResourceNotFoundError [])) else ret (Inr resources))"

definition getSpace :: "cfenv \<Rightarrow> Client \<Rightarrow> string \<Rightarrow> string \<Rightarrow> (gerr + anyresource list) cf_m" where
  "getSpace E c orgSpacesURL spaceName =
     attempt (cf_read E (cf_url c @ orgSpacesURL @ ''?q=name:'' @ spaceName) decodeCFResponse []) (\<lambda>err. ret (Inl err))
       (\<lambda>resources. if resources = [] then ret (Inl (ResourceNotFoundError [])) else ret (Inr resources))"

text \<open>\<open>fmt.Sprintf("%s", m[k])\<close>\<close>

definition formatEntry :: "cfenv \<Rightarrow> (string \<times> json) list \<Rightarrow> string \<Rightarrow> string" where
  "formatEntry E m k = (case map_of m k of Some (JStr s) \<Rightarrow> s
     | Some JNull \<Rightarrow> ''%!s(<nil>)'' | None \<Rightarrow> ''%!s(<nil>)'' | Some j \<Rightarrow> fmtJson E j)"

definition createQuery :: "cfenv \<Rightarrow> Client \<Rightarrow> GetInstancesFilter \<Rightarrow> (gerr + string) cf_m" where
  "createQuery E c filters =
     (if gif_OrgName filters \<noteq> [] \<and> gif_SpaceName filters \<noteq> [] then
        attempt (getOrganization E c (gif_OrgName filters)) (\<lambda>err. ret (Inl err)) (\<lambda>orgs.
        case map_of (ar_Entity (hd orgs)) ''spaces_url'' of
          Some (JStr orgSpacesURL) \<Rightarrow>
            attempt (getSpace E c orgSpacesURL (gif_SpaceName filters)) (\<lambda>err. ret (Inl err)) (\<lambda>spaces.
            ret (Inr (''&q=space_guid:'' @ formatEntry E (ar_Metadata (hd spaces)) ''guid'')))
        | _ \<Rightarrow> gopanic ''interface conversion: interface {} is not string'')
      else ret (Inr []))"

definition GetServiceInstances :: "nat \<Rightarrow> cfenv \<Rightarrow> Client \<Rightarrow> GetInstancesFilter \<Rightarrow> (gerr + Instance list) cf_m" where
  "GetServiceInstances n E c filters =
     attempt (getPlansForServiceID n E c (gif_ServiceOfferingID filters)) (\<lambda>err. ret (Inl err)) (\<lambda>plans.
     seq (createQuery E c filters) (\<lambda>r. case r of
        Inl (ResourceNotFoundError _) \<Rightarrow> ret (Inr [])
      | Inl err \<Rightarrow> ret (Inl err)
      | Inr query \<Rightarrow> getInstances n E c plans query []))"

section \<open>Operations\<close>

definition GetServiceInstance :: "cfenv \<Rightarrow> Client \<Rightarrow> string \<Rightarrow> (gerr + cfinstance) cf_m" where
  "GetServiceInstance E c guid =
     cf_read E (cf_url c @ ''/v2/service_instances/'' @ guid) (\<lambda>j. decodeInstanceResource j zero_instance) zero_instance"

definition GetLastOperationForInstance :: "cfenv \<Rightarrow> Client \<Rightarrow> string \<Rightarrow> (gerr + CFLastOperation) cf_m" where
  "GetLastOperationForInstance E c guid =
     attempt (GetServiceInstance E c guid) (\<lambda>err. ret (Inl err)) (\<lambda>i. ret (Inr (si_LastOperation i)))"

definition countServiceInstancesOfServicePlan :: "cfenv \<Rightarrow> Client \<Rightarrow> string \<Rightarrow> (gerr + int) cf_m" where
  "countServiceInstancesOfServicePlan E c path =
     attempt (cf_read E (cf_url c @ path @ ''?'' @ perPage) (decodePage decodeInstanceResource zero_instance) emptyPage)
       (\<lambda>err. ret (Inl err)) (\<lambda>resp. ret (Inr (pg_TotalResults resp)))"

fun countPlans :: "cfenv \<Rightarrow> Client \<Rightarrow> cfplan list \<Rightarrow> (cfplan \<times> int) list \<Rightarrow> (gerr + (cfplan \<times> int) list) cf_m" where
  "countPlans E c [] output = ret (Inr output)"
| "countPlans E c (plan # plans) output =
     attempt (countServiceInstancesOfServicePlan E c (pl_ServiceInstancesUrl plan)) (\<lambda>err. ret (Inl err)) (\<lambda>count.
     countPlans E c plans (AList.update plan count output))"

definition CountInstancesOfServiceOffering :: "nat \<Rightarrow> cfenv \<Rightarrow> Client \<Rightarrow> string \<Rightarrow> (gerr + (cfplan \<times> int) list) cf_m" where
  "CountInstancesOfServiceOffering n E c serviceID =
     attempt (getPlansForServiceID n E c serviceID) (\<lambda>err. ret (Inl err)) (\<lambda>plans. countPlans E c plans [])"

fun findPlan :: "string \<Rightarrow> cfplan list \<Rightarrow> cfplan option" where
  "findPlan i [] = None"
| "findPlan i (p # ps) = (if pl_UniqueID p = i then Some p else findPlan i ps)"

definition CountInstancesOfPlan :: "nat \<Rightarrow> cfenv \<Rightarrow> Client \<Rightarrow> string \<Rightarrow> string \<Rightarrow> (gerr + int) cf_m" where
  "CountInstancesOfPlan n E c serviceID servicePlanID =
     attempt (getPlansForServiceID n E c serviceID) (\<lambda>err. ret (Inl err)) (\<lambda>plans.
     case findPlan servicePlanID plans of
       Some plan \<Rightarrow> countServiceInstancesOfServicePlan E c (pl_ServiceInstancesUrl plan)
     | None \<Rightarrow> ret (Inl (ErrorString (''service plan '' @ servicePlanID @ '' not found for service '' @ serviceID))))"

definition GetPlanByServiceInstanceGUID :: "cfenv \<Rightarrow> Client \<Rightarrow> string \<Rightarrow> (gerr + cfplan) cf_m" where
  "GetPlanByServiceInstanceGUID E c serviceGUID =
     attempt (cf_read E (cf_url c @ ''/v2/service_plans?q=service_instance_guid:'' @ serviceGUID) (decodePage decodePlan zero_plan) emptyPage)
       (\<lambda>err. ret (Inl (errorf (''failed to retrieve plan for service '' @ quoted E serviceGUID @ '': '') err)))
       (\<lambda>resp. case pg_Resources resp of
          [] \<Rightarrow> gopanic ''runtime error: index out of range [0] with length 0''
        | plan # _ \<Rightarrow> ret (Inr plan))"

definition bindingURL :: "Client \<Rightarrow> cfbinding \<Rightarrow> string" where
  "bindingURL c b = cf_url c @ ''/v2/apps/'' @ bd_AppGUID b @ ''/service_bindings/'' @ bd_GUID b"

definition serviceKeyURL :: "Client \<Rightarrow> string \<Rightarrow> string" where
  "serviceKeyURL c guid = cf_url c @ ''/v2/service_keys/'' @ guid"

definition instanceURL :: "Client \<Rightarrow> string \<Rightarrow> string" where
  "instanceURL c guid = cf_url c @ ''/v2/service_instances/'' @ guid @ ''?accepts_incomplete=true''"

definition brokerURL :: "Client \<Rightarrow> string \<Rightarrow> string" where
  "brokerURL c guid = cf_url c @ ''/v2/service_brokers/'' @ guid"

definition planURL :: "Client \<Rightarrow> string \<Rightarrow> string" where
  "planURL c guid = cf_url c @ ''/v2/service_plans/'' @ guid"

definition visibilityURL :: "Client \<Rightarrow> string \<Rightarrow> string" where
  "visibilityURL c guid = cf_url c @ ''/v2/service_plan_visibilities/'' @ guid"

definition DeleteBinding :: "cfenv \<Rightarrow> Client \<Rightarrow> cfbinding \<Rightarrow> (gerr + unit) cf_m" where
  "DeleteBinding E c b = cf_delete E (bindingURL c b)"

definition DeleteServiceKey :: "cfenv \<Rightarrow> Client \<Rightarrow> string \<Rightarrow> (gerr + unit) cf_m" where
  "DeleteServiceKey E c guid = cf_delete E (serviceKeyURL c guid)"

definition DeleteServiceInstance :: "cfenv \<Rightarrow> Client \<Rightarrow> string \<Rightarrow> (gerr + unit) cf_m" where
  "DeleteServiceInstance E c guid = cf_delete E (instanceURL c guid)"

definition DeregisterBroker :: "cfenv \<Rightarrow> Client \<Rightarrow> string \<Rightarrow> (gerr + unit) cf_m" where
  "DeregisterBroker E c guid = cf_delete E (brokerURL c guid)"

text \<open>The last broker of that name\<close>

definition brokerNamed :: "string \<Rightarrow> ServiceBroker list \<Rightarrow> string" where
  "brokerNamed name brokers = foldl (\<lambda>guid b. if sb_Name b = name then sb_GUID b else guid) [] brokers"

definition GetServiceOfferingGUID :: "nat \<Rightarrow> cfenv \<Rightarrow> Client \<Rightarrow> string \<Rightarrow> (gerr + string) cf_m" where
  "GetServiceOfferingGUID n E c brokerName =
     attempt (listServiceBrokers n E c) (\<lambda>err. ret (Inl err)) (\<lambda>brokers. ret (Inr (brokerNamed brokerName brokers)))"

definition UpgradeServiceInstance :: "cfenv \<Rightarrow> Client \<Rightarrow> string \<Rightarrow> string \<Rightarrow> (gerr + CFLastOperation) cf_m" where
  "UpgradeServiceInstance E c guid version =
     attempt (cf_put E (instanceURL c guid)
        (jsonText E (JObj [(''maintenance_info'', JObj [(''version'', JStr version)])]))) (\<lambda>err. ret (Inl err)) (\<lambda>resp.
     if rs_StatusCode resp \<noteq> 202 \<and> rs_StatusCode resp \<noteq> 201 then
       ret (Inl (ErrorString (''unexpected response status '' @ show_int (rs_StatusCode resp)
         @ '' when upgrading service instance '' @ quoted E guid @ ''; response body '' @ quoted E (rs_Text resp))))
     else (case unmarshalBody (orZero (\<lambda>j. decodeInstanceResource j zero_instance) zero_instance) zero_instance (rs_Json resp) of
         (Some err, _) \<Rightarrow> ret (Inl (errorf ''failed to de-serialise the response body: '' err))
       | (None, i) \<Rightarrow> ret (Inr (si_LastOperation i))))"

definition GetAPIVersion :: "cfenv \<Rightarrow> Client \<Rightarrow> (gerr + string) cf_m" where
  "GetAPIVersion E c = seq (cf_get E (cf_url c @ ''/v2/info'') decodeInfo zero_info) (\<lambda>r. case r of
      (Some err, _) \<Rightarrow> ret (Inl err) | (None, i) \<Rightarrow> ret (Inr (info_APIVersion i)))"

definition CheckMinimumOSBAPIVersion :: "cfenv \<Rightarrow> Client \<Rightarrow> string \<Rightarrow> bool cf_m" where
  "CheckMinimumOSBAPIVersion E c minimum = (case ParseTolerant E minimum of
      Inl _ \<Rightarrow> ret False
    | Inr minVersion \<Rightarrow> seq (cf_get E (cf_url c @ ''/v2/info'') decodeInfo zero_info) (\<lambda>r.
        case ParseTolerant E (info_OSBAPIVersion (snd r)) of
          Inl _ \<Rightarrow> ret False | Inr ver \<Rightarrow> ret (semverGE E ver minVersion)))"

section \<open>Service access and the broker's registration\<close>

text \<open>The last plan of that name\<close>

definition findPlanGUID :: "cfplan list \<Rightarrow> string \<Rightarrow> string" where
  "findPlanGUID plans planName = foldl (\<lambda>guid p. if pl_Name p = planName then pl_GUID p else guid) [] plans"

definition unexpectedResponse :: "cfenv \<Rightarrow> string \<Rightarrow> HttpResponse \<Rightarrow> gerr" where
  "unexpectedResponse E what resp = ErrorString (what @ '': unexpected response status ''
     @ show_int (rs_StatusCode resp) @ ''; response body '' @ quoted E (rs_Text resp))"

definition publicBody :: "bool \<Rightarrow> string" where
  "publicBody public = [CHR ''{'', CHR 0x22] @ ''public'' @ [CHR 0x22] @ '':'' @ (if public then ''true'' else ''false'') @ ''}''"

definition setAccessForPlan :: "cfenv \<Rightarrow> Client \<Rightarrow> string \<Rightarrow> bool \<Rightarrow> (gerr + unit) cf_m" where
  "setAccessForPlan E c planGUID public =
     attempt (cf_put E (planURL c planGUID) (publicBody public)) (\<lambda>err. ret (Inl err)) (\<lambda>resp.
     if rs_StatusCode resp \<noteq> 201
     then ret (Inl (unexpectedResponse E (''failed to update service access for plan '' @ planGUID) resp))
     else ret (Inr ()))"

fun deleteVisibilities :: "cfenv \<Rightarrow> Client \<Rightarrow> string \<Rightarrow> string list \<Rightarrow> (gerr + unit) cf_m" where
  "deleteVisibilities E c planGUID [] = ret (Inr ())"
| "deleteVisibilities E c planGUID (v # vs) =
     attempt (cf_delete E (visibilityURL c v))
       (\<lambda>err. ret (Inl (errorf (''failed to delete plan visibility for plan '' @ planGUID @ '': '') err)))
       (\<lambda>_. deleteVisibilities E c planGUID vs)"

definition deleteServicePlanVisibilities :: "nat \<Rightarrow> cfenv \<Rightarrow> Client \<Rightarrow> string \<Rightarrow> (gerr + unit) cf_m" where
  "deleteServicePlanVisibilities n E c planGUID =
     attempt (getServicePlanVisibilities n E c planGUID)
       (\<lambda>err. ret (Inl (errorf (''failed to get plan visibilities for plan '' @ planGUID @ '': '') err)))
       (\<lambda>vs. deleteVisibilities E c planGUID vs)"

definition planNotFound :: "cfenv \<Rightarrow> string \<Rightarrow> gerr" where
  "planNotFound E planName = ErrorString (''planID '' @ quoted E planName @ '' not found while updating plan access'')"

definition manageServiceAccess :: "nat \<Rightarrow> cfenv \<Rightarrow> Client \<Rightarrow> string \<Rightarrow> string \<Rightarrow> bool \<Rightarrow> (gerr + unit) cf_m" where
  "manageServiceAccess n E c serviceOfferingID planName isPublic =
     attempt (getPlansForServiceID n E c serviceOfferingID) (\<lambda>err. ret (Inl err)) (\<lambda>plans.
     let planGUID = findPlanGUID plans planName in
     if planGUID = [] then ret (Inl (planNotFound E planName))
     else attempt (setAccessForPlan E c planGUID isPublic) (\<lambda>err. ret (Inl err)) (\<lambda>_.
       attempt (deleteServicePlanVisibilities n E c planGUID)
         (\<lambda>err. ret (Inl (errorf (''failed to delete plan visibilities for plan '' @ planGUID @ '': '') err)))
         (\<lambda>_. ret (Inr ()))))"

definition EnableServiceAccess :: "nat \<Rightarrow> cfenv \<Rightarrow> Client \<Rightarrow> string \<Rightarrow> string \<Rightarrow> (gerr + unit) cf_m" where
  "EnableServiceAccess n E c serviceOfferingID planName = manageServiceAccess n E c serviceOfferingID planName True"

definition DisableServiceAccess :: "nat \<Rightarrow> cfenv \<Rightarrow> Client \<Rightarrow> string \<Rightarrow> string \<Rightarrow> (gerr + unit) cf_m" where
  "DisableServiceAccess n E c serviceOfferingID planName = manageServiceAccess n E c serviceOfferingID planName False"

fun disableAll :: "cfenv \<Rightarrow> Client \<Rightarrow> cfplan list \<Rightarrow> (gerr + unit) cf_m" where
  "disableAll E c [] = ret (Inr ())"
| "disableAll E c (p # ps) =
     attempt (setAccessForPlan E c (pl_GUID p) False) (\<lambda>err. ret (Inl err)) (\<lambda>_. disableAll E c ps)"

definition DisableServiceAccessForAllPlans :: "nat \<Rightarrow> cfenv \<Rightarrow> Client \<Rightarrow> string \<Rightarrow> (gerr + unit) cf_m" where
  "DisableServiceAccessForAllPlans n E c serviceOfferingID =
     attempt (getPlansForServiceID n E c serviceOfferingID) (\<lambda>err. ret (Inl err)) (\<lambda>plans. disableAll E c plans)"

definition quote :: "string \<Rightarrow> string" where
  "quote s = [CHR 0x22] @ s @ [CHR 0x22]"

definition visibilityBody :: "string \<Rightarrow> string \<Rightarrow> string" where
  "visibilityBody planGUID orgGUID = ''{'' @ quote ''service_plan_guid'' @ '':'' @ quote planGUID @ '',''
     @ quote ''organization_guid'' @ '':'' @ quote orgGUID @ ''}''"

definition CreateServicePlanVisibility :: "nat \<Rightarrow> cfenv \<Rightarrow> Client \<Rightarrow> string \<Rightarrow> string \<Rightarrow> string \<Rightarrow> (gerr + unit) cf_m" where
  "CreateServicePlanVisibility n E c orgName serviceOfferingID planName =
     (let wrapped = errorf ''failed to create service plan visibility: '' in
      attempt (getOrganization E c orgName)
        (\<lambda>err. case err of
            ResourceNotFoundError _ \<Rightarrow> ret (Inl (ErrorString (''failed to find org with name '' @ quoted E orgName)))
          | _ \<Rightarrow> ret (Inl (wrapped err))) (\<lambda>orgs.
      let orgGUID = formatEntry E (ar_Metadata (hd orgs)) ''guid'' in
      attempt (getPlansForServiceID n E c serviceOfferingID) (\<lambda>err. ret (Inl (wrapped err))) (\<lambda>plans.
      let planGUID = findPlanGUID plans planName in
      if planGUID = [] then ret (Inl (planNotFound E planName))
      else attempt (cf_post E (cf_url c @ ''/v2/service_plan_visibilities'') (visibilityBody planGUID orgGUID))
        (\<lambda>err. ret (Inl (wrapped err))) (\<lambda>response.
        if rs_StatusCode response \<noteq> 201
        then ret (Inl (ErrorString (''unexpected status code '' @ show_int (rs_StatusCode response)
          @ '' when creating service plan visibility'')))
        else ret (Inr ())))))"

text \<open>The values are put between quotes as they are.\<close>

definition brokerBody :: "string \<Rightarrow> string \<Rightarrow> string \<Rightarrow> string \<Rightarrow> string" where
  "brokerBody name username password url =
     (let field = \<lambda>k v. [CHR 0x0A, CHR 0x09, CHR 0x09] @ quote k @ '': '' @ quote v in
      ''{'' @ field ''name'' name @ '','' @ field ''broker_url'' url @ '','' @ field ''auth_username'' username
      @ '','' @ field ''auth_password'' password @ [CHR 0x0A, CHR 0x09] @ ''}'')"

definition CreateServiceBroker :: "cfenv \<Rightarrow> Client \<Rightarrow> string \<Rightarrow> string \<Rightarrow> string \<Rightarrow> string \<Rightarrow> (gerr + unit) cf_m" where
  "CreateServiceBroker E c name username password url =
     attempt (cf_post E (cf_url c @ ''/v2/service_brokers'') (brokerBody name username password url)) (\<lambda>err. ret (Inl err)) (\<lambda>resp.
     if rs_StatusCode resp = 201 then ret (Inr ())
     else ret (Inl (unexpectedResponse E (''failed to create service broker '' @ name) resp)))"

definition UpdateServiceBroker :: "cfenv \<Rightarrow> Client \<Rightarrow> string \<Rightarrow> string \<Rightarrow> string \<Rightarrow> string \<Rightarrow> string \<Rightarrow> (gerr + unit) cf_m" where
  "UpdateServiceBroker E c guid name username password url =
     attempt (cf_put E (brokerURL c guid) (brokerBody name username password url)) (\<lambda>err. ret (Inl err)) (\<lambda>resp.
     if rs_StatusCode resp \<noteq> 200
     then ret (Inl (unexpectedResponse E (''failed to update service broker '' @ name) resp))
     else ret (Inr ()))"

section \<open>What the requests do\<close>

text \<open>Every request other than a GET can change Cloud Foundry.\<close>

type_synonym cfwrite = "string \<times> string \<times> string"

definition cf_write :: "ievent \<Rightarrow> cfwrite list" where
  "cf_write e = (case e of
      EHttp rq _ \<Rightarrow> if rq_Method rq = ''GET'' then [] else [(rq_Method rq, rq_URL rq, rq_Body rq)]
    | _ \<Rightarrow> [])"

definition writes :: "ievent list \<Rightarrow> cfwrite list" where
  "writes tr = concat (map cf_write tr)"

definition delete_of :: "string \<Rightarrow> cfwrite" where
  "delete_of url = (''DELETE'', url, [])"

lemma writes_simps [simp]:
  "writes [] = []" "writes (e # tr) = cf_write e @ writes tr" "writes (tr @ tr') = writes tr @ writes tr'"
  by (simp_all add: writes_def)

lemma cf_write_simps [simp]:
  "cf_write (EAuthHeader a) = []"
  "cf_write (ESleep d) = []"
  "cf_write (EHttp \<lparr>rq_Method = m, rq_URL = u, rq_Headers = hs, rq_Body = b\<rparr> r) = (if m = ''GET'' then [] else [(m, u, b)])"
  by (simp_all add: cf_write_def)

named_theorems cf_spec \<open>what a run of an operation of the client does\<close>

lemma ens_exchange:
  assumes "\<And>e. urlError E url = Some e \<Longrightarrow> \<Phi> (Val (Inl e)) tr"
    and "\<And>e. \<Phi> (Val (Inl e)) (tr @ [EAuthHeader (Inl e)])"
    and "\<And>auth r. \<Phi> (Val r) (tr @ [EAuthHeader (Inr auth),
           EHttp \<lparr>rq_Method = meth, rq_URL = url, rq_Headers = auth @ header, rq_Body = body\<rparr> r])"
  shows "ensures \<Phi> tr (exchange E meth url header body)"
  unfolding exchange_def Let_def using assms
  by (auto split: option.splits intro!: ens)

lemma read_only_read [cf_spec]: "ensures (\<lambda>r tr. (\<exists>x. r = Val x) \<and> writes tr = []) [] (cf_read E url dec zero)"
  unfolding cf_read_def cf_get_def attempt_def seq_seq
  by (rule ens_seq_general, rule ens_exchange)
     (auto intro!: ens split: sum.splits option.splits prod.splits)


text \<open>Reading: nothing is changed, whatever the outcome.\<close>

definition reads :: "'a cf_m \<Rightarrow> bool" where
  "reads m \<longleftrightarrow> ensures (\<lambda>r tr. writes tr = []) [] m"

lemma reads_ret [cf_spec]: "reads (ret x)"
  and reads_gopanic [cf_spec]: "reads (gopanic p)"
  and reads_out_of_fuel [cf_spec]: "reads out_of_fuel"
  by (simp_all add: reads_def ensures_def run)

lemma reads_seq [cf_spec]: "reads m \<Longrightarrow> (\<And>x. reads (k x)) \<Longrightarrow> reads (seq m k)"
  unfolding reads_def by (rule ens_seq_sub [where \<Psi> = "\<lambda>r tr. writes tr = []"])
    (auto intro: ens_sub [where \<Psi> = "\<lambda>r tr. writes tr = []"])

lemma reads_attempt [cf_spec]:
  "reads m \<Longrightarrow> (\<And>e. reads (h e)) \<Longrightarrow> (\<And>x. reads (k x)) \<Longrightarrow> reads (attempt m h k)"
  unfolding attempt_def by (rule reads_seq) (simp_all split: sum.splits)

lemma reads_cf_read [cf_spec]: "reads (cf_read E url dec zero)"
  unfolding reads_def by (rule ensures_mono [OF read_only_read]) simp

lemma reads_listPages [cf_spec]: "reads (listPages n E c dec zero path acc)"
  by (induction n arbitrary: path acc) (auto intro!: cf_spec)

lemma reads_findService [cf_spec]: "reads (findService n E c i path)"
  by (induction n arbitrary: path) (auto intro!: cf_spec split: option.splits)

lemma reads_getPlans [cf_spec]: "reads (getPlansForServiceID n E c i)"
  by (auto simp: getPlansForServiceID_def findServiceByUniqueID_def listAllPlans_def intro!: cf_spec split: option.splits)

lemma reads_getInstances [cf_spec]: "reads (getInstances n E c plans query acc)"
  by (induction plans arbitrary: acc) (auto intro!: cf_spec)

lemma reads_getOrganization [cf_spec]: "reads (getOrganization E c org)"
  by (auto simp: getOrganization_def intro!: cf_spec)

lemma reads_createQuery [cf_spec]: "reads (createQuery E c f)"
  by (auto simp: createQuery_def getSpace_def intro!: cf_spec split: option.splits json.splits)

lemma reads_GetServiceInstances [cf_spec]: "reads (GetServiceInstances n E c f)"
  by (auto simp: GetServiceInstances_def intro!: cf_spec split: sum.splits gerr.splits)

lemma reads_lists [cf_spec]:
  "reads (GetBindingsForInstance n E c g)" "reads (GetServiceKeysForInstance n E c g)"
  "reads (getServicePlanVisibilities n E c p)" "reads (listServiceBrokers n E c)"
  "reads (GetServiceOfferingGUID n E c b)"
  by (auto simp: GetBindingsForInstance_def GetServiceKeysForInstance_def getServicePlanVisibilities_def
      listServiceBrokers_def GetServiceOfferingGUID_def intro!: cf_spec)

text \<open>
  The header builder and the transport report failures of their own; the error types of \<open>cf/errors.go\<close>
  are made by \<open>readResponse\<close> alone.
\<close>

fun is_cf_error :: "gerr \<Rightarrow> bool" where
  "is_cf_error (ResourceNotFoundError _) = True"
| "is_cf_error (UnauthorizedError _) = True"
| "is_cf_error (ForbiddenError _) = True"
| "is_cf_error (InvalidResponseError _) = True"
| "is_cf_error _ = False"

definition plain_transport :: "cfenv \<Rightarrow> bool" where
  "plain_transport E \<longleftrightarrow> (\<forall>url e. urlError E url = Some e \<longrightarrow> \<not> is_cf_error e)
     \<and> (\<forall>h e. o_AuthHeader E h = Inl e \<longrightarrow> \<not> is_cf_error e)
     \<and> (\<forall>h rq e. o_Do E h rq = Inl e \<longrightarrow> \<not> is_cf_error e)"

text \<open>Cloud Foundry answered that the instance does not exist.\<close>

definition missing :: "Client \<Rightarrow> string \<Rightarrow> ievent \<Rightarrow> bool" where
  "missing c g e \<longleftrightarrow> (case e of EHttp rq (Inr resp) \<Rightarrow> rq_Method rq = ''GET''
       \<and> rq_URL rq = cf_url c @ ''/v2/service_instances/'' @ g \<and> rs_StatusCode resp = 404 | _ \<Rightarrow> False)"

lemma plain_transport_missing:
  assumes "plain_transport E"
  shows "urlError E url \<noteq> Some (ResourceNotFoundError m)" "o_AuthHeader E h \<noteq> Inl (ResourceNotFoundError m)"
    "o_Do E h rq \<noteq> Inl (ResourceNotFoundError m)"
  using assms unfolding plain_transport_def by (metis is_cf_error.simps(1))+

lemma ens_exchange_answer:
  assumes "\<And>e. urlError E url = Some e \<Longrightarrow> \<Phi> (Val (Inl e)) tr"
    and "\<And>h e. o_AuthHeader E h = Inl e \<Longrightarrow> \<Phi> (Val (Inl e)) (tr @ [EAuthHeader (Inl e)])"
    and "\<And>auth h r. let rq = \<lparr>rq_Method = meth, rq_URL = url, rq_Headers = auth @ header, rq_Body = body\<rparr> in
           r = o_Do E h rq \<longrightarrow> \<Phi> (Val r) (tr @ [EAuthHeader (Inr auth), EHttp rq r])"
  shows "ensures \<Phi> tr (exchange E meth url header body)"
proof (cases "urlError E url")
  case (Some e)
  then show ?thesis by (auto simp: exchange_def intro!: ens assms(1))
next
  case None
  have "ensures \<Phi> (tr @ [EAuthHeader (Inr auth)])
     (ext_call (\<lambda>h. o_Do E h \<lparr>rq_Method = meth, rq_URL = url, rq_Headers = auth @ header, rq_Body = body\<rparr>)
        (EHttp \<lparr>rq_Method = meth, rq_URL = url, rq_Headers = auth @ header, rq_Body = body\<rparr>))" for auth
    using assms(3) by (auto simp: ensures_def ext_call_def Let_def)
  with None show ?thesis
    by (simp add: exchange_def) (rule ens_attempt_answer, rule ens_ret, erule assms(2), simp add: Let_def)
qed

lemma readResponse_missing:
  "readResponse E dec obj resp = (Some (ResourceNotFoundError m), x) \<Longrightarrow> rs_StatusCode resp = 404"
  by (auto simp: readResponse_def Let_def unexpectedStatus_def split: if_splits option.splits prod.splits)

lemma last_operation_missing:
  assumes "plain_transport E"
  shows "ensures (\<lambda>r tr. writes tr = [] \<and> ((\<exists>m. r = Val (Inl (ResourceNotFoundError m))) \<longrightarrow> tr \<noteq> [] \<and> missing c g (last tr)))
     [] (GetLastOperationForInstance E c g)"
  unfolding GetLastOperationForInstance_def GetServiceInstance_def cf_read_def cf_get_def attempt_def seq_seq
  by (rule ens_seq_general, rule ens_exchange_answer)
     (use plain_transport_missing [OF assms] in \<open>auto simp: missing_def Let_def dest!: readResponse_missing
       intro!: ens split: sum.splits option.splits prod.splits\<close>)

definition sends :: "cfwrite \<Rightarrow> (gerr + unit) cf_m \<Rightarrow> bool" where
  "sends w m \<longleftrightarrow> ensures (\<lambda>r tr. (\<exists>res. r = Val res) \<and> writes tr \<in> {[], [w]} \<and> (r = Val (Inr ()) \<longrightarrow> writes tr = [w])) [] m"

lemma sends_cf_delete [cf_spec]: "sends (delete_of url) (cf_delete E url)"
  unfolding sends_def cf_delete_def attempt_def
  by (rule ens_seq_general, rule ens_exchange)
     (auto simp: delete_of_def intro!: ens split: sum.splits)

lemma sends_deletes [cf_spec]:
  "sends (delete_of (bindingURL c b)) (DeleteBinding E c b)"
  "sends (delete_of (serviceKeyURL c g)) (DeleteServiceKey E c g)"
  "sends (delete_of (instanceURL c g)) (DeleteServiceInstance E c g)"
  "sends (delete_of (brokerURL c g)) (DeregisterBroker E c g)"
  by (simp_all add: DeleteBinding_def DeleteServiceKey_def DeleteServiceInstance_def DeregisterBroker_def sends_cf_delete)

lemma sends_setAccess [cf_spec]: "sends (''PUT'', planURL c g, publicBody public) (setAccessForPlan E c g public)"
  unfolding sends_def setAccessForPlan_def cf_put_def attempt_def
  by (rule ens_seq_general, rule ens_exchange) (auto intro!: ens split: sum.splits)

end
