(* ===== verification/ServiceAdapter.thy ===== *)
theory ServiceAdapter
  imports Broker CFClient
begin

text \<open>
  The client of the service adapter, an executable of the service's author (\<open>serviceadapter\<close>): what the client
  hands it, how it is run, and what becomes of its output and exit code.

  Values that were read from YAML are trees of type \<open>goval\<close>; they differ from JSON in the maps with keys of any
  type, and in the slice that is nil.  \<open>json.Marshal\<close> is \<open>toJson\<close> followed by the library's rendering
  \<open>sa_marshal\<close>; \<open>sa_unmarshal\<close> reads the text back, \<open>sa_yaml\<close> reads the parts of a manifest that are checked.  The
  executable is an oracle.
\<close>

section \<open>Values from YAML\<close>

text \<open>A \<open>float64\<close>: \<open>m \<cdot> 2\<^sup>e\<close>, or one of the values that JSON does not have\<close>

datatype float64 = Finite int int | NaN | PosInf | NegInf

datatype goval = GNull | GBool bool | GNum int | GFloat float64 | GStr string
  | GNilSlice | GSlice "goval list"
  | GMap "(goval \<times> goval) list" \<comment> \<open>\<open>map[interface{}]interface{}\<close>\<close>
  | GObj "(string \<times> goval) list" \<comment> \<open>\<open>map[string]interface{}\<close>\<close>

definition appendSlice :: "goval \<Rightarrow> goval \<Rightarrow> goval" where
  "appendSlice sl v = (case sl of GSlice vs \<Rightarrow> GSlice (vs @ [v]) | _ \<Rightarrow> GSlice [v])"

text \<open>\<open>sanitiseValueForJSON\<close>: \<open>key.(string)\<close> panics for any other key.\<close>

fun sanitiseValueForJSON :: "goval \<Rightarrow> goval outcome"
  and sanitiseMap :: "(goval \<times> goval) list \<Rightarrow> (string \<times> goval) list \<Rightarrow> (string \<times> goval) list outcome"
  and sanitiseSlice :: "goval list \<Rightarrow> goval \<Rightarrow> goval outcome" where
  "sanitiseValueForJSON (GMap castObj) = obind (sanitiseMap castObj []) (\<lambda>sanitisedMap. Val (GObj sanitisedMap))"
| "sanitiseValueForJSON (GSlice castObj) = sanitiseSlice castObj GNilSlice"
| "sanitiseValueForJSON GNilSlice = Val GNilSlice"
| "sanitiseValueForJSON obj = Val obj"
| "sanitiseMap [] m = Val m"
| "sanitiseMap ((key, val) # rest) m = (case key of
      GStr k \<Rightarrow> obind (sanitiseValueForJSON val) (\<lambda>v. sanitiseMap rest (m @ [(k, v)]))
    | _ \<Rightarrow> Panic ''interface conversion: interface {} is not string'')"
| "sanitiseSlice [] sl = Val sl"
| "sanitiseSlice (val # rest) sl = obind (sanitiseValueForJSON val) (\<lambda>v. sanitiseSlice rest (appendSlice sl v))"

fun SanitiseForJSON :: "(string \<times> goval) list \<Rightarrow> (string \<times> goval) list outcome" where
  "SanitiseForJSON [] = Val []"
| "SanitiseForJSON ((k, v) # properties) =
     obind (sanitiseValueForJSON v) (\<lambda>v'. obind (SanitiseForJSON properties) (\<lambda>rest. Val ((k, v') # rest)))"

text \<open>
  The JSON value that \<open>json.Marshal\<close> renders.  A map with keys of any type is not supported, nor is a float that is
  infinite or not a number.
\<close>

definition unsupportedType :: gerr where
  "unsupportedType = ErrorString ''json: unsupported type: map[interface {}]interface {}''"

definition unsupportedValue :: "float64 \<Rightarrow> gerr" where
  "unsupportedValue f = ErrorString (''json: unsupported value: ''
     @ (case f of NaN \<Rightarrow> ''NaN'' | PosInf \<Rightarrow> ''+Inf'' | NegInf \<Rightarrow> ''-Inf'' | Finite m e \<Rightarrow> []))"

fun toJson :: "goval \<Rightarrow> gerr + json"
  and toJsons :: "goval list \<Rightarrow> gerr + json list"
  and toJsonFields :: "(string \<times> goval) list \<Rightarrow> gerr + (string \<times> json) list" where
  "toJson GNull = Inr JNull"
| "toJson (GBool b) = Inr (JBool b)"
| "toJson (GNum n) = Inr (JNum n)"
| "toJson (GFloat f) = (case f of Finite m e \<Rightarrow> Inr (JFloat m e) | _ \<Rightarrow> Inl (unsupportedValue f))"
| "toJson (GStr s) = Inr (JStr s)"
| "toJson GNilSlice = Inr JNull"
| "toJson (GSlice vs) = map_sum id JArr (toJsons vs)"
| "toJson (GMap kvs) = Inl unsupportedType"
| "toJson (GObj kvs) = map_sum id JObj (toJsonFields kvs)"
| "toJsons [] = Inr []"
| "toJsons (v # vs) = (case toJson v of Inl e \<Rightarrow> Inl e | Inr j \<Rightarrow> map_sum id (\<lambda>js. j # js) (toJsons vs))"
| "toJsonFields [] = Inr []"
| "toJsonFields ((k, v) # kvs) = (case toJson v of Inl e \<Rightarrow> Inl e | Inr j \<Rightarrow> map_sum id (\<lambda>js. (k, j) # js) (toJsonFields kvs))"

section \<open>The runner of commands\<close>

datatype execError = ExitError int | OtherError gerr

text \<open>What \<open>cmd.Output()\<close> gives; the exit status of a process that was killed by a signal is -1.\<close>

record cmdOutput =
  co_stdout :: string
  co_stderr :: string
  co_err :: "execError option"

datatype aevent = AdapterRun "string list" "string option" cmdOutput

record saenv =
  o_Exec :: "aevent list \<Rightarrow> string list \<Rightarrow> string option \<Rightarrow> cmdOutput"
  sa_marshal :: "json \<Rightarrow> gerr + string"
  sa_unmarshal :: "string \<Rightarrow> wire"
  sa_yaml :: "string \<Rightarrow> gerr + string \<times> string list \<times> string list"

type_synonym 'a adapter_m = "aevent gstate \<Rightarrow> 'a outcome \<times> aevent gstate"

type_synonym runResult = "string \<times> string \<times> int option \<times> gerr option"

definition runner_run :: "saenv \<Rightarrow> string list \<Rightarrow> string option \<Rightarrow> runResult adapter_m" where
  "runner_run S cmd stdin =
     seq (ext_call (\<lambda>h. o_Exec S h cmd stdin) (AdapterRun cmd stdin)) (\<lambda>out.
     ret (case co_err out of
         Some (ExitError exitStatus) \<Rightarrow> (co_stdout out, co_stderr out, Some exitStatus, None)
       | Some (OtherError err) \<Rightarrow> (co_stdout out, co_stderr out, None, Some err)
       | None \<Rightarrow> (co_stdout out, co_stderr out, Some 0, None)))"

definition runner_Run :: "saenv \<Rightarrow> string list \<Rightarrow> runResult adapter_m" where
  "runner_Run S arg = runner_run S arg None"

text \<open>\<open>json.NewEncoder(b).Encode(inputParams)\<close> ends the text with a line break.\<close>

definition RunWithInputParams :: "saenv \<Rightarrow> json \<Rightarrow> string list \<Rightarrow> runResult adapter_m" where
  "RunWithInputParams S inputParams arg = (case sa_marshal S inputParams of
      Inl err \<Rightarrow> ret ([], [], None, Some err)
    | Inr text \<Rightarrow> runner_run S arg (Some (text @ [CHR 0x0A])))"

section \<open>Exit codes and errors\<close>

definition exitCodeMap :: "int \<Rightarrow> gerr option option" where
  "exitCodeMap = [0 \<mapsto> None,
     10 \<mapsto> Some (NotImplementedError ''command not implemented by service adapter''),
     42 \<mapsto> Some (AppGuidNotProvidedError ''app GUID not provided''),
     49 \<mapsto> Some (BindingAlreadyExistsError ''binding already exists''),
     41 \<mapsto> Some (BindingNotFoundError ''binding not found'')]"

definition ErrorForExitCode :: "int \<Rightarrow> string \<Rightarrow> gerr option" where
  "ErrorForExitCode code message = (case exitCodeMap code of Some err \<Rightarrow> err | None \<Rightarrow> Some (UnknownFailureError message))"

abbreviation q1 :: "string \<Rightarrow> string" where
  "q1 s \<equiv> [CHR 0x27] @ s @ [CHR 0x27]"

definition invalidJSONError :: "string \<Rightarrow> string \<Rightarrow> string \<Rightarrow> gerr \<Rightarrow> gerr" where
  "invalidJSONError adapterPath out err e = ErrorString (''external service adapter returned invalid JSON at '' @ adapterPath
     @ '': stdout: '' @ q1 out @ '', stderr: '' @ q1 err @ '', JSON error: '' @ q1 (errmsg e))"

definition invalidYAMLError :: "string \<Rightarrow> string \<Rightarrow> gerr" where
  "invalidYAMLError adapterPath err = ErrorString (''external service adapter generated manifest that is not valid YAML at ''
     @ adapterPath @ ''. stderr: '' @ q1 err)"

definition adapterError :: "string \<Rightarrow> string \<Rightarrow> string \<Rightarrow> gerr \<Rightarrow> gerr" where
  "adapterError adapterPath out err e = ErrorString (''an error occurred running external service adapter at '' @ adapterPath
     @ '': '' @ q1 (errmsg e) @ ''. stdout: '' @ q1 out @ '', stderr: '' @ q1 err)"

definition incorrectDeploymentNameError :: "string \<Rightarrow> string \<Rightarrow> string \<Rightarrow> string \<Rightarrow> gerr" where
  "incorrectDeploymentNameError adapterPath err expectedName actualName =
     ErrorString (''external service adapter generated manifest with an incorrect deployment name at '' @ adapterPath
       @ ''. expected name: '' @ q1 expectedName @ '', returned name: '' @ q1 actualName @ '', stderr: '' @ q1 err)"

definition invalidVersionError :: "string \<Rightarrow> string \<Rightarrow> string \<Rightarrow> gerr" where
  "invalidVersionError adapterPath err version =
     ErrorString (''external service adapter generated manifest with an incorrect version at '' @ adapterPath
       @ ''. expected exact version but returned version: '' @ q1 version @ '', stderr: '' @ q1 err)"

section \<open>Running the adapter\<close>

record adapterClient =
  ExternalBinPath :: string
  UsingStdin :: bool

text \<open>
  \<open>InputParams\<close> as JSON: all of its structs are rendered, empty but for the one that is given.
\<close>

definition inputParams :: "string \<Rightarrow> (string \<times> string) list \<Rightarrow> json" where
  "inputParams command given =
     (let blank = (\<lambda>names. JObj (map (\<lambda>n. (n, JStr [])) names));
          binding = [''binding_id'', ''bosh_vms'', ''manifest'', ''request_parameters'', ''secrets'', ''dns_addresses''] in
      JObj (map_set command (JObj (map (\<lambda>(k, v). (k, JStr v)) given))
        [(''generate_manifest'', blank [''service_deployment'', ''plan'', ''previous_plan'', ''previous_manifest'',
            ''request_parameters'', ''previous_secrets'', ''previous_configs'', ''uaa_client'']),
         (''dashboard_url'', blank [''instance_id'', ''plan'', ''manifest'']),
         (''create_binding'', blank binding),
         (''delete_binding'', blank binding),
         (''generate_plan_schemas'', blank [''plan''])]))"

text \<open>
  The middle part that all operations share: run, then look at the error, then at the exit code.  \<open>*exitCode\<close>
  panics when it is nil.
\<close>

definition invoke :: "saenv \<Rightarrow> adapterClient \<Rightarrow> json \<Rightarrow> string list \<Rightarrow> string list \<Rightarrow> (gerr + string \<times> string) adapter_m" where
  "invoke S c params command args =
     seq (if UsingStdin c then RunWithInputParams S params (ExternalBinPath c # command)
          else runner_Run S (ExternalBinPath c # command @ args)) (\<lambda>(out, err, exitCode, e).
     case e of
       Some e \<Rightarrow> ret (Inl (adapterError (ExternalBinPath c) out err e))
     | None \<Rightarrow> (case exitCode of
           None \<Rightarrow> gopanic ''runtime error: invalid memory address or nil pointer dereference''
         | Some code \<Rightarrow> (case ErrorForExitCode code out of
               Some e \<Rightarrow> ret (Inl e)
             | None \<Rightarrow> ret (Inr (out, err)))))"

definition decodeInto :: "(json \<Rightarrow> 'a \<Rightarrow> gerr + 'a) \<Rightarrow> 'a \<Rightarrow> wire \<Rightarrow> gerr + 'a" where
  "decodeInto dec zero w = (case w of
      WEmpty \<Rightarrow> Inl (ErrorString ''unexpected end of JSON input'')
    | WMalformed m \<Rightarrow> Inl (ErrorString m)
    | WJson j \<Rightarrow> dec j zero)"

section \<open>Bindings\<close>

definition zero_binding :: Binding where
  "zero_binding = \<lparr>bind_Credentials = [], bind_SyslogDrainURL = [], bind_RouteServiceURL = [], bind_BackupAgentURL = []\<rparr>"

definition decodeBinding :: "json \<Rightarrow> Binding \<Rightarrow> gerr + Binding" where
  "decodeBinding = decodeStruct ''Binding'' (\<lambda>k j b.
     if key_is k ''credentials'' then map_sum id (\<lambda>m. b\<lparr>bind_Credentials := m\<rparr>) (decodeAnyMap k j (bind_Credentials b))
     else if key_is k ''syslog_drain_url'' then map_sum id (\<lambda>s. b\<lparr>bind_SyslogDrainURL := s\<rparr>) (decodeStr k j (bind_SyslogDrainURL b))
     else if key_is k ''route_service_url'' then map_sum id (\<lambda>s. b\<lparr>bind_RouteServiceURL := s\<rparr>) (decodeStr k j (bind_RouteServiceURL b))
     else if key_is k ''backup_agent_url'' then map_sum id (\<lambda>s. b\<lparr>bind_BackupAgentURL := s\<rparr>) (decodeStr k j (bind_BackupAgentURL b))
     else Inr b)"

definition smapJson :: "smap \<Rightarrow> json" where
  "smapJson m = JObj (map (\<lambda>(k, v). (k, JStr v)) m)"

text \<open>The four serialisations at the start of \<open>CreateBinding\<close> and \<open>DeleteBinding\<close>, the first error first\<close>

definition serialise :: "saenv \<Rightarrow> json \<Rightarrow> (string \<Rightarrow> (gerr + 'a) adapter_m) \<Rightarrow> (gerr + 'a) adapter_m" where
  "serialise S j k = (case sa_marshal S j of Inl err \<Rightarrow> ret (Inl err) | Inr text \<Rightarrow> k text)"

definition bindingParams :: "string \<Rightarrow> string \<Rightarrow> string \<Rightarrow> string \<Rightarrow> string \<Rightarrow> string \<Rightarrow> (string \<times> string) list" where
  "bindingParams bindingID vms manifest requestParams secrets dns =
     [(''binding_id'', bindingID), (''bosh_vms'', vms), (''manifest'', manifest), (''request_parameters'', requestParams),
      (''secrets'', secrets), (''dns_addresses'', dns)]"

text \<open>The error of serialising the DNS addresses is dropped in \<open>CreateBinding\<close>; the text is then empty.\<close>

definition SA_CreateBinding ::
  "saenv \<Rightarrow> adapterClient \<Rightarrow> string \<Rightarrow> json \<Rightarrow> string \<Rightarrow> (string \<times> json) list \<Rightarrow> smap \<Rightarrow> smap \<Rightarrow> (gerr + Binding) adapter_m" where
  "SA_CreateBinding S c bindingID deploymentTopology manifest requestParams secrets dnsAddresses =
     serialise S deploymentTopology (\<lambda>serialisedBoshVMs.
     serialise S (JObj requestParams) (\<lambda>serialisedRequestParams.
     serialise S (smapJson secrets) (\<lambda>serialisedSecrets.
     let serialisedDNSAddresses = (case sa_marshal S (smapJson dnsAddresses) of Inl _ \<Rightarrow> [] | Inr text \<Rightarrow> text) in
     attempt (invoke S c
         (inputParams ''create_binding'' (bindingParams bindingID serialisedBoshVMs manifest serialisedRequestParams serialisedSecrets serialisedDNSAddresses))
         [''create-binding''] [bindingID, serialisedBoshVMs, manifest, serialisedRequestParams]) (\<lambda>e. ret (Inl e)) (\<lambda>(out, err).
     case decodeInto decodeBinding zero_binding (sa_unmarshal S out) of
       Inl e \<Rightarrow> ret (Inl (invalidJSONError (ExternalBinPath c) out err e))
     | Inr binding \<Rightarrow> ret (Inr binding)))))"

definition SA_DeleteBinding ::
  "saenv \<Rightarrow> adapterClient \<Rightarrow> string \<Rightarrow> json \<Rightarrow> string \<Rightarrow> (string \<times> json) list \<Rightarrow> smap \<Rightarrow> smap \<Rightarrow> (gerr + unit) adapter_m" where
  "SA_DeleteBinding S c bindingID deploymentTopology manifest requestParams secretsMap dnsAddresses =
     serialise S deploymentTopology (\<lambda>serialisedBoshVMs.
     serialise S (JObj requestParams) (\<lambda>serialisedRequestParams.
     serialise S (smapJson secretsMap) (\<lambda>serialisedSecrets.
     serialise S (smapJson dnsAddresses) (\<lambda>serialisedDNSAddresses.
     attempt (invoke S c
         (inputParams ''delete_binding'' (bindingParams bindingID serialisedBoshVMs manifest serialisedRequestParams serialisedSecrets serialisedDNSAddresses))
         [''delete-binding''] [bindingID, serialisedBoshVMs, manifest, serialisedRequestParams]) (\<lambda>e. ret (Inl e)) (\<lambda>_.
     ret (Inr ()))))))"

section \<open>Plans\<close>

text \<open>\<open>sdk.Plan\<close>: its properties, and the rest of it as it is rendered\<close>

record sdkPlan =
  sa_Properties :: "(string \<times> goval) list"
  sa_Rest :: "(string \<times> json) list"

definition sanitisePlan :: "sdkPlan \<Rightarrow> sdkPlan outcome" where
  "sanitisePlan plan = obind (SanitiseForJSON (sa_Properties plan)) (\<lambda>properties. Val (plan\<lparr>sa_Properties := properties\<rparr>))"

definition planJson :: "sdkPlan \<Rightarrow> gerr + json" where
  "planJson plan = map_sum id (\<lambda>properties. JObj ((''properties'', JObj properties) # sa_Rest plan)) (toJsonFields (sa_Properties plan))"

definition serialisePlan :: "saenv \<Rightarrow> sdkPlan \<Rightarrow> (string \<Rightarrow> (gerr + 'a) adapter_m) \<Rightarrow> (gerr + 'a) adapter_m" where
  "serialisePlan S plan k = seq (lift_outcome (sanitisePlan plan)) (\<lambda>plan.
     case planJson plan of Inl err \<Rightarrow> ret (Inl err) | Inr j \<Rightarrow> serialise S j k)"

text \<open>
  The result reads the URL before or after \<open>json.Unmarshal\<close> sets it; Go leaves the order open, its compiler calls first.
\<close>

definition SA_GenerateDashboardUrl :: "saenv \<Rightarrow> adapterClient \<Rightarrow> string \<Rightarrow> sdkPlan \<Rightarrow> string \<Rightarrow> (string \<times> gerr option) adapter_m" where
  "SA_GenerateDashboardUrl S c iid plan manifest =
     seq (serialisePlan S plan (\<lambda>text.
       attempt (invoke S c (inputParams ''dashboard_url'' [(''instance_id'', iid), (''plan'', text), (''manifest'', manifest)])
         [''dashboard-url''] [iid, text, manifest]) (\<lambda>e. ret (Inl e)) (\<lambda>(out, err). ret (Inr out))))
     (\<lambda>r. case r of
        Inl e \<Rightarrow> ret ([], Some e)
      | Inr out \<Rightarrow> ret (case decodeInto (decodeStruct ''DashboardUrl'' (\<lambda>k j u. if key_is k ''dashboard_url'' then decodeStr k j u else Inr u))
            [] (sa_unmarshal S out) of Inl e \<Rightarrow> ([], Some e) | Inr url \<Rightarrow> (url, None)))"

definition decodeSchema :: "json \<Rightarrow> (string \<times> json) list \<Rightarrow> gerr + (string \<times> json) list" where
  "decodeSchema = decodeStruct ''Schema'' (\<lambda>k j m. if key_is k ''parameters'' then decodeAnyMap k j m else Inr m)"

definition decodeSchemas :: "json \<Rightarrow> ServiceSchemas \<Rightarrow> gerr + ServiceSchemas" where
  "decodeSchemas = decodeStruct ''ServiceSchemas'' (\<lambda>k j s.
     if key_is k ''service_instance'' then decodeStruct ''ServiceInstanceSchema'' (\<lambda>k j s.
       if key_is k ''create'' then map_sum id (\<lambda>m. s\<lparr>schema_InstanceCreate := m\<rparr>) (decodeSchema j (schema_InstanceCreate s))
       else if key_is k ''update'' then map_sum id (\<lambda>m. s\<lparr>schema_InstanceUpdate := m\<rparr>) (decodeSchema j (schema_InstanceUpdate s))
       else Inr s) j s
     else if key_is k ''service_binding'' then decodeStruct ''ServiceBindingSchema'' (\<lambda>k j s.
       if key_is k ''create'' then map_sum id (\<lambda>m. s\<lparr>schema_BindingCreate := m\<rparr>) (decodeSchema j (schema_BindingCreate s))
       else Inr s) j s
     else Inr s)"

definition SA_GeneratePlanSchema :: "saenv \<Rightarrow> adapterClient \<Rightarrow> sdkPlan \<Rightarrow> (gerr + ServiceSchemas) adapter_m" where
  "SA_GeneratePlanSchema S c plan =
     serialisePlan S plan (\<lambda>text.
     attempt (invoke S c (inputParams ''generate_plan_schemas'' [(''plan'', text)])
         [''generate-plan-schemas''] [''--plan-json'', text]) (\<lambda>e. ret (Inl e)) (\<lambda>(out, err).
     ret (decodeInto decodeSchemas \<lparr>schema_InstanceCreate = [], schema_InstanceUpdate = [], schema_BindingCreate = []\<rparr> (sa_unmarshal S out))))"

section \<open>Manifests\<close>

fun latestVersion :: "string list \<Rightarrow> string option" where
  "latestVersion [] = None"
| "latestVersion (version # versions) = (if has_suffix version ''latest'' then Some version else latestVersion versions)"

definition validateManifest :: "saenv \<Rightarrow> string \<Rightarrow> string \<Rightarrow> string \<Rightarrow> string \<Rightarrow> gerr option" where
  "validateManifest S expectedName adapterPath genManifest err = (case sa_yaml S genManifest of
      Inl _ \<Rightarrow> Some (invalidYAMLError adapterPath err)
    | Inr (name, releases, stemcells) \<Rightarrow>
        if name \<noteq> expectedName then Some (incorrectDeploymentNameError adapterPath err expectedName name)
        else (case latestVersion releases of
            Some version \<Rightarrow> Some (invalidVersionError adapterPath err version)
          | None \<Rightarrow> (case latestVersion stemcells of
                Some version \<Rightarrow> Some (invalidVersionError adapterPath err version)
              | None \<Rightarrow> None)))"

definition decodeStrMap :: "string \<Rightarrow> json \<Rightarrow> smap \<Rightarrow> gerr + smap" where
  "decodeStrMap f j old = (case j of
      JNull \<Rightarrow> Inr []
    | JObj kvs \<Rightarrow> foldl (\<lambda>r (k, v). case r of Inl e \<Rightarrow> Inl e
         | Inr m \<Rightarrow> (case decodeStr f v [] of Inl e \<Rightarrow> Inl e | Inr s \<Rightarrow> Inr (map_set k s m))) (Inr old) kvs
    | _ \<Rightarrow> Inl (typeError f))"

definition zero_generated :: GeneratedManifest where
  "zero_generated = \<lparr>gm_Manifest = [], gm_ODBManagedSecrets = [], gm_Configs = [], gm_Labels = []\<rparr>"

definition decodeGenerated :: "json \<Rightarrow> GeneratedManifest \<Rightarrow> gerr + GeneratedManifest" where
  "decodeGenerated = decodeStruct ''MarshalledGenerateManifest'' (\<lambda>k j g.
     if key_is k ''manifest'' then map_sum id (\<lambda>s. g\<lparr>gm_Manifest := s\<rparr>) (decodeStr k j (gm_Manifest g))
     else if key_is k ''secrets'' then map_sum id (\<lambda>m. g\<lparr>gm_ODBManagedSecrets := m\<rparr>) (decodeAnyMap k j (gm_ODBManagedSecrets g))
     else if key_is k ''configs'' then map_sum id (\<lambda>m. g\<lparr>gm_Configs := m\<rparr>) (decodeStrMap k j (gm_Configs g))
     else if key_is k ''labels'' then map_sum id (\<lambda>m. g\<lparr>gm_Labels := m\<rparr>) (decodeAnyMap k j (gm_Labels g))
     else Inr g)"

record manifestInput =
  mi_DeploymentName :: string
  mi_ServiceDeployment :: json
  mi_Plan :: sdkPlan
  mi_RequestParams :: "(string \<times> json) list"
  mi_PreviousManifest :: string
  mi_PreviousPlan :: "sdkPlan option"
  mi_PreviousSecrets :: smap
  mi_PreviousConfigs :: smap
  mi_UAAClient :: smap

definition serialisePreviousPlan :: "saenv \<Rightarrow> sdkPlan option \<Rightarrow> (string \<Rightarrow> (gerr + 'a) adapter_m) \<Rightarrow> (gerr + 'a) adapter_m" where
  "serialisePreviousPlan S previousPlan k = (case previousPlan of None \<Rightarrow> serialise S JNull k | Some p \<Rightarrow> serialisePlan S p k)"

definition manifestParams :: "string \<Rightarrow> string \<Rightarrow> string \<Rightarrow> string \<Rightarrow> string \<Rightarrow> string \<Rightarrow> string \<Rightarrow> string \<Rightarrow> (string \<times> string) list" where
  "manifestParams deployment plan params previousPlan previousManifest secrets configs uaa =
     [(''service_deployment'', deployment), (''plan'', plan), (''previous_plan'', previousPlan), (''previous_manifest'', previousManifest),
      (''request_parameters'', params), (''previous_secrets'', secrets), (''previous_configs'', configs), (''uaa_client'', uaa)]"

definition manifestOutput :: "saenv \<Rightarrow> adapterClient \<Rightarrow> string \<times> string \<Rightarrow> gerr + GeneratedManifest" where
  "manifestOutput S c = (\<lambda>(out, err).
     if UsingStdin c then (case decodeInto decodeGenerated zero_generated (sa_unmarshal S out) of
         Inl jsonErr \<Rightarrow> Inl (adapterError (ExternalBinPath c) out err jsonErr) | Inr g \<Rightarrow> Inr g)
     else Inr (zero_generated\<lparr>gm_Manifest := out\<rparr>))"

definition SA_GenerateManifest :: "saenv \<Rightarrow> adapterClient \<Rightarrow> manifestInput \<Rightarrow> (gerr + GeneratedManifest) adapter_m" where
  "SA_GenerateManifest S c i =
     serialise S (mi_ServiceDeployment i) (\<lambda>deployment.
     serialisePlan S (mi_Plan i) (\<lambda>plan.
     serialise S (JObj (mi_RequestParams i)) (\<lambda>params.
     serialisePreviousPlan S (mi_PreviousPlan i) (\<lambda>previousPlan.
     serialise S (smapJson (mi_PreviousSecrets i)) (\<lambda>secrets.
     serialise S (smapJson (mi_PreviousConfigs i)) (\<lambda>configs.
     serialise S (smapJson (mi_UAAClient i)) (\<lambda>uaa.
     attempt (invoke S c
         (inputParams ''generate_manifest'' (manifestParams deployment plan params previousPlan (mi_PreviousManifest i) secrets configs uaa))
         [''generate-manifest''] [deployment, plan, params, mi_PreviousManifest i, previousPlan]) (\<lambda>e. ret (Inl e)) (\<lambda>(out, err).
     case manifestOutput S c (out, err) of
       Inl e \<Rightarrow> ret (Inl e)
     | Inr output \<Rightarrow> (case validateManifest S (mi_DeploymentName i) (ExternalBinPath c) (gm_Manifest output) err of
           Some e \<Rightarrow> ret (Inl e) | None \<Rightarrow> ret (Inr output))))))))))"

section \<open>Sanitised values\<close>

text \<open>Values as YAML has them; and those in which all maps have strings for keys\<close>

fun fromYaml :: "goval \<Rightarrow> bool"
  and fromYamlMap :: "(goval \<times> goval) list \<Rightarrow> bool"
  and fromYamlList :: "goval list \<Rightarrow> bool" where
  "fromYaml (GMap kvs) = fromYamlMap kvs"
| "fromYaml (GSlice vs) = fromYamlList vs"
| "fromYaml (GObj kvs) = False"
| "fromYaml GNilSlice = False"
| "fromYaml v = True"
| "fromYamlMap [] = True"
| "fromYamlMap ((k, v) # kvs) = (fromYaml v \<and> fromYamlMap kvs)"
| "fromYamlList [] = True"
| "fromYamlList (v # vs) = (fromYaml v \<and> fromYamlList vs)"

fun stringKeyed :: "goval \<Rightarrow> bool"
  and stringKeyedMap :: "(goval \<times> goval) list \<Rightarrow> bool"
  and stringKeyedList :: "goval list \<Rightarrow> bool" where
  "stringKeyed (GMap kvs) = stringKeyedMap kvs"
| "stringKeyed (GSlice vs) = stringKeyedList vs"
| "stringKeyed (GObj kvs) = False"
| "stringKeyed GNilSlice = False"
| "stringKeyed v = True"
| "stringKeyedMap [] = True"
| "stringKeyedMap ((k, v) # kvs) = ((\<exists>s. k = GStr s) \<and> stringKeyed v \<and> stringKeyedMap kvs)"
| "stringKeyedList [] = True"
| "stringKeyedList (v # vs) = (stringKeyed v \<and> stringKeyedList vs)"

text \<open>Values without a float that JSON does not have\<close>

fun finite_value :: "goval \<Rightarrow> bool"
  and finite_map :: "(goval \<times> goval) list \<Rightarrow> bool"
  and finite_list :: "goval list \<Rightarrow> bool" where
  "finite_value (GFloat f) = (f \<notin> {NaN, PosInf, NegInf})"
| "finite_value (GMap kvs) = finite_map kvs"
| "finite_value (GSlice vs) = finite_list vs"
| "finite_value v = True"
| "finite_map [] = True"
| "finite_map ((k, v) # kvs) = (finite_value v \<and> finite_map kvs)"
| "finite_list [] = True"
| "finite_list (v # vs) = (finite_value v \<and> finite_list vs)"

text \<open>The JSON value such a value stands for\<close>

fun yamlJson :: "goval \<Rightarrow> json"
  and yamlFields :: "(goval \<times> goval) list \<Rightarrow> (string \<times> json) list"
  and yamlJsons :: "goval list \<Rightarrow> json list" where
  "yamlJson (GMap kvs) = JObj (yamlFields kvs)"
| "yamlJson (GSlice vs) = JArr (yamlJsons vs)"
| "yamlJson (GBool b) = JBool b"
| "yamlJson (GNum n) = JNum n"
| "yamlJson (GFloat f) = (case f of Finite m e \<Rightarrow> JFloat m e | _ \<Rightarrow> JNull)"
| "yamlJson (GStr s) = JStr s"
| "yamlJson v = JNull"
| "yamlFields [] = []"
| "yamlFields ((k, v) # kvs) = ((case k of GStr s \<Rightarrow> s | _ \<Rightarrow> []), yamlJson v) # yamlFields kvs"
| "yamlJsons [] = []"
| "yamlJsons (v # vs) = yamlJson v # yamlJsons vs"

text \<open>Empty arrays replaced by \<open>null\<close>\<close>

fun emptyToNull :: "json \<Rightarrow> json"
  and emptyToNulls :: "json list \<Rightarrow> json list"
  and emptyToNullFields :: "(string \<times> json) list \<Rightarrow> (string \<times> json) list" where
  "emptyToNull (JArr js) = (if js = [] then JNull else JArr (emptyToNulls js))"
| "emptyToNull (JObj kvs) = JObj (emptyToNullFields kvs)"
| "emptyToNull j = j"
| "emptyToNulls [] = []"
| "emptyToNulls (j # js) = emptyToNull j # emptyToNulls js"
| "emptyToNullFields [] = []"
| "emptyToNullFields ((k, j) # kvs) = (k, emptyToNull j) # emptyToNullFields kvs"

definition sliceOf :: "goval list \<Rightarrow> goval" where
  "sliceOf vs = (if vs = [] then GNilSlice else GSlice vs)"

lemma appendSlice_sliceOf: "appendSlice (sliceOf vs) v = sliceOf (vs @ [v])"
  by (simp add: appendSlice_def sliceOf_def)

lemma yamlJsons_Nil [simp]: "yamlJsons vs = [] \<longleftrightarrow> vs = []"
  by (cases vs) simp_all

text \<open>\<open>r\<close> is the rendering of the value \<open>j\<close>, or the error about a float in it\<close>

definition rendering :: "bool \<Rightarrow> gerr + 'j \<Rightarrow> 'j \<Rightarrow> bool" where
  "rendering jsonable r j \<longleftrightarrow> (if jsonable then r = Inr j else \<exists>f\<in>{NaN, PosInf, NegInf}. r = Inl (unsupportedValue f))"

lemma rendering_map_sum: "rendering a r j \<Longrightarrow> rendering a (map_sum id g r) (g j)"
  by (auto simp: rendering_def split: if_splits)

lemma rendering_Cons:
  "rendering a r j \<Longrightarrow> rendering b rs js \<Longrightarrow> rendering (a \<and> b) (case r of Inl e \<Rightarrow> Inl e | Inr j \<Rightarrow> map_sum id (\<lambda>js. g j js) rs) (g j js)"
  by (auto simp: rendering_def split: if_splits)

lemma sanitise_exact:
  "stringKeyed v \<Longrightarrow> \<exists>w. sanitiseValueForJSON v = Val w \<and> rendering (finite_value v) (toJson w) (emptyToNull (yamlJson v))"
  "stringKeyedMap kvs \<Longrightarrow> \<exists>w. sanitiseMap kvs m = Val (m @ w) \<and> rendering (finite_map kvs) (toJsonFields w) (emptyToNullFields (yamlFields kvs))"
  "stringKeyedList vs \<Longrightarrow> \<exists>ws. sanitiseSlice vs (sliceOf us) = Val (sliceOf (us @ ws)) \<and> (ws = [] \<longleftrightarrow> vs = [])
     \<and> rendering (finite_list vs) (toJsons ws) (emptyToNulls (yamlJsons vs))"
proof (induction v and kvs and vs arbitrary: and m and us rule: stringKeyed_stringKeyedMap_stringKeyedList.induct)
  case (1 kvs)
  then obtain w where "sanitiseMap kvs [] = Val ([] @ w)" "rendering (finite_map kvs) (toJsonFields w) (emptyToNullFields (yamlFields kvs))"
    by (metis stringKeyed.simps(1))
  then show ?case by (auto intro: rendering_map_sum)
next
  case (2 vs)
  from 2(1) [of "[]"] 2(2) obtain ws where ws: "sanitiseSlice vs GNilSlice = Val (sliceOf ws)" "ws = [] \<longleftrightarrow> vs = []"
    "rendering (finite_list vs) (toJsons ws) (emptyToNulls (yamlJsons vs))" by (auto simp: sliceOf_def)
  show ?case
  proof (cases "vs = []")
    case True
    then show ?thesis by (simp add: rendering_def)
  next
    case False
    with ws show ?thesis using rendering_map_sum [OF ws(3), of JArr] by (simp add: sliceOf_def)
  qed
next
  case (7 k v kvs)
  then obtain s w where k: "k = GStr s" and w: "sanitiseValueForJSON v = Val w" "rendering (finite_value v) (toJson w) (emptyToNull (yamlJson v))"
    by auto
  moreover from 7 obtain ws where "sanitiseMap kvs (m @ [(s, w)]) = Val ((m @ [(s, w)]) @ ws)"
    and ws: "rendering (finite_map kvs) (toJsonFields ws) (emptyToNullFields (yamlFields kvs))" by fastforce
  ultimately show ?case using rendering_Cons [OF w(2) ws, of "\<lambda>j js. (s, j) # js"]
    by (intro exI [of _ "(s, w) # ws"]) auto
next
  case (9 v vs)
  then obtain w where w: "sanitiseValueForJSON v = Val w" "rendering (finite_value v) (toJson w) (emptyToNull (yamlJson v))" by auto
  from 9(2) [of "us @ [w]"] 9(3) obtain ws where ws: "sanitiseSlice vs (sliceOf (us @ [w])) = Val (sliceOf ((us @ [w]) @ ws))"
    "rendering (finite_list vs) (toJsons ws) (emptyToNulls (yamlJsons vs))" by auto
  with w show ?case using rendering_Cons [OF w(2) ws(2), of "\<lambda>j js. j # js"]
    by (intro exI [of _ "w # ws"]) (auto simp: appendSlice_sliceOf)
qed (auto simp: rendering_def split: float64.splits)

lemma sanitise_fuel:
  "sanitiseValueForJSON v \<noteq> OutOfFuel" "sanitiseMap kvs m \<noteq> OutOfFuel" "sanitiseSlice vs sl \<noteq> OutOfFuel"
  by (induction v and kvs m and vs sl rule: sanitiseValueForJSON_sanitiseMap_sanitiseSlice.induct)
    (auto simp: obind_fuel split: goval.split)

lemma obind_panics: "m \<noteq> OutOfFuel \<Longrightarrow> (\<And>x. m = Val x \<Longrightarrow> \<exists>p. k x = Panic p) \<Longrightarrow> \<exists>p. obind m k = Panic p"
  by (cases m) auto

lemma sanitise_panics:
  "fromYaml v \<Longrightarrow> \<not> stringKeyed v \<Longrightarrow> \<exists>p. sanitiseValueForJSON v = Panic p"
  "fromYamlMap kvs \<Longrightarrow> \<not> stringKeyedMap kvs \<Longrightarrow> \<exists>p. sanitiseMap kvs m = Panic p"
  "fromYamlList vs \<Longrightarrow> \<not> stringKeyedList vs \<Longrightarrow> \<exists>p. sanitiseSlice vs sl = Panic p"
proof (induction v and kvs and vs arbitrary: and m and sl rule: stringKeyed_stringKeyedMap_stringKeyedList.induct)
  case (1 kvs)
  then obtain p where "sanitiseMap kvs [] = Panic p" by (metis fromYaml.simps(1) stringKeyed.simps(1))
  then show ?case by simp
next
  case (7 k v kvs)
  show ?case
  proof (cases "\<exists>s. k = GStr s")
    case True
    then obtain s where k: "k = GStr s" by blast
    show ?thesis
      unfolding k sanitiseMap.simps goval.case
    proof (rule obind_panics [OF sanitise_fuel(1)])
      fix w
      assume w: "sanitiseValueForJSON v = Val w"
      with 7 have "stringKeyed v" by fastforce
      with 7 True show "\<exists>p. sanitiseMap kvs (m @ [(s, w)]) = Panic p" by auto
    qed
  qed (auto split: goval.split)
next
  case (9 v vs)
  show ?case
    unfolding sanitiseSlice.simps
  proof (rule obind_panics [OF sanitise_fuel(1)])
    fix w
    assume w: "sanitiseValueForJSON v = Val w"
    with 9 have "stringKeyed v" by fastforce
    with 9 show "\<exists>p. sanitiseSlice vs (appendSlice sl w) = Panic p" by auto
  qed
qed auto

text \<open>The properties of a plan\<close>

definition propertiesYaml :: "(string \<times> goval) list \<Rightarrow> bool" where
  "propertiesYaml properties \<longleftrightarrow> list_all (\<lambda>(k, v). fromYaml v) properties"

definition propertiesKeyed :: "(string \<times> goval) list \<Rightarrow> bool" where
  "propertiesKeyed properties \<longleftrightarrow> list_all (\<lambda>(k, v). stringKeyed v) properties"

definition propertiesFinite :: "(string \<times> goval) list \<Rightarrow> bool" where
  "propertiesFinite properties \<longleftrightarrow> list_all (\<lambda>(k, v). finite_value v) properties"

lemma plan_serialised_lemma:
  assumes "propertiesKeyed (sa_Properties plan)"
  shows "\<exists>plan'. sanitisePlan plan = Val plan' \<and> rendering (propertiesFinite (sa_Properties plan)) (planJson plan')
      (JObj ((''properties'', emptyToNull (JObj (map (\<lambda>(k, v). (k, yamlJson v)) (sa_Properties plan)))) # sa_Rest plan))"
proof -
  have "\<exists>ps. SanitiseForJSON properties = Val ps
      \<and> rendering (propertiesFinite properties) (toJsonFields ps) (emptyToNullFields (map (\<lambda>(k, v). (k, yamlJson v)) properties))"
    if "propertiesKeyed properties" for properties
    using that
  proof (induction properties)
    case (Cons kv properties)
    obtain k v where kv: "kv = (k, v)" by force
    with Cons.prems have "stringKeyed v" and rest: "propertiesKeyed properties" by (simp_all add: propertiesKeyed_def)
    from sanitise_exact(1) [OF this(1)] obtain w where w: "sanitiseValueForJSON v = Val w"
      "rendering (finite_value v) (toJson w) (emptyToNull (yamlJson v))" by blast
    from Cons.IH [OF rest] obtain ps where ps: "SanitiseForJSON properties = Val ps"
      "rendering (propertiesFinite properties) (toJsonFields ps) (emptyToNullFields (map (\<lambda>(k, v). (k, yamlJson v)) properties))" by blast
    from rendering_Cons [OF w(2) ps(2), of "\<lambda>j js. (k, j) # js"] w(1) ps(1) show ?case
      by (simp add: kv propertiesFinite_def)
  qed (simp add: propertiesKeyed_def propertiesFinite_def rendering_def)
  from this [OF assms] obtain ps where "SanitiseForJSON (sa_Properties plan) = Val ps"
    and ps: "rendering (propertiesFinite (sa_Properties plan)) (toJsonFields ps)
      (emptyToNullFields (map (\<lambda>(k, v). (k, yamlJson v)) (sa_Properties plan)))" by blast
  with rendering_map_sum [OF ps, of "\<lambda>properties. JObj ((''properties'', JObj properties) # sa_Rest plan)"] show ?thesis
    by (simp add: sanitisePlan_def planJson_def)
qed

lemma SanitiseForJSON_panics: "propertiesYaml ps \<Longrightarrow> \<not> propertiesKeyed ps \<Longrightarrow> \<exists>p. SanitiseForJSON ps = Panic p"
proof (induction ps)
  case (Cons kv ps)
  obtain k v where kv: "kv = (k, v)" by force
  show ?case
    unfolding kv SanitiseForJSON.simps
  proof (rule obind_panics [OF sanitise_fuel(1)])
    fix w
    assume "sanitiseValueForJSON v = Val w"
    with Cons.prems have "stringKeyed v" using sanitise_panics(1) [of v] by (fastforce simp: kv propertiesYaml_def)
    with Cons obtain p where "SanitiseForJSON ps = Panic p" by (auto simp: kv propertiesYaml_def propertiesKeyed_def)
    then show "\<exists>p. obind (SanitiseForJSON ps) (\<lambda>rest. Val ((k, w) # rest)) = Panic p" by simp
  qed
qed (simp add: propertiesKeyed_def)

text \<open>
  C24.  What becomes of the plan's properties, which are values read from YAML: null, Booleans, integers, floats, strings,
  lists and maps.  When all their maps have strings for keys and
  no float in them is infinite or not a number, the adapter gets the JSON value that the YAML stands for: nested maps,
  however deep, become objects; one thing changes on the way, every empty array arrives as \<open>null\<close>.  With such a float the
  plan cannot be serialised, which is an error.  With a key that is no string the sanitising ends in a panic.
\<close>

theorem plan_serialised_exactly:
  assumes "propertiesYaml (sa_Properties plan)"
  shows "if \<not> propertiesKeyed (sa_Properties plan) then \<exists>p. sanitisePlan plan = Panic p
    else \<exists>plan'. sanitisePlan plan = Val plan' \<and> (if propertiesFinite (sa_Properties plan)
      then planJson plan' = Inr (JObj ((''properties'', emptyToNull (JObj (map (\<lambda>(k, v). (k, yamlJson v)) (sa_Properties plan)))) # sa_Rest plan))
      else \<exists>f\<in>{NaN, PosInf, NegInf}. planJson plan' = Inl (unsupportedValue f))"
proof (cases "propertiesKeyed (sa_Properties plan)")
  case True
  then show ?thesis using plan_serialised_lemma [OF True] unfolding rendering_def by simp
next
  case False
  with SanitiseForJSON_panics [OF assms] show ?thesis by (auto simp: sanitisePlan_def)
qed

lemma empty_list_becomes_null: "\<exists>w. sanitiseValueForJSON (GSlice []) = Val w \<and> toJson w = Inr JNull"
  by simp

text \<open>A key that is no string ends the request in a panic.\<close>

lemma number_key_panics: "\<exists>p. sanitiseValueForJSON (GMap [(GNum 1, GStr s)]) = Panic p"
  by simp

section \<open>One run of the adapter\<close>

text \<open>The command line, and what the client makes of the process's end\<close>

definition commandLine :: "adapterClient \<Rightarrow> string list \<Rightarrow> string list \<Rightarrow> string list" where
  "commandLine c command args = ExternalBinPath c # command @ (if UsingStdin c then [] else args)"

definition exitStatus :: "cmdOutput \<Rightarrow> int option" where
  "exitStatus out = (case co_err out of None \<Rightarrow> Some 0 | Some (ExitError code) \<Rightarrow> Some code | Some (OtherError _) \<Rightarrow> None)"

definition invokeAnswer :: "adapterClient \<Rightarrow> cmdOutput \<Rightarrow> gerr + string \<times> string" where
  "invokeAnswer c out = (case co_err out of
      Some (OtherError e) \<Rightarrow> Inl (adapterError (ExternalBinPath c) (co_stdout out) (co_stderr out) e)
    | _ \<Rightarrow> (case ErrorForExitCode (the (exitStatus out)) (co_stdout out) of
          Some e \<Rightarrow> Inl e | None \<Rightarrow> Inr (co_stdout out, co_stderr out)))"

text \<open>
  \<open>one_run c command args answer\<close>: nothing was run and the result is an error, or the adapter was run once, in the
  client's mode, and \<open>answer\<close> gives the result.
\<close>

definition one_run :: "adapterClient \<Rightarrow> string list \<Rightarrow> (cmdOutput \<Rightarrow> 'a outcome \<Rightarrow> bool) \<Rightarrow> ('a outcome \<Rightarrow> bool)
    \<Rightarrow> 'a outcome \<Rightarrow> aevent list \<Rightarrow> bool" where
  "one_run c command answer failed r tr \<longleftrightarrow> (tr = [] \<and> failed r)
     \<or> (\<exists>args stdin out. tr = [AdapterRun (commandLine c command args) stdin out] \<and> (stdin = None \<longleftrightarrow> \<not> UsingStdin c) \<and> answer out r)"

abbreviation an_error :: "(gerr + 'a) outcome \<Rightarrow> bool" where
  "an_error r \<equiv> (\<exists>e. r = Val (Inl e))"

lemma one_runI: "(stdin = None \<longleftrightarrow> \<not> UsingStdin c) \<Longrightarrow> answer out r
    \<Longrightarrow> one_run c command answer failed r [AdapterRun (commandLine c command args) stdin out]"
  unfolding one_run_def by blast

lemma invoke_spec:
  "ensures (one_run c command (\<lambda>out r. r = Val (invokeAnswer c out)) an_error) [] (invoke S c params command args)"
proof -
  have ran: "one_run c command (\<lambda>out r. r = Val (invokeAnswer c out)) an_error (Val (invokeAnswer c out))
      [AdapterRun (commandLine c command args) stdin out]" if "stdin = None \<longleftrightarrow> \<not> UsingStdin c" for out stdin
    using that unfolding one_run_def by blast
  show ?thesis
  proof (cases "UsingStdin c")
    case True
    then have run: "one_run c command (\<lambda>out r. r = Val (invokeAnswer c out)) an_error (Val (invokeAnswer c out))
        [AdapterRun (ExternalBinPath c # command) (Some t) out]" for out t
      using ran [of "Some t" out] by (simp add: commandLine_def)
    show ?thesis
      unfolding invoke_def RunWithInputParams_def runner_run_def using True
      by (auto intro!: ens run [unfolded invokeAnswer_def exitStatus_def] split: sum.splits option.splits execError.splits
          simp: one_run_def invokeAnswer_def exitStatus_def commandLine_def)
  next
    case False
    show ?thesis
      unfolding invoke_def runner_Run_def runner_run_def using False
      by (auto intro!: ens split: sum.splits option.splits execError.splits
          simp: one_run_def invokeAnswer_def exitStatus_def commandLine_def)
  qed
qed

lemma serialise_spec:
  "(\<And>t. ensures (one_run c command answer failed) tr (k t)) \<Longrightarrow> (\<And>e. one_run c command answer failed (Val (Inl e)) tr)
   \<Longrightarrow> ensures (one_run c command answer failed) tr (serialise S j k)"
  unfolding serialise_def by (auto intro!: ens split: sum.splits)

text \<open>Continuing after the run\<close>

lemma after_run:
  assumes "\<And>e. failed (Val (Inl e))"
    and "\<And>e out. invokeAnswer c out = Inl e \<Longrightarrow> answer out (Val (Inl e))"
    and "\<And>x out. invokeAnswer c out = Inr x \<Longrightarrow> \<exists>r. k x = ret r \<and> answer out (Val r)"
  shows "ensures (one_run c command answer failed) [] (attempt (invoke S c params command args) (\<lambda>e. ret (Inl e)) k)"
proof (rule ens_attempt_sub [OF invoke_spec])
  fix e d
  assume "one_run c command (\<lambda>out r. r = Val (invokeAnswer c out)) an_error (Val (Inl e)) d"
  then show "ensures (one_run c command answer failed) ([] @ d) (ret (Inl e))"
    using assms(1,2) by (auto intro!: ens simp: one_run_def)
next
  fix x d
  assume "one_run c command (\<lambda>out r. r = Val (invokeAnswer c out)) an_error (Val (Inr x)) d"
  then obtain args stdin out where d: "d = [AdapterRun (commandLine c command args) stdin out]" "stdin = None \<longleftrightarrow> \<not> UsingStdin c"
    and x: "Val (Inr x) = Val (invokeAnswer c out)" unfolding one_run_def by blast
  then have x: "invokeAnswer c out = Inr x" by simp
  from assms(3) [OF x] obtain r where "k x = ret r" "answer out (Val r)" by blast
  then show "ensures (one_run c command answer failed) ([] @ d) (k x)"
    using one_runI [OF d(2)] by (auto intro!: ens simp: d(1))
qed (auto simp: one_run_def)

definition bindingAnswer :: "saenv \<Rightarrow> adapterClient \<Rightarrow> cmdOutput \<Rightarrow> (gerr + Binding) outcome \<Rightarrow> bool" where
  "bindingAnswer S c out r \<longleftrightarrow> r = Val (case invokeAnswer c out of Inl e \<Rightarrow> Inl e
     | Inr (o1, o2) \<Rightarrow> (case decodeInto decodeBinding zero_binding (sa_unmarshal S o1) of
         Inl e \<Rightarrow> Inl (invalidJSONError (ExternalBinPath c) o1 o2 e) | Inr binding \<Rightarrow> Inr binding))"

lemma CreateBinding_spec:
  "ensures (one_run c [''create-binding''] (bindingAnswer S c) an_error) []
     (SA_CreateBinding S c bindingID vms manifest params secrets dns)"
  unfolding SA_CreateBinding_def Let_def
  by (intro serialise_spec after_run)
    (auto simp: one_run_def bindingAnswer_def split: sum.splits prod.splits)

lemma DeleteBinding_spec:
  "ensures (one_run c [''delete-binding''] (\<lambda>out r. r = Val (map_sum id (\<lambda>_. ()) (invokeAnswer c out))) an_error) []
     (SA_DeleteBinding S c bindingID vms manifest params secrets dns)"
  unfolding SA_DeleteBinding_def
  by (intro serialise_spec after_run) (auto simp: one_run_def)

text \<open>What the platform gets for an exit code other than zero, after what the adapter wrote: the error and its status\<close>

definition shown :: "context_info \<Rightarrow> int \<Rightarrow> string \<Rightarrow> gerr" where
  "shown ctx code stdout =
     (if code = 49 then ErrBindingAlreadyExists
      else if code = 41 then ErrBindingDoesNotExist
      else if code = 42 then ErrAppGuidNotProvided
      else if code = 10 \<or> stdout = [] then genericErrorForCFUser ctx
      else UnknownFailureError stdout)"

definition platformStatus :: "int \<Rightarrow> int option" where
  "platformStatus code = (if code = 49 then Some 409 else if code = 41 then Some 410 else if code = 42 then Some 422 else None)"

definition refused :: "Broker \<Rightarrow> context_info \<Rightarrow> (gerr + 'a) outcome \<Rightarrow> aevent list \<Rightarrow> bool" where
  "refused b ctx r tr \<longleftrightarrow> (\<forall>cmd stdin out code. AdapterRun cmd stdin out \<in> set tr \<and> exitStatus out = Some code \<and> code \<noteq> 0 \<longrightarrow>
     (\<exists>e answer. r = Val (Inl e) \<and> answer = b_processError b (adapterToAPIError ctx e)
        \<and> answer = shown ctx code (co_stdout out) \<and> statusCode answer = platformStatus code
        \<and> (code \<notin> {10, 41, 42, 49} \<and> co_stdout out \<noteq> [] \<longrightarrow> errmsg answer = co_stdout out)))"

lemma ErrorForExitCode_shown:
  assumes "code \<noteq> 0"
  shows "\<exists>e. ErrorForExitCode code m = Some e \<and> b_processError b (adapterToAPIError ctx e) = shown ctx code m"
  using assms
  by (auto simp: ErrorForExitCode_def exitCodeMap_def shown_def adapterToAPIError_def b_processError_def processError_def
      ErrAppGuidNotProvided_def ErrBindingAlreadyExists_def ErrBindingDoesNotExist_def genericErrorForCFUser_def)

lemma shown_status: "statusCode (shown ctx code m) = platformStatus code"
    "code \<notin> {10, 41, 42, 49} \<and> m \<noteq> [] \<longrightarrow> errmsg (shown ctx code m) = m"
  by (auto simp: shown_def platformStatus_def
      ErrAppGuidNotProvided_def ErrBindingAlreadyExists_def ErrBindingDoesNotExist_def genericErrorForCFUser_def)

lemma answer_refused:
  assumes "exitStatus out = Some code" and "code \<noteq> 0"
  shows "\<exists>e. invokeAnswer c out = Inl e \<and> b_processError b (adapterToAPIError ctx e) = shown ctx code (co_stdout out)"
  using assms ErrorForExitCode_shown [OF assms(2), of "co_stdout out" b ctx]
  by (auto simp: invokeAnswer_def exitStatus_def split: option.splits execError.splits)

lemma one_run_refused:
  assumes "one_run c command answer an_error r tr"
    and "\<And>out e. answer out r \<Longrightarrow> invokeAnswer c out = Inl e \<Longrightarrow> r = Val (Inl e)"
  shows "refused b ctx r tr"
  using assms(1) unfolding one_run_def
proof (elim disjE exE conjE)
  fix args stdin out
  assume tr: "tr = [AdapterRun (commandLine c command args) stdin out]" and "answer out r"
  show "refused b ctx r tr"
    unfolding refused_def
  proof (intro allI impI)
    fix cmd stdin' out' code
    assume "AdapterRun cmd stdin' out' \<in> set tr \<and> exitStatus out' = Some code \<and> code \<noteq> 0"
    then have code: "exitStatus out = Some code" "code \<noteq> 0" and out: "out' = out" by (auto simp: tr)
    from answer_refused [OF code, of c b ctx] obtain e where e: "invokeAnswer c out = Inl e"
      "b_processError b (adapterToAPIError ctx e) = shown ctx code (co_stdout out)" by blast
    with assms(2) [OF \<open>answer out r\<close> e(1)] show "\<exists>e answer. r = Val (Inl e) \<and> answer = b_processError b (adapterToAPIError ctx e)
        \<and> answer = shown ctx code (co_stdout out') \<and> statusCode answer = platformStatus code
        \<and> (code \<notin> {10, 41, 42, 49} \<and> co_stdout out' \<noteq> [] \<longrightarrow> errmsg answer = co_stdout out')"
      by (intro exI conjI) (auto simp: out shown_status)
  qed
qed (simp add: refused_def)

text \<open>
  C23.  The adapter's exit code reaches the platform: when a binding's run ends with a code other than zero, the client
  answers with that code's error, and the broker turns it into what the platform acts on and the user sees: for 49 the error
  that the binding exists with status 409, for 41 that it does not exist with 410, for 42 that the application is missing with
  422; any other code has no status.  For code 10, a command the adapter does not implement, and for any other code without
  an output the user sees the generic error with the request's ids; for any other code with an output the user sees
  that output.
\<close>

theorem exit_codes_reach_platform:
  "ensures (refused b ctx) [] (SA_CreateBinding S c bindingID vms manifest params secrets dns)
   \<and> ensures (refused b ctx) [] (SA_DeleteBinding S c bindingID vms manifest params secrets dns)"
proof
  show "ensures (refused b ctx) [] (SA_CreateBinding S c bindingID vms manifest params secrets dns)"
    by (rule ensures_mono [OF CreateBinding_spec], erule one_run_refused) (auto simp: bindingAnswer_def)
  show "ensures (refused b ctx) [] (SA_DeleteBinding S c bindingID vms manifest params secrets dns)"
    by (rule ensures_mono [OF DeleteBinding_spec], erule one_run_refused) auto
qed

section \<open>Manifests the adapter generates\<close>

lemma SanitiseForJSON_fuel: "SanitiseForJSON ps \<noteq> OutOfFuel"
  by (induction ps) (auto simp: obind_fuel sanitise_fuel)

lemma sanitisePlan_fuel: "sanitisePlan plan \<noteq> OutOfFuel"
  by (simp add: sanitisePlan_def obind_fuel SanitiseForJSON_fuel)

lemma sanitisePlan_panic: "sanitisePlan plan = Panic p \<Longrightarrow> \<not> propertiesKeyed (sa_Properties plan)"
  using plan_serialised_lemma by fastforce

lemma serialisePlan_spec:
  assumes "\<And>t. ensures (one_run c command answer failed) [] (k t)" and "\<And>e. failed (Val (Inl e))"
    and "\<And>p. \<not> propertiesKeyed (sa_Properties plan) \<Longrightarrow> failed (Panic p)"
  shows "ensures (one_run c command answer failed) [] (serialisePlan S plan k)"
  unfolding serialisePlan_def
proof (rule ens_seq_lift)
  show "ensures (one_run c command answer failed) [] (case planJson plan' of Inl err \<Rightarrow> ret (Inl err) | Inr j \<Rightarrow> serialise S j k)" for plan'
    using assms(1,2) by (cases "planJson plan'") (auto intro!: ens serialise_spec simp: one_run_def)
  show "one_run c command answer failed (Panic p) []" if "sanitisePlan plan = Panic p" for p
    using assms(3) [OF sanitisePlan_panic [OF that]] by (simp add: one_run_def)
qed (simp add: sanitisePlan_fuel)

text \<open>A manifest with the deployment's name and nothing but exact versions\<close>

definition valid_manifest :: "saenv \<Rightarrow> string \<Rightarrow> string \<Rightarrow> bool" where
  "valid_manifest S name text \<longleftrightarrow> (\<exists>releases stemcells. sa_yaml S text = Inr (name, releases, stemcells)
     \<and> (\<forall>v\<in>set releases \<union> set stemcells. \<not> has_suffix v ''latest''))"

lemma latestVersion_None: "latestVersion vs = None \<longleftrightarrow> (\<forall>v\<in>set vs. \<not> has_suffix v ''latest'')"
  by (induction vs) auto

lemma validateManifest_None: "validateManifest S name path text err = None \<longleftrightarrow> valid_manifest S name text"
proof (cases "sa_yaml S text")
  case (Inr nrs)
  obtain n rs ss where nrs: "nrs = (n, rs, ss)" by (cases nrs)
  show ?thesis
    using Inr nrs latestVersion_None [of rs] latestVersion_None [of ss]
    by (cases "n = name"; cases "latestVersion rs"; cases "latestVersion ss") (auto simp: validateManifest_def valid_manifest_def)
qed (simp add: validateManifest_def valid_manifest_def)

definition manifestAnswer :: "saenv \<Rightarrow> adapterClient \<Rightarrow> string \<Rightarrow> cmdOutput \<Rightarrow> (gerr + GeneratedManifest) outcome \<Rightarrow> bool" where
  "manifestAnswer S c name out r \<longleftrightarrow> (\<exists>x. r = Val x) \<and> (\<forall>g. r = Val (Inr g) \<longleftrightarrow> exitStatus out = Some 0
     \<and> manifestOutput S c (co_stdout out, co_stderr out) = Inr g \<and> valid_manifest S name (gm_Manifest g))"

definition manifestFailed :: "manifestInput \<Rightarrow> (gerr + GeneratedManifest) outcome \<Rightarrow> bool" where
  "manifestFailed i r \<longleftrightarrow> (\<exists>e. r = Val (Inl e)) \<or> (\<exists>p. r = Panic p \<and> \<not> (propertiesKeyed (sa_Properties (mi_Plan i))
     \<and> (case mi_PreviousPlan i of None \<Rightarrow> True | Some p \<Rightarrow> propertiesKeyed (sa_Properties p))))"

lemma manifestFailed_error: "manifestFailed i (Val (Inl e))"
  by (simp add: manifestFailed_def)

lemma ErrorForExitCode_None: "ErrorForExitCode code m = None \<longleftrightarrow> code = 0"
  by (auto simp: ErrorForExitCode_def exitCodeMap_def split: option.splits)

lemma invokeAnswer_Inr: "invokeAnswer c out = Inr x \<longleftrightarrow> exitStatus out = Some 0 \<and> x = (co_stdout out, co_stderr out)"
  by (auto simp: invokeAnswer_def exitStatus_def ErrorForExitCode_None split: option.splits execError.splits)
    (simp_all add: ErrorForExitCode_def exitCodeMap_def)

text \<open>
  C22.  A manifest that the client accepts has the name of the deployment it was asked for, and no release or
  stemcell in it floats with the latest version; it is what the adapter printed when it ended with code zero.  The
  adapter is run at most once, in the client's mode; every manifest that is as demanded is accepted.  There is
  a panic at most for a plan with a key that is no string, before anything is run.
\<close>

theorem generated_manifest_checked:
  "ensures (one_run c [''generate-manifest''] (manifestAnswer S c (mi_DeploymentName i))
      (manifestFailed i))
    [] (SA_GenerateManifest S c i)"
proof -
  let ?contract = "one_run c [''generate-manifest''] (manifestAnswer S c (mi_DeploymentName i)) (manifestFailed i)"
  have error: "?contract (Val (Inl e)) []" for e by (simp add: one_run_def manifestFailed_error)
  have run: "ensures ?contract [] (attempt (invoke S c params [''generate-manifest''] args) (\<lambda>e. ret (Inl e)) (\<lambda>(out, err).
     case manifestOutput S c (out, err) of
       Inl e \<Rightarrow> ret (Inl e)
     | Inr output \<Rightarrow> (case validateManifest S (mi_DeploymentName i) (ExternalBinPath c) (gm_Manifest output) err of
           Some e \<Rightarrow> ret (Inl e) | None \<Rightarrow> ret (Inr output))))" for params args
  proof (rule after_run)
    show "manifestAnswer S c (mi_DeploymentName i) out (Val (Inl e))" if "invokeAnswer c out = Inl e" for e out
    proof -
      have "exitStatus out \<noteq> Some 0" using that invokeAnswer_Inr [of c out "(co_stdout out, co_stderr out)"] by auto
      then show ?thesis by (simp add: manifestAnswer_def)
    qed
    show "\<exists>r. (case x of (out, err) \<Rightarrow> (case manifestOutput S c (out, err) of
         Inl e \<Rightarrow> ret (Inl e)
       | Inr output \<Rightarrow> (case validateManifest S (mi_DeploymentName i) (ExternalBinPath c) (gm_Manifest output) err of
             Some e \<Rightarrow> ret (Inl e) | None \<Rightarrow> ret (Inr output)))) = ret r
        \<and> manifestAnswer S c (mi_DeploymentName i) out (Val r)" if "invokeAnswer c out = Inr x" for x out
    proof (cases "manifestOutput S c x")
      case (Inl e)
      with that show ?thesis by (intro exI [of _ "Inl e"]) (auto simp: invokeAnswer_Inr manifestAnswer_def)
    next
      case (Inr g)
      have valid: "validateManifest S (mi_DeploymentName i) (ExternalBinPath c) (gm_Manifest g) (co_stderr out) = None
          \<longleftrightarrow> valid_manifest S (mi_DeploymentName i) (gm_Manifest g)" by (rule validateManifest_None)
      show ?thesis
      proof (cases "validateManifest S (mi_DeploymentName i) (ExternalBinPath c) (gm_Manifest g) (co_stderr out)")
        case None
        with that Inr valid show ?thesis by (intro exI [of _ "Inr g"]) (auto simp: invokeAnswer_Inr manifestAnswer_def)
      next
        case (Some e)
        with that Inr valid show ?thesis by (intro exI [of _ "Inl e"]) (auto simp: invokeAnswer_Inr manifestAnswer_def)
      qed
    qed
  qed (rule manifestFailed_error)
  have rest: "ensures ?contract [] (serialise S j k)" if "\<And>t. ensures ?contract [] (k t)" for j and k :: "string \<Rightarrow> (gerr + GeneratedManifest) adapter_m"
    by (rule serialise_spec [OF that error])
  have previous: "ensures ?contract [] (serialisePreviousPlan S (mi_PreviousPlan i) k)"
    if "\<And>t. ensures ?contract [] (k t)" for k :: "string \<Rightarrow> (gerr + GeneratedManifest) adapter_m"
  proof (cases "mi_PreviousPlan i")
    case None
    show ?thesis using rest [of k, OF that] by (simp add: serialisePreviousPlan_def None)
  next
    case (Some p)
    then show ?thesis
      using serialisePlan_spec [of c "[''generate-manifest'']" "manifestAnswer S c (mi_DeploymentName i)" "manifestFailed i" k p S,
          OF that manifestFailed_error]
      by (simp add: serialisePreviousPlan_def manifestFailed_def)
  qed
  show ?thesis
    unfolding SA_GenerateManifest_def
    by (intro rest serialisePlan_spec previous run) (auto simp: manifestFailed_def)
qed

section \<open>A sample\<close>

definition nested_plan :: "float64 \<Rightarrow> sdkPlan" where
  "nested_plan ratio = \<lparr>sa_Properties = [(''db'', GMap [(GStr ''port'', GNum 5432), (GStr ''users'', GSlice [GMap [(GStr ''name'', GStr ''admin'')]]),
     (GStr ''none'', GSlice []), (GStr ''ratio'', GFloat ratio)])], sa_Rest = []\<rparr>"

theorem plan_serialised_exactly_witness:
  "(\<exists>plan'. sanitisePlan (nested_plan (Finite 3 (-1))) = Val plan'
    \<and> planJson plan' = Inr (JObj [(''properties'', JObj [(''db'', JObj [(''port'', JNum 5432),
        (''users'', JArr [JObj [(''name'', JStr ''admin'')]]), (''none'', JNull), (''ratio'', JFloat 3 (-1))])])]))
   \<and> (\<exists>plan' f. sanitisePlan (nested_plan NaN) = Val plan' \<and> planJson plan' = Inl (unsupportedValue f))"
  using plan_serialised_exactly [of "nested_plan (Finite 3 (-1))"] plan_serialised_exactly [of "nested_plan NaN"]
  by (auto simp: nested_plan_def propertiesYaml_def propertiesKeyed_def propertiesFinite_def)

end
