(* ===== verification/Triggerers.thy ===== *)
theory Triggerers
  imports Services
begin

text \<open>
  The two ways to start an operation on an instance and to follow it:
  \<open>instanceiterator/bosh_triggerer.go\<close> (through the broker's management API) and
  \<open>instanceiterator/cf_triggerer.go\<close> (through Cloud Foundry), with the choice between them
  (\<open>configurator.go\<close>, \<open>cf_querier.go\<close>).

  The interfaces \<open>BrokerServices\<close> and \<open>Triggerer\<close> of \<open>iterator.go\<close> are records of operations.
  Their contracts are the locales \<open>broker_services\<close>, \<open>triggerer_interface\<close> and \<open>loud_triggerer\<close>;
  both triggerers keep the second, only the BOSH triggerer keeps the third.
\<close>

section \<open>Interfaces\<close>

record brokerServices =
  bs_ProcessInstance :: "Instance \<Rightarrow> string \<Rightarrow> (gerr + BOSHOperation) it_m"
  bs_LastOperation :: "string \<Rightarrow> OperationData \<Rightarrow> (gerr + ClientLastOperation) it_m"
  bs_Instances :: "smap option \<Rightarrow> (gerr + Instance list) it_m"
  bs_LatestInstanceInfo :: "Instance \<Rightarrow> (gerr + Instance) it_m"

record triggerer =
  trg_TriggerOperation :: "Instance \<Rightarrow> (gerr + TriggeredOperation) it_m"
  trg_Check :: "string \<Rightarrow> OperationData \<Rightarrow> (gerr + TriggeredOperation) it_m"

definition NewBrokerServices :: "ienv \<Rightarrow> string \<Rightarrow> brokerServices" where
  "NewBrokerServices E baseURL = \<lparr>bs_ProcessInstance = ProcessInstance E baseURL,
     bs_LastOperation = services_LastOperation E baseURL, bs_Instances = services_Instances E baseURL,
     bs_LatestInstanceInfo = services_LatestInstanceInfo E baseURL\<rparr>"

section \<open>The BOSH triggerer\<close>

definition bosh_translateTriggerResponse :: "BOSHOperation \<Rightarrow> TriggeredOperation" where
  "bosh_translateTriggerResponse oper =
     \<lparr>to_State = (case bo_Type oper of
          BOperationAccepted \<Rightarrow> OperationAccepted | BOperationSkipped \<Rightarrow> OperationSkipped
        | BOperationFailed \<Rightarrow> OperationFailed | BOperationInProgress \<Rightarrow> OperationInProgress
        | BInstanceNotFound \<Rightarrow> InstanceNotFound | BOperationPending \<Rightarrow> OperationPending
        | BOrphanDeployment \<Rightarrow> OrphanDeployment | BOperationSucceeded \<Rightarrow> UnsetState),
      to_Data = bo_Data oper, to_Description = bo_Description oper\<rparr>"

definition bosh_translateCheckResponse :: "ClientLastOperation \<Rightarrow> OperationData \<Rightarrow> gerr + TriggeredOperation" where
  "bosh_translateCheckResponse l operationData =
     (let result = (\<lambda>st. Inr \<lparr>to_State = st, to_Data = operationData, to_Description = clo_Description l\<rparr>) in
      if clo_State l = ''failed'' then result OperationFailed
      else if clo_State l = ''succeeded'' then result OperationSucceeded
      else if clo_State l = ''in progress'' then result OperationAccepted
      else Inl (ErrorString (''unknown state from last operation: '' @ clo_State l)))"

definition bosh_TriggerOperation :: "string \<Rightarrow> brokerServices \<Rightarrow> Instance \<Rightarrow> (gerr + TriggeredOperation) it_m" where
  "bosh_TriggerOperation operationType bs i =
     attempt (bs_ProcessInstance bs i operationType)
       (\<lambda>err. ret (Inl (ErrorString (''operation type: '' @ operationType @ '' failed for service instance ''
          @ inst_GUID i @ '': '' @ errmsg err))))
       (\<lambda>oper. ret (Inr (bosh_translateTriggerResponse oper)))"

definition bosh_Check :: "brokerServices \<Rightarrow> string \<Rightarrow> OperationData \<Rightarrow> (gerr + TriggeredOperation) it_m" where
  "bosh_Check bs guid operationData =
     attempt (bs_LastOperation bs guid operationData)
       (\<lambda>err. ret (Inl (errorf ''error getting last operation: '' err)))
       (\<lambda>l. ret (bosh_translateCheckResponse l operationData))"

definition BOSHTriggerer :: "string \<Rightarrow> brokerServices \<Rightarrow> triggerer" where
  "BOSHTriggerer operationType bs =
     \<lparr>trg_TriggerOperation = bosh_TriggerOperation operationType bs, trg_Check = bosh_Check bs\<rparr>"

definition NewBOSHUpgradeTriggerer :: "brokerServices \<Rightarrow> triggerer" where
  "NewBOSHUpgradeTriggerer bs = BOSHTriggerer ''upgrade'' bs"

definition NewRecreateTriggerer :: "brokerServices \<Rightarrow> triggerer" where
  "NewRecreateTriggerer bs = BOSHTriggerer ''recreate'' bs"

section \<open>The Cloud Foundry triggerer\<close>

definition cf_translateCheckResponse :: "CFLastOperation \<Rightarrow> TriggeredOperation" where
  "cf_translateCheckResponse l = zeroOperation\<lparr>to_State :=
     (if cflo_State l = ''succeeded'' then OperationSucceeded
      else if cflo_State l = ''in progress'' then OperationAccepted
      else if cflo_State l = ''failed'' then OperationFailed
      else UnsetState)\<rparr>"

definition cf_translateTriggerResponse :: "CFLastOperation \<Rightarrow> TriggeredOperation" where
  "cf_translateTriggerResponse l =
     (if cflo_State l = ''succeeded'' then zeroOperation\<lparr>to_State := OperationSkipped\<rparr>
      else cf_translateCheckResponse l)"

text \<open>\<open>%q\<close> of a GUID is the GUID in double quotes (it has no character that needs escaping).\<close>

definition dquoted :: "string \<Rightarrow> string" where
  "dquoted s = [CHR 0x22] @ s @ [CHR 0x22]"

definition cf_TriggerOperation :: "ienv \<Rightarrow> Instance \<Rightarrow> (gerr + TriggeredOperation) it_m" where
  "cf_TriggerOperation E i =
     (let failed = (\<lambda>err. ret (Inl (errorf (''failed to trigger operation for instance ''
            @ dquoted (inst_GUID i) @ '': '') err))) in
      attempt (ext_call (\<lambda>h. o_GetPlanByServiceInstanceGUID E h (inst_GUID i)) (EGetPlan (inst_GUID i)))
        failed (\<lambda>version.
      attempt (ext_call (\<lambda>h. o_UpgradeServiceInstance E h (inst_GUID i) version)
          (EUpgradeInstance (inst_GUID i) version))
        failed (\<lambda>lastOperation. ret (Inr (cf_translateTriggerResponse lastOperation)))))"

definition cf_Check :: "ienv \<Rightarrow> string \<Rightarrow> OperationData \<Rightarrow> (gerr + TriggeredOperation) it_m" where
  "cf_Check E guid operationData =
     attempt (ext_call (\<lambda>h. o_GetLastOperationForInstance E h guid) (EGetLastOperation guid))
       (\<lambda>err. ret (Inl (errorf (''failed to check operation for instance '' @ dquoted guid @ '': '') err)))
       (\<lambda>lastOperation. ret (Inr (cf_translateCheckResponse lastOperation)))"

definition CFTriggerer :: "ienv \<Rightarrow> triggerer" where
  "CFTriggerer E = \<lparr>trg_TriggerOperation = cf_TriggerOperation E, trg_Check = cf_Check E\<rparr>"

text \<open>The choice of the triggerer; a missing client is \<open>False\<close>.\<close>

definition CanUpgradeUsingCF :: "ienv \<Rightarrow> bool \<Rightarrow> bool \<Rightarrow> bool it_m" where
  "CanUpgradeUsingCF E cfClientPresent maintenanceInfoPresent =
     (if maintenanceInfoPresent \<and> cfClientPresent
      then ext_call (\<lambda>h. o_CheckMinimumOSBAPIVersion E h ''2.15'') (ECheckOSBAPI ''2.15'') else ret False)"

datatype strategy = UpgradeViaBOSH | UpgradeViaCF | RecreateViaBOSH

fun setTriggerer :: "ienv \<Rightarrow> brokerServices \<Rightarrow> strategy \<Rightarrow> triggerer it_m" where
  "setTriggerer E bs UpgradeViaBOSH = seq (emit (LUpgradeStrategy ''BOSH'')) (\<lambda>_. ret (NewBOSHUpgradeTriggerer bs))"
| "setTriggerer E bs UpgradeViaCF = seq (emit (LUpgradeStrategy ''CF'')) (\<lambda>_. ret (CFTriggerer E))"
| "setTriggerer E bs RecreateViaBOSH = ret (NewRecreateTriggerer bs)"

text \<open>The triggerer each choice installs\<close>

fun triggererOf :: "ienv \<Rightarrow> brokerServices \<Rightarrow> strategy \<Rightarrow> triggerer" where
  "triggererOf E bs UpgradeViaBOSH = NewBOSHUpgradeTriggerer bs"
| "triggererOf E bs UpgradeViaCF = CFTriggerer E"
| "triggererOf E bs RecreateViaBOSH = NewRecreateTriggerer bs"

lemma setTriggerer_installs: "fst (setTriggerer E bs how s) = Val (triggererOf E bs how)"
  by (cases how) (simp_all add: run)

section \<open>Calls through an interface\<close>

text \<open>
  \<open>call_only P m\<close>: \<open>m\<close> returns a value that satisfies \<open>P\<close>, exchanges messages with the outside
  and leaves the iterator's own state alone.
\<close>

definition call_only :: "('a \<Rightarrow> bool) \<Rightarrow> 'a it_m \<Rightarrow> bool" where
  "call_only P m \<longleftrightarrow>
     (\<forall>s. \<exists>x tr. m s = (Val x, s\<lparr>hist := hist s @ tr\<rparr>) \<and> list_all is_exchange tr \<and> P x)"

lemma wp_call_only:
  assumes "call_only P m"
    and "\<And>x tr. P x \<Longrightarrow> list_all is_exchange tr \<Longrightarrow> Q (Val x) (s\<lparr>hist := hist s @ tr\<rparr>)"
  shows "wp m Q s"
proof -
  from assms(1) obtain x tr where "m s = (Val x, s\<lparr>hist := hist s @ tr\<rparr>)" "list_all is_exchange tr" "P x"
    unfolding call_only_def by blast
  with assms(2) show ?thesis by (simp add: wp_def)
qed

lemma call_only_ret: "P x \<Longrightarrow> call_only P (ret x)"
  unfolding call_only_def by (auto simp: run intro!: exI [of _ "[]"])

lemma call_only_ext: "(\<And>r. is_exchange (ev r)) \<Longrightarrow> (\<And>r. P r) \<Longrightarrow> call_only P (ext_call orc ev)"
  unfolding call_only_def by (auto simp: run)

lemma call_only_attempt:
  assumes "call_only R m" and "\<And>e. call_only P (h e)" and "\<And>x. R (Inr x) \<Longrightarrow> call_only P (k x)"
  shows "call_only P (attempt m h k)"
  unfolding call_only_def
proof
  fix s
  obtain r tr where r: "m s = (Val r, s\<lparr>hist := hist s @ tr\<rparr>)" "list_all is_exchange tr" "R r"
    using assms(1) unfolding call_only_def by blast
  have "call_only P (case r of Inl e \<Rightarrow> h e | Inr x \<Rightarrow> k x)"
    using r(3) assms(2,3) by (auto split: sum.splits)
  then obtain x tr' where "(case r of Inl e \<Rightarrow> h e | Inr x \<Rightarrow> k x) (s\<lparr>hist := hist s @ tr\<rparr>)
      = (Val x, s\<lparr>hist := (hist s @ tr) @ tr'\<rparr>)" "list_all is_exchange tr'" "P x"
    unfolding call_only_def by (elim allE [of _ "s\<lparr>hist := hist s @ tr\<rparr>"]) auto
  then have "attempt m h k s = (Val x, s\<lparr>hist := hist s @ (tr @ tr')\<rparr>) \<and>
      list_all is_exchange (tr @ tr') \<and> P x"
    using r by (auto simp: attempt_def seq_def)
  then show "\<exists>x tr. attempt m h k s = (Val x, s\<lparr>hist := hist s @ tr\<rparr>) \<and> list_all is_exchange tr \<and> P x"
    by blast
qed

lemma call_only_mono: "call_only P m \<Longrightarrow> (\<And>x. P x \<Longrightarrow> Q x) \<Longrightarrow> call_only Q m"
  unfolding call_only_def by meson

section \<open>The contracts of the interfaces\<close>

text \<open>
  What a client of \<open>BrokerServices\<close> may rely on: calls only, and an operation that was processed
  is accepted, skipped, busy, or on an instance that is gone.
\<close>

fun processed :: "BOSHOperationType \<Rightarrow> bool" where
  "processed BOperationPending = False"
| "processed BOperationFailed = False"
| "processed BOperationSucceeded = False"
| "processed _ = True"

locale broker_services =
  fixes bs :: brokerServices
  assumes process_law: "call_only (\<lambda>r. case r of Inl _ \<Rightarrow> True | Inr oper \<Rightarrow> processed (bo_Type oper))
      (bs_ProcessInstance bs i ty)"
    and last_law: "call_only (\<lambda>_. True) (bs_LastOperation bs g d)"
    and instances_law: "call_only (\<lambda>_. True) (bs_Instances bs flt)"
    and latest_law: "call_only (\<lambda>_. True) (bs_LatestInstanceInfo bs i)"

text \<open>
  What the iterator needs of a triggerer: an operation it has triggered is no longer pending, and
  a check never takes an instance back to pending or to busy.
\<close>

definition triggered_ok :: "OperationState \<Rightarrow> bool" where
  "triggered_ok st \<longleftrightarrow> st \<noteq> OperationPending"

definition checked_ok :: "OperationState \<Rightarrow> bool" where
  "checked_ok st \<longleftrightarrow> st \<noteq> OperationPending \<and> st \<noteq> OperationInProgress"

definition result_state :: "(OperationState \<Rightarrow> bool) \<Rightarrow> gerr + TriggeredOperation \<Rightarrow> bool" where
  "result_state P r = (case r of Inl _ \<Rightarrow> True | Inr oper \<Rightarrow> P (to_State oper))"

locale triggerer_interface =
  fixes T :: triggerer
  assumes trigger_law: "call_only (result_state triggered_ok) (trg_TriggerOperation T i)"
    and check_law: "call_only (result_state checked_ok) (trg_Check T g d)"

text \<open>
  A triggerer is loud when a failure always comes with an error from \<open>TriggerOperation\<close>, and when
  it never leaves a state unset.
\<close>

definition loud_trigger :: "OperationState \<Rightarrow> bool" where
  "loud_trigger st \<longleftrightarrow> st \<noteq> OperationPending \<and> st \<noteq> OperationFailed \<and> st \<noteq> UnsetState"

definition loud_check :: "OperationState \<Rightarrow> bool" where
  "loud_check st \<longleftrightarrow> st \<noteq> OperationPending \<and> st \<noteq> OperationInProgress \<and> st \<noteq> UnsetState"

locale loud_triggerer = triggerer_interface T for T :: triggerer +
  assumes loud_trigger_law: "call_only (result_state loud_trigger) (trg_TriggerOperation T i)"
    and loud_check_law: "call_only (result_state loud_check) (trg_Check T g d)"

context broker_services begin

lemma bosh_trigger_loud: "call_only (result_state loud_trigger) (bosh_TriggerOperation ty bs i)"
  unfolding bosh_TriggerOperation_def
  by (rule call_only_attempt [OF process_law])
     (auto intro!: call_only_ret simp: result_state_def bosh_translateTriggerResponse_def loud_trigger_def
        split: BOSHOperationType.splits)

lemma bosh_check_loud: "call_only (result_state loud_check) (bosh_Check bs g d)"
  unfolding bosh_Check_def
  by (rule call_only_attempt [OF last_law])
     (auto intro!: call_only_ret simp: result_state_def bosh_translateCheckResponse_def loud_check_def Let_def)

lemma bosh_triggerer_loud: "loud_triggerer (BOSHTriggerer ty bs)"
proof
  fix i g d
  show "call_only (result_state loud_trigger) (trg_TriggerOperation (BOSHTriggerer ty bs) i)"
    by (simp add: BOSHTriggerer_def bosh_trigger_loud)
  then show "call_only (result_state triggered_ok) (trg_TriggerOperation (BOSHTriggerer ty bs) i)"
    by (rule call_only_mono) (auto simp: result_state_def loud_trigger_def triggered_ok_def split: sum.splits)
  show "call_only (result_state loud_check) (trg_Check (BOSHTriggerer ty bs) g d)"
    by (simp add: BOSHTriggerer_def bosh_check_loud)
  then show "call_only (result_state checked_ok) (trg_Check (BOSHTriggerer ty bs) g d)"
    by (rule call_only_mono) (auto simp: result_state_def loud_check_def checked_ok_def split: sum.splits)
qed

end

section \<open>The implementations keep the contracts\<close>

lemma doRequest_calls: "call_only (\<lambda>_. True) (doRequest E url meth path body)"
  unfolding doRequest_def Let_def
  by (auto intro!: call_only_ret call_only_ext call_only_attempt [where R = "\<lambda>_. True"] split: option.splits)

lemma ExtractOperationFrom_processed: "ExtractOperationFrom response = Inr oper \<Longrightarrow> processed (bo_Type oper)"
  by (auto simp: ExtractOperationFrom_def boshOperation_def Let_def split: if_splits sum.splits)

lemma services_Instances_calls: "call_only (\<lambda>_. True) (services_Instances E url flt)"
  unfolding services_Instances_def
  by (auto intro!: call_only_ret call_only_attempt [OF doRequest_calls] split: sum.splits)

interpretation services: broker_services "NewBrokerServices E url" for E url
proof
  fix i ty g d flt
  show "call_only (\<lambda>r. case r of Inl _ \<Rightarrow> True | Inr oper \<Rightarrow> processed (bo_Type oper))
      (bs_ProcessInstance (NewBrokerServices E url) i ty)"
    unfolding NewBrokerServices_def ProcessInstance_def
    by (auto intro!: call_only_ret call_only_attempt [OF doRequest_calls] ExtractOperationFrom_processed
        split: sum.splits)
  show "call_only (\<lambda>_. True) (bs_LastOperation (NewBrokerServices E url) g d)"
    unfolding NewBrokerServices_def services_LastOperation_def Let_def
    by (auto intro!: call_only_ret call_only_attempt [OF doRequest_calls])
  show "call_only (\<lambda>_. True) (bs_Instances (NewBrokerServices E url) flt)"
    by (simp add: NewBrokerServices_def services_Instances_calls)
  show "call_only (\<lambda>_. True) (bs_LatestInstanceInfo (NewBrokerServices E url) i)"
    unfolding NewBrokerServices_def services_LatestInstanceInfo_def
    by (auto intro!: call_only_ret call_only_attempt [OF services_Instances_calls] split: option.splits)
qed

interpretation bosh: loud_triggerer "BOSHTriggerer ty (NewBrokerServices E url)" for ty E url
  by (rule services.bosh_triggerer_loud)

lemma cf_check_states: "to_State (cf_translateCheckResponse l) \<notin> {OperationPending, OperationInProgress}"
  by (simp add: cf_translateCheckResponse_def zeroOperation_def)

interpretation cf: triggerer_interface "CFTriggerer E" for E
proof
  fix i g d
  show "call_only (result_state triggered_ok) (trg_TriggerOperation (CFTriggerer E) i)"
    unfolding CFTriggerer_def cf_TriggerOperation_def Let_def
    by (auto intro!: call_only_ret call_only_ext call_only_attempt [where R = "\<lambda>_. True"]
        simp: result_state_def cf_translateTriggerResponse_def cf_translateCheckResponse_def
          zeroOperation_def triggered_ok_def)
  show "call_only (result_state checked_ok) (trg_Check (CFTriggerer E) g d)"
    unfolding CFTriggerer_def cf_Check_def
    by (auto intro!: call_only_ret call_only_ext call_only_attempt [where R = "\<lambda>_. True"]
        simp: result_state_def cf_translateCheckResponse_def zeroOperation_def checked_ok_def)
qed

text \<open>Whatever choice the configurator makes, the iterator gets a triggerer that keeps the contract.\<close>

lemma triggererOf_interface: "triggerer_interface (triggererOf E (NewBrokerServices E url) how)"
  by (cases how) (simp_all add: NewBOSHUpgradeTriggerer_def NewRecreateTriggerer_def
      bosh.triggerer_interface_axioms cf.triggerer_interface_axioms)

end
