(* ===== verification/Iterator.thy ===== *)
theory Iterator
  imports Triggerers
begin

text \<open>
  The iteration over all service instances: \<open>instanceiterator/iterator.go\<close>, and the part of
  \<open>instanceiterator/configurator.go\<close> that checks the configuration.

  \<open>Iterate\<close> runs on the state \<open>itstate\<close>: the history and the mutable fields of the Go struct.
  The loop that waits for the running operations may run for ever and gets fuel; the loop that
  triggers operations gets as much fuel as there are instances, which always is enough
  (\<open>triggerOperation_inv\<close>).  The calls of the two interfaces are followed by an event with what
  they returned.
\<close>

section \<open>Configuration\<close>

record InstanceIteratorConfig =
  ic_URL :: string
  ic_Username :: string
  ic_Password :: string
  ic_CACert :: string
  ic_PollingInterval :: int
  ic_AttemptInterval :: int
  ic_AttemptLimit :: int
  ic_MaxInFlight :: int
  ic_Canaries :: int
  ic_CanarySelectionParams :: smap

record Iterator =
  itr_brokerServices :: brokerServices
  itr_pollingInterval :: int
  itr_attemptInterval :: int
  itr_attemptLimit :: int
  itr_maxInFlight :: int
  itr_canaries :: int
  itr_canarySelectionParams :: smap
  itr_triggerer :: triggerer

definition nanoseconds :: "int \<Rightarrow> int" where
  "nanoseconds seconds = wrap64 (seconds * 1000000000)"

definition positive :: "int \<Rightarrow> string \<Rightarrow> gerr + int" where
  "positive n what = (if n \<le> 0 then Inl (ErrorString (''the '' @ what @ '' must be greater than zero'')) else Inr n)"

definition pollingInterval :: "InstanceIteratorConfig \<Rightarrow> gerr + int" where
  "pollingInterval conf = map_sum id nanoseconds (positive (ic_PollingInterval conf) ''pollingInterval'')"

definition attemptInterval :: "InstanceIteratorConfig \<Rightarrow> gerr + int" where
  "attemptInterval conf = map_sum id nanoseconds (positive (ic_AttemptInterval conf) ''attemptInterval'')"

definition attemptLimit :: "InstanceIteratorConfig \<Rightarrow> gerr + int" where
  "attemptLimit conf = positive (ic_AttemptLimit conf) ''attempt limit''"

definition maxInFlight :: "InstanceIteratorConfig \<Rightarrow> gerr + int" where
  "maxInFlight conf = positive (ic_MaxInFlight conf) ''max in flight''"

definition canaries :: "InstanceIteratorConfig \<Rightarrow> gerr + int" where
  "canaries conf = (if ic_Canaries conf < 0 then Inl (ErrorString ''the number of canaries cannot be negative'')
     else Inr (ic_Canaries conf))"

text \<open>The certificate pool is built by a library: \<open>certError\<close> is the error it reports for a PEM text.\<close>

definition brokerServices_of :: "ienv \<Rightarrow> (string \<Rightarrow> gerr option) \<Rightarrow> InstanceIteratorConfig \<Rightarrow> gerr + brokerServices" where
  "brokerServices_of E certError conf =
     (if ic_Username conf = '''' \<or> ic_Password conf = '''' \<or> ic_URL conf = '''' then
        Inl (ErrorString ''the brokerUsername, brokerPassword and brokerUrl are required to function'')
      else (case certError (ic_CACert conf) of
          Some err \<Rightarrow> Inl (errorf ''error getting a certificate pool to append our trusted cert to: '' err)
        | None \<Rightarrow> Inr (NewBrokerServices E (ic_URL conf))))"

definition NewConfigurator :: "ienv \<Rightarrow> (string \<Rightarrow> gerr option) \<Rightarrow> InstanceIteratorConfig
    \<Rightarrow> gerr + (triggerer \<Rightarrow> Iterator)" where
  "NewConfigurator E certError conf =
     (case brokerServices_of E certError conf of Inl e \<Rightarrow> Inl e | Inr bs \<Rightarrow>
     (case pollingInterval conf of Inl e \<Rightarrow> Inl e | Inr poll \<Rightarrow>
     (case attemptInterval conf of Inl e \<Rightarrow> Inl e | Inr wait \<Rightarrow>
     (case attemptLimit conf of Inl e \<Rightarrow> Inl e | Inr limit \<Rightarrow>
     (case maxInFlight conf of Inl e \<Rightarrow> Inl e | Inr flight \<Rightarrow>
     (case canaries conf of Inl e \<Rightarrow> Inl e | Inr n \<Rightarrow>
      Inr (\<lambda>T. \<lparr>itr_brokerServices = bs, itr_pollingInterval = poll, itr_attemptInterval = wait,
        itr_attemptLimit = limit, itr_maxInFlight = flight, itr_canaries = n,
        itr_canarySelectionParams = ic_CanarySelectionParams conf, itr_triggerer = T\<rparr>)))))))"

text \<open>\<open>New\<close>: the fields that change start here.\<close>

definition New_state :: "Iterator \<Rightarrow> itstate" where
  "New_state it = \<lparr>hist = [], it_failures = [], it_canaries = itr_canaries it,
     it_state = \<lparr>is_guids = [], is_states = [], is_processCanaries = False, is_canaryLimit = 0,
        is_pos = 0, is_allInstances = []\<rparr>\<rparr>"

section \<open>Calls through the interfaces\<close>

definition noted :: "('r \<Rightarrow> ievent) \<Rightarrow> 'r it_m \<Rightarrow> 'r it_m" where
  "noted ev m = seq m (\<lambda>r. seq (emit (ev r)) (\<lambda>_. ret r))"

definition modify :: "(iteratorState \<Rightarrow> iteratorState) \<Rightarrow> unit it_m" where
  "modify f = write_state (\<lambda>s. s\<lparr>it_state := f (it_state s)\<rparr>)"

definition addFailure :: "string \<Rightarrow> gerr \<Rightarrow> unit it_m" where
  "addFailure guid err =
     write_state (\<lambda>s. s\<lparr>it_failures := it_failures s @ [\<lparr>fail_guid = guid, fail_err = err\<rparr>]\<rparr>)"

definition nextPending :: "(gerr + Instance) it_m" where
  "nextPending s = (case NextPending (it_state s) of (r, st) \<Rightarrow> (Val r, s\<lparr>it_state := st\<rparr>))"

definition sleep :: "int \<Rightarrow> unit it_m" where
  "sleep d = emit (ESleep d)"

section \<open>Triggering and polling\<close>

definition operationsToTriggerCount :: "Iterator \<Rightarrow> iteratorState \<Rightarrow> int" where
  "operationsToTriggerCount it st =
     (let inProg = int (CountInProgressInstances st); needed = itr_maxInFlight it - inProg in
      if IsProcessingCanaries st then
        (let outstandingCanaries = OutstandingCanaryCount st in
         if needed > outstandingCanaries then outstandingCanaries else needed)
      else needed)"

definition startOperation :: "Iterator \<Rightarrow> Instance \<Rightarrow> (gerr + TriggeredOperation) it_m" where
  "startOperation it i =
     seq (noted (ILatest (inst_GUID i)) (bs_LatestInstanceInfo (itr_brokerServices it) i)) (\<lambda>latest.
     if latest = Inl InstanceNotFoundError then ret (Inr (zeroOperation\<lparr>to_State := InstanceNotFound\<rparr>))
     else
       seq (case latest of
           Inl _ \<Rightarrow> seq (emit (LFailedToRefresh (inst_GUID i))) (\<lambda>_. ret i)
         | Inr latestInstance \<Rightarrow> ret latestInstance) (\<lambda>latestInstance.
       noted (ITriggered (inst_GUID i)) (trg_TriggerOperation (itr_triggerer it) latestInstance)))"

fun triggerLoop :: "Iterator \<Rightarrow> nat \<Rightarrow> int \<Rightarrow> nat \<Rightarrow> int \<Rightarrow> unit it_m" where
  "triggerLoop it 0 needed totalInstances acceptedCount = out_of_fuel"
| "triggerLoop it (Suc fuel) needed totalInstances acceptedCount =
     (if acceptedCount < needed then
        attempt nextPending (\<lambda>_. ret ()) (\<lambda>i.
        seq (read_state it_state) (\<lambda>st.
        seq (emit (LOperationStarting (inst_GUID i) (GetIteratorIndex st) totalInstances (IsProcessingCanaries st))) (\<lambda>_.
        attempt (startOperation it i)
          (\<lambda>err. seq (modify (SetState (inst_GUID i) OperationFailed)) (\<lambda>_. addFailure (inst_GUID i) err))
          (\<lambda>operation.
        seq (modify (SetOperation (inst_GUID i) operation)) (\<lambda>_.
        seq (modify (SetState (inst_GUID i) (to_State operation))) (\<lambda>_.
        seq (emit (LOperationStartResult (inst_GUID i) (to_State operation))) (\<lambda>_.
        if to_State operation = OperationAccepted then
          seq (emit (LWaitingFor (inst_GUID i) (od_BoshTaskID (to_Data operation)))) (\<lambda>_.
          triggerLoop it fuel needed totalInstances (acceptedCount + 1))
        else triggerLoop it fuel needed totalInstances acceptedCount)))))))
      else ret ())"

definition triggerOperation :: "Iterator \<Rightarrow> unit it_m" where
  "triggerOperation it =
     seq (read_state it_state) (\<lambda>st.
     let needed = operationsToTriggerCount it st in
     if needed = 0 then ret ()
     else triggerLoop it (Suc (length (is_guids st))) needed (CountInstancesInCurrentPhase st) 0)"

definition operationFailedError :: "string \<Rightarrow> TriggeredOperation \<Rightarrow> gerr" where
  "operationFailedError guid oper = ErrorString (''['' @ guid @ ''] Operation failed: bosh task id ''
     @ show_int (od_BoshTaskID (to_Data oper)) @ '': '' @ to_Description oper)"

fun pollEach :: "Iterator \<Rightarrow> Instance list \<Rightarrow> unit it_m" where
  "pollEach it [] = ret ()"
| "pollEach it (inst # insts) =
     (let guid = inst_GUID inst in
      seq (read_state it_state) (\<lambda>st.
      attempt (noted (IChecked guid) (trg_Check (itr_triggerer it) guid (to_Data (GetOperation st guid))))
        (\<lambda>err. seq (modify (SetState guid OperationFailed)) (\<lambda>_. seq (addFailure guid err) (\<lambda>_. pollEach it insts)))
        (\<lambda>oper.
      seq (modify (SetState guid (to_State oper))) (\<lambda>_.
      seq (case to_State oper of
          OperationSucceeded \<Rightarrow> emit (LOperationFinished guid ''success'')
        | OperationFailed \<Rightarrow> seq (emit (LOperationFinished guid ''failure'')) (\<lambda>_.
            addFailure guid (operationFailedError guid oper))
        | _ \<Rightarrow> ret ()) (\<lambda>_.
      pollEach it insts)))))"

definition pollRunningTasks :: "Iterator \<Rightarrow> unit it_m" where
  "pollRunningTasks it = seq (read_state it_state) (\<lambda>st. pollEach it (InProgressInstances st))"

section \<open>Errors and reports\<close>

definition errorFromList :: "instanceFailure list \<Rightarrow> gerr option" where
  "errorFromList failureList = (case failureList of
      [] \<Rightarrow> None
    | [f] \<Rightarrow> Some (fail_err f)
    | _ \<Rightarrow> Some (ErrorString (show_int (int (length failureList)) @ '' errors occurred:'' @ [CHR 0x0A]
        @ concat (map (\<lambda>f. CHR 0x0A # ''* '' @ errmsg (fail_err f)) failureList))))"

definition formatError :: "gerr option it_m" where
  "formatError = seq (read_state (\<lambda>s. (it_failures s, it_state s))) (\<lambda>(failures, st).
     let err = errorFromList failures in
     ret (if IsProcessingCanaries st
          then map_option (errorf ''canaries didn't process successfully: '') err else err))"

definition checkStillBusyInstances :: "gerr option it_m" where
  "checkStillBusyInstances = seq (read_state (\<lambda>s. (it_canaries s, it_state s))) (\<lambda>(n, st).
     let busyInstances = GetGUIDsInStates st [OperationInProgress];
         busyInstancesCount = int (length busyInstances) in
     ret (if busyInstancesCount = 0 then None
       else if IsProcessingCanaries st then
         (if \<not> canariesCompleted st then
            Some (ErrorString (''canaries didn't process successfully: attempted to process ''
              @ show_int n @ '' canaries, but only found '' @ show_int (n - busyInstancesCount)
              @ '' instances not already in use by another BOSH task.''))
          else None)
       else Some (ErrorString (''The following instances could not be processed: '' @ join '', '' busyInstances))))"

definition reportProgress :: "Iterator \<Rightarrow> unit it_m" where
  "reportProgress it = seq (read_state (\<lambda>s. Summary (it_state s))) (\<lambda>sm.
     emit (LProgress (itr_attemptInterval it) (sum_orphaned sm) (sum_succeeded sm) (sum_skipped sm)
       (sum_busy sm) (sum_deleted sm)))"

definition printSummary :: "unit it_m" where
  "printSummary = seq (read_state (\<lambda>s. (it_failures s, it_state s))) (\<lambda>(failures, st).
     let sm = Summary st in
     emit (LFinished (sum_orphaned sm) (sum_succeeded sm) (sum_skipped sm) (sum_deleted sm)
       (GetGUIDsInStates st [OperationInProgress]) (map fail_guid failures)))"

definition logRetryAttempt :: "Iterator \<Rightarrow> nat \<Rightarrow> unit it_m" where
  "logRetryAttempt it att = seq (read_state it_state) (\<lambda>st.
     if IsProcessingCanaries st
     then emit (LRetryCanariesAttempt att (itr_attemptLimit it) (OutstandingCanaryCount st))
     else emit (LRetryAttempt att (itr_attemptLimit it)))"

section \<open>The iteration\<close>

text \<open>
  \<open>for HasInstancesToProcess() { \<dots> }\<close>: \<open>None\<close> when the loop ends, \<open>Some r\<close> when it returns \<open>r\<close>.
\<close>

fun pollingLoop :: "Iterator \<Rightarrow> nat \<Rightarrow> gerr option option it_m" where
  "pollingLoop it 0 = out_of_fuel"
| "pollingLoop it (Suc fuel) =
     seq (read_state it_state) (\<lambda>st.
     if \<not> HasInstancesToProcess st then ret None
     else
       seq (triggerOperation it) (\<lambda>_.
       seq (pollRunningTasks it) (\<lambda>_.
       seq (read_state it_state) (\<lambda>st.
       if HasInstancesProcessing st then
         seq (sleep (itr_pollingInterval it)) (\<lambda>_. pollingLoop it fuel)
       else if IsProcessingCanaries st \<and> CurrentPhaseIsComplete st then
         seq formatError (\<lambda>e. ret (Some e))
       else pollingLoop it fuel))))"

text \<open>The attempts: \<open>left\<close> is \<open>attemptLimit - att + 1\<close>.\<close>

fun attemptLoop :: "Iterator \<Rightarrow> nat \<Rightarrow> nat \<Rightarrow> nat \<Rightarrow> gerr option it_m" where
  "attemptLoop it fuel 0 att = checkStillBusyInstances"
| "attemptLoop it fuel (Suc left) att =
     seq (modify RewindAndResetBusyInstances) (\<lambda>_.
     seq (logRetryAttempt it att) (\<lambda>_.
     seq (pollingLoop it fuel) (\<lambda>result.
     case result of Some e \<Rightarrow> ret e
     | None \<Rightarrow>
       seq (read_state it_state) (\<lambda>st.
       if HasFailures st then formatError
       else
         seq (reportProgress it) (\<lambda>_.
         if CurrentPhaseIsComplete st then checkStillBusyInstances
         else
           seq (sleep (itr_attemptInterval it)) (\<lambda>_.
           attemptLoop it fuel left (att + 1)))))))"

definition IterateInstancesWithAttempts :: "Iterator \<Rightarrow> nat \<Rightarrow> gerr option it_m" where
  "IterateInstancesWithAttempts it fuel = attemptLoop it fuel (nat (itr_attemptLimit it)) 1"

definition filterString :: "smap \<Rightarrow> string" where
  "filterString flt = join '', '' (map (\<lambda>(k, v). k @ '': '' @ v) flt)"

definition listInstances :: "Iterator \<Rightarrow> smap option \<Rightarrow> (gerr + Instance list) it_m" where
  "listInstances it flt = noted (IInstances flt) (bs_Instances (itr_brokerServices it) flt)"

definition selectCanaries :: "Iterator \<Rightarrow> Instance list \<Rightarrow> (gerr + Instance list) it_m" where
  "selectCanaries it allInstances =
     (if 0 < length (itr_canarySelectionParams it) then
        attempt (listInstances it (Some (itr_canarySelectionParams it)))
          (\<lambda>err. ret (Inl (errorf ''error listing service instances: '' err))) (\<lambda>canaryInstances.
        if canaryInstances = [] \<and> allInstances \<noteq> [] then
          ret (Inl (ErrorString (''Failed to find a match to the canary selection criteria: ''
            @ filterString (itr_canarySelectionParams it)
            @ ''. Please ensure these selection criteria will match one or more service instances, ''
            @ ''or remove `canary_selection_params` to disable selecting canaries from a specific org and space.'')))
        else
          seq (write_state (\<lambda>s. if int (length canaryInstances) < it_canaries s
               then s\<lparr>it_canaries := int (length canaryInstances)\<rparr> else s)) (\<lambda>_.
          ret (Inr canaryInstances)))
      else
        seq (read_state it_canaries) (\<lambda>n. ret (Inr (if n > 0 then allInstances else []))))"

definition registerInstancesAndCanaries :: "Iterator \<Rightarrow> gerr option it_m" where
  "registerInstancesAndCanaries it =
     attempt (listInstances it None) (\<lambda>err. ret (Some (errorf ''error listing service instances: '' err))) (\<lambda>allInstances.
     attempt (selectCanaries it allInstances) (\<lambda>err. ret (Some err)) (\<lambda>canaryInstances.
     seq (read_state it_canaries) (\<lambda>n.
     case NewIteratorState canaryInstances allInstances n of
       Inl err \<Rightarrow> ret (Some (errorf ''error with canary instance listing: '' err))
     | Inr st \<Rightarrow> seq (modify (\<lambda>_. st)) (\<lambda>_. ret None))))"

definition finishIteration :: "Iterator \<Rightarrow> nat \<Rightarrow> gerr option it_m" where
  "finishIteration it fuel =
     seq (IterateInstancesWithAttempts it fuel) (\<lambda>err. seq printSummary (\<lambda>_. ret err))"

definition Iterate :: "Iterator \<Rightarrow> nat \<Rightarrow> gerr option it_m" where
  "Iterate it fuel =
     seq (emit (LStarting (itr_maxInFlight it))) (\<lambda>_.
     seq (registerInstancesAndCanaries it) (\<lambda>err.
     if err \<noteq> None then ret err
     else
       seq (read_state it_state) (\<lambda>st.
       seq (emit (LInstancesToProcess (AllInstances st))) (\<lambda>_.
       if IsProcessingCanaries st then
         seq (emit (LCanariesStarting (OutstandingCanaryCount st) (itr_canarySelectionParams it))) (\<lambda>_.
         seq (IterateInstancesWithAttempts it fuel) (\<lambda>err.
         if err \<noteq> None then seq printSummary (\<lambda>_. ret err)
         else
           seq (modify MarkCanariesCompleted) (\<lambda>_.
           seq (emit LCanariesFinished) (\<lambda>_.
           finishIteration it fuel))))
       else finishIteration it fuel))))"

end
