(* ===== verification/Iterator_Safety.thy ===== *)
theory Iterator_Safety
  imports Iterator
begin

text \<open>
  What a run of the iteration never does, whatever the broker, BOSH and Cloud Foundry answer: it
  never has more operations in flight than configured, it never starts more canaries than
  configured before the canaries are declared finished, and until then it touches nothing but
  canaries.

  The three are predicates of the history.  \<open>run_inv\<close> ties the history to the iterator's state;
  it is kept by every step.
\<close>

section \<open>Reading the history\<close>

text \<open>
  The operations in flight, as far as the iterator can know: accepted, and since then not
  reported as finished or lost.
\<close>

fun fly :: "ievent \<Rightarrow> string list \<Rightarrow> string list" where
  "fly (ITriggered g (Inr oper)) gs = (if to_State oper = OperationAccepted then List.insert g gs else gs)"
| "fly (IChecked g (Inr oper)) gs = (if to_State oper = OperationAccepted then List.insert g gs else removeAll g gs)"
| "fly (IChecked g (Inl _)) gs = removeAll g gs"
| "fly _ gs = gs"

definition flying :: "ievent list \<Rightarrow> string list" where
  "flying tr = fold fly tr []"

text \<open>\<open>never_over n gs tr\<close>: starting with \<open>gs\<close> in flight, at no point more than \<open>n\<close> are in flight.\<close>

fun never_over :: "int \<Rightarrow> string list \<Rightarrow> ievent list \<Rightarrow> bool" where
  "never_over n gs [] \<longleftrightarrow> int (length gs) \<le> n"
| "never_over n gs (e # es) \<longleftrightarrow> int (length gs) \<le> n \<and> never_over n (fly e gs) es"

fun is_accept :: "ievent \<Rightarrow> bool" where
  "is_accept (ITriggered _ (Inr oper)) \<longleftrightarrow> to_State oper = OperationAccepted"
| "is_accept _ \<longleftrightarrow> False"

text \<open>The run up to the point where the canaries are declared finished\<close>

definition canary_part :: "ievent list \<Rightarrow> ievent list" where
  "canary_part tr = takeWhile (\<lambda>e. e \<noteq> LCanariesFinished) tr"

definition accepts :: "ievent list \<Rightarrow> nat" where
  "accepts tr = length (filter is_accept tr)"

text \<open>The instances the broker returned for the canary selection criteria\<close>

fun selected :: "ievent list \<Rightarrow> string list" where
  "selected [] = []"
| "selected (IInstances (Some _) (Inr cs) # es) = map inst_GUID cs @ selected es"
| "selected (_ # es) = selected es"

fun triggers_in :: "string list \<Rightarrow> ievent \<Rightarrow> bool" where
  "triggers_in gs (ITriggered g _) \<longleftrightarrow> g \<in> set gs"
| "triggers_in gs _ \<longleftrightarrow> True"

text \<open>An event that matters for none of this\<close>

fun neutral :: "ievent \<Rightarrow> bool" where
  "neutral (ITriggered _ _) = False"
| "neutral (IChecked _ _) = False"
| "neutral (IInstances _ _) = False"
| "neutral LCanariesFinished = False"
| "neutral _ = True"

lemma exchange_neutral: "is_exchange e \<Longrightarrow> neutral e"
  by (cases e) simp_all

lemma exchanges_neutral: "list_all is_exchange tr \<Longrightarrow> list_all neutral tr"
  by (auto simp: list_all_iff exchange_neutral)

lemma fly_neutral [simp]: "neutral e \<Longrightarrow> fly e gs = gs"
  by (cases "(e, gs)" rule: fly.cases) simp_all

lemma flying_append: "flying (xs @ ys) = fold fly ys (flying xs)"
  by (simp add: flying_def)

lemma flying_neutral [simp]: "list_all neutral ys \<Longrightarrow> fold fly ys gs = gs"
  by (induction ys arbitrary: gs) simp_all

lemma never_over_append:
  "never_over n gs (xs @ ys) \<longleftrightarrow> never_over n gs xs \<and> never_over n (fold fly xs gs) ys"
  by (induction xs arbitrary: gs) (cases ys, auto)

lemma never_over_neutral [simp]: "list_all neutral ys \<Longrightarrow> never_over n gs ys \<longleftrightarrow> int (length gs) \<le> n"
  by (induction ys) auto

lemma fly_distinct: "distinct gs \<Longrightarrow> distinct (fly e gs)"
  by (cases "(e, gs)" rule: fly.cases) (simp_all add: distinct_removeAll)

lemma fold_fly_distinct: "distinct gs \<Longrightarrow> distinct (fold fly tr gs)"
  by (induction tr arbitrary: gs) (simp_all add: fly_distinct)

lemma flying_distinct [simp]: "distinct (flying tr)"
  by (simp add: flying_def fold_fly_distinct)

lemma accepts_append [simp]: "accepts (xs @ ys) = accepts xs + accepts ys"
  by (simp add: accepts_def)

lemma accepts_neutral [simp]: "list_all neutral ys \<Longrightarrow> accepts ys = 0"
proof (induction ys)
  case (Cons e ys)
  then have "\<not> is_accept e" by (cases e) auto
  with Cons show ?case by (simp add: accepts_def)
qed (simp add: accepts_def)

lemma selected_append [simp]: "selected (xs @ ys) = selected xs @ selected ys"
  by (induction xs rule: selected.induct) simp_all

lemma selected_neutral [simp]: "list_all neutral ys \<Longrightarrow> selected ys = []"
  by (induction ys rule: selected.induct) simp_all

lemma canary_part_done: "LCanariesFinished \<in> set xs \<Longrightarrow> canary_part (xs @ ys) = canary_part xs"
  by (simp add: canary_part_def takeWhile_append1)

lemma canary_part_open: "LCanariesFinished \<notin> set xs \<Longrightarrow> canary_part xs = xs"
  unfolding canary_part_def by (rule takeWhile_eq_all_conv [THEN iffD2]) auto

lemma neutral_not_finished: "list_all neutral ys \<Longrightarrow> LCanariesFinished \<notin> set ys"
  by (auto simp: list_all_iff)

lemma neutral_triggers_in: "neutral e \<Longrightarrow> triggers_in gs e"
  by (cases e) simp_all

lemma triggers_in_neutral: "list_all neutral ys \<Longrightarrow> list_all (triggers_in gs) ys"
  by (induction ys) (simp_all add: neutral_triggers_in)

lemma triggers_in_subset: "triggers_in gs e \<Longrightarrow> set gs \<subseteq> set gs' \<Longrightarrow> triggers_in gs' e"
  by (cases e) auto

lemma triggers_in_mono: "list_all (triggers_in gs) ys \<Longrightarrow> set gs \<subseteq> set gs' \<Longrightarrow> list_all (triggers_in gs') ys"
  by (induction ys) (auto intro: triggers_in_subset)

section \<open>The invariant of a run\<close>

definition settled :: "iteratorState \<Rightarrow> string set" where
  "settled st = {g \<in> set (is_guids st). couldBeCanary st g
     \<and> status st g \<noteq> OperationPending \<and> status st g \<noteq> OperationInProgress}"

definition flight_inv :: "Iterator \<Rightarrow> iteratorState \<Rightarrow> ievent list \<Rightarrow> bool" where
  "flight_inv it st tr \<longleftrightarrow> covered st \<and> set (flying tr) = {g. status st g = OperationAccepted}
     \<and> never_over (itr_maxInFlight it) [] tr
     \<and> (is_processCanaries st \<longrightarrow> (\<forall>g. status st g = OperationAccepted \<longrightarrow> couldBeCanary st g))"

text \<open>There is a canary phase to wait for.\<close>

abbreviation canaries_wanted :: "Iterator \<Rightarrow> bool" where
  "canaries_wanted it \<equiv> itr_canarySelectionParams it \<noteq> [] \<or> 0 < itr_canaries it"

definition canary_inv :: "Iterator \<Rightarrow> iteratorState \<Rightarrow> ievent list \<Rightarrow> bool" where
  "canary_inv it st tr \<longleftrightarrow>
     (is_processCanaries st \<longrightarrow> LCanariesFinished \<notin> set tr)
     \<and> (is_processCanaries st \<and> 0 < itr_canaries it \<longrightarrow>
          0 < is_canaryLimit st \<and> is_canaryLimit st \<le> itr_canaries it \<and> accepts tr \<le> card (settled st))
     \<and> (0 < itr_canaries it \<longrightarrow> int (accepts (canary_part tr)) \<le> itr_canaries it)
     \<and> (itr_canarySelectionParams it \<noteq> [] \<longrightarrow> list_all (triggers_in (selected tr)) (canary_part tr))
     \<and> (itr_canarySelectionParams it \<noteq> [] \<and> is_processCanaries st \<longrightarrow>
          (\<forall>g. couldBeCanary st g \<longrightarrow> g \<in> set (selected tr)))
     \<and> (\<not> is_processCanaries st \<and> canaries_wanted it \<longrightarrow> is_guids st = [] \<or> LCanariesFinished \<in> set tr)"

definition run_inv :: "Iterator \<Rightarrow> iteratorState \<Rightarrow> ievent list \<Rightarrow> bool" where
  "run_inv it st tr \<longleftrightarrow> flight_inv it st tr \<and> canary_inv it st tr"

lemma visible_pos [simp]: "visible (st\<lparr>is_pos := p\<rparr>) = visible st"
  by (rule ext) (simp add: visible_def)

lemma flying_length: "run_inv it st tr \<Longrightarrow> length (flying tr) = card {g. status st g = OperationAccepted}"
  unfolding run_inv_def flight_inv_def by (metis distinct_card flying_distinct)

lemma run_inv_pos [simp]: "run_inv it (st\<lparr>is_pos := p\<rparr>) tr = run_inv it st tr"
  by (simp add: run_inv_def flight_inv_def canary_inv_def covered_def settled_def)

lemma canary_part_neutral:
  "list_all neutral es \<Longrightarrow> canary_part (tr @ es) = (if LCanariesFinished \<in> set tr then canary_part tr else canary_part tr @ es)"
  by (simp add: canary_part_done canary_part_open neutral_not_finished)

lemma canary_inv_neutral: "canary_inv it st tr \<Longrightarrow> list_all neutral es \<Longrightarrow> canary_inv it st (tr @ es)"
  unfolding canary_inv_def
  by (auto simp: canary_part_neutral neutral_not_finished triggers_in_neutral)

lemma run_inv_neutral: "run_inv it st tr \<Longrightarrow> list_all neutral es \<Longrightarrow> run_inv it st (tr @ es)"
  unfolding run_inv_def
  by (simp add: canary_inv_neutral) (simp add: flight_inv_def flying_append never_over_append flying_def [symmetric],
    metis flying_def flying_neutral never_over_append never_over_neutral append_Nil2 never_over.simps(1))

lemma run_inv_SetOperation:
  assumes "run_inv it st tr" and "g \<in> set (is_guids st)"
  shows "run_inv it (SetOperation g oper st) tr"
proof -
  have "settled (SetOperation g oper st) = settled st"
    by (auto simp: settled_def info_SetOperation)
  with assms show ?thesis
    by (auto simp: run_inv_def flight_inv_def canary_inv_def covered_SetOperation info_SetOperation)
qed

lemma card_settled_mono: "settled st \<subseteq> settled st' \<Longrightarrow> card (settled st) \<le> card (settled st')"
  by (rule card_mono) (simp_all add: settled_def)

lemma settled_SetState:
  assumes "status st g = OperationPending \<or> s \<noteq> OperationPending \<and> s \<noteq> OperationInProgress"
  shows "settled st \<subseteq> settled (SetState g s st)"
  using assms by (auto simp: settled_def info_SetState)

lemma settled_accept:
  assumes "g \<in> set (is_guids st)" "couldBeCanary st g" "status st g = OperationPending"
  shows "card (settled (SetState g OperationAccepted st)) = Suc (card (settled st))"
proof -
  have "settled (SetState g OperationAccepted st) = insert g (settled st)"
    using assms by (auto simp: settled_def info_SetState)
  moreover have "g \<notin> settled st" using assms by (simp add: settled_def)
  ultimately show ?thesis by (simp add: settled_def)
qed

text \<open>What a step does to the operations in flight\<close>

lemma flight_inv_SetState:
  assumes "flight_inv it st tr" and "g \<in> set (is_guids st)" and "visible st g"
    and "fly e (flying tr) = (if s = OperationAccepted then List.insert g (flying tr) else removeAll g (flying tr))"
    and "s = OperationAccepted \<Longrightarrow> int (length (List.insert g (flying tr))) \<le> itr_maxInFlight it"
  shows "flight_inv it (SetState g s st) (tr @ [e])"
proof -
  have len: "int (length (flying tr)) \<le> itr_maxInFlight it"
    using assms(1) by (metis append_Nil2 flight_inv_def flying_def never_over.simps(1) never_over_append)
  have "int (length (fly e (flying tr))) \<le> itr_maxInFlight it"
    using assms(4,5) len length_removeAll_less_eq [of g "flying tr"]
    by (auto simp del: length_removeAll_less_eq)
  with assms len show ?thesis
    by (auto simp: flight_inv_def covered_SetState flying_append never_over_append flying_def [symmetric]
        info_SetState visible_def)
qed

lemma flight_inv_quiet:
  assumes "flight_inv it st tr" and "g \<in> set (is_guids st)" and "status st g \<noteq> OperationAccepted"
    and "fly e (flying tr) = flying tr" and "s \<noteq> OperationAccepted"
  shows "flight_inv it (SetState g s st) (tr @ [e])"
proof -
  have len: "int (length (flying tr)) \<le> itr_maxInFlight it"
    using assms(1) by (metis append_Nil2 flight_inv_def flying_def never_over.simps(1) never_over_append)
  with assms show ?thesis
    by (auto simp: flight_inv_def covered_SetState flying_append never_over_append flying_def [symmetric]
        info_SetState)
qed

text \<open>What a step does to the account of the canaries\<close>

lemma canary_inv_SetState:
  assumes "canary_inv it st tr" and "g \<in> set (is_guids st)"
    and "status st g = OperationPending \<or> s \<noteq> OperationPending \<and> s \<noteq> OperationInProgress"
    and "e \<noteq> LCanariesFinished" and "selected [e] = []"
    and "visible st g" and "triggers_in [g] e"
    and "is_accept e \<Longrightarrow> s = OperationAccepted \<and> status st g = OperationPending"
    and "is_accept e \<Longrightarrow> is_processCanaries st \<Longrightarrow> 0 < itr_canaries it \<Longrightarrow> int (accepts tr) < is_canaryLimit st"
  shows "canary_inv it (SetState g s st) (tr @ [e])"
proof -
  have part: "canary_part (tr @ [e]) = (if LCanariesFinished \<in> set tr then canary_part tr else canary_part tr @ [e])"
    using assms(4) by (simp add: canary_part_done canary_part_open)
  have guids: "is_guids st \<noteq> []" using assms(2) by auto
  have count: "accepts (tr @ [e]) \<le> card (settled (SetState g s st))"
    if "is_processCanaries st" "accepts tr \<le> card (settled st)"
  proof (cases "is_accept e")
    case True
    then have "card (settled (SetState g s st)) = Suc (card (settled st))"
      using assms(2,6,8) that(1) settled_accept [of g st] by (auto simp: visible_def)
    with that(2) True show ?thesis by (simp add: accepts_def)
  next
    case False
    with that(2) card_settled_mono [OF settled_SetState [of st g s, OF assms(3)]]
    show ?thesis by (simp add: accepts_def)
  qed
  have limit: "int (accepts (tr @ [e])) \<le> itr_canaries it"
    if "is_processCanaries st" "0 < itr_canaries it" "is_canaryLimit st \<le> itr_canaries it"
      "int (accepts tr) \<le> itr_canaries it"
    using assms(9) that by (cases "is_accept e") (auto simp: accepts_def)
  have inside: "triggers_in (selected tr) e"
    if "is_processCanaries st" "\<forall>g. couldBeCanary st g \<longrightarrow> g \<in> set (selected tr)"
    using assms(6,7) that triggers_in_subset [of "[g]" e "selected tr"] by (auto simp: visible_def)
  show ?thesis
    using assms(1,5) count limit inside guids assms(4)
    unfolding canary_inv_def part
    by (auto simp: canary_part_open info_SetState selected_append split: if_splits)
qed

lemma never_over_now: "never_over n [] tr \<Longrightarrow> int (length (flying tr)) \<le> n"
  by (metis append_Nil2 flying_def never_over.simps(1) never_over_append)

lemma processable_facts:
  "processable st g \<longleftrightarrow> visible st g \<and> status st g = OperationPending"
  by (auto simp: processable_def doingCanariesAndPendingCanary_def
      notDoingCanariesAndPendingInstance_def visible_def)

lemma step_triggered:
  assumes "run_inv it st tr" "g \<in> set (is_guids st)" "processable st g" "to_State oper \<noteq> OperationPending"
    and room: "to_State oper = OperationAccepted \<Longrightarrow> int (length (flying tr)) < itr_maxInFlight it"
      "to_State oper = OperationAccepted \<Longrightarrow> is_processCanaries st \<Longrightarrow> 0 < itr_canaries it
        \<Longrightarrow> int (accepts tr) < is_canaryLimit st"
  shows "run_inv it (SetState g (to_State oper) (SetOperation g oper st)) (tr @ [ITriggered g (Inr oper)])"
proof -
  let ?st = "SetOperation g oper st"
  have inv: "run_inv it ?st tr" by (rule run_inv_SetOperation [OF assms(1,2)])
  have g: "g \<in> set (is_guids ?st)" "visible ?st g" "status ?st g = OperationPending"
    using assms(2,3) by (auto simp: processable_facts visible_def info_SetOperation)
  have out: "g \<notin> set (flying tr)"
    using inv g(3) by (auto simp: run_inv_def flight_inv_def)
  have flight: "flight_inv it (SetState g (to_State oper) ?st) (tr @ [ITriggered g (Inr oper)])"
  proof (cases "to_State oper = OperationAccepted")
    case True
    with inv g room(1) out show ?thesis
      by (intro flight_inv_SetState) (auto simp: run_inv_def List.insert_def)
  next
    case False
    with inv g show ?thesis by (intro flight_inv_quiet) (auto simp: run_inv_def)
  qed
  have "canary_inv it (SetState g (to_State oper) ?st) (tr @ [ITriggered g (Inr oper)])"
    using inv g room(2) by (intro canary_inv_SetState) (auto simp: run_inv_def)
  with flight show ?thesis by (simp add: run_inv_def)
qed

lemma step_refused:
  assumes "run_inv it st tr" "g \<in> set (is_guids st)" "processable st g"
  shows "run_inv it (SetState g OperationFailed st) (tr @ [ITriggered g (Inl err)])"
  using assms unfolding run_inv_def processable_facts
  by (auto intro!: flight_inv_quiet canary_inv_SetState)

lemma step_gone:
  assumes "run_inv it st tr" "g \<in> set (is_guids st)" "processable st g"
  shows "run_inv it (SetState g InstanceNotFound (SetOperation g oper st)) tr"
proof -
  have "run_inv it (SetOperation g oper st) tr" by (rule run_inv_SetOperation [OF assms(1,2)])
  then have "run_inv it (SetState g InstanceNotFound (SetOperation g oper st)) (tr @ [ESleep 0])"
    using assms(2,3) unfolding run_inv_def processable_facts
    by (auto intro!: flight_inv_quiet canary_inv_SetState simp: info_SetOperation visible_def)
  moreover have "run_inv it st' (tr @ [ESleep 0]) = run_inv it st' tr" for st'
  proof -
    have "canary_part (tr @ [ESleep 0]) = (if LCanariesFinished \<in> set tr then canary_part tr else canary_part tr @ [ESleep 0])"
      by (rule canary_part_neutral) simp
    moreover have "never_over n [] (tr @ [ESleep 0]) = never_over n [] tr" for n
      by (auto simp: never_over_append flying_def [symmetric] dest: never_over_now)
    ultimately show ?thesis
      by (simp add: run_inv_def flight_inv_def canary_inv_def flying_append)
  qed
  ultimately show ?thesis by simp
qed

lemma step_checked:
  assumes "run_inv it st tr" "g \<in> set (is_guids st)" "visible st g"
    and "s = (case r of Inl _ \<Rightarrow> OperationFailed | Inr oper \<Rightarrow> to_State oper)" "checked_ok s"
    and "s = OperationAccepted \<Longrightarrow> int (length (List.insert g (flying tr))) \<le> itr_maxInFlight it"
  shows "run_inv it (SetState g s st) (tr @ [IChecked g r])"
  using assms unfolding run_inv_def
  by (auto intro!: flight_inv_SetState canary_inv_SetState simp: checked_ok_def split: sum.splits)

lemma run_inv_Rewind:
  assumes "run_inv it st tr"
  shows "run_inv it (RewindAndResetBusyInstances st) tr"
proof -
  have same: "status (RewindAndResetBusyInstances st) g = OperationAccepted \<longleftrightarrow> status st g = OperationAccepted"
    "couldBeCanary (RewindAndResetBusyInstances st) g = couldBeCanary st g" for g
    by (auto simp: info_Rewind resetBusy_def)
  have "settled (RewindAndResetBusyInstances st) = settled st"
    by (auto simp: settled_def info_Rewind resetBusy_def)
  with assms show ?thesis
    by (simp add: run_inv_def flight_inv_def canary_inv_def covered_Rewind same)
qed

lemma run_inv_Mark:
  assumes "run_inv it st tr"
  shows "run_inv it (MarkCanariesCompleted st) (tr @ [LCanariesFinished])"
proof (cases "LCanariesFinished \<in> set tr")
  case True
  with assms show ?thesis
    by (auto simp: run_inv_def flight_inv_def canary_inv_def covered_Mark flying_append never_over_append
        canary_part_done flying_def [symmetric] dest: never_over_now)
next
  case False
  then have "canary_part (tr @ [LCanariesFinished]) = tr" "canary_part tr = tr"
    by (auto simp: canary_part_def takeWhile_append takeWhile_eq_all_conv)
  with assms False show ?thesis
    by (auto simp: run_inv_def flight_inv_def canary_inv_def covered_Mark flying_append never_over_append
        flying_def [symmetric] dest: never_over_now)
qed

end
