(* ===== verification/Iterator_Runs.thy ===== *)
theory Iterator_Runs
  imports Iterator_Safety
begin

text \<open>
  The runs of the iteration, step by step: what triggering, polling, an attempt and the whole
  iteration keep and reach.  The lemmas are proved in the locale \<open>iteration\<close>, for every provider of
  the two interfaces of the iterator; the flag \<open>loud\<close> says that the triggerer never fails in
  silence, \<open>prompt\<close> that a check always finds the operation finished.
\<close>

section \<open>What every piece of a run keeps\<close>

text \<open>The instances the current phase still has to trigger\<close>

definition pend :: "iteratorState \<Rightarrow> string set" where
  "pend st = {g \<in> set (is_guids st). processable st g}"

text \<open>Nothing behind the read position is waiting.\<close>

definition behind_settled :: "iteratorState \<Rightarrow> bool" where
  "behind_settled st \<longleftrightarrow> is_pos st \<le> length (is_guids st) \<and> (\<forall>p < is_pos st. \<not> processable st (is_guids st ! p))"

text \<open>A failed instance is on the list of failures, and no state is left unset.\<close>

definition fail_inv :: "bool \<Rightarrow> itstate \<Rightarrow> bool" where
  "fail_inv loud s \<longleftrightarrow> (loud \<longrightarrow>
     (\<forall>g. status (it_state s) g = OperationFailed \<longrightarrow> it_failures s \<noteq> [])
     \<and> (\<forall>g \<in> set (is_guids (it_state s)). status (it_state s) g \<noteq> UnsetState))"

definition kept :: "Iterator \<Rightarrow> bool \<Rightarrow> itstate \<Rightarrow> itstate \<Rightarrow> bool" where
  "kept it loud s s' \<longleftrightarrow> run_inv it (it_state s') (hist s') \<and> fail_inv loud s'
     \<and> is_guids (it_state s') = is_guids (it_state s)
     \<and> is_processCanaries (it_state s') = is_processCanaries (it_state s)
     \<and> is_canaryLimit (it_state s') = is_canaryLimit (it_state s)
     \<and> it_canaries s' = it_canaries s"

lemma kept_trans: "kept it loud s s1 \<Longrightarrow> kept it loud s1 s2 \<Longrightarrow> kept it loud s s2"
  by (simp add: kept_def)

lemma kept_inv: "kept it loud s s' \<Longrightarrow> run_inv it (it_state s') (hist s')"
  "kept it loud s s' \<Longrightarrow> fail_inv loud s'"
  by (simp_all add: kept_def)

lemma kept_refl: "run_inv it (it_state s) (hist s) \<Longrightarrow> fail_inv loud s \<Longrightarrow> kept it loud s s"
  by (simp add: kept_def)

lemma kept_neutral:
  "kept it loud s s' \<Longrightarrow> list_all neutral es \<Longrightarrow> kept it loud s (s'\<lparr>hist := hist s' @ es\<rparr>)"
  by (simp add: kept_def run_inv_neutral fail_inv_def)

lemma processable_pos [simp]: "processable (st\<lparr>is_pos := p\<rparr>) = processable st"
  by (rule ext) (simp add: processable_facts visible_def)

lemma handle_pos [simp]: "handle (st\<lparr>is_pos := p\<rparr>) = handle st"
  by (rule ext) (simp add: handle_def)

lemma processable_SetState:
  "s \<noteq> OperationPending \<Longrightarrow> processable (SetState g s st) h \<longleftrightarrow> processable st h \<and> h \<noteq> g"
  by (auto simp: processable_facts visible_def info_SetState)

lemma processable_SetOperation [simp]: "processable (SetOperation g oper st) = processable st"
  by (rule ext) (auto simp: processable_facts visible_def info_SetOperation)

lemma pend_pos [simp]: "pend (st\<lparr>is_pos := p\<rparr>) = pend st"
  by (simp add: pend_def)

lemma pend_SetState: "s \<noteq> OperationPending \<Longrightarrow> pend (SetState g s st) = pend st - {g}"
  by (auto simp: pend_def processable_SetState)

lemma pend_SetOperation [simp]: "pend (SetOperation g oper st) = pend st"
  by (simp add: pend_def)

lemma behind_SetState: "s \<noteq> OperationPending \<Longrightarrow> behind_settled st \<Longrightarrow> behind_settled (SetState g s st)"
  by (simp add: behind_settled_def processable_SetState)

lemma behind_SetOperation [simp]: "behind_settled (SetOperation g oper st) = behind_settled st"
  by (simp add: behind_settled_def)

text \<open>Triggered: an instance that is up to date with its state, whatever the outcome\<close>

lemma behind_take:
  assumes "behind_settled st" and "is_pos st < p" and "p \<le> length (is_guids st)"
    and "\<forall>q. is_pos st \<le> q \<and> q < p - 1 \<longrightarrow> \<not> processable st (is_guids st ! q)"
    and "s \<noteq> OperationPending"
  shows "behind_settled (SetState (is_guids st ! (p - 1)) s (st\<lparr>is_pos := p\<rparr>))"
proof -
  have "\<not> processable st (is_guids st ! q)" if "q < p" "q \<noteq> p - 1" for q
    using assms(1,4) that by (cases "q < is_pos st") (auto simp: behind_settled_def)
  with assms(3,5) show ?thesis
    by (auto simp: behind_settled_def processable_SetState)
qed

text \<open>One piece of a run: the invariants are kept and no instance starts to wait.\<close>

definition stepped :: "Iterator \<Rightarrow> bool \<Rightarrow> itstate \<Rightarrow> itstate \<Rightarrow> bool" where
  "stepped it loud s s' \<longleftrightarrow> kept it loud s s' \<and> behind_settled (it_state s')
     \<and> pend (it_state s') \<subseteq> pend (it_state s)"

lemma stepped_trans: "stepped it loud s s1 \<Longrightarrow> stepped it loud s1 s2 \<Longrightarrow> stepped it loud s s2"
  by (auto simp: stepped_def intro: kept_trans)

lemma stepped_refl:
  "run_inv it (it_state s) (hist s) \<Longrightarrow> fail_inv loud s \<Longrightarrow> behind_settled (it_state s) \<Longrightarrow> stepped it loud s s"
  by (simp add: stepped_def kept_refl)

lemma stepped_neutral:
  "stepped it loud s s' \<Longrightarrow> list_all neutral es \<Longrightarrow> stepped it loud s (s'\<lparr>hist := hist s' @ es\<rparr>)"
  by (simp add: stepped_def kept_neutral)

text \<open>The instance found by \<open>NextPending\<close>\<close>

definition found :: "iteratorState \<Rightarrow> nat \<Rightarrow> bool" where
  "found st p \<longleftrightarrow> is_pos st < p \<and> p \<le> length (is_guids st) \<and> processable st (is_guids st ! (p - 1))
     \<and> (\<forall>q. is_pos st \<le> q \<and> q < p - 1 \<longrightarrow> \<not> processable st (is_guids st ! q))"

lemma NextPending_found:
  assumes "NextPending st = (Inr i, st')" "behind_settled st"
  obtains p where "st' = st\<lparr>is_pos := p\<rparr>" "found st p" "inst_GUID i = is_guids st ! (p - 1)"
proof -
  from NextPending_spec [OF assms(1)] assms(2) obtain p where "st' = st\<lparr>is_pos := p\<rparr>" "is_pos st < p"
    "p \<le> length (is_guids st)" "i = handle st (is_guids st ! (p - 1))" "processable st (is_guids st ! (p - 1))"
    "\<forall>q. is_pos st \<le> q \<and> q < p \<and> q < p - 1 \<longrightarrow> \<not> processable st (is_guids st ! q)"
    by (auto simp: behind_settled_def)
  then show thesis by (intro that [of p]) (auto simp: found_def)
qed

lemma NextPending_none:
  assumes "NextPending st = (Inl e, st')" "behind_settled st"
  shows "st' = st\<lparr>is_pos := length (is_guids st)\<rparr>" and "pend st = {}" and "behind_settled st'"
proof -
  from NextPending_spec [OF assms(1)] assms(2)
  have st': "st' = st\<lparr>is_pos := length (is_guids st)\<rparr>"
    and none: "\<forall>q. is_pos st \<le> q \<and> q < length (is_guids st) \<longrightarrow> \<not> processable st (is_guids st ! q)"
    by (auto simp: behind_settled_def)
  have all: "\<not> processable st (is_guids st ! q)" if "q < length (is_guids st)" for q
    using none assms(2) that by (cases "q < is_pos st") (auto simp: behind_settled_def)
  then show "pend st = {}" by (auto simp: pend_def in_set_conv_nth)
  show "st' = st\<lparr>is_pos := length (is_guids st)\<rparr>" by (rule st')
  show "behind_settled st'" using all by (simp add: st' behind_settled_def)
qed

lemma found_facts:
  assumes "found st p"
  shows "is_guids st ! (p - 1) \<in> set (is_guids st)" and "is_guids st ! (p - 1) \<in> pend st"
    and "processable st (is_guids st ! (p - 1))" and "length (is_guids st) - p < length (is_guids st) - is_pos st"
  using assms by (auto simp: found_def pend_def)

lemma stepped_take:
  assumes "behind_settled (it_state s)" "found (it_state s) p" "g = is_guids (it_state s) ! (p - 1)"
    and "x \<noteq> OperationPending" "it_state s' = SetState g x st"
    and "st = (it_state s)\<lparr>is_pos := p\<rparr> \<or> st = SetOperation g oper ((it_state s)\<lparr>is_pos := p\<rparr>)"
    and "run_inv it (it_state s') (hist s')" "fail_inv loud s'" "it_canaries s' = it_canaries s"
  shows "stepped it loud s s'" and "pend (it_state s') \<subset> pend (it_state s)" and "is_pos (it_state s') = p"
proof -
  have pend: "pend (it_state s') = pend (it_state s) - {g}"
    using assms(4,5,6) by (auto simp: pend_SetState)
  have same: "is_guids st = is_guids (it_state s)" "is_processCanaries st = is_processCanaries (it_state s)"
    "is_canaryLimit st = is_canaryLimit (it_state s)" "is_pos st = p"
    using assms(6) by auto
  have "behind_settled (SetState g x ((it_state s)\<lparr>is_pos := p\<rparr>))"
    using behind_take [OF assms(1) _ _ _ assms(4)] assms(2,3) by (simp add: found_def)
  then have "behind_settled (it_state s')"
    using assms(4,5,6) by (auto simp: behind_settled_def processable_SetState)
  then show "stepped it loud s s'"
    using assms(5,7,8,9) same pend by (auto simp: stepped_def kept_def)
  show "pend (it_state s') \<subset> pend (it_state s)"
    using pend found_facts(2) [OF assms(2)] assms(3) by auto
  show "is_pos (it_state s') = p" using assms(5) same by simp
qed

lemma fail_inv_SetState:
  assumes "fail_inv loud s" "it_state s' = SetState g x st" "ii_status \<circ> info st = ii_status \<circ> info (it_state s)"
    and "is_guids st = is_guids (it_state s)" "it_failures s \<noteq> [] \<longrightarrow> it_failures s' \<noteq> []"
    and "loud \<Longrightarrow> x \<noteq> UnsetState \<and> (x = OperationFailed \<longrightarrow> it_failures s' \<noteq> [])"
  shows "fail_inv loud s'"
  using assms by (auto simp: fail_inv_def info_SetState fun_eq_iff)

section \<open>Triggering\<close>

definition started :: "bool \<Rightarrow> gerr + TriggeredOperation \<Rightarrow> bool" where
  "started loud r \<longleftrightarrow> result_state triggered_ok r \<and> (loud \<longrightarrow> result_state loud_trigger r)"

definition checked :: "bool \<Rightarrow> bool \<Rightarrow> gerr + TriggeredOperation \<Rightarrow> bool" where
  "checked loud prompt r \<longleftrightarrow> result_state checked_ok r \<and> (loud \<longrightarrow> result_state loud_check r)
     \<and> (prompt \<longrightarrow> result_state (\<lambda>st. st \<noteq> OperationAccepted) r)"

lemma call_only_conj:
  assumes "call_only P m" "call_only Q m"
  shows "call_only (\<lambda>x. P x \<and> Q x) m"
  unfolding call_only_def
proof
  fix s
  from assms(1) obtain x tr where "m s = (Val x, s\<lparr>hist := hist s @ tr\<rparr>)" "list_all is_exchange tr" "P x"
    unfolding call_only_def by blast
  moreover from assms(2) obtain y tr' where "m s = (Val y, s\<lparr>hist := hist s @ tr'\<rparr>)" "Q y"
    unfolding call_only_def by blast
  ultimately show "\<exists>x tr. m s = (Val x, s\<lparr>hist := hist s @ tr\<rparr>) \<and> list_all is_exchange tr \<and> P x \<and> Q x"
    by auto
qed

lemma call_only_when: "(b \<Longrightarrow> call_only P m) \<Longrightarrow> call_only Q m \<Longrightarrow> call_only (\<lambda>x. b \<longrightarrow> P x) m"
  by (cases b) (auto elim: call_only_mono)

lemma wp_noted:
  assumes "call_only P m"
    and "\<And>x es. P x \<Longrightarrow> list_all neutral es \<Longrightarrow> Q (Val x) (s\<lparr>hist := (hist s @ es) @ [ev x]\<rparr>)"
  shows "wp (noted ev m) Q s"
  unfolding noted_def wp_seq
  by (rule wp_call_only [OF assms(1)]) (use assms(2) in \<open>simp add: wp exchanges_neutral\<close>)

lemma wp_nextPending [wp]:
  "wp nextPending Q s \<longleftrightarrow> (case NextPending (it_state s) of (r, st) \<Rightarrow> Q (Val r) (s\<lparr>it_state := st\<rparr>))"
  by (simp add: wp_def nextPending_def split: prod.splits)

locale iteration = broker_services "itr_brokerServices it" + triggerer_interface "itr_triggerer it"
  for it :: Iterator +
  fixes loud prompt :: bool
  assumes loud_law: "loud \<Longrightarrow> loud_triggerer (itr_triggerer it)"
    and prompt_law: "prompt \<Longrightarrow> call_only (result_state (\<lambda>st. st \<noteq> OperationAccepted)) (trg_Check (itr_triggerer it) g d)"
begin

lemma trigger_call: "call_only (started loud) (trg_TriggerOperation (itr_triggerer it) i)"
  using call_only_conj [OF trigger_law call_only_when [OF loud_triggerer.loud_trigger_law [OF loud_law] trigger_law]]
  by (simp add: started_def [abs_def])

lemma check_call: "call_only (checked loud prompt) (trg_Check (itr_triggerer it) g d)"
  using call_only_conj [OF check_law call_only_conj
      [OF call_only_when [OF loud_triggerer.loud_check_law [OF loud_law] check_law]
          call_only_when [OF prompt_law check_law]]]
  by (simp add: checked_def [abs_def])

lemma startOperation_wp:
  assumes started: "\<And>r es. started loud r \<Longrightarrow> list_all neutral es
      \<Longrightarrow> Q (Val r) (s\<lparr>hist := (hist s @ es) @ [ITriggered (inst_GUID i) r]\<rparr>)"
    and gone: "\<And>es. list_all neutral es
      \<Longrightarrow> Q (Val (Inr (zeroOperation\<lparr>to_State := InstanceNotFound\<rparr>))) (s\<lparr>hist := hist s @ es\<rparr>)"
  shows "wp (startOperation it i) Q s"
proof -
  have trigger: "wp (noted (ITriggered (inst_GUID i)) (trg_TriggerOperation (itr_triggerer it) j)) Q
      (s\<lparr>hist := hist s @ pre\<rparr>)" if "list_all neutral pre" for j pre
  proof (rule wp_noted [OF trigger_call])
    fix x es assume "started loud x" "list_all neutral es"
    then show "Q (Val x) (s\<lparr>hist := hist s @ pre, hist := (hist (s\<lparr>hist := hist s @ pre\<rparr>) @ es) @ [ITriggered (inst_GUID i) x]\<rparr>)"
      using started [of x "pre @ es"] that by simp
  qed
  show ?thesis
    unfolding startOperation_def wp_seq
  proof (rule wp_noted [OF latest_law])
    fix x es assume es: "list_all neutral es"
    have "wp (noted (ITriggered (inst_GUID i)) (trg_TriggerOperation (itr_triggerer it) j)) Q
      (s\<lparr>hist := hist s @ es @ ILatest (inst_GUID i) x # pre\<rparr>)" if "list_all neutral pre" for j pre
      using trigger [of "es @ ILatest (inst_GUID i) x # pre" j] es that by simp
    note t = this [of "[]"] this [of "[LFailedToRefresh (inst_GUID i)]"]
    show "case Val x of Val latest \<Rightarrow> wp (if latest = Inl InstanceNotFoundError
        then ret (Inr (zeroOperation\<lparr>to_State := InstanceNotFound\<rparr>))
        else seq (case latest of Inl x \<Rightarrow> seq (emit (LFailedToRefresh (inst_GUID i))) (\<lambda>_. ret i) | Inr x \<Rightarrow> ret x)
          (\<lambda>latestInstance. noted (ITriggered (inst_GUID i)) (trg_TriggerOperation (itr_triggerer it) latestInstance))) Q
        (s\<lparr>hist := (hist s @ es) @ [ILatest (inst_GUID i) x]\<rparr>)
      | Panic p \<Rightarrow> Q (Panic p) (s\<lparr>hist := (hist s @ es) @ [ILatest (inst_GUID i) x]\<rparr>)
      | OutOfFuel \<Rightarrow> Q OutOfFuel (s\<lparr>hist := (hist s @ es) @ [ILatest (inst_GUID i) x]\<rparr>)"
      using es gone [of "es @ [ILatest (inst_GUID i) x]"] t by (cases x) (auto simp: wp)
  qed
qed

text \<open>Taking the next instance, with each of the three outcomes\<close>

lemma take_next:
  fixes s :: itstate
  assumes inv: "run_inv it (it_state s) (hist s)" "fail_inv loud s" "behind_settled (it_state s)"
    and f: "found (it_state s) p" "g = is_guids (it_state s) ! (p - 1)" and es: "list_all neutral es"
  defines "st \<equiv> (it_state s)\<lparr>is_pos := p\<rparr>"
  shows refused: "s' = s\<lparr>hist := (hist s @ es) @ [ITriggered g (Inl err)], it_state := SetState g OperationFailed st,
      it_failures := it_failures s @ [x]\<rparr> \<Longrightarrow> stepped it loud s s' \<and> pend (it_state s') \<subset> pend (it_state s)"
    and gone: "s' = s\<lparr>hist := hist s @ es, it_state := SetState g InstanceNotFound (SetOperation g oper st)\<rparr>
      \<Longrightarrow> stepped it loud s s' \<and> pend (it_state s') \<subset> pend (it_state s) \<and> is_pos (it_state s') = p"
    and triggered: "s' = s\<lparr>hist := (hist s @ es) @ [ITriggered g (Inr oper)],
        it_state := SetState g (to_State oper) (SetOperation g oper st)\<rparr>
      \<Longrightarrow> started loud (Inr oper)
      \<Longrightarrow> (to_State oper = OperationAccepted \<Longrightarrow> int (length (flying (hist s))) < itr_maxInFlight it)
      \<Longrightarrow> (to_State oper = OperationAccepted \<Longrightarrow> is_processCanaries (it_state s) \<Longrightarrow> 0 < itr_canaries it
        \<Longrightarrow> int (accepts (hist s)) < is_canaryLimit (it_state s))
      \<Longrightarrow> stepped it loud s s' \<and> pend (it_state s') \<subset> pend (it_state s) \<and> is_pos (it_state s') = p"
proof -
  have run: "run_inv it st (hist s @ es)" and g: "g \<in> set (is_guids st)" "processable st g"
    using inv(1) f es found_facts [OF f(1)] by (simp_all add: st_def run_inv_neutral)
  note take = stepped_take [OF inv(3) f(1,2)]
  show "stepped it loud s s' \<and> pend (it_state s') \<subset> pend (it_state s)"
    if s': "s' = s\<lparr>hist := (hist s @ es) @ [ITriggered g (Inl err)], it_state := SetState g OperationFailed st,
      it_failures := it_failures s @ [x]\<rparr>"
  proof -
    have "run_inv it (it_state s') (hist s')" using step_refused [OF run g] by (simp add: s')
    moreover have "fail_inv loud s'"
      using inv(2) by (auto simp: s' st_def fail_inv_def info_SetState)
    ultimately show ?thesis
      using take(1,2) [of OperationFailed s' st oper] by (simp add: s' st_def)
  qed
  show "stepped it loud s s' \<and> pend (it_state s') \<subset> pend (it_state s) \<and> is_pos (it_state s') = p"
    if s': "s' = s\<lparr>hist := hist s @ es, it_state := SetState g InstanceNotFound (SetOperation g oper st)\<rparr>"
  proof -
    have "run_inv it (it_state s') (hist s')" using step_gone [OF run g] by (simp add: s')
    moreover have "fail_inv loud s'"
      using inv(2) by (auto simp: s' st_def fail_inv_def info_SetState info_SetOperation)
    ultimately show ?thesis
      using take [of InstanceNotFound s' "SetOperation g oper st" oper] by (simp add: s' st_def)
  qed
  show "stepped it loud s s' \<and> pend (it_state s') \<subset> pend (it_state s) \<and> is_pos (it_state s') = p"
    if s': "s' = s\<lparr>hist := (hist s @ es) @ [ITriggered g (Inr oper)],
        it_state := SetState g (to_State oper) (SetOperation g oper st)\<rparr>"
      and ok: "started loud (Inr oper)"
      and room: "to_State oper = OperationAccepted \<Longrightarrow> int (length (flying (hist s))) < itr_maxInFlight it"
        "to_State oper = OperationAccepted \<Longrightarrow> is_processCanaries (it_state s) \<Longrightarrow> 0 < itr_canaries it
        \<Longrightarrow> int (accepts (hist s)) < is_canaryLimit (it_state s)"
  proof -
    have pending: "to_State oper \<noteq> OperationPending"
      using ok by (simp add: started_def result_state_def triggered_ok_def)
    have "run_inv it (it_state s') (hist s')"
      using step_triggered [OF run g pending] room es by (simp add: s' st_def flying_append)
    moreover have "fail_inv loud s'"
      using inv(2) ok by (auto simp: s' st_def fail_inv_def info_SetState info_SetOperation started_def
          result_state_def loud_trigger_def)
    ultimately show ?thesis
      using take [OF pending, of s' "SetOperation g oper st" oper] by (simp add: s' st_def)
  qed
qed

end

text \<open>The operations the loop may still start fit into the bounds.\<close>

definition room :: "Iterator \<Rightarrow> int \<Rightarrow> int \<Rightarrow> itstate \<Rightarrow> bool" where
  "room it needed acc s \<longleftrightarrow> (acc < needed \<longrightarrow>
     int (length (flying (hist s))) + needed - acc \<le> itr_maxInFlight it
     \<and> (is_processCanaries (it_state s) \<and> 0 < itr_canaries it \<longrightarrow>
          int (accepts (hist s)) + needed - acc \<le> is_canaryLimit (it_state s)))"

lemma room_stepped:
  assumes "room it needed acc s" "stepped it loud s s'"
    and "length (flying (hist s')) = length (flying (hist s))" "accepts (hist s') = accepts (hist s)"
  shows "room it needed acc s'"
  using assms by (auto simp: room_def stepped_def kept_def)

lemma room_accepted:
  assumes "room it needed acc s" "stepped it loud s s'" "acc < needed"
    and "length (flying (hist s')) \<le> Suc (length (flying (hist s)))" "accepts (hist s') = Suc (accepts (hist s))"
  shows "room it needed (acc + 1) s'"
  using assms by (auto simp: room_def stepped_def kept_def)

lemma filter_neutral: "list_all neutral es \<Longrightarrow> filter is_accept es = []"
  using accepts_neutral [of es] by (simp add: accepts_def)

context iteration begin

lemma triggerLoop_wp:
  assumes "run_inv it (it_state s) (hist s)" "fail_inv loud s" "behind_settled (it_state s)"
    and "room it needed acc s" and "length (is_guids (it_state s)) - is_pos (it_state s) < fuel"
  shows "wp (triggerLoop it fuel needed n acc) (\<lambda>r s'. r = Val () \<and> stepped it loud s s'
     \<and> (acc < needed \<and> pend (it_state s) \<noteq> {} \<longrightarrow> pend (it_state s') \<subset> pend (it_state s))) s"
  using assms
proof (induction fuel arbitrary: acc s)
  case 0
  then show ?case by simp
next
  case (Suc fuel)
  let ?post = "\<lambda>r s'. r = Val () \<and> stepped it loud s s'
     \<and> (acc < needed \<and> pend (it_state s) \<noteq> {} \<longrightarrow> pend (it_state s') \<subset> pend (it_state s))"
  note inv = Suc.prems(1-3)
  obtain r st' where np: "NextPending (it_state s) = (r, st')" by fastforce
  have again: "wp (triggerLoop it fuel needed n acc') ?post s'"
    if s': "stepped it loud s s' \<and> pend (it_state s') \<subset> pend (it_state s) \<and> is_pos (it_state s') = p"
      and p: "length (is_guids (it_state s)) - p < length (is_guids (it_state s)) - is_pos (it_state s)"
      and room: "room it needed acc' s'" for acc' s' p
  proof -
    have "wp (triggerLoop it fuel needed n acc') (\<lambda>r s''. r = Val () \<and> stepped it loud s' s''
     \<and> (acc' < needed \<and> pend (it_state s') \<noteq> {} \<longrightarrow> pend (it_state s'') \<subset> pend (it_state s'))) s'"
      using s' p room Suc.prems(5) by (intro Suc.IH) (auto simp: stepped_def kept_def)
    then show ?thesis
      by (rule wp_mono) (use s' in \<open>auto simp: stepped_def intro: kept_trans\<close>)
  qed
  show ?case
  proof (cases "acc < needed")
    case False
    then show ?thesis using stepped_refl inv by (simp add: wp)
  next
    case True
    show ?thesis
    proof (cases r)
      case (Inl e)
      have "stepped it loud s (s\<lparr>it_state := st'\<rparr>)"
        using inv NextPending_none [of "it_state s" e st'] np Inl
        by (auto simp: stepped_def kept_def fail_inv_def)
      with True np Inl NextPending_none(2) [of "it_state s" e st'] inv(3) show ?thesis
        by (simp add: wp)
    next
      case (Inr i)
      obtain p where st': "st' = (it_state s)\<lparr>is_pos := p\<rparr>" and f: "found (it_state s) p"
        and g: "inst_GUID i = is_guids (it_state s) ! (p - 1)"
        using NextPending_found [of "it_state s" i st'] np Inr inv(3) by blast
      note less = found_facts(4) [OF f]
      let ?start = "LOperationStarting (inst_GUID i) (GetIteratorIndex st') n (IsProcessingCanaries st')"
      let ?s0 = "s\<lparr>it_state := st', hist := hist s @ [?start]\<rparr>"
      have main: "wp (startOperation it i) (\<lambda>r s'. case r of
            Val (Inl err) \<Rightarrow> ?post (Val ()) (s'\<lparr>it_state := SetState (inst_GUID i) OperationFailed (it_state s'),
                it_failures := it_failures s' @ [\<lparr>fail_guid = inst_GUID i, fail_err = err\<rparr>]\<rparr>)
          | Val (Inr oper) \<Rightarrow> wp (seq (modify (SetOperation (inst_GUID i) oper)) (\<lambda>_.
                seq (modify (SetState (inst_GUID i) (to_State oper))) (\<lambda>_.
                seq (emit (LOperationStartResult (inst_GUID i) (to_State oper))) (\<lambda>_.
                if to_State oper = OperationAccepted then
                  seq (emit (LWaitingFor (inst_GUID i) (od_BoshTaskID (to_Data oper)))) (\<lambda>_.
                  triggerLoop it fuel needed n (acc + 1))
                else triggerLoop it fuel needed n acc)))) ?post s'
          | Panic p \<Rightarrow> False | OutOfFuel \<Rightarrow> False) ?s0"
        (is "wp _ ?R _")
      proof (rule startOperation_wp)
        fix res es assume res: "started loud res" and es: "list_all neutral es"
        let ?es = "?start # es"
        have es': "list_all neutral ?es" using es by simp
        show "?R (Val res) (?s0\<lparr>hist := (hist ?s0 @ es) @ [ITriggered (inst_GUID i) res]\<rparr>)"
        proof (cases res)
          case (Inl err)
          from refused [OF inv f g es' refl, where err = err
              and x = "\<lparr>fail_guid = inst_GUID i, fail_err = err\<rparr>"] show ?thesis
            using True by (simp add: Inl st')
        next
          case (Inr oper)
          let ?s = "s\<lparr>hist := (hist s @ ?es) @ [ITriggered (inst_GUID i) (Inr oper)],
            it_state := SetState (inst_GUID i) (to_State oper) (SetOperation (inst_GUID i) oper st')\<rparr>"
          have step: "stepped it loud s ?s \<and> pend (it_state ?s) \<subset> pend (it_state s) \<and> is_pos (it_state ?s) = p"
            by (rule triggered [OF inv f g es'])
              (use res Inr True Suc.prems(4) in \<open>auto simp: st' room_def\<close>)
          let ?start' = "LOperationStartResult (inst_GUID i) (to_State oper)"
          let ?wait = "LWaitingFor (inst_GUID i) (od_BoshTaskID (to_Data oper))"
          have next_step: "stepped it loud s (?s\<lparr>hist := hist ?s @ es\<rparr>) \<and> pend (it_state (?s\<lparr>hist := hist ?s @ es\<rparr>)) \<subset> pend (it_state s)
              \<and> is_pos (it_state (?s\<lparr>hist := hist ?s @ es\<rparr>)) = p" if "list_all neutral es" for es
            using step stepped_neutral [OF conjunct1 [OF step] that] by simp
          show ?thesis
          proof (cases "to_State oper = OperationAccepted")
            case True
            have ok: "list_all neutral [?start', ?wait]" by simp
            have "room it needed (acc + 1) (?s\<lparr>hist := hist ?s @ [?start', ?wait]\<rparr>)"
              using Suc.prems(4) \<open>acc < needed\<close> conjunct1 [OF next_step [OF ok]] es' True
              by (elim room_accepted) (auto simp: List.insert_def flying_append accepts_def filter_neutral)
            from again [OF next_step [OF ok] less this] True show ?thesis
              by (simp add: wp Inr modify_def)
          next
            case False
            have ok: "list_all neutral [?start']" by simp
            have "room it needed acc (?s\<lparr>hist := hist ?s @ [?start']\<rparr>)"
              using Suc.prems(4) conjunct1 [OF next_step [OF ok]] es' False
              by (elim room_stepped) (auto simp: flying_append accepts_def filter_neutral)
            from again [OF next_step [OF ok] less this] False show ?thesis
              by (simp add: wp Inr modify_def)
          qed
        qed
      next
        fix es assume es: "list_all neutral es"
        show "?R (Val (Inr (zeroOperation\<lparr>to_State := InstanceNotFound\<rparr>)))
            (?s0\<lparr>hist := hist ?s0 @ es\<rparr>)"
        proof -
          let ?gone = "zeroOperation\<lparr>to_State := InstanceNotFound\<rparr>"
          let ?start' = "LOperationStartResult (inst_GUID i) InstanceNotFound"
          let ?s = "s\<lparr>it_state := SetState (inst_GUID i) InstanceNotFound (SetOperation (inst_GUID i) ?gone st'),
            hist := hist s @ ?start # es @ [?start']\<rparr>"
          have step: "stepped it loud s ?s \<and> pend (it_state ?s) \<subset> pend (it_state s) \<and> is_pos (it_state ?s) = p"
            using gone [OF inv f g, of "?start # es @ [?start']" ?s ?gone] es by (simp add: st')
          have "room it needed acc ?s"
            using Suc.prems(4) conjunct1 [OF step] es by (elim room_stepped) (auto simp: flying_append)
          from again [OF step less this] show ?thesis
            by (simp add: wp modify_def)
        qed
      qed
      have upd: "it_state (s\<lparr>it_state := st'\<rparr>) = st'" "hist (s\<lparr>it_state := st'\<rparr>) = hist s" by simp_all
      from main have "wp (attempt (startOperation it i)
          (\<lambda>err. seq (modify (SetState (inst_GUID i) OperationFailed)) (\<lambda>_. addFailure (inst_GUID i) err))
          (\<lambda>operation. seq (modify (SetOperation (inst_GUID i) operation)) (\<lambda>_.
            seq (modify (SetState (inst_GUID i) (to_State operation))) (\<lambda>_.
            seq (emit (LOperationStartResult (inst_GUID i) (to_State operation))) (\<lambda>_.
            if to_State operation = OperationAccepted then
              seq (emit (LWaitingFor (inst_GUID i) (od_BoshTaskID (to_Data operation)))) (\<lambda>_.
              triggerLoop it fuel needed n (acc + 1))
            else triggerLoop it fuel needed n acc))))) ?post ?s0"
        unfolding wp_attempt
        by (rule wp_mono) (auto simp: addFailure_def modify_def wp_seq wp_write split: outcome.splits sum.splits)
      then show ?thesis
        by (simp only: triggerLoop.simps if_P [OF True] wp_attempt [of nextPending] wp_nextPending np Inr
            prod.case outcome.case sum.case wp_seq [of "read_state it_state"] wp_seq [of "emit ?start"]
            wp_read wp_emit upd)
    qed
  qed
qed

end

lemma accepted_known: "covered st \<Longrightarrow> status st g = OperationAccepted \<Longrightarrow> g \<in> set (is_guids st)"
  by (rule ccontr) (simp add: info_outside zeroInfo_def)

lemma accepted_visible:
  "flight_inv it st tr \<Longrightarrow> status st g = OperationAccepted \<Longrightarrow> g \<in> set (is_guids st) \<and> visible st g"
  by (auto simp: flight_inv_def visible_def dest: accepted_known)

lemma flying_counted: "run_inv it st tr \<Longrightarrow> length (flying tr) \<le> CountInProgressInstances st"
proof -
  assume inv: "run_inv it st tr"
  then have "{g. status st g = OperationAccepted}
      \<subseteq> set (filter (\<lambda>g. visible st g \<and> status st g = OperationAccepted) (is_guids st))"
    using accepted_visible by (auto simp: run_inv_def)
  from le_trans [OF card_mono [OF finite_set this] card_length] show ?thesis
    by (simp add: in_progress_count flying_length [OF inv])
qed

lemma outstanding_counted:
  assumes "0 < is_canaryLimit st"
  shows "OutstandingCanaryCount st \<le> is_canaryLimit st - int (card (settled st))"
proof -
  have "settled st \<subseteq> set (filter (\<lambda>g. status st g \<noteq> OperationPending) (filter (couldBeCanary st) (is_guids st)))"
    by (auto simp: settled_def)
  from le_trans [OF card_mono [OF finite_set this] card_length] show ?thesis
    using assms by (simp add: OutstandingCanaryCount_def Let_def)
qed

lemma room_initially:
  assumes "run_inv it (it_state s) (hist s)"
  shows "room it (operationsToTriggerCount it (it_state s)) 0 s"
proof -
  let ?st = "it_state s"
  have "int (length (flying (hist s))) + operationsToTriggerCount it ?st \<le> itr_maxInFlight it"
    using flying_counted [OF assms] by (auto simp: operationsToTriggerCount_def Let_def)
  moreover have "int (accepts (hist s)) + operationsToTriggerCount it ?st \<le> is_canaryLimit ?st"
    if "is_processCanaries ?st" "0 < itr_canaries it"
  proof -
    have "0 < is_canaryLimit ?st" "accepts (hist s) \<le> card (settled ?st)"
      using assms that by (auto simp: run_inv_def canary_inv_def)
    with outstanding_counted [of ?st] that(1) show ?thesis
      by (auto simp: operationsToTriggerCount_def IsProcessingCanaries_def Let_def)
  qed
  ultimately show ?thesis by (simp add: room_def)
qed

text \<open>Without a canary limit there is work to start whenever nothing is under way.\<close>

lemma needed_positive:
  assumes "run_inv it st tr" "0 < itr_maxInFlight it" "is_processCanaries st \<Longrightarrow> is_canaryLimit st = 0"
    and "\<And>g. status st g \<noteq> OperationAccepted" "pend st \<noteq> {}"
  shows "0 < operationsToTriggerCount it st"
proof -
  have "CountInProgressInstances st = 0" using assms(4) by (simp add: in_progress_count)
  moreover have "0 < OutstandingCanaryCount st" if proc: "is_processCanaries st"
  proof -
    obtain g where "g \<in> set (is_guids st)" "couldBeCanary st g" "status st g = OperationPending"
      using assms(5) proc by (auto simp: pend_def processable_facts visible_def)
    then have "filter (\<lambda>g. status st g = OperationPending) (filter (couldBeCanary st) (is_guids st)) \<noteq> []"
      by (auto simp: filter_empty_conv)
    then show ?thesis using assms(3) [OF proc] by (simp add: OutstandingCanaryCount_def Let_def)
  qed
  ultimately show ?thesis
    using assms(2) by (simp add: operationsToTriggerCount_def Let_def IsProcessingCanaries_def)
qed

context iteration begin

lemma triggerOperation_wp:
  assumes "run_inv it (it_state s) (hist s)" "fail_inv loud s" "behind_settled (it_state s)"
  shows "wp (triggerOperation it) (\<lambda>r s'. r = Val () \<and> stepped it loud s s'
     \<and> (0 < operationsToTriggerCount it (it_state s) \<and> pend (it_state s) \<noteq> {}
         \<longrightarrow> pend (it_state s') \<subset> pend (it_state s))) s"
  unfolding triggerOperation_def wp_seq wp_read
  using stepped_refl [OF assms] triggerLoop_wp [OF assms room_initially [OF assms(1)]]
  by (simp add: Let_def wp del: triggerLoop.simps)

end

section \<open>Polling\<close>

lemma visible_SetState [simp]: "visible (SetState g x st) h = visible st h"
  by (simp add: visible_def info_SetState)

text \<open>The history is written first.\<close>

lemma hist_first [simp]:
  fixes s :: itstate
  shows "s\<lparr>it_state := a, hist := h\<rparr> = s\<lparr>hist := h, it_state := a\<rparr>"
    and "s\<lparr>it_failures := f, hist := h\<rparr> = s\<lparr>hist := h, it_failures := f\<rparr>"
  by simp_all

context iteration begin

text \<open>One check and what the loop does with its result\<close>

lemma poll_step:
  fixes s :: itstate
  assumes inv: "run_inv it (it_state s) (hist s)" "fail_inv loud s" "behind_settled (it_state s)"
    and A: "finite A" "int (card A) \<le> itr_maxInFlight it" "set (flying (hist s)) \<subseteq> A" "g \<in> A"
    and g: "g \<in> set (is_guids (it_state s))" "visible (it_state s) g"
    and r: "checked loud prompt r" "x = (case r of Inl _ \<Rightarrow> OperationFailed | Inr oper \<Rightarrow> to_State oper)"
    and es: "list_all neutral es" "list_all neutral es'"
    and s': "it_state s' = SetState g x (it_state s)" "hist s' = hist s @ es @ [IChecked g r] @ es'"
      "it_canaries s' = it_canaries s" "it_failures s \<noteq> [] \<longrightarrow> it_failures s' \<noteq> []"
      "x = OperationFailed \<longrightarrow> it_failures s' \<noteq> []"
  shows "stepped it loud s s'" "set (flying (hist s')) \<subseteq> A" "prompt \<Longrightarrow> x \<noteq> OperationAccepted"
proof -
  have x: "checked_ok x" "loud \<longrightarrow> x \<noteq> UnsetState"
    using r by (auto simp: checked_def result_state_def loud_check_def checked_ok_def split: sum.splits)
  then have pending: "x \<noteq> OperationPending" by (simp add: checked_ok_def)
  show "prompt \<Longrightarrow> x \<noteq> OperationAccepted"
    using r by (auto simp: checked_def result_state_def split: sum.splits)
  have "length (List.insert g (flying (hist s))) = card (insert g (set (flying (hist s))))"
    by (metis distinct_card distinct_insert flying_distinct set_insert)
  also have "\<dots> \<le> card A" using A by (intro card_mono) auto
  finally have "run_inv it (SetState g x (it_state s)) ((hist s @ es) @ [IChecked g r])"
    using inv(1) g r(2) x(1) A(2) es(1)
    by (intro step_checked) (auto simp: run_inv_neutral flying_append)
  from run_inv_neutral [OF this es(2)] have run: "run_inv it (it_state s') (hist s')"
    by (simp add: s')
  have "fail_inv loud s'"
    using inv(2) x(2) s' by (auto simp: fail_inv_def info_SetState)
  with run show "stepped it loud s s'"
    using inv(3) s'(1,3) pending by (auto simp: stepped_def kept_def behind_SetState pend_SetState)
  have "set (fly (IChecked g r) gs) \<subseteq> insert g (set gs)" for gs
    by (cases r) auto
  then have "set (fly (IChecked g r) (flying (hist s))) \<subseteq> A" using A(3,4) by blast
  then show "set (flying (hist s')) \<subseteq> A"
    using es by (simp add: s' flying_append)
qed

lemma pollEach_wp:
  assumes "run_inv it (it_state s) (hist s)" "fail_inv loud s" "behind_settled (it_state s)"
    and A: "finite A" "int (card A) \<le> itr_maxInFlight it" and "set (flying (hist s)) \<subseteq> A" 
    and "inst_GUID ` set insts \<subseteq> A"
    and "\<And>g. g \<in> A \<Longrightarrow> g \<in> set (is_guids (it_state s)) \<and> visible (it_state s) g"
  shows "wp (pollEach it insts) (\<lambda>r s'. r = Val () \<and> stepped it loud s s'
     \<and> (prompt \<longrightarrow> (\<forall>g. status (it_state s') g = OperationAccepted
         \<longrightarrow> g \<notin> inst_GUID ` set insts \<and> status (it_state s) g = OperationAccepted))) s"
  using assms(1-3) assms(6-8)
proof (induction insts arbitrary: s)
  case Nil
  then show ?case by (simp add: wp stepped_refl)
next
  case (Cons i insts)
  let ?g = "inst_GUID i"
  let ?post = "\<lambda>s r s'. r = Val () \<and> stepped it loud s s'
     \<and> (prompt \<longrightarrow> (\<forall>g. status (it_state s') g = OperationAccepted
         \<longrightarrow> g \<notin> inst_GUID ` set (i # insts) \<and> status (it_state s) g = OperationAccepted))"
  have rest: "wp (pollEach it insts) (?post s) s'"
    if "stepped it loud s s'" "set (flying (hist s')) \<subseteq> A" "prompt \<Longrightarrow> x \<noteq> OperationAccepted"
      "it_state s' = SetState ?g x (it_state s)" for s' x
  proof -
    have "g \<in> set (is_guids (it_state s')) \<and> visible (it_state s') g" if "g \<in> A" for g
      using Cons.prems(6) [OF that] by (simp add: \<open>it_state s' = _\<close>)
    with that Cons.prems(5) have "wp (pollEach it insts) (\<lambda>r s''. r = Val () \<and> stepped it loud s' s''
     \<and> (prompt \<longrightarrow> (\<forall>g. status (it_state s'') g = OperationAccepted
         \<longrightarrow> g \<notin> inst_GUID ` set insts \<and> status (it_state s') g = OperationAccepted))) s'"
      by (intro Cons.IH) (auto simp: stepped_def kept_def)
    then show ?thesis
      by (rule wp_mono) (use that in \<open>auto simp: info_SetState intro: stepped_trans split: if_splits\<close>)
  qed
  note step = poll_step [OF Cons.prems(1-3) A Cons.prems(4) _ conjunct1 [OF Cons.prems(6)] conjunct2 [OF Cons.prems(6)], of ?g]
  have g: "?g \<in> A" using Cons.prems(5) by simp
  show ?case
    unfolding pollEach.simps Let_def wp_seq wp_read wp_attempt outcome.case
  proof (rule wp_noted [OF check_call], goal_cases)
    case (1 r es)
    show ?case
    proof (cases r)
      case (Inl err)
      let ?s = "s\<lparr>hist := hist s @ es @ [IChecked ?g r], it_state := SetState ?g OperationFailed (it_state s),
        it_failures := it_failures s @ [\<lparr>fail_guid = ?g, fail_err = err\<rparr>]\<rparr>"
      have "wp (pollEach it insts) (?post s) ?s"
        by (rule rest [OF step(1) [OF g g g 1(1) refl 1(2), of "[]"] step(2) [OF g g g 1(1) refl 1(2), of "[]"]])
           (auto simp: Inl)
      then show ?thesis by (simp add: Inl wp modify_def addFailure_def)
    next
      case (Inr oper)
      let ?failed = "to_State oper = OperationFailed"
      let ?es = "case to_State oper of OperationSucceeded \<Rightarrow> [LOperationFinished ?g ''success'']
        | OperationFailed \<Rightarrow> [LOperationFinished ?g ''failure''] | _ \<Rightarrow> []"
      let ?fail = "if ?failed then [\<lparr>fail_guid = ?g, fail_err = operationFailedError ?g oper\<rparr>] else []"
      let ?s = "s\<lparr>hist := hist s @ es @ [IChecked ?g r] @ ?es, it_state := SetState ?g (to_State oper) (it_state s),
        it_failures := it_failures s @ ?fail\<rparr>"
      have es': "list_all neutral ?es" by (cases "to_State oper") simp_all
      have "wp (pollEach it insts) (?post s) ?s"
        by (rule rest [OF step(1) [OF g g g 1(1) refl 1(2) es'] step(2) [OF g g g 1(1) refl 1(2) es']])
           (use step(3) [OF g g g 1(1) refl 1(2) es', of ?s] in \<open>auto simp: Inr\<close>)
      then show ?thesis
        by (cases "to_State oper") (simp_all add: Inr wp modify_def addFailure_def)
    qed
  qed
qed

end

context iteration begin

lemma pollRunningTasks_wp:
  assumes inv: "run_inv it (it_state s) (hist s)" "fail_inv loud s" "behind_settled (it_state s)"
  shows "wp (pollRunningTasks it) (\<lambda>r s'. r = Val () \<and> stepped it loud s s'
     \<and> (prompt \<longrightarrow> (\<forall>g. status (it_state s') g \<noteq> OperationAccepted))) s"
proof -
  let ?A = "{g. status (it_state s) g = OperationAccepted}"
  have flight: "flight_inv it (it_state s) (hist s)" using inv(1) by (simp add: run_inv_def)
  note known = accepted_visible [OF flight]
  have "finite ?A" by (rule finite_subset [of _ "set (is_guids (it_state s))"]) (use known in auto)
  moreover have "int (card ?A) \<le> itr_maxInFlight it" "set (flying (hist s)) = ?A"
    using flying_length [OF inv(1)] never_over_now [of "itr_maxInFlight it" "hist s"] flight
    by (auto simp: flight_inv_def)
  moreover have "inst_GUID ` set (InProgressInstances (it_state s)) = ?A"
    using arg_cong [OF in_progress_GUIDs, of set "it_state s"] known by auto
  ultimately have "wp (pollEach it (InProgressInstances (it_state s))) (\<lambda>r s'. r = Val () \<and> stepped it loud s s'
     \<and> (prompt \<longrightarrow> (\<forall>g. status (it_state s') g = OperationAccepted
         \<longrightarrow> g \<notin> ?A \<and> status (it_state s) g = OperationAccepted))) s"
    using pollEach_wp [OF inv, of ?A "InProgressInstances (it_state s)"] known by auto
  then show ?thesis
    unfolding pollRunningTasks_def wp_seq wp_read outcome.case by (rule wp_mono) auto
qed

end

section \<open>Waiting\<close>

text \<open>A run that ends on its own: checks are prompt and the canaries have no limit.\<close>

definition ends :: "Iterator \<Rightarrow> bool \<Rightarrow> itstate \<Rightarrow> nat \<Rightarrow> bool" where
  "ends it prompt s fuel \<longleftrightarrow> prompt \<and> 0 < itr_maxInFlight it \<and> card (pend (it_state s)) < fuel
     \<and> (is_processCanaries (it_state s) \<longrightarrow> is_canaryLimit (it_state s) = 0)
     \<and> (\<forall>g. status (it_state s) g \<noteq> OperationAccepted)"

definition waited :: "Iterator \<Rightarrow> bool \<Rightarrow> bool \<Rightarrow> itstate \<Rightarrow> nat \<Rightarrow> gerr option option outcome \<Rightarrow> itstate \<Rightarrow> bool" where
  "waited it loud prompt s fuel r s' \<longleftrightarrow> stepped it loud s s'
     \<and> (\<forall>p. r \<noteq> Panic p)
     \<and> (r = Val None \<longrightarrow> \<not> HasInstancesToProcess (it_state s'))
     \<and> (\<forall>e. r = Val (Some e) \<longrightarrow> is_processCanaries (it_state s') \<and> CurrentPhaseIsComplete (it_state s')
          \<and> (e = None \<longrightarrow> it_failures s' = []))
     \<and> (ends it prompt s fuel \<longrightarrow> r \<noteq> OutOfFuel \<and> (\<forall>g. status (it_state s') g \<noteq> OperationAccepted))"

lemma finite_pend [simp]: "finite (pend st)"
  by (simp add: pend_def)

lemma to_process_iff:
  "HasInstancesToProcess st \<longleftrightarrow> (\<exists>g\<in>set (is_guids st). visible st g
     \<and> (status st g = OperationPending \<or> status st g = OperationAccepted))"
  by (auto simp: HasInstancesToProcess_def none_in_states)

lemma to_process_pend:
  "(\<And>g. status st g \<noteq> OperationAccepted) \<Longrightarrow> HasInstancesToProcess st \<longleftrightarrow> pend st \<noteq> {}"
  by (auto simp: to_process_iff pend_def processable_facts)

lemma stepped_guards:
  assumes "stepped it loud s s'"
  shows "run_inv it (it_state s') (hist s')" "fail_inv loud s'" "behind_settled (it_state s')"
  using assms by (simp_all add: stepped_def kept_def)

lemma formatError_failures:
  "wp formatError (\<lambda>r s'. s' = s \<and> (\<exists>e. r = Val e \<and> (e = None \<longrightarrow> it_failures s = []))) s"
  by (auto simp: formatError_def wp errorFromList_def Let_def split: list.splits)

context iteration begin

lemma pollingLoop_wp:
  assumes "run_inv it (it_state s) (hist s)" "fail_inv loud s" "behind_settled (it_state s)"
  shows "wp (pollingLoop it fuel) (waited it loud prompt s fuel) s"
  using assms
proof (induction fuel arbitrary: s)
  case 0
  then show ?case by (auto simp: wp waited_def ends_def stepped_refl)
next
  case (Suc fuel)
  show ?case
  proof (cases "HasInstancesToProcess (it_state s)")
    case False
    with Suc.prems show ?thesis by (auto simp: wp waited_def ends_def stepped_refl)
  next
    case True
    have later: "wp (pollingLoop it fuel) (waited it loud prompt s (Suc fuel)) s'"
      if "stepped it loud s s'" "ends it prompt s (Suc fuel) \<longrightarrow> ends it prompt s' fuel" for s'
      by (rule wp_mono [OF Suc.IH [OF stepped_guards [OF that(1)]]])
         (use that in \<open>auto simp: waited_def intro: stepped_trans\<close>)
    let ?tail = "seq (read_state it_state) (\<lambda>st.
       if HasInstancesProcessing st then seq (sleep (itr_pollingInterval it)) (\<lambda>_. pollingLoop it fuel)
       else if IsProcessingCanaries st \<and> CurrentPhaseIsComplete st then seq formatError (\<lambda>e. ret (Some e))
       else pollingLoop it fuel)"
    have body: "wp ?tail (waited it loud prompt s (Suc fuel)) s'"
      if s': "stepped it loud s s'" "ends it prompt s (Suc fuel) \<longrightarrow> ends it prompt s' fuel" for s'
    proof -
      have slept: "stepped it loud s (s'\<lparr>hist := hist s' @ [ESleep d]\<rparr>)" for d
        using stepped_neutral [OF s'(1), of "[ESleep d]"] by simp
      have failed: "wp (seq formatError (\<lambda>e. ret (Some e))) (waited it loud prompt s (Suc fuel)) s'"
        if "IsProcessingCanaries (it_state s') \<and> CurrentPhaseIsComplete (it_state s')"
        unfolding wp_seq
        by (rule wp_mono [OF formatError_failures])
           (use s' that in \<open>auto simp: wp waited_def ends_def IsProcessingCanaries_def\<close>)
      show ?thesis
        using later [OF s'] later [OF slept] s'(2) failed
        by (auto simp: wp sleep_def ends_def)
    qed
    have poll: "wp (seq (pollRunningTasks it) (\<lambda>_. ?tail)) (waited it loud prompt s (Suc fuel)) s'"
      if s': "stepped it loud s s'" and less: "ends it prompt s (Suc fuel) \<longrightarrow> pend (it_state s') \<subset> pend (it_state s)" for s'
      unfolding wp_seq [of "pollRunningTasks it"]
    proof (rule wp_mono [OF pollRunningTasks_wp [OF stepped_guards [OF s']]], goal_cases)
      case (1 r s'')
      then have s'': "stepped it loud s' s''" by simp
      have "card (pend (it_state s'')) < card (pend (it_state s))" if "ends it prompt s (Suc fuel)"
        using that less s'' by (intro psubset_card_mono) (auto simp: stepped_def)
      then have "ends it prompt s (Suc fuel) \<longrightarrow> ends it prompt s'' fuel"
        using s' 1 by (auto simp: ends_def stepped_def kept_def)
      with 1 body [OF stepped_trans [OF s' s'']] show ?case by (simp del: wp_seq)
    qed
    have busy: "0 < operationsToTriggerCount it (it_state s) \<and> pend (it_state s) \<noteq> {}" if "ends it prompt s (Suc fuel)"
      using that True needed_positive [OF Suc.prems(1)] by (auto simp: ends_def to_process_pend)
    have "wp (seq (triggerOperation it) (\<lambda>_. seq (pollRunningTasks it) (\<lambda>_. ?tail))) (waited it loud prompt s (Suc fuel)) s"
      unfolding wp_seq [of "triggerOperation it"]
      by (rule wp_mono [OF triggerOperation_wp [OF Suc.prems]]) (use busy poll in auto)
    with True show ?thesis
      by (simp only: pollingLoop.simps wp_seq [of "read_state it_state"] wp_read outcome.case not_True_eq_False if_False)
  qed
qed

end

section \<open>Attempts\<close>

definition processed_well :: "OperationState \<Rightarrow> bool" where
  "processed_well x \<longleftrightarrow> x = OperationSucceeded \<or> x = OperationSkipped \<or> x = InstanceNotFound \<or> x = OrphanDeployment"

definition at_rest :: "iteratorState \<Rightarrow> bool" where
  "at_rest st \<longleftrightarrow> \<not> HasInstancesToProcess st \<and> \<not> HasFailures st"

definition finishes :: "Iterator \<Rightarrow> bool \<Rightarrow> itstate \<Rightarrow> nat \<Rightarrow> bool" where
  "finishes it prompt s fuel \<longleftrightarrow> prompt \<and> 0 < itr_maxInFlight it \<and> length (is_guids (it_state s)) < fuel
     \<and> (is_processCanaries (it_state s) \<longrightarrow> is_canaryLimit (it_state s) = 0)
     \<and> (\<forall>g. status (it_state s) g \<noteq> OperationAccepted)"

definition attempted :: "Iterator \<Rightarrow> bool \<Rightarrow> bool \<Rightarrow> bool \<Rightarrow> itstate \<Rightarrow> nat \<Rightarrow> gerr option outcome \<Rightarrow> itstate \<Rightarrow> bool" where
  "attempted it loud prompt sure s fuel r s' \<longleftrightarrow> kept it loud s s' \<and> (\<forall>p. r \<noteq> Panic p)
     \<and> (r = Val None \<and> loud \<and> sure \<and> \<not> is_processCanaries (it_state s') \<longrightarrow>
          (\<forall>g\<in>set (is_guids (it_state s')). processed_well (status (it_state s') g)))
     \<and> (finishes it prompt s fuel \<longrightarrow> r \<noteq> OutOfFuel \<and> (\<forall>g. status (it_state s') g \<noteq> OperationAccepted))"

lemma failures_iff:
  "HasFailures st \<longleftrightarrow> (\<exists>g\<in>set (is_guids st). visible st g \<and> status st g = OperationFailed)"
  by (auto simp: HasFailures_def none_in_states)

lemma checkStillBusy_wp:
  "wp checkStillBusyInstances (\<lambda>r s'. s' = s \<and> (\<exists>e. r = Val e \<and> (e = None \<and> \<not> is_processCanaries (it_state s) \<longrightarrow>
     (\<forall>g\<in>set (is_guids (it_state s)). status (it_state s) g \<noteq> OperationInProgress)))) s"
  by (auto simp: checkStillBusyInstances_def wp Let_def GUIDs_in_state filter_empty_conv visible_def IsProcessingCanaries_def)

lemma all_processed_well:
  assumes "at_rest st" "\<not> is_processCanaries st" "g \<in> set (is_guids st)"
    and "status st g \<noteq> OperationInProgress" "status st g \<noteq> UnsetState"
  shows "processed_well (status st g)"
  using assms by (cases "status st g") (auto simp: at_rest_def to_process_iff failures_iff visible_def processed_well_def)

lemma still_busy_attempted:
  assumes "kept it loud s0 s" "sure \<longrightarrow> at_rest (it_state s)"
    and "finishes it prompt s0 fuel \<longrightarrow> (\<forall>g. status (it_state s) g \<noteq> OperationAccepted)"
  shows "wp checkStillBusyInstances (attempted it loud prompt sure s0 fuel) s"
  by (rule wp_mono [OF checkStillBusy_wp])
     (use assms in \<open>auto simp: attempted_def kept_def fail_inv_def intro!: all_processed_well\<close>)

lemma kept_Rewind:
  assumes "kept it loud s0 s"
  shows "kept it loud s0 (s\<lparr>it_state := RewindAndResetBusyInstances (it_state s)\<rparr>)"
  using assms run_inv_Rewind [of it "it_state s" "hist s"]
  by (auto simp: kept_def fail_inv_def info_Rewind resetBusy_def)

lemma behind_start: "is_pos st = 0 \<Longrightarrow> behind_settled st"
  by (simp add: behind_settled_def)

lemma card_pend: "card (pend st) \<le> length (is_guids st)"
  by (rule le_trans [OF card_mono [OF finite_set] card_length]) (simp add: pend_def)

context iteration begin

lemma attemptLoop_wp:
  assumes "kept it loud s0 s" "0 < left \<or> (sure \<longrightarrow> at_rest (it_state s))"
    and "finishes it prompt s0 fuel \<longrightarrow> (\<forall>g. status (it_state s) g \<noteq> OperationAccepted)"
  shows "wp (attemptLoop it fuel left att) (attempted it loud prompt sure s0 fuel) s"
  using assms
proof (induction left arbitrary: s att)
  case 0
  then show ?case by (simp add: still_busy_attempted)
next
  case (Suc left)
  let ?rewound = "s\<lparr>it_state := RewindAndResetBusyInstances (it_state s)\<rparr>"
  have kept: "kept it loud s0 (?rewound\<lparr>hist := hist ?rewound @ es\<rparr>)" if "list_all neutral es" for es
    using kept_Rewind [OF Suc.prems(1)] that by (rule kept_neutral)
  let ?rest = "\<lambda>result. case result of Some e \<Rightarrow> ret e
     | None \<Rightarrow> seq (read_state it_state) (\<lambda>st.
       if HasFailures st then formatError
       else seq (reportProgress it) (\<lambda>_.
         if CurrentPhaseIsComplete st then checkStillBusyInstances
         else seq (sleep (itr_attemptInterval it)) (\<lambda>_. attemptLoop it fuel left (att + 1))))"
  have loop: "wp (seq (pollingLoop it fuel) ?rest) (attempted it loud prompt sure s0 fuel) s1"
    if k: "kept it loud s0 s1" and pos: "is_pos (it_state s1) = 0"
      and quiet: "finishes it prompt s0 fuel \<longrightarrow> (\<forall>g. status (it_state s1) g \<noteq> OperationAccepted)" for s1
    unfolding wp_seq [of "pollingLoop it fuel"]
  proof (rule wp_mono [OF pollingLoop_wp [OF kept_inv [OF k] behind_start [OF pos]]], goal_cases)
    case (1 r s2)
    have k2: "kept it loud s0 s2" using 1 kept_trans [OF k] by (auto simp: waited_def stepped_def)
    have "ends it prompt s1 fuel" if "finishes it prompt s0 fuel"
      using that quiet k card_pend [of "it_state s1"] by (auto simp: ends_def finishes_def kept_def)
    then have quiet2: "finishes it prompt s0 fuel \<longrightarrow> r \<noteq> OutOfFuel \<and> (\<forall>g. status (it_state s2) g \<noteq> OperationAccepted)"
      using 1 by (auto simp: waited_def)
    show ?case
    proof (cases r)
      case (Val result)
      show ?thesis
      proof (cases result)
        case (Some e)
        with Val 1 k2 quiet2 show ?thesis by (auto simp: wp attempted_def waited_def)
      next
        case None
        have "wp formatError (attempted it loud prompt sure s0 fuel) s2" if "HasFailures (it_state s2)"
          by (rule wp_mono [OF formatError_failures])
             (use that k2 quiet2 in \<open>auto simp: attempted_def kept_def fail_inv_def failures_iff\<close>)
        moreover have "wp checkStillBusyInstances (attempted it loud prompt sure s0 fuel) (s2\<lparr>hist := hist s2 @ es\<rparr>)"
          "wp (attemptLoop it fuel left (att + 1)) (attempted it loud prompt sure s0 fuel) (s2\<lparr>hist := hist s2 @ es\<rparr>)"
          if "\<not> HasFailures (it_state s2)" "list_all neutral es" for es
          using that Val None 1 quiet2 kept_neutral [OF k2, of es]
          by (auto intro!: still_busy_attempted Suc.IH simp: at_rest_def waited_def)
        ultimately show ?thesis
          using Val None by (auto simp: wp reportProgress_def sleep_def)
      qed
    qed (use 1 k2 quiet2 in \<open>auto simp: attempted_def waited_def\<close>)
  qed
  have quiet: "finishes it prompt s0 fuel \<longrightarrow> (\<forall>g. status (RewindAndResetBusyInstances (it_state s)) g \<noteq> OperationAccepted)"
    using Suc.prems(3) by (auto simp: info_Rewind resetBusy_def)
  show ?case
    using loop kept quiet
    by (auto simp: wp modify_def logRetryAttempt_def)
qed

end

section \<open>Registering the instances\<close>

text \<open>Before anything is triggered only lists of instances are asked for.\<close>

fun listing :: "ievent \<Rightarrow> bool" where
  "listing (IInstances _ _) = True"
| "listing e = neutral e"

lemma neutral_listing: "neutral e \<Longrightarrow> listing e"
  by (cases e) simp_all

lemma neutrals_listing: "list_all neutral es \<Longrightarrow> list_all listing es"
  by (auto simp: list_all_iff neutral_listing)

lemma listing_facts:
  assumes "list_all listing tr"
  shows "fold fly tr gs = gs" and "accepts tr = 0" and "LCanariesFinished \<notin> set tr"
    and "list_all (triggers_in gs') tr" and "0 \<le> n \<Longrightarrow> never_over n [] tr"
proof -
  have one: "listing e \<Longrightarrow> fly e gs = gs \<and> \<not> is_accept e \<and> triggers_in gs' e" for e gs
    by (cases e) auto
  show "fold fly tr gs = gs" and acc: "accepts tr = 0" and "list_all (triggers_in gs') tr"
    using assms one by (induction tr) (auto simp: accepts_def)
  show "LCanariesFinished \<notin> set tr" using assms by (induction tr) auto
  show "0 \<le> n \<Longrightarrow> never_over n [] tr" using assms one by (induction tr) auto
qed

lemma run_inv_fresh:
  assumes "list_all listing tr" "0 \<le> itr_maxInFlight it" "covered st"
    and "\<And>g. status st g \<noteq> OperationAccepted"
    and "is_processCanaries st \<Longrightarrow> 0 < itr_canaries it \<Longrightarrow> 0 < is_canaryLimit st \<and> is_canaryLimit st \<le> itr_canaries it"
    and "\<And>g. itr_canarySelectionParams it \<noteq> [] \<Longrightarrow> is_processCanaries st \<Longrightarrow> couldBeCanary st g \<Longrightarrow> g \<in> set (selected tr)"
    and "\<not> is_processCanaries st \<Longrightarrow> canaries_wanted it \<Longrightarrow> is_guids st = []"
  shows "run_inv it st tr"
proof -
  note quiet = listing_facts [OF assms(1)]
  have "flying tr = []" by (simp add: flying_def quiet)
  then have "flight_inv it st tr"
    using assms(2-4) quiet(5) by (simp add: flight_inv_def)
  moreover have "canary_inv it st tr"
    using assms(5-7) quiet(2-4) by (simp add: canary_inv_def canary_part_open)
  ultimately show ?thesis by (simp add: run_inv_def)
qed

lemma New_state_inv:
  assumes "list_all listing tr" "0 \<le> itr_maxInFlight it" "it_state s = it_state (New_state it)"
  shows "run_inv it (it_state s) tr"
  by (rule run_inv_fresh [OF assms(1,2)])
     (simp_all add: assms(3) New_state_def covered_def info_def zeroInfo_def)

text \<open>The state the iteration starts from\<close>

definition registered_ok :: "Iterator \<Rightarrow> bool \<Rightarrow> gerr option outcome \<Rightarrow> itstate \<Rightarrow> bool" where
  "registered_ok it loud r s \<longleftrightarrow> run_inv it (it_state s) (hist s) \<and> (\<exists>e. r = Val e)
     \<and> (r = Val None \<longrightarrow> fail_inv loud s \<and> (\<forall>g. status (it_state s) g \<noteq> OperationAccepted)
          \<and> (itr_canaries it = 0 \<and> is_processCanaries (it_state s) \<longrightarrow> is_canaryLimit (it_state s) = 0))"

lemma registered_fresh:
  assumes new: "NewIteratorState canaryInstances instances n = Inr st"
    and "list_all listing tr" "0 \<le> itr_maxInFlight it"
    and n: "canaryInstances \<noteq> [] \<Longrightarrow> 0 < itr_canaries it \<Longrightarrow> 0 < n \<and> n \<le> itr_canaries it" "itr_canaries it = 0 \<Longrightarrow> n = 0"
    and sel: "itr_canarySelectionParams it \<noteq> [] \<Longrightarrow> inst_GUID ` set canaryInstances \<subseteq> set (selected tr)"
    and none: "canaryInstances = [] \<Longrightarrow> canaries_wanted it \<Longrightarrow> instances = []"
    and s: "it_state s = st" "hist s = tr"
  shows "registered_ok it loud (Val None) s"
proof -
  note new = NewIteratorState_facts [OF new]
  have pending: "status st g = (if g \<in> set (is_guids st) then OperationPending else UnsetState)" for g
    using new(7) [of g] info_outside [OF new(1), of g] by (simp add: zeroInfo_def)
  have "run_inv it st tr"
    by (rule run_inv_fresh [OF assms(2,3) new(1)]) (use new n sel none pending in auto)
  then show ?thesis
    using n(2) new(4) pending s by (auto simp: registered_ok_def fail_inv_def)
qed

context iteration begin

lemma listInstances_wp:
  assumes "\<And>r es. list_all neutral es \<Longrightarrow> Q (Val r) (s\<lparr>hist := (hist s @ es) @ [IInstances flt r]\<rparr>)"
  shows "wp (listInstances it flt) Q s"
  unfolding listInstances_def by (rule wp_noted [OF instances_law]) (rule assms)

lemma register_wp:
  assumes s: "list_all listing (hist s)" "it_state s = it_state (New_state it)" "it_canaries s = itr_canaries it"
    and "0 \<le> itr_maxInFlight it"
  shows "wp (registerInstancesAndCanaries it) (registered_ok it loud) s"
proof -
  have error: "registered_ok it loud (Val (Some e)) s'"
    if "list_all listing (hist s')" "it_state s' = it_state s" for e s'
    using New_state_inv [OF that(1) assms(4), of s'] that s(2) by (simp add: registered_ok_def)
  have fresh: "wp (seq (read_state it_canaries) (\<lambda>n. case NewIteratorState cs allInstances n of
       Inl err \<Rightarrow> ret (Some (errorf ''error with canary instance listing: '' err))
     | Inr st \<Rightarrow> seq (modify (\<lambda>_. st)) (\<lambda>_. ret None))) (registered_ok it loud) s'"
    if "list_all listing (hist s')" "it_state s' = it_state s"
      and "cs \<noteq> [] \<Longrightarrow> 0 < itr_canaries it \<Longrightarrow> 0 < it_canaries s' \<and> it_canaries s' \<le> itr_canaries it"
      and "itr_canaries it = 0 \<Longrightarrow> it_canaries s' = 0"
      and "itr_canarySelectionParams it \<noteq> [] \<Longrightarrow> inst_GUID ` set cs \<subseteq> set (selected (hist s'))"
      and "cs = [] \<Longrightarrow> canaries_wanted it \<Longrightarrow> allInstances = []" for cs allInstances s'
    using error [OF that(1,2)] registered_fresh [OF _ that(1) assms(4) that(3-6)]
    by (auto simp: wp modify_def split: sum.split)
  show ?thesis
    unfolding registerInstancesAndCanaries_def wp_attempt
  proof (rule listInstances_wp, goal_cases)
    case (1 r es)
    let ?tr = "(hist s @ es) @ [IInstances None r]"
    have tr: "list_all listing ?tr" using s(1) 1 by (simp add: neutrals_listing)
    show ?case
    proof (cases r)
      case (Inl e)
      then show ?thesis using error [of "s\<lparr>hist := ?tr\<rparr>"] tr by (simp add: wp)
    next
      case all: (Inr allInstances)
      show ?thesis
      proof (cases "itr_canarySelectionParams it = []")
        case True
        then show ?thesis
          using fresh [of "s\<lparr>hist := ?tr\<rparr>" "if 0 < it_canaries s then allInstances else []" allInstances] tr s(3)
          by (simp add: all selectCanaries_def wp_seq wp_read wp_ret wp_attempt split: if_splits)
      next
        case params: False
        have "wp (selectCanaries it allInstances) (\<lambda>r s'. case r of
            Val (Inl e) \<Rightarrow> registered_ok it loud (Val (Some e)) s'
          | Val (Inr cs) \<Rightarrow> wp (seq (read_state it_canaries) (\<lambda>n. case NewIteratorState cs allInstances n of
               Inl err \<Rightarrow> ret (Some (errorf ''error with canary instance listing: '' err))
             | Inr st \<Rightarrow> seq (modify (\<lambda>_. st)) (\<lambda>_. ret None))) (registered_ok it loud) s'
          | _ \<Rightarrow> False) (s\<lparr>hist := ?tr\<rparr>)"
          unfolding selectCanaries_def if_P [OF params [folded length_greater_0_conv]] wp_attempt
        proof (rule listInstances_wp, goal_cases)
          case (1 r2 es2)
          let ?tr2 = "(?tr @ es2) @ [IInstances (Some (itr_canarySelectionParams it)) r2]"
          have tr2: "list_all listing ?tr2" using tr 1 by (simp add: neutrals_listing)
          show ?case
          proof (cases r2)
            case (Inl e)
            then show ?thesis using error [of "s\<lparr>hist := ?tr2\<rparr>"] tr2 by (simp add: wp)
          next
            case cs: (Inr cs)
            let ?n = "if int (length cs) < it_canaries s then int (length cs) else it_canaries s"
            have "registered_ok it loud (Val (Some e)) (s\<lparr>hist := ?tr2\<rparr>)" for e
              using error [of "s\<lparr>hist := ?tr2\<rparr>"] tr2 by simp
            moreover have "wp (seq (read_state it_canaries) (\<lambda>n. case NewIteratorState cs allInstances n of
                Inl err \<Rightarrow> ret (Some (errorf ''error with canary instance listing: '' err))
              | Inr st \<Rightarrow> seq (modify (\<lambda>_. st)) (\<lambda>_. ret None))) (registered_ok it loud) (s\<lparr>hist := ?tr2, it_canaries := ?n\<rparr>)"
              if "cs = [] \<Longrightarrow> allInstances = []"
              by (rule fresh) (use tr2 s(3) that in \<open>auto simp: cs split: if_splits\<close>)
            ultimately show ?thesis
              by (auto simp: cs wp_seq wp_read wp_ret wp_write split: if_splits)
          qed
        qed
        then show ?thesis
          unfolding all wp_attempt by (simp, elim wp_mono) (auto simp: wp_ret split: outcome.splits sum.splits)
      qed
    qed
  qed
qed

end

section \<open>The whole iteration\<close>

definition iterated :: "Iterator \<Rightarrow> bool \<Rightarrow> bool \<Rightarrow> nat \<Rightarrow> gerr option outcome \<Rightarrow> itstate \<Rightarrow> bool" where
  "iterated it loud prompt fuel r s \<longleftrightarrow> run_inv it (it_state s) (hist s) \<and> (\<forall>p. r \<noteq> Panic p)
     \<and> (r = Val None \<and> loud \<and> 0 < itr_attemptLimit it \<longrightarrow>
          (\<forall>g\<in>set (is_guids (it_state s)). processed_well (status (it_state s) g)))
     \<and> (prompt \<and> 0 < itr_maxInFlight it \<and> itr_canaries it = 0 \<and> length (is_guids (it_state s)) < fuel
          \<longrightarrow> r \<noteq> OutOfFuel)"

lemma iterated_neutral:
  "iterated it loud prompt fuel r s \<Longrightarrow> list_all neutral es \<Longrightarrow> iterated it loud prompt fuel r (s\<lparr>hist := hist s @ es\<rparr>)"
  by (simp add: iterated_def run_inv_neutral)

lemma iterated_attempted:
  assumes "attempted it loud prompt sure s0 fuel r s'"
    and "r = Val None \<Longrightarrow> sure = (0 < itr_attemptLimit it) \<and> \<not> is_processCanaries (it_state s0)"
    and "prompt \<Longrightarrow> 0 < itr_maxInFlight it \<Longrightarrow> itr_canaries it = 0 \<Longrightarrow> length (is_guids (it_state s0)) < fuel
      \<Longrightarrow> finishes it prompt s0 fuel"
  shows "iterated it loud prompt fuel r s'"
  using assms by (auto simp: iterated_def attempted_def kept_def)

lemma wp_printSummary:
  assumes "\<And>es. list_all neutral es \<Longrightarrow> Q (Val ()) (s\<lparr>hist := hist s @ es\<rparr>)"
  shows "wp printSummary Q s"
  using assms by (simp add: printSummary_def wp Let_def)

context iteration begin

lemma finishIteration_wp:
  assumes s: "run_inv it (it_state s) (hist s)" "fail_inv loud s" "\<not> is_processCanaries (it_state s)"
    and "prompt \<Longrightarrow> 0 < itr_maxInFlight it \<Longrightarrow> itr_canaries it = 0 \<Longrightarrow> length (is_guids (it_state s)) < fuel
      \<Longrightarrow> (\<forall>g. status (it_state s) g \<noteq> OperationAccepted)"
  shows "wp (finishIteration it fuel) (iterated it loud prompt fuel) s"
  unfolding finishIteration_def IterateInstancesWithAttempts_def wp_seq
proof (rule wp_mono [OF attemptLoop_wp [OF kept_refl [OF s(1,2)], where sure = "0 < itr_attemptLimit it"]], goal_cases)
  case (3 r s')
  have "iterated it loud prompt fuel r s'"
    by (rule iterated_attempted [OF 3]) (use s assms(4) in \<open>auto simp: finishes_def\<close>)
  then show ?case
    by (cases r) (auto simp: wp intro!: wp_printSummary iterated_neutral)
qed (use assms in \<open>auto simp: finishes_def\<close>)

lemma Iterate_wp:
  assumes "0 \<le> itr_maxInFlight it"
  shows "wp (Iterate it fuel) (iterated it loud prompt fuel) (New_state it)"
proof -
  have register: "wp (registerInstancesAndCanaries it) (registered_ok it loud)
      (New_state it\<lparr>hist := hist (New_state it) @ [LStarting (itr_maxInFlight it)]\<rparr>)"
    by (rule register_wp [OF _ _ _ assms]) (simp_all add: New_state_def)
  have finish: "wp (finishIteration it fuel) (iterated it loud prompt fuel) s"
    if "registered_ok it loud (Val None) s" "\<not> is_processCanaries (it_state s)" for s
    by (rule finishIteration_wp) (use that in \<open>auto simp: registered_ok_def\<close>)
  have later: "registered_ok it loud (Val None) (s\<lparr>hist := hist s @ es\<rparr>)"
    if "registered_ok it loud (Val None) s" "list_all neutral es" for s es
    using that by (simp add: registered_ok_def run_inv_neutral fail_inv_def)
  have canaries: "wp (IterateInstancesWithAttempts it fuel) (\<lambda>r s'. case r of Val err \<Rightarrow>
         wp (if err \<noteq> None then seq printSummary (\<lambda>_. ret err)
         else seq (modify MarkCanariesCompleted) (\<lambda>_. seq (emit LCanariesFinished) (\<lambda>_. finishIteration it fuel)))
         (iterated it loud prompt fuel) s'
     | Panic p \<Rightarrow> iterated it loud prompt fuel (Panic p) s' | OutOfFuel \<Rightarrow> iterated it loud prompt fuel OutOfFuel s') s"
    if s: "registered_ok it loud (Val None) s" "is_processCanaries (it_state s)" for s
    unfolding IterateInstancesWithAttempts_def
  proof (rule wp_mono [OF attemptLoop_wp [OF kept_refl, where sure = False]], goal_cases)
    case (5 r s')
    then have att: "attempted it loud prompt False s fuel r s'" .
    let ?s = "s'\<lparr>hist := hist s' @ [LCanariesFinished], it_state := MarkCanariesCompleted (it_state s')\<rparr>"
    have "wp (finishIteration it fuel) (iterated it loud prompt fuel) ?s"
      using att s run_inv_Mark [of it "it_state s'" "hist s'"]
      by (intro finishIteration_wp) (auto simp: attempted_def kept_def fail_inv_def finishes_def registered_ok_def)
    moreover have "iterated it loud prompt fuel r s'" if "r \<noteq> Val None"
      by (rule iterated_attempted [OF att]) (use that s in \<open>auto simp: finishes_def registered_ok_def\<close>)
    ultimately show ?case
      by (cases r) (auto simp: wp modify_def intro!: wp_printSummary iterated_neutral)
  qed (use s in \<open>auto simp: registered_ok_def finishes_def\<close>)
  show ?thesis
    unfolding Iterate_def wp_seq [of "emit _"] wp_emit outcome.case wp_seq [of "registerInstancesAndCanaries it"]
  proof (rule wp_mono [OF register], goal_cases)
    case (1 r s)
    then obtain err where r: "r = Val err" and run: "run_inv it (it_state s) (hist s)"
      by (auto simp: registered_ok_def)
    show ?case
    proof (cases err)
      case (Some e)
      then show ?thesis using run by (simp add: r wp iterated_def)
    next
      case None
      note ok = later [OF 1 [unfolded r None]]
      have "wp (seq (emit (LCanariesStarting n p)) (\<lambda>_. seq (IterateInstancesWithAttempts it fuel) (\<lambda>err.
          if err \<noteq> None then seq printSummary (\<lambda>_. ret err)
          else seq (modify MarkCanariesCompleted) (\<lambda>_. seq (emit LCanariesFinished) (\<lambda>_. finishIteration it fuel)))))
          (iterated it loud prompt fuel) (s\<lparr>hist := hist s @ [e]\<rparr>)"
        if "is_processCanaries (it_state s)" "neutral e" for n p e
        unfolding wp_seq [of "emit _"] wp_emit outcome.case wp_seq [of "IterateInstancesWithAttempts it fuel"]
        using canaries [of "s\<lparr>hist := hist s @ [e, LCanariesStarting n p]\<rparr>"] ok [of "[e, LCanariesStarting n p]"] that
        by simp
      with finish [of "s\<lparr>hist := hist s @ [LInstancesToProcess (AllInstances (it_state s))]\<rparr>"] ok show ?thesis
        by (simp add: r None wp_seq [of "read_state _"] wp_seq [of "emit (LInstancesToProcess _)"] wp_read wp_emit IsProcessingCanaries_def)
    qed
  qed
qed

end

end
