(* ===== verification/Iterator_Listing.thy ===== *)
theory Iterator_Listing
  imports Iterator_Runs
begin

text \<open>
  The instances an iteration deals with are those that the broker listed, once, at its beginning.

  \<open>keeps J m\<close> says that \<open>m\<close> preserves a property of the process; its rules follow the structure of a computation.
\<close>

named_theorems keeping \<open>introduction rules for keeps\<close>

definition keeps :: "('s \<Rightarrow> bool) \<Rightarrow> ('s, 'a) go \<Rightarrow> bool" where
  "keeps J m \<longleftrightarrow> (\<forall>s. J s \<longrightarrow> J (snd (m s)))"

lemma keeps_wp: "keeps J m \<Longrightarrow> J s \<Longrightarrow> wp m (\<lambda>r s'. J s') s"
  by (auto simp: keeps_def wp_def split: prod.splits)

lemma keeps_ret [keeping]: "keeps J (ret x)"
  and keeps_fuel [keeping]: "keeps J out_of_fuel"
  and keeps_read [keeping]: "keeps J (read_state f)"
  by (simp_all add: keeps_def run)

lemma keeps_write: "(\<And>s. J s \<Longrightarrow> J (g s)) \<Longrightarrow> keeps J (write_state g)"
  by (simp add: keeps_def run)

lemma keeps_seq [keeping]: "keeps J m \<Longrightarrow> (\<And>x. keeps J (k x)) \<Longrightarrow> keeps J (seq m k)"
  by (auto simp: keeps_def seq_def split: prod.splits outcome.splits)

lemma keeps_attempt [keeping]:
  "keeps J m \<Longrightarrow> (\<And>e. keeps J (h e)) \<Longrightarrow> (\<And>x. keeps J (k x)) \<Longrightarrow> keeps J (attempt m h k)"
  unfolding attempt_def by (rule keeps_seq) (auto split: sum.splits)

lemma keeps_if [keeping]: "keeps J m \<Longrightarrow> keeps J n \<Longrightarrow> keeps J (if b then m else n)"
  by simp

text \<open>The instances listed without a filter\<close>

fun enlisted :: "ievent list \<Rightarrow> string list" where
  "enlisted [] = []"
| "enlisted (IInstances None (Inr insts) # es) = map inst_GUID insts @ enlisted es"
| "enlisted (_ # es) = enlisted es"

lemma enlisted_append [simp]: "enlisted (xs @ ys) = enlisted xs @ enlisted ys"
  by (induction xs rule: enlisted.induct) simp_all

lemma enlisted_neutral [simp]: "list_all neutral es \<Longrightarrow> enlisted es = []"
proof (induction es)
  case (Cons e es)
  then show ?case by (cases e) auto
qed simp

text \<open>The instances of the iteration are those listed.\<close>

definition as_listed :: "itstate \<Rightarrow> bool" where
  "as_listed s \<longleftrightarrow> is_guids (it_state s) = enlisted (hist s)"

lemma keeps_emit [keeping]: "enlisted [e] = [] \<Longrightarrow> keeps as_listed (emit e)"
  by (simp add: keeps_def as_listed_def run)

lemma keeps_modify [keeping]: "(\<And>st. is_guids (f st) = is_guids st) \<Longrightarrow> keeps as_listed (modify f)"
  unfolding modify_def by (rule keeps_write) (simp add: as_listed_def)

lemma keeps_addFailure [keeping]: "keeps as_listed (addFailure g e)"
  unfolding addFailure_def by (rule keeps_write) (simp add: as_listed_def)

lemma NextPending_guids: "is_guids (snd (NextPending st)) = is_guids st"
  by (induction st rule: NextPending.induct) (auto simp: Let_def NextPending.simps)

lemma keeps_nextPending [keeping]: "keeps as_listed nextPending"
  using NextPending_guids by (auto simp: keeps_def as_listed_def nextPending_def split: prod.splits) (metis snd_conv)

lemma keeps_noted:
  assumes "call_only P m" and "\<And>x. enlisted [ev x] = []"
  shows "keeps as_listed (noted ev m)"
proof -
  have "wp (noted ev m) (\<lambda>r s'. as_listed s') s" if "as_listed s" for s
    by (rule wp_noted [OF assms(1)]) (use that assms(2) in \<open>simp add: as_listed_def\<close>)
  then show ?thesis by (simp add: keeps_def wp_def case_prod_beta)
qed

context iteration begin

lemma keeps_startOperation [keeping]: "keeps as_listed (startOperation it i)"
  unfolding startOperation_def
  by (intro keeping keeps_noted [OF latest_law] keeps_noted [OF trigger_call]) (auto intro!: keeping split: sum.splits)

lemma keeps_triggerLoop [keeping]: "keeps as_listed (triggerLoop it fuel needed t accepted)"
  by (induction fuel arbitrary: accepted) (auto simp: Let_def intro!: keeping)

lemma keeps_pollEach [keeping]: "keeps as_listed (pollEach it insts)"
  by (induction insts)
    (auto simp: Let_def intro!: keeping keeps_noted [OF check_call] split: OperationState.split)

lemma keeps_pollingLoop [keeping]: "keeps as_listed (pollingLoop it fuel)"
  by (induction fuel)
    (auto simp: Let_def triggerOperation_def pollRunningTasks_def sleep_def formatError_def intro!: keeping split: prod.splits)

lemma keeps_attemptLoop [keeping]: "keeps as_listed (attemptLoop it fuel left att)"
  by (induction left arbitrary: att)
    (auto simp: Let_def logRetryAttempt_def reportProgress_def checkStillBusyInstances_def sleep_def formatError_def
      intro!: keeping split: prod.splits option.splits)

text \<open>The registration, which starts from a state without instances\<close>

lemma register_lists:
  assumes "enlisted (hist s) = []"
  shows "wp (registerInstancesAndCanaries it) (\<lambda>r s'. (r = Val None \<longrightarrow> as_listed s') \<and> (\<exists>err. r = Val err)) s"
proof -
  have fresh: "wp (seq (read_state it_canaries) (\<lambda>n. case NewIteratorState cs allInstances n of
       Inl err \<Rightarrow> ret (Some (errorf ''error with canary instance listing: '' err))
     | Inr st \<Rightarrow> seq (modify (\<lambda>_. st)) (\<lambda>_. ret None))) (\<lambda>r s'. (r = Val None \<longrightarrow> as_listed s') \<and> (\<exists>err. r = Val err)) s'"
    if "enlisted (hist s') = map inst_GUID allInstances" for cs allInstances s'
    using that by (auto simp: wp modify_def as_listed_def NewIteratorState_facts(2) split: sum.split)
  show ?thesis
    unfolding registerInstancesAndCanaries_def wp_attempt
  proof (rule listInstances_wp, goal_cases)
    case (1 r es)
    show ?case
    proof (cases r)
      case (Inl e)
      then show ?thesis by (simp add: wp)
    next
      case all: (Inr allInstances)
      let ?s = "s\<lparr>hist := (hist s @ es) @ [IInstances None (Inr allInstances)]\<rparr>"
      have "wp (selectCanaries it allInstances) (\<lambda>r s'. enlisted (hist s') = map inst_GUID allInstances \<and> (\<exists>x. r = Val x)) ?s"
      proof (cases "itr_canarySelectionParams it = []")
        case True
        then show ?thesis using assms 1 by (simp add: selectCanaries_def wp)
      next
        case False
        show ?thesis
          unfolding selectCanaries_def if_P [OF False [folded length_greater_0_conv]] wp_attempt
        proof (rule listInstances_wp, goal_cases)
          case (1 r2 es2)
          then show ?case using assms \<open>list_all neutral es\<close> by (cases r2) (auto simp: wp)
        qed
      qed
      then show ?thesis
        unfolding all by (simp add: wp_attempt) (erule wp_mono, auto simp: wp_ret fresh split: sum.splits)
    qed
  qed
qed

lemma Iterate_lists: "wp (Iterate it fuel) (\<lambda>r s. r = Val None \<longrightarrow> as_listed s) (New_state it)"
proof -
  have finish: "keeps as_listed (finishIteration it fuel)"
    unfolding finishIteration_def IterateInstancesWithAttempts_def printSummary_def
    by (auto simp: Let_def intro!: keeping split: prod.splits)
  have rest: "keeps as_listed (seq (read_state it_state) (\<lambda>st.
       seq (emit (LInstancesToProcess (AllInstances st))) (\<lambda>_.
       if IsProcessingCanaries st then
         seq (emit (LCanariesStarting (OutstandingCanaryCount st) (itr_canarySelectionParams it))) (\<lambda>_.
         seq (IterateInstancesWithAttempts it fuel) (\<lambda>err.
         if err \<noteq> None then seq printSummary (\<lambda>_. ret err)
         else seq (modify MarkCanariesCompleted) (\<lambda>_. seq (emit LCanariesFinished) (\<lambda>_. finishIteration it fuel))))
       else finishIteration it fuel)))"
    unfolding IterateInstancesWithAttempts_def printSummary_def
    by (auto simp: Let_def intro!: keeping finish split: prod.splits)
  have "enlisted (hist (New_state it\<lparr>hist := hist (New_state it) @ [LStarting (itr_maxInFlight it)]\<rparr>)) = []"
    by (simp add: New_state_def)
  from register_lists [OF this] show ?thesis
    unfolding Iterate_def wp_seq [of "emit (LStarting _)"] wp_emit outcome.case wp_seq [of "registerInstancesAndCanaries it"]
    by (rule wp_mono) (auto simp: wp_ret intro!: wp_mono [OF keeps_wp [OF rest]])
qed

end

end
