(* ===== verification/Iteration.thy ===== *)
theory Iteration
  imports Iterator_Listing
begin

text \<open>
  The iterator as the configurator builds it (\<open>instanceiterator/configurator.go\<close>,
  \<open>instanceiterator/iterator.go\<close>) on the client of the management API and one of the triggerers:
  the properties of its runs.

  The locale \<open>iteration\<close> is interpreted on every iterator a configuration gives, and once more,
  with the stronger contract of the BOSH triggerer, on those that go through BOSH.
\<close>

section \<open>Configured iterators\<close>

definition configured :: "ienv \<Rightarrow> InstanceIteratorConfig \<Rightarrow> strategy \<Rightarrow> Iterator" where
  "configured E conf how = \<lparr>itr_brokerServices = NewBrokerServices E (ic_URL conf),
     itr_pollingInterval = nanoseconds (ic_PollingInterval conf),
     itr_attemptInterval = nanoseconds (ic_AttemptInterval conf),
     itr_attemptLimit = ic_AttemptLimit conf, itr_maxInFlight = ic_MaxInFlight conf,
     itr_canaries = ic_Canaries conf, itr_canarySelectionParams = ic_CanarySelectionParams conf,
     itr_triggerer = triggererOf E (NewBrokerServices E (ic_URL conf)) how\<rparr>"

text \<open>\<open>NewConfigurator\<close>, the choice of a triggerer and \<open>New\<close>\<close>

definition newIterator :: "ienv \<Rightarrow> (string \<Rightarrow> gerr option) \<Rightarrow> InstanceIteratorConfig \<Rightarrow> strategy \<Rightarrow> gerr + Iterator" where
  "newIterator E certError conf how = (case NewConfigurator E certError conf of
      Inl e \<Rightarrow> Inl e
    | Inr build \<Rightarrow> Inr (build (triggererOf E (NewBrokerServices E (ic_URL conf)) how)))"

lemma newIterator_configured:
  assumes "newIterator E certError conf how = Inr it"
  shows "it = configured E conf how" and "0 < ic_MaxInFlight conf" and "0 < ic_AttemptLimit conf"
    and "0 \<le> ic_Canaries conf"
  using assms
  by (auto simp: newIterator_def NewConfigurator_def brokerServices_of_def pollingInterval_def attemptInterval_def
      attemptLimit_def maxInFlight_def canaries_def positive_def configured_def split: sum.splits if_splits option.splits)

lemma configured_fields [simp]:
  "itr_brokerServices (configured E conf how) = NewBrokerServices E (ic_URL conf)"
  "itr_attemptLimit (configured E conf how) = ic_AttemptLimit conf"
  "itr_maxInFlight (configured E conf how) = ic_MaxInFlight conf"
  "itr_canaries (configured E conf how) = ic_Canaries conf"
  "itr_canarySelectionParams (configured E conf how) = ic_CanarySelectionParams conf"
  "itr_triggerer (configured E conf how) = triggererOf E (NewBrokerServices E (ic_URL conf)) how"
  by (simp_all add: configured_def)

definition prompt_checks :: "Iterator \<Rightarrow> bool" where
  "prompt_checks it \<longleftrightarrow>
     (\<forall>g d. call_only (result_state (\<lambda>st. st \<noteq> OperationAccepted)) (trg_Check (itr_triggerer it) g d))"

lemma bosh_strategies_loud:
  "how \<noteq> UpgradeViaCF \<Longrightarrow> loud_triggerer (triggererOf E (NewBrokerServices E url) how)"
  by (cases how) (simp_all add: NewBOSHUpgradeTriggerer_def NewRecreateTriggerer_def bosh.loud_triggerer_axioms)

interpretation every_run:
  iteration "configured E conf how" "how \<noteq> UpgradeViaCF" "prompt_checks (configured E conf how)" for E conf how
proof (intro iteration.intro iteration_axioms.intro)
  fix g d
  show "broker_services (itr_brokerServices (configured E conf how))"
    by (simp add: services.broker_services_axioms)
  show "triggerer_interface (itr_triggerer (configured E conf how))"
    by (simp add: triggererOf_interface)
  show "loud_triggerer (itr_triggerer (configured E conf how))" if "how \<noteq> UpgradeViaCF"
    using bosh_strategies_loud [OF that] by simp
  show "call_only (result_state (\<lambda>st. st \<noteq> OperationAccepted)) (trg_Check (itr_triggerer (configured E conf how)) g d)"
    if "prompt_checks (configured E conf how)"
    using that by (simp add: prompt_checks_def)
qed

lemma run_facts:
  assumes "newIterator E certError conf how = Inr it" and "Iterate it fuel (New_state it) = (r, s)"
  shows "iterated it (how \<noteq> UpgradeViaCF) (prompt_checks it) fuel r s" and "it = configured E conf how"
    and "0 < itr_attemptLimit it" and "0 < itr_maxInFlight it"
proof -
  note it = newIterator_configured [OF assms(1)]
  show "it = configured E conf how" "0 < itr_attemptLimit it" "0 < itr_maxInFlight it"
    using it by simp_all
  show "iterated it (how \<noteq> UpgradeViaCF) (prompt_checks it) fuel r s"
    using wpD [OF every_run.Iterate_wp assms(2) [unfolded it(1)]] it by simp
qed

lemma run_lists:
  assumes "newIterator E certError conf how = Inr it" and "Iterate it fuel (New_state it) = (Val None, s)"
  shows "enlisted (hist s) = is_guids (it_state s)"
  using wpD [OF every_run.Iterate_lists assms(2) [unfolded newIterator_configured(1) [OF assms(1)]]] by (simp add: as_listed_def)

lemma run_complete:
  assumes "newIterator E certError conf how = Inr it" and "Iterate it fuel (New_state it) = (Val None, s)"
    and "how \<noteq> UpgradeViaCF" and "g \<in> set (enlisted (hist s))"
  shows "status (it_state s) g \<in> {OperationSucceeded, OperationSkipped, InstanceNotFound, OrphanDeployment}"
  using run_facts [OF assms(1,2)] run_lists [OF assms(1,2)] assms(3,4) by (auto simp: iterated_def processed_well_def)

section \<open>A broker to iterate over\<close>

text \<open>
  The instances whose GUID starts with \<open>a\<close> are busy; all other operations are accepted, and the
  first look at them gives the outcome.  Cloud Foundry reports every upgrade as failed.
\<close>

definition example_instance :: "string \<Rightarrow> json" where
  "example_instance g = JObj [(''service_instance_id'', JStr g), (''plan_id'', JStr ''p'')]"

definition response :: "int \<Rightarrow> json \<Rightarrow> HttpResponse" where
  "response code body = \<lparr>rs_StatusCode = code, rs_Status = '''', rs_Text = '''', rs_Json = WJson body\<rparr>"

definition example_answer :: "string list \<Rightarrow> string \<Rightarrow> HttpRequest \<Rightarrow> HttpResponse" where
  "example_answer guids outcome request =
     (if rq_Method request = ''PATCH'' then
        (if has_prefix (rq_URL request) ''b/mgmt/service_instances/a'' then response 409 JNull
         else response 202 (JObj [(''BoshTaskID'', JNum 7)]))
      else if has_prefix (rq_URL request) ''b/v2'' then response 200 (JObj [(''state'', JStr outcome)])
      else response 200 (JArr (map example_instance guids)))"

definition example_ienv :: "string list \<Rightarrow> string \<Rightarrow> ienv" where
  "example_ienv guids outcome = \<lparr>o_AuthHeader = (\<lambda>h. Inr []),
     o_Do = (\<lambda>h request. Inr (example_answer guids outcome request)),
     o_GetPlanByServiceInstanceGUID = (\<lambda>h g. Inr ''1.0.0''),
     o_UpgradeServiceInstance = (\<lambda>h g v. Inr \<lparr>cflo_Type = ''update'', cflo_State = ''failed''\<rparr>),
     o_GetLastOperationForInstance = (\<lambda>h g. Inr \<lparr>cflo_Type = ''update'', cflo_State = outcome\<rparr>),
     o_CheckMinimumOSBAPIVersion = (\<lambda>h v. True), urlError = (\<lambda>u. None), jsonText = (\<lambda>j. ''''),
     durationText = (\<lambda>d. '''')\<rparr>"

definition example_conf :: "int \<Rightarrow> smap \<Rightarrow> InstanceIteratorConfig" where
  "example_conf canaryCount selection = \<lparr>ic_URL = ''b'', ic_Username = ''u'', ic_Password = ''p'', ic_CACert = '''',
     ic_PollingInterval = 1, ic_AttemptInterval = 1, ic_AttemptLimit = 2, ic_MaxInFlight = 1,
     ic_Canaries = canaryCount, ic_CanarySelectionParams = selection\<rparr>"

lemma example_iterator:
  "0 \<le> n \<Longrightarrow> newIterator E (\<lambda>_. None) (example_conf n sel) how = Inr (configured E (example_conf n sel) how)"
  by (simp add: newIterator_def NewConfigurator_def brokerServices_of_def pollingInterval_def attemptInterval_def
      attemptLimit_def maxInFlight_def canaries_def positive_def configured_def example_conf_def)

text \<open>What the calls of this broker return; the events they leave are kept folded.\<close>

definition call_events :: "string list \<Rightarrow> string \<Rightarrow> string \<Rightarrow> string \<Rightarrow> string \<Rightarrow> ievent list" where
  "call_events guids outcome meth path body =
     (let request = \<lparr>rq_Method = meth, rq_URL = buildURL ''b'' path,
          rq_Headers = [(''X-Broker-Api-Version'', ''2.13'')], rq_Body = body\<rparr>
      in [EAuthHeader (Inr []), EHttp request (Inr (example_answer guids outcome request))])"

definition plain :: "string \<Rightarrow> Instance" where
  "plain g = \<lparr>inst_GUID = g, inst_PlanUniqueID = ''p'', inst_SpaceGUID = ''''\<rparr>"

definition list_events :: "string list \<Rightarrow> string \<Rightarrow> smap option \<Rightarrow> ievent list" where
  "list_events guids outcome flt =
     call_events guids outcome ''GET'' (createRequestPath ''/mgmt/service_instances'' flt) ''''"

definition process_events :: "string list \<Rightarrow> string \<Rightarrow> string \<Rightarrow> Instance \<Rightarrow> ievent list" where
  "process_events guids outcome operationType i = call_events guids outcome ''PATCH''
     (''/mgmt/service_instances/'' @ inst_GUID i @ ''?operation_type='' @ operationType) (processBody i)"

definition last_events :: "string list \<Rightarrow> string \<Rightarrow> string \<Rightarrow> ievent list" where
  "last_events guids outcome g = call_events guids outcome ''GET''
     (appendQuery (''/v2/service_instances/'' @ g @ ''/last_operation'') [(''operation'', '''')]) ''''"

lemma example_request:
  "doRequest (example_ienv guids outcome) ''b'' meth path body s =
     (Val (Inr (example_answer guids outcome \<lparr>rq_Method = meth, rq_URL = buildURL ''b'' path,
         rq_Headers = [(''X-Broker-Api-Version'', ''2.13'')], rq_Body = body\<rparr>)),
      s\<lparr>hist := hist s @ call_events guids outcome meth path body\<rparr>)"
  by (simp add: doRequest_def run Let_def example_ienv_def call_events_def)

lemma example_decoded: "decodeInstances (map example_instance guids) = Inr (map plain guids)"
  by (induction guids) (simp_all add: example_instance_def plain_def key_is_def lower_def)

lemma example_list:
  "services_Instances (example_ienv guids outcome) ''b'' flt s =
     (Val (Inr (map plain guids)), s\<lparr>hist := hist s @ list_events guids outcome flt\<rparr>)"
  by (simp add: services_Instances_def run example_request list_events_def example_answer_def response_def
      decodeServiceInstanceResponse_def decodeBody_def example_decoded createRequestPath_def appendQuery_def
      Let_def buildURL_def has_prefix_def)

lemma findInstance_plain: "g \<in> set guids \<Longrightarrow> findInstance g (map plain guids) = Some (plain g)"
  by (induction guids) (auto simp: plain_def)

lemma example_data: "unmarshalOperationData (WJson (JObj [(''BoshTaskID'', JNum 7)])) = Inr (zeroOperationData\<lparr>od_BoshTaskID := 7\<rparr>)"
  by (simp add: unmarshalOperationData_def key_is_def in_int64_def)

lemma example_process:
  "ProcessInstance (example_ienv guids outcome) ''b'' i ty s =
     (Val (Inr (if has_prefix (inst_GUID i) ''a'' then boshOperation BOperationInProgress
         else (boshOperation BOperationAccepted)\<lparr>bo_Data := zeroOperationData\<lparr>od_BoshTaskID := 7\<rparr>\<rparr>)),
      s\<lparr>hist := hist s @ process_events guids outcome ty i\<rparr>)"
  by (cases "inst_GUID i") (simp_all add: ProcessInstance_def run example_request process_events_def example_answer_def response_def
      ExtractOperationFrom_def decodeBody_def example_data Let_def buildURL_def has_prefix_def)

lemma no_text: "jsonText (example_ienv guids outcome) = (\<lambda>j. [])"
  by (simp add: example_ienv_def)

lemma example_last:
  "services_LastOperation (example_ienv guids outcome) ''b'' g d s =
     (Val (Inr \<lparr>clo_State = outcome, clo_Description = ''''\<rparr>), s\<lparr>hist := hist s @ last_events guids outcome g\<rparr>)"
  by (simp add: services_LastOperation_def run example_request last_events_def example_answer_def response_def
      LastOperationFrom_def decodeBodyInto_def decodeBody_def key_is_def appendQuery_def
      Let_def buildURL_def has_prefix_def no_text)

abbreviation example_run :: "string list \<Rightarrow> string \<Rightarrow> int \<Rightarrow> strategy \<Rightarrow> Iterator" where
  "example_run guids outcome n how \<equiv> configured (example_ienv guids outcome) (example_conf n []) how"

lemma example_listInstances:
  "listInstances (example_run guids outcome n how) flt s =
     (Val (Inr (map plain guids)), s\<lparr>hist := hist s @ list_events guids outcome flt @ [IInstances flt (Inr (map plain guids))]\<rparr>)"
  by (simp add: listInstances_def noted_def run example_list NewBrokerServices_def example_conf_def)

definition started_operation :: "string \<Rightarrow> TriggeredOperation" where
  "started_operation g = (if has_prefix g ''a'' then zeroOperation\<lparr>to_State := OperationInProgress\<rparr>
     else zeroOperation\<lparr>to_State := OperationAccepted, to_Data := zeroOperationData\<lparr>od_BoshTaskID := 7\<rparr>\<rparr>)"

definition start_events :: "string list \<Rightarrow> string \<Rightarrow> string \<Rightarrow> ievent list" where
  "start_events guids outcome g = list_events guids outcome None @ [ILatest g (Inr (plain g))]
     @ process_events guids outcome ''upgrade'' (plain g) @ [ITriggered g (Inr (started_operation g))]"

lemma example_start:
  assumes "g \<in> set guids"
  shows "startOperation (example_run guids outcome n UpgradeViaBOSH) (handle st g) s =
     (Val (Inr (started_operation g)), s\<lparr>hist := hist s @ start_events guids outcome g\<rparr>)"
  using findInstance_plain [OF assms]
  by (simp add: startOperation_def noted_def run NewBrokerServices_def example_conf_def services_LatestInstanceInfo_def
      example_list handle_def NewBOSHUpgradeTriggerer_def BOSHTriggerer_def bosh_TriggerOperation_def example_process
      started_operation_def start_events_def bosh_translateTriggerResponse_def boshOperation_def zeroOperation_def plain_def)

definition finished_operation :: "OperationData \<Rightarrow> TriggeredOperation" where
  "finished_operation d = \<lparr>to_State = OperationSucceeded, to_Data = d, to_Description = []\<rparr>"

lemma example_check:
  "noted (IChecked g) (trg_Check (NewBOSHUpgradeTriggerer (NewBrokerServices (example_ienv guids ''succeeded'')
      (ic_URL (example_conf n [])))) g d) s =
     (Val (Inr (finished_operation d)),
      s\<lparr>hist := hist s @ last_events guids ''succeeded'' g @ [IChecked g (Inr (finished_operation d))]\<rparr>)"
  by (simp add: noted_def run NewBrokerServices_def example_conf_def example_last
      NewBOSHUpgradeTriggerer_def BOSHTriggerer_def bosh_Check_def bosh_translateCheckResponse_def Let_def
      finished_operation_def)

lemmas iterate_defs = Iterate_def finishIteration_def IterateInstancesWithAttempts_def registerInstancesAndCanaries_def
  selectCanaries_def example_listInstances triggerOperation_def pollRunningTasks_def
  modify_def addFailure_def nextPending_def sleep_def formatError_def checkStillBusyInstances_def reportProgress_def
  printSummary_def logRetryAttempt_def

lemmas state_defs = NewIteratorState_def registered_def pendingInfo_def zeroInfo_def info_def IsProcessingCanaries_def
  isFinalState_def GetInstancesInStates_def GetGUIDsInStates_def HasInstancesToProcess_def HasInstancesProcessing_def
  HasFailures_def InProgressInstances_def CountInProgressInstances_def CurrentPhaseIsComplete_def canariesCompleted_def
  allCompleted_def OutstandingCanaryCount_def processable_def doingCanariesAndPendingCanary_def
  notDoingCanariesAndPendingInstance_def SetState_def SetOperation_def RewindAndResetBusyInstances_def resetBusy_def
  MarkCanariesCompleted_def NextPending.simps operationsToTriggerCount_def GetOperation_def AllInstances_def

lemma example_fields:
  "ic_MaxInFlight (example_conf n sel) = 1" "ic_AttemptLimit (example_conf n sel) = 2"
  "ic_Canaries (example_conf n sel) = n" "ic_CanarySelectionParams (example_conf n sel) = sel"
  by (simp_all add: example_conf_def)

lemmas example_calls = example_listInstances example_start example_check example_fields started_operation_def
  has_prefix_def finished_operation_def

section \<open>A canary that is busy\<close>

text \<open>The state of an iteration over three instances, all of them canaries, with room for two\<close>

definition entry :: "string \<Rightarrow> OperationState \<Rightarrow> TriggeredOperation \<Rightarrow> string \<times> instanceInfo" where
  "entry g x oper = (g, \<lparr>ii_status = x, ii_initialPlan = ''p'', ii_operation = oper, ii_couldBeCanary = True\<rparr>)"

definition trio :: "nat \<Rightarrow> (string \<times> instanceInfo) list \<Rightarrow> iteratorState" where
  "trio pos entries = \<lparr>is_guids = [''a'', ''b'', ''c''], is_states = entries, is_processCanaries = True,
     is_canaryLimit = 2, is_pos = pos, is_allInstances = map plain [''a'', ''b'', ''c'']\<rparr>"

abbreviation trio_run :: Iterator where
  "trio_run \<equiv> example_run [''a'', ''b'', ''c''] ''succeeded'' 2 UpgradeViaBOSH"

lemma trio_registered:
  "\<exists>h. registerInstancesAndCanaries trio_run (New_state trio_run\<lparr>hist := h0\<rparr>) = (Val None,
     \<lparr>hist = h, it_failures = [], it_canaries = 2, it_state = trio 0 [entry ''a'' OperationPending zeroOperation,
        entry ''b'' OperationPending zeroOperation, entry ''c'' OperationPending zeroOperation]\<rparr>)"
  by (simp add: iterate_defs run state_defs New_state_def example_calls trio_def entry_def plain_def)

lemma trio_triggered:
  "\<exists>h. triggerOperation trio_run \<lparr>hist = h0, it_failures = [], it_canaries = 2,
       it_state = trio 0 [entry ''a'' OperationPending zeroOperation,
        entry ''b'' OperationPending zeroOperation, entry ''c'' OperationPending zeroOperation]\<rparr> = (Val (),
     \<lparr>hist = h, it_failures = [], it_canaries = 2, it_state = trio 2 [entry ''a'' OperationInProgress (started_operation ''a''),
        entry ''b'' OperationAccepted (started_operation ''b''), entry ''c'' OperationPending zeroOperation]\<rparr>)"
  by (simp add: iterate_defs run state_defs example_calls trio_def entry_def Let_def zeroOperation_def)

lemma trio_polled:
  "\<exists>h. pollRunningTasks trio_run \<lparr>hist = h0, it_failures = [], it_canaries = 2,
       it_state = trio 2 [entry ''a'' OperationInProgress (started_operation ''a''),
        entry ''b'' OperationAccepted (started_operation ''b''), entry ''c'' OperationPending zeroOperation]\<rparr> = (Val (),
     \<lparr>hist = h, it_failures = [], it_canaries = 2, it_state = trio 2 [entry ''a'' OperationInProgress (started_operation ''a''),
        entry ''b'' OperationSucceeded (started_operation ''b''), entry ''c'' OperationPending zeroOperation]\<rparr>)"
  by (simp add: iterate_defs run state_defs example_calls trio_def entry_def Let_def zeroOperation_def)

text \<open>Nothing may be started, nothing is under way, and something waits.\<close>

definition stuck :: "Iterator \<Rightarrow> iteratorState \<Rightarrow> bool" where
  "stuck it st \<longleftrightarrow> HasInstancesToProcess st \<and> operationsToTriggerCount it st \<le> 0 \<and> InProgressInstances st = []
     \<and> \<not> (IsProcessingCanaries st \<and> CurrentPhaseIsComplete st)"

lemma stuck_for_ever:
  assumes "stuck it (it_state s)"
  shows "pollingLoop it fuel s = (OutOfFuel, s)"
proof (induction fuel)
  case 0
  show ?case by (simp add: run)
next
  case (Suc fuel)
  have "triggerOperation it s = (Val (), s)"
    using assms by (simp add: triggerOperation_def run Let_def stuck_def)
  moreover have "pollRunningTasks it s = (Val (), s)"
    using assms by (simp add: pollRunningTasks_def run stuck_def)
  ultimately show ?case
    using assms Suc by (auto simp: run stuck_def HasInstancesProcessing_def InProgressInstances_def)
qed

lemma trio_stuck:
  "stuck trio_run (trio 2 [entry ''a'' OperationInProgress oper, entry ''b'' OperationSucceeded oper',
     entry ''c'' OperationPending oper''])"
  by (simp add: stuck_def state_defs trio_def entry_def example_fields Let_def)

abbreviation trio_start :: "ievent list \<Rightarrow> itstate" where
  "trio_start h \<equiv> \<lparr>hist = h, it_failures = [], it_canaries = 2,
       it_state = trio 0 [entry ''a'' OperationPending zeroOperation,
        entry ''b'' OperationPending zeroOperation, entry ''c'' OperationPending zeroOperation]\<rparr>"

lemma trio_waits: "\<exists>s. pollingLoop trio_run fuel (trio_start h0) = (OutOfFuel, s)"
proof (cases fuel)
  case 0
  then show ?thesis by (simp add: run)
next
  case (Suc n)
  obtain h1 where trigger: "triggerOperation trio_run (trio_start h0) = (Val (),
     \<lparr>hist = h1, it_failures = [], it_canaries = 2, it_state = trio 2 [entry ''a'' OperationInProgress (started_operation ''a''),
        entry ''b'' OperationAccepted (started_operation ''b''), entry ''c'' OperationPending zeroOperation]\<rparr>)"
    using trio_triggered by blast
  obtain h2 where poll: "pollRunningTasks trio_run \<lparr>hist = h1, it_failures = [], it_canaries = 2,
       it_state = trio 2 [entry ''a'' OperationInProgress (started_operation ''a''),
        entry ''b'' OperationAccepted (started_operation ''b''), entry ''c'' OperationPending zeroOperation]\<rparr> = (Val (),
     \<lparr>hist = h2, it_failures = [], it_canaries = 2, it_state = trio 2 [entry ''a'' OperationInProgress (started_operation ''a''),
        entry ''b'' OperationSucceeded (started_operation ''b''), entry ''c'' OperationPending zeroOperation]\<rparr>)"
    using trio_polled by blast
  have waits: "HasInstancesToProcess (trio 0 [entry ''a'' OperationPending zeroOperation,
        entry ''b'' OperationPending zeroOperation, entry ''c'' OperationPending zeroOperation])"
    by (simp add: state_defs trio_def entry_def)
  note stuck = trio_stuck [of "started_operation ''a''" "started_operation ''b''" zeroOperation]
  show ?thesis
    using stuck_for_ever [of trio_run "\<lparr>hist = h2, it_failures = [], it_canaries = 2,
        it_state = trio 2 [entry ''a'' OperationInProgress (started_operation ''a''),
        entry ''b'' OperationSucceeded (started_operation ''b''), entry ''c'' OperationPending zeroOperation]\<rparr>" n] stuck waits
    by (auto simp: Suc run trigger poll stuck_def HasInstancesProcessing_def InProgressInstances_def)
qed

abbreviation trio_fresh :: iteratorState where
  "trio_fresh \<equiv> trio 0 [entry ''a'' OperationPending zeroOperation,
     entry ''b'' OperationPending zeroOperation, entry ''c'' OperationPending zeroOperation]"

lemma trio_facts:
  "RewindAndResetBusyInstances trio_fresh = trio_fresh" "IsProcessingCanaries trio_fresh"
  "OutstandingCanaryCount trio_fresh = 2"
  by (simp_all add: state_defs trio_def entry_def)

text \<open>
  With canaries configured the iteration may never return: when the first canary is busy and the
  others that may be started have finished, a busy canary counts against the limit but is not
  waited for, and a waiting one may not be started.  The loop turns without a pause, for any fuel.
\<close>

theorem iterate_livelock: "fst (Iterate trio_run fuel (New_state trio_run)) = OutOfFuel"
proof -
  obtain h where register: "registerInstancesAndCanaries trio_run (New_state trio_run\<lparr>hist := [LStarting 1]\<rparr>)
      = (Val None, trio_start h)"
    using trio_registered [of "[LStarting 1]"] by auto
  have attempts: "\<exists>s. attemptLoop trio_run fuel (Suc left) att (trio_start h) = (OutOfFuel, s)" for left att h
    using trio_waits [of fuel "h @ [LRetryCanariesAttempt att 2 2]"]
    by (auto simp: run modify_def trio_facts example_fields logRetryAttempt_def)
  obtain s where "attemptLoop trio_run fuel (Suc (Suc 0)) (Suc 0) (trio_start (h @
      [LInstancesToProcess (AllInstances trio_fresh), LCanariesStarting 2 []])) = (OutOfFuel, s)"
    using attempts by blast
  with register show ?thesis
    by (simp add: Iterate_def run trio_facts example_fields IterateInstancesWithAttempts_def eval_nat_numeral
        New_state_def del: attemptLoop.simps)
qed

text \<open>The triggerer's checks never find an operation that is still running.\<close>

lemma example_prompt: "prompt_checks (example_run guids ''succeeded'' n UpgradeViaBOSH)"
  unfolding prompt_checks_def call_only_def
  by (simp add: run NewBrokerServices_def example_conf_def example_last
      NewBOSHUpgradeTriggerer_def BOSHTriggerer_def bosh_Check_def bosh_translateCheckResponse_def Let_def
      result_state_def last_events_def call_events_def) (auto intro!: exI)

text \<open>
  C39.  Without a number of canaries to process and with checks that find operations finished, a run
  returns, and never panics, given more fuel than there are instances.
\<close>

theorem iterate_returns:
  assumes "newIterator E certError conf how = Inr it" and "ic_Canaries conf = 0" and "prompt_checks it"
    and "Iterate it fuel (New_state it) = (r, s)" and "length (is_guids (it_state s)) < fuel"
  shows "\<exists>result. r = Val result"
  using run_facts [OF assms(1,4)] assms(2,3,5) by (cases r) (auto simp: iterated_def)

section \<open>One instance\<close>

lemma single_success:
  "\<exists>s. Iterate (example_run [''b''] ''succeeded'' 0 UpgradeViaBOSH) 2 (New_state (example_run [''b''] ''succeeded'' 0 UpgradeViaBOSH))
     = (Val None, s) \<and> is_guids (it_state s) = [''b'']"
  by (simp add: iterate_defs run state_defs New_state_def example_calls Let_def zeroOperation_def plain_def eval_nat_numeral)

lemma example_cf:
  "o_GetPlanByServiceInstanceGUID (example_ienv guids outcome) = (\<lambda>h g. Inr ''1.0.0'')"
  "o_UpgradeServiceInstance (example_ienv guids outcome) = (\<lambda>h g v. Inr \<lparr>cflo_Type = ''update'', cflo_State = ''failed''\<rparr>)"
  by (simp_all add: example_ienv_def)

lemma cf_start:
  assumes "g \<in> set guids"
  shows "startOperation (example_run guids outcome n UpgradeViaCF) (handle st g) s =
     (Val (Inr (zeroOperation\<lparr>to_State := OperationFailed\<rparr>)), s\<lparr>hist := hist s @ list_events guids outcome None
       @ [ILatest g (Inr (plain g)), EGetPlan g (Inr ''1.0.0''),
          EUpgradeInstance g ''1.0.0'' (Inr \<lparr>cflo_Type = ''update'', cflo_State = ''failed''\<rparr>),
          ITriggered g (Inr (zeroOperation\<lparr>to_State := OperationFailed\<rparr>))]\<rparr>)"
  using findInstance_plain [OF assms]
  by (simp add: example_cf startOperation_def noted_def run NewBrokerServices_def example_conf_def services_LatestInstanceInfo_def
      example_list handle_def CFTriggerer_def cf_TriggerOperation_def cf_translateTriggerResponse_def cf_translateCheckResponse_def
      plain_def Let_def)

lemma single_cf:
  "\<exists>s. Iterate (example_run [''b''] ''succeeded'' 0 UpgradeViaCF) 2 (New_state (example_run [''b''] ''succeeded'' 0 UpgradeViaCF))
     = (Val None, s) \<and> status (it_state s) ''b'' = OperationFailed \<and> it_failures s = []"
  by (simp add: iterate_defs run state_defs New_state_def example_calls cf_start Let_def zeroOperation_def plain_def eval_nat_numeral errorFromList_def)

section \<open>Properties\<close>

text \<open>
  C6.  Whatever the broker, BOSH and Cloud Foundry answer, at no point of a run, finished or not, are
  more operations in flight, accepted and not yet reported as finished or lost, than the
  configuration allows.
\<close>

theorem iterate_never_over:
  assumes "newIterator E certError conf how = Inr it" and "Iterate it fuel (New_state it) = (r, s)"
  shows "never_over (ic_MaxInFlight conf) [] (hist s)"
  using run_facts [OF assms] by (simp add: iterated_def run_inv_def flight_inv_def)

theorem iterate_never_over_witness:
  "let it = configured (example_ienv [''b'', ''c''] ''succeeded'') (example_conf 0 []) UpgradeViaBOSH in
   never_over 1 [] (hist (snd (Iterate it 5 (New_state it))))"
  using iterate_never_over [OF example_iterator [of 0 "example_ienv [''b'', ''c''] ''succeeded''" "[]" UpgradeViaBOSH]]
  by (simp add: Let_def example_conf_def prod_eq_iff)


text \<open>
  C7.  When there is a number of canaries to process, no more operations than that are accepted until
  the canaries are declared finished.
\<close>

theorem iterate_canary_budget:
  assumes "newIterator E certError conf how = Inr it" and "Iterate it fuel (New_state it) = (r, s)"
    and "0 < ic_Canaries conf"
  shows "int (accepts (canary_part (hist s))) \<le> ic_Canaries conf"
  using run_facts [OF assms(1,2)] assms(3) by (simp add: iterated_def run_inv_def canary_inv_def)

theorem iterate_canary_budget_witness:
  "let it = configured (example_ienv [''b'', ''c''] ''succeeded'') (example_conf 1 []) UpgradeViaBOSH in
   accepts (canary_part (hist (snd (Iterate it 5 (New_state it))))) \<le> 1"
  using iterate_canary_budget [OF example_iterator [of 1 "example_ienv [''b'', ''c''] ''succeeded''" "[]" UpgradeViaBOSH]]
  by (simp add: Let_def example_conf_def prod_eq_iff)

text \<open>
  When the canaries are selected by criteria, nothing but an instance that the broker listed for
  these criteria is touched until the canaries are declared finished.
\<close>

theorem iterate_selected_canaries_only:
  assumes "newIterator E certError conf how = Inr it" and "Iterate it fuel (New_state it) = (r, s)"
    and "ic_CanarySelectionParams conf \<noteq> []"
  shows "list_all (triggers_in (selected (hist s))) (canary_part (hist s))"
  using run_facts [OF assms(1,2)] assms(3) by (simp add: iterated_def run_inv_def canary_inv_def)

theorem iterate_selected_canaries_only_witness:
  "let it = configured (example_ienv [''b'', ''c''] ''succeeded'') (example_conf 0 [(''org'', ''o'')]) UpgradeViaBOSH;
       s = snd (Iterate it 5 (New_state it)) in
   list_all (triggers_in (selected (hist s))) (canary_part (hist s))"
  using iterate_selected_canaries_only
    [OF example_iterator [of 0 "example_ienv [''b'', ''c''] ''succeeded''" "[(''org'', ''o'')]" UpgradeViaBOSH]]
  by (simp add: Let_def example_conf_def prod_eq_iff)

text \<open>
  C8.  A run through BOSH that reports success has dealt with every instance that the broker listed at its beginning:
  each one succeeded, had nothing to do, or was found to be gone.
\<close>

theorem iterate_success_complete:
  assumes "newIterator E certError conf how = Inr it" and "Iterate it fuel (New_state it) = (Val None, s)"
    and "how \<noteq> UpgradeViaCF" and "g \<in> set (enlisted (hist s))"
  shows "status (it_state s) g \<in> {OperationSucceeded, OperationSkipped, InstanceNotFound, OrphanDeployment}"
  by (rule run_complete [OF assms])

theorem iterate_success_complete_witness:
  "\<exists>s. Iterate (example_run [''b''] ''succeeded'' 0 UpgradeViaBOSH) 2 (New_state (example_run [''b''] ''succeeded'' 0 UpgradeViaBOSH))
     = (Val None, s) \<and> status (it_state s) ''b'' \<in> {OperationSucceeded, OperationSkipped, InstanceNotFound, OrphanDeployment}"
proof -
  obtain s where "Iterate (example_run [''b''] ''succeeded'' 0 UpgradeViaBOSH) 2
      (New_state (example_run [''b''] ''succeeded'' 0 UpgradeViaBOSH)) = (Val None, s)" "is_guids (it_state s) = [''b'']"
    using single_success by blast
  then show ?thesis
    using iterate_success_complete [OF example_iterator, of 0 "example_ienv [''b''] ''succeeded''" "[]" UpgradeViaBOSH 2 s "''b''"]
      run_lists [OF example_iterator, of 0 "example_ienv [''b''] ''succeeded''" "[]" UpgradeViaBOSH 2 s]
    by simp
qed

text \<open>
  Through Cloud Foundry this does not hold: an upgrade that Cloud Foundry answers with the state
  \<open>failed\<close> and no error is not put on the list of failures, and the run reports success.
\<close>

theorem iterate_cf_failure_unreported:
  "\<exists>s. Iterate (example_run [''b''] ''succeeded'' 0 UpgradeViaCF) 2 (New_state (example_run [''b''] ''succeeded'' 0 UpgradeViaCF))
     = (Val None, s) \<and> status (it_state s) ''b'' = OperationFailed \<and> it_failures s = []"
  by (rule single_cf)

theorem iterate_returns_witness:
  "\<exists>result. fst (Iterate (example_run [''b''] ''succeeded'' 0 UpgradeViaBOSH) 2
     (New_state (example_run [''b''] ''succeeded'' 0 UpgradeViaBOSH))) = Val result"
proof -
  obtain s where "Iterate (example_run [''b''] ''succeeded'' 0 UpgradeViaBOSH) 2
      (New_state (example_run [''b''] ''succeeded'' 0 UpgradeViaBOSH)) = (Val None, s)" "is_guids (it_state s) = [''b'']"
    using single_success by blast
  then show ?thesis
    using iterate_returns [OF example_iterator [of 0 "example_ienv [''b''] ''succeeded''" "[]" UpgradeViaBOSH]
        _ example_prompt, of 2 "Val None" s]
    by (simp add: example_fields)
qed

end
