(* ===== verification/Mgmtapi.thy ===== *)
theory Mgmtapi
  imports Update Services
begin

text \<open>
  The management API: the HTTP front end of the broker's operations on all instances
  (\<open>mgmtapi/api.go\<close>, \<open>mgmtapi/metrics.go\<close>), which the client of \<open>Services\<close> talks to.

  A handler is given the path variable and the body as JSON and computes a status code and a body;
  the routing is the table of \<open>AttachRoutes\<close>.  The lemmas compose the handlers with the client:
  what the client reads is what the broker's operation returned.
\<close>

record reply =
  rep_Code :: int
  rep_Body :: wire

section \<open>Requests\<close>

text \<open>The query of a URL as \<open>url.ParseQuery\<close> reads it\<close>

definition unhex :: "char \<Rightarrow> nat" where
  "unhex c = (let n = of_char c :: nat in
     if 48 \<le> n \<and> n \<le> 57 then n - 48 else if 97 \<le> n \<and> n \<le> 102 then n - 87 else n - 55)"

definition ishex :: "char \<Rightarrow> bool" where
  "ishex c \<longleftrightarrow> (let n = of_char c :: nat in
     (48 \<le> n \<and> n \<le> 57) \<or> (97 \<le> n \<and> n \<le> 102) \<or> (65 \<le> n \<and> n \<le> 70))"

fun QueryUnescape :: "string \<Rightarrow> string option" where
  "QueryUnescape [] = Some []"
| "QueryUnescape (c # cs) =
     (if c = CHR 0x25 then
        (case cs of
           a # b # rest \<Rightarrow> if ishex a \<and> ishex b
             then map_option (\<lambda>s. char_of (16 * unhex a + unhex b) # s) (QueryUnescape rest) else None
         | _ \<Rightarrow> None)
      else map_option (\<lambda>s. (if c = CHR ''+'' then CHR '' '' else c) # s) (QueryUnescape cs))"

fun splitOn :: "char \<Rightarrow> string \<Rightarrow> string list" where
  "splitOn d [] = [[]]"
| "splitOn d (c # cs) = (if c = d then [] # splitOn d cs
     else (case splitOn d cs of [] \<Rightarrow> [[c]] | w # ws \<Rightarrow> (c # w) # ws))"

fun cutAt :: "char \<Rightarrow> string \<Rightarrow> string \<times> string" where
  "cutAt d [] = ([], [])"
| "cutAt d (c # cs) = (if c = d then ([], cs) else (case cutAt d cs of (a, b) \<Rightarrow> (c # a, b)))"

text \<open>A pair that cannot be decoded, or that holds a semicolon, is skipped.\<close>

fun parsePairs :: "string list \<Rightarrow> smap" where
  "parsePairs [] = []"
| "parsePairs (p # ps) =
     (if p = [] \<or> CHR '';'' \<in> set p then parsePairs ps
      else (case cutAt (CHR ''='') p of (k, v) \<Rightarrow>
        (case (QueryUnescape k, QueryUnescape v) of
           (Some k', Some v') \<Rightarrow> (k', v') # parsePairs ps
         | _ \<Rightarrow> parsePairs ps)))"

definition ParseQuery :: "string \<Rightarrow> smap" where
  "ParseQuery q = parsePairs (splitOn (CHR ''&'') q)"

text \<open>\<open>filter[k] = v[0]\<close>: the first value of every key\<close>

fun firstValues :: "smap \<Rightarrow> smap" where
  "firstValues [] = []"
| "firstValues ((k, v) # kvs) = (k, v) # filter (\<lambda>(k', _). k' \<noteq> k) (firstValues kvs)"

definition getFilterValues :: "string \<Rightarrow> smap" where
  "getFilterValues rawQuery = firstValues (ParseQuery rawQuery)"

section \<open>Decoding the request body\<close>

fun decodeStringMap :: "(string \<times> json) list \<Rightarrow> smap \<Rightarrow> gerr + smap" where
  "decodeStringMap [] m = Inr m"
| "decodeStringMap ((k, j) # kvs) m = (case decodeStr k j '''' of Inl er \<Rightarrow> Inl er
     | Inr s \<Rightarrow> decodeStringMap kvs (map_set k s m))"

fun decodeMaintenanceFields :: "(string \<times> json) list \<Rightarrow> MaintenanceInfo \<Rightarrow> gerr + MaintenanceInfo" where
  "decodeMaintenanceFields [] m = Inr m"
| "decodeMaintenanceFields ((k, j) # kvs) m =
     (if key_is k ''public'' then
        (case j of JNull \<Rightarrow> decodeMaintenanceFields kvs (m\<lparr>mi_Public := None\<rparr>)
         | JObj ps \<Rightarrow> (case decodeStringMap ps (case mi_Public m of None \<Rightarrow> [] | Some old \<Rightarrow> old) of Inl er \<Rightarrow> Inl er
             | Inr pub \<Rightarrow> decodeMaintenanceFields kvs (m\<lparr>mi_Public := Some pub\<rparr>))
         | _ \<Rightarrow> Inl (typeError k))
      else if key_is k ''private'' then
        (case decodeStr k j (mi_Private m) of Inl er \<Rightarrow> Inl er
         | Inr s \<Rightarrow> decodeMaintenanceFields kvs (m\<lparr>mi_Private := s\<rparr>))
      else if key_is k ''version'' then
        (case decodeStr k j (mi_Version m) of Inl er \<Rightarrow> Inl er
         | Inr s \<Rightarrow> decodeMaintenanceFields kvs (m\<lparr>mi_Version := s\<rparr>))
      else if key_is k ''description'' then
        (case decodeStr k j (mi_Description m) of Inl er \<Rightarrow> Inl er
         | Inr s \<Rightarrow> decodeMaintenanceFields kvs (m\<lparr>mi_Description := s\<rparr>))
      else decodeMaintenanceFields kvs m)"

definition zeroMaintenanceInfo :: MaintenanceInfo where
  "zeroMaintenanceInfo = \<lparr>mi_Public = None, mi_Private = '''', mi_Version = '''', mi_Description = ''''\<rparr>"

text \<open>A pointer field: \<open>null\<close> sets it to nil, an object is decoded into what it points to.\<close>

definition decodeMaintenanceInfo :: "string \<Rightarrow> json \<Rightarrow> MaintenanceInfo option \<Rightarrow> gerr + MaintenanceInfo option" where
  "decodeMaintenanceInfo k j old = (case j of
      JNull \<Rightarrow> Inr None
    | JObj kvs \<Rightarrow> map_sum id Some (decodeMaintenanceFields kvs
        (case old of None \<Rightarrow> zeroMaintenanceInfo | Some m \<Rightarrow> m))
    | _ \<Rightarrow> Inl (typeError k))"

fun decodePreviousFields :: "(string \<times> json) list \<Rightarrow> PreviousValues \<Rightarrow> gerr + PreviousValues" where
  "decodePreviousFields [] p = Inr p"
| "decodePreviousFields ((k, j) # kvs) p =
     (if key_is k ''plan_id'' then
        (case decodeStr k j (pv_PlanID p) of Inl er \<Rightarrow> Inl er
         | Inr s \<Rightarrow> decodePreviousFields kvs (p\<lparr>pv_PlanID := s\<rparr>))
      else if key_is k ''service_id'' then
        (case decodeStr k j (pv_ServiceID p) of Inl er \<Rightarrow> Inl er
         | Inr s \<Rightarrow> decodePreviousFields kvs (p\<lparr>pv_ServiceID := s\<rparr>))
      else if key_is k ''organization_id'' then
        (case decodeStr k j (pv_OrgID p) of Inl er \<Rightarrow> Inl er
         | Inr s \<Rightarrow> decodePreviousFields kvs (p\<lparr>pv_OrgID := s\<rparr>))
      else if key_is k ''space_id'' then
        (case decodeStr k j (pv_SpaceID p) of Inl er \<Rightarrow> Inl er
         | Inr s \<Rightarrow> decodePreviousFields kvs (p\<lparr>pv_SpaceID := s\<rparr>))
      else if key_is k ''maintenance_info'' then
        (case decodeMaintenanceInfo k j (pv_MaintenanceInfo p) of Inl er \<Rightarrow> Inl er
         | Inr m \<Rightarrow> decodePreviousFields kvs (p\<lparr>pv_MaintenanceInfo := m\<rparr>))
      else decodePreviousFields kvs p)"

fun decodeUpdateFields :: "(string \<times> json) list \<Rightarrow> UpdateDetails \<Rightarrow> gerr + UpdateDetails" where
  "decodeUpdateFields [] d = Inr d"
| "decodeUpdateFields ((k, j) # kvs) d =
     (if key_is k ''service_id'' then
        (case decodeStr k j (ud_ServiceID d) of Inl er \<Rightarrow> Inl er
         | Inr s \<Rightarrow> decodeUpdateFields kvs (d\<lparr>ud_ServiceID := s\<rparr>))
      else if key_is k ''plan_id'' then
        (case decodeStr k j (ud_PlanID d) of Inl er \<Rightarrow> Inl er
         | Inr s \<Rightarrow> decodeUpdateFields kvs (d\<lparr>ud_PlanID := s\<rparr>))
      else if key_is k ''parameters'' then decodeUpdateFields kvs (d\<lparr>ud_RawParameters := WJson j\<rparr>)
      else if key_is k ''previous_values'' then
        (case j of JNull \<Rightarrow> decodeUpdateFields kvs d
         | JObj ps \<Rightarrow> (case decodePreviousFields ps (ud_PreviousValues d) of Inl er \<Rightarrow> Inl er
             | Inr p \<Rightarrow> decodeUpdateFields kvs (d\<lparr>ud_PreviousValues := p\<rparr>))
         | _ \<Rightarrow> Inl (typeError k))
      else if key_is k ''context'' then decodeUpdateFields kvs (d\<lparr>ud_RawContext := WJson j\<rparr>)
      else if key_is k ''maintenance_info'' then
        (case decodeMaintenanceInfo k j (ud_MaintenanceInfo d) of Inl er \<Rightarrow> Inl er
         | Inr m \<Rightarrow> decodeUpdateFields kvs (d\<lparr>ud_MaintenanceInfo := m\<rparr>))
      else decodeUpdateFields kvs d)"

definition zeroUpdateDetails :: UpdateDetails where
  "zeroUpdateDetails = \<lparr>ud_ServiceID = '''', ud_PlanID = '''', ud_RawParameters = WEmpty,
     ud_PreviousValues = \<lparr>pv_PlanID = '''', pv_ServiceID = '''', pv_OrgID = '''', pv_SpaceID = '''',
       pv_MaintenanceInfo = None\<rparr>, ud_RawContext = WEmpty, ud_MaintenanceInfo = None\<rparr>"

definition decodeUpdateDetails :: "wire \<Rightarrow> gerr + UpdateDetails" where
  "decodeUpdateDetails w = decodeBody (\<lambda>j. case j of JNull \<Rightarrow> Inr zeroUpdateDetails
     | JObj kvs \<Rightarrow> decodeUpdateFields kvs zeroUpdateDetails | _ \<Rightarrow> Inl (typeError ''UpdateDetails'')) w"

section \<open>Handlers\<close>

definition statusOnly :: "int \<Rightarrow> reply" where
  "statusOnly code = \<lparr>rep_Code = code, rep_Body = WEmpty\<rparr>"

definition writeJson :: "int \<Rightarrow> json \<Rightarrow> reply" where
  "writeJson code j = \<lparr>rep_Code = code, rep_Body = WJson j\<rparr>"

definition errorResponse :: "string \<Rightarrow> json" where
  "errorResponse description = JObj [(''description'', JStr description)]"

definition invalidBody :: reply where
  "invalidBody = writeJson 422 (errorResponse ''Error in request body. Invalid JSON'')"

definition listOrphanDeployments :: "Broker \<Rightarrow> env \<Rightarrow> reply broker_m" where
  "listOrphanDeployments b E =
     attempt (OrphanDeployments b E) (\<lambda>_. ret (statusOnly 500)) (\<lambda>orphanNames.
     ret (writeJson 200 (JArr (map (\<lambda>name. JObj [(''deployment_name'', JStr name)]) orphanNames))))"

definition marshalInstance :: "Instance \<Rightarrow> json" where
  "marshalInstance i = JObj ([(''service_instance_id'', JStr (inst_GUID i)), (''plan_id'', JStr (inst_PlanUniqueID i))]
     @ omitempty_str ''space_guid'' (inst_SpaceGUID i))"

definition listAllInstances :: "Broker \<Rightarrow> env \<Rightarrow> string \<Rightarrow> reply broker_m" where
  "listAllInstances b E rawQuery =
     attempt (Instances b E (getFilterValues rawQuery)) (\<lambda>_. ret (statusOnly 500)) (\<lambda>instances.
     ret (writeJson 200 (if instances = [] then JNull else JArr (map marshalInstance instances))))"

definition upgradeReply :: "gerr + OperationData \<Rightarrow> reply" where
  "upgradeReply r = (case r of
      Inr operationData \<Rightarrow> writeJson 202 (marshalOperationData operationData)
    | Inl (ResourceNotFoundError _) \<Rightarrow> statusOnly 404
    | Inl (DeploymentNotFoundError _) \<Rightarrow> statusOnly 410
    | Inl (OperationInProgressError _) \<Rightarrow> statusOnly 409
    | Inl (OperationAlreadyCompletedError _) \<Rightarrow> statusOnly 204
    | Inl err \<Rightarrow> writeJson 500 (errorResponse (errmsg err)))"

definition recreateReply :: "gerr + OperationData \<Rightarrow> reply" where
  "recreateReply r = (case r of
      Inr operationData \<Rightarrow> writeJson 202 (marshalOperationData operationData)
    | Inl (ResourceNotFoundError _) \<Rightarrow> statusOnly 404
    | Inl (DeploymentNotFoundError _) \<Rightarrow> statusOnly 410
    | Inl (OperationInProgressError _) \<Rightarrow> statusOnly 409
    | Inl err \<Rightarrow> writeJson 500 (errorResponse (errmsg err)))"

definition requestContext :: "Broker \<Rightarrow> OperationType \<Rightarrow> string \<Rightarrow> string \<Rightarrow> context_info" where
  "requestContext b ty requestID iid =
     brokercontext_New background (operationTypeString ty) requestID (off_Name (b_serviceOffering b)) iid"

definition upgradeInstance :: "Broker \<Rightarrow> env \<Rightarrow> string \<Rightarrow> wire \<Rightarrow> reply broker_m" where
  "upgradeInstance b E iid body =
     seq (uuid_New E) (\<lambda>requestID.
     case decodeUpdateDetails body of
       Inl _ \<Rightarrow> ret invalidBody
     | Inr details \<Rightarrow>
       seq (Broker_Upgrade b E (requestContext b OperationTypeUpgrade requestID iid) iid details) (\<lambda>r.
       ret (upgradeReply (map_sum id fst r))))"

definition recreateInstance :: "Broker \<Rightarrow> env \<Rightarrow> string \<Rightarrow> wire \<Rightarrow> reply broker_m" where
  "recreateInstance b E iid body =
     seq (uuid_New E) (\<lambda>requestID.
     case decodeUpdateDetails body of
       Inl _ \<Rightarrow> ret invalidBody
     | Inr details \<Rightarrow>
       seq (Broker_Recreate b E (requestContext b OperationTypeRecreate requestID iid) iid details) (\<lambda>r.
       ret (recreateReply r)))"

section \<open>Metrics\<close>

text \<open>Values are \<open>float64\<close> in the code; counts below \<open>2^53\<close> are exact.\<close>

record Metric =
  m_Key :: string
  m_Value :: int
  m_Unit :: string

definition AddPlanMetric :: "string \<Rightarrow> string \<Rightarrow> string \<Rightarrow> int \<Rightarrow> Metric list \<Rightarrow> Metric list" where
  "AddPlanMetric offeringName planName metricName v ms =
     ms @ [\<lparr>m_Key = ''/on-demand-broker/'' @ offeringName @ ''/'' @ planName @ ''/'' @ metricName,
       m_Value = v, m_Unit = ''count''\<rparr>]"

definition AddGlobalMetric :: "string \<Rightarrow> string \<Rightarrow> int \<Rightarrow> Metric list \<Rightarrow> Metric list" where
  "AddGlobalMetric offeringName metricName v ms =
     ms @ [\<lparr>m_Key = ''/on-demand-broker/'' @ offeringName @ ''/'' @ metricName, m_Value = v, m_Unit = ''count''\<rparr>]"

definition costOf :: "(string \<times> int) list \<Rightarrow> string \<Rightarrow> int" where
  "costOf costs kind = (case map_of costs kind of None \<Rightarrow> 0 | Some c \<Rightarrow> c)"

fun planResourceMetrics :: "string \<Rightarrow> string \<Rightarrow> int \<Rightarrow> (string \<times> ResourceQuota) list
    \<Rightarrow> Metric list \<times> (string \<times> int) list \<Rightarrow> Metric list \<times> (string \<times> int) list" where
  "planResourceMetrics offeringName planName instanceCount [] acc = acc"
| "planResourceMetrics offeringName planName instanceCount ((kind, quota) # rest) (ms, costs) =
     (let usedResources = wrap64 (quota_Cost quota * instanceCount) in
      planResourceMetrics offeringName planName instanceCount rest
        (if quota_Cost quota \<noteq> 0 then
           (let ms1 = AddPlanMetric offeringName planName (kind @ ''/used'') usedResources ms;
                ms2 = (if quota_Limit quota \<noteq> 0
                  then AddPlanMetric offeringName planName (kind @ ''/remaining'') (wrap64 (quota_Limit quota - usedResources)) ms1
                  else ms1)
            in (ms2, map_set kind (wrap64 (usedResources + costOf costs kind)) costs))
         else (ms, costs)))"

text \<open>\<open>getPlan\<close>; an unknown plan ends the request.\<close>

definition getPlan :: "ServiceOffering \<Rightarrow> string \<Rightarrow> Plan option" where
  "getPlan off planID = List.find (\<lambda>p. plan_ID p = planID) (off_Plans off)"

fun planMetrics :: "ServiceOffering \<Rightarrow> (CFServicePlan \<times> int) list
    \<Rightarrow> Metric list \<times> (string \<times> int) list \<times> int \<Rightarrow> (Metric list \<times> (string \<times> int) list \<times> int) option" where
  "planMetrics off [] acc = Some acc"
| "planMetrics off ((cfPlan, instanceCount) # rest) (ms, costs, tally) =
     (case getPlan off (cfsp_UniqueID cfPlan) of None \<Rightarrow> None
      | Some plan \<Rightarrow>
        let ms1 = AddPlanMetric (off_Name off) (plan_Name plan) ''total_instances'' instanceCount ms;
            ms2 = (case ServiceInstanceLimit (plan_Quotas plan) of None \<Rightarrow> ms1
              | Some limit \<Rightarrow> AddPlanMetric (off_Name off) (plan_Name plan) ''quota_remaining'' (wrap64 (limit - instanceCount)) ms1);
            (ms3, costs') = planResourceMetrics (off_Name off) (plan_Name plan) instanceCount
              (case Resources (plan_Quotas plan) of None \<Rightarrow> [] | Some qs \<Rightarrow> qs) (ms2, costs)
        in planMetrics off rest (ms3, costs', wrap64 (tally + instanceCount)))"

fun globalResourceMetrics :: "string \<Rightarrow> (string \<times> int) list \<Rightarrow> (string \<times> ResourceQuota) list \<Rightarrow> Metric list \<Rightarrow> Metric list" where
  "globalResourceMetrics offeringName costs [] ms = ms"
| "globalResourceMetrics offeringName costs ((kind, quota) # rest) ms =
     (let usedResource = costOf costs kind in
      globalResourceMetrics offeringName costs rest
        (AddGlobalMetric offeringName (kind @ ''/remaining'') (wrap64 (quota_Limit quota - usedResource))
          (AddGlobalMetric offeringName (kind @ ''/used'') usedResource ms)))"

definition brokerMetrics :: "ServiceOffering \<Rightarrow> (CFServicePlan \<times> int) list \<Rightarrow> Metric list option" where
  "brokerMetrics off counts = (case planMetrics off counts ([], [], 0) of None \<Rightarrow> None
     | Some (ms, costs, tally) \<Rightarrow>
       let ms1 = AddGlobalMetric (off_Name off) ''total_instances'' tally ms;
           ms2 = (case ServiceInstanceLimit (off_GlobalQuotas off) of None \<Rightarrow> ms1
             | Some limit \<Rightarrow> AddGlobalMetric (off_Name off) ''quota_remaining'' (wrap64 (limit - tally)) ms1)
       in Some (globalResourceMetrics (off_Name off) costs
            (case Resources (off_GlobalQuotas off) of None \<Rightarrow> [] | Some qs \<Rightarrow> qs) ms2))"

definition marshalMetric :: "Metric \<Rightarrow> json" where
  "marshalMetric m = JObj [(''key'', JStr (m_Key m)), (''value'', JNum (m_Value m)), (''unit'', JStr (m_Unit m))]"

definition metrics :: "Broker \<Rightarrow> env \<Rightarrow> reply broker_m" where
  "metrics b E =
     attempt (CountInstancesOfPlans b E) (\<lambda>_. ret (statusOnly 500)) (\<lambda>instanceCountsByPlan.
     if instanceCountsByPlan = [] then ret (statusOnly 503)
     else (case brokerMetrics (b_serviceOffering b) instanceCountsByPlan of
         None \<Rightarrow> ret (writeJson 200 (JArr []))
       | Some ms \<Rightarrow> ret (writeJson 200 (JArr (map marshalMetric ms)))))"

section \<open>Routes\<close>

text \<open>
  The router takes the first route that fits; a path that fits under another method only is
  answered with 405, any other request with 404.  A path variable is not empty.
\<close>

definition AttachRoutes ::
  "Broker \<Rightarrow> env \<Rightarrow> string \<Rightarrow> string list \<Rightarrow> string \<Rightarrow> wire \<Rightarrow> reply broker_m" where
  "AttachRoutes b E meth path rawQuery body =
     (let operationType = map_of (ParseQuery rawQuery) ''operation_type'' in
      if path = [''mgmt'', ''service_instances''] then
        (if meth = ''GET'' then listAllInstances b E rawQuery else ret (statusOnly 405))
      else if length path = 3 \<and> take 2 path = [''mgmt'', ''service_instances''] \<and> path ! 2 \<noteq> [] then
        (if meth \<noteq> ''PATCH'' then ret (statusOnly 405)
         else if operationType = Some ''recreate'' then recreateInstance b E (path ! 2) body
         else if operationType = Some ''upgrade'' then upgradeInstance b E (path ! 2) body
         else ret (statusOnly 400))
      else if path = [''mgmt'', ''metrics''] then (if meth = ''GET'' then metrics b E else ret (statusOnly 405))
      else if path = [''mgmt'', ''orphan_deployments''] then
        (if meth = ''GET'' then listOrphanDeployments b E else ret (statusOnly 405))
      else ret (statusOnly 404))"

section \<open>Queries survive the wire\<close>

lemma of_char_less: "(of_char c :: nat) < 256"
  by (metis of_char_mod_256 mod_less_divisor zero_less_numeral)

lemma of_char_div: "(of_char c :: nat) div 16 < 16"
  by (rule less_mult_imp_div_less) (use of_char_less [of c] in simp)

lemma of_hexDigit: "m < 16 \<Longrightarrow> (of_char (hexDigit m) :: nat) = (if m < 10 then 48 + m else 55 + m)"
  by (simp add: hexDigit_def)

lemma unhex_hexDigit: "m < 16 \<Longrightarrow> unhex (hexDigit m) = m \<and> ishex (hexDigit m)"
  by (auto simp: unhex_def ishex_def of_hexDigit Let_def)

lemma QueryUnescape_char:
  "QueryUnescape (escapeChar c @ cs) = map_option (\<lambda>s. c # s) (QueryUnescape cs)"
proof -
  let ?n = "of_char c :: nat"
  have n: "?n < 256" by (rule of_char_less)
  have percent: "(of_char CHR 0x25 :: nat) = 37" "(of_char (CHR ''+'') :: nat) = 43" "(of_char (CHR '' '') :: nat) = 32"
    by simp_all
  show ?thesis
  proof (cases "unreserved c")
    case True
    then have "c \<noteq> CHR 0x25" "c \<noteq> CHR ''+''" by (auto simp: unreserved_def Let_def)
    with True show ?thesis by (simp add: escapeChar_def Let_def)
  next
    case False
    show ?thesis
    proof (cases "?n = 32")
      case True
      then have "c = CHR '' ''" by (metis char_of_char percent(3))
      then show ?thesis by (simp add: escapeChar_def Let_def unreserved_def)
    next
      case no_space: False
      have "16 * (?n div 16) + ?n mod 16 = ?n" by simp
      moreover have "?n div 16 < 16" "?n mod 16 < 16" by (rule of_char_div) simp
      ultimately show ?thesis
        using False no_space by (simp add: escapeChar_def Let_def unhex_hexDigit)
    qed
  qed
qed

lemma QueryUnescape_Escape: "QueryUnescape (QueryEscape s) = Some s"
  by (induction s) (simp_all add: QueryEscape_def QueryUnescape_char)

lemma escape_chars:
  assumes "x \<in> set (QueryEscape s)"
  shows "x \<noteq> CHR ''&''" "x \<noteq> CHR ''=''" "x \<noteq> CHR '';''"
proof -
  from assms obtain c where "x \<in> set (escapeChar c)" by (auto simp: QueryEscape_def)
  moreover have "\<exists>m<16. hexDigit ((of_char c :: nat) div 16) = hexDigit m"
    "\<exists>m<16. hexDigit ((of_char c :: nat) mod 16) = hexDigit m"
    using of_char_div [of c] by (blast, metis mod_less_divisor zero_less_numeral)
  ultimately have "unreserved x \<or> x = CHR ''+'' \<or> x = CHR 0x25 \<or> (\<exists>m<16. x = hexDigit m)"
    by (auto simp: escapeChar_def Let_def split: if_splits)
  then have "(of_char x :: nat) \<noteq> 38 \<and> (of_char x :: nat) \<noteq> 61 \<and> (of_char x :: nat) \<noteq> 59"
    by (auto simp: unreserved_def Let_def of_hexDigit split: if_splits)
  then show "x \<noteq> CHR ''&''" "x \<noteq> CHR ''=''" "x \<noteq> CHR '';''" by auto
qed

lemma escape_free [simp]:
  "CHR ''&'' \<notin> set (QueryEscape s)" "CHR ''='' \<notin> set (QueryEscape s)" "CHR '';'' \<notin> set (QueryEscape s)"
  using escape_chars by blast+

lemma splitOn_word: "d \<notin> set w \<Longrightarrow> splitOn d w = [w]"
  by (induction w) auto

lemma splitOn_append: "d \<notin> set w \<Longrightarrow> splitOn d (w @ d # rest) = w # splitOn d rest"
  by (induction w) auto

lemma splitOn_join:
  "ws \<noteq> [] \<Longrightarrow> (\<And>w. w \<in> set ws \<Longrightarrow> d \<notin> set w) \<Longrightarrow> splitOn d (join [d] ws) = ws"
  by (induction "[d]" ws rule: join.induct) (auto simp: splitOn_word splitOn_append)

lemma cutAt_pair: "d \<notin> set k \<Longrightarrow> cutAt d (k @ d # v) = (k, v)"
  by (induction k) auto

lemma parsePairs_escaped:
  "parsePairs (map (\<lambda>k. QueryEscape k @ ''='' @ QueryEscape (f k)) ks) = map (\<lambda>k. (k, f k)) ks"
proof (induction ks)
  case (Cons k ks)
  then show ?case by (simp add: cutAt_pair QueryUnescape_Escape)
qed simp

lemma map_of_keys:
  assumes "set ks = fst ` set m"
  shows "map_of (map (\<lambda>k. (k, case map_of m k of None \<Rightarrow> d | Some v \<Rightarrow> v)) ks) = map_of m"
proof
  fix x
  show "map_of (map (\<lambda>k. (k, case map_of m k of None \<Rightarrow> d | Some v \<Rightarrow> v)) ks) x = map_of m x"
  proof (cases "map_of m x")
    case None
    then have "x \<notin> set ks" using assms by (simp add: map_of_eq_None_iff)
    with None show ?thesis by (simp add: map_of_map_restrict restrict_map_def)
  next
    case (Some v)
    then have "x \<in> set ks" using assms map_of_SomeD [OF Some] by force
    with Some show ?thesis by (simp add: map_of_map_restrict restrict_map_def)
  qed
qed

lemma sort_empty: "sort xs = [] \<longleftrightarrow> xs = []"
  by (metis length_0_conv length_sort)

lemma firstValues_distinct: "distinct (map fst kvs) \<Longrightarrow> firstValues kvs = kvs"
proof (induction kvs rule: firstValues.induct)
  case (2 k v kvs)
  then have "filter (\<lambda>(k', _). k' \<noteq> k) kvs = kvs" by (intro filter_True) force
  with 2 show ?case by simp
qed simp

text \<open>
  The filter arrives at the broker as the client sent it: whatever keys and values it has, the
  query the client encodes is decoded to the same map.
\<close>

theorem filter_roundtrip:
  "map_of (getFilterValues (encodeValues (copy_map [] flt))) = map_of (copy_map [] flt)"
proof (cases "copy_map [] flt = []")
  case True
  then show ?thesis by (simp add: encodeValues_def getFilterValues_def ParseQuery_def)
next
  case False
  let ?m = "copy_map [] flt"
  let ?f = "\<lambda>k. case map_of ?m k of None \<Rightarrow> [] | Some v \<Rightarrow> v"
  let ?ks = "sort (map fst ?m)"
  have distinct: "distinct ?ks"
    by (simp add: copy_map_def distinct_foldl_map_set)
  have "ParseQuery (encodeValues ?m) = parsePairs (map (\<lambda>k. QueryEscape k @ ''='' @ QueryEscape (?f k)) ?ks)"
    unfolding ParseQuery_def encodeValues_def
    by (subst splitOn_join) (use False in \<open>auto simp: sort_empty\<close>)
  also have "\<dots> = map (\<lambda>k. (k, ?f k)) ?ks" by (rule parsePairs_escaped)
  finally have "getFilterValues (encodeValues ?m) = map (\<lambda>k. (k, ?f k)) ?ks"
    using distinct by (simp add: getFilterValues_def firstValues_distinct comp_def)
  moreover have "map_of (map (\<lambda>k. (k, ?f k)) ?ks) = map_of ?m"
    by (rule map_of_keys) simp
  ultimately show ?thesis by simp
qed

section \<open>What the client reads is what the broker returned\<close>

text \<open>A reply on the wire; the status line and the text of the body serve error messages only.\<close>

definition respond :: "string \<Rightarrow> string \<Rightarrow> reply \<Rightarrow> HttpResponse" where
  "respond statusLine bodyText r = \<lparr>rs_StatusCode = rep_Code r, rs_Status = statusLine, rs_Text = bodyText,
     rs_Json = rep_Body r\<rparr>"

definition understood :: "gerr + OperationData \<Rightarrow> gerr + BOSHOperation" where
  "understood r = (case r of
      Inr od \<Rightarrow> Inr ((boshOperation BOperationAccepted)\<lparr>bo_Data := od\<rparr>)
    | Inl (ResourceNotFoundError _) \<Rightarrow> Inr (boshOperation BInstanceNotFound)
    | Inl (DeploymentNotFoundError _) \<Rightarrow> Inr (boshOperation BOrphanDeployment)
    | Inl (OperationInProgressError _) \<Rightarrow> Inr (boshOperation BOperationInProgress)
    | Inl (OperationAlreadyCompletedError _) \<Rightarrow> Inr (boshOperation BOperationSkipped)
    | Inl err \<Rightarrow> Inl (ErrorString (''unexpected status code: 500. description: '' @ errmsg err)))"

lemma show_500 [simp]: "show_int 500 = ''500''"
  by code_simp

lemma read_error: "unmarshalErrorResponse (WJson (errorResponse d)) = Inr d"
  by (simp add: unmarshalErrorResponse_def errorResponse_def key_is_def)

lemma read_data:
  assumes "in_int64 (od_BoshTaskID od)" "wf_operationType (od_OperationType od)"
  shows "decodeBody (\<lambda>j. unmarshalOperationData (WJson j)) (WJson (marshalOperationData od)) = Inr od"
  using operationData_decode [OF assms] by (simp add: decodeBody_def)

lemmas reply_defs = respond_def upgradeReply_def recreateReply_def writeJson_def statusOnly_def
  ExtractOperationFrom_def understood_def Let_def read_error

text \<open>
  C31.  The outcome of an upgrade or a recreate crosses HTTP intact: from the reply of the management API
  the client reads the very operation data the broker returned, or which of the expected refusals
  it was (gone, orphaned, busy, nothing to do), or the broker's error message.  The one refusal that
  the recreate handler does not know is reported as an error.
\<close>

theorem operation_reply_roundtrip:
  assumes "\<And>od. r = Inr od \<Longrightarrow> in_int64 (od_BoshTaskID od) \<and> wf_operationType (od_OperationType od)"
  shows "ExtractOperationFrom (respond statusLine bodyText (upgradeReply r)) = understood r
    \<and> ExtractOperationFrom (respond statusLine bodyText (recreateReply r)) = (case r of
      Inl (OperationAlreadyCompletedError err) \<Rightarrow>
        Inl (ErrorString (''unexpected status code: 500. description: '' @ errmsg err))
    | _ \<Rightarrow> understood r)"
proof
  show "ExtractOperationFrom (respond statusLine bodyText (upgradeReply r)) = understood r"
  proof (cases r)
    case (Inl e)
    then show ?thesis by (cases e) (simp_all add: reply_defs)
  next
    case (Inr od)
    with assms read_data [of od] show ?thesis by (simp add: reply_defs)
  qed
  show "ExtractOperationFrom (respond statusLine bodyText (recreateReply r)) = (case r of
      Inl (OperationAlreadyCompletedError err) \<Rightarrow>
        Inl (ErrorString (''unexpected status code: 500. description: '' @ errmsg err))
    | _ \<Rightarrow> understood r)"
  proof (cases r)
    case (Inl e)
    then show ?thesis by (cases e) (simp_all add: reply_defs)
  next
    case (Inr od)
    with assms read_data [of od] show ?thesis by (simp add: reply_defs)
  qed
qed

lemma read_instances: "decodeInstances (map marshalInstance is) = Inr is"
  by (induction "is") (simp_all add: marshalInstance_def omitempty_str_def key_is_def)

text \<open>
  So do the instances: what the client decodes from the list the API serves is the list the broker
  found, for the filter the query stands for.
\<close>

theorem instances_reply_roundtrip:
  assumes "listAllInstances b E rawQuery s = (Val rep, s')" and "rep_Code rep = 200"
  shows "\<exists>instances. Instances b E (getFilterValues rawQuery) s = (Val (Inr instances), s')
    \<and> decodeServiceInstanceResponse (respond statusLine bodyText rep) = Inr instances"
proof -
  obtain r s1 where run: "Instances b E (getFilterValues rawQuery) s = (r, s1)" by fastforce
  then obtain instances where "r = Val (Inr instances)" "s1 = s'"
      "rep = writeJson 200 (if instances = [] then JNull else JArr (map marshalInstance instances))"
    using assms by (cases r) (auto simp: listAllInstances_def attempt_def seq_def statusOnly_def ret_def split: sum.splits)
  with run show ?thesis
    by (auto simp: decodeServiceInstanceResponse_def respond_def writeJson_def decodeBody_def read_instances)
qed

theorem operation_reply_roundtrip_witness:
  "ExtractOperationFrom (respond [] [] (upgradeReply (Inr (operationOf OperationTypeUpgrade 7 ''ctx'' errand_plan))))
     = Inr ((boshOperation BOperationAccepted)\<lparr>bo_Data := operationOf OperationTypeUpgrade 7 ''ctx'' errand_plan\<rparr>)"
  using operation_reply_roundtrip [of "Inr (operationOf OperationTypeUpgrade 7 ''ctx'' errand_plan)" "[]" "[]"]
  by (simp add: operationOf_def understood_def in_int64_def wf_operationType_def operationTypeOf_def)

theorem instances_reply_roundtrip_witness:
  "\<exists>instances. decodeServiceInstanceResponse (respond [] [] \<lparr>rep_Code = 200, rep_Body = WJson JNull\<rparr>) = Inr instances"
proof -
  have "listAllInstances sample_broker sample_env [] sample_state
      = (Val \<lparr>rep_Code = 200, rep_Body = WJson JNull\<rparr>, sample_state\<lparr>hist := [ListInstances [] (Inr [])]\<rparr>)"
    by (simp add: listAllInstances_def Instances_def run client_defs sample_env_def writeJson_def getFilterValues_def
        ParseQuery_def sample_state_def)
  from instances_reply_roundtrip [OF this] show ?thesis by auto
qed

end
