(* ===== verification/CFSample.thy ===== *)
theory CFSample
  imports CFClient
begin

text \<open>
  A concrete Cloud Foundry for witnesses: one service with one plan and one instance, which is there
  until it was deleted; and rules that follow a run through it, request by request.
\<close>

section \<open>A Cloud Foundry with one instance\<close>

definition okJson :: "json \<Rightarrow> gerr + HttpResponse" where
  "okJson j = Inr \<lparr>rs_StatusCode = 200, rs_Status = ''200 OK'', rs_Text = ''json'', rs_Json = WJson j\<rparr>"

definition emptyReply :: "int \<Rightarrow> gerr + HttpResponse" where
  "emptyReply code = Inr \<lparr>rs_StatusCode = code, rs_Status = [], rs_Text = [], rs_Json = WEmpty\<rparr>"

definition resource :: "string \<Rightarrow> (string \<times> json) list \<Rightarrow> json" where
  "resource guid entity = JObj [(''metadata'', JObj [(''guid'', JStr guid)]), (''entity'', JObj entity)]"

definition resources :: "json list \<Rightarrow> gerr + HttpResponse" where
  "resources rs = okJson (JObj [(''total_results'', JNum (int (length rs))), (''next_url'', JNull), (''resources'', JArr rs)])"

text \<open>\<open>i1\<close> has a last operation; it is there until it was deleted, for good if that operation failed.\<close>

definition foundry_do :: "string \<Rightarrow> string \<Rightarrow> ievent list \<Rightarrow> HttpRequest \<Rightarrow> gerr + HttpResponse" where
  "foundry_do lastType lastState h rq =
     (let url = rq_URL rq; there = (lastState = ''failed'' \<or> delete_of ''/v2/service_instances/i1?accepts_incomplete=true'' \<notin> set (writes h)) in
      if rq_Method rq \<noteq> ''GET'' then
        emptyReply (if rq_Method rq = ''DELETE'' then 204 else if url = ''/v2/service_brokers/br'' then 200 else 201)
      else if url = ''/v2/service_brokers'' then resources [resource ''br'' [(''name'', JStr ''odb'')]]
      else if url = ''/v2/info'' then okJson (JObj [(''api_version'', JStr ''2.164.0'')])
      else if url = ''/v2/services?results-per-page=100'' then
        resources [resource ''s1'' [(''unique_id'', JStr ''svc''), (''service_plans_url'', JStr ''/v2/services/s1/service_plans'')]]
      else if url = ''/v2/services/s1/service_plans?results-per-page=100'' then
        resources [resource ''p1'' [(''unique_id'', JStr ''small''), (''name'', JStr ''Small''), (''service_instances_url'', JStr ''/v2/service_plans/p1/service_instances'')]]
      else if url = ''/v2/service_plans/p1/service_instances?results-per-page=100'' then
        resources (if there then [resource ''i1'' [(''space_guid'', JStr ''space'')]] else [])
      else if url = ''/v2/service_instances/i1/service_bindings?results-per-page=100'' then
        resources [resource ''b1'' [(''app_guid'', JStr ''app'')]]
      else if url = ''/v2/service_instances/i1/service_keys?results-per-page=100'' then resources []
      else if url = ''/v2/service_instances/i1'' \<and> there then
        okJson (resource ''i1'' [(''last_operation'', JObj [(''type'', JStr lastType), (''state'', JStr lastState)])])
      else emptyReply 404)"

definition foundry_env :: "string \<Rightarrow> string \<Rightarrow> cfenv" where
  "foundry_env lastType lastState = \<lparr>o_AuthHeader = \<lambda>_. Inr [], o_Do = foundry_do lastType lastState,
     o_GetPlanByServiceInstanceGUID = \<lambda>_ _. Inr [], o_UpgradeServiceInstance = \<lambda>_ _ _. Inl (ErrorString []),
     o_GetLastOperationForInstance = \<lambda>_ _. Inl (ErrorString []), o_CheckMinimumOSBAPIVersion = \<lambda>_ _. True,
     urlError = \<lambda>_. None, jsonText = \<lambda>_. [], durationText = \<lambda>_. [], fmtJson = \<lambda>_. [], quoted = \<lambda>s. quote s,
     ParseTolerant = \<lambda>s. Inr s, semverGE = \<lambda>_ _. True\<rparr>"

abbreviation foundry_client :: Client where
  "foundry_client \<equiv> \<lparr>cf_url = []\<rparr>"

abbreviation no_events :: "ievent gstate" where
  "no_events \<equiv> \<lparr>hist = []\<rparr>"

text \<open>Equations for evaluation\<close>

lemma key_is_code [code]: "key_is k field \<longleftrightarrow> length k = length field \<and> (k = field \<or> map lower k = map lower field)"
  unfolding key_is_def by (auto dest: map_eq_imp_length_eq)

lemma perPage_code [code]: "perPage = ''results-per-page=100''"
  by code_simp

lemma foundry_plain: "plain_transport (foundry_env a b)"
  by (auto simp: plain_transport_def foundry_env_def foundry_do_def resources_def okJson_def emptyReply_def Let_def
      split: if_splits)

text \<open>The pages this foundry gives, as the client reads them\<close>

lemma services_page: "decodePage decodeService zero_service (JObj [(''total_results'', JNum 1), (''next_url'', JNull),
    (''resources'', JArr [resource ''s1'' [(''unique_id'', JStr ''svc''), (''service_plans_url'', JStr ''/v2/services/s1/service_plans'')]])])
  = Inr (emptyPage\<lparr>pg_TotalResults := 1, pg_Resources := [\<lparr>srv_UniqueID = ''svc'', srv_ServicePlansUrl = ''/v2/services/s1/service_plans''\<rparr>]\<rparr>)"
  by code_simp

lemma plans_page: "decodePage decodePlan zero_plan (JObj [(''total_results'', JNum 1), (''next_url'', JNull),
    (''resources'', JArr [resource ''p1'' [(''unique_id'', JStr ''small''), (''name'', JStr ''Small''), (''service_instances_url'', JStr ''/v2/service_plans/p1/service_instances'')]])])
  = Inr (emptyPage\<lparr>pg_TotalResults := 1, pg_Resources := [zero_plan\<lparr>pl_GUID := ''p1'', pl_UniqueID := ''small'', pl_Name := ''Small'',
     pl_ServiceInstancesUrl := ''/v2/service_plans/p1/service_instances''\<rparr>]\<rparr>)"
  by code_simp

lemma instances_page: "decodePage decodeInstanceResource zero_instance (JObj [(''total_results'', JNum 1), (''next_url'', JNull),
    (''resources'', JArr [resource ''i1'' [(''space_guid'', JStr ''space'')]])])
  = Inr (emptyPage\<lparr>pg_TotalResults := 1, pg_Resources := [zero_instance\<lparr>si_GUID := ''i1'', si_SpaceGUID := ''space''\<rparr>]\<rparr>)"
  by code_simp

lemma no_instances_page: "decodePage decodeInstanceResource zero_instance (JObj [(''total_results'', JNum 0), (''next_url'', JNull),
    (''resources'', JArr [])]) = Inr emptyPage"
  by code_simp

lemma no_keys_page: "decodePage decodeGUIDResource [] (JObj [(''total_results'', JNum 0), (''next_url'', JNull),
    (''resources'', JArr [])]) = Inr emptyPage"
  by code_simp

lemma brokers_page: "decodePage decodeBrokerResource \<lparr>sb_GUID = [], sb_Name = []\<rparr> (JObj [(''total_results'', JNum 1), (''next_url'', JNull),
    (''resources'', JArr [resource ''br'' [(''name'', JStr ''odb'')]])])
  = Inr (emptyPage\<lparr>pg_TotalResults := 1, pg_Resources := [\<lparr>sb_GUID = ''br'', sb_Name = ''odb''\<rparr>]\<rparr>)"
  by code_simp

lemma bindings_page: "decodePage decodeBindingResource \<lparr>bd_GUID = [], bd_AppGUID = []\<rparr> (JObj [(''total_results'', JNum 1), (''next_url'', JNull),
    (''resources'', JArr [resource ''b1'' [(''app_guid'', JStr ''app'')]])])
  = Inr (emptyPage\<lparr>pg_TotalResults := 1, pg_Resources := [\<lparr>bd_GUID = ''b1'', bd_AppGUID = ''app''\<rparr>]\<rparr>)"
  by code_simp

section \<open>Following a run\<close>

text \<open>
  \<open>runs w m x v\<close>: wherever the requests so far changed \<open>w\<close>, \<open>m\<close> returns \<open>x\<close> and changes \<open>v\<close>.
\<close>

definition runs :: "cfwrite list \<Rightarrow> 'a cf_m \<Rightarrow> 'a \<Rightarrow> cfwrite list \<Rightarrow> bool" where
  "runs w m x v \<longleftrightarrow> (\<forall>s. writes (hist s) = w \<longrightarrow> (\<exists>t. m s = (Val x, s\<lparr>hist := hist s @ t\<rparr>) \<and> writes t = v))"

lemma runsD: "runs (writes (hist s)) m x v \<Longrightarrow> \<exists>t. m s = (Val x, s\<lparr>hist := hist s @ t\<rparr>) \<and> writes t = v"
  by (simp add: runs_def)

lemma runs_ret: "runs w (ret x) x []"
  unfolding runs_def by (auto simp: run intro!: exI [of _ "[]"])

lemma runs_emit: "cf_write e = [] \<Longrightarrow> runs w (emit e) () []"
  unfolding runs_def by (auto simp: run intro!: exI [of _ "[e]"])

lemma runs_seq:
  assumes "runs w m x v" and "runs (w @ v) (k x) y v'"
  shows "runs w (seq m k) y (v @ v')"
  unfolding runs_def
proof (intro allI impI)
  fix s :: "ievent gstate"
  assume w: "writes (hist s) = w"
  from assms(1) w obtain t where t: "m s = (Val x, s\<lparr>hist := hist s @ t\<rparr>)" "writes t = v" by (auto simp: runs_def)
  then have "writes (hist (s\<lparr>hist := hist s @ t\<rparr>)) = w @ v" using w by simp
  from assms(2) [unfolded runs_def, rule_format, OF this]
  obtain t' where "k x (s\<lparr>hist := hist s @ t\<rparr>) = (Val y, s\<lparr>hist := hist s @ t @ t'\<rparr>)" "writes t' = v'"
    by auto
  with t show "\<exists>t. seq m k s = (Val y, s\<lparr>hist := hist s @ t\<rparr>) \<and> writes t = v @ v'"
    by (intro exI [of _ "t @ t'"]) (simp add: run)
qed

lemma runs_attempt: "runs w m (Inr x) v \<Longrightarrow> runs (w @ v) (k x) y v' \<Longrightarrow> runs w (attempt m h k) y (v @ v')"
  and runs_attempt_error: "runs w m (Inl e) v \<Longrightarrow> runs (w @ v) (h e) y v' \<Longrightarrow> runs w (attempt m h k) y (v @ v')"
  unfolding attempt_def by (auto intro: runs_seq)

lemma runs_attempt_read: "runs w m (Inr x) [] \<Longrightarrow> runs w (k x) y v \<Longrightarrow> runs w (attempt m h k) y v"
  using runs_attempt [of w m x "[]" k y v h] by simp

lemma runs_seq_read: "runs w m x [] \<Longrightarrow> runs w (k x) y v \<Longrightarrow> runs w (seq m k) y v"
  using runs_seq [of w m x "[]" k y v] by simp

lemma runs_exchange:
  assumes "\<And>h. writes h = w \<Longrightarrow> foundry_do a b h \<lparr>rq_Method = meth, rq_URL = url, rq_Headers = header, rq_Body = body\<rparr> = r"
  shows "runs w (exchange (foundry_env a b) meth url header body) r (if meth = ''GET'' then [] else [(meth, url, body)])"
  unfolding runs_def
proof (intro allI impI)
  fix s :: "ievent gstate"
  assume w: "writes (hist s) = w"
  let ?rq = "\<lparr>rq_Method = meth, rq_URL = url, rq_Headers = header, rq_Body = body\<rparr>"
  have "writes (hist s @ [EAuthHeader (Inr [])]) = w" using w by simp
  from assms [OF this] show "\<exists>t. exchange (foundry_env a b) meth url header body s = (Val r, s\<lparr>hist := hist s @ t\<rparr>)
      \<and> writes t = (if meth = ''GET'' then [] else [(meth, url, body)])"
    by (intro exI [of _ "[EAuthHeader (Inr []), EHttp ?rq r]"]) (auto simp: exchange_def foundry_env_def run)
qed

lemma runs_read:
  assumes "\<And>h. writes h = w \<Longrightarrow> foundry_do a b h \<lparr>rq_Method = ''GET'', rq_URL = url, rq_Headers = [], rq_Body = []\<rparr> = okJson j"
    and "dec j = Inr x"
  shows "runs w (cf_read (foundry_env a b) url dec zero) (Inr x) []"
proof -
  have "runs w (cf_get (foundry_env a b) url (orZero dec zero) zero) (None, x) ([] @ [])"
    unfolding cf_get_def
    by (rule runs_attempt [OF runs_exchange [where meth = "''GET''" and header = "[]" and body = "[]", simplified]])
       (use assms in \<open>auto simp: okJson_def readResponse_def unmarshalBody_def orZero_def intro: runs_ret\<close>)
  then show ?thesis
    unfolding cf_read_def by (intro runs_seq_read) (auto intro: runs_ret)
qed

lemma runs_missing:
  assumes "\<And>h. writes h = w \<Longrightarrow> foundry_do a b h \<lparr>rq_Method = ''GET'', rq_URL = url, rq_Headers = [], rq_Body = []\<rparr> = emptyReply 404"
  shows "runs w (cf_read (foundry_env a b) url dec zero) (Inl (ResourceNotFoundError [])) []"
proof -
  have "runs w (cf_get (foundry_env a b) url (orZero dec zero) zero) (Some (ResourceNotFoundError []), zero) ([] @ [])"
    unfolding cf_get_def
    by (rule runs_attempt [OF runs_exchange [where meth = "''GET''" and header = "[]" and body = "[]", simplified]])
       (use assms in \<open>auto simp: emptyReply_def readResponse_def unmarshalBody_def errorMessageFromRawBody_def Let_def intro: runs_ret\<close>)
  then show ?thesis
    unfolding cf_read_def by (intro runs_seq_read) (auto intro: runs_ret)
qed

lemma runs_delete: "runs w (cf_delete (foundry_env a b) url) (Inr ()) [delete_of url]"
proof -
  have "runs w (cf_delete (foundry_env a b) url) (Inr ()) ([delete_of url] @ [])"
    unfolding cf_delete_def
    by (rule runs_attempt [OF runs_exchange [where meth = "''DELETE''" and header = formEncoded and body = "[]" and r = "emptyReply 204" and url = url,
          unfolded emptyReply_def, simplified, folded delete_of_def]])
       (auto simp: foundry_do_def emptyReply_def Let_def intro: runs_ret)
  then show ?thesis by simp
qed

section \<open>What the sample answers\<close>

definition small_plan :: cfplan where
  "small_plan = zero_plan\<lparr>pl_GUID := ''p1'', pl_UniqueID := ''small'', pl_Name := ''Small'',
     pl_ServiceInstancesUrl := ''/v2/service_plans/p1/service_instances''\<rparr>"

definition only_instance :: Instance where
  "only_instance = \<lparr>inst_GUID = ''i1'', inst_PlanUniqueID = ''small'', inst_SpaceGUID = ''space''\<rparr>"

definition gone_after :: "string \<Rightarrow> cfwrite list \<Rightarrow> bool" where
  "gone_after lastState w \<longleftrightarrow> lastState \<noteq> ''failed'' \<and> delete_of ''/v2/service_instances/i1?accepts_incomplete=true'' \<in> set w"

lemma perPage_value [simp]: "perPage = ''results-per-page=100''"
  by (rule perPage_code)

lemma emptyPage_next [simp]: "pg_NextPath emptyPage = []" "pg_Resources emptyPage = []"
  by (simp_all add: emptyPage_def)

lemma runs_page:
  assumes "\<And>h. writes h = w \<Longrightarrow> foundry_do a b h \<lparr>rq_Method = ''GET'', rq_URL = path, rq_Headers = [], rq_Body = []\<rparr> = okJson j"
    and "decodePage dec zero j = Inr p" and "pg_NextPath p = []" and "path \<noteq> []"
  shows "runs w (listPages (Suc n) (foundry_env a b) foundry_client dec zero path []) (Inr (pg_Resources p)) []"
proof -
  have page: "runs w (cf_read (foundry_env a b) (cf_url foundry_client @ path) (decodePage dec zero) emptyPage) (Inr p) []"
    by (rule runs_read [where j = j and dec = "decodePage dec zero"]) (use assms(1,2) in simp_all)
  have "listPages n E c dec zero [] acc = ret (Inr acc)" for E :: cfenv and c :: Client and acc by (cases n) simp_all
  then show ?thesis
    using assms(3,4) by (auto intro!: runs_attempt_read [OF page [simplified]] runs_ret)
qed

lemma runs_plans: "runs w (getPlansForServiceID 3 (foundry_env a b) foundry_client ''svc'') (Inr [small_plan]) []"
proof -
  have service: "runs w (cf_read (foundry_env a b) (cf_url foundry_client @ ''/v2/services?results-per-page=100'')
      (decodePage decodeService zero_service) emptyPage)
    (Inr (emptyPage\<lparr>pg_TotalResults := 1, pg_Resources := [\<lparr>srv_UniqueID = ''svc'', srv_ServicePlansUrl = ''/v2/services/s1/service_plans''\<rparr>]\<rparr>)) []"
    by (rule runs_read [where dec = "decodePage decodeService zero_service", OF _ services_page]) (simp add: foundry_do_def resources_def Let_def)
  have plans: "runs w (listPages (Suc 2) (foundry_env a b) foundry_client decodePlan zero_plan
      ''/v2/services/s1/service_plans?results-per-page=100'' []) (Inr [small_plan]) []"
    using runs_page [OF _ plans_page, of w a b "''/v2/services/s1/service_plans?results-per-page=100''" 2]
    by (simp add: foundry_do_def resources_def Let_def small_plan_def)
  have find: "runs w (findService (Suc 2) (foundry_env a b) foundry_client ''svc'' ''/v2/services?results-per-page=100'')
    (Inr (Some \<lparr>srv_UniqueID = ''svc'', srv_ServicePlansUrl = ''/v2/services/s1/service_plans''\<rparr>)) []"
    by (subst findService.simps) (auto intro!: runs_attempt_read [OF service [simplified]] runs_ret)
  show ?thesis
    unfolding getPlansForServiceID_def findServiceByUniqueID_def
    using plans by (auto intro!: runs_attempt_read [OF find [simplified]] simp: listAllPlans_def)
qed

lemma runs_listing: "runs w (GetServiceInstances 3 (foundry_env a b) foundry_client
    \<lparr>gif_ServiceOfferingID = ''svc'', gif_OrgName = [], gif_SpaceName = []\<rparr>) (Inr (if gone_after b w then [] else [only_instance])) []"
proof -
  let ?path = "''/v2/service_plans/p1/service_instances?results-per-page=100''"
  have pages: "runs w (listPages (Suc 2) (foundry_env a b) foundry_client decodeInstanceResource zero_instance ?path [])
    (Inr (if gone_after b w then [] else [zero_instance\<lparr>si_GUID := ''i1'', si_SpaceGUID := ''space''\<rparr>])) []"
    using runs_page [OF _ no_instances_page, of w a b ?path 2] runs_page [OF _ instances_page, of w a b ?path 2]
    by (auto simp: foundry_do_def resources_def Let_def gone_after_def)
  have "runs w (getInstances 3 (foundry_env a b) foundry_client [small_plan] [] [])
    (Inr (if gone_after b w then [] else [only_instance])) []"
    unfolding getInstances.simps
    by (rule runs_attempt_read)
      (use pages in \<open>auto simp: instancesPath_def small_plan_def toInstance_def only_instance_def
        zero_instance_def zero_plan_def intro!: runs_ret\<close>)
  then show ?thesis
    unfolding GetServiceInstances_def createQuery_def
    by (auto intro!: runs_attempt_read [OF runs_plans] simp: runs_plans)
qed

lemma runs_bindings: "runs w (GetBindingsForInstance 3 (foundry_env a b) foundry_client ''i1'')
    (Inr [\<lparr>bd_GUID = ''b1'', bd_AppGUID = ''app''\<rparr>]) []"
  using runs_page [OF _ bindings_page, of w a b "''/v2/service_instances/i1/service_bindings?results-per-page=100''" 2]
  by (simp add: GetBindingsForInstance_def foundry_do_def resources_def Let_def)

lemma runs_keys: "runs w (GetServiceKeysForInstance 3 (foundry_env a b) foundry_client ''i1'') (Inr []) []"
  using runs_page [OF _ no_keys_page, of w a b "''/v2/service_instances/i1/service_keys?results-per-page=100''" 2]
  by (simp add: GetServiceKeysForInstance_def foundry_do_def resources_def Let_def)

definition last_operation_of :: "string \<Rightarrow> string \<Rightarrow> CFLastOperation" where
  "last_operation_of a b = \<lparr>cflo_Type = a, cflo_State = b\<rparr>"

lemma instance_resource:
  "decodeInstanceResource (resource ''i1'' [(''last_operation'', JObj [(''type'', JStr a), (''state'', JStr b)])]) zero_instance
   = Inr (zero_instance\<lparr>si_GUID := ''i1'', si_LastOperation := last_operation_of a b\<rparr>)"
  by (simp add: decodeInstanceResource_def decodeInstanceEntity_def decodeCFLastOperation_def decodeGUID_def decodeStruct_def
      resource_def key_is_code lower_def zero_instance_def last_operation_of_def)

lemma runs_latest:
  "\<not> gone_after b w \<Longrightarrow> runs w (GetLastOperationForInstance (foundry_env a b) foundry_client ''i1'') (Inr (last_operation_of a b)) []"
  unfolding GetLastOperationForInstance_def GetServiceInstance_def
  by (rule runs_attempt_read, rule runs_read [where dec = "\<lambda>j. decodeInstanceResource j zero_instance", OF _ instance_resource])
     (auto simp: foundry_do_def Let_def gone_after_def intro: runs_ret)

lemma runs_latest_gone:
  "gone_after b w \<Longrightarrow> runs w (GetLastOperationForInstance (foundry_env a b) foundry_client ''i1'') (Inl (ResourceNotFoundError [])) []"
  unfolding GetLastOperationForInstance_def GetServiceInstance_def
  by (rule runs_attempt_error [where v = "[]" and v' = "[]", simplified], rule runs_missing)
     (auto simp: foundry_do_def Let_def gone_after_def intro: runs_ret)

lemma runs_brokers: "runs w (listServiceBrokers 3 (foundry_env a b) foundry_client) (Inr [\<lparr>sb_GUID = ''br'', sb_Name = ''odb''\<rparr>]) []"
proof -
  have "runs w (listPages (Suc 2) (foundry_env a b) foundry_client decodeBrokerResource \<lparr>sb_GUID = [], sb_Name = []\<rparr> ''/v2/service_brokers'' [])
    (Inr [\<lparr>sb_GUID = ''br'', sb_Name = ''odb''\<rparr>]) []"
    using runs_page [OF _ brokers_page, of w a b "''/v2/service_brokers''" 2]
    by (simp add: foundry_do_def resources_def Let_def)
  then show ?thesis
    unfolding listServiceBrokers_def by (auto intro!: runs_attempt_read [where k = "\<lambda>x. ret (Inr x)"] runs_ret)
qed

lemma runs_setAccess:
  "runs w (setAccessForPlan (foundry_env a b) foundry_client ''p1'' public) (Inr ())
     [(''PUT'', planURL foundry_client ''p1'', publicBody public)]"
proof -
  have "runs w (cf_put (foundry_env a b) (planURL foundry_client ''p1'') (publicBody public)) (emptyReply 201)
     [(''PUT'', planURL foundry_client ''p1'', publicBody public)]"
    unfolding cf_put_def
    using runs_exchange [where meth = "''PUT''" and url = "planURL foundry_client ''p1''" and header = formEncoded
        and body = "publicBody public" and r = "emptyReply 201" and w = w and a = a and b = b]
    by (simp add: foundry_do_def planURL_def Let_def)
  then have "runs w (setAccessForPlan (foundry_env a b) foundry_client ''p1'' public) (Inr ())
     ([(''PUT'', planURL foundry_client ''p1'', publicBody public)] @ [])"
    unfolding setAccessForPlan_def emptyReply_def by (rule runs_attempt) (simp add: runs_ret)
  then show ?thesis by simp
qed

end
