(* ===== verification/Deleter.thy ===== *)
theory Deleter
  imports CFSample "HOL-Library.Sublist"
begin

text \<open>
  The errand that deletes all instances of a service: \<open>deleter/deleter.go\<close>.  The deleter reaches
  Cloud Foundry through an interface, a record of operations here; \<open>cfClient\<close> is the record of
  \<open>CFClient\<close>'s operations, which the process \<open>cmd/delete-all-service-instances\<close> puts in.

  Waiting for a deletion has no limit in the code, so it gets fuel; what is shown for all runs holds
  for every fuel.
\<close>

section \<open>The program\<close>

record CloudFoundryClient =
  dc_GetServiceInstances :: "GetInstancesFilter \<Rightarrow> (gerr + Instance list) cf_m"
  dc_GetLastOperationForInstance :: "string \<Rightarrow> (gerr + CFLastOperation) cf_m"
  dc_GetBindingsForInstance :: "string \<Rightarrow> (gerr + cfbinding list) cf_m"
  dc_DeleteBinding :: "cfbinding \<Rightarrow> (gerr + unit) cf_m"
  dc_GetServiceKeysForInstance :: "string \<Rightarrow> (gerr + string list) cf_m"
  dc_DeleteServiceKey :: "string \<Rightarrow> (gerr + unit) cf_m"
  dc_DeleteServiceInstance :: "string \<Rightarrow> (gerr + unit) cf_m"

definition cfClient :: "nat \<Rightarrow> cfenv \<Rightarrow> Client \<Rightarrow> CloudFoundryClient" where
  "cfClient n E c = \<lparr>dc_GetServiceInstances = GetServiceInstances n E c,
     dc_GetLastOperationForInstance = GetLastOperationForInstance E c,
     dc_GetBindingsForInstance = GetBindingsForInstance n E c, dc_DeleteBinding = DeleteBinding E c,
     dc_GetServiceKeysForInstance = GetServiceKeysForInstance n E c, dc_DeleteServiceKey = DeleteServiceKey E c,
     dc_DeleteServiceInstance = DeleteServiceInstance E c\<rparr>"

text \<open>Durations are nanoseconds in 64 bits.\<close>

record Deleter =
  pollingInitialOffset :: int
  pollingInterval :: int
  del_cfClient :: CloudFoundryClient

definition seconds :: "int \<Rightarrow> int" where
  "seconds k = wrap64 (k * 1000000000)"

definition deleter_New :: "CloudFoundryClient \<Rightarrow> int \<Rightarrow> int \<Rightarrow> Deleter" where
  "deleter_New cl offset interval = \<lparr>pollingInitialOffset = seconds offset, pollingInterval = seconds interval, del_cfClient = cl\<rparr>"

definition IsDelete :: "CFLastOperation \<Rightarrow> bool" where
  "IsDelete o' \<longleftrightarrow> cflo_Type o' = ''delete''"

definition cf_OperationFailed :: "CFLastOperation \<Rightarrow> bool" where
  "cf_OperationFailed o' \<longleftrightarrow> cflo_State o' = ''failed''"

text \<open>\<open>for _, x := range xs { if err := del(x); err != nil { return err } }\<close>\<close>

fun forEach :: "('x \<Rightarrow> (gerr + unit) cf_m) \<Rightarrow> 'x list \<Rightarrow> (gerr + unit) cf_m" where
  "forEach del [] = ret (Inr ())"
| "forEach del (x # xs) = attempt (del x) (\<lambda>err. ret (Inl err)) (\<lambda>_. forEach del xs)"

definition deleteBindings :: "Deleter \<Rightarrow> string \<Rightarrow> (gerr + unit) cf_m" where
  "deleteBindings d instanceGUID =
     attempt (dc_GetBindingsForInstance (del_cfClient d) instanceGUID)
       (\<lambda>err. case err of ResourceNotFoundError _ \<Rightarrow> ret (Inr ()) | _ \<Rightarrow> ret (Inl err))
       (\<lambda>bindings. forEach (dc_DeleteBinding (del_cfClient d)) bindings)"

definition deleteServiceKeys :: "Deleter \<Rightarrow> string \<Rightarrow> (gerr + unit) cf_m" where
  "deleteServiceKeys d instanceGUID =
     attempt (dc_GetServiceKeysForInstance (del_cfClient d) instanceGUID)
       (\<lambda>err. case err of ResourceNotFoundError _ \<Rightarrow> ret (Inr ()) | _ \<Rightarrow> ret (Inl err))
       (\<lambda>serviceKeys. forEach (dc_DeleteServiceKey (del_cfClient d)) serviceKeys)"

definition deleteServiceInstance :: "Deleter \<Rightarrow> string \<Rightarrow> (gerr + unit) cf_m" where
  "deleteServiceInstance d instanceGUID = dc_DeleteServiceInstance (del_cfClient d) instanceGUID"

definition deleteInProgress :: "Deleter \<Rightarrow> string \<Rightarrow> (gerr + bool) cf_m" where
  "deleteInProgress d instanceGUID =
     attempt (dc_GetLastOperationForInstance (del_cfClient d) instanceGUID) (\<lambda>err. ret (Inl err))
       (\<lambda>lastOperation. ret (Inr (IsDelete lastOperation)))"

definition failedToDelete :: "string \<Rightarrow> string \<Rightarrow> gerr" where
  "failedToDelete instanceGUID why =
     ErrorString (''Result: failed to delete service instance '' @ instanceGUID @ ''. '' @ why)"

fun ends_polling :: "gerr \<Rightarrow> bool" where
  "ends_polling (UnauthorizedError _) = True"
| "ends_polling (ForbiddenError _) = True"
| "ends_polling (InvalidResponseError _) = True"
| "ends_polling _ = False"

fun pollLoop :: "nat \<Rightarrow> Deleter \<Rightarrow> string \<Rightarrow> (gerr + unit) cf_m" where
  "pollLoop 0 d instanceGUID = out_of_fuel"
| "pollLoop (Suc f) d instanceGUID =
     seq (emit (ESleep (pollingInterval d))) (\<lambda>_.
     seq (dc_GetLastOperationForInstance (del_cfClient d) instanceGUID) (\<lambda>r. case r of
       Inl err \<Rightarrow>
         (case err of ResourceNotFoundError _ \<Rightarrow> ret (Inr ())
          | _ \<Rightarrow> if ends_polling err then ret (Inl (failedToDelete instanceGUID (''Error: '' @ errmsg err @ ''.'')))
                else pollLoop f d instanceGUID)
     | Inr lastOperation \<Rightarrow>
         if \<not> IsDelete lastOperation then
           ret (Inl (failedToDelete instanceGUID (''Unexpected operation type: '' @ [CHR 0x27] @ cflo_Type lastOperation
             @ [CHR 0x27] @ ''.'')))
         else if cf_OperationFailed lastOperation then
           ret (Inl (failedToDelete instanceGUID ''Delete operation failed.''))
         else pollLoop f d instanceGUID))"

definition pollInstanceDeleteStatus :: "nat \<Rightarrow> Deleter \<Rightarrow> string \<Rightarrow> (gerr + unit) cf_m" where
  "pollInstanceDeleteStatus f d instanceGUID =
     seq (emit (ESleep (pollingInitialOffset d))) (\<lambda>_. pollLoop f d instanceGUID)"

text \<open>The body of the loop over the instances\<close>

definition deleteOne :: "nat \<Rightarrow> Deleter \<Rightarrow> string \<Rightarrow> (gerr + unit) cf_m" where
  "deleteOne f d instanceGUID =
     attempt (deleteBindings d instanceGUID) (\<lambda>err. ret (Inl err)) (\<lambda>_.
     attempt (deleteServiceKeys d instanceGUID) (\<lambda>err. ret (Inl err)) (\<lambda>_.
     seq (deleteInProgress d instanceGUID) (\<lambda>r.
     if r = Inr True then pollInstanceDeleteStatus f d instanceGUID
     else attempt (deleteServiceInstance d instanceGUID) (\<lambda>err. ret (Inl err)) (\<lambda>_.
       pollInstanceDeleteStatus f d instanceGUID))))"

definition DeleteAllServiceInstances :: "nat \<Rightarrow> Deleter \<Rightarrow> string \<Rightarrow> (gerr + unit) cf_m" where
  "DeleteAllServiceInstances f d serviceUniqueID =
     (let instancesFilter = \<lparr>gif_ServiceOfferingID = serviceUniqueID, gif_OrgName = [], gif_SpaceName = []\<rparr>;
          listing = dc_GetServiceInstances (del_cfClient d) instancesFilter in
      attempt listing (\<lambda>err. ret (Inl err)) (\<lambda>serviceInstances.
      if serviceInstances = [] then ret (Inr ())
      else attempt (forEach (deleteOne f d) (map inst_GUID serviceInstances)) (\<lambda>err. ret (Inl err)) (\<lambda>_.
        attempt listing (\<lambda>err. ret (Inl err)) (\<lambda>remaining.
        if remaining \<noteq> [] then
          ret (Inl (ErrorString (''expected 0 instances for service offering with unique ID: '' @ serviceUniqueID
            @ ''. Got '' @ show_int (int (length remaining)) @ '' instance(s).'')))
        else ret (Inr ())))))"

section \<open>What deleting an instance changes\<close>

text \<open>
  \<open>purged c g tr\<close>: during \<open>tr\<close> the bindings and the keys of instance \<open>g\<close> were deleted, then (unless its
  deletion was under way) the instance itself, and the last answer was that there is no such instance.
  \<open>begun c g tr\<close>: no more than a first part of these changes was made.
\<close>

definition cleanup :: "Client \<Rightarrow> cfbinding list \<Rightarrow> string list \<Rightarrow> cfwrite list" where
  "cleanup c bs ks = map (\<lambda>b. delete_of (bindingURL c b)) bs @ map (\<lambda>k. delete_of (serviceKeyURL c k)) ks"

definition purged :: "Client \<Rightarrow> string \<Rightarrow> ievent list \<Rightarrow> bool" where
  "purged c g tr \<longleftrightarrow> (\<exists>bs ks. writes tr \<in> {cleanup c bs ks, cleanup c bs ks @ [delete_of (instanceURL c g)]})
     \<and> tr \<noteq> [] \<and> missing c g (last tr)"

definition begun :: "Client \<Rightarrow> string \<Rightarrow> ievent list \<Rightarrow> bool" where
  "begun c g tr \<longleftrightarrow> (\<exists>bs ks. prefix (writes tr) (cleanup c bs ks @ [delete_of (instanceURL c g)]))"

text \<open>One instance after the other\<close>

fun drained :: "Client \<Rightarrow> string list \<Rightarrow> ievent list \<Rightarrow> bool" where
  "drained c [] tr \<longleftrightarrow> tr = []"
| "drained c (g # gs) tr \<longleftrightarrow> (\<exists>t1 t2. tr = t1 @ t2 \<and> purged c g t1 \<and> drained c gs t2)"

definition interrupted :: "Client \<Rightarrow> string list \<Rightarrow> ievent list \<Rightarrow> bool" where
  "interrupted c gs tr \<longleftrightarrow> (\<exists>gone g rest t1 t2. gs = gone @ g # rest \<and> tr = t1 @ t2 \<and> drained c gone t1 \<and> begun c g t2)"

lemma drained_later: "purged c g t \<Longrightarrow> drained c gs tr \<Longrightarrow> drained c (g # gs) (t @ tr)"
  by auto

lemma interrupted_first: "begun c g tr \<Longrightarrow> interrupted c (g # gs) tr"
  unfolding interrupted_def
  by (rule exI [of _ "[]"], rule exI [of _ g], rule exI [of _ gs], rule exI [of _ "[]"], rule exI [of _ tr]) simp

lemma interrupted_later: "purged c g t \<Longrightarrow> interrupted c gs tr \<Longrightarrow> interrupted c (g # gs) (t @ tr)"
  unfolding interrupted_def
proof (elim exE conjE)
  fix gone g' rest t1 t2
  assume "purged c g t" "gs = gone @ g' # rest" "tr = t1 @ t2" "drained c gone t1" "begun c g' t2"
  then show "\<exists>gone g' rest t1 t2. g # gs = gone @ g' # rest \<and> t @ tr = t1 @ t2 \<and> drained c gone t1 \<and> begun c g' t2"
    by (intro exI [of _ "g # gone"] exI [of _ g'] exI [of _ rest] exI [of _ "t @ t1"] exI [of _ t2]) auto
qed

lemma prefix_cleanup_bindings: "prefix ws (map (\<lambda>b. delete_of (bindingURL c b)) bs) \<Longrightarrow> prefix ws (cleanup c bs ks @ [w])"
  by (simp add: cleanup_def)

lemma prefix_cleanup_keys:
  "prefix ws (map (\<lambda>k. delete_of (serviceKeyURL c k)) ks)
   \<Longrightarrow> prefix (map (\<lambda>b. delete_of (bindingURL c b)) bs @ ws) (cleanup c bs ks @ [w])"
  by (simp add: cleanup_def)

lemma begun_bindings:
  assumes "prefix (writes tr) (map (\<lambda>b. delete_of (bindingURL c b)) bs)"
  shows "begun c g tr"
  unfolding begun_def by (rule exI [of _ bs], rule exI [of _ "[]"], rule prefix_cleanup_bindings [OF assms])

lemma begun_keys:
  assumes "writes t1 = map (\<lambda>b. delete_of (bindingURL c b)) bs"
    and "prefix (writes t2) (map (\<lambda>k. delete_of (serviceKeyURL c k)) ks)"
  shows "begun c g (t1 @ t2)"
  unfolding begun_def writes_simps assms(1)
  by (rule exI [of _ bs], rule exI [of _ ks], rule prefix_cleanup_keys [OF assms(2)])

lemma begun_deletion:
  assumes "writes t1 = map (\<lambda>b. delete_of (bindingURL c b)) bs" and "writes t2 = map (\<lambda>k. delete_of (serviceKeyURL c k)) ks"
    and "writes t3 = [] \<or> writes t3 = [delete_of (instanceURL c g)]"
  shows "begun c g (t1 @ t2 @ t3)"
proof -
  have "prefix (writes (t1 @ t2 @ t3)) (cleanup c bs ks @ [delete_of (instanceURL c g)])"
    using assms by (auto simp: cleanup_def)
  then show ?thesis unfolding begun_def by blast
qed

lemma purged_deletion:
  assumes "writes t1 = map (\<lambda>b. delete_of (bindingURL c b)) bs" and "writes t2 = map (\<lambda>k. delete_of (serviceKeyURL c k)) ks"
    and "writes t3 = [] \<or> writes t3 = [delete_of (instanceURL c g)]" and "t3 \<noteq> []" and "missing c g (last t3)"
  shows "purged c g (t1 @ t2 @ t3)"
proof -
  have "writes (t1 @ t2 @ t3) \<in> {cleanup c bs ks, cleanup c bs ks @ [delete_of (instanceURL c g)]}"
    using assms by (auto simp: cleanup_def)
  with assms show ?thesis unfolding purged_def by auto
qed

lemma forEach_sends:
  assumes "\<And>x. sends (w x) (del x)"
  shows "ensures (\<lambda>r tr. prefix (writes tr) (map w xs) \<and> (\<forall>u. r = Val (Inr u) \<longrightarrow> writes tr = map w xs)) [] (forEach del xs)"
proof (induction xs)
  case Nil
  show ?case by (auto intro!: ens)
next
  case (Cons x xs)
  show ?case
    unfolding forEach.simps
    by (rule ens_attempt_sub [OF assms [of x, unfolded sends_def]])
       (auto intro!: ens ens_sub [OF Cons.IH] simp: prefix_Cons)
qed

section \<open>The contract with Cloud Foundry's client\<close>

locale deletion_client =
  fixes cl :: CloudFoundryClient and c :: Client
  assumes instances_read: "reads (dc_GetServiceInstances cl flt)"
    and bindings_read: "reads (dc_GetBindingsForInstance cl g)"
    and keys_read: "reads (dc_GetServiceKeysForInstance cl g)"
    and binding_deleted: "sends (delete_of (bindingURL c b)) (dc_DeleteBinding cl b)"
    and key_deleted: "sends (delete_of (serviceKeyURL c k)) (dc_DeleteServiceKey cl k)"
    and instance_deleted: "sends (delete_of (instanceURL c g)) (dc_DeleteServiceInstance cl g)"
    and latest: "ensures (\<lambda>r tr. writes tr = [] \<and> ((\<exists>m. r = Val (Inl (ResourceNotFoundError m))) \<longrightarrow> tr \<noteq> [] \<and> missing c g (last tr)))
      [] (dc_GetLastOperationForInstance cl g)"
begin

lemma bindings:
  assumes "del_cfClient d = cl"
  shows "ensures (\<lambda>r tr. \<exists>bs. prefix (writes tr) (map (\<lambda>b. delete_of (bindingURL c b)) bs)
    \<and> (\<forall>u. r = Val (Inr u) \<longrightarrow> writes tr = map (\<lambda>b. delete_of (bindingURL c b)) bs)) [] (deleteBindings d g)"
  unfolding deleteBindings_def assms
  by (rule ens_attempt_sub [OF bindings_read [unfolded reads_def]])
     (auto split: gerr.splits intro!: ens ens_sub [OF forEach_sends [OF binding_deleted]])

lemma serviceKeys:
  assumes "del_cfClient d = cl"
  shows "ensures (\<lambda>r tr. \<exists>ks. prefix (writes tr) (map (\<lambda>k. delete_of (serviceKeyURL c k)) ks)
    \<and> (\<forall>u. r = Val (Inr u) \<longrightarrow> writes tr = map (\<lambda>k. delete_of (serviceKeyURL c k)) ks)) [] (deleteServiceKeys d g)"
  unfolding deleteServiceKeys_def assms
  by (rule ens_attempt_sub [OF keys_read [unfolded reads_def]])
     (auto split: gerr.splits intro!: ens ens_sub [OF forEach_sends [OF key_deleted]])

lemma polling:
  assumes "del_cfClient d = cl"
  shows "ensures (\<lambda>r tr. writes tr = [] \<and> ((\<exists>u. r = Val (Inr u)) \<longrightarrow> tr \<noteq> [] \<and> missing c g (last tr))) [] (pollLoop f d g)"
proof (induction f)
  case 0
  show ?case by (simp add: ensures_def run)
next
  case (Suc f)
  show ?case
    unfolding pollLoop.simps assms
    by (rule ens_seq_emit, rule ens_seq_sub [OF latest])
       (auto split: sum.splits gerr.splits intro!: ens ens_sub [OF Suc.IH])
qed


lemma waiting:
  assumes "del_cfClient d = cl"
  shows "ensures (\<lambda>r tr. writes tr = [] \<and> ((\<exists>u. r = Val (Inr u)) \<longrightarrow> tr \<noteq> [] \<and> missing c g (last tr)))
    [] (pollInstanceDeleteStatus f d g)"
  unfolding pollInstanceDeleteStatus_def
  by (rule ens_seq_emit) (auto intro!: ens_sub [OF polling [OF assms]])

lemma progress:
  assumes "del_cfClient d = cl"
  shows "ensures (\<lambda>r tr. writes tr = []) [] (deleteInProgress d g)"
  unfolding deleteInProgress_def assms
  by (rule ens_attempt_sub [OF latest]) (auto intro!: ens)

lemma deletion:
  assumes "del_cfClient d = cl"
  shows "ensures (\<lambda>r tr. writes tr \<in> {[], [delete_of (instanceURL c g)]}
      \<and> ((\<exists>u. r = Val (Inr u)) \<longrightarrow> tr \<noteq> [] \<and> missing c g (last tr))) []
    (seq (deleteInProgress d g) (\<lambda>r.
     if r = Inr True then pollInstanceDeleteStatus f d g
     else attempt (deleteServiceInstance d g) (\<lambda>err. ret (Inl err)) (\<lambda>_. pollInstanceDeleteStatus f d g)))"
proof (rule ens_seq_sub [OF progress [OF assms]])
  fix r tr
  assume quiet: "writes tr = []"
  show "ensures (\<lambda>r tr. writes tr \<in> {[], [delete_of (instanceURL c g)]}
      \<and> ((\<exists>u. r = Val (Inr u)) \<longrightarrow> tr \<noteq> [] \<and> missing c g (last tr))) ([] @ tr)
    (if r = Inr True then pollInstanceDeleteStatus f d g
     else attempt (deleteServiceInstance d g) (\<lambda>err. ret (Inl err)) (\<lambda>_. pollInstanceDeleteStatus f d g))"
  proof (cases "r = Inr True")
    case True
    with quiet show ?thesis by (auto intro!: ens_sub [OF waiting [OF assms]])
  next
    case False
    have "ensures (\<lambda>r t. writes t \<in> {[], [delete_of (instanceURL c g)]}
        \<and> ((\<exists>u. r = Val (Inr u)) \<longrightarrow> t \<noteq> [] \<and> missing c g (last t))) tr
      (attempt (deleteServiceInstance d g) (\<lambda>err. ret (Inl err)) (\<lambda>_. pollInstanceDeleteStatus f d g))"
      unfolding deleteServiceInstance_def assms
      by (rule ens_attempt_sub [OF instance_deleted [unfolded sends_def]])
         (auto simp: quiet intro!: ens ens_sub [OF waiting [OF assms]])
    with False show ?thesis by simp
  qed
qed (auto)

lemma one:
  assumes "del_cfClient d = cl"
  shows "ensures (\<lambda>r tr. begun c g tr \<and> ((\<exists>u. r = Val (Inr u)) \<longrightarrow> purged c g tr)) [] (deleteOne f d g)"
  unfolding deleteOne_def
proof (rule ens_attempt_sub [OF bindings [OF assms]])
  fix u t1
  assume "\<exists>bs. prefix (writes t1) (map (\<lambda>b. delete_of (bindingURL c b)) bs)
    \<and> (\<forall>u'. Val (Inr u) = Val (Inr u') \<longrightarrow> writes t1 = map (\<lambda>b. delete_of (bindingURL c b)) bs)"
  then obtain bs where bs: "writes t1 = map (\<lambda>b. delete_of (bindingURL c b)) bs" by auto
  show "ensures (\<lambda>r tr. begun c g tr \<and> ((\<exists>u. r = Val (Inr u)) \<longrightarrow> purged c g tr)) ([] @ t1)
    (attempt (deleteServiceKeys d g) (\<lambda>err. ret (Inl err)) (\<lambda>_.
     seq (deleteInProgress d g) (\<lambda>r.
     if r = Inr True then pollInstanceDeleteStatus f d g
     else attempt (deleteServiceInstance d g) (\<lambda>err. ret (Inl err)) (\<lambda>_. pollInstanceDeleteStatus f d g))))"
    by (rule ens_attempt_sub [OF serviceKeys [OF assms]])
       (auto intro!: ens ens_sub [OF deletion [OF assms]] dest: begun_keys [OF bs]
         intro: begun_deletion [OF bs] purged_deletion [OF bs])
qed (auto intro!: ens dest: begun_bindings)

lemma instances:
  assumes "del_cfClient d = cl"
  shows "ensures (\<lambda>r tr. if \<exists>u. r = Val (Inr u) then drained c gs tr else interrupted c gs tr) [] (forEach (deleteOne f d) gs)"
proof (induction gs)
  case Nil
  show ?case by (auto intro!: ens)
next
  case (Cons g gs)
  show ?case
    unfolding forEach.simps
    by (rule ens_attempt_sub [OF one [OF assms]])
       (auto intro!: ens ens_sub [OF Cons.IH] intro: interrupted_first interrupted_later drained_later simp del: drained.simps(2) split: if_splits)
qed

end

section \<open>The client of Cloud Foundry keeps the contract\<close>

lemma cfClient_contract:
  assumes "plain_transport E"
  shows "deletion_client (cfClient n E c) c"
  by unfold_locales
    (simp_all add: cfClient_def reads_GetServiceInstances reads_lists sends_deletes last_operation_missing [OF assms])

text \<open>Transports that report errors of their own, completed from any environment\<close>

definition plain :: "gerr \<Rightarrow> gerr" where
  "plain e = (if is_cf_error e then ErrorString (errmsg e) else e)"

definition with_plain_errors :: "cfenv \<Rightarrow> cfenv" where
  "with_plain_errors E = E\<lparr>urlError := \<lambda>u. map_option plain (urlError E u),
     o_AuthHeader := \<lambda>h. map_sum plain id (o_AuthHeader E h), o_Do := \<lambda>h rq. map_sum plain id (o_Do E h rq)\<rparr>"

lemma plain_with_plain_errors: "plain_transport (with_plain_errors E)"
proof -
  have "\<not> is_cf_error (plain e)" for e by (simp add: plain_def)
  then show ?thesis
    by (auto simp: plain_transport_def with_plain_errors_def map_sum_def split: sum.splits)
qed

interpretation foundry: deletion_client "cfClient n (with_plain_errors E) c" c
  by (rule cfClient_contract) (rule plain_with_plain_errors)

text \<open>An environment whose transport is plain is its own completion.\<close>

lemma with_plain_errors_id:
  assumes "plain_transport E"
  shows "with_plain_errors E = E"
proof -
  have keep: "\<not> is_cf_error e \<Longrightarrow> plain e = e" for e by (simp add: plain_def)
  have u: "(\<lambda>u. map_option plain (urlError E u)) = urlError E"
    and a: "(\<lambda>h. map_sum plain id (o_AuthHeader E h)) = o_AuthHeader E"
    and r: "(\<lambda>h rq. map_sum plain id (o_Do E h rq)) = o_Do E"
    using assms keep unfolding plain_transport_def
    by (auto simp: fun_eq_iff map_option_case map_sum_def split: option.splits sum.splits)
  show ?thesis unfolding with_plain_errors_def u a r by simp
qed

definition serviceFilter :: "string \<Rightarrow> GetInstancesFilter" where
  "serviceFilter sid = \<lparr>gif_ServiceOfferingID = sid, gif_OrgName = [], gif_SpaceName = []\<rparr>"

text \<open>The run as a whole: a listing, the instances one after the other, a second listing\<close>

definition whole_run :: "Client \<Rightarrow> (gerr + Instance list) cf_m \<Rightarrow> ievent gstate \<Rightarrow> (gerr + unit) outcome \<Rightarrow> ievent gstate \<Rightarrow> bool" where
  "whole_run c listing s r s' \<longleftrightarrow> (\<exists>first tr second is.
     hist s' = hist s @ first @ tr @ second \<and> writes first = [] \<and> writes second = []
     \<and> (is \<noteq> [] \<longrightarrow> fst (listing s) = Val (Inr is))
     \<and> (drained c (map inst_GUID is) tr \<or> interrupted c (map inst_GUID is) tr \<and> r \<noteq> Val (Inr ()))
     \<and> (r = Val (Inr ()) \<longrightarrow> (\<exists>s2. listing s2 = (Val (Inr []), s'))))"

lemma readsD: "reads m \<Longrightarrow> m s = (r, s') \<Longrightarrow> \<exists>tr. hist s' = hist s @ tr \<and> writes tr = []"
  unfolding reads_def by (drule ensuresD) auto

lemma whole_runI:
  assumes "hist s' = hist s @ first @ tr @ second" "writes first = []" "writes second = []"
    and "fst (listing s) = Val (Inr is)"
    and "drained c (map inst_GUID is) tr \<or> interrupted c (map inst_GUID is) tr \<and> r \<noteq> Val (Inr ())"
    and "r = Val (Inr ()) \<Longrightarrow> \<exists>s2. listing s2 = (Val (Inr []), s')"
  shows "whole_run c listing s r s'"
  unfolding whole_run_def using assms by blast

lemma whole_run_none:
  assumes "hist s' = hist s @ first" "writes first = []" and "r = Val (Inr ()) \<Longrightarrow> listing s = (Val (Inr []), s')"
  shows "whole_run c listing s r s'"
  unfolding whole_run_def
  by (rule exI [of _ first], rule exI [of _ "[]"], rule exI [of _ "[]"], rule exI [of _ "[]"]) (use assms in auto)

context deletion_client
begin

lemma run:
  assumes cl: "del_cfClient d = cl" and run: "DeleteAllServiceInstances f d sid s = (r, s')"
  shows "whole_run c (dc_GetServiceInstances cl (serviceFilter sid)) s r s'"
proof -
  let ?L = "dc_GetServiceInstances cl (serviceFilter sid)"
  note defs = DeleteAllServiceInstances_def cl serviceFilter_def [symmetric] Let_def attempt_def seq_def ret_def
  obtain r1 s1 where first: "?L s = (r1, s1)" by force
  obtain t1 where t1: "hist s1 = hist s @ t1" "writes t1 = []" using readsD [OF instances_read first] by auto
  show ?thesis
  proof (cases "\<exists>i is. r1 = Val (Inr (i # is))")
    case False
    have "s' = s1" and "r = Val (Inr ()) \<Longrightarrow> r1 = Val (Inr [])"
      using run False by (auto simp: defs first split: outcome.splits sum.splits list.splits if_splits) (auto simp: neq_Nil_conv)
    with t1 first show ?thesis by (intro whole_run_none) auto
  next
    case True
    then obtain "is" where r1: "r1 = Val (Inr is)" and ne: "is \<noteq> []" by blast
    obtain r2 s2 where each: "forEach (deleteOne f d) (map inst_GUID is) s1 = (r2, s2)" by force
    from ensuresD [OF instances [OF cl] each] obtain t2 where t2: "hist s2 = hist s1 @ t2"
      "if \<exists>u. r2 = Val (Inr u) then drained c (map inst_GUID is) t2 else interrupted c (map inst_GUID is) t2" by blast
    obtain r3 s3 where second: "?L s2 = (r3, s3)" by force
    obtain t3 where t3: "hist s3 = hist s2 @ t3" "writes t3 = []" using readsD [OF instances_read second] by auto
    show ?thesis
    proof (cases "\<exists>u. r2 = Val (Inr u)")
      case True
      have "s' = s3" "r = Val (Inr ()) \<Longrightarrow> r3 = Val (Inr [])"
        using run True ne by (auto simp: defs first r1 each second split: outcome.splits sum.splits if_splits)
      with True t1 t2 t3 second first r1 show ?thesis by (intro whole_runI [of _ _ t1 t2 t3]) auto
    next
      case stopped: False
      have "s' = s2" "r \<noteq> Val (Inr ())"
        using run stopped ne by (auto simp: defs first r1 each split: outcome.splits sum.splits if_splits)
      with stopped t1 t2 first r1 show ?thesis by (intro whole_runI [of _ _ t1 t2 "[]"]) auto
    qed
  qed
qed

end

section \<open>A run that empties the service\<close>

lemma deleter_simps [simp]:
  "del_cfClient (deleter_New cl offset interval) = cl"
  "dc_GetServiceInstances (cfClient n E c) = GetServiceInstances n E c"
  "dc_GetLastOperationForInstance (cfClient n E c) = GetLastOperationForInstance E c"
  "dc_GetBindingsForInstance (cfClient n E c) = GetBindingsForInstance n E c"
  "dc_DeleteBinding (cfClient n E c) = DeleteBinding E c"
  "dc_GetServiceKeysForInstance (cfClient n E c) = GetServiceKeysForInstance n E c"
  "dc_DeleteServiceKey (cfClient n E c) = DeleteServiceKey E c"
  "dc_DeleteServiceInstance (cfClient n E c) = DeleteServiceInstance E c"
  by (simp_all add: deleter_New_def cfClient_def)

abbreviation foundry_deleter :: "string \<Rightarrow> string \<Rightarrow> Deleter" where
  "foundry_deleter lastType lastState \<equiv> deleter_New (cfClient 3 (foundry_env lastType lastState) foundry_client) 60 1"

abbreviation binding_gone :: cfwrite where
  "binding_gone \<equiv> delete_of ''/v2/apps/app/service_bindings/b1''"

abbreviation instance_gone :: cfwrite where
  "instance_gone \<equiv> delete_of ''/v2/service_instances/i1?accepts_incomplete=true''"

lemma foundry_bindings: "runs w (deleteBindings (foundry_deleter a b) ''i1'') (Inr ()) [binding_gone]"
proof -
  have "runs w (forEach (DeleteBinding (foundry_env a b) foundry_client) [\<lparr>bd_GUID = ''b1'', bd_AppGUID = ''app''\<rparr>]) (Inr ()) ([binding_gone] @ [])"
    unfolding forEach.simps
    by (rule runs_attempt [where x = "()"]) (auto simp: DeleteBinding_def bindingURL_def intro: runs_delete runs_ret)
  then show ?thesis
    unfolding deleteBindings_def by (auto intro!: runs_attempt_read [OF runs_bindings])
qed

lemma foundry_keys: "runs w (deleteServiceKeys (foundry_deleter a b) ''i1'') (Inr ()) []"
  unfolding deleteServiceKeys_def by (auto intro!: runs_attempt_read [OF runs_keys] runs_ret)

lemma foundry_polling:
  "gone_after b w \<Longrightarrow> runs w (pollInstanceDeleteStatus (Suc f) (foundry_deleter a b) ''i1'') (Inr ()) []"
  unfolding pollInstanceDeleteStatus_def pollLoop.simps
  by (rule runs_seq_read [OF runs_emit], simp, rule runs_seq_read [OF runs_emit], simp)
     (auto intro!: runs_seq_read [OF runs_latest_gone] runs_ret)

lemma foundry_one:
  assumes "\<not> gone_after ''succeeded'' w"
  shows "runs w (deleteOne 3 (foundry_deleter ''create'' ''succeeded'') ''i1'') (Inr ()) [binding_gone, instance_gone]"
proof -
  let ?d = "foundry_deleter ''create'' ''succeeded''" and ?w = "w @ [binding_gone]"
  have there: "\<not> gone_after ''succeeded'' ?w" using assms by (simp add: gone_after_def delete_of_def)
  have progress: "runs ?w (deleteInProgress ?d ''i1'') (Inr False) []"
    unfolding deleteInProgress_def
    by (auto intro!: runs_attempt_read [OF runs_latest [OF there]] simp: IsDelete_def last_operation_of_def runs_ret)
  have "runs ?w (deleteServiceInstance ?d ''i1'') (Inr ()) [instance_gone]"
    by (simp add: deleteServiceInstance_def DeleteServiceInstance_def instanceURL_def runs_delete)
  then have "runs ?w (attempt (deleteServiceInstance ?d ''i1'') (\<lambda>err. ret (Inl err))
      (\<lambda>_. pollInstanceDeleteStatus 3 ?d ''i1'')) (Inr ()) ([instance_gone] @ [])"
    by (rule runs_attempt) (use foundry_polling [of _ _ 2] in \<open>simp add: gone_after_def\<close>)
  then have "runs w (deleteOne 3 ?d ''i1'') (Inr ()) ([binding_gone] @ [instance_gone])"
    unfolding deleteOne_def
    by (intro runs_attempt [OF foundry_bindings] runs_attempt_read [OF foundry_keys])
       (auto intro!: runs_seq_read [OF progress])
  then show ?thesis by simp
qed

lemma foundry_run:
  assumes "\<not> gone_after ''succeeded'' w"
  shows "runs w (DeleteAllServiceInstances 3 (foundry_deleter ''create'' ''succeeded'') ''svc'') (Inr ()) [binding_gone, instance_gone]"
proof -
  let ?d = "foundry_deleter ''create'' ''succeeded''"
  have "runs w (forEach (deleteOne 3 ?d) [''i1'']) (Inr ()) ([binding_gone, instance_gone] @ [])"
    unfolding forEach.simps by (rule runs_attempt [OF foundry_one [OF assms]]) (rule runs_ret)
  then have "runs w (attempt (forEach (deleteOne 3 ?d) [''i1'']) (\<lambda>err. ret (Inl err)) (\<lambda>_.
        attempt (GetServiceInstances 3 (foundry_env ''create'' ''succeeded'') foundry_client
          \<lparr>gif_ServiceOfferingID = ''svc'', gif_OrgName = [], gif_SpaceName = []\<rparr>) (\<lambda>err. ret (Inl err)) (\<lambda>remaining.
        if remaining \<noteq> [] then ret (Inl (ErrorString (X remaining))) else ret (Inr ())))) (Inr ()) ([binding_gone, instance_gone] @ [])" for X
    by (intro runs_attempt) (auto intro!: runs_attempt_read [OF runs_listing] runs_ret simp: gone_after_def)
  then show ?thesis
    unfolding DeleteAllServiceInstances_def Let_def
    using assms by (auto intro!: runs_attempt_read [OF runs_listing] simp: only_instance_def)
qed

lemma foundry_emptied:
  obtains s' where "DeleteAllServiceInstances 3 (foundry_deleter ''create'' ''succeeded'') ''svc'' no_events = (Val (Inr ()), s')"
    and "writes (hist s') = [binding_gone, instance_gone]"
  using runsD [of no_events, simplified, OF foundry_run, simplified gone_after_def, simplified] by auto

section \<open>Properties\<close>

lemma deleter_run:
  assumes "plain_transport E"
    and "DeleteAllServiceInstances f (deleter_New (cfClient n E c) offset interval) sid s = (r, s')"
  shows "whole_run c (GetServiceInstances n E c (serviceFilter sid)) s r s'"
  using foundry.run [of "deleter_New (cfClient n E c) offset interval" n E, unfolded with_plain_errors_id [OF assms(1)]] assms(2)
  by simp

text \<open>
  C13.  The deleter works on one instance at a time.  Whatever the outcome, what it changes is, in the order of
  the first listing, for each instance: the bindings, the keys, then the instance; and it goes on to the next
  instance only after Cloud Foundry said that the instance before is gone.  Nothing else is changed.
\<close>

theorem deleter_one_at_a_time:
  assumes "plain_transport E"
    and "DeleteAllServiceInstances f (deleter_New (cfClient n E c) offset interval) sid s = (r, s')"
  shows "\<exists>first tr second is. hist s' = hist s @ first @ tr @ second \<and> writes first = [] \<and> writes second = []
     \<and> (is \<noteq> [] \<longrightarrow> fst (GetServiceInstances n E c (serviceFilter sid) s) = Val (Inr is))
     \<and> (drained c (map inst_GUID is) tr \<or> interrupted c (map inst_GUID is) tr)"
  using deleter_run [OF assms] unfolding whole_run_def by blast

theorem deleter_one_at_a_time_witness:
  "\<exists>s' first tr second (is :: Instance list). DeleteAllServiceInstances 3 (foundry_deleter ''create'' ''succeeded'') ''svc'' no_events = (Val (Inr ()), s')
     \<and> hist s' = first @ tr @ second \<and> writes tr = [binding_gone, instance_gone]
     \<and> (drained foundry_client (map inst_GUID is) tr \<or> interrupted foundry_client (map inst_GUID is) tr)"
proof -
  obtain s' where run: "DeleteAllServiceInstances 3 (foundry_deleter ''create'' ''succeeded'') ''svc'' no_events = (Val (Inr ()), s')"
    and changes: "writes (hist s') = [binding_gone, instance_gone]" by (rule foundry_emptied)
  from deleter_one_at_a_time [OF foundry_plain run] obtain first tr second and "is" :: "Instance list" where
    parts: "hist s' = hist no_events @ first @ tr @ second" "writes first = []" "writes second = []"
      "drained foundry_client (map inst_GUID is) tr \<or> interrupted foundry_client (map inst_GUID is) tr"
    by (elim exE conjE) (rule that; assumption)
  with changes have "writes tr = [binding_gone, instance_gone]" by simp
  with run parts show ?thesis by (intro exI conjI) auto
qed

text \<open>
  C15.  When the deleter reports success, the last thing it did was a listing of the service's instances that
  found none, and before that every instance of the first listing was deleted and seen to be gone.
\<close>

theorem deleter_success_means_empty:
  assumes "plain_transport E"
    and "DeleteAllServiceInstances f (deleter_New (cfClient n E c) offset interval) sid s = (Val (Inr ()), s')"
  shows "(\<exists>s2. GetServiceInstances n E c (serviceFilter sid) s2 = (Val (Inr []), s'))
     \<and> (\<exists>first tr second is. hist s' = hist s @ first @ tr @ second
         \<and> (is \<noteq> [] \<longrightarrow> fst (GetServiceInstances n E c (serviceFilter sid) s) = Val (Inr is))
         \<and> drained c (map inst_GUID is) tr)"
  using deleter_run [OF assms] unfolding whole_run_def by blast

theorem deleter_success_means_empty_witness:
  "\<exists>s' s2. DeleteAllServiceInstances 3 (foundry_deleter ''create'' ''succeeded'') ''svc'' no_events = (Val (Inr ()), s')
     \<and> GetServiceInstances 3 (foundry_env ''create'' ''succeeded'') foundry_client (serviceFilter ''svc'') s2 = (Val (Inr []), s')"
proof -
  obtain s' where run: "DeleteAllServiceInstances 3 (foundry_deleter ''create'' ''succeeded'') ''svc'' no_events = (Val (Inr ()), s')"
    by (rule foundry_emptied)
  with deleter_success_means_empty [OF foundry_plain run] show ?thesis by auto
qed

lemma latest_known:
  assumes "\<forall>s. fst (GetLastOperationForInstance E c g s) = Val (Inr lo)"
  shows "ensures (\<lambda>r tr. r = Val (Inr lo) \<and> writes tr = []) [] (GetLastOperationForInstance E c g)"
proof -
  have "reads (GetLastOperationForInstance E c g)"
    unfolding GetLastOperationForInstance_def GetServiceInstance_def by (intro cf_spec)
  then show ?thesis
    unfolding reads_def ensures_def
  proof (intro allI impI)
    fix s :: "ievent gstate" and h0
    assume quiet: "\<forall>s h0. hist s = h0 @ [] \<longrightarrow> (case GetLastOperationForInstance E c g s of (r, s') \<Rightarrow> \<exists>tr. hist s' = h0 @ tr \<and> writes tr = [])"
      and "hist s = h0 @ []"
    moreover obtain s' where "GetLastOperationForInstance E c g s = (Val (Inr lo), s')"
      using assms by (metis prod.collapse)
    ultimately show "case GetLastOperationForInstance E c g s of (r, s') \<Rightarrow> \<exists>tr. hist s' = h0 @ tr \<and> r = Val (Inr lo) \<and> writes tr = []"
      by (auto dest!: spec [of _ s])
  qed
qed

lemma failed_polling:
  assumes "\<forall>s. fst (GetLastOperationForInstance E c g s) = Val (Inr lo)" "IsDelete lo" "cf_OperationFailed lo"
  shows "ensures (\<lambda>r tr. r \<noteq> Val (Inr ()) \<and> writes tr = []) [] (pollInstanceDeleteStatus f (deleter_New (cfClient n E c) offset interval) g)"
proof (cases f)
  case 0
  then show ?thesis by (simp add: pollInstanceDeleteStatus_def ensures_def run)
next
  case (Suc f')
  then show ?thesis
    unfolding pollInstanceDeleteStatus_def
    by (simp, intro ens_seq_emit ens_seq_sub [OF latest_known [OF assms(1)]])
       (use assms(2,3) in \<open>auto intro!: ens\<close>)
qed

text \<open>
  An instance whose deletion has failed is never deleted again: as its last operation is a deletion, no
  request to delete it is sent.  Bindings and keys are the most that goes away, and the deleter does
  not report success, however long it waits.
\<close>

theorem failed_deletion_is_never_retried:
  assumes "GetServiceInstances n E c (serviceFilter sid) s = (Val (Inr (i # is)), s1)"
    and "\<forall>s. fst (GetLastOperationForInstance E c (inst_GUID i) s) = Val (Inr lo)"
    and "IsDelete lo" and "cf_OperationFailed lo" and "plain_transport E"
    and "DeleteAllServiceInstances f (deleter_New (cfClient n E c) offset interval) sid s = (r, s')"
  shows "r \<noteq> Val (Inr ()) \<and> (\<exists>tr bs ks. hist s' = hist s @ tr \<and> prefix (writes tr) (cleanup c bs ks))"
proof -
  let ?g = "inst_GUID i" and ?d = "deleter_New (cfClient n E c) offset interval"
  note plain = foundry.bindings [of ?d n E c, unfolded with_plain_errors_id [OF assms(5)]]
    foundry.serviceKeys [of ?d n E c, unfolded with_plain_errors_id [OF assms(5)]]
  let ?P = "\<lambda>r tr. r \<noteq> Val (Inr ()) \<and> (\<exists>bs ks. prefix (writes tr) (cleanup c bs ks))"
  have progress: "ensures (\<lambda>r tr. r = Val (Inr True) \<and> writes tr = []) [] (deleteInProgress ?d ?g)"
    unfolding deleteInProgress_def using assms(3)
    by simp (rule ens_attempt_sub [OF latest_known [OF assms(2)]], auto intro!: ens)
  have "ensures ?P [] (deleteOne f ?d ?g)"
    unfolding deleteOne_def
  proof (rule ens_attempt_sub [OF plain(1)])
    fix u t1
    assume "\<exists>bs. prefix (writes t1) (map (\<lambda>b. delete_of (bindingURL c b)) bs)
      \<and> (\<forall>u'. Val (Inr u) = Val (Inr u') \<longrightarrow> writes t1 = map (\<lambda>b. delete_of (bindingURL c b)) bs)"
    then obtain bs where bs: "writes t1 = map (\<lambda>b. delete_of (bindingURL c b)) bs" by auto
    have cleaned: "\<exists>bs' ks'. prefix (map (\<lambda>b. delete_of (bindingURL c b)) bs @ ws) (cleanup c bs' ks')"
      if "prefix ws (map (\<lambda>k. delete_of (serviceKeyURL c k)) ks)" for ws ks
      using that by (intro exI [of _ bs] exI [of _ ks]) (simp add: cleanup_def)
    show "ensures ?P ([] @ t1) (attempt (deleteServiceKeys ?d ?g) (\<lambda>err. ret (Inl err)) (\<lambda>_.
       seq (deleteInProgress ?d ?g) (\<lambda>r. if r = Inr True then pollInstanceDeleteStatus f ?d ?g
         else attempt (deleteServiceInstance ?d ?g) (\<lambda>err. ret (Inl err)) (\<lambda>_. pollInstanceDeleteStatus f ?d ?g))))"
      by (rule ens_attempt_sub [OF plain(2)])
         (auto simp: bs cleaned [OF prefix_order.refl] intro!: ens ens_seq_sub [OF progress] ens_sub [OF failed_polling [OF assms(2-4)]] intro: cleaned)
  qed (auto simp: cleanup_def intro!: ens intro: prefix_prefix)
  then have one: "ensures ?P [] (forEach (deleteOne f ?d) (map inst_GUID (i # is)))"
    by simp (rule ens_attempt_sub, assumption, auto intro!: ens)
  obtain r1 s2 where each: "forEach (deleteOne f ?d) (map inst_GUID (i # is)) s1 = (r1, s2)" by force
  from ensuresD [OF one each] obtain tr where tr: "hist s2 = hist s1 @ tr" "?P r1 tr" by blast
  obtain t1 where t1: "hist s1 = hist s @ t1" "writes t1 = []" using readsD [OF reads_GetServiceInstances assms(1)] by auto
  have "r \<noteq> Val (Inr ()) \<and> s' = s2"
    using assms(1,6) each tr(2) unfolding DeleteAllServiceInstances_def serviceFilter_def [symmetric] Let_def
    by (auto simp: run simp del: forEach.simps split: outcome.splits sum.splits)
  with tr t1 show ?thesis by auto
qed

theorem failed_deletion_is_never_retried_witness:
  "\<exists>r s' bs ks. DeleteAllServiceInstances 3 (foundry_deleter ''delete'' ''failed'') ''svc'' no_events = (r, s')
     \<and> r \<noteq> Val (Inr ()) \<and> prefix (writes (hist s')) (cleanup foundry_client bs ks)"
proof -
  obtain r s' where run: "DeleteAllServiceInstances 3 (foundry_deleter ''delete'' ''failed'') ''svc'' no_events = (r, s')" by force
  have stays: "\<not> gone_after ''failed'' w" for w by (simp add: gone_after_def)
  obtain s1 where listed: "GetServiceInstances 3 (foundry_env ''delete'' ''failed'') foundry_client (serviceFilter ''svc'') no_events
      = (Val (Inr [only_instance]), s1)"
    using runsD [of no_events, OF runs_listing, of "''delete''" "''failed''"] by (auto simp: serviceFilter_def stays)
  have latest: "\<forall>s. fst (GetLastOperationForInstance (foundry_env ''delete'' ''failed'') foundry_client (inst_GUID only_instance) s)
      = Val (Inr (last_operation_of ''delete'' ''failed''))"
  proof
    fix s
    obtain t where "GetLastOperationForInstance (foundry_env ''delete'' ''failed'') foundry_client ''i1'' s
        = (Val (Inr (last_operation_of ''delete'' ''failed'')), s\<lparr>hist := hist s @ t\<rparr>)"
      using runsD [OF runs_latest [OF stays]] by blast
    then show "fst (GetLastOperationForInstance (foundry_env ''delete'' ''failed'') foundry_client (inst_GUID only_instance) s)
      = Val (Inr (last_operation_of ''delete'' ''failed''))" by (simp add: only_instance_def)
  qed
  have failed: "IsDelete (last_operation_of ''delete'' ''failed'')" "cf_OperationFailed (last_operation_of ''delete'' ''failed'')"
    by (simp_all add: IsDelete_def cf_OperationFailed_def last_operation_of_def)
  from failed_deletion_is_never_retried [OF listed latest failed foundry_plain run]
  obtain tr bs ks where "r \<noteq> Val (Inr ())" "hist s' = hist no_events @ tr" "prefix (writes tr) (cleanup foundry_client bs ks)"
    by blast
  with run show ?thesis by (intro exI [of _ r] exI [of _ s'] exI [of _ bs] exI [of _ ks]) simp
qed

end
