(* ===== verification/Registration.thy ===== *)
theory Registration
  imports Deleter
begin

text \<open>
  The errands that register and deregister the broker: \<open>registrar/registrar.go\<close>,
  \<open>registrar/deregistrar.go\<close>, and \<open>purger/purger.go\<close>, which takes access away, deletes all instances
  and deregisters the broker.  The processes of \<open>cmd/\<close> put the client of \<open>CFClient\<close> into their
  interfaces, and so does the model.
\<close>

section \<open>Deregistering\<close>

definition Deregister :: "nat \<Rightarrow> cfenv \<Rightarrow> Client \<Rightarrow> string \<Rightarrow> (gerr + unit) cf_m" where
  "Deregister n E c brokerName =
     attempt (GetServiceOfferingGUID n E c brokerName) (\<lambda>err. ret (Inl err)) (\<lambda>brokerGUID.
     if brokerGUID \<noteq> [] then
       attempt (DeregisterBroker E c brokerGUID)
         (\<lambda>err. ret (Inl (errorf (''Failed to deregister broker with '' @ brokerName @ '' with guid '' @ brokerGUID @ '', err: '') err)))
         (\<lambda>_. ret (Inr ()))
     else ret (Inr ()))"

definition purgerFailed :: "gerr \<Rightarrow> gerr" where
  "purgerFailed err = errorf ''Purger Failed: '' err"

definition DeleteInstancesAndDeregister :: "nat \<Rightarrow> nat \<Rightarrow> cfenv \<Rightarrow> Client \<Rightarrow> int \<Rightarrow> int \<Rightarrow> string \<Rightarrow> string \<Rightarrow> (gerr + unit) cf_m" where
  "DeleteInstancesAndDeregister n f E c offset interval serviceCatalogID brokerName =
     attempt (DisableServiceAccessForAllPlans n E c serviceCatalogID) (\<lambda>err. ret (Inl (purgerFailed err))) (\<lambda>_.
     attempt (DeleteAllServiceInstances f (deleter_New (cfClient n E c) offset interval) serviceCatalogID)
       (\<lambda>err. ret (Inl (purgerFailed err))) (\<lambda>_.
     attempt (Deregister n E c brokerName) (\<lambda>err. ret (Inl (purgerFailed err))) (\<lambda>_. ret (Inr ()))))"

section \<open>Registering\<close>

record PlanAccess =
  pa_Name :: string
  pa_ServiceAccessOrg :: string
  pa_CFServiceAccess :: string

definition PlanEnabled :: string where "PlanEnabled = ''enable''"
definition PlanDisabled :: string where "PlanDisabled = ''disable''"
definition PlanOrgRestricted :: string where "PlanOrgRestricted = ''org-restricted''"

record RegisterBrokerErrandConfig =
  rb_BrokerName :: string
  rb_BrokerUsername :: string
  rb_BrokerPassword :: string
  rb_BrokerURL :: string
  rb_ServiceOfferingID :: string
  rb_Plans :: "PlanAccess list"

fun findBroker :: "string \<Rightarrow> ServiceBroker list \<Rightarrow> string option" where
  "findBroker name [] = None"
| "findBroker name (b # bs) = (if sb_Name b = name then Some (sb_GUID b) else findBroker name bs)"

definition createOrUpdateBroker :: "cfenv \<Rightarrow> Client \<Rightarrow> RegisterBrokerErrandConfig \<Rightarrow> ServiceBroker list \<Rightarrow> (gerr + unit) cf_m" where
  "createOrUpdateBroker E c conf existingBrokers = (case findBroker (rb_BrokerName conf) existingBrokers of
      Some brokerGUID \<Rightarrow> UpdateServiceBroker E c brokerGUID (rb_BrokerName conf) (rb_BrokerUsername conf) (rb_BrokerPassword conf) (rb_BrokerURL conf)
    | None \<Rightarrow> CreateServiceBroker E c (rb_BrokerName conf) (rb_BrokerUsername conf) (rb_BrokerPassword conf) (rb_BrokerURL conf))"

definition registerFailed :: "gerr \<Rightarrow> gerr" where
  "registerFailed err = errorf ''failed to execute register-broker: '' err"

definition planAccess :: "nat \<Rightarrow> cfenv \<Rightarrow> Client \<Rightarrow> string \<Rightarrow> PlanAccess \<Rightarrow> (gerr + unit) cf_m" where
  "planAccess n E c sid plan =
     attempt (if pa_CFServiceAccess plan = PlanEnabled then EnableServiceAccess n E c sid (pa_Name plan)
              else DisableServiceAccess n E c sid (pa_Name plan)) (\<lambda>err. ret (Inl (registerFailed err))) (\<lambda>_.
     if pa_CFServiceAccess plan = PlanOrgRestricted then
       attempt (CreateServicePlanVisibility n E c (pa_ServiceAccessOrg plan) sid (pa_Name plan))
         (\<lambda>err. ret (Inl (registerFailed err))) (\<lambda>_. ret (Inr ()))
     else ret (Inr ()))"

definition registrar_Run :: "nat \<Rightarrow> cfenv \<Rightarrow> Client \<Rightarrow> RegisterBrokerErrandConfig \<Rightarrow> (gerr + unit) cf_m" where
  "registrar_Run n E c conf =
     attempt (ServiceBrokers n E c) (\<lambda>err. ret (Inl (registerFailed err))) (\<lambda>existingBrokers.
     attempt (createOrUpdateBroker E c conf existingBrokers) (\<lambda>err. ret (Inl (registerFailed err))) (\<lambda>_.
     forEach (planAccess n E c (rb_ServiceOfferingID conf)) (rb_Plans conf)))"

section \<open>Programs that make a sequence of changes\<close>

text \<open>
  \<open>performs W m\<close>: every run of \<open>m\<close> makes the first part of one of the sequences of \<open>W\<close>, and all of it
  when it reports success.
\<close>

definition performs :: "cfwrite list set \<Rightarrow> (gerr + 'a) cf_m \<Rightarrow> bool" where
  "performs W m \<longleftrightarrow> ensures (\<lambda>r tr. \<exists>ws\<in>W. prefix (writes tr) ws \<and> (\<forall>x. r = Val (Inr x) \<longrightarrow> writes tr = ws)) [] m"

named_theorems performs_intros

lemma performs_reads [performs_intros]: "reads (m :: (gerr + 'a) cf_m) \<Longrightarrow> performs {[]} m"
  unfolding performs_def reads_def by (erule ensures_mono) simp

lemma performs_sends [performs_intros]: "sends w m \<Longrightarrow> performs {[w]} m"
  unfolding performs_def sends_def by (erule ensures_mono) auto

lemma performs_ret [performs_intros]: "performs {[]} (ret r)"
  unfolding performs_def by (auto intro!: ens)

lemma performs_mono: "performs W m \<Longrightarrow> W \<subseteq> V \<Longrightarrow> performs V m"
  unfolding performs_def by (erule ensures_mono) blast

lemma performs_fail [performs_intros]: "W \<noteq> {} \<Longrightarrow> performs W (ret (Inl e))"
  unfolding performs_def by (auto intro!: ens)

lemma performsD:
  "performs W m \<Longrightarrow> m s = (r, s') \<Longrightarrow> \<exists>tr. \<exists>ws\<in>W. hist s' = hist s @ tr \<and> prefix (writes tr) ws \<and> (\<forall>x. r = Val (Inr x) \<longrightarrow> writes tr = ws)"
  unfolding performs_def by (drule ensuresD) auto

definition followed_by :: "cfwrite list set \<Rightarrow> cfwrite list set \<Rightarrow> cfwrite list set" where
  "followed_by W V = {w @ v |w v. w \<in> W \<and> v \<in> V}"

lemma followed_by_single [simp]: "followed_by {[]} V = V" "followed_by W {[]} = W"
  by (auto simp: followed_by_def)

lemma performs_attempt [performs_intros]:
  fixes m :: "(gerr + 'a) cf_m"
  assumes "performs W m" and "\<And>x. performs V (k x)" and "V \<noteq> {}" and "\<And>e. \<exists>e'. h e = ret (Inl e')"
  shows "performs (followed_by W V) (attempt m h k)"
  unfolding performs_def
proof (rule ens_attempt_sub [OF assms(1) [unfolded performs_def]])
  have stop: "\<exists>ws\<in>followed_by W V. prefix w ws" if "\<exists>ws\<in>W. prefix w ws" for w
    using that assms(3) by (fastforce simp: followed_by_def prefix_def)
  fix e d
  assume "\<exists>ws\<in>W. prefix (writes d) ws \<and> (\<forall>x. Val (Inl e :: gerr + 'a) = Val (Inr x) \<longrightarrow> writes d = ws)"
  then have "\<exists>ws\<in>followed_by W V. prefix (writes d) ws" by (intro stop) auto
  moreover obtain e' where "h e = ret (Inl e')" using assms(4) by blast
  ultimately show "ensures (\<lambda>r tr. \<exists>ws\<in>followed_by W V. prefix (writes tr) ws \<and> (\<forall>x. r = Val (Inr x) \<longrightarrow> writes tr = ws)) ([] @ d) (h e)"
    by (auto intro!: ens)
next
  fix x d
  assume "\<exists>ws\<in>W. prefix (writes d) ws \<and> (\<forall>x'. Val (Inr x :: gerr + 'a) = Val (Inr x') \<longrightarrow> writes d = ws)"
  then have "writes d \<in> W" by auto
  then show "ensures (\<lambda>r tr. \<exists>ws\<in>followed_by W V. prefix (writes tr) ws \<and> (\<forall>x. r = Val (Inr x) \<longrightarrow> writes tr = ws)) ([] @ d) (k x)"
    by (intro ens_sub [OF assms(2) [unfolded performs_def]]) (fastforce simp: followed_by_def)
qed (use assms(3) in \<open>fastforce simp: followed_by_def prefix_def\<close>)+

lemma performs_after_reading:
  "reads (m :: (gerr + 'a) cf_m) \<Longrightarrow> (\<And>x. performs V (k x)) \<Longrightarrow> V \<noteq> {} \<Longrightarrow> (\<And>e. \<exists>e'. h e = ret (Inl e')) \<Longrightarrow> performs V (attempt m h k)"
  using performs_attempt [OF performs_reads, of m V k h] by simp

lemma performs_then_ret:
  "performs W m \<Longrightarrow> (\<And>e. \<exists>e'. h e = ret (Inl e')) \<Longrightarrow> performs W (attempt m h (\<lambda>x. ret (f x)))"
  using performs_attempt [OF _ performs_ret, of W m h f] by simp

lemma performs_step:
  "sends w m \<Longrightarrow> (\<And>x. performs {ws} (k x)) \<Longrightarrow> (\<And>e. \<exists>e'. h e = ret (Inl e')) \<Longrightarrow> performs {w # ws} (attempt m h k)"
  using performs_attempt [OF performs_sends, of w m "{ws}" k h] by (simp add: followed_by_def)

definition each_in :: "('x \<Rightarrow> cfwrite list set) \<Rightarrow> 'x list \<Rightarrow> cfwrite list set" where
  "each_in W xs = {concat wss |wss. list_all2 (\<lambda>x ws. ws \<in> W x) xs wss}"

lemma each_in_simps [simp]: "each_in W [] = {[]}" "each_in W (x # xs) = followed_by (W x) (each_in W xs)"
proof -
  show "each_in W [] = {[]}" by (simp add: each_in_def)
  have "w @ concat wss \<in> each_in W (x # xs)" if "w \<in> W x" "list_all2 (\<lambda>x ws. ws \<in> W x) xs wss" for w wss
    unfolding each_in_def using that by (intro CollectI exI [of _ "w # wss"]) simp
  then show "each_in W (x # xs) = followed_by (W x) (each_in W xs)"
    by (auto simp: followed_by_def each_in_def list_all2_Cons1 split: list.splits) blast
qed

lemma followed_by_empty: "followed_by W V = {} \<longleftrightarrow> W = {} \<or> V = {}"
  by (auto simp: followed_by_def)

lemma each_in_nonempty: "(\<And>x. W x \<noteq> {}) \<Longrightarrow> each_in W xs \<noteq> {}"
  by (induction xs) (auto simp: followed_by_empty)

lemma performs_forEach:
  "(\<And>x. performs (W x) (f x)) \<Longrightarrow> (\<And>x. W x \<noteq> {}) \<Longrightarrow> performs (each_in W xs) (forEach f xs)"
  by (induction xs) (auto intro!: performs_intros each_in_nonempty)

section \<open>What the operations on access and registration change\<close>

definition access_change :: "Client \<Rightarrow> bool \<Rightarrow> string \<Rightarrow> cfwrite" where
  "access_change c public g = (''PUT'', planURL c g, publicBody public)"

lemma sends_access [cf_spec]: "sends (access_change c public g) (setAccessForPlan E c g public)"
  unfolding access_change_def by (rule sends_setAccess)

lemma sends_create [cf_spec]:
  "sends (''POST'', cf_url c @ ''/v2/service_brokers'', brokerBody name username password url)
     (CreateServiceBroker E c name username password url)"
  unfolding sends_def CreateServiceBroker_def cf_post_def attempt_def
  by (rule ens_seq_general, rule ens_exchange) (auto intro!: ens split: sum.splits)

lemma sends_update [cf_spec]:
  "sends (''PUT'', brokerURL c g, brokerBody name username password url)
     (UpdateServiceBroker E c g name username password url)"
  unfolding sends_def UpdateServiceBroker_def cf_put_def attempt_def
  by (rule ens_seq_general, rule ens_exchange) (auto intro!: ens split: sum.splits)

lemma performs_disableAll: "performs {map (\<lambda>p. access_change c False (pl_GUID p)) ps} (disableAll E c ps)"
proof (induction ps)
  case (Cons p ps)
  show ?case by (simp, rule performs_step [OF sends_access]) (auto intro: Cons)
qed (auto intro: performs_intros)

definition revoked :: "Client \<Rightarrow> string list \<Rightarrow> cfwrite list" where
  "revoked c vs = map (\<lambda>v. delete_of (visibilityURL c v)) vs"

lemma performs_deleteVisibilities: "performs {revoked c vs} (deleteVisibilities E c p vs)"
proof (induction vs)
  case (Cons v vs)
  then show ?case unfolding revoked_def
    by (simp only: list.map deleteVisibilities.simps) (rule performs_step [OF sends_cf_delete], auto)
qed (auto simp: revoked_def intro: performs_intros)

lemma performs_visibilities: "performs (range (revoked c)) (deleteServicePlanVisibilities n E c p)"
  unfolding deleteServicePlanVisibilities_def
  by (rule performs_after_reading) (auto intro: cf_spec performs_mono [OF performs_deleteVisibilities])

definition access_set :: "Client \<Rightarrow> bool \<Rightarrow> cfwrite list set" where
  "access_set c public = {access_change c public g # revoked c vs |g vs. g \<noteq> []}"

lemma performs_manageAccess: "performs (access_set c public) (manageServiceAccess n E c sid name public)"
proof -
  have one: "performs (followed_by {[access_change c public g]} (range (revoked c)))
     (attempt (setAccessForPlan E c g public) (\<lambda>err. ret (Inl err)) (\<lambda>_.
       attempt (deleteServicePlanVisibilities n E c g)
         (\<lambda>err. ret (Inl (errorf (''failed to delete plan visibilities for plan '' @ g @ '': '') err)))
         (\<lambda>_. ret (Inr ()))))" for g
    by (intro performs_attempt [OF performs_sends [OF sends_access]] performs_then_ret [OF performs_visibilities]) auto
  have "followed_by {[access_change c public g]} (range (revoked c)) \<subseteq> access_set c public" if "g \<noteq> []" for g
    using that by (auto simp: followed_by_def access_set_def)
  with one have "performs (access_set c public)
     (attempt (setAccessForPlan E c g public) (\<lambda>err. ret (Inl err)) (\<lambda>_.
       attempt (deleteServicePlanVisibilities n E c g)
         (\<lambda>err. ret (Inl (errorf (''failed to delete plan visibilities for plan '' @ g @ '': '') err)))
         (\<lambda>_. ret (Inr ()))))" if "g \<noteq> []" for g
    using that by (blast intro: performs_mono)
  moreover have "access_set c public \<noteq> {}" by (auto simp: access_set_def)
  ultimately show ?thesis
    unfolding manageServiceAccess_def Let_def
    by (intro performs_after_reading reads_getPlans) (auto intro: performs_fail)
qed

definition granted :: "Client \<Rightarrow> cfwrite list set" where
  "granted c = {[(''POST'', cf_url c @ ''/v2/service_plan_visibilities'', visibilityBody g org)] |g org. g \<noteq> []}"

lemma granted_nonempty: "granted c \<noteq> {}"
  by (auto simp: granted_def)

lemma sends_visibility:
  "sends (''POST'', cf_url c @ ''/v2/service_plan_visibilities'', body)
     (attempt (cf_post E (cf_url c @ ''/v2/service_plan_visibilities'') body) (\<lambda>err. ret (Inl (h err))) (\<lambda>response.
        if rs_StatusCode response \<noteq> 201 then ret (Inl (e response)) else ret (Inr ())))"
  unfolding sends_def cf_post_def attempt_def
  by (rule ens_seq_general, rule ens_exchange) (auto intro!: ens split: sum.splits)

lemma performs_visibility: "performs (granted c) (CreateServicePlanVisibility n E c org sid name)"
  unfolding CreateServicePlanVisibility_def Let_def
  by (intro performs_after_reading reads_getOrganization reads_getPlans granted_nonempty)
     (auto simp: granted_nonempty intro: performs_fail intro!: performs_mono [OF performs_sends [OF sends_visibility]]
       simp: granted_def split: gerr.splits)

section \<open>The registration errand\<close>

lemma performs_nonempty: "performs W m \<Longrightarrow> W \<noteq> {}"
  by (drule performsD [of _ _ no_events, OF _ prod.collapse [symmetric]]) auto

definition broker_change :: "Client \<Rightarrow> RegisterBrokerErrandConfig \<Rightarrow> string option \<Rightarrow> cfwrite" where
  "broker_change c conf existing =
     (let body = brokerBody (rb_BrokerName conf) (rb_BrokerUsername conf) (rb_BrokerPassword conf) (rb_BrokerURL conf) in
      case existing of None \<Rightarrow> (''POST'', cf_url c @ ''/v2/service_brokers'', body)
      | Some g \<Rightarrow> (''PUT'', brokerURL c g, body))"

text \<open>
  The changes for one plan: its access is set, all its visibilities are taken away, and a plan that is
  restricted to an organization then becomes visible to one.
\<close>

definition plan_changes :: "Client \<Rightarrow> PlanAccess \<Rightarrow> cfwrite list \<Rightarrow> bool" where
  "plan_changes c plan ws \<longleftrightarrow> (\<exists>g vs. g \<noteq> [] \<and>
     (if pa_CFServiceAccess plan = PlanOrgRestricted
      then \<exists>g' org. g' \<noteq> [] \<and> ws = access_change c False g # revoked c vs
          @ [(''POST'', cf_url c @ ''/v2/service_plan_visibilities'', visibilityBody g' org)]
      else ws = access_change c (pa_CFServiceAccess plan = PlanEnabled) g # revoked c vs))"

lemma performs_planAccess: "performs (Collect (plan_changes c plan)) (planAccess n E c sid plan)"
proof (cases "pa_CFServiceAccess plan = PlanOrgRestricted")
  case True
  then have "planAccess n E c sid plan =
     attempt (manageServiceAccess n E c sid (pa_Name plan) False) (\<lambda>err. ret (Inl (registerFailed err))) (\<lambda>_.
       attempt (CreateServicePlanVisibility n E c (pa_ServiceAccessOrg plan) sid (pa_Name plan))
         (\<lambda>err. ret (Inl (registerFailed err))) (\<lambda>_. ret (Inr ())))"
    by (simp add: planAccess_def DisableServiceAccess_def PlanOrgRestricted_def PlanEnabled_def)
  then have "performs (followed_by (access_set c False) (granted c)) (planAccess n E c sid plan)"
    by (simp only:) (intro performs_attempt performs_manageAccess performs_then_ret performs_visibility granted_nonempty; blast)
  moreover have "followed_by (access_set c False) (granted c) \<subseteq> Collect (plan_changes c plan)"
    using True unfolding followed_by_def access_set_def granted_def plan_changes_def by fastforce
  ultimately show ?thesis by (rule performs_mono)
next
  case False
  have "performs (access_set c (pa_CFServiceAccess plan = PlanEnabled)) (planAccess n E c sid plan)"
    unfolding planAccess_def EnableServiceAccess_def DisableServiceAccess_def using False
    by (auto intro!: performs_then_ret performs_manageAccess [of c True, simplified] performs_manageAccess [of c False, simplified])
  moreover have "access_set c (pa_CFServiceAccess plan = PlanEnabled) \<subseteq> Collect (plan_changes c plan)"
    using False unfolding access_set_def plan_changes_def by fastforce
  ultimately show ?thesis by (rule performs_mono)
qed

lemma plan_changes_exist: "Collect (plan_changes c plan) \<noteq> {}"
  using performs_nonempty [OF performs_planAccess] .

lemma performs_createOrUpdate:
  "performs {[broker_change c conf (findBroker (rb_BrokerName conf) brokers)]} (createOrUpdateBroker E c conf brokers)"
  unfolding createOrUpdateBroker_def broker_change_def Let_def
  by (auto split: option.splits intro: performs_sends sends_create sends_update)

text \<open>
  Registering the broker makes these changes, in this order, and stops at the first that fails: the
  broker is updated if Cloud Foundry has one of its name, and created otherwise; then, plan by plan, the
  access is set as configured.  On success all of them were made.
\<close>

theorem registrar_changes:
  assumes "registrar_Run n E c conf s = (r, s')"
  shows "\<exists>tr w pss. hist s' = hist s @ tr
     \<and> (\<forall>brokers. fst (ServiceBrokers n E c s) = Val (Inr brokers) \<longrightarrow> w = broker_change c conf (findBroker (rb_BrokerName conf) brokers))
     \<and> list_all2 (plan_changes c) (rb_Plans conf) pss
     \<and> prefix (writes tr) (w # concat pss)
     \<and> (r = Val (Inr ()) \<longrightarrow> writes tr = w # concat pss)"
proof -
  let ?W = "\<lambda>w. {w # concat pss |pss. list_all2 (plan_changes c) (rb_Plans conf) pss}"
  obtain r1 s1 where first: "ServiceBrokers n E c s = (r1, s1)" by force
  obtain t1 where t1: "hist s1 = hist s @ t1" "writes t1 = []"
    using readsD [OF reads_lists(4), of n E c s] first by (auto simp: ServiceBrokers_def)
  obtain "pss0" where some: "list_all2 (plan_changes c) (rb_Plans conf) pss0"
    using each_in_nonempty [of "\<lambda>p. Collect (plan_changes c p)" "rb_Plans conf"] plan_changes_exist by (auto simp: each_in_def)
  show ?thesis
  proof (cases "\<exists>brokers. r1 = Val (Inr brokers)")
    case True
    then obtain brokers where r1: "r1 = Val (Inr brokers)" ..
    let ?w = "broker_change c conf (findBroker (rb_BrokerName conf) brokers)"
    let ?m = "attempt (createOrUpdateBroker E c conf brokers) (\<lambda>err. ret (Inl (registerFailed err))) (\<lambda>_.
       forEach (planAccess n E c (rb_ServiceOfferingID conf)) (rb_Plans conf))"
    have "performs (followed_by {[?w]} (each_in (\<lambda>p. Collect (plan_changes c p)) (rb_Plans conf))) ?m"
      by (intro performs_attempt performs_createOrUpdate performs_forEach performs_planAccess each_in_nonempty plan_changes_exist) blast
    moreover have "?m s1 = (r, s')" using assms by (simp add: registrar_Run_def run first r1)
    ultimately obtain tr pss where "hist s' = hist s1 @ tr" "list_all2 (plan_changes c) (rb_Plans conf) pss"
      "prefix (writes tr) (?w # concat pss)" "\<forall>x. r = Val (Inr x) \<longrightarrow> writes tr = ?w # concat pss"
      by (auto dest!: performsD simp: followed_by_def each_in_def)
    with t1 first r1 show ?thesis by (intro exI [of _ "t1 @ tr"] exI [of _ ?w] exI [of _ pss]) auto
  next
    case False
    have "s' = s1 \<and> r \<noteq> Val (Inr ())"
      using assms False by (auto simp: registrar_Run_def run first split: outcome.splits sum.splits)
    with t1 some False first show ?thesis
      by (intro exI [of _ t1] exI [of _ "broker_change c conf None"] exI [of _ pss0]) auto
  qed
qed

section \<open>The purge\<close>

lemma performs_Deregister: "performs (insert [] (range (\<lambda>g. [delete_of (brokerURL c g)]))) (Deregister n E c brokerName)"
  unfolding Deregister_def
  by (intro performs_after_reading reads_lists)
     (auto intro!: performs_mono [OF performs_ret] performs_mono [OF performs_then_ret [OF performs_sends [OF sends_deletes(4)]]])

lemma performs_disable:
  assumes "DisableServiceAccessForAllPlans n E c sid s = (r, s')"
  shows "\<exists>plans tr. hist s' = hist s @ tr \<and> prefix (writes tr) (map (\<lambda>p. access_change c False (pl_GUID p)) plans)
    \<and> (r = Val (Inr ()) \<longrightarrow> fst (getPlansForServiceID n E c sid s) = Val (Inr plans)
        \<and> writes tr = map (\<lambda>p. access_change c False (pl_GUID p)) plans)"
proof -
  obtain r1 s1 where first: "getPlansForServiceID n E c sid s = (r1, s1)" by force
  obtain t1 where t1: "hist s1 = hist s @ t1" "writes t1 = []" using readsD [OF reads_getPlans first] by auto
  show ?thesis
  proof (cases "\<exists>plans. r1 = Val (Inr plans)")
    case True
    then obtain plans where r1: "r1 = Val (Inr plans)" ..
    have "disableAll E c plans s1 = (r, s')" using assms by (simp add: DisableServiceAccessForAllPlans_def run first r1)
    from performsD [OF performs_disableAll this] obtain tr where "hist s' = hist s1 @ tr"
      "prefix (writes tr) (map (\<lambda>p. access_change c False (pl_GUID p)) plans)"
      "r = Val (Inr ()) \<longrightarrow> writes tr = map (\<lambda>p. access_change c False (pl_GUID p)) plans" by auto
    with t1 first r1 show ?thesis by (intro exI [of _ plans] exI [of _ "t1 @ tr"]) auto
  next
    case False
    then have "s' = s1 \<and> r \<noteq> Val (Inr ())"
      using assms by (auto simp: DisableServiceAccessForAllPlans_def run first split: outcome.splits sum.splits)
    with t1 show ?thesis by (intro exI [of _ "[]"] exI [of _ t1]) auto
  qed
qed

text \<open>The changes of the deleter: instance by instance, between two listings\<close>

definition deletions :: "Client \<Rightarrow> ievent list \<Rightarrow> bool" where
  "deletions c tr \<longleftrightarrow> (\<exists>first mid second gs. tr = first @ mid @ second \<and> writes first = [] \<and> writes second = []
     \<and> (drained c gs mid \<or> interrupted c gs mid))"

text \<open>
  C10.  The purge works in three steps, and a step is begun only when the one before has succeeded.  First every
  plan of the service loses its public access; then all instances are deleted, one at a time; the
  broker is deregistered last, and only after a listing that found no instance of the service.
\<close>

theorem purge_in_order:
  assumes "plain_transport E"
    and "DeleteInstancesAndDeregister n f E c offset interval sid brokerName s = (r, s')"
  shows "\<exists>plans t1 t2 t3. hist s' = hist s @ t1 @ t2 @ t3
     \<and> prefix (writes t1) (map (\<lambda>p. access_change c False (pl_GUID p)) plans)
     \<and> (t2 \<noteq> [] \<or> r = Val (Inr ()) \<longrightarrow> fst (getPlansForServiceID n E c sid s) = Val (Inr plans)
          \<and> writes t1 = map (\<lambda>p. access_change c False (pl_GUID p)) plans)
     \<and> deletions c t2
     \<and> (t3 \<noteq> [] \<or> r = Val (Inr ()) \<longrightarrow> (\<exists>s1 s2. GetServiceInstances n E c (serviceFilter sid) s1 = (Val (Inr []), s2)
          \<and> hist s2 = hist s @ t1 @ t2))
     \<and> (\<exists>g. writes t3 \<in> {[], [delete_of (brokerURL c g)]})"
proof -
  let ?del = "DeleteAllServiceInstances f (deleter_New (cfClient n E c) offset interval) sid"
  have silent: "deletions c []"
    unfolding deletions_def by (intro exI [of _ "[]"]) simp
  obtain r1 s1 where first: "DisableServiceAccessForAllPlans n E c sid s = (r1, s1)" by force
  from performs_disable [OF first] obtain plans t1 where t1: "hist s1 = hist s @ t1"
    "prefix (writes t1) (map (\<lambda>p. access_change c False (pl_GUID p)) plans)"
    "r1 = Val (Inr ()) \<longrightarrow> fst (getPlansForServiceID n E c sid s) = Val (Inr plans)
        \<and> writes t1 = map (\<lambda>p. access_change c False (pl_GUID p)) plans" by blast
  obtain r2 s2 where second: "?del s1 = (r2, s2)" by force
  from deleter_run [OF assms(1) second] obtain a b d gs where t2: "hist s2 = hist s1 @ a @ b @ d" "writes a = []" "writes d = []"
    "drained c gs b \<or> interrupted c gs b"
    "r2 = Val (Inr ()) \<longrightarrow> (\<exists>s0. GetServiceInstances n E c (serviceFilter sid) s0 = (Val (Inr []), s2))"
    unfolding whole_run_def by (elim exE conjE) (rule that, assumption, assumption, assumption, erule disjE, erule disjI1, erule conjE, erule disjI2, assumption)
  have del: "deletions c (a @ b @ d)" unfolding deletions_def using t2 by blast
  obtain r3 s3 where third: "Deregister n E c brokerName s2 = (r3, s3)" by force
  from performsD [OF performs_Deregister third] obtain t3 where t3: "hist s3 = hist s2 @ t3"
    "\<exists>g. writes t3 \<in> {[], [delete_of (brokerURL c g)]}" by (auto simp: prefix_Cons)
  note defs = DeleteInstancesAndDeregister_def run first second third
  consider "r1 \<noteq> Val (Inr ())" | "r1 = Val (Inr ())" "r2 \<noteq> Val (Inr ())" | "r1 = Val (Inr ())" "r2 = Val (Inr ())" by blast
  then show ?thesis
  proof cases
    case 1
    then have "s' = s1 \<and> r \<noteq> Val (Inr ())" using assms(2) by (auto simp: defs split: outcome.splits sum.splits)
    with t1 silent show ?thesis by (intro exI [of _ plans] exI [of _ t1] exI [of _ "[]"]) auto
  next
    case 2
    then have "s' = s2 \<and> r \<noteq> Val (Inr ())" using assms(2) by (auto simp: defs split: outcome.splits sum.splits)
    with 2 t1 t2 del show ?thesis by (intro exI [of _ plans] exI [of _ t1] exI [of _ "a @ b @ d"] exI [of _ "[]"]) auto
  next
    case 3
    then have "s' = s3" using assms(2) by (auto simp: defs split: outcome.splits sum.splits)
    with 3 t1 t2 t3 del show ?thesis
      by (intro exI [of _ plans] exI [of _ t1] exI [of _ "a @ b @ d"] exI [of _ t3]) auto
  qed
qed

text \<open>The purge of the sample\<close>

lemma foundry_purge:
  "runs [] (DeleteInstancesAndDeregister 3 3 (foundry_env ''create'' ''succeeded'') foundry_client 60 1 ''svc'' ''odb'') (Inr ())
     [access_change foundry_client False ''p1'', binding_gone, instance_gone, delete_of ''/v2/service_brokers/br'']"
proof -
  let ?E = "foundry_env ''create'' ''succeeded''" and ?off = "access_change foundry_client False ''p1''"
  have "runs [] (disableAll ?E foundry_client [small_plan]) (Inr ()) ([?off] @ [])"
    by (simp, rule runs_attempt [where v = "[?off]" and v' = "[]", simplified])
      (auto simp: small_plan_def access_change_def intro: runs_setAccess runs_ret)
  then have off: "runs [] (DisableServiceAccessForAllPlans 3 ?E foundry_client ''svc'') (Inr ()) [?off]"
    unfolding DisableServiceAccessForAllPlans_def by (auto intro: runs_attempt_read [OF runs_plans])
  have there: "\<not> gone_after ''succeeded'' [?off]" by (simp add: gone_after_def access_change_def delete_of_def)
  have deregister: "runs w (Deregister 3 ?E foundry_client ''odb'') (Inr ()) ([delete_of ''/v2/service_brokers/br''] @ [])" for w
  proof -
    have named: "runs w (GetServiceOfferingGUID 3 ?E foundry_client ''odb'') (Inr ''br'') []"
      unfolding GetServiceOfferingGUID_def
      by (auto intro!: runs_attempt_read [OF runs_brokers] runs_ret simp: brokerNamed_def)
    have deleted: "runs w (DeregisterBroker ?E foundry_client ''br'') (Inr ()) [delete_of ''/v2/service_brokers/br'']"
      by (simp add: DeregisterBroker_def brokerURL_def runs_delete)
    show ?thesis
      unfolding Deregister_def by (auto intro!: runs_attempt_read [OF named] runs_attempt [OF deleted, of _ _ "[]", simplified] runs_ret)
  qed
  have "runs [] (DeleteInstancesAndDeregister 3 3 ?E foundry_client 60 1 ''svc'' ''odb'') (Inr ())
      ([?off] @ [binding_gone, instance_gone] @ ([delete_of ''/v2/service_brokers/br''] @ []) @ [])"
    unfolding DeleteInstancesAndDeregister_def
    by (rule runs_attempt [OF off], rule runs_attempt, simp, rule foundry_run [OF there], rule runs_attempt,
      rule deregister, rule runs_ret)
  then show ?thesis by simp
qed

theorem purge_in_order_witness:
  "\<exists>s' (plans :: cfplan list) t1 t2 t3. DeleteInstancesAndDeregister 3 3 (foundry_env ''create'' ''succeeded'') foundry_client 60 1 ''svc'' ''odb'' no_events
       = (Val (Inr ()), s')
     \<and> writes (hist s') = [access_change foundry_client False ''p1'', binding_gone, instance_gone, delete_of ''/v2/service_brokers/br'']
     \<and> hist s' = t1 @ t2 @ t3 \<and> writes t1 = map (\<lambda>p. access_change foundry_client False (pl_GUID p)) plans
     \<and> deletions foundry_client t2"
proof -
  let ?E = "foundry_env ''create'' ''succeeded''"
  from runsD [of no_events, simplified, OF foundry_purge] obtain t where
    run: "DeleteInstancesAndDeregister 3 3 ?E foundry_client 60 1 ''svc'' ''odb'' no_events = (Val (Inr ()), \<lparr>hist = t\<rparr>)"
    and w: "writes t = [access_change foundry_client False ''p1'', binding_gone, instance_gone, delete_of ''/v2/service_brokers/br'']" by auto
  from purge_in_order [OF foundry_plain run, simplified] obtain plans :: "cfplan list" and t1 t2 t3 where "t = t1 @ t2 @ t3"
    "writes t1 = map (\<lambda>p. access_change foundry_client False (pl_GUID p)) plans" "deletions foundry_client t2"
    by blast
  with run w show ?thesis by (intro exI [of _ "\<lparr>hist = t\<rparr>"] exI [of _ plans] exI [of _ t1] exI [of _ t2] exI [of _ t3]) simp
qed

text \<open>Registering the sample's broker with its plan enabled\<close>

definition sample_registration :: RegisterBrokerErrandConfig where
  "sample_registration = \<lparr>rb_BrokerName = ''odb'', rb_BrokerUsername = ''u'', rb_BrokerPassword = ''p'', rb_BrokerURL = ''b'',
     rb_ServiceOfferingID = ''svc'', rb_Plans = [\<lparr>pa_Name = ''Small'', pa_ServiceAccessOrg = [], pa_CFServiceAccess = PlanEnabled\<rparr>]\<rparr>"

theorem registrar_changes_witness:
  "\<exists>r s' pss. registrar_Run 3 (foundry_env ''create'' ''succeeded'') foundry_client sample_registration no_events = (r, s')
     \<and> list_all2 (plan_changes foundry_client) (rb_Plans sample_registration) pss
     \<and> prefix (writes (hist s')) (broker_change foundry_client sample_registration (Some ''br'') # concat pss)"
proof -
  let ?E = "foundry_env ''create'' ''succeeded''"
  obtain r s' where run: "registrar_Run 3 ?E foundry_client sample_registration no_events = (r, s')" by force
  have brokers: "fst (ServiceBrokers 3 ?E foundry_client no_events) = Val (Inr [\<lparr>sb_GUID = ''br'', sb_Name = ''odb''\<rparr>])"
    using runsD [of no_events, OF runs_brokers, of "''create''" "''succeeded''"] by (auto simp: ServiceBrokers_def)
  from registrar_changes [OF run] brokers obtain tr pss where "hist s' = hist no_events @ tr"
    "list_all2 (plan_changes foundry_client) (rb_Plans sample_registration) pss"
    "prefix (writes tr) (broker_change foundry_client sample_registration (findBroker (rb_BrokerName sample_registration) [\<lparr>sb_GUID = ''br'', sb_Name = ''odb''\<rparr>]) # concat pss)"
    by blast
  with run show ?thesis
    by (intro exI [of _ r] exI [of _ s'] exI [of _ pss]) (simp add: sample_registration_def)
qed

end
