(* ===== verification/CFListing.thy ===== *)
theory CFListing
  imports Deleter
begin

text \<open>
  Listings against a Cloud Foundry that stays as it is.  \<open>listed\<close> is the abstract view of a paged
  collection: the resources of a chain of pages, each reached by the \<open>next_url\<close> of the one before.  The
  client's loops are shown to compute exactly this view, and \<open>GetServiceInstances\<close> the instances of the
  service's plans.
\<close>

section \<open>A collection in pages\<close>

text \<open>Every GET of the URL is answered with a body that the decoder reads as \<open>x\<close>.\<close>

definition answers :: "cfenv \<Rightarrow> string \<Rightarrow> (json \<Rightarrow> gerr + 'a) \<Rightarrow> 'a \<Rightarrow> bool" where
  "answers E url dec x \<longleftrightarrow> urlError E url = None \<and> (\<forall>h. \<exists>auth. o_AuthHeader E h = Inr auth)
     \<and> (\<forall>h headers. \<exists>resp j. o_Do E h \<lparr>rq_Method = ''GET'', rq_URL = url, rq_Headers = headers, rq_Body = []\<rparr> = Inr resp
          \<and> rs_StatusCode resp = 200 \<and> rs_Text resp \<noteq> ''{}'' \<and> rs_Json resp = WJson j \<and> dec j = Inr x)"

inductive listed :: "cfenv \<Rightarrow> Client \<Rightarrow> (json \<Rightarrow> 'r \<Rightarrow> gerr + 'r) \<Rightarrow> 'r \<Rightarrow> nat \<Rightarrow> string \<Rightarrow> 'r list \<Rightarrow> bool"
  for E c dec zero where
  no_page: "listed E c dec zero n [] []"
| page: "path \<noteq> [] \<Longrightarrow> answers E (cf_url c @ path) (decodePage dec zero) p \<Longrightarrow> listed E c dec zero n (pg_NextPath p) rs
    \<Longrightarrow> listed E c dec zero (Suc n) path (pg_Resources p @ rs)"

inductive_cases listed_pageE: "listed E c dec zero n (x # xs) rs"

lemma answers_read:
  assumes "answers E url dec x"
  shows "\<exists>s'. cf_read E url dec zero s = (Val (Inr x), s')"
proof -
  from assms obtain auth where auth: "o_AuthHeader E (hist s) = Inr auth" and url: "urlError E url = None"
    unfolding answers_def by blast
  let ?h = "hist s @ [EAuthHeader (Inr auth)]"
  from assms obtain resp j where "o_Do E ?h \<lparr>rq_Method = ''GET'', rq_URL = url, rq_Headers = auth, rq_Body = []\<rparr> = Inr resp"
    and "rs_StatusCode resp = 200" "rs_Text resp \<noteq> ''{}''" "rs_Json resp = WJson j" "dec j = Inr x"
    unfolding answers_def by blast
  with auth url show ?thesis
    by (simp add: cf_read_def cf_get_def exchange_def run readResponse_def unmarshalBody_def orZero_def)
qed

lemma listPages_none: "listPages n E c dec zero [] acc = ret (Inr acc)"
  by (cases n) simp_all

text \<open>The loop over the pages computes the collection.\<close>

lemma listPages_listed:
  assumes "listed E c dec zero n path rs"
  shows "\<exists>s'. listPages n E c dec zero path acc s = (Val (Inr (acc @ rs)), s')"
  using assms
proof (induction arbitrary: acc s)
  case (no_page n)
  then show ?case by (simp add: listPages_none run)
next
  case (page path p n rs)
  obtain s1 where "cf_read E (cf_url c @ path) (decodePage dec zero) emptyPage s = (Val (Inr p), s1)"
    using answers_read [OF page.hyps(2)] by blast
  with page.hyps(1) page.IH [of "acc @ pg_Resources p" s1] show ?case by (simp add: run)
qed

lemma findByUniqueID_append:
  "findByUniqueID i (xs @ ys) = (case findByUniqueID i xs of None \<Rightarrow> findByUniqueID i ys | Some x \<Rightarrow> Some x)"
  by (induction xs) auto

lemma findService_listed:
  assumes "listed E c decodeService zero_service n path services"
  shows "\<exists>s'. findService n E c i path s = (Val (Inr (findByUniqueID i services)), s')"
  using assms
proof (induction arbitrary: s)
  case (no_page n)
  then show ?case by (cases n) (simp_all add: run)
next
  case (page path p n rs)
  obtain s1 where "cf_read E (cf_url c @ path) (decodePage decodeService zero_service) emptyPage s = (Val (Inr p), s1)"
    using answers_read [OF page.hyps(2)] by blast
  with page.hyps(1) page.IH [of s1] show ?case
    by (auto simp: run findByUniqueID_append split: option.splits)
qed

section \<open>The instances of a service\<close>

text \<open>
  \<open>offers E c n sid plans insts\<close>: Cloud Foundry has the service \<open>sid\<close> with these plans, and these
  instances of each plan; no collection has more than \<open>n\<close> pages.
\<close>

definition offers :: "cfenv \<Rightarrow> Client \<Rightarrow> nat \<Rightarrow> string \<Rightarrow> cfplan list \<Rightarrow> (cfplan \<Rightarrow> cfinstance list) \<Rightarrow> bool" where
  "offers E c n sid plans insts \<longleftrightarrow> (\<exists>services srv.
     listed E c decodeService zero_service n (''/v2/services?'' @ perPage) services
     \<and> findByUniqueID sid services = Some srv
     \<and> listed E c decodePlan zero_plan n (srv_ServicePlansUrl srv @ ''?'' @ perPage) plans
     \<and> (\<forall>p\<in>set plans. listed E c decodeInstanceResource zero_instance n (instancesPath p []) (insts p)))"

lemma getPlans_offers:
  assumes "offers E c n sid plans insts"
  shows "\<exists>s'. getPlansForServiceID n E c sid s = (Val (Inr plans), s')"
proof -
  from assms obtain services srv where services: "listed E c decodeService zero_service n (''/v2/services?'' @ perPage) services"
    and srv: "findByUniqueID sid services = Some srv"
    and plans: "listed E c decodePlan zero_plan n (srv_ServicePlansUrl srv @ ''?'' @ perPage) plans"
    unfolding offers_def by blast
  obtain s1 where "findService n E c sid (''/v2/services?'' @ perPage) s = (Val (Inr (Some srv)), s1)"
    using findService_listed [OF services, of sid s] srv by auto
  with listPages_listed [OF plans, of "[]" s1] show ?thesis
    by (simp add: getPlansForServiceID_def findServiceByUniqueID_def listAllPlans_def run)
qed

lemma getInstances_listed:
  assumes "\<forall>p\<in>set plans. listed E c decodeInstanceResource zero_instance n (instancesPath p []) (insts p)"
  shows "\<exists>s'. getInstances n E c plans [] acc s = (Val (Inr (acc @ concat (map (\<lambda>p. map (toInstance p) (insts p)) plans))), s')"
  using assms
proof (induction plans arbitrary: acc s)
  case (Cons p plans)
  obtain s1 where "listPages n E c decodeInstanceResource zero_instance (instancesPath p []) [] s = (Val (Inr (insts p)), s1)"
    using listPages_listed [of E c decodeInstanceResource zero_instance n "instancesPath p []" "insts p" "[]" s] Cons.prems by auto
  with Cons.IH [of "acc @ map (toInstance p) (insts p)" s1] Cons.prems show ?case by (simp add: run)
qed (simp add: run)

lemma GetServiceInstances_offers:
  assumes "offers E c n sid plans insts"
  shows "fst (GetServiceInstances n E c (serviceFilter sid) s) = Val (Inr (concat (map (\<lambda>p. map (toInstance p) (insts p)) plans)))"
proof -
  obtain s1 where s1: "getPlansForServiceID n E c sid s = (Val (Inr plans), s1)" using getPlans_offers [OF assms] by blast
  have "\<forall>p\<in>set plans. listed E c decodeInstanceResource zero_instance n (instancesPath p []) (insts p)"
    using assms unfolding offers_def by blast
  from getInstances_listed [OF this, of "[]" s1] s1 show ?thesis
    by (auto simp: GetServiceInstances_def serviceFilter_def createQuery_def run)
qed

text \<open>
  C14.  The listing of a service's instances returns, and it returns exactly the instances of the service's
  plans, each with its plan and space, plan by plan and page by page, however Cloud Foundry cuts its
  collections into pages.
\<close>

theorem listing_refines_catalog:
  assumes "offers E c n sid plans insts"
  shows "fst (GetServiceInstances n E c (serviceFilter sid) s) = Val (Inr (concat (map (\<lambda>p. map (toInstance p) (insts p)) plans)))"
  by (rule GetServiceInstances_offers [OF assms])

text \<open>The sample, its last operation failed so that its instance stays\<close>

lemma foundry_page:
  assumes "\<And>h. foundry_do a b h \<lparr>rq_Method = ''GET'', rq_URL = path, rq_Headers = [], rq_Body = []\<rparr> = okJson j"
    and "\<And>h headers. foundry_do a b h \<lparr>rq_Method = ''GET'', rq_URL = path, rq_Headers = headers, rq_Body = []\<rparr>
      = foundry_do a b h \<lparr>rq_Method = ''GET'', rq_URL = path, rq_Headers = [], rq_Body = []\<rparr>"
    and "decodePage dec zero j = Inr p" and "pg_NextPath p = []" and "path \<noteq> []"
  shows "listed (foundry_env a b) foundry_client dec zero 3 path (pg_Resources p)"
proof -
  have "answers (foundry_env a b) (cf_url foundry_client @ path) (decodePage dec zero) p"
    using assms(1-3) by (simp add: answers_def foundry_env_def okJson_def)
  from page [OF assms(5) this, of 2 "[]"] assms(4) show ?thesis
    by (auto intro: no_page simp: numeral_3_eq_3 numeral_2_eq_2)
qed

lemma foundry_headers:
  "foundry_do a b h \<lparr>rq_Method = m, rq_URL = u, rq_Headers = headers, rq_Body = x\<rparr>
   = foundry_do a b h \<lparr>rq_Method = m, rq_URL = u, rq_Headers = [], rq_Body = x\<rparr>"
  by (simp add: foundry_do_def)

lemma foundry_offers:
  "offers (foundry_env ''delete'' ''failed'') foundry_client 3 ''svc'' [small_plan]
     (\<lambda>_. [zero_instance\<lparr>si_GUID := ''i1'', si_SpaceGUID := ''space''\<rparr>])"
proof -
  let ?E = "foundry_env ''delete'' ''failed''" and ?srv = "\<lparr>srv_UniqueID = ''svc'', srv_ServicePlansUrl = ''/v2/services/s1/service_plans''\<rparr>"
  have "listed ?E foundry_client decodeService zero_service 3 ''/v2/services?results-per-page=100'' [?srv]"
    using foundry_page [OF _ foundry_headers services_page] by (simp add: foundry_do_def resources_def Let_def)
  moreover have "listed ?E foundry_client decodePlan zero_plan 3 ''/v2/services/s1/service_plans?results-per-page=100'' [small_plan]"
    using foundry_page [OF _ foundry_headers plans_page] by (simp add: foundry_do_def resources_def Let_def small_plan_def)
  moreover have "listed ?E foundry_client decodeInstanceResource zero_instance 3
      ''/v2/service_plans/p1/service_instances?results-per-page=100'' [zero_instance\<lparr>si_GUID := ''i1'', si_SpaceGUID := ''space''\<rparr>]"
    using foundry_page [OF _ foundry_headers instances_page] by (simp add: foundry_do_def resources_def Let_def)
  ultimately show ?thesis
    unfolding offers_def
    by (intro exI [of _ "[?srv]"] exI [of _ ?srv]) (simp add: instancesPath_def small_plan_def)
qed

theorem listing_refines_catalog_witness:
  "fst (GetServiceInstances 3 (foundry_env ''delete'' ''failed'') foundry_client (serviceFilter ''svc'') no_events)
     = Val (Inr [only_instance])"
  using listing_refines_catalog [OF foundry_offers, of no_events]
  by (simp add: toInstance_def small_plan_def zero_instance_def only_instance_def zero_plan_def)

end
