(* ===== verification/StartupChecks.thy ===== *)
theory StartupChecks
  imports Semver Broker Sample CFListing
begin

text \<open>
  The version of the BOSH director (\<open>boshdirector/info.go\<close>), the checks that run before the broker
  exists (\<open>startupchecker\<close>) and the check that runs before instances are
  recreated (\<open>runtimechecker/recreate_runtime_checker.go\<close>).

  The director library's answers are arguments of \<open>GetInfo\<close> and \<open>VerifyAuth\<close>; Cloud Foundry is reached
  through the client of \<open>CFClient\<close>.  The rendering \<open>%q\<close> is the argument \<open>fmtq\<close>.  A conversion of a
  \<open>uint64\<close> to \<open>int\<close> reads its 64 bits as a signed number (\<open>sint\<close>).
\<close>

section \<open>The director's version\<close>

record Info =
  info_Version :: string
  info_UaaURL :: string

record directorInfo =
  di_Version :: string
  di_AuthType :: string
  di_AuthOptions :: "(string \<times> json) list"

record DirectorVersion =
  dv_Version :: Version
  dv_Type :: string

definition StemcellDirectorVersionType :: string where
  "StemcellDirectorVersionType = ''stemcell''"

definition SemverDirectorVersionType :: string where
  "SemverDirectorVersionType = ''semver''"

definition zero_directorVersion :: DirectorVersion where
  "zero_directorVersion = \<lparr>dv_Version = zero_version, dv_Type = []\<rparr>"

definition GetInfo :: "gerr + 'd \<Rightarrow> ('d \<Rightarrow> gerr + directorInfo) \<Rightarrow> gerr + Info" where
  "GetInfo director infoOf = (case director of
      Inl err \<Rightarrow> Inl (errorf ''Failed to build director: '' err)
    | Inr d \<Rightarrow> (case infoOf d of
        Inl err \<Rightarrow> Inl err
      | Inr di \<Rightarrow>
          if di_AuthType di \<noteq> ''uaa'' then Inr \<lparr>info_Version = di_Version di, info_UaaURL = []\<rparr>
          else (case map_of (di_AuthOptions di) ''url'' of
              Some (JStr uaaURL) \<Rightarrow> Inr \<lparr>info_Version = di_Version di, info_UaaURL = uaaURL\<rparr>
            | _ \<Rightarrow> Inl (ErrorString ''Cannot retrieve UAA URL from info endpoint''))))"

definition unrecognisedBoshDirectorVersionError :: "(string \<Rightarrow> string) \<Rightarrow> string \<Rightarrow> gerr" where
  "unrecognisedBoshDirectorVersionError fmtq rawVersion =
     ErrorString (''unrecognised BOSH Director version: '' @ fmtq rawVersion)"

definition newBoshDirectorVersion :: "(string \<Rightarrow> string) \<Rightarrow> string \<Rightarrow> DirectorVersion \<times> gerr option" where
  "newBoshDirectorVersion fmtq rawVersion =
     (let unrecognised = (zero_directorVersion, Some (unrecognisedBoshDirectorVersionError fmtq rawVersion));
          trimmedVersion = Fields rawVersion in
      if length trimmedVersion = 0 then unrecognised
      else let versionNumbers = Split (CHR ''.'') (trimmedVersion ! 0);
          parsed = (\<lambda>versionType numbers. case Semver.ParseTolerant (join ''.'' numbers) of
              None \<Rightarrow> unrecognised
            | Some version \<Rightarrow> (\<lparr>dv_Version = version, dv_Type = versionType\<rparr>, None)) in
      if length versionNumbers = 3 \<or> length versionNumbers = 2 then parsed SemverDirectorVersionType versionNumbers
      else if length versionNumbers = 4 then parsed StemcellDirectorVersionType (take 3 (drop 1 versionNumbers))
      else unrecognised)"

definition GetDirectorVersion :: "(string \<Rightarrow> string) \<Rightarrow> Info \<Rightarrow> DirectorVersion \<times> gerr option" where
  "GetDirectorVersion fmtq boshInfo = (case newBoshDirectorVersion fmtq (info_Version boshInfo) of
      (version, Some err) \<Rightarrow> (zero_directorVersion, Some err)
    | (version, None) \<Rightarrow> (version, None))"

definition VerifyAuth :: "gerr + 'd \<Rightarrow> ('d \<Rightarrow> gerr + bool) \<Rightarrow> gerr option" where
  "VerifyAuth director isAuthenticated = (case director of
      Inl err \<Rightarrow> Some (errorf '' to verify credentials: '' err)
    | Inr d \<Rightarrow> (case isAuthenticated d of
        Inl err \<Rightarrow> Some (errorf ''Failed to verify credentials: '' err)
      | Inr True \<Rightarrow> None
      | Inr False \<Rightarrow> Some (ErrorString ''not authenticated'')))"

section \<open>Recreating instances\<close>

definition RecreateRuntimeChecker_Check :: "(string \<Rightarrow> string) \<Rightarrow> Info \<Rightarrow> gerr option" where
  "RecreateRuntimeChecker_Check fmtq boshInfo =
     (let version = dv_Version (fst (GetDirectorVersion fmtq boshInfo)) in
      if Major version < 266
        \<or> (Major version = 266 \<and> Minor version < 15)
        \<or> (Major version = 267 \<and> Minor version < 9)
        \<or> (Major version = 268
            \<and> (Minor version < 2 \<or> (Minor version = 2 \<and> Patch version < 2) \<or> Minor version = 3))
      then Some (ErrorString (''Insufficient BOSH director version: '' @ fmtq (Version_String version)
        @ ''. The recreate-all errand requires a BOSH director version 268.4.0 or higher, or one of the following patch releases: 266.15.0+, 267.9.0+, 268.2.2+.''))
      else None)"

section \<open>The startup checks\<close>

fun anyBindingWithDNS :: "Plan list \<Rightarrow> bool" where
  "anyBindingWithDNS [] = False"
| "anyBindingWithDNS (plan # plans) = (if 0 < length (plan_BindingWithDNS plan) then True else anyBindingWithDNS plans)"

definition HasBindingWithDNSConfigured :: "ServiceOffering \<Rightarrow> bool" where
  "HasBindingWithDNSConfigured serviceCatalog = anyBindingWithDNS (off_Plans serviceCatalog)"

record BOSHDirectorVersionChecker =
  minimumMajorStemcellDirectorVersionForODB :: int
  minimumMajorSemverDirectorVersionForLifecycleErrands :: int
  c_boshInfo :: Info
  c_serviceCatalog :: ServiceOffering

definition directorVersionSufficientForODB :: "BOSHDirectorVersionChecker \<Rightarrow> DirectorVersion \<Rightarrow> bool" where
  "directorVersionSufficientForODB c directorVersion \<longleftrightarrow> dv_Type directorVersion = SemverDirectorVersionType
     \<or> sint (Major (dv_Version directorVersion)) \<ge> minimumMajorStemcellDirectorVersionForODB c"

definition directorVersionSufficientForBindingWithDNS :: "DirectorVersion \<Rightarrow> bool" where
  "directorVersionSufficientForBindingWithDNS directorVersion =
     (let version = dv_Version directorVersion in
      if dv_Type directorVersion = SemverDirectorVersionType then
        (if Major version < 266 then False
         else if Major version = 266 \<and> Minor version < 12 then False
         else if Major version = 267 \<and> Minor version < 6 then False
         else True)
      else False)"

definition directorVersionSufficientForLifecycleErrands :: "BOSHDirectorVersionChecker \<Rightarrow> DirectorVersion \<Rightarrow> bool" where
  "directorVersionSufficientForLifecycleErrands c directorVersion \<longleftrightarrow> dv_Type directorVersion = SemverDirectorVersionType
     \<and> sint (Major (dv_Version directorVersion)) \<ge> minimumMajorSemverDirectorVersionForLifecycleErrands c"

definition errPrefix :: string where
  "errPrefix = ''BOSH Director error: ''"

definition BOSHDirectorVersionChecker_Check :: "(string \<Rightarrow> string) \<Rightarrow> BOSHDirectorVersionChecker \<Rightarrow> gerr option" where
  "BOSHDirectorVersionChecker_Check fmtq c = (case GetDirectorVersion fmtq (c_boshInfo c) of
      (_, Some err) \<Rightarrow> Some (ErrorString (errPrefix @ errmsg err @ ''. ODB requires BOSH v257+.''))
    | (directorVersion, None) \<Rightarrow>
        if \<not> directorVersionSufficientForODB c directorVersion then
          Some (ErrorString (errPrefix @ ''API version is insufficient, ODB requires BOSH v257+.''))
        else if HasBindingWithDNSConfigured (c_serviceCatalog c) \<and> \<not> directorVersionSufficientForBindingWithDNS directorVersion then
          Some (ErrorString (errPrefix @ ''API version for '' @ [CHR 0x27] @ ''binding_with_dns'' @ [CHR 0x27]
            @ '' feature is insufficient. This feature requires BOSH v266.12+ / v267.6+ (got v''
            @ Version_String (dv_Version directorVersion) @ '')''))
        else if HasLifecycleErrands (c_serviceCatalog c) \<and> \<not> directorVersionSufficientForLifecycleErrands c directorVersion then
          Some (ErrorString (errPrefix
            @ ''API version is insufficient, one or more plans are configured with lifecycle_errands which require BOSH v''
            @ show_int (minimumMajorSemverDirectorVersionForLifecycleErrands c) @ ''+.''))
        else None)"

definition BOSHAuthChecker_Check :: "gerr option \<Rightarrow> gerr option" where
  "BOSHAuthChecker_Check verifyAuth = (case verifyAuth of
      Some err \<Rightarrow> Some (errorf ''BOSH Director error: '' err) | None \<Rightarrow> None)"

definition CFAPIVersionChecker_Check :: "cfenv \<Rightarrow> Client \<Rightarrow> string \<Rightarrow> (gerr option) cf_m" where
  "CFAPIVersionChecker_Check E cfc minimumCFVersion = (case Parse minimumCFVersion of
      None \<Rightarrow> ret (Some (ErrorString
        (''Could not parse configured minimum Cloud Foundry API version. Expected a semver, got: '' @ minimumCFVersion)))
    | Some minVersion \<Rightarrow>
        attempt (GetAPIVersion E cfc)
          (\<lambda>err. ret (Some (ErrorString (''CF API error: '' @ errmsg err
             @ ''. ODB requires minimum Cloud Foundry API version: '' @ Version_String minVersion))))
          (\<lambda>rawCFAPIVersion. case Parse rawCFAPIVersion of
             None \<Rightarrow> ret (Some (ErrorString
               (''Cloud Foundry API version couldn'' @ [CHR 0x27] @ ''t be parsed. Expected a semver, got: '' @ rawCFAPIVersion @ ''.'')))
           | Some version \<Rightarrow>
               if LT version minVersion then
                 ret (Some (ErrorString (''CF API error: ODB requires minimum Cloud Foundry API version '' @ [CHR 0x27]
                   @ Version_String minVersion @ [CHR 0x27] @ '', got '' @ [CHR 0x27] @ Version_String version @ [CHR 0x27] @ ''.'')))
               else ret None))"

fun missingPlan :: "ServiceOffering \<Rightarrow> (cfplan \<times> int) list \<Rightarrow> gerr option" where
  "missingPlan serviceOffering [] = None"
| "missingPlan serviceOffering ((plan, count) # counts) =
     (if \<not> snd (FindByID (off_Plans serviceOffering) (pl_UniqueID plan)) \<and> count > 0 then
        Some (ErrorString (''plan '' @ pl_Name plan @ '' ('' @ pl_UniqueID plan
          @ '') was expected but is now missing. You cannot remove or change the plan_id of a plan which has existing service instances''))
      else missingPlan serviceOffering counts)"

definition CFPlanConsistencyChecker_Check :: "nat \<Rightarrow> cfenv \<Rightarrow> Client \<Rightarrow> ServiceOffering \<Rightarrow> (gerr option) cf_m" where
  "CFPlanConsistencyChecker_Check n E cfc serviceOffering =
     attempt (CountInstancesOfServiceOffering n E cfc (off_ID serviceOffering)) (\<lambda>err. ret (Some err))
       (\<lambda>instanceCountByPlanID. ret (missingPlan serviceOffering instanceCountByPlanID))"

section \<open>The minimum versions (\<open>brokerinitiator/start.go\<close>)\<close>

definition MinimumCFVersion :: string where
  "MinimumCFVersion = ''2.57.0''"

definition MinimumMajorStemcellDirectorVersionForODB :: int where
  "MinimumMajorStemcellDirectorVersionForODB = 3262"

definition MinimumMajorSemverDirectorVersionForLifecycleErrands :: int where
  "MinimumMajorSemverDirectorVersionForLifecycleErrands = 261"

section \<open>What the director's version string says\<close>

lemma Fields_head:
  assumes "\<forall>c\<in>set s. \<not> is_space c" and "s \<noteq> []"
  shows "\<exists>ws. Fields (s @ CHR '' '' # t) = s # ws"
proof -
  from assms have "\<not> is_space (hd s)" by simp
  then have lead: "dropWhile is_space (s @ CHR '' '' # t) = s @ CHR '' '' # t" using assms(2) by (cases s) auto
  have "takeWhile (\<lambda>c. \<not> is_space c) (s @ CHR '' '' # t) = s"
    using assms(1) by (induction s) (auto simp: is_space_def)
  with lead assms(2) show ?thesis by (subst Fields.simps) (cases s; simp)
qed

lemma Split_count: "length (Split sep s) = n \<longleftrightarrow> Suc (count_list s sep) = n"
  by (simp add: Split_length)

lemma is_space_digit: "\<not> is_space CHR ''1''" "\<not> is_space CHR ''.''"
  by (simp_all add: is_space_def)

text \<open>A part with a sign in it is no number, so a dotted prerelease or build taken for a third number is refused.\<close>

lemma trimZeros_keeps: "c \<noteq> CHR ''0'' \<Longrightarrow> c \<in> set p \<Longrightarrow> c \<in> set (trimZeros p)"
proof -
  assume "c \<noteq> CHR ''0''" and "c \<in> set p"
  then have "c \<in> set (dropWhile (\<lambda>x. x = CHR ''0'') p)" by (induction p) auto
  with \<open>c \<in> set p\<close> show ?thesis by (auto simp: trimZeros_def Let_def)
qed

lemma parseNumber_sign: "c \<in> set p \<Longrightarrow> c \<notin> set numbers \<Longrightarrow> parseNumber p = None"
  unfolding parseNumber_def using containsOnly_no by auto

lemma trimZeros_subset: "set (trimZeros p) \<subseteq> insert CHR ''0'' (set p)"
proof -
  have "set (dropWhile (\<lambda>c. c = CHR ''0'') p) \<subseteq> set p" by (auto dest: set_dropWhileD)
  then show ?thesis by (auto simp: trimZeros_def Let_def)
qed

lemma SplitN_more:
  "CHR ''.'' \<notin> set a \<Longrightarrow> CHR ''.'' \<notin> set b \<Longrightarrow> SplitN (CHR ''.'') (join ''.'' [a, b, c]) 3 = [a, b, c]"
  using SplitN_3 [of "CHR ''.''" a b c] by simp

lemma signed_part_refused:
  assumes "CHR ''.'' \<notin> set a" and "CHR ''.'' \<notin> set b" and "c \<in> set b" and "c \<notin> set numbers"
    and "\<forall>x\<in>set (join ''.'' [a, b, d]). \<not> is_space x" and "a \<noteq> []" and "hd a \<noteq> CHR ''v''"
  shows "Semver.ParseTolerant (join ''.'' [a, b, d]) = None"
proof -
  let ?s = "join ''.'' [a, b, d]" and ?j = "join ''.'' [trimZeros a, trimZeros b, trimZeros d]"
  have "trim_prefix ?s ''v'' = ?s"
    using assms(6,7) by (cases a) (auto simp: trim_prefix_def has_prefix_def)
  then have "Semver.ParseTolerant ?s = Parse ?j"
    using TrimSpace_none [OF assms(5)] SplitN_more [OF assms(1,2), of d] by (simp add: Semver.ParseTolerant_def)
  moreover have "c \<noteq> CHR ''0''" using assms(4) by (auto simp: numbers_def)
  then have "parseNumber (trimZeros b) = None"
    using parseNumber_sign [OF trimZeros_keeps [OF _ assms(3)] assms(4)] by simp
  moreover have "SplitN (CHR ''.'') ?j 3 = [trimZeros a, trimZeros b, trimZeros d]"
    using assms(1,2) trimZeros_subset [of a] trimZeros_subset [of b] by (intro SplitN_more) auto
  ultimately show ?thesis by (simp add: Parse_def Let_def split: option.splits)
qed

text \<open>The parts of a printed version, cut at its dots\<close>

lemma Split_Version:
  assumes "wf_version v"
  shows "Split (CHR ''.'') (Version_String v) = FormatUint (Major v) # FormatUint (Minor v) # Split (CHR ''.'') (tail_String v)"
  unfolding Version_String_parts by (simp add: Split_append FormatUint_no not_number)

lemma tail_sign:
  assumes "CHR ''.'' \<in> set (tail_String v)"
  shows "\<exists>c\<in>{CHR ''-'', CHR ''+''}. c \<in> set (hd (Split (CHR ''.'') (tail_String v)))"
proof -
  have digits: "CHR ''.'' \<notin> set (FormatUint (Patch v))" by (simp add: FormatUint_no not_number)
  have first: "CHR ''.'' \<notin> set d \<Longrightarrow> c \<noteq> CHR ''.'' \<Longrightarrow> c \<in> set (hd (Split (CHR ''.'') (d @ c # rest)))" for d c rest
    by (induction d) (auto split: list.splits)
  show ?thesis
  proof (cases "Pre v = []")
    case False
    then show ?thesis using first [OF digits, of "CHR ''-''"] by (simp add: tail_String_def)
  next
    case True
    with assms digits have "Build v \<noteq> []" by (auto simp: tail_String_def)
    then show ?thesis using True first [OF digits, of "CHR ''+''"] by (simp add: tail_String_def)
  qed
qed

lemma newBoshDirectorVersion_word:
  assumes "\<forall>c\<in>set s. \<not> is_space c" and "s \<noteq> []"
  shows "newBoshDirectorVersion fmtq (s @ CHR '' '' # t) =
    (let unrecognised = (zero_directorVersion, Some (unrecognisedBoshDirectorVersionError fmtq (s @ CHR '' '' # t)));
         versionNumbers = Split (CHR ''.'') s;
         parsed = (\<lambda>versionType numbers. case Semver.ParseTolerant (join ''.'' numbers) of
              None \<Rightarrow> unrecognised
            | Some version \<Rightarrow> (\<lparr>dv_Version = version, dv_Type = versionType\<rparr>, None)) in
      if length versionNumbers = 3 \<or> length versionNumbers = 2 then parsed SemverDirectorVersionType versionNumbers
      else if length versionNumbers = 4 then parsed StemcellDirectorVersionType (take 3 (drop 1 versionNumbers))
      else unrecognised)"
  using Fields_head [OF assms, of t] by (auto simp: newBoshDirectorVersion_def Let_def)

lemma dotted_version_refused:
  assumes wf: "wf_version v" and dots: "\<not> (length (Pre v) \<le> 1 \<and> length (Build v) \<le> 1)"
  shows "newBoshDirectorVersion fmtq (Version_String v @ CHR '' '' # t) =
    (zero_directorVersion, Some (unrecognisedBoshDirectorVersionError fmtq (Version_String v @ CHR '' '' # t)))"
proof -
  let ?s = "Version_String v" and ?parts = "Split (CHR ''.'') (Version_String v)"
  have len: "length ?parts \<ge> 4" using Version_String_dots [OF wf] dots by (auto simp: Split_length)
  have refused: "length ?parts = 4 \<Longrightarrow> Semver.ParseTolerant (join ''.'' (take 3 (drop 1 ?parts))) = None"
  proof -
    assume "length ?parts = 4"
    then have "length (Split (CHR ''.'') (tail_String v)) = 2" by (simp add: Split_Version [OF wf])
    then obtain a b where ab: "Split (CHR ''.'') (tail_String v) = [a, b]"
      by (auto simp: length_Suc_conv numeral_2_eq_2)
    then have tail: "tail_String v = a @ ''.'' @ b" using join_Split [of "CHR ''.''" "tail_String v"] by simp
    then obtain c where c: "c \<in> set a" "c = CHR ''-'' \<or> c = CHR ''+''" using tail_sign [of v] ab by auto
    have a: "CHR ''.'' \<notin> set a"
      using Split_length [of "CHR ''.''" "tail_String v"] tail ab by (simp add: count_list_0_iff [symmetric])
    have "\<forall>x\<in>set (join ''.'' [FormatUint (Minor v), a, b]). \<not> is_space x"
      using Version_String_no_space [OF wf] by (auto simp: Version_String_parts tail)
    moreover have "hd (FormatUint (Minor v)) \<noteq> CHR ''v''" using FormatUint_hd [of "Minor v"] not_number(5) by auto
    moreover have "c \<notin> set numbers" using c(2) not_number by auto
    ultimately have "Semver.ParseTolerant (join ''.'' [FormatUint (Minor v), a, b]) = None"
      using signed_part_refused [OF FormatUint_no [OF not_number(1)] a c(1)] FormatUint_nonempty by blast
    then show ?thesis by (simp add: Split_Version [OF wf] ab)
  qed
  have "\<forall>c\<in>set ?s. \<not> is_space c" using Version_String_no_space [OF wf] by blast
  from newBoshDirectorVersion_word [OF this Version_String_hd(2)] len refused show ?thesis
    by (auto simp: Let_def)
qed

lemma director_version_roundtrip_lemma:
  assumes "wf_version v"
  shows "newBoshDirectorVersion fmtq (Version_String v @ '' '' @ t) =
      (if length (Pre v) \<le> 1 \<and> length (Build v) \<le> 1 then (\<lparr>dv_Version = v, dv_Type = ''semver''\<rparr>, None)
       else (zero_directorVersion, Some (unrecognisedBoshDirectorVersionError fmtq (Version_String v @ '' '' @ t))))
    \<and> newBoshDirectorVersion fmtq (''1.'' @ Version_String v @ '' '' @ t) =
      (if length (Pre v) \<le> 1 \<and> length (Build v) \<le> 1 then (\<lparr>dv_Version = v, dv_Type = ''stemcell''\<rparr>, None)
       else (zero_directorVersion, Some (unrecognisedBoshDirectorVersionError fmtq (''1.'' @ Version_String v @ '' '' @ t))))"
proof -
  let ?s = "Version_String v" and ?one = "''1.'' @ Version_String v"
  have space: "\<forall>c\<in>set ?s. \<not> is_space c" "\<forall>c\<in>set ?one. \<not> is_space c" "?one \<noteq> []"
    using Version_String_no_space [OF assms] by (auto simp: is_space_digit)
  have one: "Split (CHR ''.'') ?one = ''1'' # Split (CHR ''.'') ?s" by simp
  have dots: "count_list ?s (CHR ''.'') = 2 + (length (Pre v) - 1) + (length (Build v) - 1)"
    by (rule Version_String_dots [OF assms])
  show ?thesis
  proof (cases "length (Pre v) \<le> 1 \<and> length (Build v) \<le> 1")
    case True
    with dots have three: "length (Split (CHR ''.'') ?s) = 3" by (simp add: Split_length)
    then have "take 3 (drop 1 (Split (CHR ''.'') ?one)) = Split (CHR ''.'') ?s" by (simp add: one)
    then show ?thesis
      using True three newBoshDirectorVersion_word [OF space(1) Version_String_hd(2), of fmtq t]
        newBoshDirectorVersion_word [OF space(2,3), of fmtq t] ParseTolerant_String [OF assms]
      by (simp add: Let_def one join_Split SemverDirectorVersionType_def StemcellDirectorVersionType_def)
  next
    case False
    with dots have "length (Split (CHR ''.'') ?one) \<ge> 5" by (auto simp: one Split_length)
    with False show ?thesis
      using dotted_version_refused [OF assms False, of fmtq t] newBoshDirectorVersion_word [OF space(2,3), of fmtq t]
      by (auto simp: Let_def)
  qed
qed

text \<open>
  The version the director reports is read back exactly: a release version, or one with a
  prerelease and a build that have one part each, as a semantic version; the same after the leading number of a
  stemcell version as a stemcell version.  With more parts the version is not recognised, whatever it is.
\<close>

theorem director_version_roundtrip:
  assumes "wf_version v"
  shows "newBoshDirectorVersion fmtq (Version_String v @ '' '' @ t) =
      (if length (Pre v) \<le> 1 \<and> length (Build v) \<le> 1 then (\<lparr>dv_Version = v, dv_Type = ''semver''\<rparr>, None)
       else (zero_directorVersion, Some (unrecognisedBoshDirectorVersionError fmtq (Version_String v @ '' '' @ t))))
    \<and> newBoshDirectorVersion fmtq (''1.'' @ Version_String v @ '' '' @ t) =
      (if length (Pre v) \<le> 1 \<and> length (Build v) \<le> 1 then (\<lparr>dv_Version = v, dv_Type = ''stemcell''\<rparr>, None)
       else (zero_directorVersion, Some (unrecognisedBoshDirectorVersionError fmtq (''1.'' @ Version_String v @ '' '' @ t))))"
  using assms by (rule director_version_roundtrip_lemma)

section \<open>What the checks accept\<close>

definition release :: "64 word \<Rightarrow> 64 word \<Rightarrow> 64 word \<Rightarrow> Version" where
  "release major minor patch = \<lparr>Major = major, Minor = minor, Patch = patch, Pre = [], Build = []\<rparr>"

text \<open>The numbers of a version, as a release\<close>

definition core :: "Version \<Rightarrow> Version" where
  "core v = release (Major v) (Minor v) (Patch v)"

text \<open>From \<open>a\<close> on, and before \<open>b\<close>\<close>

definition between :: "Version \<Rightarrow> Version \<Rightarrow> Version \<Rightarrow> bool" where
  "between a b v \<longleftrightarrow> GE v a \<and> LT v b"

lemma GE_iff: "GE v w \<longleftrightarrow> Version_Compare w v \<le> 0"
  using semver.cmp_swap [of v w] by (simp add: GE_def)

lemma number_less: "(x :: 64 word) < y \<longleftrightarrow> uint x < uint y"
  by (rule word_less_def)

lemma number_eq: "(x :: 64 word) = y \<longleftrightarrow> uint x = uint y"
  by (rule word_uint_eq_iff)

lemma GE_core: "GE (core v) (release a b c) \<longleftrightarrow>
    uint a < uint (Major v) \<or> uint a = uint (Major v) \<and> (uint b < uint (Minor v) \<or> uint b = uint (Minor v) \<and> uint c \<le> uint (Patch v))"
  unfolding GE_iff Version_le_0 number_less number_eq by (simp add: core_def release_def) linarith

definition recreate_documented :: "Version \<Rightarrow> bool" where
  "recreate_documented v \<longleftrightarrow> GE v (release 268 4 0)
     \<or> between (release 266 15 0) (release 267 0 0) v \<or> between (release 267 9 0) (release 268 0 0) v
     \<or> between (release 268 2 2) (release 268 3 0) v"

definition bindingWithDNS_documented :: "Version \<Rightarrow> bool" where
  "bindingWithDNS_documented v \<longleftrightarrow> GE v (release 267 6 0) \<or> between (release 266 12 0) (release 267 0 0) v"

lemma recreate_numbers:
  "recreate_documented (core v) \<longleftrightarrow> \<not> (Major v < 266 \<or> (Major v = 266 \<and> Minor v < 15) \<or> (Major v = 267 \<and> Minor v < 9)
     \<or> (Major v = 268 \<and> (Minor v < 2 \<or> (Minor v = 2 \<and> Patch v < 2) \<or> Minor v = 3)))"
proof -
  have "0 \<le> uint (Minor v)" "0 \<le> uint (Patch v)" by simp_all
  then show ?thesis
    unfolding recreate_documented_def between_def LT_iff GE_core number_less number_eq by (simp, presburger)
qed

lemma bindingWithDNS_numbers:
  "bindingWithDNS_documented (core v) \<longleftrightarrow> \<not> (Major v < 266 \<or> (Major v = 266 \<and> Minor v < 12) \<or> (Major v = 267 \<and> Minor v < 6))"
proof -
  have "0 \<le> uint (Minor v)" "0 \<le> uint (Patch v)" by simp_all
  then show ?thesis
    unfolding bindingWithDNS_documented_def between_def LT_iff GE_core number_less number_eq by (simp, presburger)
qed

lemma GetDirectorVersion_accepted: "GetDirectorVersion fmtq boshInfo = (dv, None) \<longleftrightarrow> newBoshDirectorVersion fmtq (info_Version boshInfo) = (dv, None)"
  by (auto simp: GetDirectorVersion_def split: prod.splits option.splits)

lemma GetDirectorVersion_refused: "GetDirectorVersion fmtq boshInfo = (dv, Some err) \<Longrightarrow> dv = zero_directorVersion"
  by (auto simp: GetDirectorVersion_def split: prod.splits option.splits)

text \<open>
  The check before instances are recreated passes for exactly the director versions its message names: 266.15
  and later patch releases of 266, 267.9 and later of 267, 268.2.2 up to 268.3, and everything from 268.4 on.  A version
  that is not recognised fails.  Whether the version counts stemcells is not looked at.
\<close>

theorem recreate_check_passes_iff:
  "RecreateRuntimeChecker_Check fmtq boshInfo = None \<longleftrightarrow>
     (\<exists>dv. newBoshDirectorVersion fmtq (info_Version boshInfo) = (dv, None) \<and> recreate_documented (core (dv_Version dv)))"
proof (cases "GetDirectorVersion fmtq boshInfo")
  case (Pair dv err)
  show ?thesis
  proof (cases err)
    case None
    with Pair have "newBoshDirectorVersion fmtq (info_Version boshInfo) = (dv, None)" by (simp add: GetDirectorVersion_accepted)
    with Pair show ?thesis by (simp add: RecreateRuntimeChecker_Check_def recreate_numbers Let_def)
  next
    case (Some e)
    with Pair have "\<nexists>dv. newBoshDirectorVersion fmtq (info_Version boshInfo) = (dv, None)"
      by (simp flip: GetDirectorVersion_accepted)
    moreover have "dv = zero_directorVersion" using GetDirectorVersion_refused Pair Some by blast
    ultimately show ?thesis using Pair
      by (simp add: RecreateRuntimeChecker_Check_def Let_def zero_directorVersion_def zero_version_def)
  qed
qed

text \<open>A director that counts stemcells, which is older than all of these, passes.\<close>

lemma stemcell_director_recreates:
  "RecreateRuntimeChecker_Check fmtq (boshInfo\<lparr>info_Version := ''1.3262.0.0 (00000000)''\<rparr>) = None
   \<and> dv_Type (fst (GetDirectorVersion fmtq (boshInfo\<lparr>info_Version := ''1.3262.0.0 (00000000)''\<rparr>))) = StemcellDirectorVersionType"
proof -
  have "Version_String (release 3262 0 0) = ''3262.0.0''"
    by (simp add: Version_String_def release_def FormatUint_def show_nat.simps char_of_def bit_0)
  with director_version_roundtrip_lemma [of "release 3262 0 0" fmtq "''(00000000)''"]
  have "newBoshDirectorVersion fmtq ''1.3262.0.0 (00000000)'' = (\<lparr>dv_Version = release 3262 0 0, dv_Type = ''stemcell''\<rparr>, None)"
    by (simp add: wf_version_def release_def)
  then show ?thesis
    by (simp add: RecreateRuntimeChecker_Check_def GetDirectorVersion_def release_def StemcellDirectorVersionType_def Let_def)
qed

lemma director_check_passes_iff_lemma:
  "BOSHDirectorVersionChecker_Check fmtq c = None \<longleftrightarrow>
     (\<exists>v kind. newBoshDirectorVersion fmtq (info_Version (c_boshInfo c)) = (\<lparr>dv_Version = v, dv_Type = kind\<rparr>, None)
        \<and> (kind = ''semver'' \<or> minimumMajorStemcellDirectorVersionForODB c \<le> sint (Major v))
        \<and> (HasBindingWithDNSConfigured (c_serviceCatalog c) \<longrightarrow> kind = ''semver'' \<and> bindingWithDNS_documented (core v))
        \<and> (HasLifecycleErrands (c_serviceCatalog c) \<longrightarrow> kind = ''semver''
             \<and> minimumMajorSemverDirectorVersionForLifecycleErrands c \<le> sint (Major v)))"
proof (cases "newBoshDirectorVersion fmtq (info_Version (c_boshInfo c))")
  case (Pair dv err)
  show ?thesis
  proof (cases err)
    case None
    obtain v kind where dv: "dv = \<lparr>dv_Version = v, dv_Type = kind\<rparr>" by (cases dv) simp
    have dns: "directorVersionSufficientForBindingWithDNS dv \<longleftrightarrow> kind = ''semver'' \<and> bindingWithDNS_documented (core v)"
      by (simp add: directorVersionSufficientForBindingWithDNS_def dv SemverDirectorVersionType_def bindingWithDNS_numbers Let_def)
    have "GetDirectorVersion fmtq (c_boshInfo c) = (dv, None)" using Pair None by (simp add: GetDirectorVersion_accepted)
    then show ?thesis using Pair None
      by (simp add: BOSHDirectorVersionChecker_Check_def dns [unfolded dv] directorVersionSufficientForODB_def
          directorVersionSufficientForLifecycleErrands_def SemverDirectorVersionType_def dv) blast
  next
    case (Some e)
    with Pair have "GetDirectorVersion fmtq (c_boshInfo c) = (zero_directorVersion, Some e)" by (simp add: GetDirectorVersion_def)
    then show ?thesis using Pair Some by (simp add: BOSHDirectorVersionChecker_Check_def)
  qed
qed

text \<open>
  The startup check of the director passes for exactly the directors that can do what the catalog needs: any
  semantic version, or a stemcell version from the minimum on; for bindings with DNS a semantic version from 266.12
  or 267.6 on; for life-cycle errands a semantic version from the minimum on.
\<close>

theorem director_check_passes_iff:
  "BOSHDirectorVersionChecker_Check fmtq c = None \<longleftrightarrow>
     (\<exists>v kind. newBoshDirectorVersion fmtq (info_Version (c_boshInfo c)) = (\<lparr>dv_Version = v, dv_Type = kind\<rparr>, None)
        \<and> (kind = ''semver'' \<or> minimumMajorStemcellDirectorVersionForODB c \<le> sint (Major v))
        \<and> (HasBindingWithDNSConfigured (c_serviceCatalog c) \<longrightarrow> kind = ''semver'' \<and> bindingWithDNS_documented (core v))
        \<and> (HasLifecycleErrands (c_serviceCatalog c) \<longrightarrow> kind = ''semver''
             \<and> minimumMajorSemverDirectorVersionForLifecycleErrands c \<le> sint (Major v)))"
  by (rule director_check_passes_iff_lemma)

section \<open>The plans that Cloud Foundry has instances of\<close>

lemma found_plan: "snd (FindByID plans i) \<longleftrightarrow> i \<in> plan_ID ` set plans"
  by (induction plans) auto

lemma missingPlan_None:
  "missingPlan offering counts = None \<longleftrightarrow> (\<forall>(p, k)\<in>set counts. 0 < k \<longrightarrow> pl_UniqueID p \<in> plan_ID ` set (off_Plans offering))"
  by (induction counts) (auto simp: found_plan split: if_splits)

text \<open>
  \<open>counted E c plans insts\<close>: the first page of each plan's instances has as many in its total as the plan has.
\<close>

definition counted :: "cfenv \<Rightarrow> Client \<Rightarrow> cfplan list \<Rightarrow> (cfplan \<Rightarrow> cfinstance list) \<Rightarrow> bool" where
  "counted E c plans insts \<longleftrightarrow> (\<forall>p\<in>set plans. \<exists>pg. pg_TotalResults pg = int (length (insts p))
     \<and> answers E (cf_url c @ pl_ServiceInstancesUrl p @ ''?'' @ perPage) (decodePage decodeInstanceResource zero_instance) pg)"

lemma countPlans_counted:
  assumes "counted E c plans insts"
  shows "\<exists>s'. countPlans E c plans out s = (Val (Inr (foldl (\<lambda>m p. AList.update p (int (length (insts p))) m) out plans)), s')"
  using assms
proof (induction plans arbitrary: out s)
  case (Cons p plans)
  from Cons.prems obtain pg where pg: "pg_TotalResults pg = int (length (insts p))"
      "answers E (cf_url c @ pl_ServiceInstancesUrl p @ ''?'' @ perPage) (decodePage decodeInstanceResource zero_instance) pg"
    by (auto simp: counted_def)
  obtain s1 where "cf_read E (cf_url c @ pl_ServiceInstancesUrl p @ ''?'' @ perPage)
      (decodePage decodeInstanceResource zero_instance) emptyPage s = (Val (Inr pg), s1)"
    using answers_read [OF pg(2)] by blast
  with pg(1) Cons.IH [of "AList.update p (int (length (insts p))) out" s1] Cons.prems show ?case
    by (simp add: countServiceInstancesOfServicePlan_def counted_def run)
qed (simp add: run)

lemma counts_map: "map_of (foldl (\<lambda>m p. AList.update p (f p) m) out plans)
    = (\<lambda>p. if p \<in> set plans then Some (f p) else map_of out p)"
  by (induction plans arbitrary: out) (auto simp: update_conv')

lemma counts_distinct: "distinct (map fst out) \<Longrightarrow> distinct (map fst (foldl (\<lambda>m p. AList.update p (f p) m) out plans))"
  by (induction plans arbitrary: out) (auto simp: distinct_update)

lemma counts_set: "set (foldl (\<lambda>m p. AList.update p (f p) m) [] plans) = (\<lambda>p. (p, f p)) ` set plans"
proof -
  let ?m = "foldl (\<lambda>m p. AList.update p (f p) m) [] plans"
  have d: "distinct (map fst ?m)" by (rule counts_distinct) simp
  have "(p, k) \<in> set ?m \<longleftrightarrow> p \<in> set plans \<and> k = f p" for p k
    using map_of_eq_Some_iff [OF d, of p k] by (auto simp: counts_map split: if_splits)
  then show ?thesis by auto
qed

text \<open>
  Against a Cloud Foundry that stays as it is, the consistency check passes exactly when every plan that has
  an instance is still in the broker's catalog.  It always returns.
\<close>

theorem plan_check_passes_iff:
  assumes "offers E c n (off_ID offering) plans insts" and "counted E c plans insts"
  shows "(fst (CFPlanConsistencyChecker_Check n E c offering s) = Val None
       \<longleftrightarrow> (\<forall>p\<in>set plans. insts p \<noteq> [] \<longrightarrow> pl_UniqueID p \<in> plan_ID ` set (off_Plans offering)))
    \<and> (\<exists>r. fst (CFPlanConsistencyChecker_Check n E c offering s) = Val r)"
proof -
  obtain s1 where s1: "getPlansForServiceID n E c (off_ID offering) s = (Val (Inr plans), s1)"
    using getPlans_offers [OF assms(1)] by blast
  let ?counts = "foldl (\<lambda>m p. AList.update p (int (length (insts p))) m) [] plans"
  obtain s2 where "countPlans E c plans [] s1 = (Val (Inr ?counts), s2)"
    using countPlans_counted [OF assms(2)] by blast
  with s1 have "CFPlanConsistencyChecker_Check n E c offering s = (Val (missingPlan offering ?counts), s2)"
    by (simp add: CFPlanConsistencyChecker_Check_def CountInstancesOfServiceOffering_def run)
  then show ?thesis by (simp add: missingPlan_None counts_set)
qed

section \<open>When the checks against Cloud Foundry pass\<close>

lemma cf_version_passes:
  assumes "Parse minimum = Some m"
  shows "CFAPIVersionChecker_Check E c minimum s = (Val None, s1)
    \<longleftrightarrow> (\<exists>raw v. GetAPIVersion E c s = (Val (Inr raw), s1) \<and> Parse raw = Some v \<and> GE v m)"
  using assms by (auto simp: CFAPIVersionChecker_Check_def run LT_iff split: prod.splits outcome.splits sum.splits option.splits)

lemma cf_plans_pass:
  "CFPlanConsistencyChecker_Check n E c offering s = (Val None, s1)
    \<longleftrightarrow> (\<exists>counts. CountInstancesOfServiceOffering n E c (off_ID offering) s = (Val (Inr counts), s1)
          \<and> (\<forall>(p, k)\<in>set counts. 0 < k \<longrightarrow> pl_UniqueID p \<in> plan_ID ` set (off_Plans offering)))"
  by (auto simp: CFPlanConsistencyChecker_Check_def run missingPlan_None split: prod.splits outcome.splits sum.splits)

lemma returned_check [simp]: "ret r s = (Val None, s1) \<longleftrightarrow> r = None \<and> s1 = s"
  by (auto simp: run)

lemma auth_passes: "BOSHAuthChecker_Check r = None \<longleftrightarrow> r = None"
  by (simp add: BOSHAuthChecker_Check_def split: option.splits)

section \<open>The checks on samples\<close>

lemma release_wf: "wf_version (release a b c)"
  by (simp add: wf_version_def release_def)

lemma release_String: "Version_String (release a b c) = FormatUint a @ ''.'' @ FormatUint b @ ''.'' @ FormatUint c"
  by (simp add: Version_String_def release_def)

lemmas show_number = FormatUint_def show_nat.simps char_of_def bit_0

text \<open>A release with a director's build stamp is read as that release.\<close>

lemma read_release:
  "newBoshDirectorVersion fmtq (Version_String (release a b c) @ '' '' @ t) = (\<lparr>dv_Version = release a b c, dv_Type = ''semver''\<rparr>, None)"
  using director_version_roundtrip_lemma [OF release_wf, of fmtq a b c t] by (simp add: release_def)

lemma core_release [simp]: "core (release a b c) = release a b c"
  by (simp add: core_def release_def)

theorem director_version_roundtrip_witness:
  "newBoshDirectorVersion (\<lambda>s. s) ''268.4.0-rc (00000000)''
     = (\<lparr>dv_Version = (release 268 4 0)\<lparr>Pre := [\<lparr>VersionStr = ''rc'', VersionNum = 0, IsNum = False\<rparr>]\<rparr>, dv_Type = ''semver''\<rparr>, None)"
proof -
  let ?v = "(release 268 4 0)\<lparr>Pre := [\<lparr>VersionStr = ''rc'', VersionNum = 0, IsNum = False\<rparr>]\<rparr>"
  have "wf_version ?v"
    by (simp add: wf_version_def wf_part_def release_def containsOnly_def alphanum_def numbers_def)
  moreover have "Version_String ?v = ''268.4.0-rc''"
    by (simp add: Version_String_def release_def PRVersion_String_def show_number)
  ultimately show ?thesis
    using director_version_roundtrip [of ?v "\<lambda>s. s" "''(00000000)''"] by (simp add: release_def)
qed

definition demanding_offering :: ServiceOffering where
  "demanding_offering = sample_offering\<lparr>off_Plans := [errand_plan\<lparr>plan_ID := ''small'', plan_BindingWithDNS :=
     [\<lparr>dns_Name = ''leader'', dns_LinkProvider = ''link'', dns_InstanceGroup = ''db'', dns_AZS = [], dns_Status = []\<rparr>]\<rparr>]\<rparr>"

definition director_checker :: "string \<Rightarrow> BOSHDirectorVersionChecker" where
  "director_checker version = \<lparr>minimumMajorStemcellDirectorVersionForODB = 3262,
     minimumMajorSemverDirectorVersionForLifecycleErrands = 261,
     c_boshInfo = \<lparr>info_Version = version, info_UaaURL = []\<rparr>, c_serviceCatalog = demanding_offering\<rparr>"

lemma demanding: "HasBindingWithDNSConfigured demanding_offering" "HasLifecycleErrands demanding_offering"
    "off_ID demanding_offering = ''svc''" "plan_ID ` set (off_Plans demanding_offering) = {''small''}"
  by (simp_all add: demanding_offering_def HasBindingWithDNSConfigured_def HasLifecycleErrands_def errand_plan_def sample_offering_def)

lemma releases_documented: "bindingWithDNS_documented (release 266 12 0)" "\<not> bindingWithDNS_documented (release 267 5 0)"
  by (simp_all add: bindingWithDNS_documented_def between_def GE_def LT_def Version_Compare_def release_def)

lemma release_read:
  "newBoshDirectorVersion fmtq ''266.12.0 (0)'' = (\<lparr>dv_Version = release 266 12 0, dv_Type = ''semver''\<rparr>, None)"
  "newBoshDirectorVersion fmtq ''267.5.0 (0)'' = (\<lparr>dv_Version = release 267 5 0, dv_Type = ''semver''\<rparr>, None)"
  using read_release [of fmtq 266 12 0 "''(0)''"] read_release [of fmtq 267 5 0 "''(0)''"]
  by (simp_all add: release_String show_number)

theorem director_check_passes_iff_witness:
  "BOSHDirectorVersionChecker_Check (\<lambda>s. s) (director_checker ''266.12.0 (0)'') = None
   \<and> BOSHDirectorVersionChecker_Check (\<lambda>s. s) (director_checker ''267.5.0 (0)'') \<noteq> None"
  unfolding director_check_passes_iff
  by (simp add: director_checker_def release_read releases_documented demanding) (simp add: release_def)

text \<open>The sample Cloud Foundry has one instance of the plan \<open>small\<close>.\<close>

abbreviation foundry :: cfenv where
  "foundry \<equiv> foundry_env ''delete'' ''failed''"

lemma foundry_counted:
  "counted foundry foundry_client [small_plan] (\<lambda>_. [zero_instance\<lparr>si_GUID := ''i1'', si_SpaceGUID := ''space''\<rparr>])"
proof -
  have "answers foundry ''/v2/service_plans/p1/service_instances?results-per-page=100'' (decodePage decodeInstanceResource zero_instance)
      (emptyPage\<lparr>pg_TotalResults := 1, pg_Resources := [zero_instance\<lparr>si_GUID := ''i1'', si_SpaceGUID := ''space''\<rparr>]\<rparr>)"
    using instances_page by (simp add: answers_def foundry_env_def foundry_do_def resources_def okJson_def Let_def)
  then show ?thesis
    unfolding counted_def small_plan_def
    by (auto intro!: exI [of _ "emptyPage\<lparr>pg_TotalResults := 1, pg_Resources := [zero_instance\<lparr>si_GUID := ''i1'', si_SpaceGUID := ''space''\<rparr>]\<rparr>"])
qed

theorem plan_check_passes_iff_witness:
  "fst (CFPlanConsistencyChecker_Check 3 foundry foundry_client demanding_offering no_events) = Val None
   \<and> fst (CFPlanConsistencyChecker_Check 3 foundry foundry_client (demanding_offering\<lparr>off_Plans := []\<rparr>) no_events) \<noteq> Val None"
proof -
  have "offers foundry foundry_client 3 (off_ID demanding_offering) [small_plan]
      (\<lambda>_. [zero_instance\<lparr>si_GUID := ''i1'', si_SpaceGUID := ''space''\<rparr>])"
    using foundry_offers by (simp add: demanding)
  with plan_check_passes_iff [OF _ foundry_counted, of 3 demanding_offering no_events]
    plan_check_passes_iff [OF _ foundry_counted, of 3 "demanding_offering\<lparr>off_Plans := []\<rparr>" no_events]
  show ?thesis by (simp add: demanding small_plan_def)
qed

lemma foundry_version: "\<exists>s1. GetAPIVersion foundry foundry_client no_events = (Val (Inr ''2.164.0''), s1)"
  by (simp add: GetAPIVersion_def cf_get_def exchange_def run foundry_env_def foundry_do_def okJson_def readResponse_def
      unmarshalBody_def decodeInfo_def zero_info_def key_is_code)

end
