(* ===== verification/AuthHeader.thy ===== *)
theory AuthHeader
  imports CFClient Mgmtapi
begin

text \<open>
  The headers that authorize a request: \<open>authorizationheader/*.go\<close>, and the side that checks them, the
  vendored \<open>brokerapi/auth\<close>, with what both use of the standard library (\<open>encoding/base64\<close>,
  \<open>http.Request.BasicAuth\<close>).  SHA-256 is a parameter.

  A builder with a token asks UAA for one, and keeps it until ten seconds before it expires.  Reading the clock
  is a call that leaves the process, so the theorems hold for every clock.  Times and durations are in
  nanoseconds; \<open>time.Second * time.Duration(n)\<close> has 64 bits.
\<close>

section \<open>Base 64\<close>

definition sextetChar :: "nat \<Rightarrow> char" where
  "sextetChar n = (if n < 26 then char_of (65 + n) else if n < 52 then char_of (71 + n)
     else if n < 62 then char_of (n - 4) else if n = 62 then CHR ''+'' else CHR ''/'')"

definition charSextet :: "char \<Rightarrow> nat option" where
  "charSextet c = (let n = of_char c :: nat in
     if 65 \<le> n \<and> n \<le> 90 then Some (n - 65) else if 97 \<le> n \<and> n \<le> 122 then Some (n - 71)
     else if 48 \<le> n \<and> n \<le> 57 then Some (n + 4) else if n = 43 then Some 62 else if n = 47 then Some 63 else None)"

text \<open>\<open>base64.StdEncoding\<close>\<close>

fun base64Encode :: "string \<Rightarrow> string" where
  "base64Encode [] = []"
| "base64Encode [a] = (let x = of_char a :: nat in
     [sextetChar (x div 4), sextetChar (x mod 4 * 16), CHR ''='', CHR ''=''])"
| "base64Encode [a, b] = (let x = of_char a :: nat; y = of_char b :: nat in
     [sextetChar (x div 4), sextetChar (x mod 4 * 16 + y div 16), sextetChar (y mod 16 * 4), CHR ''=''])"
| "base64Encode (a # b # c # rest) = (let x = of_char a :: nat; y = of_char b :: nat; z = of_char c :: nat in
     [sextetChar (x div 4), sextetChar (x mod 4 * 16 + y div 16), sextetChar (y mod 16 * 4 + z div 64), sextetChar (z mod 64)]
     @ base64Encode rest)"

fun decodeQuads :: "string \<Rightarrow> string option" where
  "decodeQuads [] = Some []"
| "decodeQuads (a # b # c # d # rest) = (case (charSextet a, charSextet b) of
      (Some i, Some j) \<Rightarrow>
        if c = CHR ''='' then (if d = CHR ''='' \<and> rest = [] then Some [char_of (i * 4 + j div 16)] else None)
        else (case charSextet c of None \<Rightarrow> None
          | Some k \<Rightarrow>
              if d = CHR ''='' then
                (if rest = [] then Some [char_of (i * 4 + j div 16), char_of (j mod 16 * 16 + k div 4)] else None)
              else (case charSextet d of None \<Rightarrow> None
                | Some l \<Rightarrow> map_option (\<lambda>bs. char_of (i * 4 + j div 16) # char_of (j mod 16 * 16 + k div 4)
                    # char_of (k mod 4 * 64 + l) # bs) (decodeQuads rest)))
    | _ \<Rightarrow> None)"
| "decodeQuads _ = None"

definition base64Decode :: "string \<Rightarrow> string option" where
  "base64Decode s = decodeQuads (filter (\<lambda>c. c \<noteq> CHR 0x0A \<and> c \<noteq> CHR 0x0D) s)"

section \<open>Basic authentication\<close>

definition basicAuthText :: "string \<Rightarrow> string \<Rightarrow> string" where
  "basicAuthText username password = ''Basic '' @ base64Encode (username @ '':'' @ password)"

text \<open>\<open>request.Header.Add\<close>\<close>

definition addHeader :: "string \<Rightarrow> string \<Rightarrow> HttpRequest \<Rightarrow> HttpRequest" where
  "addHeader k v request = request\<lparr>rq_Headers := rq_Headers request @ [(k, v)]\<rparr>"

text \<open>\<open>r.BasicAuth()\<close>\<close>

definition parseBasicAuth :: "string \<Rightarrow> (string \<times> string) option" where
  "parseBasicAuth auth =
     (if length auth < 6 \<or> map lower (take 6 auth) \<noteq> ''basic '' then None
      else (case base64Decode (drop 6 auth) of None \<Rightarrow> None
        | Some cs \<Rightarrow> (case dropWhile (\<lambda>c. c \<noteq> CHR '':'') cs of [] \<Rightarrow> None
            | _ # password \<Rightarrow> Some (takeWhile (\<lambda>c. c \<noteq> CHR '':'') cs, password))))"

definition BasicAuth :: "HttpRequest \<Rightarrow> (string \<times> string) option" where
  "BasicAuth r = (case map_of (rq_Headers r) ''Authorization'' of None \<Rightarrow> None
     | Some auth \<Rightarrow> if auth = [] then None else parseBasicAuth auth)"

record Credential =
  cred_username :: string
  cred_password :: string

definition NewWrapper :: "(string \<Rightarrow> string) \<Rightarrow> string \<Rightarrow> string \<Rightarrow> Credential list" where
  "NewWrapper sha256 username password = [\<lparr>cred_username = sha256 username, cred_password = sha256 password\<rparr>]"

definition isAuthorized :: "Credential \<Rightarrow> string \<Rightarrow> string \<Rightarrow> bool" where
  "isAuthorized c uChecksum pChecksum \<longleftrightarrow> cred_username c = uChecksum \<and> cred_password c = pChecksum"

definition authorized :: "(string \<Rightarrow> string) \<Rightarrow> Credential list \<Rightarrow> HttpRequest \<Rightarrow> bool" where
  "authorized sha256 wrapper r = (case BasicAuth r of None \<Rightarrow> False
     | Some (username, password) \<Rightarrow> list_ex (\<lambda>c. isAuthorized c (sha256 username) (sha256 password)) wrapper)"

text \<open>\<open>Wrap\<close>: the handler is a computation over any state; \<open>denied\<close> is the reply 401.\<close>

definition Wrap :: "(string \<Rightarrow> string) \<Rightarrow> Credential list \<Rightarrow> 'r \<Rightarrow> (HttpRequest \<Rightarrow> ('s, 'r) go) \<Rightarrow> HttpRequest \<Rightarrow> ('s, 'r) go" where
  "Wrap sha256 wrapper denied handler r = (if \<not> authorized sha256 wrapper r then ret denied else handler r)"

section \<open>Tokens\<close>

datatype tevent = TokenLock | TokenUnlock | TNow int | TDo HttpRequest "gerr + HttpResponse"

text \<open>
  \<open>tk_urlError\<close> is the check of the URL by \<open>http.NewRequest\<close>, \<open>fmtGrant\<close> the rendering \<open>%#v\<close> of a grant without a
  token.
\<close>

record tokenenv =
  o_Now :: "tevent list \<Rightarrow> int"
  o_TokenDo :: "tevent list \<Rightarrow> HttpRequest \<Rightarrow> gerr + HttpResponse"
  tk_urlError :: "string \<Rightarrow> gerr option"
  fmtGrant :: "int \<Rightarrow> string"

record tokenstate = "tevent gstate" +
  cachedToken :: string
  cachedTokenExpiry :: int

type_synonym 'a token_m = "tokenstate \<Rightarrow> 'a outcome \<times> tokenstate"

text \<open>The zero of \<open>time.Time\<close>, the year 1, and a second\<close>

definition zeroTime :: int where
  "zeroTime = - 62135596800000000000"

definition Second :: int where
  "Second = 1000000000"

definition MinimumRemainingValidity :: int where
  "MinimumRemainingValidity = Second * 10"

record ObtainTokenResponse =
  ot_Token :: string
  ot_ExpiresInSeconds :: int

definition decodeGrant :: "json \<Rightarrow> ObtainTokenResponse \<Rightarrow> gerr + ObtainTokenResponse" where
  "decodeGrant = decodeStruct ''ObtainTokenResponse'' (\<lambda>k j g.
     if key_is k ''access_token'' then map_sum id (\<lambda>s. g\<lparr>ot_Token := s\<rparr>) (decodeStr k j (ot_Token g))
     else if key_is k ''expires_in'' then map_sum id (\<lambda>n. g\<lparr>ot_ExpiresInSeconds := n\<rparr>) (decodeInt k j (ot_ExpiresInSeconds g))
     else Inr g)"

definition trimLineEnds :: "string \<Rightarrow> string" where
  "trimLineEnds s = rev (dropWhile (\<lambda>c. c = CHR 0x0D \<or> c = CHR 0x0A) (rev s))"

definition checkUrls :: string where
  "checkUrls = ''. Please ensure that the UAA urls and credentials under properties.<broker-job> are correct and ''"

text \<open>What \<open>doObtainTokenRequest\<close> reads off a response\<close>

definition readGrant :: "tokenenv \<Rightarrow> HttpResponse \<Rightarrow> gerr + string \<times> int" where
  "readGrant E response =
     (if rs_StatusCode response \<noteq> 200 then
        Inl (ErrorString (''Error authenticating ('' @ show_int (rs_StatusCode response) @ ''): ''
          @ trimLineEnds (rs_Text response) @ checkUrls @ ''try again.''))
      else (case decodeBody (\<lambda>j. decodeGrant j \<lparr>ot_Token = [], ot_ExpiresInSeconds = 0\<rparr>) (rs_Json response) of
          Inl err \<Rightarrow> Inl err
        | Inr responseContent \<Rightarrow>
            if ot_Token responseContent = [] then
              Inl (ErrorString (''no access token in grant '' @ fmtGrant E (ot_ExpiresInSeconds responseContent)))
            else Inr (ot_Token responseContent, ot_ExpiresInSeconds responseContent)))"

definition doObtainTokenRequest :: "tokenenv \<Rightarrow> HttpRequest \<Rightarrow> (gerr + string \<times> int) token_m" where
  "doObtainTokenRequest E request =
     attempt (ext_call (\<lambda>h. o_TokenDo E h request) (TDo request))
       (\<lambda>err. ret (Inl (ErrorString (''Error reaching UAA: '' @ errmsg err @ checkUrls @ ''reachable.''))))
       (\<lambda>response. ret (readGrant E response))"

definition buildTokenRequest :: "tokenenv \<Rightarrow> string \<Rightarrow> string \<Rightarrow> string \<Rightarrow> string \<Rightarrow> gerr + HttpRequest" where
  "buildTokenRequest E requestBody uaaURL clientID clientSecret =
     (let url = uaaURL @ ''/oauth/token'' in
      case tk_urlError E url of Some err \<Rightarrow> Inl err
      | None \<Rightarrow> Inr \<lparr>rq_Method = ''POST'', rq_URL = url,
          rq_Headers = [(''Content-type'', ''application/x-www-form-urlencoded''),
            (''Authorization'', basicAuthText clientID clientSecret)],
          rq_Body = requestBody\<rparr>)"

definition tokenExpired :: "tokenenv \<Rightarrow> string \<Rightarrow> int \<Rightarrow> bool token_m" where
  "tokenExpired E token tokenExpiry =
     (if token = [] then ret True else seq (ext_call (o_Now E) TNow) (\<lambda>now. ret (tokenExpiry < now)))"

definition getNewToken :: "tokenenv \<Rightarrow> (gerr + string \<times> int) token_m \<Rightarrow> (gerr + string \<times> int) token_m" where
  "getNewToken E obtainTokenFunction =
     attempt obtainTokenFunction (\<lambda>err. ret (Inl err)) (\<lambda>(token, expiresInSeconds).
     seq (ext_call (o_Now E) TNow) (\<lambda>now.
     ret (Inr (token, now + wrap64 (Second * expiresInSeconds) + MinimumRemainingValidity * -1))))"

definition getValidToken :: "tokenenv \<Rightarrow> string \<Rightarrow> int \<Rightarrow> (gerr + string \<times> int) token_m \<Rightarrow> (gerr + string \<times> int) token_m" where
  "getValidToken E token tokenExpiry obtainTokenFunction =
     seq (tokenExpired E token tokenExpiry) (\<lambda>expired.
     if expired then getNewToken E obtainTokenFunction else ret (Inr (token, tokenExpiry)))"

definition bearerToken :: "string \<Rightarrow> string" where
  "bearerToken token = ''Bearer '' @ token"

text \<open>\<open>AddAuthHeader\<close> of the two builders with a token; on an error both fields of the cache are cleared.\<close>

definition addTokenHeader :: "tokenenv \<Rightarrow> (gerr + string \<times> int) token_m \<Rightarrow> HttpRequest \<Rightarrow> (gerr + HttpRequest) token_m" where
  "addTokenHeader E obtainToken request = with_lock TokenLock TokenUnlock
     (seq (read_state (\<lambda>s. (cachedToken s, cachedTokenExpiry s))) (\<lambda>(token, tokenExpiry).
      attempt (getValidToken E token tokenExpiry obtainToken)
        (\<lambda>err. seq (write_state (\<lambda>s. s\<lparr>cachedToken := [], cachedTokenExpiry := zeroTime\<rparr>)) (\<lambda>_. ret (Inl err)))
        (\<lambda>(token, tokenExpiry).
           seq (write_state (\<lambda>s. s\<lparr>cachedToken := token, cachedTokenExpiry := tokenExpiry\<rparr>)) (\<lambda>_.
           ret (Inr (addHeader ''Authorization'' (bearerToken token) request))))))"

section \<open>The builders\<close>

record ClientTokenAuthHeaderBuilder =
  hb_uaaURL :: string
  hb_clientID :: string
  hb_clientSecret :: string

record UserTokenAuthHeaderBuilder = ClientTokenAuthHeaderBuilder +
  hb_username :: string
  hb_password :: string

definition client_obtainToken :: "tokenenv \<Rightarrow> ClientTokenAuthHeaderBuilder \<Rightarrow> (gerr + string \<times> int) token_m" where
  "client_obtainToken E hb =
     (case buildTokenRequest E ''grant_type=client_credentials'' (hb_uaaURL hb) (hb_clientID hb) (hb_clientSecret hb) of
       Inl err \<Rightarrow> ret (Inl err) | Inr request \<Rightarrow> doObtainTokenRequest E request)"

definition user_obtainToken :: "tokenenv \<Rightarrow> UserTokenAuthHeaderBuilder \<Rightarrow> (gerr + string \<times> int) token_m" where
  "user_obtainToken E hb =
     (case buildTokenRequest E (''grant_type=password&username='' @ hb_username hb @ ''&password='' @ hb_password hb)
         (hb_uaaURL hb) (hb_clientID hb) (hb_clientSecret hb) of
       Inl err \<Rightarrow> ret (Inl err) | Inr request \<Rightarrow> doObtainTokenRequest E request)"

text \<open>The types that implement \<open>AuthHeaderBuilder\<close>\<close>

datatype AuthHeaderBuilder = NoAuth | BasicAuthBuilder string string
  | ClientTokenBuilder ClientTokenAuthHeaderBuilder | UserTokenBuilder UserTokenAuthHeaderBuilder

fun AddAuthHeader :: "tokenenv \<Rightarrow> AuthHeaderBuilder \<Rightarrow> HttpRequest \<Rightarrow> (gerr + HttpRequest) token_m" where
  "AddAuthHeader E NoAuth request = ret (Inr request)"
| "AddAuthHeader E (BasicAuthBuilder username password) request =
     ret (Inr (addHeader ''Authorization'' (basicAuthText username password) request))"
| "AddAuthHeader E (ClientTokenBuilder hb) request = addTokenHeader E (client_obtainToken E hb) request"
| "AddAuthHeader E (UserTokenBuilder hb) request = addTokenHeader E (user_obtainToken E hb) request"

section \<open>The header a client writes is the one the broker checks\<close>

lemma sextet_roundtrip [simp]: "n < 64 \<Longrightarrow> charSextet (sextetChar n) = Some n"
  by (auto simp: charSextet_def sextetChar_def Let_def)

lemma sextet_code: "n < 64 \<Longrightarrow> (of_char (sextetChar n) :: nat) \<notin> {61, 10, 13}"
  by (auto simp: sextetChar_def)

lemma sextetChar_no [simp]:
  assumes "n < 64"
  shows "sextetChar n \<noteq> CHR ''=''" "sextetChar n \<noteq> CHR 0x0A" "sextetChar n \<noteq> CHR 0x0D"
  using sextet_code [OF assms] by auto

text \<open>Sextets put together and taken apart\<close>

lemma packed:
  fixes a b :: nat
  shows "b < 16 \<Longrightarrow> (a * 16 + b) div 16 = a" "b < 16 \<Longrightarrow> (a * 16 + b) mod 16 = b"
    "b < 4 \<Longrightarrow> (a * 4 + b) div 4 = a" "b < 4 \<Longrightarrow> (a * 4 + b) mod 4 = b"
  by simp_all

lemma byte_parts:
  "(of_char c :: nat) div 4 < 64" "(of_char c :: nat) div 16 < 16" "(of_char c :: nat) div 64 < 4"
  using of_char_less [of c] by (simp_all add: less_mult_imp_div_less)

lemma quad_bounds [simp]:
  fixes n :: nat
  shows "(of_char a :: nat) div 4 < 64" "n mod 4 * 16 < 64" "n mod 16 * 4 < 64" "n mod 64 < 64"
    "n mod 4 * 16 + (of_char a :: nat) div 16 < 64" "n mod 16 * 4 + (of_char a :: nat) div 64 < 64"
proof -
  have m: "n mod 4 < 4" "n mod 16 < 16" by simp_all
  then show "n mod 4 * 16 < 64" "n mod 16 * 4 < 64" by linarith+
  show "n mod 4 * 16 + (of_char a :: nat) div 16 < 64" using m(1) byte_parts(2) [of a] by linarith
  show "n mod 16 * 4 + (of_char a :: nat) div 64 < 64" using m(2) byte_parts(3) [of a] by linarith
qed (simp_all add: byte_parts)

lemma decode_step:
  "decodeQuads (base64Encode (a # b # c # rest)) = map_option (\<lambda>bs. a # b # c # bs) (decodeQuads (base64Encode rest))"
  by (simp add: Let_def packed byte_parts)

lemma decodeQuads_Encode: "decodeQuads (base64Encode s) = Some s"
  by (induction s rule: base64Encode.induct) (simp_all only: decode_step option.map, simp_all add: Let_def packed byte_parts)

lemma base64Encode_line: "c \<in> set (base64Encode s) \<Longrightarrow> c \<noteq> CHR 0x0A \<and> c \<noteq> CHR 0x0D"
  by (induction s rule: base64Encode.induct) (auto simp: Let_def)

lemma base64_roundtrip: "base64Decode (base64Encode s) = Some s"
proof -
  have "filter (\<lambda>c. c \<noteq> CHR 0x0A \<and> c \<noteq> CHR 0x0D) (base64Encode s) = base64Encode s"
    using base64Encode_line [of _ s] by (simp add: filter_id_conv)
  then show ?thesis by (simp add: base64Decode_def decodeQuads_Encode)
qed

text \<open>The name ends at the first colon.\<close>

lemma parseBasicAuth_text:
  "parseBasicAuth (basicAuthText u p) =
     (if CHR '':'' \<in> set u then Some (takeWhile (\<lambda>c. c \<noteq> CHR '':'') u, tl (dropWhile (\<lambda>c. c \<noteq> CHR '':'') u) @ '':'' @ p)
      else Some (u, p))"
proof -
  have "map lower ''Basic '' = ''basic ''" by (simp add: lower_def Let_def char_of_def bit_numeral_rec bit_0)
  then have six: "map lower (take 6 (basicAuthText u p)) = ''basic ''" "drop 6 (basicAuthText u p) = base64Encode (u @ '':'' @ p)"
    by (simp_all add: basicAuthText_def take_Cons' drop_Cons')
  have "\<not> length (basicAuthText u p) < 6" by (simp add: basicAuthText_def)
  then have cut: "parseBasicAuth (basicAuthText u p) = (case dropWhile (\<lambda>c. c \<noteq> CHR '':'') (u @ CHR '':'' # p) of [] \<Rightarrow> None
      | _ # password \<Rightarrow> Some (takeWhile (\<lambda>c. c \<noteq> CHR '':'') (u @ CHR '':'' # p), password))"
    by (simp add: parseBasicAuth_def six base64_roundtrip)
  show ?thesis
  proof (cases "CHR '':'' \<in> set u")
    case True
    then obtain v w where u: "u = v @ CHR '':'' # w" and v: "CHR '':'' \<notin> set v" by (metis split_list_first)
    then have "takeWhile (\<lambda>c. c \<noteq> CHR '':'') u = v" "dropWhile (\<lambda>c. c \<noteq> CHR '':'') u = CHR '':'' # w"
      by (auto simp: takeWhile_append dropWhile_append)
    with True u v show ?thesis unfolding cut by (auto simp: takeWhile_append dropWhile_append)
  next
    case False
    then show ?thesis unfolding cut by (auto simp: takeWhile_append dropWhile_append)
  qed
qed

lemma authorized_basic:
  assumes "CHR '':'' \<notin> set u" and "map_of (rq_Headers r) ''Authorization'' = None"
  shows "authorized sha256 (NewWrapper sha256 u' p') (addHeader ''Authorization'' (basicAuthText u p) r)
    \<longleftrightarrow> sha256 u = sha256 u' \<and> sha256 p = sha256 p'"
proof -
  have "map_of (rq_Headers (addHeader ''Authorization'' (basicAuthText u p) r)) ''Authorization'' = Some (basicAuthText u p)"
    using assms(2) by (simp add: addHeader_def map_add_Some_iff)
  moreover have "basicAuthText u p \<noteq> []" by (simp add: basicAuthText_def)
  ultimately show ?thesis
    using assms(1) by (auto simp: authorized_def BasicAuth_def parseBasicAuth_text NewWrapper_def isAuthorized_def)
qed

section \<open>A token is used while it is valid\<close>

text \<open>
  \<open>granted E h token expiry\<close>: in the history \<open>h\<close> UAA gave the token, and the clock that was read next makes \<open>expiry\<close>
  the time until which it is kept.
\<close>

definition granted :: "tokenenv \<Rightarrow> tevent list \<Rightarrow> string \<Rightarrow> int \<Rightarrow> bool" where
  "granted E h token expiry \<longleftrightarrow> (\<exists>pre request response n now post. h = pre @ [TDo request (Inr response), TNow now] @ post
     \<and> readGrant E response = Inr (token, n) \<and> expiry = now + wrap64 (Second * n) - 10 * Second)"

text \<open>
  The calls of one \<open>AddAuthHeader\<close> that uses \<open>token\<close>: a look at the clock shows that the token in the cache is still
  kept, or a new token is obtained, all of it under the lock.
\<close>

definition cached_use :: "tokenenv \<Rightarrow> tevent list \<Rightarrow> tevent list \<Rightarrow> string \<Rightarrow> bool" where
  "cached_use E h tr token \<longleftrightarrow> (\<exists>now expiry. tr = [TokenLock, TNow now, TokenUnlock] \<and> granted E h token expiry \<and> now \<le> expiry)"

definition fresh_use :: "tokenenv \<Rightarrow> tevent list \<Rightarrow> string \<Rightarrow> bool" where
  "fresh_use E tr token \<longleftrightarrow> (\<exists>looked request response now n. tr = TokenLock # looked @ [TDo request (Inr response), TNow now, TokenUnlock]
     \<and> (looked = [] \<or> (\<exists>t. looked = [TNow t])) \<and> readGrant E response = Inr (token, n))"

definition cache_ok :: "tokenenv \<Rightarrow> tokenstate \<Rightarrow> bool" where
  "cache_ok E s \<longleftrightarrow> cachedToken s = [] \<or> granted E (hist s) (cachedToken s) (cachedTokenExpiry s)"

lemma granted_append: "granted E h token expiry \<Longrightarrow> granted E (h @ tr) token expiry"
  unfolding granted_def by (metis append_assoc)

lemma granted_now:
  "readGrant E response = Inr (token, n)
   \<Longrightarrow> granted E (h @ [TDo request (Inr response), TNow now] @ post) token (now + wrap64 (Second * n) + MinimumRemainingValidity * -1)"
  unfolding granted_def MinimumRemainingValidity_def
  by (intro exI [of _ h] exI [of _ request] exI [of _ response] exI [of _ n] exI [of _ now] exI [of _ post]) simp

lemma readGrant_token: "readGrant E response = Inr (token, n) \<Longrightarrow> token \<noteq> []"
  by (auto simp: readGrant_def split: if_splits sum.splits)

lemma wp_with_lock:
  "wp (with_lock l u m) Q s \<longleftrightarrow> wp m (\<lambda>r s'. if r = OutOfFuel then Q r s' else Q r (s'\<lparr>hist := hist s' @ [u]\<rparr>)) (s\<lparr>hist := hist s @ [l]\<rparr>)"
  by (auto simp: wp_def with_lock_def split: prod.splits outcome.splits)

text \<open>What a builder needs of the function that asks for a token\<close>

locale token_source =
  fixes E :: tokenenv and obtainToken :: "(gerr + string \<times> int) token_m"
  assumes asks_once: "\<exists>r tr. obtainToken s = (Val r, s\<lparr>hist := hist s @ tr\<rparr>) \<and> (case r of Inl err \<Rightarrow> True
    | Inr (token, n) \<Rightarrow> \<exists>request response. tr = [TDo request (Inr response)] \<and> readGrant E response = Inr (token, n))"
begin

lemma getNewToken_cases:
  obtains (failed) err tr where "getNewToken E obtainToken s = (Val (Inl err), s\<lparr>hist := hist s @ tr\<rparr>)"
  | (obtained) request response token n now where "readGrant E response = Inr (token, n)"
      "getNewToken E obtainToken s = (Val (Inr (token, now + wrap64 (Second * n) + MinimumRemainingValidity * -1)),
         s\<lparr>hist := hist s @ [TDo request (Inr response), TNow now]\<rparr>)"
proof -
  from asks_once [of s] obtain r tr where answer: "obtainToken s = (Val r, s\<lparr>hist := hist s @ tr\<rparr>)" and r: "case r of Inl err \<Rightarrow> True
    | Inr (token, n) \<Rightarrow> \<exists>request response. tr = [TDo request (Inr response)] \<and> readGrant E response = Inr (token, n)" by blast
  show ?thesis
  proof (cases r)
    case (Inl err)
    with answer show ?thesis by (intro failed) (simp add: getNewToken_def run)
  next
    case (Inr tn)
    obtain token n where tn: "tn = (token, n)" by force
    with r Inr obtain request response where tr: "tr = [TDo request (Inr response)]" and grant: "readGrant E response = Inr (token, n)"
      by auto
    show ?thesis
      by (rule obtained [OF grant, of "o_Now E (hist s @ tr)" request]) (simp add: getNewToken_def run answer Inr tn tr)
  qed
qed

lemma getValidToken_cases:
  obtains (failed) err tr where "getValidToken E token tokenExpiry obtainToken s = (Val (Inl err), s\<lparr>hist := hist s @ tr\<rparr>)"
  | (kept) now where "token \<noteq> []" "now \<le> tokenExpiry"
      "getValidToken E token tokenExpiry obtainToken s = (Val (Inr (token, tokenExpiry)), s\<lparr>hist := hist s @ [TNow now]\<rparr>)"
  | (renewed) looked request response token' n now where "looked = [] \<or> (\<exists>t. looked = [TNow t])"
      "readGrant E response = Inr (token', n)"
      "getValidToken E token tokenExpiry obtainToken s = (Val (Inr (token', now + wrap64 (Second * n) + MinimumRemainingValidity * -1)),
         s\<lparr>hist := hist s @ looked @ [TDo request (Inr response), TNow now]\<rparr>)"
proof -
  let ?now = "o_Now E (hist s)"
  let ?looked = "if token = [] then [] else [TNow ?now]"
  show ?thesis
  proof (cases "token \<noteq> [] \<and> ?now \<le> tokenExpiry")
    case True
    then show ?thesis by (intro kept [of ?now]) (simp_all add: getValidToken_def tokenExpired_def run)
  next
    case False
    then have new: "getValidToken E token tokenExpiry obtainToken s = getNewToken E obtainToken (s\<lparr>hist := hist s @ ?looked\<rparr>)"
      by (auto simp: getValidToken_def tokenExpired_def run)
    have looked: "?looked = [] \<or> (\<exists>t. ?looked = [TNow t])" by auto
    show ?thesis
    proof (cases rule: getNewToken_cases [of "s\<lparr>hist := hist s @ ?looked\<rparr>"])
      case (failed err tr)
      then show ?thesis by (intro that(1) [of err "?looked @ tr"]) (simp add: new)
    next
      case (obtained request response token' n now)
      then show ?thesis by (intro renewed [OF looked obtained(1), of now request]) (simp add: new)
    qed
  qed
qed

lemma addTokenHeader_spec:
  assumes ok: "cache_ok E s" and added: "addTokenHeader E obtainToken request s = (r, s')"
  shows "cache_ok E s' \<and> (\<exists>tr. hist s' = hist s @ tr \<and> (case r of
      Val (Inr request') \<Rightarrow> \<exists>token. token \<noteq> [] \<and> request' = addHeader ''Authorization'' (bearerToken token) request
        \<and> (cached_use E (hist s) tr token \<or> fresh_use E tr token)
    | Val (Inl err) \<Rightarrow> cachedToken s' = []
    | _ \<Rightarrow> False))"
proof -
  let ?s = "s\<lparr>hist := hist s @ [TokenLock]\<rparr>"
  show ?thesis
  proof (cases rule: getValidToken_cases [of "cachedToken s" "cachedTokenExpiry s" ?s])
    case (failed err tr)
    with added have "r = Val (Inl err)" and "s' = s\<lparr>hist := hist s @ [TokenLock] @ tr @ [TokenUnlock], cachedToken := [], cachedTokenExpiry := zeroTime\<rparr>"
      by (auto simp: addTokenHeader_def with_lock_def run)
    then show ?thesis by (simp add: cache_ok_def)
  next
    case (kept now)
    with added have r: "r = Val (Inr (addHeader ''Authorization'' (bearerToken (cachedToken s)) request))"
      and s': "s' = s\<lparr>hist := hist s @ [TokenLock, TNow now, TokenUnlock]\<rparr>"
      by (auto simp: addTokenHeader_def with_lock_def run)
    have "granted E (hist s) (cachedToken s) (cachedTokenExpiry s)" using ok kept(1) by (simp add: cache_ok_def)
    with kept(1,2) r s' show ?thesis by (auto simp: cache_ok_def cached_use_def intro: granted_append)
  next
    case (renewed looked rq response token n now)
    let ?tr = "TokenLock # looked @ [TDo rq (Inr response), TNow now, TokenUnlock]"
    from added renewed(3) have r: "r = Val (Inr (addHeader ''Authorization'' (bearerToken token) request))"
      and s': "hist s' = hist s @ ?tr" "cachedToken s' = token"
        "cachedTokenExpiry s' = now + wrap64 (Second * n) + MinimumRemainingValidity * -1"
      by (auto simp: addTokenHeader_def with_lock_def run)
    have "granted E ((hist s @ [TokenLock] @ looked) @ [TDo rq (Inr response), TNow now] @ [TokenUnlock]) token
        (now + wrap64 (Second * n) + MinimumRemainingValidity * -1)" by (rule granted_now [OF renewed(2)])
    moreover have "fresh_use E ?tr token" using renewed(1,2) by (auto simp: fresh_use_def)
    moreover have "token \<noteq> []" by (rule readGrant_token [OF renewed(2)])
    ultimately show ?thesis using r s' by (auto simp: cache_ok_def)
  qed
qed

end

lemma doObtainTokenRequest_once:
  "\<exists>r tr. doObtainTokenRequest E request s = (Val r, s\<lparr>hist := hist s @ tr\<rparr>) \<and> (case r of Inl err \<Rightarrow> True
    | Inr (token, n) \<Rightarrow> \<exists>request response. tr = [TDo request (Inr response)] \<and> readGrant E response = Inr (token, n))"
  by (cases "o_TokenDo E (hist s) request") (auto simp: doObtainTokenRequest_def run split: sum.splits prod.splits)

lemma no_request: "\<exists>r tr. ret (Inl err) s = (Val r, s\<lparr>hist := hist s @ tr\<rparr>) \<and> (case r of Inl err \<Rightarrow> True
    | Inr (token, n) \<Rightarrow> \<exists>request response. tr = [TDo request (Inr response)] \<and> readGrant E response = Inr (token, n))"
  by (rule exI [of _ "Inl err"], rule exI [of _ "[]"]) (simp add: run)

interpretation client: token_source E "client_obtainToken E hb" for E hb
  by unfold_locales
    (cases "buildTokenRequest E ''grant_type=client_credentials'' (hb_uaaURL hb) (hb_clientID hb) (hb_clientSecret hb)",
     simp_all only: client_obtainToken_def sum.case doObtainTokenRequest_once no_request)

interpretation user: token_source E "user_obtainToken E hb" for E hb
  by unfold_locales
    (cases "buildTokenRequest E (''grant_type=password&username='' @ hb_username hb @ ''&password='' @ hb_password hb)
       (hb_uaaURL hb) (hb_clientID hb) (hb_clientSecret hb)",
     simp_all only: user_obtainToken_def sum.case doObtainTokenRequest_once no_request)

text \<open>The states a builder can be in: a new one, then one request after another\<close>

inductive serves :: "tokenenv \<Rightarrow> AuthHeaderBuilder \<Rightarrow> tokenstate \<Rightarrow> bool" for E hb where
  new: "cachedToken s = [] \<Longrightarrow> serves E hb s"
| add: "serves E hb s \<Longrightarrow> AddAuthHeader E hb request s = (r, s') \<Longrightarrow> serves E hb s'"

lemma serves_cache_ok: "serves E hb s \<Longrightarrow> cache_ok E s"
proof (induction rule: serves.induct)
  case (new s)
  then show ?case by (simp add: cache_ok_def)
next
  case (add s request r s')
  then show ?case
    by (cases hb) (auto simp: ret_def dest: client.addTokenHeader_spec user.addTokenHeader_spec)
qed

text \<open>
  C33.  A bearer token is used while it is valid.  Whatever the clock and UAA do, a header that a builder with a
  token writes bears a token of UAA: one that was obtained for this very request, or the cached one, and then the
  clock, read under the lock, shows a time of at most ten seconds before the end of the lifetime that UAA gave it,
  counted from the time it was obtained.
\<close>

theorem bearer_tokens_valid:
  assumes "serves E hb s" and "hb = ClientTokenBuilder c \<or> hb = UserTokenBuilder u"
    and "AddAuthHeader E hb request s = (Val (Inr request'), s')"
  shows "\<exists>token tr. token \<noteq> [] \<and> request' = addHeader ''Authorization'' (''Bearer '' @ token) request \<and> hist s' = hist s @ tr
    \<and> (cached_use E (hist s) tr token \<or> fresh_use E tr token)"
  using assms(2,3) client.addTokenHeader_spec [OF serves_cache_ok [OF assms(1)]] user.addTokenHeader_spec [OF serves_cache_ok [OF assms(1)]]
  by (fastforce simp: bearerToken_def)

text \<open>
  C34.  A client with the broker's user name and password is let in, and no other, up to collisions of the digests:
  the header that the builder writes, read by the check in front of the management API and of the service broker
  API, leads to the handler exactly when the digests of name and password agree.  The name must not have a colon.
\<close>

theorem basic_auth_admits:
  assumes "CHR '':'' \<notin> set username" and "map_of (rq_Headers request) ''Authorization'' = None"
  shows "\<exists>request'. AddAuthHeader E (BasicAuthBuilder username password) request s = (Val (Inr request'), s)
    \<and> Wrap sha256 (NewWrapper sha256 name secret) denied handler request'
      = (if sha256 username = sha256 name \<and> sha256 password = sha256 secret then handler request' else ret denied)"
  using authorized_basic [OF assms] by (auto simp: Wrap_def ret_def)

text \<open>A user name with a colon is cut at the colon, and the rest is taken for a part of the password.\<close>

lemma colon_locks_out:
  assumes "username = v @ CHR '':'' # w" "CHR '':'' \<notin> set v" "sha256 v \<noteq> sha256 username"
    and "map_of (rq_Headers request) ''Authorization'' = None"
  shows "\<not> authorized sha256 (NewWrapper sha256 username password) (addHeader ''Authorization'' (basicAuthText username password) request)"
proof -
  have "map_of (rq_Headers (addHeader ''Authorization'' (basicAuthText username password) request)) ''Authorization''
      = Some (basicAuthText username password)" using assms(4) by (simp add: addHeader_def map_add_Some_iff)
  moreover have "takeWhile (\<lambda>c. c \<noteq> CHR '':'') username = v" using assms(1,2) by (auto simp: takeWhile_append)
  moreover have "CHR '':'' \<in> set username" using assms(1) by simp
  ultimately show ?thesis
    using assms(3) by (auto simp: authorized_def BasicAuth_def parseBasicAuth_text NewWrapper_def isAuthorized_def)
qed

text \<open>The form of a grant by password is put together without escaping.\<close>

lemma ampersand_cuts_password:
  "map_of (ParseQuery (''grant_type=password&username='' @ ''admin'' @ ''&password='' @ ''p&q'')) ''password'' = Some ''p''"
  by (simp add: ParseQuery_def splitOn.simps unhex_def Let_def)

section \<open>A sample\<close>

definition token_reply :: HttpResponse where
  "token_reply = \<lparr>rs_StatusCode = 200, rs_Status = ''200 OK'', rs_Text = [],
     rs_Json = WJson (JObj [(''access_token'', JStr ''t''), (''expires_in'', JNum 60)])\<rparr>"

definition sample_tokenenv :: tokenenv where
  "sample_tokenenv = \<lparr>o_Now = (\<lambda>h. Second * int (length h)), o_TokenDo = (\<lambda>h r. Inr token_reply), tk_urlError = (\<lambda>u. None), fmtGrant = show_int\<rparr>"

definition sample_builder :: ClientTokenAuthHeaderBuilder where
  "sample_builder = \<lparr>hb_uaaURL = ''https://uaa'', hb_clientID = ''id'', hb_clientSecret = ''secret''\<rparr>"

definition plain_request :: HttpRequest where
  "plain_request = \<lparr>rq_Method = ''GET'', rq_URL = ''https://cf'', rq_Headers = [], rq_Body = []\<rparr>"

definition no_token :: tokenstate where
  "no_token = \<lparr>hist = [], cachedToken = [], cachedTokenExpiry = zeroTime\<rparr>"

definition with_token :: tokenstate where
  "with_token = snd (AddAuthHeader sample_tokenenv (ClientTokenBuilder sample_builder) plain_request no_token)"

lemma sample_grant: "readGrant sample_tokenenv token_reply = Inr (''t'', 60)"
  by (simp add: readGrant_def token_reply_def decodeBody_def decodeGrant_def decodeStruct_def key_is_def lower_def in_int64_def)

lemma sample_tokenenv_simps [simp]:
  "o_Now sample_tokenenv h = Second * int (length h)" "o_TokenDo sample_tokenenv h r = Inr token_reply" "tk_urlError sample_tokenenv u = None"
  by (simp_all add: sample_tokenenv_def)

definition token_request :: HttpRequest where
  "token_request = \<lparr>rq_Method = ''POST'', rq_URL = ''https://uaa/oauth/token'',
     rq_Headers = [(''Content-type'', ''application/x-www-form-urlencoded''), (''Authorization'', basicAuthText ''id'' ''secret'')],
     rq_Body = ''grant_type=client_credentials''\<rparr>"

lemma sample_obtain:
  "client_obtainToken sample_tokenenv sample_builder s = (Val (Inr (''t'', 60)), s\<lparr>hist := hist s @ [TDo token_request (Inr token_reply)]\<rparr>)"
  by (simp add: client_obtainToken_def buildTokenRequest_def sample_builder_def doObtainTokenRequest_def run sample_grant token_request_def)

lemma with_token_fields:
  "cachedToken with_token = ''t''" "length (hist with_token) = 4" "cachedTokenExpiry with_token = 52 * Second"
  by (simp_all add: with_token_def no_token_def addTokenHeader_def with_lock_def run getValidToken_def tokenExpired_def getNewToken_def
      sample_obtain, simp add: Second_def MinimumRemainingValidity_def in_int64_def)

theorem bearer_tokens_valid_witness:
  "\<exists>request' s' token tr. AddAuthHeader sample_tokenenv (ClientTokenBuilder sample_builder) plain_request with_token = (Val (Inr request'), s')
    \<and> request' = addHeader ''Authorization'' (''Bearer '' @ token) plain_request \<and> hist s' = hist with_token @ tr
    \<and> (cached_use sample_tokenenv (hist with_token) tr token \<or> fresh_use sample_tokenenv tr token)"
proof -
  have "serves sample_tokenenv (ClientTokenBuilder sample_builder) with_token"
    unfolding with_token_def by (rule serves.add [OF serves.new surjective_pairing]) (simp add: no_token_def)
  moreover have "\<exists>request' s'. AddAuthHeader sample_tokenenv (ClientTokenBuilder sample_builder) plain_request with_token = (Val (Inr request'), s')"
    by (simp add: addTokenHeader_def with_lock_def run getValidToken_def tokenExpired_def with_token_fields Second_def)
  ultimately show ?thesis
    using bearer_tokens_valid [of sample_tokenenv "ClientTokenBuilder sample_builder" with_token sample_builder] by blast
qed

theorem basic_auth_admits_witness:
  "\<exists>request'. AddAuthHeader sample_tokenenv (BasicAuthBuilder ''admin'' ''pw'') plain_request no_token = (Val (Inr request'), no_token)
    \<and> Wrap id (NewWrapper id ''admin'' ''pw'') (401 :: int) (\<lambda>r. ret 200) request' = (ret 200 :: int token_m)"
  using basic_auth_admits [of "''admin''" plain_request sample_tokenenv "''pw''" no_token id "''admin''" "''pw''" "401 :: int" "\<lambda>r. ret 200 :: int token_m"]
  by (simp add: plain_request_def)

end
