(* ===== verification/ConfigCheck.thy ===== *)
theory ConfigCheck
  imports AuthHeader Sample Broker "HOL-Library.Word"
begin

text \<open>
  The settings of the broker process and their validation (\<open>config/config.go\<close>,
  \<open>config/is_executable_file.go\<close>), and the builders of authorization headers made from them.  Reading the file,
  parsing YAML, asking the file system and the system's pool of certificates are parameters.

  An error is a \<open>FieldError\<close>, to which every level of the configuration adds its name, or another.
\<close>

unbundle bit_operations_syntax

section \<open>Errors\<close>

datatype verr = FieldError string string | OtherError string

fun verrmsg :: "verr \<Rightarrow> string" where
  "verrmsg (FieldError field msg) = field @ '' '' @ msg"
| "verrmsg (OtherError msg) = msg"

fun newFieldError :: "string \<Rightarrow> verr \<Rightarrow> verr" where
  "newFieldError field (FieldError inner msg) = FieldError (field @ ''.'' @ inner) msg"
| "newFieldError field err = FieldError field (verrmsg err)"

definition cantBeEmpty :: verr where
  "cantBeEmpty = OtherError (''can'' @ [CHR 0x27] @ ''t be empty'')"

section \<open>Settings\<close>

record UserCredentials =
  uc_Username :: string
  uc_Password :: string

record ClientCredentials =
  cc_ID :: string
  cc_Secret :: string

record UAAAuthentication =
  ua_URL :: string
  ua_ClientCredentials :: ClientCredentials
  ua_UserCredentials :: UserCredentials

record Authentication =
  auth_Basic :: UserCredentials
  auth_UAA :: UAAAuthentication

record Bosh =
  bosh_URL :: string
  bosh_TrustedCert :: string
  bosh_Authentication :: Authentication

record BoshCredhub =
  bch_URL :: string
  bch_RootCACert :: string
  bch_Authentication :: Authentication

record UAACredentials =
  uac_ClientCredentials :: ClientCredentials
  uac_UserCredentials :: UserCredentials

record ClientDefinition =
  cd_Authorities :: string
  cd_AuthorizedGrantTypes :: string
  cd_ResourceIDs :: string
  cd_Scopes :: string
  cd_Name :: string
  cd_AllowPublic :: bool

record UAAConfig =
  uaa_URL :: string
  uaa_ClientDefinition :: ClientDefinition
  uaa_Authentication :: UAACredentials

record CF =
  cfs_URL :: string
  cfs_TrustedCert :: string
  cfs_UAA :: UAAConfig
  cfs_DisableSSLCertVerification :: bool

record TLSConfig =
  tls_CertFile :: string
  tls_KeyFile :: string

record BrokerSettings = BrokerConfig +
  set_Port :: int
  set_Username :: string
  set_Password :: string
  set_DisableSSLCertVerification :: bool
  set_StartUpBanner :: bool
  set_ShutdownTimeoutSecs :: int
  set_DisableCFStartupChecks :: bool
  set_UsingStdin :: bool
  set_EnableTelemetry :: bool
  set_EnableOptimisedUpgrades :: bool
  set_TLS :: TLSConfig
  set_SkipCheckForPendingChanges :: bool

record ServiceRelease =
  rel_Name :: string
  rel_Version :: string
  rel_Jobs :: "string list"

record Stemcell =
  stem_Name :: string
  stem_OS :: string
  stem_Version :: string

record ServiceDeployment =
  sd_Releases :: "ServiceRelease list"
  sd_Stemcells :: "Stemcell list"

record ServiceInstancesAPI =
  sia_URL :: string
  sia_RootCACert :: string
  sia_Authentication :: Authentication
  sia_DisableSSLCertVerification :: bool

record CredHubSettings =
  chs_APIURL :: string
  chs_ClientID :: string
  chs_ClientSecret :: string
  chs_CaCert :: string
  chs_InternalUAACaCert :: string

record Config =
  conf_Broker :: BrokerSettings
  conf_Bosh :: Bosh
  conf_CF :: CF
  conf_ServiceInstancesAPI :: ServiceInstancesAPI
  conf_CredHub :: CredHubSettings
  conf_ServiceAdapterPath :: string
  conf_ServiceDeployment :: ServiceDeployment
  conf_ServiceCatalog :: ServiceOffering
  conf_BoshCredhub :: BoshCredhub

section \<open>Validation of credentials\<close>

definition User_IsSet :: "UserCredentials \<Rightarrow> bool" where
  "User_IsSet c \<longleftrightarrow> c \<noteq> \<lparr>uc_Username = [], uc_Password = []\<rparr>"

definition User_Validate :: "UserCredentials \<Rightarrow> verr option" where
  "User_Validate b =
     (if uc_Username b = [] then Some (newFieldError ''username'' cantBeEmpty)
      else if uc_Password b = [] then Some (newFieldError ''password'' cantBeEmpty)
      else None)"

definition Client_IsSet :: "ClientCredentials \<Rightarrow> bool" where
  "Client_IsSet cc \<longleftrightarrow> cc \<noteq> \<lparr>cc_ID = [], cc_Secret = []\<rparr>"

definition Client_Validate :: "ClientCredentials \<Rightarrow> verr option" where
  "Client_Validate c =
     (if cc_ID c = [] then Some (newFieldError ''client_id'' cantBeEmpty)
      else if cc_Secret c = [] then Some (newFieldError ''client_secret'' cantBeEmpty)
      else None)"

definition UAA_IsSet :: "UAAAuthentication \<Rightarrow> bool" where
  "UAA_IsSet cc \<longleftrightarrow> cc \<noteq> \<lparr>ua_URL = [], ua_ClientCredentials = \<lparr>cc_ID = [], cc_Secret = []\<rparr>,
     ua_UserCredentials = \<lparr>uc_Username = [], uc_Password = []\<rparr>\<rparr>"

definition validateAuthenticationFields :: "bool \<Rightarrow> string \<Rightarrow> ClientCredentials \<Rightarrow> UserCredentials \<Rightarrow> verr option" where
  "validateAuthenticationFields URLRequired url clientCredentials userCredentials =
     (let urlIsSet = url \<noteq> []; clientCredentialsSet = Client_IsSet clientCredentials; userCredentialsSet = User_IsSet userCredentials in
      if \<not> urlIsSet \<and> \<not> clientCredentialsSet \<and> \<not> userCredentialsSet then Some (OtherError ''must specify UAA authentication'')
      else if \<not> urlIsSet \<and> URLRequired then Some (newFieldError ''uaa url'' cantBeEmpty)
      else if \<not> clientCredentialsSet \<and> \<not> userCredentialsSet then
        Some (OtherError ''authentication should contain either user_credentials or client_credentials'')
      else if clientCredentialsSet \<and> userCredentialsSet then Some (OtherError ''contains both client and user credentials'')
      else if clientCredentialsSet then map_option (newFieldError ''client_credentials'') (Client_Validate clientCredentials)
      else if userCredentialsSet then map_option (newFieldError ''user_credentials'') (User_Validate userCredentials)
      else None)"

definition UAA_Validate :: "bool \<Rightarrow> UAAAuthentication \<Rightarrow> verr option" where
  "UAA_Validate URLRequired a =
     validateAuthenticationFields URLRequired (ua_URL a) (ua_ClientCredentials a) (ua_UserCredentials a)"

definition Authentication_Validate :: "bool \<Rightarrow> Authentication \<Rightarrow> verr option" where
  "Authentication_Validate URLRequired a =
     (let uaaSet = UAA_IsSet (auth_UAA a); basicSet = User_IsSet (auth_Basic a) in
      if \<not> uaaSet \<and> \<not> basicSet then Some (OtherError ''must specify an authentication type'')
      else if uaaSet \<and> basicSet then Some (OtherError ''cannot specify both basic and UAA authentication'')
      else if uaaSet then map_option (newFieldError ''authentication.uaa'') (UAA_Validate URLRequired (auth_UAA a))
      else if basicSet then map_option (newFieldError ''authentication.basic'') (User_Validate (auth_Basic a))
      else None)"

definition Bosh_Validate :: "Bosh \<Rightarrow> verr option" where
  "Bosh_Validate b =
     (if bosh_URL b = [] then Some (OtherError ''must specify bosh url'') else Authentication_Validate False (bosh_Authentication b))"

definition CF_Validate :: "CF \<Rightarrow> verr option" where
  "CF_Validate cf =
     (if cfs_URL cf = [] then Some (OtherError ''must specify CF url'')
      else validateAuthenticationFields True (uaa_URL (cfs_UAA cf)) (uac_ClientCredentials (uaa_Authentication (cfs_UAA cf)))
        (uac_UserCredentials (uaa_Authentication (cfs_UAA cf))))"

section \<open>Validation of the rest\<close>

definition Broker_Validate :: "BrokerSettings \<Rightarrow> verr option" where
  "Broker_Validate b =
     (if set_Port b = 0 then Some (OtherError (''broker.port can'' @ [CHR 0x27] @ ''t be empty''))
      else if set_Username b = [] then Some (OtherError (''broker.username can'' @ [CHR 0x27] @ ''t be empty''))
      else if set_Password b = [] then Some (OtherError (''broker.password can'' @ [CHR 0x27] @ ''t be empty''))
      else None)"

definition exactVersionsMessage :: string where
  "exactVersionsMessage = ''You must configure the exact release and stemcell versions in broker.service_deployment. ODB requires exact versions to detect pending changes as part of the '' @ [CHR 0x27] @ ''cf update-service'' @ [CHR 0x27] @ '' workflow. For example, latest and 3112.latest are not supported.''"

definition assertVersion :: "string \<Rightarrow> verr option" where
  "assertVersion version = (if has_suffix version ''latest'' then Some (OtherError exactVersionsMessage) else None)"

fun assertReleases :: "ServiceRelease list \<Rightarrow> verr option" where
  "assertReleases [] = None"
| "assertReleases (release # releases) = (case assertVersion (rel_Version release) of
      Some err \<Rightarrow> Some err | None \<Rightarrow> assertReleases releases)"

definition ServiceDeployment_Validate :: "ServiceDeployment \<Rightarrow> verr option" where
  "ServiceDeployment_Validate s = assertReleases (sd_Releases s)"

record FileInfo =
  fi_IsDir :: bool
  fi_Mode :: "32 word"

definition isExecutable :: "FileInfo \<Rightarrow> bool" where
  "isExecutable fi \<longleftrightarrow> fi_Mode fi AND 0x140 = 0x140"

definition checkIsExecutableFile :: "(string \<Rightarrow> gerr + FileInfo) \<Rightarrow> string \<Rightarrow> verr option" where
  "checkIsExecutableFile stat path =
     (if path = [] then Some (OtherError ''path is empty'')
      else (case stat path of
          Inl err \<Rightarrow> Some (OtherError (errmsg err))
        | Inr fi \<Rightarrow>
            if fi_IsDir fi then Some (OtherError ([CHR 0x27] @ path @ [CHR 0x27] @ '' is a directory''))
            else if \<not> isExecutable fi then Some (OtherError ([CHR 0x27] @ path @ [CHR 0x27] @ '' is not executable''))
            else None))"

definition prefixed :: "string \<Rightarrow> verr option \<Rightarrow> verr option" where
  "prefixed p r = map_option (\<lambda>err. OtherError (p @ verrmsg err)) r"

text \<open>The checks in their order, each returning at its first error\<close>

fun firstOf :: "verr option list \<Rightarrow> verr option" where
  "firstOf [] = None"
| "firstOf (Some err # checks) = Some err"
| "firstOf (None # checks) = firstOf checks"

definition Config_Validate :: "(string \<Rightarrow> gerr + FileInfo) \<Rightarrow> Config \<Rightarrow> verr option" where
  "Config_Validate stat c = firstOf
     [Broker_Validate (conf_Broker c),
      prefixed ''BOSH configuration error: '' (Bosh_Validate (conf_Bosh c)),
      if \<not> set_DisableCFStartupChecks (conf_Broker c) then prefixed ''CF configuration error: '' (CF_Validate (conf_CF c)) else None,
      prefixed ''checking for executable service adapter file: '' (checkIsExecutableFile stat (conf_ServiceAdapterPath c)),
      ServiceDeployment_Validate (conf_ServiceDeployment c),
      map_option (\<lambda>err. OtherError (errmsg err)) (ServiceOffering_Validate (conf_ServiceCatalog c))]"

text \<open>\<open>Parse\<close>: the file is read, parsed and validated.\<close>

definition ParseConfig :: "(string \<Rightarrow> gerr + string) \<Rightarrow> (string \<Rightarrow> gerr + Config) \<Rightarrow> (string \<Rightarrow> gerr + FileInfo) \<Rightarrow> string \<Rightarrow> verr + Config" where
  "ParseConfig readFile unmarshalYaml stat configFilePath = (case readFile configFilePath of
      Inl err \<Rightarrow> Inl (OtherError (errmsg err))
    | Inr configFileBytes \<Rightarrow> (case unmarshalYaml configFileBytes of
        Inl err \<Rightarrow> Inl (OtherError (errmsg err))
      | Inr conf \<Rightarrow> (case Config_Validate stat conf of Some err \<Rightarrow> Inl err | None \<Rightarrow> Inr conf)))"

definition HasRuntimeCredHub :: "Config \<Rightarrow> bool" where
  "HasRuntimeCredHub c \<longleftrightarrow> conf_CredHub c
     \<noteq> \<lparr>chs_APIURL = [], chs_ClientID = [], chs_ClientSecret = [], chs_CaCert = [], chs_InternalUAACaCert = []\<rparr>"

definition HasTLS :: "Config \<Rightarrow> bool" where
  "HasTLS c \<longleftrightarrow> tls_CertFile (set_TLS (conf_Broker c)) \<noteq> [] \<and> tls_KeyFile (set_TLS (conf_Broker c)) \<noteq> []"

section \<open>The builders of authorization headers\<close>

text \<open>\<open>certPool\<close> is the answer of \<open>x509.SystemCertPool\<close>.\<close>

definition NewClientTokenAuthHeaderBuilder :: "gerr + unit \<Rightarrow> string \<Rightarrow> string \<Rightarrow> string \<Rightarrow> gerr + AuthHeaderBuilder" where
  "NewClientTokenAuthHeaderBuilder certPool uaaURL clientID clientSecret = (case certPool of Inl err \<Rightarrow> Inl err
     | Inr _ \<Rightarrow> Inr (ClientTokenBuilder \<lparr>hb_uaaURL = uaaURL, hb_clientID = clientID, hb_clientSecret = clientSecret\<rparr>))"

definition NewUserTokenAuthHeaderBuilder :: "gerr + unit \<Rightarrow> string \<Rightarrow> string \<Rightarrow> string \<Rightarrow> string \<Rightarrow> string \<Rightarrow> gerr + AuthHeaderBuilder" where
  "NewUserTokenAuthHeaderBuilder certPool uaaURL clientID clientSecret username password = (case certPool of Inl err \<Rightarrow> Inl err
     | Inr _ \<Rightarrow> Inr (UserTokenBuilder \<lparr>hb_uaaURL = uaaURL, hb_clientID = clientID, hb_clientSecret = clientSecret,
         hb_username = username, hb_password = password\<rparr>))"

definition Bosh_NewAuthHeaderBuilder :: "gerr + unit \<Rightarrow> Bosh \<Rightarrow> string \<Rightarrow> gerr + AuthHeaderBuilder" where
  "Bosh_NewAuthHeaderBuilder certPool boshConfig UAAURL =
     (let boshAuthConfig = bosh_Authentication boshConfig in
      if User_IsSet (auth_Basic boshAuthConfig) then
        Inr (BasicAuthBuilder (uc_Username (auth_Basic boshAuthConfig)) (uc_Password (auth_Basic boshAuthConfig)))
      else if UAA_IsSet (auth_UAA boshAuthConfig) then
        NewClientTokenAuthHeaderBuilder certPool UAAURL (cc_ID (ua_ClientCredentials (auth_UAA boshAuthConfig)))
          (cc_Secret (ua_ClientCredentials (auth_UAA boshAuthConfig)))
      else Inl (ErrorString ''No BOSH authentication configured''))"

definition CF_NewAuthHeaderBuilder :: "gerr + unit \<Rightarrow> CF \<Rightarrow> gerr + AuthHeaderBuilder" where
  "CF_NewAuthHeaderBuilder certPool cf =
     (let creds = uaa_Authentication (cfs_UAA cf) in
      if Client_IsSet (uac_ClientCredentials creds) then
        NewClientTokenAuthHeaderBuilder certPool (uaa_URL (cfs_UAA cf)) (cc_ID (uac_ClientCredentials creds)) (cc_Secret (uac_ClientCredentials creds))
      else NewUserTokenAuthHeaderBuilder certPool (uaa_URL (cfs_UAA cf)) ''cf'' []
        (uc_Username (uac_UserCredentials creds)) (uc_Password (uac_UserCredentials creds)))"

section \<open>What is accepted\<close>

definition complete_user :: "UserCredentials \<Rightarrow> bool" where
  "complete_user u \<longleftrightarrow> uc_Username u \<noteq> [] \<and> uc_Password u \<noteq> []"

definition complete_client :: "ClientCredentials \<Rightarrow> bool" where
  "complete_client c \<longleftrightarrow> cc_ID c \<noteq> [] \<and> cc_Secret c \<noteq> []"

text \<open>Exactly one of the two kinds of credentials, and that one complete\<close>

definition one_uaa :: "bool \<Rightarrow> string \<Rightarrow> ClientCredentials \<Rightarrow> UserCredentials \<Rightarrow> bool" where
  "one_uaa URLRequired url cl us \<longleftrightarrow> (url = [] \<longrightarrow> \<not> URLRequired)
     \<and> (complete_client cl \<and> \<not> User_IsSet us \<or> \<not> Client_IsSet cl \<and> complete_user us)"

definition one_authentication :: "bool \<Rightarrow> Authentication \<Rightarrow> bool" where
  "one_authentication URLRequired a \<longleftrightarrow> complete_user (auth_Basic a) \<and> \<not> UAA_IsSet (auth_UAA a)
     \<or> \<not> User_IsSet (auth_Basic a) \<and> one_uaa URLRequired (ua_URL (auth_UAA a)) (ua_ClientCredentials (auth_UAA a)) (ua_UserCredentials (auth_UAA a))"

text \<open>\<open>name\<close> or \<open>name/id-or-index\<close>\<close>

definition instance_name :: "string \<Rightarrow> bool" where
  "instance_name s \<longleftrightarrow> s \<noteq> [] \<and> CHR ''/'' \<notin> set s
     \<or> (\<exists>group index. s = group @ CHR ''/'' # index \<and> group \<noteq> [] \<and> index \<noteq> [] \<and> CHR ''/'' \<notin> set group \<and> CHR ''/'' \<notin> set index)"

definition errands_of :: "Plan \<Rightarrow> Errand list" where
  "errands_of p = PostDeployErrands p @ PreDeleteErrands p"

definition proper_errands :: "ServiceOffering \<Rightarrow> bool" where
  "proper_errands s \<longleftrightarrow> list_all (\<lambda>p. list_all (\<lambda>e. list_all instance_name (errand_Instances e)) (errands_of p)) (off_Plans s)"

lemma IsSet_complete [simp]: "complete_user u \<Longrightarrow> User_IsSet u" "complete_client c \<Longrightarrow> Client_IsSet c"
  by (auto simp: complete_user_def complete_client_def User_IsSet_def Client_IsSet_def)

lemma User_Validate_None: "User_Validate u = None \<longleftrightarrow> complete_user u"
  and Client_Validate_None: "Client_Validate c = None \<longleftrightarrow> complete_client c"
  by (auto simp: User_Validate_def Client_Validate_def complete_user_def complete_client_def)

lemma validateAuthenticationFields_None: "validateAuthenticationFields req url cl us = None \<longleftrightarrow> one_uaa req url cl us"
  by (auto simp: validateAuthenticationFields_def Let_def one_uaa_def User_Validate_None Client_Validate_None)

lemma UAA_IsSet_parts: "UAA_IsSet a \<longleftrightarrow> ua_URL a \<noteq> [] \<or> Client_IsSet (ua_ClientCredentials a) \<or> User_IsSet (ua_UserCredentials a)"
  by (cases a) (auto simp: UAA_IsSet_def Client_IsSet_def User_IsSet_def)

lemma one_uaa_set: "one_uaa req (ua_URL a) (ua_ClientCredentials a) (ua_UserCredentials a) \<Longrightarrow> UAA_IsSet a"
  by (auto simp: one_uaa_def UAA_IsSet_parts)

lemma Authentication_Validate_None: "Authentication_Validate req a = None \<longleftrightarrow> one_authentication req a"
  by (auto simp: Authentication_Validate_def Let_def one_authentication_def UAA_Validate_def validateAuthenticationFields_None
      User_Validate_None dest: one_uaa_set)

lemma Bosh_Validate_None: "Bosh_Validate b = None \<longleftrightarrow> bosh_URL b \<noteq> [] \<and> one_authentication False (bosh_Authentication b)"
  by (simp add: Bosh_Validate_def Authentication_Validate_None)

lemma CF_Validate_None: "CF_Validate cf = None \<longleftrightarrow> cfs_URL cf \<noteq> [] \<and> one_uaa True (uaa_URL (cfs_UAA cf))
    (uac_ClientCredentials (uaa_Authentication (cfs_UAA cf))) (uac_UserCredentials (uaa_Authentication (cfs_UAA cf)))"
  by (simp add: CF_Validate_def validateAuthenticationFields_None)

lemma assertReleases_None: "assertReleases rs = None \<longleftrightarrow> list_all (\<lambda>r. \<not> has_suffix (rel_Version r) ''latest'') rs"
  by (induction rs) (auto simp: assertVersion_def)

lemma split_slash_none: "CHR ''/'' \<notin> set s \<Longrightarrow> split_slash s = [s]"
  by (induction s) auto

lemma split_slash_first: "CHR ''/'' \<notin> set g \<Longrightarrow> split_slash (g @ CHR ''/'' # r) = g # split_slash r"
  by (induction g) auto

lemma split_slash_single: "split_slash s = [w] \<longleftrightarrow> CHR ''/'' \<notin> set s \<and> w = s"
proof
  assume single: "split_slash s = [w]"
  then have "count_list s (CHR ''/'') = 0" using split_slash_length [of s] by simp
  then have "CHR ''/'' \<notin> set s" by (simp add: count_list_0_iff)
  with single show "CHR ''/'' \<notin> set s \<and> w = s" by (simp add: split_slash_none)
qed (simp add: split_slash_none)

lemma split_slash_pair:
  "split_slash s = [g, r] \<longleftrightarrow> s = g @ CHR ''/'' # r \<and> CHR ''/'' \<notin> set g \<and> CHR ''/'' \<notin> set r"
proof
  assume pair: "split_slash s = [g, r]"
  then have "CHR ''/'' \<in> set s" by (metis list.distinct(1) list.inject split_slash_none)
  then obtain g' r' where s: "s = g' @ CHR ''/'' # r'" and g': "CHR ''/'' \<notin> set g'" by (metis split_list_first)
  then have "g' # split_slash r' = [g, r]" using pair by (simp add: split_slash_first)
  then show "s = g @ CHR ''/'' # r \<and> CHR ''/'' \<notin> set g \<and> CHR ''/'' \<notin> set r" using s g' by (auto simp: split_slash_single)
qed (simp add: split_slash_first split_slash_none)

lemma instance_name_pieces:
  "instance_name s \<longleftrightarrow> (\<exists>w. split_slash s = [w] \<and> w \<noteq> []) \<or> (\<exists>g r. split_slash s = [g, r] \<and> g \<noteq> [] \<and> r \<noteq> [])"
  unfolding instance_name_def split_slash_single split_slash_pair by auto

lemma list_lengths: "length xs = Suc 0 \<longleftrightarrow> (\<exists>x. xs = [x])" "length xs = 2 \<longleftrightarrow> (\<exists>x y. xs = [x, y])"
  by (auto simp: length_Suc_conv numeral_2_eq_2)

lemma pieces_ok:
  "instance_name s \<longleftrightarrow> (let pieces = split_slash s in (length pieces = 1 \<or> length pieces = 2)
     \<and> length (pieces ! 0) \<noteq> 0 \<and> (length pieces = 2 \<longrightarrow> length (pieces ! 1) \<noteq> 0))"
  unfolding instance_name_pieces Let_def by (auto simp: list_lengths)

lemma validateLifecycleErrands_None: "validateLifecycleErrands ns = None \<longleftrightarrow> list_all instance_name ns"
  by (induction ns) (auto simp: pieces_ok Let_def)

lemma validatePlanErrands_None:
  "validatePlanErrands p = None \<longleftrightarrow> list_all (\<lambda>e. list_all instance_name (errand_Instances e)) (errands_of p)"
proof (cases "plan_LifecycleErrands p")
  case (Some l)
  let ?check = "first_error (\<lambda>e. validateLifecycleErrands (errand_Instances e))"
  have check: "?check es = None \<longleftrightarrow> list_all (\<lambda>e. list_all instance_name (errand_Instances e)) es" for es
    by (simp add: first_error_None validateLifecycleErrands_None list_all_iff)
  have "validatePlanErrands p = None \<longleftrightarrow> ?check (PostDeploy l) = None \<and> ?check (PreDelete l) = None"
    by (auto simp: validatePlanErrands_def Some split: option.split)
  then show ?thesis by (simp add: check errands_of_def PostDeployErrands_def PreDeleteErrands_def Some)
qed (simp add: validatePlanErrands_def errands_of_def PostDeployErrands_def PreDeleteErrands_def)

lemma ServiceOffering_Validate_None: "ServiceOffering_Validate s = None \<longleftrightarrow> proper_errands s"
  by (simp add: ServiceOffering_Validate_def first_error_None validatePlanErrands_None proper_errands_def list_all_iff)

lemma firstOf_None: "firstOf rs = None \<longleftrightarrow> list_all (\<lambda>r. r = None) rs"
  by (induction rs rule: firstOf.induct) auto

definition executable_file :: "(string \<Rightarrow> gerr + FileInfo) \<Rightarrow> string \<Rightarrow> bool" where
  "executable_file stat path \<longleftrightarrow> path \<noteq> [] \<and> (\<exists>fi. stat path = Inr fi \<and> \<not> fi_IsDir fi \<and> bit (fi_Mode fi) 6 \<and> bit (fi_Mode fi) 8)"

lemma isExecutable_bits: "isExecutable fi \<longleftrightarrow> bit (fi_Mode fi) 6 \<and> bit (fi_Mode fi) 8"
proof -
  have "(0x140 :: 32 word) = push_bit 6 1 OR push_bit 8 1" by simp
  then have mask: "bit (0x140 :: 32 word) n \<longleftrightarrow> n = 6 \<or> n = 8" if "n < 32" for n
    using that by (auto simp only: bit_or_iff bit_push_bit_iff) (auto simp: bit_1_iff)
  show ?thesis
  proof
    assume "isExecutable fi"
    then have "bit (fi_Mode fi AND 0x140) n = bit (0x140 :: 32 word) n" for n by (simp add: isExecutable_def)
    from this [of 6] this [of 8] show "bit (fi_Mode fi) 6 \<and> bit (fi_Mode fi) 8" using mask [of 6] mask [of 8] by (simp add: bit_and_iff)
  next
    assume "bit (fi_Mode fi) 6 \<and> bit (fi_Mode fi) 8"
    then show "isExecutable fi" unfolding isExecutable_def by (intro bit_word_eqI) (use mask in \<open>auto simp: bit_and_iff\<close>)
  qed
qed

lemma checkIsExecutableFile_None: "checkIsExecutableFile stat path = None \<longleftrightarrow> executable_file stat path"
  by (auto simp: checkIsExecutableFile_def executable_file_def isExecutable_bits split: sum.splits)

text \<open>
  The configuration that the broker accepts: port, user and password of the broker are given; the director has an
  address and exactly one complete way to authenticate; so has Cloud Foundry, with the address of its UAA, unless the
  checks that need it are switched off; the service adapter is a file its owner may read and execute; no release floats with
  the latest version; and every instance an errand names is a group, or a group and an index.
\<close>

theorem config_accepted_iff:
  "Config_Validate stat c = None \<longleftrightarrow>
     set_Port (conf_Broker c) \<noteq> 0 \<and> set_Username (conf_Broker c) \<noteq> [] \<and> set_Password (conf_Broker c) \<noteq> []
     \<and> bosh_URL (conf_Bosh c) \<noteq> [] \<and> one_authentication False (bosh_Authentication (conf_Bosh c))
     \<and> (set_DisableCFStartupChecks (conf_Broker c) \<or> cfs_URL (conf_CF c) \<noteq> [] \<and> one_uaa True (uaa_URL (cfs_UAA (conf_CF c)))
          (uac_ClientCredentials (uaa_Authentication (cfs_UAA (conf_CF c)))) (uac_UserCredentials (uaa_Authentication (cfs_UAA (conf_CF c)))))
     \<and> executable_file stat (conf_ServiceAdapterPath c)
     \<and> list_all (\<lambda>r. \<not> has_suffix (rel_Version r) ''latest'') (sd_Releases (conf_ServiceDeployment c))
     \<and> proper_errands (conf_ServiceCatalog c)"
  by (auto simp: Config_Validate_def firstOf_None prefixed_def Broker_Validate_def Bosh_Validate_None CF_Validate_None
      checkIsExecutableFile_None ServiceDeployment_Validate_def assertReleases_None ServiceOffering_Validate_None)

section \<open>What the accepted configuration authenticates with\<close>

lemma CF_builder:
  assumes "CF_Validate cf = None"
  shows "if Client_IsSet (uac_ClientCredentials (uaa_Authentication (cfs_UAA cf)))
    then complete_client (uac_ClientCredentials (uaa_Authentication (cfs_UAA cf)))
      \<and> CF_NewAuthHeaderBuilder certPool cf = (case certPool of Inl err \<Rightarrow> Inl err | Inr _ \<Rightarrow> Inr (ClientTokenBuilder
          \<lparr>hb_uaaURL = uaa_URL (cfs_UAA cf), hb_clientID = cc_ID (uac_ClientCredentials (uaa_Authentication (cfs_UAA cf))),
           hb_clientSecret = cc_Secret (uac_ClientCredentials (uaa_Authentication (cfs_UAA cf)))\<rparr>))
    else complete_user (uac_UserCredentials (uaa_Authentication (cfs_UAA cf)))
      \<and> CF_NewAuthHeaderBuilder certPool cf = (case certPool of Inl err \<Rightarrow> Inl err | Inr _ \<Rightarrow> Inr (UserTokenBuilder
          \<lparr>hb_uaaURL = uaa_URL (cfs_UAA cf), hb_clientID = ''cf'', hb_clientSecret = [],
           hb_username = uc_Username (uac_UserCredentials (uaa_Authentication (cfs_UAA cf))),
           hb_password = uc_Password (uac_UserCredentials (uaa_Authentication (cfs_UAA cf)))\<rparr>))"
  using assms
  by (auto simp: CF_Validate_None one_uaa_def CF_NewAuthHeaderBuilder_def Let_def NewClientTokenAuthHeaderBuilder_def
      NewUserTokenAuthHeaderBuilder_def split: sum.splits)

lemma Bosh_builder_basic:
  assumes "Bosh_Validate b = None" and "User_IsSet (auth_Basic (bosh_Authentication b))"
  shows "complete_user (auth_Basic (bosh_Authentication b)) \<and> Bosh_NewAuthHeaderBuilder certPool b url
    = Inr (BasicAuthBuilder (uc_Username (auth_Basic (bosh_Authentication b))) (uc_Password (auth_Basic (bosh_Authentication b))))"
  using assms by (auto simp: Bosh_Validate_None one_authentication_def Bosh_NewAuthHeaderBuilder_def Let_def)

lemma Bosh_builder_uaa:
  assumes "Bosh_Validate b = None" and "\<not> User_IsSet (auth_Basic (bosh_Authentication b))"
    and "auth_UAA (bosh_Authentication b) = a"
  shows "Bosh_NewAuthHeaderBuilder certPool b url = (case certPool of Inl err \<Rightarrow> Inl err | Inr _ \<Rightarrow> Inr (ClientTokenBuilder
      \<lparr>hb_uaaURL = url, hb_clientID = cc_ID (ua_ClientCredentials a), hb_clientSecret = cc_Secret (ua_ClientCredentials a)\<rparr>))"
    and "if User_IsSet (ua_UserCredentials a) then cc_ID (ua_ClientCredentials a) = [] \<and> cc_Secret (ua_ClientCredentials a) = []
      else complete_client (ua_ClientCredentials a)"
proof -
  have uaa: "one_uaa False (ua_URL a) (ua_ClientCredentials a) (ua_UserCredentials a)"
    using assms by (auto simp: Bosh_Validate_None one_authentication_def)
  from one_uaa_set [OF this] assms(2)
  show "Bosh_NewAuthHeaderBuilder certPool b url = (case certPool of Inl err \<Rightarrow> Inl err | Inr _ \<Rightarrow> Inr (ClientTokenBuilder
      \<lparr>hb_uaaURL = url, hb_clientID = cc_ID (ua_ClientCredentials a), hb_clientSecret = cc_Secret (ua_ClientCredentials a)\<rparr>))"
    by (simp add: assms(3) Bosh_NewAuthHeaderBuilder_def Let_def NewClientTokenAuthHeaderBuilder_def split: sum.splits)
  show "if User_IsSet (ua_UserCredentials a) then cc_ID (ua_ClientCredentials a) = [] \<and> cc_Secret (ua_ClientCredentials a) = []
      else complete_client (ua_ClientCredentials a)"
    using uaa by (auto simp: one_uaa_def Client_IsSet_def)
qed

text \<open>
  C37.  What an accepted configuration authenticates with.  To BOSH: with a name and a password, if the configuration has
  them for BOSH, both non-empty; else through UAA, with the client's identifier and secret, both non-empty, unless the
  configuration gives a user for UAA: that is accepted too, but the builder still takes the client's identifier and secret, which are
  both empty then.  To Cloud Foundry, which is only looked at when the checks against it are not switched off: through UAA with the
  client's complete credentials or, without a client, with the user's.  The builders for UAA can only fail when the certificates of the
  system (\<open>certPool\<close>) cannot be read, with that error.
\<close>

theorem accepted_config_authenticates:
  assumes "Config_Validate stat c = None" and "a = bosh_Authentication (conf_Bosh c)" and "uaa = auth_UAA a"
    and "cf = cfs_UAA (conf_CF c)" and "creds = uaa_Authentication cf"
  shows "(if User_IsSet (auth_Basic a)
      then complete_user (auth_Basic a)
        \<and> Bosh_NewAuthHeaderBuilder certPool (conf_Bosh c) url = Inr (BasicAuthBuilder (uc_Username (auth_Basic a)) (uc_Password (auth_Basic a)))
      else Bosh_NewAuthHeaderBuilder certPool (conf_Bosh c) url = (case certPool of Inl err \<Rightarrow> Inl err | Inr _ \<Rightarrow> Inr (ClientTokenBuilder
          \<lparr>hb_uaaURL = url, hb_clientID = cc_ID (ua_ClientCredentials uaa), hb_clientSecret = cc_Secret (ua_ClientCredentials uaa)\<rparr>))
        \<and> (if User_IsSet (ua_UserCredentials uaa) then cc_ID (ua_ClientCredentials uaa) = [] \<and> cc_Secret (ua_ClientCredentials uaa) = []
           else complete_client (ua_ClientCredentials uaa)))
    \<and> (set_DisableCFStartupChecks (conf_Broker c) \<or>
      (if Client_IsSet (uac_ClientCredentials creds)
       then complete_client (uac_ClientCredentials creds)
         \<and> CF_NewAuthHeaderBuilder certPool (conf_CF c) = (case certPool of Inl err \<Rightarrow> Inl err | Inr _ \<Rightarrow> Inr (ClientTokenBuilder
             \<lparr>hb_uaaURL = uaa_URL cf, hb_clientID = cc_ID (uac_ClientCredentials creds), hb_clientSecret = cc_Secret (uac_ClientCredentials creds)\<rparr>))
       else complete_user (uac_UserCredentials creds)
         \<and> CF_NewAuthHeaderBuilder certPool (conf_CF c) = (case certPool of Inl err \<Rightarrow> Inl err | Inr _ \<Rightarrow> Inr (UserTokenBuilder
             \<lparr>hb_uaaURL = uaa_URL cf, hb_clientID = ''cf'', hb_clientSecret = [],
              hb_username = uc_Username (uac_UserCredentials creds), hb_password = uc_Password (uac_UserCredentials creds)\<rparr>))))"
proof -
  have bosh: "Bosh_Validate (conf_Bosh c) = None" and cf: "set_DisableCFStartupChecks (conf_Broker c) \<or> CF_Validate (conf_CF c) = None"
    using assms(1) by (auto simp: Config_Validate_def firstOf_None prefixed_def split: if_splits)
  show ?thesis
    unfolding assms(2-5)
    by (rule conjI, use Bosh_builder_basic [OF bosh, of certPool url] Bosh_builder_uaa(1) [OF bosh _ refl, of certPool url] Bosh_builder_uaa(2) [OF bosh _ refl] in presburger)
      (use cf CF_builder [of "conf_CF c" certPool] in blast)
qed

text \<open>An incomplete pair of credentials is reported with the path of the field that is missing.\<close>

lemma missing_client_field_named:
  assumes "\<not> User_IsSet (auth_Basic a)" and "\<not> User_IsSet (ua_UserCredentials (auth_UAA a))"
    and "Client_IsSet (ua_ClientCredentials (auth_UAA a))" and "\<not> complete_client (ua_ClientCredentials (auth_UAA a))"
  shows "Authentication_Validate False a = Some (FieldError (''authentication.uaa.client_credentials.''
     @ (if cc_ID (ua_ClientCredentials (auth_UAA a)) = [] then ''client_id'' else ''client_secret'')) (''can'' @ [CHR 0x27] @ ''t be empty''))"
  using assms
  by (auto simp: Authentication_Validate_def Let_def UAA_Validate_def validateAuthenticationFields_def UAA_IsSet_parts Client_Validate_def
      complete_client_def cantBeEmpty_def)

text \<open>The message of \<open>assertVersion\<close> speaks of stemcells too, but their versions are not looked at.\<close>

lemma floating_stemcell_accepted:
  "ServiceDeployment_Validate \<lparr>sd_Releases = [], sd_Stemcells = [\<lparr>stem_Name = [], stem_OS = ''ubuntu'', stem_Version = ''latest''\<rparr>]\<rparr> = None"
  by (simp add: ServiceDeployment_Validate_def)

section \<open>A sample\<close>

definition no_user :: UserCredentials where "no_user = \<lparr>uc_Username = [], uc_Password = []\<rparr>"

definition no_client :: ClientCredentials where "no_client = \<lparr>cc_ID = [], cc_Secret = []\<rparr>"

definition no_uaa :: UAAAuthentication where
  "no_uaa = \<lparr>ua_URL = [], ua_ClientCredentials = no_client, ua_UserCredentials = no_user\<rparr>"

definition basic_bosh :: Bosh where
  "basic_bosh = \<lparr>bosh_URL = ''https://bosh'', bosh_TrustedCert = [],
     bosh_Authentication = \<lparr>auth_Basic = \<lparr>uc_Username = ''admin'', uc_Password = ''pw''\<rparr>, auth_UAA = no_uaa\<rparr>\<rparr>"

definition client_cf :: CF where
  "client_cf = \<lparr>cfs_URL = ''https://cf'', cfs_TrustedCert = [],
     cfs_UAA = \<lparr>uaa_URL = ''https://uaa'',
       uaa_ClientDefinition = \<lparr>cd_Authorities = [], cd_AuthorizedGrantTypes = [], cd_ResourceIDs = [], cd_Scopes = [], cd_Name = [], cd_AllowPublic = False\<rparr>,
       uaa_Authentication = \<lparr>uac_ClientCredentials = \<lparr>cc_ID = ''id'', cc_Secret = ''secret''\<rparr>, uac_UserCredentials = no_user\<rparr>\<rparr>,
     cfs_DisableSSLCertVerification = False\<rparr>"

definition sample_settings :: BrokerSettings where
  "sample_settings = \<lparr>cfg_ExposeOperationalErrors = False, cfg_EnablePlanSchemas = False, cfg_EnableSecureManifests = False,
     cfg_DisableBoshConfigs = False, cfg_SupportBackupAgentBinding = False, set_Port = 8080, set_Username = ''broker'', set_Password = ''pw'',
     set_DisableSSLCertVerification = False, set_StartUpBanner = False, set_ShutdownTimeoutSecs = 10, set_DisableCFStartupChecks = False,
     set_UsingStdin = True, set_EnableTelemetry = False, set_EnableOptimisedUpgrades = False,
     set_TLS = \<lparr>tls_CertFile = [], tls_KeyFile = []\<rparr>, set_SkipCheckForPendingChanges = False\<rparr>"

definition sample_config :: Config where
  "sample_config = \<lparr>conf_Broker = sample_settings, conf_Bosh = basic_bosh, conf_CF = client_cf,
     conf_ServiceInstancesAPI = \<lparr>sia_URL = [], sia_RootCACert = [], sia_Authentication = \<lparr>auth_Basic = no_user, auth_UAA = no_uaa\<rparr>,
       sia_DisableSSLCertVerification = False\<rparr>,
     conf_CredHub = \<lparr>chs_APIURL = [], chs_ClientID = [], chs_ClientSecret = [], chs_CaCert = [], chs_InternalUAACaCert = []\<rparr>,
     conf_ServiceAdapterPath = ''/bin/adapter'',
     conf_ServiceDeployment = \<lparr>sd_Releases = [\<lparr>rel_Name = ''redis'', rel_Version = ''1.2'', rel_Jobs = []\<rparr>], sd_Stemcells = []\<rparr>,
     conf_ServiceCatalog = sample_offering,
     conf_BoshCredhub = \<lparr>bch_URL = [], bch_RootCACert = [], bch_Authentication = \<lparr>auth_Basic = no_user, auth_UAA = no_uaa\<rparr>\<rparr>\<rparr>"

definition one_file :: "string \<Rightarrow> gerr + FileInfo" where
  "one_file path = (if path = ''/bin/adapter'' then Inr \<lparr>fi_IsDir = False, fi_Mode = 0x1ED\<rparr> else Inl (ErrorString ''no such file''))"

lemma sample_config_accepted: "Config_Validate one_file sample_config = None"
  by (simp add: Config_Validate_def firstOf_None prefixed_def Broker_Validate_def Bosh_Validate_None CF_Validate_None
      checkIsExecutableFile_def isExecutable_def ServiceDeployment_Validate_def assertReleases_None sample_config_def sample_settings_def
      basic_bosh_def client_cf_def no_user_def no_client_def no_uaa_def one_authentication_def one_uaa_def complete_user_def
      complete_client_def UAA_IsSet_def User_IsSet_def Client_IsSet_def one_file_def has_suffix_def has_prefix_def
      ServiceOffering_Validate_def sample_offering_def sample_plan_def errand_plan_def validatePlanErrands_def zeroPlan_def assertVersion_def)

theorem accepted_config_authenticates_witness:
  "Bosh_NewAuthHeaderBuilder (Inr ()) (conf_Bosh sample_config) ''https://uaa'' = Inr (BasicAuthBuilder ''admin'' ''pw'')
   \<and> CF_NewAuthHeaderBuilder (Inr ()) (conf_CF sample_config)
     = Inr (ClientTokenBuilder \<lparr>hb_uaaURL = ''https://uaa'', hb_clientID = ''id'', hb_clientSecret = ''secret''\<rparr>)"
  using accepted_config_authenticates [OF sample_config_accepted refl refl refl refl, of "Inr ()" "''https://uaa''"]
  by (simp add: sample_config_def sample_settings_def basic_bosh_def client_cf_def User_IsSet_def Client_IsSet_def)

text \<open>A director that is to be reached as a user of UAA\<close>

lemma bosh_user_is_ignored:
  "let b = \<lparr>bosh_URL = ''https://bosh'', bosh_TrustedCert = [], bosh_Authentication = \<lparr>auth_Basic = no_user,
       auth_UAA = \<lparr>ua_URL = [], ua_ClientCredentials = no_client, ua_UserCredentials = \<lparr>uc_Username = ''admin'', uc_Password = ''pw''\<rparr>\<rparr>\<rparr>\<rparr> in
   Bosh_Validate b = None \<and> Bosh_NewAuthHeaderBuilder (Inr ()) b url
     = Inr (ClientTokenBuilder \<lparr>hb_uaaURL = url, hb_clientID = [], hb_clientSecret = []\<rparr>)"
  by (simp add: Bosh_Validate_None one_authentication_def one_uaa_def no_user_def no_client_def User_IsSet_def Client_IsSet_def
      complete_user_def UAA_IsSet_parts Bosh_NewAuthHeaderBuilder_def NewClientTokenAuthHeaderBuilder_def)

end
