(* ===== verification/Lister.thy ===== *)
theory Lister
  imports ServiceAdapter CFListing ConfigCheck
begin

text \<open>
  The listers of service instances (\<open>service/*.go\<close>), through Cloud Foundry or through a configured API of service
  instances, and the stand-in for Cloud Foundry when it is switched off (\<open>noopservicescontroller/client.go\<close>).

  How an error of the HTTP client presents itself (\<open>err.(*url.Error)\<close>) is a parameter: its URL and whether an
  unknown authority is behind it.  URLs have no fragment.
\<close>

section \<open>The API of service instances\<close>

record listerenv = cfenv +
  asUrlError :: "gerr \<Rightarrow> (string \<times> bool) option"

type_synonym headerBuilder = "HttpRequest \<Rightarrow> (gerr + HttpRequest) cf_m"

record ServiceInstanceLister =
  lst_authHeaderBuilder :: headerBuilder
  lst_baseURL :: string
  lst_configured :: bool

text \<open>\<open>request.URL.Query()\<close>, \<open>values.Encode()\<close> and the URL with a new query\<close>

definition rawQuery :: "string \<Rightarrow> string" where
  "rawQuery url = drop 1 (dropWhile (\<lambda>c. c \<noteq> CHR ''?'') url)"

definition encodePairs :: "smap \<Rightarrow> string" where
  "encodePairs values = join ''&'' (map (\<lambda>(k, v). QueryEscape k @ ''='' @ QueryEscape v) (sort_key fst values))"

definition withQuery :: "string \<Rightarrow> string \<Rightarrow> string" where
  "withQuery url query = (let path = takeWhile (\<lambda>c. c \<noteq> CHR ''?'') url in
     if query \<noteq> [] then path @ ''?'' @ query else if url = path @ ''?'' then url else path)"

text \<open>\<open>url\<close> is the URL of \<open>response.Request\<close>, \<open>None\<close> when there is no response.\<close>

definition instanceListerError :: "listerenv \<Rightarrow> ServiceInstanceLister \<Rightarrow> string option \<Rightarrow> gerr \<Rightarrow> gerr" where
  "instanceListerError E s url err =
     (let communicating = (\<lambda>u. ErrorString (''error communicating with service_instances_api ('' @ u @ ''): '' @ errmsg err)) in
      if lst_configured s then
        (case asUrlError E err of
           Some (u, unknownAuthority) \<Rightarrow>
             if unknownAuthority then ErrorString (''SSL validation error for `service_instances_api.url`: '' @ u
               @ ''. Please configure a `service_instances_api.root_ca_cert` and use a valid SSL certificate'')
             else communicating u
         | None \<Rightarrow> (case url of Some u \<Rightarrow> communicating u | None \<Rightarrow> err))
      else err)"

definition responseDescription :: "HttpResponse \<Rightarrow> string" where
  "responseDescription response = (case decodeBody (\<lambda>j. decodeStrMap ''genericJson'' j []) (rs_Json response) of
      Inl _ \<Rightarrow> [] | Inr genericJson \<Rightarrow> (case map_of genericJson ''description'' of None \<Rightarrow> [] | Some d \<Rightarrow> d))"

definition siapi_Instances :: "listerenv \<Rightarrow> ServiceInstanceLister \<Rightarrow> smap \<Rightarrow> (gerr + Instance list) cf_m" where
  "siapi_Instances E s params =
     (case urlError E (lst_baseURL s) of Some err \<Rightarrow> ret (Inl err)
      | None \<Rightarrow>
        let url = withQuery (lst_baseURL s) (encodePairs (ParseQuery (rawQuery (lst_baseURL s)) @ params)) in
        attempt (lst_authHeaderBuilder s \<lparr>rq_Method = ''GET'', rq_URL = url, rq_Headers = [], rq_Body = []\<rparr>) (\<lambda>err. ret (Inl err))
          (\<lambda>request.
        attempt (ext_call (\<lambda>h. o_Do E h request) (EHttp request)) (\<lambda>err. ret (Inl (instanceListerError E s None err))) (\<lambda>response.
        if rs_StatusCode response \<noteq> 200 then
          ret (Inl (instanceListerError E s (Some (rq_URL request))
            (ErrorString (''HTTP response status: '' @ rs_Status response @ ''. '' @ responseDescription response))))
        else ret (decodeServiceInstanceResponse response))))"

definition siapi_LatestInstanceInfo :: "listerenv \<Rightarrow> ServiceInstanceLister \<Rightarrow> Instance \<Rightarrow> (gerr + Instance) cf_m" where
  "siapi_LatestInstanceInfo E s i = attempt (siapi_Instances E s []) (\<lambda>err. ret (Inl err)) (\<lambda>instances.
     case findInstance (inst_GUID i) instances of Some inst \<Rightarrow> ret (Inr inst) | None \<Rightarrow> ret (Inl InstanceNotFoundError))"

section \<open>Cloud Foundry\<close>

text \<open>
  The client of Cloud Foundry that a lister is given: the one of \<open>cf/\<close>, or the stand-in.
\<close>

datatype ServicesController = CFController nat Client | NoopController

fun GetServiceInstancesOf :: "listerenv \<Rightarrow> ServicesController \<Rightarrow> GetInstancesFilter \<Rightarrow> (gerr + Instance list) cf_m" where
  "GetServiceInstancesOf E (CFController n c) filters = GetServiceInstances n (cfenv.truncate E) c filters"
| "GetServiceInstancesOf E NoopController filters = ret (Inr [])"

definition noop_GetAPIVersion :: "gerr + string" where
  "noop_GetAPIVersion = Inr ''2.57.0''"

definition noop_CountInstancesOfPlan :: "string \<Rightarrow> string \<Rightarrow> gerr + int" where
  "noop_CountInstancesOfPlan serviceOfferingID planID = Inr 1"

definition noop_CountInstancesOfServiceOffering :: "string \<Rightarrow> gerr + (CFServicePlan \<times> int) list" where
  "noop_CountInstancesOfServiceOffering serviceOfferingID = Inr []"

definition filterValue :: "smap \<Rightarrow> string \<Rightarrow> string" where
  "filterValue flt k = (case map_of flt k of None \<Rightarrow> [] | Some v \<Rightarrow> v)"

definition filtersFromMap :: "smap \<Rightarrow> gerr + string \<times> string" where
  "filtersFromMap flt =
     (let orgName = filterValue flt ''cf_org''; spaceName = filterValue flt ''cf_space'' in
      if length flt \<noteq> 0 \<and> orgName = [] then Inl (ErrorString ''missing required filter cf_org'')
      else if length flt \<noteq> 0 \<and> spaceName = [] then Inl (ErrorString ''missing required filter cf_space'')
      else if length flt > 2 then
        Inl (ErrorString (''unsupported filters: '' @ join '', '' (filter (\<lambda>k. k \<noteq> ''cf_org'' \<and> k \<noteq> ''cf_space'') (map fst flt))
          @ ''; supported filters are: cf_org, cf_space''))
      else Inr (orgName, spaceName))"

definition cflister_Instances :: "listerenv \<Rightarrow> ServicesController \<Rightarrow> string \<Rightarrow> smap \<Rightarrow> (gerr + Instance list) cf_m" where
  "cflister_Instances E client serviceOfferingID flt =
     (case filtersFromMap flt of Inl err \<Rightarrow> ret (Inl err)
      | Inr (orgName, spaceName) \<Rightarrow>
        attempt (GetServiceInstancesOf E client
            \<lparr>gif_ServiceOfferingID = serviceOfferingID, gif_OrgName = orgName, gif_SpaceName = spaceName\<rparr>)
          (\<lambda>err. ret (Inl (errorf ''could not retrieve list of instances: '' err)))
          (\<lambda>cfInstances. ret (Inr cfInstances)))"

section \<open>Choosing a lister\<close>

datatype InstanceLister = ListAPI ServiceInstanceLister | ListCF ServicesController string

fun InstanceLister_Instances :: "listerenv \<Rightarrow> InstanceLister \<Rightarrow> smap \<Rightarrow> (gerr + Instance list) cf_m" where
  "InstanceLister_Instances E (ListAPI s) params = siapi_Instances E s params"
| "InstanceLister_Instances E (ListCF client serviceOfferingID) params = cflister_Instances E client serviceOfferingID params"

definition basicHeader :: "string \<Rightarrow> string \<Rightarrow> headerBuilder" where
  "basicHeader username password request = ret (Inr (addHeader ''Authorization'' (basicAuthText username password) request))"

text \<open>\<open>certPool\<close> is the answer of \<open>x509.SystemCertPool\<close>.\<close>

definition BuildInstanceLister :: "gerr + unit \<Rightarrow> ServicesController \<Rightarrow> string \<Rightarrow> ServiceInstancesAPI \<Rightarrow> gerr + InstanceLister" where
  "BuildInstanceLister certPool client serviceOfferingID siapiConfig =
     (if sia_URL siapiConfig = [] then Inr (ListCF client serviceOfferingID)
      else (case certPool of
          Inl err \<Rightarrow> Inl (errorf ''error getting a certificate pool to append our trusted cert to: '' err)
        | Inr _ \<Rightarrow> Inr (ListAPI \<lparr>lst_authHeaderBuilder = basicHeader (uc_Username (auth_Basic (sia_Authentication siapiConfig)))
              (uc_Password (auth_Basic (sia_Authentication siapiConfig))),
            lst_baseURL = sia_URL siapiConfig, lst_configured = True\<rparr>)))"

section \<open>Filters\<close>

lemma filterValue_Cons: "filterValue ((k, v) # flt) k' = (if k = k' then v else filterValue flt k')" "filterValue [] k' = []"
  by (simp_all add: filterValue_def)

lemma filtersFromMap_cases:
  assumes "distinct (map fst flt)"
  shows "filtersFromMap flt = Inr (org, space) \<longleftrightarrow> flt = [] \<and> org = [] \<and> space = []
     \<or> org \<noteq> [] \<and> space \<noteq> [] \<and> (flt = [(''cf_org'', org), (''cf_space'', space)] \<or> flt = [(''cf_space'', space), (''cf_org'', org)])"
    (is "?l \<longleftrightarrow> ?r")
proof (cases "length flt \<le> 2")
  case True
  then consider "flt = []" | p where "flt = [p]" | p q where "flt = [p, q]"
    by (cases flt; cases "tl flt") auto
  then show ?thesis
    by cases (use assms in \<open>auto simp: filtersFromMap_def filterValue_def Let_def split: if_splits\<close>)
next
  case False
  then show ?thesis by (auto simp: filtersFromMap_def Let_def)
qed

lemma no_filter: "filtersFromMap [] = Inr ([], [])"
  by (simp add: filtersFromMap_cases)

definition acceptable :: "smap \<Rightarrow> bool" where
  "acceptable flt \<longleftrightarrow> flt = [] \<or> (dom (map_of flt) = {''cf_org'', ''cf_space''} \<and> [] \<notin> ran (map_of flt))"

lemma two_keys:
  assumes "distinct (map fst flt)" "fst ` set flt = {k, k'}" "k \<noteq> k'"
  shows "\<exists>v v'. flt = [(k, v), (k', v')] \<or> flt = [(k', v'), (k, v)]"
proof -
  have "length flt = card (fst ` set flt)" using assms(1) by (metis distinct_card length_map set_map)
  with assms(2,3) have "length flt = 2" by simp
  then obtain p q where "flt = [p, q]" by (auto simp: length_Suc_conv numeral_2_eq_2)
  with assms show ?thesis by (cases p; cases q) (auto simp: doubleton_eq_iff)
qed

lemma filtersFromMap_accepts:
  assumes "distinct (map fst flt)"
  shows "(\<exists>org space. filtersFromMap flt = Inr (org, space)) \<longleftrightarrow> acceptable flt"
proof
  assume "\<exists>org space. filtersFromMap flt = Inr (org, space)"
  then show "acceptable flt" unfolding filtersFromMap_cases [OF assms] acceptable_def by (auto simp: ran_def split: if_splits)
next
  assume ok: "acceptable flt"
  show "\<exists>org space. filtersFromMap flt = Inr (org, space)"
  proof (cases "flt = []")
    case True
    then show ?thesis by (simp add: filtersFromMap_cases)
  next
    case False
    with ok have "fst ` set flt = {''cf_org'', ''cf_space''}" and "[] \<notin> ran (map_of flt)"
      by (simp_all add: acceptable_def dom_map_of_conv_image_fst)
    note keys = this
    consider org space where "flt = [(''cf_org'', org), (''cf_space'', space)]" | org space where "flt = [(''cf_space'', space), (''cf_org'', org)]"
      using two_keys [OF assms keys(1)] by blast
    moreover have "map_of flt ''cf_org'' \<noteq> Some []" "map_of flt ''cf_space'' \<noteq> Some []" using keys(2) by (auto simp: ran_def)
    ultimately show ?thesis unfolding filtersFromMap_cases [OF assms] by cases auto
  qed
qed

text \<open>
  C36.  Listing through Cloud Foundry.  Without a filter the lister gives exactly the instances of the plans of the
  service, each with its plan and space.  A filter is accepted exactly when it names an organization and a space, both
  not empty, and nothing else; for any other filter there is an error, and Cloud Foundry is asked nothing.
\<close>

theorem cf_lister_contract:
  assumes "offers (cfenv.truncate E) c n sid plans insts" and "distinct (map fst flt)"
  shows "fst (cflister_Instances E (CFController n c) sid [] s) = Val (Inr (concat (map (\<lambda>p. map (toInstance p) (insts p)) plans)))
    \<and> ((\<exists>org space. filtersFromMap flt = Inr (org, space)) \<longleftrightarrow> acceptable flt)
    \<and> (acceptable flt \<or> (\<exists>err. cflister_Instances E (CFController n c) sid flt s = (Val (Inl err), s)))"
proof (intro conjI)
  obtain s' where "GetServiceInstances n (cfenv.truncate E) c (serviceFilter sid) s
      = (Val (Inr (concat (map (\<lambda>p. map (toInstance p) (insts p)) plans))), s')"
    using GetServiceInstances_offers [OF assms(1), of s] by (metis prod.collapse)
  then show "fst (cflister_Instances E (CFController n c) sid [] s) = Val (Inr (concat (map (\<lambda>p. map (toInstance p) (insts p)) plans)))"
    by (simp add: cflister_Instances_def serviceFilter_def no_filter run)
  show "(\<exists>org space. filtersFromMap flt = Inr (org, space)) \<longleftrightarrow> acceptable flt"
    by (rule filtersFromMap_accepts [OF assms(2)])
  show "acceptable flt \<or> (\<exists>err. cflister_Instances E (CFController n c) sid flt s = (Val (Inl err), s))"
    using filtersFromMap_accepts [OF assms(2)]
    by (cases "filtersFromMap flt") (auto simp: cflister_Instances_def run split: prod.splits)
qed

section \<open>Requests to the API of service instances\<close>

lemma map_fst_escape:
  "parsePairs (map (\<lambda>(k, v). QueryEscape k @ ''='' @ QueryEscape v) kvs) = kvs"
  by (induction kvs) (auto simp: cutAt_pair QueryUnescape_Escape)

lemma ParseQuery_encodePairs: "ParseQuery (encodePairs kvs) = sort_key fst kvs"
proof (cases "kvs = []")
  case True
  then show ?thesis by (simp add: encodePairs_def ParseQuery_def)
next
  case False
  then have "sort_key fst kvs \<noteq> []" by (metis length_0_conv length_sort)
  then have "splitOn (CHR ''&'') (encodePairs kvs) = map (\<lambda>(k, v). QueryEscape k @ ''='' @ QueryEscape v) (sort_key fst kvs)"
    unfolding encodePairs_def by (subst splitOn_join) auto
  then show ?thesis unfolding ParseQuery_def by (simp only: map_fst_escape)
qed

lemma rawQuery_path: "rawQuery (takeWhile (\<lambda>c. c \<noteq> CHR ''?'') url @ CHR ''?'' # query) = query"
proof -
  have "dropWhile (\<lambda>c. c \<noteq> CHR ''?'') (takeWhile (\<lambda>c. c \<noteq> CHR ''?'') url @ CHR ''?'' # query) = CHR ''?'' # query"
    by (induction url) auto
  then show ?thesis by (simp add: rawQuery_def)
qed

lemma rawQuery_withQuery: "query \<noteq> [] \<Longrightarrow> rawQuery (withQuery url query) = query"
  by (simp add: withQuery_def rawQuery_path Let_def)

lemma rawQuery_noQuery: "rawQuery (withQuery url []) = []"
proof (cases "url = takeWhile (\<lambda>c. c \<noteq> CHR ''?'') url @ ''?''")
  case True
  then show ?thesis using rawQuery_path [of url "[]"] by (simp add: withQuery_def Let_def)
next
  case False
  have "dropWhile (\<lambda>c. c \<noteq> CHR ''?'') (takeWhile (\<lambda>c. c \<noteq> CHR ''?'') url) = []"
    by (induction url) auto
  with False show ?thesis by (simp only: withQuery_def Let_def rawQuery_def if_False simp_thms drop_Nil)
qed

lemma encodePairs_empty: "encodePairs kvs = [] \<longleftrightarrow> kvs = []"
proof
  assume "encodePairs kvs = []"
  then have "sort_key fst kvs = ParseQuery []" by (metis ParseQuery_encodePairs)
  then show "kvs = []" by (simp add: ParseQuery_def) (metis length_0_conv length_sort)
qed (simp add: encodePairs_def)

lemma withQuery_pairs: "ParseQuery (rawQuery (withQuery url (encodePairs kvs))) = sort_key fst kvs"
proof (cases "kvs = []")
  case True
  with encodePairs_empty [of kvs] show ?thesis by (simp add: rawQuery_noQuery ParseQuery_def)
next
  case False
  with encodePairs_empty [of kvs] show ?thesis by (simp add: rawQuery_withQuery ParseQuery_encodePairs)
qed

lemma rq_addHeader: "rq_Method (addHeader k v r) = rq_Method r" "rq_URL (addHeader k v r) = rq_URL r"
  by (simp_all add: addHeader_def)

lemma read_basic:
  assumes "CHR '':'' \<in> set u" and "map_of (rq_Headers r) ''Authorization'' = None"
  shows "\<exists>password. BasicAuth (addHeader ''Authorization'' (basicAuthText u p) r) = Some (takeWhile (\<lambda>c. c \<noteq> CHR '':'') u, password)"
proof -
  have "map_of (rq_Headers (addHeader ''Authorization'' (basicAuthText u p) r)) ''Authorization'' = Some (basicAuthText u p)"
    using assms(2) by (simp add: addHeader_def map_add_Some_iff)
  moreover have "basicAuthText u p \<noteq> []" by (simp add: basicAuthText_def)
  ultimately show ?thesis using assms(1) by (simp add: BasicAuth_def parseBasicAuth_text)
qed

text \<open>
  C35.  Listing through a configured API of service instances.  One request is sent, a GET: its query has the pairs of
  the configured URL and those of the filter, whatever characters they are made of; its header passes the check of a
  server that expects the configured user if the user's name has no colon; the configuration accepts one with a colon too, and
  then the server reads the part before it as the name.  There are instances exactly when the answer has the status 200 and a body
  that decodes to them; an address that is no URL is not asked.
\<close>

theorem siapi_lister_asks:
  assumes "BuildInstanceLister certPool client sid siapi = Inr lister" and "sia_URL siapi \<noteq> []"
    and "auth_Basic (sia_Authentication siapi) = user"
  shows "ensures (\<lambda>r tr. if urlError E (sia_URL siapi) \<noteq> None then tr = [] \<and> (\<exists>err. r = Val (Inl err))
      else \<exists>request answer. tr = [EHttp request answer] \<and> rq_Method request = ''GET''
        \<and> ParseQuery (rawQuery (rq_URL request)) = sort_key fst (ParseQuery (rawQuery (sia_URL siapi)) @ params)
        \<and> (if CHR '':'' \<notin> set (uc_Username user)
           then authorized digest (NewWrapper digest (uc_Username user) (uc_Password user)) request
           else \<exists>password. BasicAuth request = Some (takeWhile (\<lambda>c. c \<noteq> CHR '':'') (uc_Username user), password))
        \<and> (case r of Val (Inr is) \<Rightarrow> (\<exists>response. answer = Inr response \<and> rs_StatusCode response = 200 \<and> decodeServiceInstanceResponse response = Inr is)
            | Val (Inl err) \<Rightarrow> (case answer of Inl _ \<Rightarrow> True | Inr response \<Rightarrow>
                rs_StatusCode response \<noteq> 200 \<or> decodeServiceInstanceResponse response = Inl err)
            | _ \<Rightarrow> False))
    [] (InstanceLister_Instances E lister params)"
proof -
  let ?s = "\<lparr>lst_authHeaderBuilder = basicHeader (uc_Username user) (uc_Password user), lst_baseURL = sia_URL siapi, lst_configured = True\<rparr>"
  have lister: "lister = ListAPI ?s" using assms(1-3) by (auto simp: BuildInstanceLister_def split: sum.splits)
  show ?thesis
  proof (cases "urlError E (sia_URL siapi)")
    case None
    let ?request = "addHeader ''Authorization'' (basicAuthText (uc_Username user) (uc_Password user)) \<lparr>rq_Method = ''GET'',
        rq_URL = withQuery (sia_URL siapi) (encodePairs (ParseQuery (rawQuery (sia_URL siapi)) @ params)), rq_Headers = [], rq_Body = []\<rparr>"
    have asked: "rq_Method ?request = ''GET''" "ParseQuery (rawQuery (rq_URL ?request)) = sort_key fst (ParseQuery (rawQuery (sia_URL siapi)) @ params)"
      by (simp_all add: rq_addHeader withQuery_pairs)
    have header: "if CHR '':'' \<notin> set (uc_Username user)
        then authorized digest (NewWrapper digest (uc_Username user) (uc_Password user)) ?request
        else \<exists>password. BasicAuth ?request = Some (takeWhile (\<lambda>c. c \<noteq> CHR '':'') (uc_Username user), password)"
      by (simp add: authorized_basic read_basic)
    show ?thesis
      unfolding lister InstanceLister_Instances.simps siapi_Instances_def Let_def
      by (simp add: None basicHeader_def, intro ens_attempt_call)
        (use asked header in \<open>auto intro!: ens exI [of _ ?request] split: sum.splits\<close>)
  next
    case (Some err)
    then show ?thesis by (auto simp: lister siapi_Instances_def intro!: ens)
  qed
qed

section \<open>Examples\<close>

definition listing_env :: listerenv where
  "listing_env = cfenv.extend ((foundry_env ''delete'' ''failed'')\<lparr>o_Do := \<lambda>h request. Inr
       \<lparr>rs_StatusCode = 200, rs_Status = ''200 OK'', rs_Text = [], rs_Json = WJson (JArr [JObj [(''service_instance_id'', JStr ''i1'')]])\<rparr>\<rparr>)
     \<lparr>asUrlError = \<lambda>_. None\<rparr>"

definition plain_env :: listerenv where
  "plain_env = cfenv.extend (foundry_env ''delete'' ''failed'') \<lparr>asUrlError = \<lambda>_. None\<rparr>"

lemma plain_truncate: "cfenv.truncate plain_env = foundry_env ''delete'' ''failed''"
  by (simp add: plain_env_def cfenv.truncate_def cfenv.extend_def foundry_env_def)

theorem cf_lister_contract_witness:
  "fst (cflister_Instances plain_env (CFController 3 foundry_client) ''svc'' [] no_events) = Val (Inr [only_instance])
   \<and> (\<exists>err. cflister_Instances plain_env (CFController 3 foundry_client) ''svc'' [(''cf_org'', ''o'')] no_events = (Val (Inl err), no_events))"
proof -
  have "\<not> acceptable [(''cf_org'', ''o'')]" by (auto simp: acceptable_def)
  with cf_lister_contract [of plain_env, unfolded plain_truncate, OF foundry_offers, of "[(''cf_org'', ''o'')]" no_events] show ?thesis
    by (simp add: toInstance_def small_plan_def zero_instance_def only_instance_def zero_plan_def)
qed

definition api_settings :: ServiceInstancesAPI where
  "api_settings = \<lparr>sia_URL = ''https://si/api?x=1'', sia_RootCACert = [],
     sia_Authentication = \<lparr>auth_Basic = \<lparr>uc_Username = ''u'', uc_Password = ''p:w''\<rparr>, auth_UAA = no_uaa\<rparr>,
     sia_DisableSSLCertVerification = False\<rparr>"

theorem siapi_lister_asks_witness:
  "\<exists>lister request answer s'. BuildInstanceLister (Inr ()) NoopController ''svc'' api_settings = Inr lister
     \<and> InstanceLister_Instances listing_env lister [(''cf_org'', ''a&b'')] no_events = (Val (Inr [\<lparr>inst_GUID = ''i1'', inst_PlanUniqueID = [], inst_SpaceGUID = []\<rparr>]), s')
     \<and> hist s' = [EHttp request answer]
     \<and> ParseQuery (rawQuery (rq_URL request)) = [(''cf_org'', ''a&b''), (''x'', ''1'')]"
proof -
  obtain lister where built: "BuildInstanceLister (Inr ()) NoopController ''svc'' api_settings = Inr lister"
    by (simp add: BuildInstanceLister_def api_settings_def)
  have url: "sia_URL api_settings \<noteq> []" and user: "auth_Basic (sia_Authentication api_settings) = \<lparr>uc_Username = ''u'', uc_Password = ''p:w''\<rparr>"
    and base: "ParseQuery (rawQuery (sia_URL api_settings)) = [(''x'', ''1'')]" and ok: "urlError listing_env (sia_URL api_settings) = None"
    by (simp_all add: api_settings_def rawQuery_def ParseQuery_def listing_env_def foundry_env_def cfenv.extend_def)
  obtain s' where result: "InstanceLister_Instances listing_env lister [(''cf_org'', ''a&b'')] no_events
      = (Val (Inr [\<lparr>inst_GUID = ''i1'', inst_PlanUniqueID = [], inst_SpaceGUID = []\<rparr>]), s')"
    using built
    by (auto simp: BuildInstanceLister_def api_settings_def siapi_Instances_def basicHeader_def run addHeader_def
        listing_env_def foundry_env_def cfenv.extend_def decodeServiceInstanceResponse_def decodeBody_def key_is_def)
  from ensuresD [OF siapi_lister_asks [OF built url user, where E = listing_env and digest = "\<lambda>s. s" and params = "[(''cf_org'', ''a&b'')]"] result] ok base built result
  show ?thesis by auto
qed

text \<open>Where Cloud Foundry is switched off and no API is configured, there are no instances to list.\<close>

lemma noop_lists_nothing:
  "sia_URL siapi = [] \<Longrightarrow> BuildInstanceLister certPool NoopController sid siapi = Inr lister
   \<Longrightarrow> InstanceLister_Instances E lister [] s = (Val (Inr []), s)"
  by (auto simp: BuildInstanceLister_def cflister_Instances_def no_filter run)

end
