(* ===== verification/Initiator.thy ===== *)
theory Initiator
  imports StartupChecks Lister CredHub
begin

text \<open>
  The way to the broker (\<open>brokerinitiator/start.go\<close>, up to the return of \<open>broker.New\<close>): the start-up checks are put
  together, the clients the broker works with are built, and the broker is made from the answers of the checks.

  What the clients are built from leaves the code: \<open>newCredHub\<close> is \<open>credhub.New\<close> of CredHub's library, \<open>certPool\<close> the
  answer of \<open>x509.SystemCertPool\<close>.  The director's answers are given.  The releases and stemcells of the configuration reach
  the deployer as the documents the service adapter is given.  Cloud Foundry's client is the one \<open>main\<close> makes: the stand-in
  when the checks against Cloud Foundry are switched off.
\<close>

section \<open>The clients\<close>

record directorAnswers =
  an_Info :: "gerr + Info"
  an_VerifyAuth :: "gerr option"

definition buildStartupChecks :: "nat \<Rightarrow> cfenv \<Rightarrow> Client \<Rightarrow> directorAnswers \<Rightarrow> Config \<Rightarrow> (gerr + (gerr option) cf_m list)" where
  "buildStartupChecks n E cfc boshClient conf =
     (let cfChecks = (if \<not> set_DisableCFStartupChecks (conf_Broker conf)
            then [CFAPIVersionChecker_Check E cfc MinimumCFVersion,
                  CFPlanConsistencyChecker_Check n E cfc (conf_ServiceCatalog conf)]
            else []) in
      case an_Info boshClient of
        Inl err \<Rightarrow> Inl (errorf ''error starting broker: '' err)
      | Inr boshInfo \<Rightarrow> Inr (cfChecks @
          [ret (BOSHDirectorVersionChecker_Check (quoted E)
             \<lparr>minimumMajorStemcellDirectorVersionForODB = MinimumMajorStemcellDirectorVersionForODB,
              minimumMajorSemverDirectorVersionForLifecycleErrands = MinimumMajorSemverDirectorVersionForLifecycleErrands,
              c_boshInfo = boshInfo, c_serviceCatalog = conf_ServiceCatalog conf\<rparr>),
           ret (BOSHAuthChecker_Check (an_VerifyAuth boshClient))]))"

datatype credhubOption = UaaClientCredentials string string | CaCerts "string list"

type_synonym 'st credhubNew = "string \<Rightarrow> credhubOption list \<Rightarrow> gerr + 'st"

text \<open>\<open>credhub.Build\<close> passes an error on; without secure manifests the store is a nil pointer.\<close>

definition buildCredhubStore :: "'st credhubNew \<Rightarrow> Config \<Rightarrow> gerr + 'st option" where
  "buildCredhubStore newCredHub conf =
     (if cfg_EnableSecureManifests (conf_Broker conf) then
        (let client = ua_ClientCredentials (auth_UAA (bch_Authentication (conf_BoshCredhub conf))) in
         case newCredHub (bch_URL (conf_BoshCredhub conf))
             [UaaClientCredentials (cc_ID client) (cc_Secret client),
              CaCerts [bch_RootCACert (conf_BoshCredhub conf), bosh_TrustedCert (conf_Bosh conf)]] of
           Inl err \<Rightarrow> Inl (errorf ''error starting broker: '' err)
         | Inr store \<Rightarrow> Inr (Some store))
      else Inr None)"

definition newDeployer :: "env \<Rightarrow> json \<Rightarrow> json \<Rightarrow> 'st option \<Rightarrow> Config \<Rightarrow> deployer" where
  "newDeployer W releases stemcells boshCredhubStore conf = task_Deployer
     \<lparr>dep_DisableBoshConfigs = cfg_DisableBoshConfigs (conf_Broker conf),
      dep_SkipCheckForPendingChanges = set_SkipCheckForPendingChanges (conf_Broker conf),
      dep_HasBulkSetter = (boshCredhubStore \<noteq> None), dep_SecretsOfferingID = off_ID (conf_ServiceCatalog conf),
      gen_serviceOffering = conf_ServiceCatalog conf, gen_serviceReleases = releases, gen_serviceStemcells = stemcells\<rparr> W"

definition cfController :: "nat \<Rightarrow> Client \<Rightarrow> Config \<Rightarrow> ServicesController" where
  "cfController n cfc conf = (if \<not> set_DisableCFStartupChecks (conf_Broker conf) then CFController n cfc else NoopController)"

section \<open>The broker\<close>

fun runChecks :: "(gerr option) cf_m list \<Rightarrow> (gerr option list) cf_m" where
  "runChecks [] = ret []"
| "runChecks (check # checks) = seq check (\<lambda>r. seq (runChecks checks) (\<lambda>rs. ret (r # rs)))"

text \<open>
  What \<open>Initiate\<close> does up to the return of \<open>broker.New\<close>; \<open>Inl\<close> is the message of \<open>logger.Fatalf\<close>, after which the
  process ends.  Beside the broker it has the lister of instances and the manager of secrets that go into it.
\<close>

definition startBroker :: "nat \<Rightarrow> cfenv \<Rightarrow> env \<Rightarrow> Client \<Rightarrow> directorAnswers \<Rightarrow> 'st credhubNew \<Rightarrow> gerr + unit \<Rightarrow> json \<Rightarrow> json \<Rightarrow> Config
    \<Rightarrow> (gerr + Broker \<times> InstanceLister \<times> secretManager) cf_m" where
  "startBroker n E W cfc boshClient newCredHub certPool releases stemcells conf =
     (case buildStartupChecks n E cfc boshClient conf of
      Inl err \<Rightarrow> ret (Inl err)
    | Inr startupChecks \<Rightarrow> (case buildCredhubStore newCredHub conf of
      Inl err \<Rightarrow> ret (Inl err)
    | Inr boshCredhubStore \<Rightarrow>
        let deploymentManager = newDeployer W releases stemcells boshCredhubStore conf;
            manifestSecretManager = BuildManager (cfg_EnableSecureManifests (conf_Broker conf)) in
        (case BuildInstanceLister certPool (cfController n cfc conf) (off_ID (conf_ServiceCatalog conf)) (conf_ServiceInstancesAPI conf) of
      Inl err \<Rightarrow> ret (Inl (errorf ''error building instance lister: '' err))
    | Inr instanceLister \<Rightarrow> seq (runChecks startupChecks) (\<lambda>answers.
        case Broker_New deploymentManager (conf_ServiceCatalog conf) (BrokerConfig.truncate (conf_Broker conf)) answers of
          Inl err \<Rightarrow> ret (Inl (errorf ''error starting broker: '' err))
        | Inr b \<Rightarrow> ret (Inr (b, instanceLister, manifestSecretManager))))))"

section \<open>When a broker comes to exist\<close>

definition allPass :: "(gerr option) cf_m list \<Rightarrow> ievent gstate \<Rightarrow> bool" where
  "allPass checks s \<longleftrightarrow> (\<exists>rs s'. runChecks checks s = (Val rs, s') \<and> filter (\<lambda>r. r \<noteq> None) rs = [])"

lemma allPass_Nil [simp]: "allPass [] s"
  by (simp add: allPass_def run)

lemma allPass_Cons [simp]: "allPass (check # checks) s \<longleftrightarrow> (\<exists>s1. check s = (Val None, s1) \<and> allPass checks s1)"
  by (auto simp: allPass_def run split: prod.splits outcome.splits)

lemma Broker_New_built: "(\<exists>b. Broker_New dep offering cfg rs = Inr b) \<longleftrightarrow> filter (\<lambda>r. r \<noteq> None) rs = []"
  by (subst broker_New_iff) auto

lemma starts_allPass:
  "(\<exists>b. fst (startBroker n E W c boshClient newCredHub certPool releases stemcells conf s) = Val (Inr b)) \<longleftrightarrow>
     (\<exists>checks. buildStartupChecks n E c boshClient conf = Inr checks \<and> allPass checks s)
     \<and> (\<exists>store. buildCredhubStore newCredHub conf = Inr store)
     \<and> (\<exists>lister. BuildInstanceLister certPool (cfController n c conf) (off_ID (conf_ServiceCatalog conf)) (conf_ServiceInstancesAPI conf) = Inr lister)"
  (is "?started \<longleftrightarrow> _ \<and> ?store \<and> ?lister")
proof (cases "?store \<and> ?lister")
  case True
  then obtain store lister where built: "buildCredhubStore newCredHub conf = Inr store"
    "BuildInstanceLister certPool (cfController n c conf) (off_ID (conf_ServiceCatalog conf)) (conf_ServiceInstancesAPI conf) = Inr lister"
    by blast
  show ?thesis
  proof (cases "buildStartupChecks n E c boshClient conf")
    case (Inr checks)
    obtain r s1 where r: "runChecks checks s = (r, s1)" by force
    show ?thesis
    proof (cases r)
      case (Val rs)
      then show ?thesis
        using Broker_New_built [of "newDeployer W releases stemcells store conf" "conf_ServiceCatalog conf"
            "BrokerConfig.truncate (conf_Broker conf)" rs] r Inr
        by (auto simp: startBroker_def run allPass_def built Let_def split: sum.splits)
    qed (use r Inr in \<open>auto simp: startBroker_def run allPass_def built Let_def\<close>)
  qed (simp add: startBroker_def run)
next
  case False
  then show ?thesis by (auto simp: startBroker_def run Let_def split: sum.splits)
qed

lemma store_built:
  "(\<exists>store. buildCredhubStore newCredHub conf = Inr store) \<longleftrightarrow>
     (cfg_EnableSecureManifests (conf_Broker conf) \<longrightarrow>
        (\<exists>store client. client = ua_ClientCredentials (auth_UAA (bch_Authentication (conf_BoshCredhub conf)))
           \<and> newCredHub (bch_URL (conf_BoshCredhub conf)) [UaaClientCredentials (cc_ID client) (cc_Secret client),
               CaCerts [bch_RootCACert (conf_BoshCredhub conf), bosh_TrustedCert (conf_Bosh conf)]] = Inr store))"
  by (simp add: buildCredhubStore_def Let_def split: sum.splits)

lemma lister_built:
  "(\<exists>lister. BuildInstanceLister certPool client sid siapi = Inr lister) \<longleftrightarrow> sia_URL siapi = [] \<or> certPool = Inr ()"
  by (cases certPool) (auto simp: BuildInstanceLister_def)

lemma dns_configured: "HasBindingWithDNSConfigured offering \<longleftrightarrow> (\<exists>plan\<in>set (off_Plans offering). plan_BindingWithDNS plan \<noteq> [])"
proof -
  have "anyBindingWithDNS plans \<longleftrightarrow> (\<exists>plan\<in>set plans. plan_BindingWithDNS plan \<noteq> [])" for plans
    by (induction plans) auto
  then show ?thesis by (simp add: HasBindingWithDNSConfigured_def)
qed

definition has_errands :: "Plan \<Rightarrow> bool" where
  "has_errands plan \<longleftrightarrow> (\<exists>errands. plan_LifecycleErrands plan = Some errands \<and> (PostDeploy errands \<noteq> [] \<or> PreDelete errands \<noteq> []))"

lemma errands_configured: "HasLifecycleErrands offering \<longleftrightarrow> (\<exists>plan\<in>set (off_Plans offering). has_errands plan)"
proof -
  have "HasLifecycleErrands_plans plans \<longleftrightarrow> (\<exists>plan\<in>set plans. has_errands plan)" for plans
    by (induction plans) (auto simp: has_errands_def split: option.splits)
  then show ?thesis by (simp add: HasLifecycleErrands_def)
qed

text \<open>What the director must be able to do for the catalog, by the kind and the number of its version\<close>

definition director_sufficient :: "ServiceOffering \<Rightarrow> string \<Rightarrow> Version \<Rightarrow> bool" where
  "director_sufficient offering kind v \<longleftrightarrow>
     (kind = ''semver'' \<or> 3262 \<le> sint (Major v))
     \<and> ((\<exists>plan\<in>set (off_Plans offering). plan_BindingWithDNS plan \<noteq> []) \<longrightarrow>
          kind = ''semver'' \<and> (GE (core v) (release 267 6 0) \<or> GE (core v) (release 266 12 0) \<and> LT (core v) (release 267 0 0)))
     \<and> ((\<exists>plan\<in>set (off_Plans offering). has_errands plan) \<longrightarrow> kind = ''semver'' \<and> 261 \<le> sint (Major v))"

lemma director_passes:
  "BOSHDirectorVersionChecker_Check fmtq \<lparr>minimumMajorStemcellDirectorVersionForODB = 3262,
       minimumMajorSemverDirectorVersionForLifecycleErrands = 261, c_boshInfo = boshInfo, c_serviceCatalog = offering\<rparr> = None
   \<longleftrightarrow> (\<exists>v kind. newBoshDirectorVersion fmtq (info_Version boshInfo) = (\<lparr>dv_Version = v, dv_Type = kind\<rparr>, None)
         \<and> director_sufficient offering kind v)"
  by (simp add: director_check_passes_iff_lemma director_sufficient_def dns_configured errands_configured
      bindingWithDNS_documented_def between_def)

text \<open>
  C21.  The broker comes to exist, that is \<open>broker.New\<close> returns it, exactly when all of this holds.  The director was
  reached and accepts the credentials.  The version it reports is recognised (by \<open>newBoshDirectorVersion\<close>, whose
  reading \<open>director_version_roundtrip\<close> describes) and is enough for the catalog: a semantic version or a stemcell version from
  3262 on; if a plan binds with DNS, a semantic version whose numbers are 266.12 or later in 266, or 267.6 or later; if a plan
  has life-cycle errands, a semantic version from 261 on.  With secure manifests, the client of CredHub could be built for the
  configured address.  With an API of service instances configured, the system's certificates could be read.  And unless these
  checks are switched off, Cloud Foundry's API has at least version 2.57.0, the instances of every plan could be counted (in at
  most \<open>n\<close> pages), and no plan with instances has left the catalog.
\<close>

theorem broker_starts_iff:
  "(\<exists>b. fst (startBroker n E W c boshClient newCredHub certPool releases stemcells conf s) = Val (Inr b)) \<longleftrightarrow>
     (\<exists>boshInfo v kind. an_Info boshClient = Inr boshInfo
        \<and> newBoshDirectorVersion (quoted E) (info_Version boshInfo) = (\<lparr>dv_Version = v, dv_Type = kind\<rparr>, None)
        \<and> director_sufficient (conf_ServiceCatalog conf) kind v)
     \<and> an_VerifyAuth boshClient = None
     \<and> (cfg_EnableSecureManifests (conf_Broker conf) \<longrightarrow>
          (\<exists>store client. client = ua_ClientCredentials (auth_UAA (bch_Authentication (conf_BoshCredhub conf)))
             \<and> newCredHub (bch_URL (conf_BoshCredhub conf)) [UaaClientCredentials (cc_ID client) (cc_Secret client),
                 CaCerts [bch_RootCACert (conf_BoshCredhub conf), bosh_TrustedCert (conf_Bosh conf)]] = Inr store))
     \<and> (sia_URL (conf_ServiceInstancesAPI conf) = [] \<or> certPool = Inr ())
     \<and> (\<not> set_DisableCFStartupChecks (conf_Broker conf) \<longrightarrow>
          (\<exists>raw s1 version counts s2. GetAPIVersion E c s = (Val (Inr raw), s1)
             \<and> Parse raw = Some version \<and> GE version (release 2 57 0)
             \<and> CountInstancesOfServiceOffering n E c (off_ID (conf_ServiceCatalog conf)) s1 = (Val (Inr counts), s2)
             \<and> (\<forall>(p, k)\<in>set counts. 0 < k \<longrightarrow> pl_UniqueID p \<in> plan_ID ` set (off_Plans (conf_ServiceCatalog conf)))))"
proof -
  have minimum: "Parse MinimumCFVersion = Some (release 2 57 0)" by code_simp
  have "(\<exists>checks. buildStartupChecks n E c boshClient conf = Inr checks \<and> allPass checks s) \<longleftrightarrow>
     (\<exists>boshInfo v kind. an_Info boshClient = Inr boshInfo
        \<and> newBoshDirectorVersion (quoted E) (info_Version boshInfo) = (\<lparr>dv_Version = v, dv_Type = kind\<rparr>, None)
        \<and> director_sufficient (conf_ServiceCatalog conf) kind v)
     \<and> an_VerifyAuth boshClient = None
     \<and> (\<not> set_DisableCFStartupChecks (conf_Broker conf) \<longrightarrow>
          (\<exists>raw s1 version counts s2. GetAPIVersion E c s = (Val (Inr raw), s1)
             \<and> Parse raw = Some version \<and> GE version (release 2 57 0)
             \<and> CountInstancesOfServiceOffering n E c (off_ID (conf_ServiceCatalog conf)) s1 = (Val (Inr counts), s2)
             \<and> (\<forall>(p, k)\<in>set counts. 0 < k \<longrightarrow> pl_UniqueID p \<in> plan_ID ` set (off_Plans (conf_ServiceCatalog conf)))))"
  proof (cases "an_Info boshClient")
    case (Inr boshInfo)
    show ?thesis
      by (simp add: Inr buildStartupChecks_def Let_def cf_version_passes [OF minimum] cf_plans_pass auth_passes
          MinimumMajorStemcellDirectorVersionForODB_def MinimumMajorSemverDirectorVersionForLifecycleErrands_def director_passes) blast
  qed (simp add: buildStartupChecks_def Let_def)
  then show ?thesis unfolding starts_allPass store_built lister_built by blast
qed

section \<open>A sample\<close>

definition start_config :: Config where
  "start_config = sample_config\<lparr>conf_ServiceCatalog := demanding_offering,
     conf_Broker := sample_settings\<lparr>cfg_EnableSecureManifests := True\<rparr>,
     conf_ServiceInstancesAPI := (conf_ServiceInstancesAPI sample_config)\<lparr>sia_URL := ''https://api''\<rparr>\<rparr>"

definition good_director :: directorAnswers where
  "good_director = \<lparr>an_Info = Inr \<lparr>info_Version = ''266.12.0 (0)'', info_UaaURL = []\<rparr>, an_VerifyAuth = None\<rparr>"

theorem broker_starts_iff_witness:
  "\<forall>W. \<exists>b. fst (startBroker 3 foundry W foundry_client good_director (\<lambda>url options. Inr ()) (Inr ()) JNull JNull start_config no_events) = Val (Inr b)"
proof
  fix W
  obtain s1 where version: "GetAPIVersion foundry foundry_client no_events = (Val (Inr ''2.164.0''), s1)"
    using foundry_version by blast
  have off: "offers foundry foundry_client 3 (off_ID demanding_offering) [small_plan]
      (\<lambda>_. [zero_instance\<lparr>si_GUID := ''i1'', si_SpaceGUID := ''space''\<rparr>])"
    using foundry_offers by (simp add: demanding)
  obtain s2 where plans: "getPlansForServiceID 3 foundry foundry_client ''svc'' s1 = (Val (Inr [small_plan]), s2)"
    using getPlans_offers [OF off] demanding by auto
  obtain s3 where "countPlans foundry foundry_client [small_plan] [] s2 = (Val (Inr [(small_plan, 1)]), s3)"
    using countPlans_counted [OF foundry_counted, of "[]" s2] by auto
  with plans have counts: "CountInstancesOfServiceOffering 3 foundry foundry_client ''svc'' s1 = (Val (Inr [(small_plan, 1)]), s3)"
    by (simp add: CountInstancesOfServiceOffering_def run)
  have parsed: "Parse ''2.164.0'' = Some (release 2 164 0)"
    using Parse_String [OF release_wf, of 2 164 0] by (simp add: release_String show_number)
  have enough: "GE (release 2 164 0) (release 2 57 0)" by (simp add: GE_def Version_Compare_def release_def)
  have "bindingWithDNS_documented (release 266 12 0)" by (rule releases_documented(1))
  then have director: "director_sufficient demanding_offering ''semver'' (release 266 12 0)"
    by (simp add: director_sufficient_def bindingWithDNS_documented_def between_def) (auto simp: release_def)
  show "\<exists>b. fst (startBroker 3 foundry W foundry_client good_director (\<lambda>url options. Inr ()) (Inr ()) JNull JNull start_config no_events) = Val (Inr b)"
    unfolding broker_starts_iff good_director_def start_config_def
    using director version counts parsed enough
    by (auto simp: release_read demanding small_plan_def intro!: exI)
qed

end
