(* ===== verification/UaaClient.thy ===== *)
theory UaaClient
  imports ConfigCheck Semver
begin

text \<open>
  The clients of service instances at UAA: \<open>uaa/client.go\<close>.  The library \<open>go-uaa\<close> is an oracle, each of its calls
  an event with its answer; so is the generator of secrets.  Without credentials for UAA the library is replaced by
  a client that does nothing.  A nil slice is the empty list, a nil map is \<open>None\<close>.
\<close>

section \<open>The library\<close>

record uaaclient =
  gu_ClientID :: string
  gu_ClientSecret :: string
  gu_DisplayName :: string
  gu_Scope :: "string list"
  gu_ResourceIDs :: "string list"
  gu_Authorities :: "string list"
  gu_AuthorizedGrantTypes :: "string list"
  gu_RedirectURI :: "string list"
  gu_AllowPublic :: bool

datatype uevent =
    UaaCreate uaaclient "gerr + uaaclient option"
  | UaaUpdate uaaclient "gerr + uaaclient option"
  | UaaDelete string "gerr + unit"
  | UaaList string "gerr + uaaclient list"
  | UaaSecret string

text \<open>\<open>fmtQuoted\<close> is the rendering \<open>%q\<close>, \<open>newAPI\<close> the answer of \<open>gouaa.New\<close>.\<close>

record uaaenv =
  o_UaaCreate :: "uevent list \<Rightarrow> uaaclient \<Rightarrow> gerr + uaaclient option"
  o_UaaUpdate :: "uevent list \<Rightarrow> uaaclient \<Rightarrow> gerr + uaaclient option"
  o_UaaDelete :: "uevent list \<Rightarrow> string \<Rightarrow> gerr + unit"
  o_UaaList :: "uevent list \<Rightarrow> string \<Rightarrow> gerr + uaaclient list"
  o_UaaSecret :: "uevent list \<Rightarrow> string"
  newAPI :: "gerr option"
  fmtQuoted :: "string \<Rightarrow> string"

type_synonym 'a uaa_m = "uevent gstate \<Rightarrow> 'a outcome \<times> uevent gstate"

datatype APIClient = noopApiClient | goUAA

fun api_CreateClient :: "uaaenv \<Rightarrow> APIClient \<Rightarrow> uaaclient \<Rightarrow> (gerr + uaaclient option) uaa_m" where
  "api_CreateClient U noopApiClient client = ret (Inr None)"
| "api_CreateClient U goUAA client = ext_call (\<lambda>h. o_UaaCreate U h client) (UaaCreate client)"

fun api_UpdateClient :: "uaaenv \<Rightarrow> APIClient \<Rightarrow> uaaclient \<Rightarrow> (gerr + uaaclient option) uaa_m" where
  "api_UpdateClient U noopApiClient client = ret (Inr None)"
| "api_UpdateClient U goUAA client = ext_call (\<lambda>h. o_UaaUpdate U h client) (UaaUpdate client)"

fun api_DeleteClient :: "uaaenv \<Rightarrow> APIClient \<Rightarrow> string \<Rightarrow> (gerr + unit) uaa_m" where
  "api_DeleteClient U noopApiClient clientID = ret (Inr ())"
| "api_DeleteClient U goUAA clientID = ext_call (\<lambda>h. o_UaaDelete U h clientID) (UaaDelete clientID)"

fun api_ListClients :: "uaaenv \<Rightarrow> APIClient \<Rightarrow> string \<Rightarrow> (gerr + uaaclient list) uaa_m" where
  "api_ListClients U noopApiClient flt = ret (Inr [])"
| "api_ListClients U goUAA flt = ext_call (\<lambda>h. o_UaaList U h flt) (UaaList flt)"

section \<open>Conversions\<close>

definition fromSlice :: "string list \<Rightarrow> string" where
  "fromSlice s = join '','' s"

definition toSlice :: "string \<Rightarrow> string list" where
  "toSlice s = (if s = [] then [] else Split (CHR '','') s)"

definition FormatBool :: "bool \<Rightarrow> string" where
  "FormatBool b = (if b then ''true'' else ''false'')"

text \<open>\<open>strconv.ParseBool\<close>; on an error the value is false.\<close>

definition ParseBool :: "string \<Rightarrow> bool" where
  "ParseBool s \<longleftrightarrow> s \<in> set [''1'', ''t'', ''T'', ''TRUE'', ''true'', ''True'']"

definition interpolate :: "string \<Rightarrow> smap \<Rightarrow> string" where
  "interpolate scopes m = (if scopes = [] then [] else foldl (\<lambda>r (k, v). replace_all k v r) scopes m)"

definition lookupStr :: "smap \<Rightarrow> string \<Rightarrow> string" where
  "lookupStr m k = (case map_of m k of None \<Rightarrow> [] | Some v \<Rightarrow> v)"

definition transformToClient :: "smap \<Rightarrow> uaaclient" where
  "transformToClient m = \<lparr>gu_ClientID = lookupStr m ''client_id'', gu_ClientSecret = lookupStr m ''client_secret'',
     gu_DisplayName = lookupStr m ''name'', gu_Scope = toSlice (lookupStr m ''scopes''),
     gu_ResourceIDs = toSlice (lookupStr m ''resource_ids''), gu_Authorities = toSlice (lookupStr m ''authorities''),
     gu_AuthorizedGrantTypes = toSlice (lookupStr m ''authorized_grant_types''),
     gu_RedirectURI = toSlice (lookupStr m ''redirect_uri''), gu_AllowPublic = ParseBool (lookupStr m ''allowpublic'')\<rparr>"

fun transformToMap :: "uaaclient option \<Rightarrow> string \<Rightarrow> smap option" where
  "transformToMap None secret = None"
| "transformToMap (Some resp) secret = Some
     [(''client_id'', gu_ClientID resp), (''client_secret'', secret), (''name'', gu_DisplayName resp),
      (''scopes'', fromSlice (gu_Scope resp)), (''resource_ids'', fromSlice (gu_ResourceIDs resp)),
      (''authorities'', fromSlice (gu_Authorities resp)), (''authorized_grant_types'', fromSlice (gu_AuthorizedGrantTypes resp)),
      (''redirect_uri'', fromSlice (gu_RedirectURI resp)), (''allowpublic'', FormatBool (gu_AllowPublic resp))]"

section \<open>The operations\<close>

record uaa_Client =
  ucl_config :: UAAConfig
  ucl_apiClient :: APIClient

definition placeholderRedirectURI :: string where
  "placeholderRedirectURI = ''https://placeholder.example.com''"

definition odbSpaceGUID :: string where
  "odbSpaceGUID = ''ODB_SPACE_GUID''"

text \<open>\<open>New\<close> returns the client also when the library returned an error.\<close>

definition Uaa_New :: "uaaenv \<Rightarrow> UAAConfig \<Rightarrow> uaa_Client \<times> gerr option" where
  "Uaa_New U conf =
     (if Client_IsSet (uac_ClientCredentials (uaa_Authentication conf)) then (\<lparr>ucl_config = conf, ucl_apiClient = goUAA\<rparr>, newAPI U)
      else (\<lparr>ucl_config = conf, ucl_apiClient = noopApiClient\<rparr>, None))"

definition HasClientDefinition :: "uaa_Client \<Rightarrow> bool" where
  "HasClientDefinition c = (let cd = uaa_ClientDefinition (ucl_config c) in
     cd_Authorities cd \<noteq> [] \<or> cd_AuthorizedGrantTypes cd \<noteq> [] \<or> cd_Scopes cd \<noteq> [] \<or> cd_ResourceIDs cd \<noteq> [])"

definition Uaa_CreateClient :: "uaaenv \<Rightarrow> uaa_Client \<Rightarrow> string \<Rightarrow> string \<Rightarrow> string \<Rightarrow> (gerr + smap option) uaa_m" where
  "Uaa_CreateClient U c clientID name spaceGUID =
     (let cd = uaa_ClientDefinition (ucl_config c) in
      if \<not> HasClientDefinition c then ret (Inr None)
      else let grantTypes = cd_AuthorizedGrantTypes cd;
          allowPublic = FormatBool (cd_AllowPublic cd);
          m = [(''client_id'', clientID), (''scopes'', interpolate (cd_Scopes cd) [(odbSpaceGUID, spaceGUID)]),
            (''resource_ids'', cd_ResourceIDs cd), (''authorities'', cd_Authorities cd),
            (''authorized_grant_types'', grantTypes), (''allowpublic'', allowPublic)];
          m = (if contains_str grantTypes ''implicit'' \<or> contains_str grantTypes ''authorization_code''
               then map_set ''redirect_uri'' placeholderRedirectURI m else m) in
      seq (if contains_str grantTypes ''implicit'' then ret (m, [])
           else if lookupStr m ''allowpublic'' = ''true'' then ret (map_set ''client_secret'' ''-'' m, ''-'')
           else seq (ext_call (o_UaaSecret U) UaaSecret) (\<lambda>clientSecret. ret (map_set ''client_secret'' clientSecret m, clientSecret)))
        (\<lambda>(m, clientSecret).
      let m = (if cd_Name cd \<noteq> [] then map_set ''name'' (cd_Name cd) m else if name \<noteq> [] then map_set ''name'' name m else m) in
      attempt (api_CreateClient U (ucl_apiClient c) (transformToClient m))
        (\<lambda>err. ret (Inl (errorf ''failed to create uaa client: '' err)))
        (\<lambda>resp. ret (Inr (transformToMap resp clientSecret)))))"

definition Uaa_UpdateClient :: "uaaenv \<Rightarrow> uaa_Client \<Rightarrow> string \<Rightarrow> string \<Rightarrow> string \<Rightarrow> (gerr + smap option) uaa_m" where
  "Uaa_UpdateClient U c clientID redirectURI spaceGUID =
     (let cd = uaa_ClientDefinition (ucl_config c) in
      if \<not> HasClientDefinition c then ret (Inr None)
      else let interpolationMap = [(odbSpaceGUID, spaceGUID)];
          m = [(''client_id'', clientID), (''scopes'', interpolate (cd_Scopes cd) interpolationMap),
            (''resource_ids'', interpolate (cd_ResourceIDs cd) interpolationMap),
            (''authorities'', interpolate (cd_Authorities cd) interpolationMap),
            (''authorized_grant_types'', cd_AuthorizedGrantTypes cd), (''allowpublic'', FormatBool (cd_AllowPublic cd))];
          m = (if cd_Name cd \<noteq> [] then map_set ''name'' (cd_Name cd) m else m);
          m = (if redirectURI \<noteq> [] then map_set ''redirect_uri'' redirectURI m else m) in
      attempt (api_UpdateClient U (ucl_apiClient c) (transformToClient m))
        (\<lambda>err. ret (Inl (errorf ''failed to update uaa client: '' err)))
        (\<lambda>resp. ret (Inr (transformToMap resp []))))"

definition Uaa_DeleteClient :: "uaaenv \<Rightarrow> uaa_Client \<Rightarrow> string \<Rightarrow> (gerr + unit) uaa_m" where
  "Uaa_DeleteClient U c clientID =
     attempt (api_DeleteClient U (ucl_apiClient c) clientID) (\<lambda>err. ret (Inl (errorf ''failed to delete client: '' err))) (\<lambda>_. ret (Inr ()))"

definition Uaa_GetClient :: "uaaenv \<Rightarrow> uaa_Client \<Rightarrow> string \<Rightarrow> (gerr + smap option) uaa_m" where
  "Uaa_GetClient U c clientID =
     attempt (api_ListClients U (ucl_apiClient c) (''client_id eq '' @ fmtQuoted U clientID))
       (\<lambda>err. ret (Inl (errorf ''failed to list uaa clients: '' err)))
       (\<lambda>existingClients. ret (Inr (case existingClients of [] \<Rightarrow> None | existing # _ \<Rightarrow> transformToMap (Some existing) [])))"

section \<open>Clients as maps of strings\<close>

text \<open>A list that its comma-separated text determines\<close>

definition listable :: "string list \<Rightarrow> bool" where
  "listable xs \<longleftrightarrow> xs \<noteq> [[]] \<and> list_all (\<lambda>x. CHR '','' \<notin> set x) xs"

lemma fromSlice_toSlice: "fromSlice (toSlice s) = s"
  by (simp add: fromSlice_def toSlice_def join_Split)

lemma join_empty: "join sep xs = [] \<Longrightarrow> sep \<noteq> [] \<Longrightarrow> xs = [] \<or> xs = [[]]"
  by (induction sep xs rule: join.induct) auto

lemma toSlice_fromSlice: "listable xs \<Longrightarrow> toSlice (fromSlice xs) = xs"
  using join_empty [of "'',''" xs] Split_join [of xs "CHR '',''"]
  by (cases "xs = []") (auto simp: listable_def toSlice_def fromSlice_def list_all_iff)

lemma ParseBool_FormatBool [simp]: "ParseBool (FormatBool b) = b"
  by (simp add: ParseBool_def FormatBool_def)

lemma FormatBool_true [simp]: "FormatBool b = ''true'' \<longleftrightarrow> b"
  by (simp add: FormatBool_def)

definition storable :: "uaaclient \<Rightarrow> bool" where
  "storable cl \<longleftrightarrow> listable (gu_Scope cl) \<and> listable (gu_ResourceIDs cl) \<and> listable (gu_Authorities cl)
     \<and> listable (gu_AuthorizedGrantTypes cl) \<and> listable (gu_RedirectURI cl)"

text \<open>
  The map that the service adapter gets of a UAA client, turned into a client again, is that client with the
  secret that was put in: no scope, authority, resource, grant type or redirect address is lost or split, as long
  as none of them has a comma in it.
\<close>

theorem client_map_roundtrip:
  assumes "storable cl" and "transformToMap (Some cl) secret = Some m"
  shows "transformToClient m = cl\<lparr>gu_ClientSecret := secret\<rparr>"
proof -
  have m: "m = [(''client_id'', gu_ClientID cl), (''client_secret'', secret), (''name'', gu_DisplayName cl),
      (''scopes'', fromSlice (gu_Scope cl)), (''resource_ids'', fromSlice (gu_ResourceIDs cl)),
      (''authorities'', fromSlice (gu_Authorities cl)), (''authorized_grant_types'', fromSlice (gu_AuthorizedGrantTypes cl)),
      (''redirect_uri'', fromSlice (gu_RedirectURI cl)), (''allowpublic'', FormatBool (gu_AllowPublic cl))]"
    using assms(2) by simp
  have "lookupStr m ''client_id'' = gu_ClientID cl" "lookupStr m ''client_secret'' = secret" "lookupStr m ''name'' = gu_DisplayName cl"
    "lookupStr m ''scopes'' = fromSlice (gu_Scope cl)" "lookupStr m ''resource_ids'' = fromSlice (gu_ResourceIDs cl)"
    "lookupStr m ''authorities'' = fromSlice (gu_Authorities cl)"
    "lookupStr m ''authorized_grant_types'' = fromSlice (gu_AuthorizedGrantTypes cl)"
    "lookupStr m ''redirect_uri'' = fromSlice (gu_RedirectURI cl)" "lookupStr m ''allowpublic'' = FormatBool (gu_AllowPublic cl)"
    unfolding m by (simp_all add: lookupStr_def)
  then show ?thesis using assms(1) by (simp add: transformToClient_def storable_def toSlice_fromSlice)
qed

definition dash_client :: uaaclient where
  "dash_client = \<lparr>gu_ClientID = ''id'', gu_ClientSecret = [], gu_DisplayName = ''dashboard'', gu_Scope = [''openid'', ''cc.read''],
     gu_ResourceIDs = [], gu_Authorities = [''uaa.none''], gu_AuthorizedGrantTypes = [''implicit''], gu_RedirectURI = [''https://d''],
     gu_AllowPublic = True\<rparr>"

lemma client_map_roundtrip_witness:
  "\<exists>m. transformToMap (Some dash_client) ''s'' = Some m \<and> map_of m ''scopes'' = Some ''openid,cc.read''
     \<and> transformToClient m = dash_client\<lparr>gu_ClientSecret := ''s''\<rparr>"
proof -
  have ok: "storable dash_client" by (simp add: storable_def listable_def dash_client_def)
  obtain m where m: "transformToMap (Some dash_client) ''s'' = Some m" by simp
  moreover have "map_of m ''scopes'' = Some ''openid,cc.read''" using m by (auto simp: dash_client_def fromSlice_def)
  ultimately show ?thesis using client_map_roundtrip [OF ok m] by blast
qed

section \<open>What UAA is asked for\<close>

text \<open>The client that the configuration describes, for an instance in a space\<close>

definition described :: "ClientDefinition \<Rightarrow> string \<Rightarrow> string \<Rightarrow> string \<Rightarrow> string \<Rightarrow> uaaclient" where
  "described cd clientID name spaceGUID secret = \<lparr>gu_ClientID = clientID, gu_ClientSecret = secret,
     gu_DisplayName = (if cd_Name cd = [] then name else cd_Name cd),
     gu_Scope = toSlice (interpolate (cd_Scopes cd) [(odbSpaceGUID, spaceGUID)]),
     gu_ResourceIDs = toSlice (cd_ResourceIDs cd), gu_Authorities = toSlice (cd_Authorities cd),
     gu_AuthorizedGrantTypes = toSlice (cd_AuthorizedGrantTypes cd),
     gu_RedirectURI = (if contains_str (cd_AuthorizedGrantTypes cd) ''implicit'' \<or> contains_str (cd_AuthorizedGrantTypes cd) ''authorization_code''
       then [placeholderRedirectURI] else []),
     gu_AllowPublic = cd_AllowPublic cd\<rparr>"

text \<open>An implicit client has no secret, a public one a dash, every other a random one that was drawn for it.\<close>

definition secret_for :: "ClientDefinition \<Rightarrow> string \<Rightarrow> uevent list \<Rightarrow> bool" where
  "secret_for cd secret tr \<longleftrightarrow>
     (if contains_str (cd_AuthorizedGrantTypes cd) ''implicit'' then secret = [] \<and> tr = []
      else if cd_AllowPublic cd then secret = ''-'' \<and> tr = []
      else tr = [UaaSecret secret])"

text \<open>Creating a client calls UAA once, with the client described, and reports the client UAA answered with.\<close>

definition created_as :: "uaa_Client \<Rightarrow> string \<Rightarrow> string \<Rightarrow> string \<Rightarrow> (gerr + smap option) outcome \<Rightarrow> uevent list \<Rightarrow> bool" where
  "created_as c clientID name spaceGUID r tr \<longleftrightarrow>
     (\<exists>secret drawn. let cd = uaa_ClientDefinition (ucl_config c); client = described cd clientID name spaceGUID secret in
        secret_for cd secret drawn
        \<and> (if ucl_apiClient c = noopApiClient then tr = drawn \<and> r = Val (Inr None)
           else (\<exists>err. tr = drawn @ [UaaCreate client (Inl err)] \<and> r = Val (Inl (errorf ''failed to create uaa client: '' err)))
             \<or> (\<exists>resp. tr = drawn @ [UaaCreate client (Inr resp)] \<and> r = Val (Inr (transformToMap resp secret)))))"

lemma toSlice_single: "s \<noteq> [] \<Longrightarrow> CHR '','' \<notin> set s \<Longrightarrow> toSlice s = [s]"
  by (simp add: toSlice_def Split_none)

lemma lookupStr_map_set: "lookupStr (map_set k v m) k' = (if k = k' then v else lookupStr m k')"
  by (simp add: lookupStr_def map_of_map_set)

lemma lookupStr_Cons: "lookupStr ((k, v) # m) k' = (if k = k' then v else lookupStr m k')" "lookupStr [] k' = []"
  by (simp_all add: lookupStr_def)

lemma lookupStr_unset: "k \<noteq> k' \<Longrightarrow> lookupStr (if b then map_set k v m else m) k' = lookupStr m k'"
  by (simp add: lookupStr_def map_of_map_set)

lemma lookupStr_if: "lookupStr (if b then m else m') k = (if b then lookupStr m k else lookupStr m' k)"
  by simp

lemma created_asI:
  assumes "secret_for (uaa_ClientDefinition (ucl_config c)) secret drawn"
    and "transformToClient m = described (uaa_ClientDefinition (ucl_config c)) clientID name spaceGUID secret"
  shows "ensures (created_as c clientID name spaceGUID) drawn
     (attempt (api_CreateClient U (ucl_apiClient c) (transformToClient m))
        (\<lambda>err. ret (Inl (errorf ''failed to create uaa client: '' err)))
        (\<lambda>resp. ret (Inr (transformToMap resp secret))))"
proof (cases "ucl_apiClient c")
  case noopApiClient
  with assms(1) show ?thesis by (auto intro!: ens simp: created_as_def Let_def)
next
  case goUAA
  with assms(1) show ?thesis unfolding goUAA api_CreateClient.simps assms(2) by (auto intro!: ens simp: created_as_def Let_def goUAA)
qed

lemma placeholder_single: "toSlice placeholderRedirectURI = [placeholderRedirectURI]"
  by (rule toSlice_single) (simp_all add: placeholderRedirectURI_def)

lemmas created_map = transformToClient_def described_def lookupStr_if lookupStr_map_set lookupStr_Cons placeholder_single toSlice_def [of "[]"]

text \<open>
  C38.  Creating the UAA client of an instance.  Without a client definition nothing is asked of UAA.  With one, UAA is
  called once, with the client that the definition describes for this instance and space: an implicit client has
  no secret, a public one a dash, any other a secret that was drawn for it; clients that UAA would refuse without a
  redirect address get a placeholder; a name in the configuration goes before the given one.  The answer is passed
  on with the secret put in, which UAA does not tell.
\<close>

theorem uaa_client_created:
  "ensures (\<lambda>r tr. if HasClientDefinition c then created_as c clientID name spaceGUID r tr else r = Val (Inr None) \<and> tr = [])
     [] (Uaa_CreateClient U c clientID name spaceGUID)"
proof (cases "HasClientDefinition c")
  case False
  then show ?thesis by (auto simp: Uaa_CreateClient_def Let_def intro!: ens)
next
  case True
  let ?cd = "uaa_ClientDefinition (ucl_config c)"
  let ?implicit = "contains_str (cd_AuthorizedGrantTypes ?cd) ''implicit''"
  consider (implicit) "?implicit" | (public) "\<not> ?implicit" "cd_AllowPublic ?cd" | (secret) "\<not> ?implicit" "\<not> cd_AllowPublic ?cd" by blast
  then have "ensures (created_as c clientID name spaceGUID) [] (Uaa_CreateClient U c clientID name spaceGUID)"
  proof cases
    case implicit
    show ?thesis
      unfolding Uaa_CreateClient_def Let_def by (simp add: True implicit del: map_set.simps split del: if_split)
        (rule created_asI, simp_all add: implicit secret_for_def created_map del: map_set.simps)
  next
    case public
    show ?thesis
      unfolding Uaa_CreateClient_def Let_def
      by (simp add: True public lookupStr_unset lookupStr_Cons del: map_set.simps split del: if_split)
        (rule created_asI, simp_all add: public secret_for_def created_map del: map_set.simps)
  next
    case secret
    show ?thesis
      unfolding Uaa_CreateClient_def Let_def
      by (simp add: True secret lookupStr_unset lookupStr_Cons del: map_set.simps split del: if_split)
        (intro ens_seq_call, simp del: map_set.simps split del: if_split, rule created_asI,
         simp_all add: secret secret_for_def created_map del: map_set.simps)
  qed
  with True show ?thesis by simp
qed

text \<open>
  Of the client definition only the scopes are interpolated on creation; on an update the resources and the authorities
  too.  The redirect address is the one given, and neither a placeholder nor a secret is sent.
\<close>

lemma update_interpolates_more:
  assumes "HasClientDefinition c" "ucl_apiClient c = goUAA"
  defines "cd \<equiv> uaa_ClientDefinition (ucl_config c)"
  shows "ensures (\<lambda>r tr. \<exists>answer. tr = [UaaUpdate (described cd clientID [] spaceGUID []\<lparr>
         gu_ResourceIDs := toSlice (interpolate (cd_ResourceIDs cd) [(odbSpaceGUID, spaceGUID)]),
         gu_Authorities := toSlice (interpolate (cd_Authorities cd) [(odbSpaceGUID, spaceGUID)]),
         gu_RedirectURI := toSlice redirectURI\<rparr>) answer]
       \<and> r = Val (case answer of Inl err \<Rightarrow> Inl (errorf ''failed to update uaa client: '' err) | Inr resp \<Rightarrow> Inr (transformToMap resp [])))
     [] (Uaa_UpdateClient U c clientID redirectURI spaceGUID)"
proof -
  have "Uaa_UpdateClient U c clientID redirectURI spaceGUID = attempt (api_UpdateClient U goUAA (described cd clientID [] spaceGUID []\<lparr>
         gu_ResourceIDs := toSlice (interpolate (cd_ResourceIDs cd) [(odbSpaceGUID, spaceGUID)]),
         gu_Authorities := toSlice (interpolate (cd_Authorities cd) [(odbSpaceGUID, spaceGUID)]),
         gu_RedirectURI := toSlice redirectURI\<rparr>))
        (\<lambda>err. ret (Inl (errorf ''failed to update uaa client: '' err))) (\<lambda>resp. ret (Inr (transformToMap resp [])))"
    using assms by (simp add: Uaa_UpdateClient_def Let_def created_map del: map_set.simps)
  then show ?thesis by (auto intro!: ens)
qed

end
