(* ===== verification/BoshDirector.thy ===== *)
theory BoshDirector
  imports StartupChecks ConfigCheck
begin

text \<open>
  The client of the BOSH director: \<open>boshdirector/*.go\<close>.  The director library of \<open>bosh-cli\<close> is an oracle; each of
  its calls is an event with its answer.

  A call that changes a deployment runs in a goroutine of its own, and reports the task it started and its failure on
  two channels.  Its answer is a record of what arrives there; the client waits for the first arrival.  When nothing
  arrives it waits for ever, which is the outcome \<open>OutOfFuel\<close>.
\<close>

section \<open>The director library\<close>

record UaaConfig =
  uf_URL :: string
  uf_Client :: string
  uf_ClientSecret :: string
  uf_CACert :: string

text \<open>\<open>fc_TokenFunc\<close> is the session of tokens of a UAA client, told by its configuration.\<close>

record FactoryConfig =
  fc_Host :: string
  fc_Port :: int
  fc_CACert :: string
  fc_Client :: string
  fc_ClientSecret :: string
  fc_TokenFunc :: "UaaConfig option"

record dirTask =
  tsk_ID :: int
  tsk_State :: string
  tsk_Description :: string
  tsk_Result :: string
  tsk_ContextID :: string
  tsk_DeploymentName :: string

text \<open>What the library tells a reporter of tasks\<close>

datatype report = RStarted int | RChunk int string | RFinished int string

text \<open>What a goroutine sends on the channels \<open>Task\<close> and \<open>Err\<close>, and which of two arrivals \<open>select\<close> takes\<close>

record asyncRun =
  as_Task :: "int option"
  as_Err :: "gerr option"
  as_ErrFirst :: bool

record InstanceSlug =
  slug_Name :: string
  slug_IndexOrID :: string

datatype devent =
    DNewUAA UaaConfig "gerr + unit"
  | DNewDirector FactoryConfig "gerr + unit"
  | DInfo "gerr + directorInfo"
  | DIsAuthenticated "gerr + bool"
  | DFindTask int "gerr + dirTask"
  | DResultOutput int "report list \<times> gerr option"
  | DCurrentTasks string "gerr + dirTask list"
  | DTasksByContext string "gerr + dirTask list"
  | DListDeployments "gerr + string list"
  | DDeployments "gerr + string list"
  | DFindDeployment string string "gerr + unit"
  | DManifest string "gerr + string"
  | DUpdate string string string asyncRun
  | DRecreate string string asyncRun
  | DDelete string string bool asyncRun
  | DRunErrand string string string "InstanceSlug list" asyncRun
  | DListConfigs string "gerr + BoshConfig list"
  | DUpdateConfig string string string "gerr + unit"
  | DDeleteConfig string string "gerr + bool"
  | DEvents string string "gerr + string list"
  | DVariables string "gerr + Variable list"
  | DVMInfos string "gerr + (string \<times> string list) list"
  | DHttp string string string string "gerr + string"

text \<open>
  The oracles, and the parts of the library that only compute: reading URLs, the name in a manifest, the pool of
  certificates, JSON, \<open>%q\<close>.
\<close>

record denv =
  o_NewUAA :: "devent list \<Rightarrow> UaaConfig \<Rightarrow> gerr + unit"
  o_NewDirector :: "devent list \<Rightarrow> FactoryConfig \<Rightarrow> gerr + unit"
  o_DirInfo :: "devent list \<Rightarrow> gerr + directorInfo"
  o_IsAuthenticated :: "devent list \<Rightarrow> gerr + bool"
  o_FindTask :: "devent list \<Rightarrow> int \<Rightarrow> gerr + dirTask"
  o_ResultOutput :: "devent list \<Rightarrow> int \<Rightarrow> report list \<times> gerr option"
  o_CurrentTasks :: "devent list \<Rightarrow> string \<Rightarrow> gerr + dirTask list"
  o_FindTasksByContext :: "devent list \<Rightarrow> string \<Rightarrow> gerr + dirTask list"
  o_ListDeployments :: "devent list \<Rightarrow> gerr + string list"
  o_Deployments :: "devent list \<Rightarrow> gerr + string list"
  o_FindDeployment :: "devent list \<Rightarrow> string \<Rightarrow> string \<Rightarrow> gerr + unit"
  o_Manifest :: "devent list \<Rightarrow> string \<Rightarrow> gerr + string"
  o_Update :: "devent list \<Rightarrow> string \<Rightarrow> string \<Rightarrow> string \<Rightarrow> asyncRun"
  o_DirRecreate :: "devent list \<Rightarrow> string \<Rightarrow> string \<Rightarrow> asyncRun"
  o_Delete :: "devent list \<Rightarrow> string \<Rightarrow> string \<Rightarrow> bool \<Rightarrow> asyncRun"
  o_DirRunErrand :: "devent list \<Rightarrow> string \<Rightarrow> string \<Rightarrow> string \<Rightarrow> InstanceSlug list \<Rightarrow> asyncRun"
  o_ListConfigs :: "devent list \<Rightarrow> string \<Rightarrow> gerr + BoshConfig list"
  o_DirUpdateConfig :: "devent list \<Rightarrow> string \<Rightarrow> string \<Rightarrow> string \<Rightarrow> gerr + unit"
  o_DeleteConfig :: "devent list \<Rightarrow> string \<Rightarrow> string \<Rightarrow> gerr + bool"
  o_Events :: "devent list \<Rightarrow> string \<Rightarrow> string \<Rightarrow> gerr + string list"
  o_DirVariables :: "devent list \<Rightarrow> string \<Rightarrow> gerr + Variable list"
  o_VMInfos :: "devent list \<Rightarrow> string \<Rightarrow> gerr + (string \<times> string list) list"
  o_Http :: "devent list \<Rightarrow> string \<Rightarrow> string \<Rightarrow> string \<Rightarrow> string \<Rightarrow> gerr + string"
  configFromURL :: "string \<Rightarrow> gerr + FactoryConfig"
  uaaConfigFromURL :: "string \<Rightarrow> gerr + UaaConfig"
  manifestName :: "string \<Rightarrow> gerr + string"
  caCertPool :: "string \<Rightarrow> gerr option"
  parseJson :: "string \<Rightarrow> wire"
  dirQuoted :: "string \<Rightarrow> string"

type_synonym 'a dir_m = "devent gstate \<Rightarrow> 'a outcome \<times> devent gstate"

text \<open>\<open>errors.Wrap(err, msg)\<close>\<close>

definition wrapf :: "string \<Rightarrow> gerr \<Rightarrow> gerr" where
  "wrapf msg err = errorf (msg @ '': '') err"

definition inQuotes :: "string \<Rightarrow> string" where
  "inQuotes s = [CHR 0x22] @ s @ [CHR 0x22]"

definition inTicks :: "string \<Rightarrow> string" where
  "inTicks s = [CHR 0x27] @ s @ [CHR 0x27]"

section \<open>The client\<close>

record BoshClient =
  bcl_url :: string
  bcl_trustedCertPEM :: string
  bcl_boshAuth :: Authentication
  bcl_BoshInfo :: Info

definition buildUAA :: "denv \<Rightarrow> string \<Rightarrow> Authentication \<Rightarrow> string \<Rightarrow> (gerr + UaaConfig) dir_m" where
  "buildUAA D UAAURL boshAuth CACert = (case uaaConfigFromURL D UAAURL of
      Inl err \<Rightarrow> ret (Inl (wrapf ''Failed to build UAA config from url'' err))
    | Inr uaaConfig \<Rightarrow>
        let uaaConfig = uaaConfig\<lparr>uf_Client := cc_ID (ua_ClientCredentials (auth_UAA boshAuth)),
              uf_ClientSecret := cc_Secret (ua_ClientCredentials (auth_UAA boshAuth)), uf_CACert := CACert\<rparr> in
        attempt (ext_call (\<lambda>h. o_NewUAA D h uaaConfig) (DNewUAA uaaConfig)) (\<lambda>err. ret (Inl err)) (\<lambda>_. ret (Inr uaaConfig)))"

definition directorConfig :: "denv \<Rightarrow> BoshClient \<Rightarrow> (gerr + FactoryConfig) dir_m" where
  "directorConfig D c = (case configFromURL D (bcl_url c) of
      Inl err \<Rightarrow> ret (Inl (wrapf ''Failed to build director config from url'' err))
    | Inr directorConfig \<Rightarrow>
        let directorConfig = directorConfig\<lparr>fc_CACert := bcl_trustedCertPEM c\<rparr> in
        if UAA_IsSet (auth_UAA (bcl_boshAuth c)) then
          attempt (buildUAA D (info_UaaURL (bcl_BoshInfo c)) (bcl_boshAuth c) (fc_CACert directorConfig))
            (\<lambda>err. ret (Inl (wrapf ''Failed to build UAA client'' err)))
            (\<lambda>uaa. ret (Inr (directorConfig\<lparr>fc_TokenFunc := Some uaa\<rparr>)))
        else ret (Inr (directorConfig\<lparr>fc_Client := uc_Username (auth_Basic (bcl_boshAuth c)),
          fc_ClientSecret := uc_Password (auth_Basic (bcl_boshAuth c))\<rparr>)))"

definition Director :: "denv \<Rightarrow> BoshClient \<Rightarrow> (gerr + unit) dir_m" where
  "Director D c = attempt (directorConfig D c) (\<lambda>err. ret (Inl err))
     (\<lambda>directorConfig. ext_call (\<lambda>h. o_NewDirector D h directorConfig) (DNewDirector directorConfig))"

text \<open>\<open>d, err := c.Director(...)\<close>, the error wrapped; then \<open>k\<close>\<close>

definition with_director :: "denv \<Rightarrow> BoshClient \<Rightarrow> (gerr + 'a) dir_m \<Rightarrow> (gerr + 'a) dir_m" where
  "with_director D c k = attempt (Director D c) (\<lambda>err. ret (Inl (wrapf ''Failed to build director'' err))) (\<lambda>_. k)"

text \<open>A call of the library whose error is wrapped\<close>

definition asked :: "string \<Rightarrow> (gerr + 'r) dir_m \<Rightarrow> ('r \<Rightarrow> (gerr + 'a) dir_m) \<Rightarrow> (gerr + 'a) dir_m" where
  "asked msg m k = attempt m (\<lambda>err. ret (Inl (wrapf msg err))) k"

definition bosh_client_GetInfo :: "denv \<Rightarrow> BoshClient \<Rightarrow> (gerr + Info) dir_m" where
  "bosh_client_GetInfo D c = with_director D c
     (seq (ext_call (o_DirInfo D) DInfo) (\<lambda>answer. ret (GetInfo (Inr ()) (\<lambda>_. answer))))"

definition bosh_client_VerifyAuth :: "denv \<Rightarrow> BoshClient \<Rightarrow> (gerr option) dir_m" where
  "bosh_client_VerifyAuth D c = attempt (Director D c) (\<lambda>err. ret (Some (errorf '' to verify credentials: '' err)))
     (\<lambda>_. seq (ext_call (o_IsAuthenticated D) DIsAuthenticated) (\<lambda>answer. ret (VerifyAuth (Inr ()) (\<lambda>_. answer))))"

definition bosh_client_New :: "denv \<Rightarrow> string \<Rightarrow> string \<Rightarrow> Authentication \<Rightarrow> (gerr + BoshClient) dir_m" where
  "bosh_client_New D url trustedCertPEM boshAuth =
     (let noAuthClient = \<lparr>bcl_url = url, bcl_trustedCertPEM = trustedCertPEM,
            bcl_boshAuth = \<lparr>auth_Basic = \<lparr>uc_Username = [], uc_Password = []\<rparr>,
              auth_UAA = \<lparr>ua_URL = [], ua_ClientCredentials = \<lparr>cc_ID = [], cc_Secret = []\<rparr>,
                ua_UserCredentials = \<lparr>uc_Username = [], uc_Password = []\<rparr>\<rparr>\<rparr>,
            bcl_BoshInfo = \<lparr>info_Version = [], info_UaaURL = []\<rparr>\<rparr> in
      asked ''error fetching BOSH director information'' (bosh_client_GetInfo D noAuthClient) (\<lambda>boshInfo.
      ret (Inr \<lparr>bcl_url = url, bcl_trustedCertPEM = trustedCertPEM, bcl_boshAuth = boshAuth, bcl_BoshInfo = boshInfo\<rparr>)))"

section \<open>Tasks\<close>

definition toBoshTask :: "dirTask \<Rightarrow> BoshTask" where
  "toBoshTask t = \<lparr>task_ID = tsk_ID t, task_State = tsk_State t, task_Description = tsk_Description t,
     task_Result = tsk_Result t, task_ContextID = tsk_ContextID t\<rparr>"

definition director_GetTask :: "denv \<Rightarrow> BoshClient \<Rightarrow> int \<Rightarrow> (gerr + BoshTask) dir_m" where
  "director_GetTask D c taskID = with_director D c
     (asked (''Cannot find task with ID: '' @ show_int taskID) (ext_call (\<lambda>h. o_FindTask D h taskID) (DFindTask taskID)) (\<lambda>task.
      ret (Inr (toBoshTask task))))"

record BoshTaskOutput =
  out_ExitCode :: int
  out_StdOut :: string
  out_StdErr :: string

definition zero_output :: BoshTaskOutput where
  "zero_output = \<lparr>out_ExitCode = 0, out_StdOut = [], out_StdErr = []\<rparr>"

text \<open>The decoder goes on after a field of a wrong type, and its error is only logged.\<close>

fun decodeOutputFields :: "(string \<times> json) list \<Rightarrow> BoshTaskOutput \<Rightarrow> BoshTaskOutput" where
  "decodeOutputFields [] out = out"
| "decodeOutputFields ((k, j) # kvs) out = decodeOutputFields kvs
     (if key_is k ''exit_code'' then (case decodeInt k j (out_ExitCode out) of Inl _ \<Rightarrow> out | Inr n \<Rightarrow> out\<lparr>out_ExitCode := n\<rparr>)
      else if key_is k ''stdout'' then (case decodeStr k j (out_StdOut out) of Inl _ \<Rightarrow> out | Inr s \<Rightarrow> out\<lparr>out_StdOut := s\<rparr>)
      else if key_is k ''stderr'' then (case decodeStr k j (out_StdErr out) of Inl _ \<Rightarrow> out | Inr s \<Rightarrow> out\<lparr>out_StdErr := s\<rparr>)
      else out)"

text \<open>\<open>BoshTaskOutputReporter\<close>: chunks are collected and decoded at the end.\<close>

record BoshTaskOutputReporter =
  rep_Output :: BoshTaskOutput
  rep_outputBytes :: string

fun reporter_told :: "denv \<Rightarrow> report \<Rightarrow> BoshTaskOutputReporter \<Rightarrow> BoshTaskOutputReporter" where
  "reporter_told D (RStarted taskID) r = r"
| "reporter_told D (RChunk taskID chunk) r = r\<lparr>rep_outputBytes := rep_outputBytes r @ chunk\<rparr>"
| "reporter_told D (RFinished taskID state) r =
     (case parseJson D (rep_outputBytes r) of
        WJson (JObj kvs) \<Rightarrow> r\<lparr>rep_Output := decodeOutputFields kvs (rep_Output r)\<rparr> | _ \<Rightarrow> r)"

definition reported_output :: "denv \<Rightarrow> report list \<Rightarrow> BoshTaskOutput" where
  "reported_output D reports = rep_Output (fold (reporter_told D) reports \<lparr>rep_Output = zero_output, rep_outputBytes = []\<rparr>)"

definition GetTaskOutput :: "denv \<Rightarrow> BoshClient \<Rightarrow> int \<Rightarrow> (gerr + BoshTaskOutput) dir_m" where
  "GetTaskOutput D c taskID = with_director D c
     (asked (''Could not fetch task with id '' @ show_int taskID) (ext_call (\<lambda>h. o_FindTask D h taskID) (DFindTask taskID)) (\<lambda>task.
      seq (ext_call (\<lambda>h. o_ResultOutput D h (tsk_ID task)) (DResultOutput (tsk_ID task))) (\<lambda>(reports, err).
      ret (case err of Some err \<Rightarrow> Inl (wrapf ''Could not fetch task output'' err) | None \<Rightarrow> Inr (reported_output D reports)))))"

definition GetTasksInProgress :: "denv \<Rightarrow> BoshClient \<Rightarrow> string \<Rightarrow> (gerr + BoshTask list) dir_m" where
  "GetTasksInProgress D c dep = with_director D c
     (asked (''Could not fetch current tasks for deployment '' @ dep)
        (ext_call (\<lambda>h. o_CurrentTasks D h dep) (DCurrentTasks dep)) (\<lambda>currentTasks.
      ret (Inr (map toBoshTask currentTasks))))"

definition fetchTaskState :: "denv \<Rightarrow> BoshClient \<Rightarrow> dirTask \<Rightarrow> (gerr + string) dir_m" where
  "fetchTaskState D c task =
     (if tsk_State task = ''done'' then
        attempt (GetTaskOutput D c (tsk_ID task)) (\<lambda>err. ret (Inl err)) (\<lambda>taskOutput.
        ret (Inr (if out_ExitCode taskOutput \<noteq> 0 then ''error'' else tsk_State task)))
      else ret (Inr (tsk_State task)))"

fun normalisedTasks :: "denv \<Rightarrow> BoshClient \<Rightarrow> string \<Rightarrow> dirTask list \<Rightarrow> BoshTask list \<Rightarrow> (gerr + BoshTask list) dir_m" where
  "normalisedTasks D c dep [] boshTasks = ret (Inr boshTasks)"
| "normalisedTasks D c dep (task # tasks) boshTasks =
     (if tsk_DeploymentName task = dep then
        asked ''Could not retrieve task output'' (fetchTaskState D c task) (\<lambda>taskState.
        normalisedTasks D c dep tasks (boshTasks @ [toBoshTask task\<lparr>task_State := taskState\<rparr>]))
      else normalisedTasks D c dep tasks boshTasks)"

definition GetNormalisedTasksByContext :: "denv \<Rightarrow> BoshClient \<Rightarrow> string \<Rightarrow> string \<Rightarrow> (gerr + BoshTask list) dir_m" where
  "GetNormalisedTasksByContext D c dep contextID = with_director D c
     (asked (''Could not fetch tasks for deployment '' @ dep @ '' with context id '' @ contextID)
        (ext_call (\<lambda>h. o_FindTasksByContext D h contextID) (DTasksByContext contextID)) (\<lambda>tasks.
      normalisedTasks D c dep tasks []))"

section \<open>Deployments\<close>

definition director_GetDeployment :: "denv \<Rightarrow> BoshClient \<Rightarrow> string \<Rightarrow> (gerr + string \<times> bool) dir_m" where
  "director_GetDeployment D c name = with_director D c
     (asked ''Cannot get the list of deployments'' (ext_call (o_ListDeployments D) DListDeployments) (\<lambda>deployments.
      if name \<in> set deployments then
        asked (''Cannot create deployment object for deployment '' @ dirQuoted D name)
          (ext_call (\<lambda>h. o_FindDeployment D h [] name) (DFindDeployment [] name)) (\<lambda>_.
        asked (''Cannot obtain manifest for deployment '' @ dirQuoted D name)
          (ext_call (\<lambda>h. o_Manifest D h name) (DManifest name)) (\<lambda>rawManifest.
        ret (Inr (rawManifest, True))))
      else ret (Inr ([], False))))"

definition director_GetDeployments :: "denv \<Rightarrow> BoshClient \<Rightarrow> (gerr + string list) dir_m" where
  "director_GetDeployments D c = with_director D c
     (asked ''Cannot get the list of deployments'' (ext_call (o_Deployments D) DDeployments) (\<lambda>rawDeployments. ret (Inr rawDeployments)))"

text \<open>\<open>select\<close> on the channels of the reporter\<close>

definition awaitTask :: "string \<Rightarrow> asyncRun \<Rightarrow> (gerr + int) dir_m" where
  "awaitTask msg r = (case (as_Task r, as_Err r) of
      (None, None) \<Rightarrow> out_of_fuel
    | (Some taskID, None) \<Rightarrow> ret (Inr taskID)
    | (None, Some err) \<Rightarrow> ret (Inl (wrapf msg err))
    | (Some taskID, Some err) \<Rightarrow> ret (if as_ErrFirst r then Inl (wrapf msg err) else Inr taskID))"

definition fetchName :: "denv \<Rightarrow> string \<Rightarrow> gerr + string" where
  "fetchName D bytes = (case manifestName D bytes of
      Inl err \<Rightarrow> Inl (wrapf ''Parsing manifest'' err)
    | Inr name \<Rightarrow> if name = [] then Inl (ErrorString ''Cannot find name'') else Inr name)"

definition director_Deploy :: "denv \<Rightarrow> BoshClient \<Rightarrow> string \<Rightarrow> string \<Rightarrow> (gerr + int) dir_m" where
  "director_Deploy D c manifest contextID = (case fetchName D manifest of
      Inl err \<Rightarrow> ret (Inl (wrapf ''Error fetching deployment name'' err))
    | Inr name \<Rightarrow> with_director D c
        (asked ''BOSH CLI error'' (ext_call (\<lambda>h. o_FindDeployment D h contextID name) (DFindDeployment contextID name)) (\<lambda>_.
         seq (ext_call (\<lambda>h. o_Update D h contextID name manifest) (DUpdate contextID name manifest))
           (awaitTask (''Could not update deployment '' @ name)))))"

definition director_Recreate :: "denv \<Rightarrow> BoshClient \<Rightarrow> string \<Rightarrow> string \<Rightarrow> (gerr + int) dir_m" where
  "director_Recreate D c dep contextID = with_director D c
     (asked ''BOSH CLI error''
        (ext_call (\<lambda>h. o_FindDeployment D h contextID dep) (DFindDeployment contextID dep)) (\<lambda>_.
      seq (ext_call (\<lambda>h. o_DirRecreate D h contextID dep) (DRecreate contextID dep))
        (awaitTask (''Could not recreate deployment '' @ dep))))"

definition director_DeleteDeployment :: "denv \<Rightarrow> BoshClient \<Rightarrow> string \<Rightarrow> string \<Rightarrow> bool \<Rightarrow> (gerr + int) dir_m" where
  "director_DeleteDeployment D c name contextID force =
     (let deleting = ''BOSH error when deleting deployment '' @ inQuotes name in
      with_director D c
        (asked deleting (director_GetDeployment D c name) (\<lambda>(_, found).
         if \<not> found then ret (Inr 0)
         else asked deleting (ext_call (\<lambda>h. o_FindDeployment D h contextID name) (DFindDeployment contextID name)) (\<lambda>_.
           seq (ext_call (\<lambda>h. o_Delete D h contextID name force) (DDelete contextID name force))
             (awaitTask (''Could not delete deployment '' @ name))))))"

definition NewInstanceSlug :: "string \<Rightarrow> gerr + InstanceSlug" where
  "NewInstanceSlug str =
     (let pieces = split_slash str; bad = (\<lambda>msg. Inl (ErrorString (''Expected pool or instance '' @ inTicks str @ msg))) in
      if length pieces \<noteq> 1 \<and> length pieces \<noteq> 2 then
        bad ('' to be in format '' @ inTicks ''name'' @ '' or '' @ inTicks ''name/id-or-index'')
      else if length (pieces ! 0) = 0 then bad '' to specify non-empty name''
      else if length pieces = 2 then
        (if length (pieces ! 1) = 0 then Inl (ErrorString (''Expected instance '' @ inTicks str @ '' to specify non-empty ID or index''))
         else Inr \<lparr>slug_Name = pieces ! 0, slug_IndexOrID = pieces ! 1\<rparr>)
      else Inr \<lparr>slug_Name = pieces ! 0, slug_IndexOrID = []\<rparr>)"

fun errandSlugs :: "string \<Rightarrow> string list \<Rightarrow> gerr + InstanceSlug list" where
  "errandSlugs errandName [] = Inr []"
| "errandSlugs errandName (errandInstance # errandInstances) = (case NewInstanceSlug errandInstance of
      Inl err \<Rightarrow> Inl (wrapf (''Invalid instance name '' @ errandName @ '' for errand '' @ errandInstance) err)
    | Inr slug \<Rightarrow> (case errandSlugs errandName errandInstances of Inl err \<Rightarrow> Inl err | Inr slugs \<Rightarrow> Inr (slug # slugs)))"

definition director_RunErrand :: "denv \<Rightarrow> BoshClient \<Rightarrow> string \<Rightarrow> string \<Rightarrow> string list \<Rightarrow> string \<Rightarrow> (gerr + int) dir_m" where
  "director_RunErrand D c dep errandName errandInstances contextID = with_director D c
     (asked (''Could not find deployment '' @ inQuotes dep)
        (ext_call (\<lambda>h. o_FindDeployment D h contextID dep) (DFindDeployment contextID dep)) (\<lambda>_.
      case errandSlugs errandName errandInstances of
        Inl err \<Rightarrow> ret (Inl err)
      | Inr instances \<Rightarrow>
          seq (ext_call (\<lambda>h. o_DirRunErrand D h contextID dep errandName instances)
              (DRunErrand contextID dep errandName instances))
            (awaitTask (''Could not run errand '' @ errandName))))"

section \<open>Configurations, events, variables, machines\<close>

definition director_GetConfigs :: "denv \<Rightarrow> BoshClient \<Rightarrow> string \<Rightarrow> (gerr + BoshConfig list) dir_m" where
  "director_GetConfigs D c configName = with_director D c
     (asked (''BOSH error getting configs for '' @ inQuotes configName)
        (ext_call (\<lambda>h. o_ListConfigs D h configName) (DListConfigs configName)) (\<lambda>boshConfigs. ret (Inr boshConfigs)))"

definition director_UpdateConfig :: "denv \<Rightarrow> BoshClient \<Rightarrow> string \<Rightarrow> string \<Rightarrow> string \<Rightarrow> (gerr + unit) dir_m" where
  "director_UpdateConfig D c configType configName configContent = with_director D c
     (asked (''BOSH error updating '' @ inQuotes configType @ '' config '' @ inQuotes configName)
        (ext_call (\<lambda>h. o_DirUpdateConfig D h configType configName configContent) (DUpdateConfig configType configName configContent))
      (\<lambda>_. ret (Inr ())))"

definition deleteOneConfig :: "denv \<Rightarrow> string \<Rightarrow> string \<Rightarrow> (bool \<Rightarrow> (gerr + 'a) dir_m) \<Rightarrow> (gerr + 'a) dir_m" where
  "deleteOneConfig D configType configName =
     asked (''BOSH error deleting '' @ inQuotes configType @ '' config '' @ inQuotes configName)
       (ext_call (\<lambda>h. o_DeleteConfig D h configType configName) (DDeleteConfig configType configName))"

definition director_DeleteConfig :: "denv \<Rightarrow> BoshClient \<Rightarrow> string \<Rightarrow> string \<Rightarrow> (gerr + bool) dir_m" where
  "director_DeleteConfig D c configType configName =
     with_director D c (deleteOneConfig D configType configName (\<lambda>found. ret (Inr found)))"

fun deleteEachConfig :: "denv \<Rightarrow> BoshConfig list \<Rightarrow> (gerr + unit) dir_m" where
  "deleteEachConfig D [] = ret (Inr ())"
| "deleteEachConfig D (conf # configs) = deleteOneConfig D (bc_Type conf) (bc_Name conf) (\<lambda>_. deleteEachConfig D configs)"

definition director_DeleteConfigs :: "denv \<Rightarrow> BoshClient \<Rightarrow> string \<Rightarrow> (gerr + unit) dir_m" where
  "director_DeleteConfigs D c configName = with_director D c
     (asked (''BOSH error getting configs for '' @ inQuotes configName)
        (ext_call (\<lambda>h. o_ListConfigs D h configName) (DListConfigs configName)) (deleteEachConfig D))"

text \<open>\<open>strconv.Atoi\<close>\<close>

definition Atoi :: "string \<Rightarrow> int option" where
  "Atoi s = (let (neg, ds) = (case s of [] \<Rightarrow> (False, []) | c # cs \<Rightarrow>
        if c = CHR ''-'' then (True, cs) else if c = CHR ''+'' then (False, cs) else (False, s));
      n = (if neg then - digitsValue ds else digitsValue ds) in
      if ds = [] \<or> \<not> containsOnly ds numbers \<or> \<not> in_int64 n then None else Some n)"

fun eventTasks :: "denv \<Rightarrow> string list \<Rightarrow> int list \<Rightarrow> gerr + int list" where
  "eventTasks D [] boshEvents = Inr boshEvents"
| "eventTasks D (taskID # events) boshEvents = (case Atoi taskID of
      None \<Rightarrow> Inl (ErrorString (''could not convert task id '' @ dirQuoted D taskID @ '' to int''))
    | Some taskId \<Rightarrow> eventTasks D events (boshEvents @ [taskId]))"

definition director_GetEvents :: "denv \<Rightarrow> BoshClient \<Rightarrow> string \<Rightarrow> string \<Rightarrow> (gerr + int list) dir_m" where
  "director_GetEvents D c dep action = with_director D c
     (asked ''Failed to get the events using the director''
        (ext_call (\<lambda>h. o_Events D h dep action) (DEvents dep action)) (\<lambda>events. ret (eventTasks D events [])))"

definition director_Variables :: "denv \<Rightarrow> BoshClient \<Rightarrow> string \<Rightarrow> (gerr + Variable list) dir_m" where
  "director_Variables D c dep =
     attempt (Director D c) (\<lambda>err. ret (Inl (errorf ''failed to build director: '' err))) (\<lambda>_.
     asked (''can'' @ [CHR 0x27] @ ''t find deployment with name '' @ inTicks dep)
       (ext_call (\<lambda>h. o_FindDeployment D h [] dep) (DFindDeployment [] dep)) (\<lambda>_.
     asked (''can'' @ [CHR 0x27] @ ''t retrieve variables for deployment '' @ inTicks dep)
       (ext_call (\<lambda>h. o_DirVariables D h dep) (DVariables dep)) (\<lambda>boshVars. ret (Inr boshVars))))"

definition collectIPs :: "(string \<times> string list) list \<Rightarrow> (string \<times> string list) list" where
  "collectIPs vmsInfo = foldl (\<lambda>boshVms (job, ips).
     map_set job ((case map_of boshVms job of None \<Rightarrow> [] | Some old \<Rightarrow> old) @ ips) boshVms) [] vmsInfo"

definition director_VMs :: "denv \<Rightarrow> BoshClient \<Rightarrow> string \<Rightarrow> (gerr + (string \<times> string list) list) dir_m" where
  "director_VMs D c dep = with_director D c
     (asked (''Could not find deployment '' @ inQuotes dep)
        (ext_call (\<lambda>h. o_FindDeployment D h [] dep) (DFindDeployment [] dep)) (\<lambda>_.
      asked (''Could not fetch VMs info for deployment '' @ inQuotes dep)
        (ext_call (\<lambda>h. o_VMInfos D h dep) (DVMInfos dep)) (\<lambda>vmsInfo. ret (Inr (collectIPs vmsInfo)))))"

section \<open>Sessions\<close>

text \<open>Every operation first builds a director; the calls that do so are left out of \<open>lib\<close>.\<close>

fun session :: "devent \<Rightarrow> bool" where
  "session (DNewUAA _ _) = True"
| "session (DNewDirector _ _) = True"
| "session _ = False"

definition lib :: "devent list \<Rightarrow> devent list" where
  "lib tr = filter (\<lambda>e. \<not> session e) tr"

lemma lib_append [simp]: "lib (xs @ ys) = lib xs @ lib ys"
  by (simp add: lib_def)

lemma lib_Nil [simp]: "lib [] = []"
  by (simp add: lib_def)

lemma lib_Cons [simp]: "lib (e # tr) = (if session e then lib tr else e # lib tr)"
  by (simp add: lib_def)

text \<open>Calls that were answered with an error, and clients whose settings do not make a director\<close>

fun refused :: "devent \<Rightarrow> bool" where
  "refused (DNewUAA _ (Inl _)) = True"
| "refused (DNewDirector _ (Inl _)) = True"
| "refused (DFindTask _ (Inl _)) = True"
| "refused (DResultOutput _ (_, Some _)) = True"
| "refused (DTasksByContext _ (Inl _)) = True"
| "refused (DListDeployments (Inl _)) = True"
| "refused (DFindDeployment _ _ (Inl _)) = True"
| "refused (DManifest _ (Inl _)) = True"
| "refused (DListConfigs _ (Inl _)) = True"
| "refused (DDeleteConfig _ _ (Inl _)) = True"
| "refused _ = False"

definition unreachable :: "denv \<Rightarrow> BoshClient \<Rightarrow> bool" where
  "unreachable D c \<longleftrightarrow> (\<exists>err. configFromURL D (bcl_url c) = Inl err)
     \<or> UAA_IsSet (auth_UAA (bcl_boshAuth c)) \<and> (\<exists>err. uaaConfigFromURL D (info_UaaURL (bcl_BoshInfo c)) = Inl err)"

lemma directorConfig_spec:
  "ensures (\<lambda>r tr. lib tr = [] \<and> (case r of Val (Inr conf) \<Rightarrow> \<not> unreachable D c \<and> \<not> list_ex refused tr
       | Val (Inl err) \<Rightarrow> unreachable D c \<or> list_ex refused tr | _ \<Rightarrow> False))
     [] (directorConfig D c)"
  by (auto simp: directorConfig_def buildUAA_def unreachable_def attempt_def Let_def intro!: ens split: sum.splits)

lemma Director_spec:
  "ensures (\<lambda>r tr. lib tr = [] \<and> (case r of Val (Inr _) \<Rightarrow> \<not> unreachable D c \<and> \<not> list_ex refused tr
       | Val (Inl err) \<Rightarrow> unreachable D c \<or> list_ex refused tr | _ \<Rightarrow> False))
     [] (Director D c)"
  unfolding Director_def
  by (rule ens_attempt_sub [OF directorConfig_spec]) (auto intro!: ens split: sum.splits)

lemma ens_with_director [ens]:
  assumes "\<And>err t. lib t = [] \<Longrightarrow> unreachable D c \<or> list_ex refused t \<Longrightarrow> \<Phi> (Val (Inl (wrapf ''Failed to build director'' err))) (tr @ t)"
    and "\<And>t. lib t = [] \<Longrightarrow> \<not> list_ex refused t \<Longrightarrow> \<not> unreachable D c \<Longrightarrow> ensures \<Phi> (tr @ t) k"
  shows "ensures \<Phi> tr (with_director D c k)"
  unfolding with_director_def
  by (rule ens_attempt_sub [OF Director_spec]) (use assms in \<open>auto intro!: ens\<close>)

lemma ens_asked_call [ens]:
  "(\<And>err. \<Phi> (Val (Inl (wrapf msg err))) (tr @ [ev (Inl err)])) \<Longrightarrow> (\<And>x. ensures \<Phi> (tr @ [ev (Inr x)]) (k x))
   \<Longrightarrow> ensures \<Phi> tr (asked msg (ext_call orc ev) k)"
  unfolding asked_def by (auto intro!: ens)

lemma ens_asked_sub:
  assumes "ensures \<Psi> [] m"
    and "\<And>e d. \<Psi> (Val (Inl e)) d \<Longrightarrow> \<Phi> (Val (Inl (wrapf msg e))) (tr @ d)"
    and "\<And>x d. \<Psi> (Val (Inr x)) d \<Longrightarrow> ensures \<Phi> (tr @ d) (k x)"
    and "\<And>p d. \<Psi> (Panic p) d \<Longrightarrow> \<Phi> (Panic p) (tr @ d)"
    and "\<And>d. \<Psi> OutOfFuel d \<Longrightarrow> \<Phi> OutOfFuel (tr @ d)"
  shows "ensures \<Phi> tr (asked msg m k)"
  unfolding asked_def by (rule ens_attempt_sub [OF assms(1)]) (use assms(2-) in \<open>auto intro!: ens\<close>)

lemma ens_awaitTask:
  assumes "\<And>err e. as_Err a = Some e \<Longrightarrow> err = wrapf msg e \<Longrightarrow> \<Phi> (Val (Inl err)) tr"
    and "\<And>taskID. as_Task a = Some taskID \<Longrightarrow> \<Phi> (Val (Inr taskID)) tr"
    and "as_Task a = None \<Longrightarrow> as_Err a = None \<Longrightarrow> \<Phi> OutOfFuel tr"
  shows "ensures \<Phi> tr (awaitTask msg a)"
  using assms by (auto simp: awaitTask_def ensures_def run split: option.splits)

section \<open>Changes of deployments\<close>

fun alters :: "devent \<Rightarrow> bool" where
  "alters (DUpdate _ _ _ _) = True"
| "alters (DRecreate _ _ _) = True"
| "alters (DDelete _ _ _ _) = True"
| "alters (DRunErrand _ _ _ _ _) = True"
| "alters (DUpdateConfig _ _ _ _) = True"
| "alters (DDeleteConfig _ _ _) = True"
| "alters (DHttp _ _ _ _ _) = True"
| "alters _ = False"

text \<open>
  One change is asked for, as the last call, of a deployment found in the same context: the identifier is that of the
  task the library started, an error is one the library reported, and the client waits for ever only when the
  library reports neither.  Or nothing is changed and there is an error.
\<close>

definition changed_once :: "string \<Rightarrow> string \<Rightarrow> (asyncRun \<Rightarrow> devent) \<Rightarrow> (gerr + int) outcome \<Rightarrow> devent list \<Rightarrow> bool" where
  "changed_once contextID name call r tr \<longleftrightarrow>
     (\<exists>before a. lib tr = before @ [DFindDeployment contextID name (Inr ()), call a] \<and> \<not> list_ex alters before
        \<and> (case r of Val (Inr taskID) \<Rightarrow> as_Task a = Some taskID | Val (Inl err) \<Rightarrow> as_Err a \<noteq> None
            | OutOfFuel \<Rightarrow> as_Task a = None \<and> as_Err a = None | Panic _ \<Rightarrow> False))
     \<or> \<not> list_ex alters (lib tr) \<and> (\<exists>err. r = Val (Inl err))"

definition slug_String :: "InstanceSlug \<Rightarrow> string" where
  "slug_String s = (if slug_IndexOrID s \<noteq> [] then slug_Name s @ ''/'' @ slug_IndexOrID s else slug_Name s)"

lemma NewInstanceSlug_String: "NewInstanceSlug str = Inr s \<Longrightarrow> slug_String s = str"
proof -
  assume parsed: "NewInstanceSlug str = Inr s"
  then have "length (split_slash str) = 1 \<or> length (split_slash str) = 2"
    by (auto simp: NewInstanceSlug_def Let_def split: if_splits)
  then consider (one) x where "split_slash str = [x]" | (two) x y where "split_slash str = [x, y]"
    by (auto simp: list_lengths)
  then show ?thesis
  proof cases
    case one
    with parsed show ?thesis by (auto simp: NewInstanceSlug_def Let_def slug_String_def split_slash_single split: if_splits)
  next
    case two
    with parsed show ?thesis by (auto simp: NewInstanceSlug_def Let_def slug_String_def split_slash_pair split: if_splits)
  qed
qed

lemma errandSlugs_String: "errandSlugs errandName names = Inr slugs \<Longrightarrow> map slug_String slugs = names"
  by (induction names arbitrary: slugs) (auto dest: NewInstanceSlug_String split: sum.splits)

text \<open>The answers to the question which deployments there are\<close>

fun listings :: "devent list \<Rightarrow> string list list" where
  "listings [] = []"
| "listings (DListDeployments (Inr names) # tr) = names # listings tr"
| "listings (_ # tr) = listings tr"

lemma listings_append [simp]: "listings (xs @ ys) = listings xs @ listings ys"
  by (induction xs rule: listings.induct) simp_all

lemma listings_session [simp]: "lib tr = [] \<Longrightarrow> listings tr = []"
proof (induction tr)
  case (Cons e tr)
  then show ?case by (cases e) (simp_all split: if_splits)
qed simp

lemma director_GetDeployment_spec:
  "ensures (\<lambda>r tr. \<not> list_ex alters (lib tr) \<and> (case r of
       Val (Inr (_, found)) \<Rightarrow> \<exists>names. listings tr = [names] \<and> (found \<longleftrightarrow> name \<in> set names)
     | Val (Inl err) \<Rightarrow> listings tr = [] \<or> (\<exists>names. listings tr = [names] \<and> name \<in> set names) | _ \<Rightarrow> False))
   [] (director_GetDeployment D c name)"
  unfolding director_GetDeployment_def by (auto intro!: ens)

text \<open>A deletion: without an answer to the question, an error; what is not listed is not touched; what is, is deleted.\<close>

definition deleted_once :: "string \<Rightarrow> string \<Rightarrow> bool \<Rightarrow> (gerr + int) outcome \<Rightarrow> devent list \<Rightarrow> bool" where
  "deleted_once contextID dep force r tr \<longleftrightarrow> (case listings tr of
      [] \<Rightarrow> \<not> list_ex alters (lib tr) \<and> (\<exists>err. r = Val (Inl err))
    | [names] \<Rightarrow> if dep \<in> set names then changed_once contextID dep (DDelete contextID dep force) r tr
        else \<not> list_ex alters (lib tr) \<and> r = Val (Inr 0)
    | _ \<Rightarrow> False)"

text \<open>
  C11.  Deploying, recreating, running an errand and deleting ask the director for one change at most, as the last thing
  they do, of the deployment they name and under the context they were given.  The task they return is the one the
  director started.  An errand runs on the instances it was given, in their order.  Deleting asks once which deployments
  there are: a deployment that the director does not list is not touched, and the task 0 is returned; only one that is
  listed is deleted; without an answer nothing is changed and there is an error.
\<close>

theorem deployment_changed_once:
  "ensures (\<lambda>r tr. case manifestName D manifest of
       Inr name \<Rightarrow> changed_once contextID name (DUpdate contextID name manifest) r tr
     | Inl err \<Rightarrow> tr = [] \<and> (\<exists>err. r = Val (Inl err))) [] (director_Deploy D c manifest contextID)
   \<and> ensures (changed_once contextID dep (DRecreate contextID dep)) [] (director_Recreate D c dep contextID)
   \<and> ensures (\<lambda>r tr. \<exists>slugs. changed_once contextID dep (DRunErrand contextID dep errandName slugs) r tr
        \<and> (map slug_String slugs = errandInstances \<or> \<not> list_ex alters (lib tr)))
      [] (director_RunErrand D c dep errandName errandInstances contextID)
   \<and> ensures (deleted_once contextID dep force) [] (director_DeleteDeployment D c dep contextID force)"
proof (intro conjI)
  show "ensures (\<lambda>r tr. case manifestName D manifest of
       Inr name \<Rightarrow> changed_once contextID name (DUpdate contextID name manifest) r tr
     | Inl err \<Rightarrow> tr = [] \<and> (\<exists>err. r = Val (Inl err))) [] (director_Deploy D c manifest contextID)"
    by (auto simp: director_Deploy_def fetchName_def changed_once_def intro!: ens ens_awaitTask split: sum.splits)
  show "ensures (changed_once contextID dep (DRecreate contextID dep)) [] (director_Recreate D c dep contextID)"
    by (auto simp: director_Recreate_def changed_once_def intro!: ens ens_awaitTask)
  show "ensures (\<lambda>r tr. \<exists>slugs. changed_once contextID dep (DRunErrand contextID dep errandName slugs) r tr
        \<and> (map slug_String slugs = errandInstances \<or> \<not> list_ex alters (lib tr)))
      [] (director_RunErrand D c dep errandName errandInstances contextID)"
    by (auto simp: director_RunErrand_def changed_once_def dest: errandSlugs_String intro!: ens ens_awaitTask split: sum.splits)
  show "ensures (deleted_once contextID dep force) [] (director_DeleteDeployment D c dep contextID force)"
    unfolding director_DeleteDeployment_def Let_def
    by (auto simp: deleted_once_def changed_once_def intro!: ens ens_awaitTask ens_asked_sub [OF director_GetDeployment_spec])
qed

section \<open>Tasks and exit codes\<close>

text \<open>When the answer of an oracle is known, it is used.\<close>

lemma ens_seq_answer:
  fixes orc :: "'e list \<Rightarrow> 'r" and k :: "'r \<Rightarrow> (('e, 'z) gstate_scheme, 'a) go"
  assumes "\<And>h x. orc h = x \<Longrightarrow> ensures \<Phi> (tr @ [ev x]) (k x)"
  shows "ensures \<Phi> tr (seq (ext_call orc ev) k)"
  unfolding ensures_def
proof (intro allI impI)
  fix s :: "('e, 'z) gstate_scheme" and h0
  assume h: "hist s = h0 @ tr"
  from assms [OF refl, of "h0 @ tr"] h
  show "case seq (ext_call orc ev) k s of (r, s') \<Rightarrow> \<exists>tr'. hist s' = h0 @ tr' \<and> \<Phi> r tr'"
    by (auto simp: seq_def ext_call_def Let_def ensures_def dest!: spec [of _ "s\<lparr>hist := hist s @ [ev (orc (hist s))]\<rparr>"])
qed

text \<open>
  What the text of a task's output says about its exit code: the last number under that key, zero when there is none or
  when the text is no JSON object
\<close>

fun exit_codes :: "(string \<times> json) list \<Rightarrow> int list" where
  "exit_codes [] = []"
| "exit_codes ((k, JNum n) # kvs) = (if key_is k ''exit_code'' \<and> in_int64 n then [n] else []) @ exit_codes kvs"
| "exit_codes (_ # kvs) = exit_codes kvs"

definition exit_status :: "denv \<Rightarrow> string \<Rightarrow> int" where
  "exit_status D text = (case parseJson D text of WJson (JObj kvs) \<Rightarrow> last (0 # exit_codes kvs) | _ \<Rightarrow> 0)"

text \<open>
  In the calls \<open>tr\<close> the task was found, its output was fetched without an error, and \<open>code\<close> is the exit code in the
  text that the chunks of the output make together.  The library tells the start, the chunks and the end.
\<close>

definition printed_code :: "denv \<Rightarrow> devent list \<Rightarrow> int \<Rightarrow> int \<Rightarrow> bool" where
  "printed_code D tr taskID code \<longleftrightarrow> (\<exists>found reports. DFindTask taskID (Inr found) \<in> set tr
     \<and> DResultOutput (tsk_ID found) (reports, None) \<in> set tr
     \<and> (\<forall>i chunks st. reports = RStarted i # map (RChunk i) chunks @ [RFinished i st] \<longrightarrow> code = exit_status D (concat chunks)))"

lemma printed_code_append: "printed_code D tr i code \<Longrightarrow> printed_code D (xs @ tr @ ys) i code"
  unfolding printed_code_def by auto

lemma decodeOutputFields_code: "out_ExitCode (decodeOutputFields kvs out) = last (out_ExitCode out # exit_codes kvs)"
proof (induction kvs arbitrary: out rule: exit_codes.induct)
  case (2 k n kvs)
  then show ?case by (auto simp: key_is_def split: sum.splits)
qed (auto split: sum.splits)

lemma chunks_collected: "fold (reporter_told D) (map (RChunk i) chunks) r = r\<lparr>rep_outputBytes := rep_outputBytes r @ concat chunks\<rparr>"
  by (induction chunks arbitrary: r) simp_all

lemma reported_code:
  "out_ExitCode (reported_output D (RStarted i # map (RChunk i) chunks @ [RFinished i st])) = exit_status D (concat chunks)"
  by (simp add: reported_output_def chunks_collected exit_status_def zero_output_def decodeOutputFields_code
      split: wire.split json.split)

definition judged :: "dirTask \<Rightarrow> int \<Rightarrow> BoshTask" where
  "judged t code = toBoshTask t\<lparr>task_State := if tsk_State t = ''done'' \<and> code \<noteq> 0 then ''error'' else tsk_State t\<rparr>"

definition trouble :: "denv \<Rightarrow> BoshClient \<Rightarrow> devent list \<Rightarrow> bool" where
  "trouble D c tr \<longleftrightarrow> unreachable D c \<or> list_ex refused tr"

lemma trouble_append: "trouble D c (xs @ ys) \<longleftrightarrow> trouble D c xs \<or> trouble D c ys"
    "trouble D c (e # ys) \<longleftrightarrow> refused e \<or> trouble D c ys"
  by (auto simp: trouble_def)

lemma GetTaskOutput_spec:
  "ensures (\<lambda>r tr. case r of Val (Inr output) \<Rightarrow> \<not> list_ex refused tr \<and> printed_code D tr taskID (out_ExitCode output)
     | Val (Inl err) \<Rightarrow> trouble D c tr | _ \<Rightarrow> False) [] (GetTaskOutput D c taskID)"
proof -
  have printed: "printed_code D (t @ [DFindTask taskID (Inr task), DResultOutput (tsk_ID task) (reports, None)]) taskID
      (out_ExitCode (reported_output D reports))" for t task reports
    unfolding printed_code_def by (intro exI [of _ task] exI [of _ reports]) (auto simp: reported_code)
  show ?thesis
    unfolding GetTaskOutput_def
    by (intro ens) (auto simp: trouble_def printed intro!: ens split: prod.splits option.splits)
qed

definition codes_of :: "denv \<Rightarrow> devent list \<Rightarrow> dirTask list \<Rightarrow> int list \<Rightarrow> bool" where
  "codes_of D tr own codes \<longleftrightarrow> list_all2 (\<lambda>t code. tsk_State t = ''done'' \<longrightarrow> printed_code D tr (tsk_ID t) code) own codes"

lemma codes_of_append: "codes_of D tr own codes \<Longrightarrow> codes_of D (xs @ tr @ ys) own codes"
  unfolding codes_of_def by (erule list_all2_mono) (use printed_code_append in blast)

definition judged_as :: "denv \<Rightarrow> devent list \<Rightarrow> dirTask \<Rightarrow> string \<Rightarrow> bool" where
  "judged_as D tr t st \<longleftrightarrow> (\<exists>code. (tsk_State t = ''done'' \<longrightarrow> printed_code D tr (tsk_ID t) code)
     \<and> toBoshTask t\<lparr>task_State := st\<rparr> = judged t code)"

lemma judged_asI:
  "tsk_State t = ''done'' \<Longrightarrow> printed_code D tr (tsk_ID t) code \<Longrightarrow> code \<noteq> 0 \<Longrightarrow> judged_as D tr t ''error''"
  "tsk_State t = ''done'' \<Longrightarrow> printed_code D tr (tsk_ID t) 0 \<Longrightarrow> judged_as D tr t ''done''"
  "tsk_State t \<noteq> ''done'' \<Longrightarrow> judged_as D tr t (tsk_State t)"
  unfolding judged_as_def judged_def by (rule exI [of _ code], simp) (rule exI [of _ 0], simp)+

lemma fetchTaskState_spec:
  "ensures (\<lambda>r tr. case r of Val (Inr st) \<Rightarrow> \<not> list_ex refused tr \<and> judged_as D tr t st
     | Val (Inl err) \<Rightarrow> trouble D c tr | _ \<Rightarrow> False) [] (fetchTaskState D c t)"
  unfolding fetchTaskState_def
  by (auto intro!: ens judged_asI ens_attempt_sub [OF GetTaskOutput_spec])

lemma normalisedTasks_spec:
  "ensures (\<lambda>r tr. case r of
      Val (Inr bts) \<Rightarrow> \<not> list_ex refused tr \<and> (\<exists>codes. let own = filter (\<lambda>t. tsk_DeploymentName t = dep) tasks in
        codes_of D tr own codes \<and> bts = acc @ map2 judged own codes)
    | Val (Inl err) \<Rightarrow> trouble D c tr | _ \<Rightarrow> False) [] (normalisedTasks D c dep tasks acc)"
proof (induction tasks arbitrary: acc)
  case Nil
  then show ?case by (auto intro!: ens simp: codes_of_def)
next
  case (Cons t tasks)
  let ?own = "filter (\<lambda>t. tsk_DeploymentName t = dep)"
  show ?case
  proof (cases "tsk_DeploymentName t = dep")
    case True
    have joined: "\<exists>codes. codes_of D (d @ tr) (?own (t # tasks)) codes
        \<and> toBoshTask t\<lparr>task_State := st\<rparr> # map2 judged (?own tasks) rest = map2 judged (?own (t # tasks)) codes"
      if "judged_as D d t st" "codes_of D tr (?own tasks) rest" for d tr st rest
    proof -
      from that(1) obtain code where code: "tsk_State t = ''done'' \<longrightarrow> printed_code D d (tsk_ID t) code"
        "toBoshTask t\<lparr>task_State := st\<rparr> = judged t code" unfolding judged_as_def by blast
      then have "tsk_State t = ''done'' \<longrightarrow> printed_code D (d @ tr) (tsk_ID t) code"
        using printed_code_append [of D d "tsk_ID t" code "[]" tr] by auto
      then have "codes_of D (d @ tr) (?own (t # tasks)) (code # rest)"
        using codes_of_append [OF that(2), of d "[]"] True by (simp add: codes_of_def)
      then show ?thesis using True code(2) by (intro exI [of _ "code # rest"]) simp
    qed
    show ?thesis
      unfolding normalisedTasks.simps if_P [OF True]
      by (rule ens_asked_sub [OF fetchTaskState_spec])
        (auto simp: trouble_append Let_def simp del: filter.simps intro!: ens_sub [OF Cons.IH] joined split: outcome.split_asm sum.split_asm)
  next
    case False
    then have skip: "?own (t # tasks) = ?own tasks" by simp
    show ?thesis unfolding normalisedTasks.simps if_not_P [OF False] skip by (rule Cons.IH)
  qed
qed

text \<open>
  C12.  The tasks of a context that the lifecycle runner is given.  They are the tasks that BOSH has for this context and
  deployment, in their order.  A task of BOSH counts as done only when the exit code in its output is zero: an errand
  that BOSH calls done but that exited with another code is among the failed ones, with those that BOSH cancelled, timed
  out or reports an error for.  The output of every task that is done was fetched without an error, and its exit code is read
  from the text of all its chunks.  There is an error exactly when no client of the director can be made from the addresses
  (\<open>unreachable\<close>) or one of the answers is an error.
\<close>

theorem errand_exit_codes_count:
  "ensures (\<lambda>r tr. case r of
      Val (Inr bts) \<Rightarrow> \<not> unreachable D c \<and> \<not> list_ex refused tr \<and> (\<exists>tasks codes. DTasksByContext contextID (Inr tasks) \<in> set tr \<and>
        (let own = filter (\<lambda>t. tsk_DeploymentName t = dep) tasks; failed = (\<lambda>t. tsk_State t \<in> {''error'', ''cancelled'', ''timeout''}) in
         codes_of D tr own codes
         \<and> map task_ID bts = map tsk_ID own
         \<and> (AllTasksAreDone bts \<longleftrightarrow> list_all (\<lambda>(t, code). tsk_State t = ''done'' \<and> code = 0) (zip own codes))
         \<and> map task_ID (FailedTasks bts)
             = map (\<lambda>(t, code). tsk_ID t) (filter (\<lambda>(t, code). failed t \<or> tsk_State t = ''done'' \<and> code \<noteq> 0) (zip own codes))))
    | Val (Inl err) \<Rightarrow> unreachable D c \<or> list_ex refused tr | _ \<Rightarrow> False) [] (GetNormalisedTasksByContext D c dep contextID)"
proof -
  have type: "StateType (judged t code) = TaskComplete \<longleftrightarrow> tsk_State t = ''done'' \<and> code = 0"
    "StateType (judged t code) = TaskFailed \<longleftrightarrow>
       tsk_State t \<in> {''error'', ''cancelled'', ''timeout''} \<or> tsk_State t = ''done'' \<and> code \<noteq> 0"
    "task_ID (judged t code) = tsk_ID t" for t code
    by (simp_all add: judged_def StateType_def toBoshTask_def)
  have ids: "map task_ID (map2 judged own codes) = map tsk_ID own" if "length codes = length own" for own codes
    using that by (induction own codes rule: list_induct2') (simp_all add: type)
  have all: "AllTasksAreDone (map2 judged own codes) \<longleftrightarrow> list_all (\<lambda>(t, code). tsk_State t = ''done'' \<and> code = 0) (zip own codes)" for own codes
    by (simp add: AllTasksAreDone_iff list_all_iff case_prod_beta type)
  have failed: "map task_ID (FailedTasks (map2 judged own codes)) = map (\<lambda>(t, code). tsk_ID t) (filter (\<lambda>(t, code).
      tsk_State t \<in> {''error'', ''cancelled'', ''timeout''} \<or> tsk_State t = ''done'' \<and> code \<noteq> 0) (zip own codes))" for own codes
    by (simp add: FailedTasks_def findTasksInStates_filter filter_map o_def case_prod_unfold type)
  have codes: "length codes = length own" if "codes_of D tr own codes" for tr own codes
    using that by (simp add: codes_of_def list_all2_lengthD)
  show ?thesis
    unfolding GetNormalisedTasksByContext_def
  proof (intro ens_with_director ens_asked_call ens_sub [OF normalisedTasks_spec], goal_cases)
    case (3 tr tasks r d)
    let ?own = "filter (\<lambda>t. tsk_DeploymentName t = dep) tasks" and ?asked = "DTasksByContext contextID (Inr tasks)"
    show ?case
    proof (cases "\<exists>bts. r = Val (Inr bts)")
      case True
      with 3 obtain codes where own: "codes_of D d ?own codes" and r: "r = Val (Inr (map2 judged ?own codes))" and ok: "\<not> list_ex refused d"
        by (auto simp: Let_def)
      have "codes_of D (tr @ ?asked # d) ?own codes" using codes_of_append [OF own, of "tr @ [?asked]" "[]"] by simp
      moreover have "length codes = length ?own" by (rule codes [OF own])
      ultimately show ?thesis
        using r ok 3(2,3) by (auto simp: ids all failed Let_def simp del: map_map intro!: exI [of _ tasks] exI [of _ codes])
    next
      case False
      with 3 show ?thesis by (auto simp: trouble_def split: outcome.split_asm sum.split_asm)
    qed
  qed (simp_all add: trouble_def)
qed

text \<open>A director with two tasks that are done, the second with an exit code\<close>

definition two_tasks :: "dirTask list" where
  "two_tasks = map (\<lambda>i. \<lparr>tsk_ID = i, tsk_State = ''done'', tsk_Description = [], tsk_Result = [], tsk_ContextID = ''ctx'',
     tsk_DeploymentName = ''dep''\<rparr>) [1, 2]"

definition two_outputs :: "int \<Rightarrow> report list" where
  "two_outputs taskID = [RStarted taskID, RChunk taskID (if taskID = 2 then ''bad'' else ''good''), RFinished taskID ''done'']"

definition no_run :: asyncRun where
  "no_run = \<lparr>as_Task = Some 1, as_Err = None, as_ErrFirst = False\<rparr>"

definition sample_director :: denv where
  "sample_director = \<lparr>o_NewUAA = \<lambda>_ _. Inr (), o_NewDirector = \<lambda>_ _. Inr (),
     o_DirInfo = \<lambda>_. Inr \<lparr>di_Version = ''1.0.0'', di_AuthType = ''basic'', di_AuthOptions = []\<rparr>,
     o_IsAuthenticated = \<lambda>_. Inr True, o_FindTask = \<lambda>_ i. if i = 1 then Inr (two_tasks ! 0) else if i = 2 then Inr (two_tasks ! 1)
       else Inl (ErrorString ''no such task''),
     o_ResultOutput = \<lambda>_ i. (two_outputs i, None), o_CurrentTasks = \<lambda>_ _. Inr [], o_FindTasksByContext = \<lambda>_ _. Inr two_tasks,
     o_ListDeployments = \<lambda>_. Inr [''dep''], o_Deployments = \<lambda>_. Inr [''dep''], o_FindDeployment = \<lambda>_ _ _. Inr (),
     o_Manifest = \<lambda>_ _. Inr ''name: dep'', o_Update = \<lambda>_ _ _ _. no_run, o_DirRecreate = \<lambda>_ _ _. no_run,
     o_Delete = \<lambda>_ _ _ _. no_run, o_DirRunErrand = \<lambda>_ _ _ _ _. no_run, o_ListConfigs = \<lambda>_ _. Inr [],
     o_DirUpdateConfig = \<lambda>_ _ _ _. Inr (), o_DeleteConfig = \<lambda>_ _ _. Inr True, o_Events = \<lambda>_ _ _. Inr [],
     o_DirVariables = \<lambda>_ _. Inr [], o_VMInfos = \<lambda>_ _. Inr [], o_Http = \<lambda>_ _ _ _ _. Inr [],
     configFromURL = \<lambda>_. Inr \<lparr>fc_Host = ''bosh'', fc_Port = 25555, fc_CACert = [], fc_Client = [], fc_ClientSecret = [], fc_TokenFunc = None\<rparr>,
     uaaConfigFromURL = \<lambda>_. Inr \<lparr>uf_URL = [], uf_Client = [], uf_ClientSecret = [], uf_CACert = []\<rparr>,
     manifestName = \<lambda>_. Inr ''dep'', caCertPool = \<lambda>_. None,
     parseJson = \<lambda>s. WJson (JObj [(''exit_code'', JNum (if s = ''bad'' then 1 else 0))]), dirQuoted = \<lambda>s. s\<rparr>"

definition basic_client :: BoshClient where
  "basic_client = \<lparr>bcl_url = ''https://bosh:25555'', bcl_trustedCertPEM = [],
     bcl_boshAuth = \<lparr>auth_Basic = \<lparr>uc_Username = ''u'', uc_Password = ''p''\<rparr>, auth_UAA = no_uaa\<rparr>,
     bcl_BoshInfo = \<lparr>info_Version = ''1.0.0'', info_UaaURL = []\<rparr>\<rparr>"

lemma two_tasks_run:
  "\<exists>bts conf. GetNormalisedTasksByContext sample_director basic_client ''dep'' ''ctx'' \<lparr>hist = []\<rparr> = (Val (Inr bts),
     \<lparr>hist = [DNewDirector conf (Inr ()), DTasksByContext ''ctx'' (Inr two_tasks),
       DNewDirector conf (Inr ()), DFindTask 1 (Inr (two_tasks ! 0)), DResultOutput 1 (two_outputs 1, None),
       DNewDirector conf (Inr ()), DFindTask 2 (Inr (two_tasks ! 1)), DResultOutput 2 (two_outputs 2, None)]\<rparr>)"
  by (simp add: GetNormalisedTasksByContext_def with_director_def Director_def directorConfig_def asked_def fetchTaskState_def GetTaskOutput_def
      sample_director_def basic_client_def no_uaa_def no_client_def no_user_def UAA_IsSet_def two_tasks_def run)

lemma two_codes:
  assumes "\<And>i t. DFindTask i (Inr t) \<in> set h \<Longrightarrow> i = 1 \<and> t = two_tasks ! 0 \<or> i = 2 \<and> t = two_tasks ! 1"
    and "\<And>i x. DResultOutput i x \<in> set h \<Longrightarrow> x = (two_outputs i, None)"
    and "printed_code sample_director h i code"
  shows "i = 1 \<and> code = 0 \<or> i = 2 \<and> code = 1"
proof -
  from assms(3) obtain found reports where h: "DFindTask i (Inr found) \<in> set h" "DResultOutput (tsk_ID found) (reports, None) \<in> set h"
    and code: "\<And>i chunks st. reports = RStarted i # map (RChunk i) chunks @ [RFinished i st] \<Longrightarrow> code = exit_status sample_director (concat chunks)"
    unfolding printed_code_def by blast
  from assms(1) [OF h(1)] consider "i = 1" "found = two_tasks ! 0" | "i = 2" "found = two_tasks ! 1" by blast
  then show ?thesis
  proof cases
    case 1
    then have "reports = two_outputs 1" using assms(2) [OF h(2)] by (simp add: two_tasks_def)
    then show ?thesis using 1 code [of 1 "[''good'']" "''done''"]
      by (simp add: two_outputs_def exit_status_def sample_director_def key_is_def in_int64_def)
  next
    case 2
    then have "reports = two_outputs 2" using assms(2) [OF h(2)] by (simp add: two_tasks_def)
    then show ?thesis using 2 code [of 2 "[''bad'']" "''done''"]
      by (simp add: two_outputs_def exit_status_def sample_director_def key_is_def in_int64_def)
  qed
qed

theorem errand_exit_codes_count_witness:
  "\<exists>bts s'. GetNormalisedTasksByContext sample_director basic_client ''dep'' ''ctx'' \<lparr>hist = []\<rparr> = (Val (Inr bts), s')
     \<and> map task_ID bts = [1, 2] \<and> map task_ID (FailedTasks bts) = [2]"
proof -
  obtain bts h where answered: "GetNormalisedTasksByContext sample_director basic_client ''dep'' ''ctx'' \<lparr>hist = []\<rparr> = (Val (Inr bts), \<lparr>hist = h\<rparr>)"
    and made: "\<exists>conf. h = [DNewDirector conf (Inr ()), DTasksByContext ''ctx'' (Inr two_tasks),
       DNewDirector conf (Inr ()), DFindTask 1 (Inr (two_tasks ! 0)), DResultOutput 1 (two_outputs 1, None),
       DNewDirector conf (Inr ()), DFindTask 2 (Inr (two_tasks ! 1)), DResultOutput 2 (two_outputs 2, None)]"
    using two_tasks_run by blast
  from made have h: "\<And>i t. DFindTask i (Inr t) \<in> set h \<Longrightarrow> i = 1 \<and> t = two_tasks ! 0 \<or> i = 2 \<and> t = two_tasks ! 1"
      "\<And>i x. DResultOutput i x \<in> set h \<Longrightarrow> x = (two_outputs i, None)"
      "\<And>ts. DTasksByContext ''ctx'' (Inr ts) \<in> set h \<Longrightarrow> ts = two_tasks"
    by auto
  from ensuresD [OF errand_exit_codes_count answered] h(3) obtain codes where
    codes: "codes_of sample_director h two_tasks codes" "map task_ID bts = map tsk_ID two_tasks"
    and failed: "map task_ID (FailedTasks bts) = map (\<lambda>(t, code). tsk_ID t) (filter (\<lambda>(t, code). tsk_State t \<in> {''error'', ''cancelled'', ''timeout''}
        \<or> tsk_State t = ''done'' \<and> code \<noteq> 0) (zip two_tasks codes))"
    by (fastforce simp: Let_def two_tasks_def)
  have "printed_code sample_director h 1 code \<Longrightarrow> code = 0" "printed_code sample_director h 2 code \<Longrightarrow> code = 1" for code
    using two_codes [of h 1 code, OF h(1,2)] two_codes [of h 2 code, OF h(1,2)] by simp_all
  with codes(1) have "codes = [0, 1]" by (auto simp: two_tasks_def codes_of_def list_all2_Cons1)
  with codes(2) failed answered show ?thesis by (simp add: two_tasks_def)
qed

theorem deployment_changed_once_witness:
  "\<exists>s'. director_Deploy sample_director basic_client ''name: dep'' ''ctx'' \<lparr>hist = []\<rparr> = (Val (Inr 1), s')
     \<and> changed_once ''ctx'' ''dep'' (DUpdate ''ctx'' ''dep'' ''name: dep'') (Val (Inr 1)) (hist s')"
proof -
  obtain s' where deployed: "director_Deploy sample_director basic_client ''name: dep'' ''ctx'' \<lparr>hist = []\<rparr> = (Val (Inr 1), s')"
    by (simp add: director_Deploy_def fetchName_def with_director_def Director_def directorConfig_def asked_def awaitTask_def
        sample_director_def no_run_def basic_client_def no_uaa_def no_client_def no_user_def UAA_IsSet_def run)
  have "manifestName sample_director ''name: dep'' = Inr ''dep''" by (simp add: sample_director_def)
  with ensuresD [OF conjunct1 [OF deployment_changed_once] deployed] deployed show ?thesis by auto
qed

section \<open>Configurations\<close>

text \<open>On success every configuration that was listed has been deleted, in order; on an error the ones before it.\<close>

lemma deleteEachConfig_spec:
  "ensures (\<lambda>r tr. (\<exists>found. r = Val (Inr ()) \<and> length found = length configs
        \<and> tr = map2 (\<lambda>conf b. DDeleteConfig (bc_Type conf) (bc_Name conf) (Inr b)) configs found)
      \<or> (\<exists>err before conf rest found. r = Val (Inl (wrapf (''BOSH error deleting '' @ inQuotes (bc_Type conf) @ '' config '' @ inQuotes (bc_Name conf)) err))
        \<and> configs = before @ conf # rest \<and> length found = length before
        \<and> tr = map2 (\<lambda>conf b. DDeleteConfig (bc_Type conf) (bc_Name conf) (Inr b)) before found @ [DDeleteConfig (bc_Type conf) (bc_Name conf) (Inl err)]))
     [] (deleteEachConfig D configs)"
proof (induction configs)
  case Nil
  then show ?case by (auto intro!: ens)
next
  case (Cons conf configs)
  show ?case
    unfolding deleteEachConfig.simps deleteOneConfig_def
  proof (intro ens_asked_call ens_sub [OF Cons.IH], goal_cases)
    case (1 err)
    then show ?case by (intro disjI2 exI [of _ err] exI [of _ "[]"] exI [of _ conf] exI [of _ configs]) simp
  next
    case (2 b r tr)
    then show ?case
    proof (elim disjE exE conjE, goal_cases)
      case (1 found)
      then show ?case by (intro disjI1 exI [of _ "b # found"]) simp
    next
      case (2 err before failing rest found)
      then show ?case
        by (intro disjI2 exI [of _ err] exI [of _ "conf # before"] exI [of _ failing] exI [of _ rest] exI [of _ "b # found"]) simp
    qed
  qed
qed

section \<open>Remarks\<close>

text \<open>Output that is not JSON counts as the exit code zero.\<close>

lemma garbled_output_succeeds:
  "parseJson D bytes = WMalformed msg \<Longrightarrow> out_ExitCode (reported_output D [RChunk taskID bytes, RFinished taskID state]) = 0"
  by (simp add: reported_output_def zero_output_def)

text \<open>The message about an instance with a wrong name exchanges the instance and the errand.\<close>

lemma errand_error_swapped:
  "NewInstanceSlug errandInstance = Inl err \<Longrightarrow> errandSlugs errandName (errandInstance # errandInstances)
     = Inl (wrapf (''Invalid instance name '' @ errandName @ '' for errand '' @ errandInstance) err)"
  by simp

end
