(* ===== verification/BoshLinks.thy ===== *)
theory BoshLinks
  imports BoshDirector
begin

text \<open>
  The addresses of a deployment's instance groups: \<open>boshdirector/links_api.go\<close>, the HTTP side of the client
  (\<open>boshdirector/http.go\<close>) and \<open>boshlinks/retriever.go\<close>.
\<close>

section \<open>Raw requests\<close>

definition baseURL :: "FactoryConfig \<Rightarrow> string" where
  "baseURL conf = ''https://'' @ fc_Host conf @ '':'' @ show_int (fc_Port conf)"

text \<open>An error in building the configuration gives an empty response and no error.\<close>

definition raw_request :: "denv \<Rightarrow> BoshClient \<Rightarrow> string \<Rightarrow> string \<Rightarrow> string \<Rightarrow> string \<Rightarrow> (gerr + string) dir_m" where
  "raw_request D c meth path data contentType = attempt (directorConfig D c) (\<lambda>err. ret (Inr [])) (\<lambda>conf.
     case caCertPool D (fc_CACert conf) of Some err \<Rightarrow> ret (Inl err)
     | None \<Rightarrow> let url = baseURL conf @ path in
         ext_call (\<lambda>h. o_Http D h meth url data contentType) (DHttp meth url data contentType))"

record boshHTTP =
  RawGet :: "string \<Rightarrow> (gerr + string) dir_m"
  RawPost :: "string \<Rightarrow> string \<Rightarrow> string \<Rightarrow> (gerr + string) dir_m"
  RawDelete :: "string \<Rightarrow> (gerr + string) dir_m"

definition NewBoshHTTP :: "denv \<Rightarrow> BoshClient \<Rightarrow> boshHTTP" where
  "NewBoshHTTP D c = \<lparr>RawGet = (\<lambda>path. raw_request D c ''GET'' path [] []),
     RawPost = (\<lambda>path data contentType. raw_request D c ''POST'' path data contentType),
     RawDelete = (\<lambda>path. raw_request D c ''DELETE'' path [] [])\<rparr>"

section \<open>The retriever of links\<close>

text \<open>\<open>url.PathEscape\<close>\<close>

definition pathEscapeChar :: "char \<Rightarrow> string" where
  "pathEscapeChar c = (let n = of_char c :: nat in
     if unreserved c \<or> c \<in> set ''$&+=:@'' then [c] else [CHR 0x25, hexDigit (n div 16), hexDigit (n mod 16)])"

definition PathEscape :: "string \<Rightarrow> string" where
  "PathEscape s = concat (map pathEscapeChar s)"

definition validStatusOption :: "string \<Rightarrow> bool" where
  "validStatusOption stat = list_ex (\<lambda>option. option = stat) [''default'', ''healthy'', ''unhealthy'', ''all'']"

definition linkAddressPath :: "string \<Rightarrow> string list \<Rightarrow> string" where
  "linkAddressPath consumerLinkID azs = foldl (\<lambda>path az. path @ ''&azs[]='' @ PathEscape az) (''/link_address?link_id='' @ consumerLinkID) azs"

text \<open>\<open>json.Unmarshal\<close> of a response\<close>

definition unmarshalText :: "denv \<Rightarrow> (json \<Rightarrow> gerr + 'a) \<Rightarrow> string \<Rightarrow> gerr + 'a" where
  "unmarshalText D dec text = (case parseJson D text of
      WEmpty \<Rightarrow> Inl (ErrorString ''unexpected end of JSON input'') | WMalformed m \<Rightarrow> Inl (ErrorString m) | WJson j \<Rightarrow> dec j)"

definition decodeField :: "string \<Rightarrow> json \<Rightarrow> gerr + string" where
  "decodeField field j = decodeStruct ''struct'' (\<lambda>k j s. if key_is k field then decodeStr k j s else Inr s) j []"

definition readAddress :: "denv \<Rightarrow> string \<Rightarrow> gerr + string" where
  "readAddress D response = (case unmarshalText D (decodeField ''Address'') response of
      Inl err \<Rightarrow> Inl (wrapf ''cannot unmarshal link address JSON'' err) | Inr address \<Rightarrow> Inr address)"

definition withStatus :: "string \<Rightarrow> string \<Rightarrow> string" where
  "withStatus path stat = (if stat \<noteq> [] then path @ ''&status='' @ stat else path)"

definition GetLinkAddress :: "denv \<Rightarrow> boshHTTP \<Rightarrow> string \<Rightarrow> string list \<Rightarrow> string \<Rightarrow> (gerr + string) dir_m" where
  "GetLinkAddress D http consumerLinkID azs stat =
     (if stat \<noteq> [] \<and> \<not> validStatusOption stat then
        ret (Inl (ErrorString ''status must be one of the following options: <default | healthy | unhealthy | all>''))
      else let path = withStatus (linkAddressPath consumerLinkID azs) stat in
        asked (''HTTP GET on '' @ path @ '' endpoint failed: '') (RawGet http path) (\<lambda>response. ret (readAddress D response)))"

record linkProvider =
  lp_ID :: string
  lp_Name :: string
  lp_Shared :: bool
  lp_InstanceGroup :: string

definition decodeProvider :: "json \<Rightarrow> linkProvider \<Rightarrow> gerr + linkProvider" where
  "decodeProvider = decodeStruct ''provider'' (\<lambda>k j p.
     if key_is k ''ID'' then map_sum id (\<lambda>s. p\<lparr>lp_ID := s\<rparr>) (decodeStr k j (lp_ID p))
     else if key_is k ''Name'' then map_sum id (\<lambda>s. p\<lparr>lp_Name := s\<rparr>) (decodeStr k j (lp_Name p))
     else if key_is k ''Shared'' then
       (case j of JNull \<Rightarrow> Inr p | JBool b \<Rightarrow> Inr (p\<lparr>lp_Shared := b\<rparr>) | _ \<Rightarrow> Inl (typeError k))
     else if key_is k ''owner_object'' then decodeStruct ''owner_object'' (\<lambda>k j p.
       if key_is k ''info'' then decodeStruct ''info'' (\<lambda>k j p.
         if key_is k ''instance_group'' then map_sum id (\<lambda>s. p\<lparr>lp_InstanceGroup := s\<rparr>) (decodeStr k j (lp_InstanceGroup p))
         else Inr p) j p
       else Inr p) j p
     else Inr p)"

definition decodeProviders :: "json \<Rightarrow> gerr + linkProvider list" where
  "decodeProviders j = decodeSlice decodeProvider \<lparr>lp_ID = [], lp_Name = [], lp_Shared = False, lp_InstanceGroup = []\<rparr> ''providers'' j []"

definition readProviderID :: "denv \<Rightarrow> string \<Rightarrow> string \<Rightarrow> string \<Rightarrow> string \<Rightarrow> gerr + string" where
  "readProviderID D dep instanceGroupName providerName response = (case unmarshalText D decodeProviders response of
      Inl err \<Rightarrow> Inl (wrapf ''cannot unmarshal links provider JSON'' err)
    | Inr providers \<Rightarrow>
        (case find (\<lambda>p. lp_Shared p \<and> lp_Name p = providerName \<and> lp_InstanceGroup p = instanceGroupName) providers of
           Some p \<Rightarrow> Inr (lp_ID p)
         | None \<Rightarrow> Inl (ErrorString (''could not find link provider matching deployment '' @ dep @ '', instanceGroupName ''
             @ instanceGroupName @ '', providerName '' @ providerName))))"

definition LinkProviderID :: "denv \<Rightarrow> boshHTTP \<Rightarrow> string \<Rightarrow> string \<Rightarrow> string \<Rightarrow> (gerr + string) dir_m" where
  "LinkProviderID D http dep instanceGroupName providerName =
     (let path = ''/link_providers?deployment='' @ dep in
      asked (''HTTP GET on '' @ path @ '' endpoint failed: '') (RawGet http path) (\<lambda>response.
      ret (readProviderID D dep instanceGroupName providerName response)))"

definition linkPayload :: "string \<Rightarrow> string" where
  "linkPayload providerID =
     (let q = (\<lambda>s. [CHR 0x22] @ s @ [CHR 0x22]); line = (\<lambda>n s. replicate n (CHR 0x09) @ s @ [CHR 0x0A]) in
      [CHR 0x0A] @ line 1 ''{'' @ line 2 (q ''link_provider_id'' @ '':'' @ q providerID @ '','')
      @ line 2 (q ''link_consumer'' @ '': {'') @ line 3 (q ''owner_object'' @ '': {'')
      @ line 4 (q ''name'' @ '': '' @ q ''external_consumer_id'' @ '','') @ line 4 (q ''type'' @ '': '' @ q ''external'')
      @ line 3 ''}'' @ line 2 ''}'' @ line 1 ''}'' @ [CHR 0x09])"

definition readConsumerID :: "denv \<Rightarrow> string \<Rightarrow> gerr + string" where
  "readConsumerID D response = (case unmarshalText D (decodeField ''ID'') response of
      Inl err \<Rightarrow> Inl (wrapf ''cannot unmarshal create link consumer response'' err) | Inr consumerID \<Rightarrow> Inr consumerID)"

definition CreateLinkConsumer :: "denv \<Rightarrow> boshHTTP \<Rightarrow> string \<Rightarrow> (gerr + string) dir_m" where
  "CreateLinkConsumer D http providerID =
     asked ''HTTP POST on /links endpoint failed'' (RawPost http ''/links'' (linkPayload providerID) ''application/json'')
       (\<lambda>response. ret (readConsumerID D response))"

definition DeleteLinkConsumer :: "boshHTTP \<Rightarrow> string \<Rightarrow> (gerr option) dir_m" where
  "DeleteLinkConsumer http consumerID = attempt (RawDelete http (''/links/'' @ consumerID))
     (\<lambda>err. ret (Some (wrapf ''HTTP DELETE on /links/:id endpoint failed: '' err))) (\<lambda>response. ret None)"

record dnsRetriever =
  dr_LinkProviderID :: "string \<Rightarrow> string \<Rightarrow> string \<Rightarrow> (gerr + string) dir_m"
  dr_CreateLinkConsumer :: "string \<Rightarrow> (gerr + string) dir_m"
  dr_GetLinkAddress :: "string \<Rightarrow> string list \<Rightarrow> string \<Rightarrow> (gerr + string) dir_m"
  dr_DeleteLinkConsumer :: "string \<Rightarrow> (gerr option) dir_m"

definition NewDNSRetriever :: "denv \<Rightarrow> boshHTTP \<Rightarrow> dnsRetriever" where
  "NewDNSRetriever D http = \<lparr>dr_LinkProviderID = LinkProviderID D http, dr_CreateLinkConsumer = CreateLinkConsumer D http,
     dr_GetLinkAddress = GetLinkAddress D http, dr_DeleteLinkConsumer = DeleteLinkConsumer http\<rparr>"

section \<open>Addresses\<close>

text \<open>The error of deleting a consumer is ignored.\<close>

fun dnsAddresses :: "dnsRetriever \<Rightarrow> string \<Rightarrow> BindingDNS list \<Rightarrow> smap \<Rightarrow> (gerr + smap) dir_m" where
  "dnsAddresses R dep [] addresses = ret (Inr addresses)"
| "dnsAddresses R dep (req # dnsRequest) addresses =
     attempt (dr_LinkProviderID R dep (dns_InstanceGroup req) (dns_LinkProvider req)) (\<lambda>err. ret (Inl err)) (\<lambda>providerId.
     attempt (dr_CreateLinkConsumer R providerId) (\<lambda>err. ret (Inl err)) (\<lambda>consumerId.
     attempt (dr_GetLinkAddress R consumerId (dns_AZS req) (dns_Status req)) (\<lambda>err. ret (Inl err)) (\<lambda>addr.
     seq (dr_DeleteLinkConsumer R consumerId) (\<lambda>_.
     dnsAddresses R dep dnsRequest (map_set (dns_Name req) addr addresses)))))"

definition GetDNSAddresses :: "dnsRetriever \<Rightarrow> string \<Rightarrow> BindingDNS list \<Rightarrow> (gerr + smap) dir_m" where
  "GetDNSAddresses R dep dnsRequest = dnsAddresses R dep dnsRequest []"

section \<open>The requests of a lookup\<close>

type_synonym reply = "string \<times> string \<times> string \<times> (gerr + string)"

fun reply_of :: "devent \<Rightarrow> reply list" where
  "reply_of (DHttp meth url data contentType answer) = [(meth, url, data, answer)]"
| "reply_of _ = []"

definition replies :: "devent list \<Rightarrow> reply list" where
  "replies tr = concat (map reply_of tr)"

lemma replies_simps [simp]: "replies [] = []" "replies (e # tr) = reply_of e @ replies tr" "replies (xs @ ys) = replies xs @ replies ys"
  by (simp_all add: replies_def)

text \<open>One request, whose response was read to the value returned; on an error no more than that request\<close>

definition answered :: "string \<Rightarrow> string \<Rightarrow> string \<Rightarrow> (string \<Rightarrow> gerr + string) \<Rightarrow> (gerr + string) outcome \<Rightarrow> devent list \<Rightarrow> bool" where
  "answered meth url data rd r tr \<longleftrightarrow> (case r of
      Val (Inr x) \<Rightarrow> \<exists>response. replies tr = [(meth, url, data, Inr response)] \<and> rd response = Inr x
    | Val (Inl err) \<Rightarrow> replies tr = [] \<or> (\<exists>answer. replies tr = [(meth, url, data, answer)])
    | _ \<Rightarrow> False)"

text \<open>
  Where the director is, what a retriever makes of its responses, and whether the settings of the client always make a
  configuration: otherwise a request may silently not be sent
\<close>

record linkReader =
  lr_Base :: string
  lr_Up :: bool
  lr_Provider :: "string \<Rightarrow> string \<Rightarrow> string \<Rightarrow> string \<Rightarrow> gerr + string"
  lr_Consumer :: "string \<Rightarrow> gerr + string"
  lr_Address :: "string \<Rightarrow> gerr + string"

text \<open>
  The four requests of one binding, and the requests of several with the addresses they give.  The last of the four asks for
  the deletion of the consumer, and its answer does not matter; it can be missing where requests can.
\<close>

definition released :: "linkReader \<Rightarrow> string \<Rightarrow> reply list \<Rightarrow> bool" where
  "released L consumerID es \<longleftrightarrow> (\<exists>answer. es = [(''DELETE'', lr_Base L @ ''/links/'' @ consumerID, [], answer)]) \<or> \<not> lr_Up L \<and> es = []"

definition looked_up :: "linkReader \<Rightarrow> string \<Rightarrow> BindingDNS \<Rightarrow> string \<Rightarrow> reply list \<Rightarrow> bool" where
  "looked_up L dep req addr es \<longleftrightarrow> (\<exists>providerID consumerID rp rc ra deletion.
     es = [(''GET'', lr_Base L @ ''/link_providers?deployment='' @ dep, [], Inr rp), (''POST'', lr_Base L @ ''/links'', linkPayload providerID, Inr rc),
       (''GET'', lr_Base L @ withStatus (linkAddressPath consumerID (dns_AZS req)) (dns_Status req), [], Inr ra)] @ deletion
     \<and> released L consumerID deletion
     \<and> lr_Provider L dep (dns_InstanceGroup req) (dns_LinkProvider req) rp = Inr providerID \<and> lr_Consumer L rc = Inr consumerID
     \<and> lr_Address L ra = Inr addr)"

fun lookups :: "linkReader \<Rightarrow> string \<Rightarrow> BindingDNS list \<Rightarrow> smap \<Rightarrow> reply list \<Rightarrow> smap \<Rightarrow> bool" where
  "lookups L dep [] m es m' \<longleftrightarrow> es = [] \<and> m' = m"
| "lookups L dep (req # reqs) m es m' \<longleftrightarrow> (\<exists>addr es1 es2. es = es1 @ es2 \<and> looked_up L dep req addr es1
     \<and> lookups L dep reqs (map_set (dns_Name req) addr m) es2 m')"

text \<open>A lookup that fails has done those before it, and breaks off before it deletes its consumer.\<close>

definition broke_off :: "linkReader \<Rightarrow> string \<Rightarrow> BindingDNS list \<Rightarrow> smap \<Rightarrow> reply list \<Rightarrow> bool" where
  "broke_off L dep reqs m es \<longleftrightarrow> (\<exists>before req rest m' es1 es2. reqs = before @ req # rest \<and> es = es1 @ es2
     \<and> lookups L dep before m es1 m' \<and> length es2 \<le> 3 \<and> (\<forall>e\<in>set es2. fst e \<noteq> ''DELETE''))"

lemma broke_offI:
  "lookups L dep before m es1 m' \<Longrightarrow> length es2 \<le> 3 \<Longrightarrow> \<forall>e\<in>set es2. fst e \<noteq> ''DELETE''
   \<Longrightarrow> broke_off L dep (before @ req # rest) m (es1 @ es2)"
  unfolding broke_off_def by blast

lemma broke_off_here: "length es \<le> 3 \<Longrightarrow> \<forall>e\<in>set es. fst e \<noteq> ''DELETE'' \<Longrightarrow> broke_off L dep (req # reqs) m es"
  using broke_offI [of L dep "[]" m "[]" m es req reqs] by simp

lemma lookups_later:
  "looked_up L dep req addr es1 \<Longrightarrow> lookups L dep reqs (map_set (dns_Name req) addr m) es2 m' \<Longrightarrow> es = es1 @ es2
   \<Longrightarrow> lookups L dep (req # reqs) m es m'"
  by auto

lemma broke_off_later:
  assumes "looked_up L dep req addr es1" "broke_off L dep reqs (map_set (dns_Name req) addr m) es2" "es = es1 @ es2"
  shows "broke_off L dep (req # reqs) m es"
proof -
  from assms(2) obtain before req' rest m' es3 es4 where reqs: "reqs = before @ req' # rest" and es2: "es2 = es3 @ es4"
    and earlier: "lookups L dep before (map_set (dns_Name req) addr m) es3 m'" and "length es4 \<le> 3" "\<forall>e\<in>set es4. fst e \<noteq> ''DELETE''"
    unfolding broke_off_def by blast
  with broke_offI [OF lookups_later [OF assms(1) earlier refl], of es4 req' rest] show ?thesis
    unfolding assms(3) reqs es2 by simp
qed

text \<open>What the lookup needs of a retriever, if an empty response is no JSON\<close>

locale link_service =
  fixes R :: dnsRetriever and L :: linkReader and json_ok :: bool
  assumes provider: "json_ok \<Longrightarrow> ensures (answered ''GET'' (lr_Base L @ ''/link_providers?deployment='' @ dep) [] (lr_Provider L dep ig nm)) []
      (dr_LinkProviderID R dep ig nm)"
    and consumer: "json_ok \<Longrightarrow> ensures (answered ''POST'' (lr_Base L @ ''/links'') (linkPayload providerID) (lr_Consumer L)) []
      (dr_CreateLinkConsumer R providerID)"
    and address: "json_ok \<Longrightarrow> ensures (answered ''GET'' (lr_Base L @ withStatus (linkAddressPath consumerID azs) stat) [] (lr_Address L)) []
      (dr_GetLinkAddress R consumerID azs stat)"
    and release: "ensures (\<lambda>r tr. (\<exists>x. r = Val x) \<and> released L consumerID (replies tr)) [] (dr_DeleteLinkConsumer R consumerID)"
begin

lemma dnsAddresses_spec:
  assumes json_ok
  shows "ensures (\<lambda>r tr. case r of Val (Inr m') \<Rightarrow> lookups L dep reqs m (replies tr) m'
     | Val (Inl err) \<Rightarrow> broke_off L dep reqs m (replies tr) | _ \<Rightarrow> False) [] (dnsAddresses R dep reqs m)"
proof (induction reqs arbitrary: m)
  case Nil
  then show ?case by (auto intro!: ens)
next
  case (Cons req reqs)
  show ?case
    unfolding dnsAddresses.simps
  proof (rule ens_attempt_sub [OF provider [OF assms]], goal_cases)
    case (1 e d)
    then show ?case by (auto simp: answered_def intro!: ens broke_off_here)
  next
    case (2 providerID tr1)
    show ?case
    proof (rule ens_attempt_sub [OF consumer [OF assms]], goal_cases)
      case (1 e d)
      with 2 show ?case by (auto simp: answered_def intro!: ens broke_off_here)
    next
      case (2 consumerID tr2)
      show ?case
      proof (rule ens_attempt_sub [OF address [OF assms]], goal_cases)
        case (1 e d)
        with 2 \<open>answered _ _ _ _ _ tr1\<close> show ?case by (auto simp: answered_def intro!: ens broke_off_here)
      next
        case (2 addr tr3)
        show ?case
        proof (rule ens_seq_sub [OF release], goal_cases)
          case (1 a tr4)
          have complete: "looked_up L dep req addr (replies (((tr1 @ tr2) @ tr3) @ tr4))"
            using 1 2 \<open>answered _ _ _ _ _ tr1\<close> \<open>answered _ _ _ _ _ tr2\<close> by (auto simp: answered_def looked_up_def)
          show ?case
            by (rule ens_sub [OF Cons.IH]) (use complete in \<open>auto simp del: lookups.simps intro: broke_off_later lookups_later split: outcome.split_asm sum.split_asm\<close>)
        qed auto
      qed (auto simp: answered_def)
    qed (auto simp: answered_def)
  qed (auto simp: answered_def)
qed

end

section \<open>The retriever over a client\<close>

text \<open>The settings of a client make a director, and nothing on the way to it fails.\<close>

definition connected :: "denv \<Rightarrow> BoshClient \<Rightarrow> bool" where
  "connected D c \<longleftrightarrow> \<not> unreachable D c \<and> (\<forall>h conf. o_NewUAA D h conf = Inr ()) \<and> caCertPool D (bcl_trustedCertPEM c) = None"

definition links_at :: "denv \<Rightarrow> BoshClient \<Rightarrow> linkReader" where
  "links_at D c = \<lparr>lr_Base = (case configFromURL D (bcl_url c) of Inl _ \<Rightarrow> [] | Inr conf \<Rightarrow> baseURL conf), lr_Up = connected D c,
     lr_Provider = readProviderID D, lr_Consumer = readConsumerID D, lr_Address = readAddress D\<rparr>"

lemma directorConfig_base:
  "ensures (\<lambda>r tr. replies tr = [] \<and> (case r of
      Val (Inr conf) \<Rightarrow> baseURL conf = lr_Base (links_at D c) \<and> (connected D c \<longrightarrow> caCertPool D (fc_CACert conf) = None)
    | Val (Inl err) \<Rightarrow> \<not> connected D c | _ \<Rightarrow> False))
     [] (directorConfig D c)"
proof (cases "configFromURL D (bcl_url c)")
  case (Inr conf)
  then show ?thesis
    by (auto simp: directorConfig_def buildUAA_def connected_def unreachable_def links_at_def baseURL_def Let_def attempt_def
        intro!: ens ens_seq_answer split: sum.splits) (metis Inl_Inr_False)
qed (auto simp: directorConfig_def connected_def unreachable_def attempt_def run intro!: ens)

text \<open>A raw request is sent once, or it is not sent, and then there is an empty response or an error.\<close>

lemma raw_request_sent:
  "ensures (\<lambda>r tr. \<exists>answer. r = Val answer \<and> (replies tr = [(meth, lr_Base (links_at D c) @ path, data, answer)]
      \<or> \<not> connected D c \<and> replies tr = [] \<and> (\<forall>response. answer = Inr response \<longrightarrow> response = [])))
     [] (raw_request D c meth path data contentType)"
  unfolding raw_request_def
  by (rule ens_attempt_sub [OF directorConfig_base]) (auto simp: Let_def intro!: ens split: option.splits)

text \<open>An empty response is not JSON, so nothing is read from a request that was not sent.\<close>

definition empty_is_no_json :: "denv \<Rightarrow> bool" where
  "empty_is_no_json D \<longleftrightarrow> parseJson D [] = WEmpty"

lemma empty_unread:
  assumes "empty_is_no_json D"
  shows "\<exists>err. readProviderID D dep ig nm [] = Inl err" "\<exists>err. readConsumerID D [] = Inl err" "\<exists>err. readAddress D [] = Inl err"
  using assms by (simp_all add: empty_is_no_json_def readProviderID_def readConsumerID_def readAddress_def unmarshalText_def)

lemma answered_request:
  assumes "\<exists>err. rd [] = Inl err"
  shows "ensures (answered meth (lr_Base (links_at D c) @ path) data rd) []
     (asked msg (raw_request D c meth path data contentType) (\<lambda>response. ret (rd response)))"
  by (rule ens_asked_sub [OF raw_request_sent]) (use assms in \<open>auto simp: answered_def intro!: ens split: sum.splits\<close>)

interpretation director_links: link_service "NewDNSRetriever D (NewBoshHTTP D c)" "links_at D c" "empty_is_no_json D" for D c
proof
  fix dep ig nm
  assume "empty_is_no_json D"
  from answered_request [where rd = "readProviderID D dep ig nm", OF empty_unread(1) [OF this]]
  show "ensures (answered ''GET'' (lr_Base (links_at D c) @ ''/link_providers?deployment='' @ dep) [] (lr_Provider (links_at D c) dep ig nm)) []
      (dr_LinkProviderID (NewDNSRetriever D (NewBoshHTTP D c)) dep ig nm)"
    by (simp add: NewDNSRetriever_def NewBoshHTTP_def LinkProviderID_def links_at_def Let_def)
next
  fix providerID
  assume "empty_is_no_json D"
  from answered_request [where rd = "readConsumerID D", OF empty_unread(2) [OF this]]
  show "ensures (answered ''POST'' (lr_Base (links_at D c) @ ''/links'') (linkPayload providerID) (lr_Consumer (links_at D c))) []
      (dr_CreateLinkConsumer (NewDNSRetriever D (NewBoshHTTP D c)) providerID)"
    by (simp add: NewDNSRetriever_def NewBoshHTTP_def CreateLinkConsumer_def links_at_def)
next
  fix consumerID azs stat
  assume "empty_is_no_json D"
  from answered_request [where rd = "readAddress D", OF empty_unread(3) [OF this]]
  show "ensures (answered ''GET'' (lr_Base (links_at D c) @ withStatus (linkAddressPath consumerID azs) stat) [] (lr_Address (links_at D c))) []
      (dr_GetLinkAddress (NewDNSRetriever D (NewBoshHTTP D c)) consumerID azs stat)"
    by (auto simp: NewDNSRetriever_def NewBoshHTTP_def GetLinkAddress_def links_at_def Let_def answered_def intro!: ens)
next
  fix consumerID
  show "ensures (\<lambda>r tr. (\<exists>x. r = Val x) \<and> released (links_at D c) consumerID (replies tr)) []
      (dr_DeleteLinkConsumer (NewDNSRetriever D (NewBoshHTTP D c)) consumerID)"
    by (auto simp: NewDNSRetriever_def NewBoshHTTP_def DeleteLinkConsumer_def released_def links_at_def
        intro!: ens ens_attempt_sub [OF raw_request_sent [unfolded links_at_def]])
qed

text \<open>
  C20.  Looking up the addresses for the bindings of a plan.  For each binding in turn the director is asked for the
  provider of the link, a consumer is created for it, its address is read, and the director is asked to delete the consumer;
  what it answers to that is not looked at.  The result has for every binding the address that the director gave for it.  A
  lookup that fails stops there: for every consumer made before the deletion was asked for, for the one of the failing
  binding it was not.  Only when the configuration of the director cannot be built at that moment (\<open>connected\<close> is the
  condition that it always can) the request for a deletion is left out, silently.  An empty text is assumed not to be JSON.
\<close>

theorem dns_lookup_requests:
  assumes "empty_is_no_json D"
  shows "ensures (\<lambda>r tr. case r of
      Val (Inr addresses) \<Rightarrow> lookups (links_at D c) dep reqs [] (replies tr) addresses
    | Val (Inl err) \<Rightarrow> broke_off (links_at D c) dep reqs [] (replies tr)
    | _ \<Rightarrow> False) [] (GetDNSAddresses (NewDNSRetriever D (NewBoshHTTP D c)) dep reqs)"
  unfolding GetDNSAddresses_def by (rule director_links.dnsAddresses_spec [OF assms])

text \<open>A director that knows one provider of links\<close>

definition linking_director :: denv where
  "linking_director = sample_director\<lparr>
     o_Http := \<lambda>_ meth url _ _. Inr (if meth = ''POST'' then ''consumer'' else if meth = ''DELETE'' then []
       else if url = ''https://bosh:25555/link_providers?deployment=dep'' then ''providers'' else ''address''),
     parseJson := \<lambda>s. if s = ''consumer'' then WJson (JObj [(''ID'', JStr ''7'')])
       else if s = ''providers'' then WJson (JArr [JObj [(''ID'', JStr ''3''), (''Name'', JStr ''db''), (''Shared'', JBool True),
         (''owner_object'', JObj [(''info'', JObj [(''instance_group'', JStr ''node'')])])]])
       else if s = ''address'' then WJson (JObj [(''Address'', JStr ''q-s0.bosh'')]) else WEmpty\<rparr>"

definition db_binding :: "string \<Rightarrow> BindingDNS" where
  "db_binding stat = \<lparr>dns_Name = ''host'', dns_LinkProvider = ''db'', dns_InstanceGroup = ''node'', dns_AZS = [], dns_Status = stat\<rparr>"

definition look_up :: "string \<Rightarrow> (gerr + smap) outcome \<times> devent gstate" where
  "look_up stat = GetDNSAddresses (NewDNSRetriever linking_director (NewBoshHTTP linking_director basic_client)) ''dep'' [db_binding stat] \<lparr>hist = []\<rparr>"

lemma linking_json: "empty_is_no_json linking_director"
  by (simp add: empty_is_no_json_def linking_director_def)

lemma linking_connected: "connected linking_director basic_client"
  by (simp add: connected_def unreachable_def linking_director_def sample_director_def basic_client_def no_uaa_def no_client_def no_user_def UAA_IsSet_def)

lemma sample_port: "show_int 25555 = ''25555''"
  by (simp add: show_int_def show_nat.simps char_of_def bit_0)

lemmas linking_run = sample_port look_up_def GetDNSAddresses_def NewDNSRetriever_def NewBoshHTTP_def LinkProviderID_def CreateLinkConsumer_def
  GetLinkAddress_def DeleteLinkConsumer_def raw_request_def directorConfig_def asked_def linking_director_def sample_director_def basic_client_def
  no_uaa_def no_client_def no_user_def UAA_IsSet_def db_binding_def readProviderID_def readConsumerID_def readAddress_def
  unmarshalText_def decodeProviders_def decodeSlice_def decodeProvider_def decodeField_def decodeStruct_def key_is_def
  lower_def char_of_def withStatus_def linkAddressPath_def baseURL_def validStatusOption_def run

lemma look_up_found: "\<exists>s'. look_up [] = (Val (Inr [(''host'', ''q-s0.bosh'')]), s')"
  by (simp add: linking_run)

theorem dns_lookup_requests_witness:
  "\<exists>addresses s'. look_up [] = (Val (Inr addresses), s') \<and> map_of addresses ''host'' = Some ''q-s0.bosh''
     \<and> lookups (links_at linking_director basic_client) ''dep'' [db_binding []] [] (replies (hist s')) addresses"
proof -
  obtain s' where answer: "look_up [] = (Val (Inr [(''host'', ''q-s0.bosh'')]), s')" using look_up_found by blast
  with ensuresD [OF dns_lookup_requests [OF linking_json] answer [unfolded look_up_def]] show ?thesis by auto
qed

section \<open>Remarks\<close>

text \<open>A status that is not one of the four is found out only after the consumer was created, which then stays.\<close>

lemma link_consumer_leaks:
  "case look_up ''sick'' of (r, s') \<Rightarrow> (\<exists>err. r = Val (Inl err)) \<and> map fst (replies (hist s')) = [''GET'', ''POST'']"
  by (simp add: linking_run)

text \<open>When the configuration of the director cannot be built, a raw request is not made and is no error.\<close>

lemma config_error_swallowed:
  "configFromURL D (bcl_url c) = Inl err \<Longrightarrow> raw_request D c meth path data contentType s = (Val (Inr []), s)"
  by (simp add: raw_request_def directorConfig_def run)

end
