(* ===== verification/Network.thy ===== *)
theory Network
  imports Semver Deployer
begin

text \<open>
  Waiting for a host to be known to the resolver (\<open>network/waiter.go\<close>).  The resolver, the sleep and the host of a
  URL leave the code; each call is an event.  A duration has 64 bits.
\<close>

datatype nevent = NLookup string "gerr option" | NSleep int

record netenv =
  o_Lookup :: "nevent list \<Rightarrow> string \<Rightarrow> gerr option"
  hostname :: "string \<Rightarrow> gerr + string"

type_synonym 'a net_m = "nevent gstate \<Rightarrow> 'a outcome \<times> nevent gstate"

definition Millisecond :: int where
  "Millisecond = 1000000"

definition lookup :: "netenv \<Rightarrow> string \<Rightarrow> (gerr option) net_m" where
  "lookup N host = ext_call (\<lambda>h. o_Lookup N h host) (NLookup host)"

definition no_such_host :: "gerr option \<Rightarrow> bool" where
  "no_such_host r \<longleftrightarrow> (case r of None \<Rightarrow> False | Some err \<Rightarrow> contains_str (errmsg err) ''no such host'')"

text \<open>The loop; its bound \<open>retries - i\<close> decreases.\<close>

fun waitLoop :: "netenv \<Rightarrow> string \<Rightarrow> nat \<Rightarrow> int \<Rightarrow> gerr option \<Rightarrow> (gerr option) net_m" where
  "waitLoop N host 0 currentPauseDuration err = ret err"
| "waitLoop N host (Suc left) currentPauseDuration err =
     (if no_such_host err then
        seq (emit (NSleep currentPauseDuration)) (\<lambda>_. seq (lookup N host) (\<lambda>err.
        waitLoop N host left (wrap64 (currentPauseDuration * 2)) err))
      else ret err)"

definition Wait :: "netenv \<Rightarrow> string \<Rightarrow> int \<Rightarrow> int \<Rightarrow> (gerr option) net_m" where
  "Wait N url pause retries = (case hostname N url of Inl err \<Rightarrow> ret (Some err)
     | Inr host \<Rightarrow> seq (lookup N host) (\<lambda>err. waitLoop N host (nat retries) (wrap64 (pause * Millisecond)) err))"

section \<open>How long it waits\<close>

text \<open>Lookups of the host that find no such host, each followed by a pause twice as long as the one before\<close>

fun backing_off :: "string \<Rightarrow> int \<Rightarrow> gerr list \<Rightarrow> nevent list" where
  "backing_off host pause [] = []"
| "backing_off host pause (err # errs) = NLookup host (Some err) # NSleep pause # backing_off host (wrap64 (pause * 2)) errs"

lemma waitLoop_spec:
  "ensures (\<lambda>r tr. \<exists>errs e. length errs \<le> n \<and> list_all (\<lambda>err. no_such_host (Some err)) errs
      \<and> r = Val e \<and> NLookup host err0 # tr = backing_off host pause errs @ [NLookup host e]
      \<and> (length errs = n \<or> \<not> no_such_host e)) [] (waitLoop N host n pause err0)"
proof (induction n arbitrary: pause err0)
  case 0
  then show ?case by (auto intro!: ens exI [of _ "[]"])
next
  case (Suc n)
  show ?case
  proof (cases "no_such_host err0")
    case True
    then obtain err where err: "err0 = Some err" by (auto simp: no_such_host_def split: option.splits)
    have step: "\<exists>errs e. length errs \<le> Suc n \<and> list_all (\<lambda>err. no_such_host (Some err)) errs \<and> r = Val e
        \<and> NLookup host err0 # ([] @ [NSleep pause]) @ [NLookup host err1] @ tr = backing_off host pause errs @ [NLookup host e]
        \<and> (length errs = Suc n \<or> \<not> no_such_host e)"
      if "\<exists>errs e. length errs \<le> n \<and> list_all (\<lambda>err. no_such_host (Some err)) errs \<and> r = Val e
        \<and> NLookup host err1 # tr = backing_off host (wrap64 (pause * 2)) errs @ [NLookup host e] \<and> (length errs = n \<or> \<not> no_such_host e)"
      for r tr err1
    proof -
      from that obtain errs e where errs: "length errs \<le> n" "list_all (\<lambda>err. no_such_host (Some err)) errs" "r = Val e"
        "NLookup host err1 # tr = backing_off host (wrap64 (pause * 2)) errs @ [NLookup host e]" "length errs = n \<or> \<not> no_such_host e" by blast
      show ?thesis by (rule exI [of _ "err # errs"], rule exI [of _ e]) (use errs True in \<open>simp add: err\<close>)
    qed
    show ?thesis
      by (simp only: waitLoop.simps if_P [OF True] lookup_def, intro ens_seq_emit ens_seq_call)
        (rule ens_sub [OF Suc.IH], use step in simp)
  next
    case False
    then show ?thesis by (auto intro!: ens exI [of _ "[]"])
  qed
qed

text \<open>
  Waiting for a host ends.  The host is looked up once, and again after each pause while it is not known, at most
  as often as there are retries; each pause is twice the one before.  The answer of the last lookup is returned, and it
  is the unknown host only when all retries are used up.  A URL without a host is an error and nothing is looked up.
\<close>

theorem wait_bounded:
  "ensures (\<lambda>r tr. case hostname N url of Inl err \<Rightarrow> r = Val (Some err) \<and> tr = []
     | Inr host \<Rightarrow> \<exists>errs e. length errs \<le> nat retries \<and> list_all (\<lambda>err. no_such_host (Some err)) errs \<and> r = Val e
         \<and> tr = backing_off host (wrap64 (pause * Millisecond)) errs @ [NLookup host e]
         \<and> (length errs = nat retries \<or> \<not> no_such_host e)) [] (Wait N url pause retries)"
proof (cases "hostname N url")
  case (Inl err)
  then show ?thesis by (auto simp: Wait_def intro!: ens)
next
  case (Inr host)
  show ?thesis
    unfolding Wait_def Inr sum.case lookup_def
    by (intro ens_seq_call, rule ens_sub [OF waitLoop_spec]) simp
qed

text \<open>A host that is known at the third attempt, waited for as the broker waits for CredHub\<close>

definition slow_resolver :: netenv where
  "slow_resolver = \<lparr>o_Lookup = \<lambda>h host. if length h < 3 then Some (ErrorString ''no such host'') else None,
     hostname = \<lambda>url. Inr ''credhub''\<rparr>"

theorem wait_bounded_witness:
  "\<exists>s' errs. Wait slow_resolver ''https://credhub'' 16 10 \<lparr>hist = []\<rparr> = (Val None, s') \<and> length errs \<le> 10
     \<and> hist s' = backing_off ''credhub'' (wrap64 (16 * Millisecond)) errs @ [NLookup ''credhub'' None]"
proof -
  have unknown: "no_such_host (Some (ErrorString ''no such host''))" "\<not> no_such_host None"
    by (simp_all add: no_such_host_def has_prefix_def)
  have retried: "waitLoop slow_resolver ''credhub'' (Suc (Suc (Suc n))) pause (Some (ErrorString ''no such host''))
      \<lparr>hist = [NLookup ''credhub'' (Some (ErrorString ''no such host''))]\<rparr> = (Val None,
        \<lparr>hist = [NLookup ''credhub'' (Some (ErrorString ''no such host'')), NSleep pause,
          NLookup ''credhub'' (Some (ErrorString ''no such host'')), NSleep (wrap64 (pause * 2)), NLookup ''credhub'' None]\<rparr>)" for n pause
    by (simp add: slow_resolver_def lookup_def run unknown)
  have "nat 10 = Suc (Suc (Suc 7))" by simp
  then obtain s' where waited: "Wait slow_resolver ''https://credhub'' 16 10 \<lparr>hist = []\<rparr> = (Val None, s')"
    using retried [of 7] by (auto simp: Wait_def slow_resolver_def lookup_def run simp del: waitLoop.simps)
  have "hostname slow_resolver ''https://credhub'' = Inr ''credhub''" by (simp add: slow_resolver_def)
  with ensuresD [OF wait_bounded waited] waited show ?thesis by auto
qed

text \<open>Doubling overflows: a pause of a second turns negative at the thirty-fourth retry.\<close>

lemma pause_overflows: "wrap64 (2 ^ 34 * (1000 * Millisecond)) < 0"
  by (simp add: wrap64_def Millisecond_def)

end
