(* ===== verification/Telemetry.thy ===== *)
theory Telemetry
  imports World
begin

text \<open>
  The telemetry log (\<open>telemetry/telemetry.go\<close>): one line for all service instances and one for each plan of the
  catalog.  The lister and the clock are oracles.  What is logged is the JSON document of a line; rendering one of these
  documents cannot fail.
\<close>

datatype tlevent = TLInstances "gerr + Instance list" | TLNow string | TLLine json | TLText string

record telenv =
  o_TLInstances :: "tlevent list \<Rightarrow> gerr + Instance list"
  o_TLNow :: "tlevent list \<Rightarrow> string"

type_synonym 'a tel_m = "tlevent gstate \<Rightarrow> 'a outcome \<times> tlevent gstate"

record TelemetryLogger =
  tl_serviceOfferingName :: string
  tl_brokerServicePlans :: "Plan list"

datatype Logger = NoopTelemetryLogger | EnabledTelemetryLogger TelemetryLogger

definition Telemetry_Build :: "bool \<Rightarrow> ServiceOffering \<Rightarrow> Logger" where
  "Telemetry_Build enableLogging serviceOffering =
     (if \<not> enableLogging then NoopTelemetryLogger
      else EnabledTelemetryLogger \<lparr>tl_serviceOfferingName = off_Name serviceOffering, tl_brokerServicePlans = off_Plans serviceOffering\<rparr>)"

definition TelemetrySource :: string where
  "TelemetrySource = ''on-demand-broker''"

text \<open>The fields of \<open>BaseLog\<close>, which the two kinds of lines embed\<close>

definition baseLog :: "telenv \<Rightarrow> TelemetryLogger \<Rightarrow> string \<Rightarrow> string \<Rightarrow> ((string \<times> json) list) tel_m" where
  "baseLog T t item operation = seq (ext_call (o_TLNow T) TLNow) (\<lambda>now. ret
     [(''telemetry-time'', JStr now), (''telemetry-source'', JStr TelemetrySource),
      (''service-offering'', JObj [(''name'', JStr (tl_serviceOfferingName t))]),
      (''event'', JObj [(''item'', JStr item), (''operation'', JStr operation)])])"

definition logTotalInstances :: "telenv \<Rightarrow> TelemetryLogger \<Rightarrow> Instance list \<Rightarrow> string \<Rightarrow> string \<Rightarrow> unit tel_m" where
  "logTotalInstances T t allInstances item operation = seq (baseLog T t item operation) (\<lambda>base.
     emit (TLLine (JObj (base @ [(''service-instances'', JObj [(''total'', JNum (int (length allInstances)))])]))))"

definition instancesPerPlan :: "Instance list \<Rightarrow> (string \<times> int) list" where
  "instancesPerPlan instances = foldl (\<lambda>m i. map_set (inst_PlanUniqueID i)
     ((case map_of m (inst_PlanUniqueID i) of None \<Rightarrow> 0 | Some n \<Rightarrow> n) + 1) m) [] instances"

fun logPlans :: "telenv \<Rightarrow> TelemetryLogger \<Rightarrow> (string \<times> int) list \<Rightarrow> Plan list \<Rightarrow> string \<Rightarrow> string \<Rightarrow> unit tel_m" where
  "logPlans T t counts [] item operation = ret ()"
| "logPlans T t counts (plan # plans) item operation =
     (let count = (case map_of counts (plan_ID plan) of None \<Rightarrow> 0 | Some n \<Rightarrow> n) in
      seq (baseLog T t item operation) (\<lambda>base.
      seq (emit (TLLine (JObj (base @ [(''service-instances-per-plan'',
          JObj [(''plan-id'', JStr (plan_ID plan)), (''total'', JNum count)])])))) (\<lambda>_.
      logPlans T t counts plans item operation)))"

definition logInstancesPerPlan :: "telenv \<Rightarrow> TelemetryLogger \<Rightarrow> Instance list \<Rightarrow> string \<Rightarrow> string \<Rightarrow> unit tel_m" where
  "logInstancesPerPlan T t instances item operation =
     logPlans T t (instancesPerPlan instances) (tl_brokerServicePlans t) item operation"

fun LogInstances :: "telenv \<Rightarrow> Logger \<Rightarrow> string \<Rightarrow> string \<Rightarrow> unit tel_m" where
  "LogInstances T NoopTelemetryLogger item operation = ret ()"
| "LogInstances T (EnabledTelemetryLogger t) item operation =
     attempt (ext_call (o_TLInstances T) TLInstances)
       (\<lambda>err. emit (TLText (''Failed to query list of instances for telemetry (cause: '' @ errmsg err @ ''). Skipping total instances log.'')))
       (\<lambda>allInstances. seq (logTotalInstances T t allInstances item operation) (\<lambda>_.
          logInstancesPerPlan T t allInstances item operation))"

section \<open>The numbers\<close>

definition countOf :: "Instance list \<Rightarrow> string \<Rightarrow> int" where
  "countOf instances plan = int (length (filter (\<lambda>i. inst_PlanUniqueID i = plan) instances))"

lemma instancesPerPlan_count: "(case map_of (instancesPerPlan instances) plan of None \<Rightarrow> 0 | Some n \<Rightarrow> n) = countOf instances plan"
proof -
  have "(case map_of (foldl (\<lambda>m i. map_set (inst_PlanUniqueID i) ((case map_of m (inst_PlanUniqueID i) of None \<Rightarrow> 0 | Some n \<Rightarrow> n) + 1) m)
      m instances) plan of None \<Rightarrow> 0 | Some n \<Rightarrow> n) = (case map_of m plan of None \<Rightarrow> 0 | Some n \<Rightarrow> n) + countOf instances plan" for m
    by (induction instances arbitrary: m) (auto simp: countOf_def map_of_map_set split: option.splits)
  from this [of "[]"] show ?thesis by (simp add: instancesPerPlan_def)
qed

text \<open>What the lines say: the numbers they carry, told apart by the plan\<close>

definition totalOf :: "tlevent \<Rightarrow> (string option \<times> int) list" where
  "totalOf e = (case e of TLLine (JObj kvs) \<Rightarrow>
       (case map_of kvs ''service-instances'' of
          Some (JObj m) \<Rightarrow> (case map_of m ''total'' of Some (JNum n) \<Rightarrow> [(None, n)] | _ \<Rightarrow> [])
        | _ \<Rightarrow> (case map_of kvs ''service-instances-per-plan'' of
            Some (JObj m) \<Rightarrow> (case (map_of m ''plan-id'', map_of m ''total'') of (Some (JStr p), Some (JNum n)) \<Rightarrow> [(Some p, n)] | _ \<Rightarrow> [])
          | _ \<Rightarrow> []))
     | _ \<Rightarrow> [])"

definition totals :: "tlevent list \<Rightarrow> (string option \<times> int) list" where
  "totals tr = concat (map totalOf tr)"

lemma totals_simps: "totals [] = []" "totals (e # tr) = totalOf e @ totals tr" "totals (xs @ ys) = totals xs @ totals ys"
  by (simp_all add: totals_def)

lemma totalOf_simps: "totalOf (TLNow now) = []" "totalOf (TLText s) = []" "totalOf (TLInstances answer) = []"
  by (simp_all add: totalOf_def)

lemma logPlans_spec:
  "ensures (\<lambda>r tr. r = Val () \<and> totals tr = map (\<lambda>p. (Some (plan_ID p), countOf instances (plan_ID p))) plans)
     [] (logPlans T t (instancesPerPlan instances) plans item operation)"
proof (induction plans)
  case Nil
  then show ?case by (auto simp: totals_simps intro!: ens)
next
  case (Cons p plans)
  show ?case
    by (auto simp: Let_def baseLog_def totals_simps totalOf_simps totalOf_def [of "TLLine _"] instancesPerPlan_count intro!: ens ens_sub [OF Cons.IH])
qed

lemma countOf_sum:
  assumes "distinct plans" "\<And>i. i \<in> set instances \<Longrightarrow> inst_PlanUniqueID i \<in> set plans"
  shows "sum_list (map (countOf instances) plans) = int (length instances)"
proof -
  have "sum_list (map (countOf instances) plans) = (\<Sum>p\<in>set plans. countOf instances p)"
    using assms(1) by (simp add: sum_list_distinct_conv_sum_set)
  also have "\<dots> = int (length instances)"
    using assms(2)
  proof (induction instances)
    case (Cons i insts)
    then have "countOf (i # insts) p = countOf insts p + (if p = inst_PlanUniqueID i then 1 else 0)" for p
      by (simp add: countOf_def)
    with Cons show ?case by (simp add: sum.distrib)
  qed (simp add: countOf_def)
  finally show ?thesis .
qed

text \<open>
  The lines of the telemetry log.  When the instances could be listed, the first line has their number and there
  is one line for each plan of the catalog, in its order, with the number of instances of that plan, zero included.
  When every instance belongs to a plan of the catalog the numbers of the plans add up to the first.
\<close>

theorem telemetry_counts:
  assumes "distinct (map plan_ID (off_Plans offering))"
  shows "ensures (\<lambda>r tr. r = Val () \<and> (\<exists>answer. hd tr = TLInstances answer \<and> (case answer of
      Inl err \<Rightarrow> totals tr = []
    | Inr instances \<Rightarrow> totals tr = (None, int (length instances)) # map (\<lambda>p. (Some (plan_ID p), countOf instances (plan_ID p))) (off_Plans offering)
        \<and> (sum_list (map (countOf instances) (map plan_ID (off_Plans offering))) = int (length instances)
           \<or> \<not> inst_PlanUniqueID ` set instances \<subseteq> plan_ID ` set (off_Plans offering)))))
     [] (LogInstances T (Telemetry_Build True offering) item operation)"
proof -
  have sum: "sum_list (map (countOf instances) (map plan_ID (off_Plans offering))) = int (length instances)
      \<or> \<not> inst_PlanUniqueID ` set instances \<subseteq> plan_ID ` set (off_Plans offering)" for instances
    using countOf_sum [OF assms, of instances] by auto
  show ?thesis
    unfolding Telemetry_Build_def not_True_eq_False if_False LogInstances.simps logTotalInstances_def logInstancesPerPlan_def baseLog_def
    by (auto simp: totals_simps totalOf_simps totalOf_def [of "TLLine _"] sum [unfolded map_map] intro!: ens ens_sub [OF logPlans_spec])
qed

end
