(* ===== verification/Commands.thy ===== *)
theory Commands
  imports Iteration Registration Lister BoshDirector Mgmtapi
begin

text \<open>
  The commands of \<open>cmd/\<close>: what each does with its configuration, in which order, and the status it exits with.

  A command is a computation whose value is its exit status; \<open>Fatal\<close> of a logger is the status 1.  Reading a file and
  decoding YAML are parameters, and so is building a pool of certificates.  Standard output is part of the result where a
  command prints more than log lines.

  A command that uses several clients runs them one after the other over one history: each starts with no history of its
  own and an environment that goes on from what has happened.
\<close>

section \<open>Parts of a command\<close>

type_synonym 'a command = "ievent gstate \<Rightarrow> 'a outcome \<times> ievent gstate"

text \<open>The environment after the history \<open>h\<close>\<close>

definition later :: "ievent list \<Rightarrow> ienv \<Rightarrow> ienv" where
  "later h E = E\<lparr>o_AuthHeader := \<lambda>t. o_AuthHeader E (h @ t), o_Do := \<lambda>t. o_Do E (h @ t),
     o_GetPlanByServiceInstanceGUID := \<lambda>t. o_GetPlanByServiceInstanceGUID E (h @ t),
     o_UpgradeServiceInstance := \<lambda>t. o_UpgradeServiceInstance E (h @ t),
     o_GetLastOperationForInstance := \<lambda>t. o_GetLastOperationForInstance E (h @ t),
     o_CheckMinimumOSBAPIVersion := \<lambda>t. o_CheckMinimumOSBAPIVersion E (h @ t)\<rparr>"

definition part :: "ienv \<Rightarrow> (ienv \<Rightarrow> itstate) \<Rightarrow> (ienv \<Rightarrow> 'a it_m) \<Rightarrow> 'a command" where
  "part E start m s = (let E' = later (hist s) E in case m E' (start E') of (r, s') \<Rightarrow> (r, s\<lparr>hist := hist s @ hist s'\<rparr>))"

text \<open>A part without an iterator\<close>

definition no_iteration :: "ienv \<Rightarrow> itstate" where
  "no_iteration E = \<lparr>hist = [], it_failures = [], it_canaries = 0,
     it_state = \<lparr>is_guids = [], is_states = [], is_processCanaries = False, is_canaryLimit = 0, is_pos = 0, is_allInstances = []\<rparr>\<rparr>"

text \<open>Flags and files: \<open>withConfigFile\<close> leaves an empty path to the file system.\<close>

definition withConfigFile :: "(string \<Rightarrow> gerr + string) \<Rightarrow> (string \<Rightarrow> gerr + 'c) \<Rightarrow> string \<Rightarrow> ('c \<Rightarrow> ('s, int) go) \<Rightarrow> ('s, int) go" where
  "withConfigFile readFile unmarshalYaml path k = (case readFile path of Inl err \<Rightarrow> ret 1
     | Inr contents \<Rightarrow> (case unmarshalYaml contents of Inl err \<Rightarrow> ret 1 | Inr conf \<Rightarrow> k conf))"

definition withConfig :: "(string \<Rightarrow> gerr + string) \<Rightarrow> (string \<Rightarrow> gerr + 'c) \<Rightarrow> string \<Rightarrow> ('c \<Rightarrow> ('s, int) go) \<Rightarrow> ('s, int) go" where
  "withConfig readFile unmarshalYaml path k = (if path = [] then ret 1 else withConfigFile readFile unmarshalYaml path k)"

definition loaded :: "(string \<Rightarrow> gerr + string) \<Rightarrow> (string \<Rightarrow> gerr + 'c) \<Rightarrow> string \<Rightarrow> 'c \<Rightarrow> bool" where
  "loaded readFile unmarshalYaml path conf \<longleftrightarrow> (\<exists>contents. readFile path = Inr contents \<and> unmarshalYaml contents = Inr conf)"

text \<open>\<open>cf.New\<close>, and the client of Cloud Foundry that the commands make\<close>

definition cf_New :: "gerr + unit \<Rightarrow> string \<Rightarrow> gerr + Client" where
  "cf_New certPool url = (case certPool of Inl err \<Rightarrow> Inl err | Inr _ \<Rightarrow> Inr \<lparr>cf_url = url\<rparr>)"

definition connectCF :: "gerr + unit \<Rightarrow> CF \<Rightarrow> gerr + Client" where
  "connectCF certPool conf = (case CF_NewAuthHeaderBuilder certPool conf of Inl err \<Rightarrow> Inl err | Inr cfAuthenticator \<Rightarrow> cf_New certPool (cfs_URL conf))"

definition withClient :: "gerr + unit \<Rightarrow> CF \<Rightarrow> (Client \<Rightarrow> (gerr + unit) cf_m) \<Rightarrow> int cf_m" where
  "withClient certPool conf run = (case connectCF certPool conf of Inl err \<Rightarrow> ret 1
     | Inr c \<Rightarrow> attempt (run c) (\<lambda>err. ret 1) (\<lambda>_. ret 0))"

section \<open>Registering, deregistering and deleting\<close>

record DeleterConfig =
  dcf_ServiceCatalogID :: string
  dcf_CF :: CF
  dcf_PollingInterval :: int
  dcf_PollingInitialOffset :: int

record RegisterConfig = RegisterBrokerErrandConfig +
  rb_CF :: CF

definition register_broker :: "nat \<Rightarrow> cfenv \<Rightarrow> gerr + unit \<Rightarrow> (string \<Rightarrow> gerr + string) \<Rightarrow> (string \<Rightarrow> gerr + RegisterConfig) \<Rightarrow> string \<Rightarrow> int cf_m" where
  "register_broker n E certPool readFile unmarshalYaml configPath =
     withConfig readFile unmarshalYaml configPath (\<lambda>errandConfig.
       withClient certPool (rb_CF errandConfig) (\<lambda>c. registrar_Run n E c (RegisterBrokerErrandConfig.truncate errandConfig)))"

definition deregister_broker :: "nat \<Rightarrow> cfenv \<Rightarrow> gerr + unit \<Rightarrow> (string \<Rightarrow> gerr + string) \<Rightarrow> (string \<Rightarrow> gerr + CF) \<Rightarrow> string \<Rightarrow> string \<Rightarrow> int cf_m" where
  "deregister_broker n E certPool readFile unmarshalYaml brokerName configPath =
     (if brokerName = [] then ret 1
      else withConfig readFile unmarshalYaml configPath (\<lambda>conf.
        withClient certPool conf (\<lambda>c. Deregister n E c brokerName)))"

definition delete_all :: "nat \<Rightarrow> nat \<Rightarrow> cfenv \<Rightarrow> gerr + unit \<Rightarrow> (string \<Rightarrow> gerr + string) \<Rightarrow> (string \<Rightarrow> gerr + DeleterConfig) \<Rightarrow> string \<Rightarrow> int cf_m" where
  "delete_all n f E certPool readFile unmarshalYaml configPath =
     withConfigFile readFile unmarshalYaml configPath (\<lambda>conf.
       withClient certPool (dcf_CF conf) (\<lambda>c.
         DeleteAllServiceInstances f (deleter_New (cfClient n E c) (dcf_PollingInitialOffset conf) (dcf_PollingInterval conf))
           (dcf_ServiceCatalogID conf)))"

definition delete_all_and_deregister :: "nat \<Rightarrow> nat \<Rightarrow> cfenv \<Rightarrow> gerr + unit \<Rightarrow> (string \<Rightarrow> gerr + string) \<Rightarrow> (string \<Rightarrow> gerr + DeleterConfig) \<Rightarrow> string \<Rightarrow> string \<Rightarrow> int cf_m" where
  "delete_all_and_deregister n f E certPool readFile unmarshalYaml brokerName configPath =
     (if brokerName = [] then ret 1
      else withConfig readFile unmarshalYaml configPath (\<lambda>conf.
        withClient certPool (dcf_CF conf) (\<lambda>c.
          DeleteInstancesAndDeregister n f E c (dcf_PollingInitialOffset conf) (dcf_PollingInterval conf)
            (dcf_ServiceCatalogID conf) brokerName)))"

section \<open>Upgrading and recreating all instances\<close>

record IteratorErrandConfig = InstanceIteratorConfig +
  ie_Bosh :: Bosh
  ie_CF :: CF
  ie_MaintenanceInfoPresent :: bool

definition no_CF :: CF where
  "no_CF = \<lparr>cfs_URL = [], cfs_TrustedCert = [],
     cfs_UAA = \<lparr>uaa_URL = [],
       uaa_ClientDefinition = \<lparr>cd_Authorities = [], cd_AuthorizedGrantTypes = [], cd_ResourceIDs = [], cd_Scopes = [],
         cd_Name = [], cd_AllowPublic = False\<rparr>,
       uaa_Authentication = \<lparr>uac_ClientCredentials = \<lparr>cc_ID = [], cc_Secret = []\<rparr>,
         uac_UserCredentials = \<lparr>uc_Username = [], uc_Password = []\<rparr>\<rparr>\<rparr>,
     cfs_DisableSSLCertVerification = False\<rparr>"

text \<open>\<open>createCFClient\<close>: whether there is a client\<close>

definition createCFClient :: "gerr + unit \<Rightarrow> IteratorErrandConfig \<Rightarrow> bool" where
  "createCFClient certPool errandConfig = (if ie_CF errandConfig \<noteq> no_CF then
       (case connectCF certPool (ie_CF errandConfig) of Inl err \<Rightarrow> False | Inr c \<Rightarrow> True)
     else False)"

text \<open>The settings of the configurator, and a run of the iterator it makes\<close>

definition settings :: "IteratorErrandConfig \<Rightarrow> InstanceIteratorConfig" where
  "settings conf = InstanceIteratorConfig.truncate conf"

definition runIterator :: "ienv \<Rightarrow> nat \<Rightarrow> InstanceIteratorConfig \<Rightarrow> strategy \<Rightarrow> (gerr option) command" where
  "runIterator E fuel conf how =
     part E (\<lambda>E. New_state (configured E conf how)) (\<lambda>E. Iterate (configured E conf how) fuel)"

definition upgradeTo :: "ienv \<Rightarrow> nat \<Rightarrow> InstanceIteratorConfig \<Rightarrow> string \<Rightarrow> strategy \<Rightarrow> (gerr option) command" where
  "upgradeTo E fuel conf name how = seq (emit (LUpgradeStrategy name)) (\<lambda>_. runIterator E fuel conf how)"

definition upgradeInstances :: "ienv \<Rightarrow> nat \<Rightarrow> InstanceIteratorConfig \<Rightarrow> bool \<Rightarrow> int command" where
  "upgradeInstances E fuel conf viaCF =
     seq (if viaCF then upgradeTo E fuel conf ''CF'' UpgradeViaCF else ret None) (\<lambda>err.
     if err \<noteq> None then ret 1
     else seq (upgradeTo E fuel conf ''BOSH'' UpgradeViaBOSH) (\<lambda>err. ret (if err \<noteq> None then 1 else 0)))"

definition canUseCF :: "ienv \<Rightarrow> gerr + unit \<Rightarrow> IteratorErrandConfig \<Rightarrow> bool command" where
  "canUseCF E certPool errandConfig = part E no_iteration
     (\<lambda>E. CanUpgradeUsingCF E (createCFClient certPool errandConfig) (ie_MaintenanceInfoPresent errandConfig))"

definition upgrade_all :: "ienv \<Rightarrow> (string \<Rightarrow> gerr option) \<Rightarrow> gerr + unit \<Rightarrow> nat \<Rightarrow> (string \<Rightarrow> gerr + string)
    \<Rightarrow> (string \<Rightarrow> gerr + IteratorErrandConfig) \<Rightarrow> string \<Rightarrow> int command" where
  "upgrade_all E certError certPool fuel readFile unmarshalYaml configPath =
     withConfig readFile unmarshalYaml configPath (\<lambda>errandConfig. case NewConfigurator E certError (settings errandConfig) of
       Inl err \<Rightarrow> ret 1
     | Inr _ \<Rightarrow> seq (canUseCF E certPool errandConfig) (upgradeInstances E fuel (settings errandConfig)))"






section \<open>Orphans, metrics, and the check after the start\<close>

text \<open>What is printed: nothing, a text, or the deployments as JSON\<close>

datatype printed = NothingPrinted | TextPrinted string | DeploymentsPrinted "string list"

definition OrphanDeploymentsDetectedExitCode :: int where
  "OrphanDeploymentsDetectedExitCode = 10"

text \<open>\<open>url\<close> is the address of the broker's API in the configuration.\<close>

definition orphan_deployments :: "ienv \<Rightarrow> gerr + unit \<Rightarrow> (string \<Rightarrow> gerr + string) \<Rightarrow> (string \<Rightarrow> gerr + string) \<Rightarrow> string \<Rightarrow> (int \<times> printed) command" where
  "orphan_deployments E certPool readFile unmarshalYaml configPath =
     (if configPath = [] then ret (1, NothingPrinted)
      else (case readFile configPath of Inl err \<Rightarrow> ret (1, NothingPrinted)
      | Inr contents \<Rightarrow> (case unmarshalYaml contents of Inl err \<Rightarrow> ret (1, NothingPrinted)
      | Inr url \<Rightarrow> (case certPool of Inl err \<Rightarrow> ret (1, NothingPrinted)
      | Inr _ \<Rightarrow> attempt (part E no_iteration (\<lambda>E. services_OrphanDeployments E url)) (\<lambda>err. ret (1, NothingPrinted)) (\<lambda>orphans.
          ret (if length orphans > 0 then OrphanDeploymentsDetectedExitCode else 0, DeploymentsPrinted orphans))))))"

definition NotReadyYetExitCode :: int where
  "NotReadyYetExitCode = 10"

definition emptyListOfMetrics :: string where
  "emptyListOfMetrics = ''[]''"

text \<open>Metrics: the reading of a body is taken not to fail.\<close>

definition fatalError :: "gerr \<Rightarrow> int \<times> printed" where
  "fatalError err = (1, TextPrinted (''error collecting metrics: '' @ errmsg err))"

definition collect_metrics :: "ienv \<Rightarrow> gerr + unit \<Rightarrow> string \<Rightarrow> string \<Rightarrow> string \<Rightarrow> (int \<times> printed) command" where
  "collect_metrics E certPool brokerUsername brokerPassword brokerUrl = (case certPool of Inl err \<Rightarrow> ret (fatalError err)
    | Inr _ \<Rightarrow> (let brokerMetricsUrl = brokerUrl @ ''/mgmt/metrics'' in case urlError E brokerMetricsUrl of
        Some err \<Rightarrow> ret (fatalError err)
      | None \<Rightarrow> let request = addHeader ''Authorization'' (basicAuthText brokerUsername brokerPassword)
              \<lparr>rq_Method = ''GET'', rq_URL = brokerMetricsUrl, rq_Headers = [], rq_Body = []\<rparr> in
          attempt (ext_call (\<lambda>h. o_Do E h request) (EHttp request)) (\<lambda>err. ret (fatalError err)) (\<lambda>resp.
          ret (if rs_StatusCode resp = 500 then (0, TextPrinted emptyListOfMetrics)
            else if rs_StatusCode resp = 503 then (NotReadyYetExitCode, NothingPrinted)
            else (0, TextPrinted (rs_Text resp))))))"

text \<open>
  The loop of requests runs beside the timer; \<open>left\<close> is the number of answers that arrive before the timer ends the
  command with the status 1.
\<close>

fun untilReady :: "ienv \<Rightarrow> HttpRequest \<Rightarrow> nat \<Rightarrow> int command" where
  "untilReady E request 0 = ret 1"
| "untilReady E request (Suc left) = seq (ext_call (\<lambda>h. o_Do E h request) (EHttp request)) (\<lambda>r.
     if (case r of Inl err \<Rightarrow> False | Inr resp \<Rightarrow> rs_StatusCode resp = 200) then ret 0
     else seq (emit (ESleep 1000000000)) (\<lambda>_. untilReady E request left))"

definition catalogRequest :: "Config \<Rightarrow> string \<Rightarrow> string \<Rightarrow> string \<Rightarrow> HttpRequest" where
  "catalogRequest conf brokerUsername brokerPassword brokerPort =
     addHeader ''X-Broker-Api-Version'' ''2.13'' (addHeader ''Authorization'' (basicAuthText brokerUsername brokerPassword)
       \<lparr>rq_Method = ''GET'', rq_URL = (if HasTLS conf then ''https'' else ''http'') @ ''://localhost:'' @ brokerPort @ ''/v2/catalog'',
        rq_Headers = [], rq_Body = []\<rparr>)"

definition post_start :: "ienv \<Rightarrow> (string \<Rightarrow> verr + Config) \<Rightarrow> nat \<Rightarrow> string \<Rightarrow> string \<Rightarrow> string \<Rightarrow> string \<Rightarrow> int command" where
  "post_start E parse answersInTime brokerUsername brokerPassword brokerPort configFilePath =
     (if configFilePath = [] then ret 1
      else (case parse configFilePath of Inl err \<Rightarrow> ret 1
      | Inr conf \<Rightarrow> let request = catalogRequest conf brokerUsername brokerPassword brokerPort in
          case urlError E (rq_URL request) of Some err \<Rightarrow> ret 1 | None \<Rightarrow> untilReady E request answersInTime))"

section \<open>Starting the broker\<close>

text \<open>The clients of the broker; an error ends the process.\<close>

definition createCfClient :: "nat \<Rightarrow> gerr + unit \<Rightarrow> Config \<Rightarrow> gerr + ServicesController" where
  "createCfClient n certPool conf = (if \<not> set_DisableCFStartupChecks (conf_Broker conf) then
       (case connectCF certPool (conf_CF conf) of Inl err \<Rightarrow> Inl err | Inr c \<Rightarrow> Inr (CFController n c))
     else Inr NoopController)"

definition createBoshClient :: "denv \<Rightarrow> gerr + unit \<Rightarrow> Config \<Rightarrow> (gerr + BoshClient) dir_m" where
  "createBoshClient D certPool conf = (case certPool of
      Inl err \<Rightarrow> ret (Inl (errorf ''error getting a certificate pool to append our trusted cert to: '' err))
    | Inr _ \<Rightarrow> attempt (bosh_client_New D (bosh_URL (conf_Bosh conf)) (bosh_TrustedCert (conf_Bosh conf)) (bosh_Authentication (conf_Bosh conf)))
        (\<lambda>err. ret (Inl (errorf ''error creating bosh client: '' err))) (\<lambda>boshClient. ret (Inr boshClient)))"

section \<open>Runs of the iterator inside a command\<close>

lemma part_result:
  assumes "part E start m s = (r, s')"
  obtains st where "m (later (hist s) E) (start (later (hist s) E)) = (r, st)" and "hist s' = hist s @ hist st"
  using assms by (auto simp: part_def Let_def split: prod.splits)

lemma NewConfigurator_runs:
  "NewConfigurator E certError conf = Inr build \<Longrightarrow> newIterator E' certError conf how = Inr (configured E' conf how)"
  by (auto simp: newIterator_def NewConfigurator_def brokerServices_of_def Iterator.pollingInterval_def attemptInterval_def
      attemptLimit_def maxInFlight_def canaries_def positive_def configured_def split: sum.splits if_splits option.splits)

text \<open>
  A run after the history \<open>h\<close> with the history \<open>t\<close>: never more operations in flight than configured; and a successful
  one, which has dealt with every instance the broker listed.
\<close>

definition within_limit :: "InstanceIteratorConfig \<Rightarrow> ievent list \<Rightarrow> bool" where
  "within_limit conf t \<longleftrightarrow> never_over (ic_MaxInFlight conf) [] t"

definition complete_run :: "ienv \<Rightarrow> nat \<Rightarrow> InstanceIteratorConfig \<Rightarrow> strategy \<Rightarrow> ievent list \<Rightarrow> ievent list \<Rightarrow> bool" where
  "complete_run E fuel conf how h t \<longleftrightarrow> (\<exists>st. Iterate (configured (later h E) conf how) fuel (New_state (configured (later h E) conf how)) = (Val None, st)
     \<and> hist st = t \<and> within_limit conf t
     \<and> (\<forall>g\<in>set (enlisted t). status (it_state st) g \<in> {OperationSucceeded, OperationSkipped, InstanceNotFound, OrphanDeployment}))"

lemma runIterator_limit:
  assumes "NewConfigurator E certError conf = Inr build" and "runIterator E fuel conf how s = (r, s')"
  shows "\<exists>t. hist s' = hist s @ t \<and> within_limit conf t"
proof -
  obtain st where st: "Iterate (configured (later (hist s) E) conf how) fuel (New_state (configured (later (hist s) E) conf how)) = (r, st)"
      "hist s' = hist s @ hist st"
    by (rule part_result [OF assms(2) [unfolded runIterator_def]])
  with run_facts [OF NewConfigurator_runs [OF assms(1)] st(1)] show ?thesis
    by (auto simp: iterated_def run_inv_def flight_inv_def within_limit_def)
qed

lemma runIterator_complete:
  assumes "NewConfigurator E certError conf = Inr build" and "runIterator E fuel conf how s = (Val None, s')" and "how \<noteq> UpgradeViaCF"
  shows "\<exists>t. hist s' = hist s @ t \<and> complete_run E fuel conf how (hist s) t"
proof -
  obtain st where st: "Iterate (configured (later (hist s) E) conf how) fuel (New_state (configured (later (hist s) E) conf how)) = (Val None, st)"
      "hist s' = hist s @ hist st"
    by (rule part_result [OF assms(2) [unfolded runIterator_def]])
  note new = NewConfigurator_runs [OF assms(1)]
  from run_facts [OF new st(1)] run_complete [OF new st(1) assms(3)] st show ?thesis
    by (auto simp: complete_run_def iterated_def run_inv_def flight_inv_def within_limit_def)
qed

lemma CanUpgradeUsingCF_result:
  assumes "CanUpgradeUsingCF E present mi s = (r, st)"
  shows "if mi \<and> present then \<exists>answer. r = Val answer \<and> hist st = hist s @ [ECheckOSBAPI ''2.15'' answer] else r = Val False \<and> hist st = hist s"
proof (cases "mi \<and> present")
  case True
  then have "CanUpgradeUsingCF E present mi s = ext_call (\<lambda>h. o_CheckMinimumOSBAPIVersion E h ''2.15'') (ECheckOSBAPI ''2.15'') s"
    by (simp add: CanUpgradeUsingCF_def)
  with assms have st: "(r, st) = ext_call (\<lambda>h. o_CheckMinimumOSBAPIVersion E h ''2.15'') (ECheckOSBAPI ''2.15'') s" by simp
  have "r = Val (o_CheckMinimumOSBAPIVersion E (hist s) ''2.15'')" using arg_cong [OF st, of fst] by (simp add: ext_call_def Let_def)
  moreover have "hist st = hist s @ [ECheckOSBAPI ''2.15'' (o_CheckMinimumOSBAPIVersion E (hist s) ''2.15'')]"
    using arg_cong [OF st, of "\<lambda>x. hist (snd x)"] by (simp add: ext_call_def Let_def)
  ultimately show ?thesis using True by simp
next
  case False
  then have "CanUpgradeUsingCF E present mi s = (Val False, s)"
    by (auto simp: CanUpgradeUsingCF_def ret_def)
  with assms False show ?thesis by simp
qed

lemma canUseCF_result:
  assumes "canUseCF E certPool conf s = (r, s')"
  shows "\<exists>answer. r = Val answer \<and> (if ie_MaintenanceInfoPresent conf \<and> createCFClient certPool conf
     then hist s' = hist s @ [ECheckOSBAPI ''2.15'' answer] else \<not> answer \<and> hist s' = hist s)"
proof -
  obtain st where "CanUpgradeUsingCF (later (hist s) E) (createCFClient certPool conf) (ie_MaintenanceInfoPresent conf) (no_iteration (later (hist s) E)) = (r, st)"
      and s': "hist s' = hist s @ hist st"
    by (rule part_result [OF assms [unfolded canUseCF_def]])
  from CanUpgradeUsingCF_result [OF this(1)] s' show ?thesis by (auto simp: no_iteration_def split: if_splits)
qed

lemma upgradeTo_result:
  assumes "NewConfigurator E certError conf = Inr build" and "upgradeTo E fuel conf name how s = (r, s')"
  shows "\<exists>t. hist s' = hist s @ LUpgradeStrategy name # t \<and> within_limit conf t
     \<and> (r = Val None \<and> how \<noteq> UpgradeViaCF \<longrightarrow> complete_run E fuel conf how (hist s @ [LUpgradeStrategy name]) t)"
proof -
  let ?s = "s\<lparr>hist := hist s @ [LUpgradeStrategy name]\<rparr>"
  from assms(2) have iterator: "runIterator E fuel conf how ?s = (r, s')"
    by (auto simp: upgradeTo_def seq_def emit_def)
  obtain t where t: "hist s' = hist ?s @ t" "within_limit conf t" using runIterator_limit [OF assms(1) iterator] by blast
  moreover have "complete_run E fuel conf how (hist ?s) t" if "r = Val None" "how \<noteq> UpgradeViaCF"
    using runIterator_complete [OF assms(1) iterator [unfolded that(1)] that(2)] t(1) by auto
  ultimately show ?thesis by auto
qed

lemma seq_result:
  assumes "seq m k s = (Val x, s')"
  obtains y s1 where "m s = (Val y, s1)" "k y s1 = (Val x, s')"
  using assms by (auto simp: seq_def split: prod.splits outcome.splits)

text \<open>What upgrading does before it goes through BOSH\<close>

definition before_BOSH :: "bool \<Rightarrow> InstanceIteratorConfig \<Rightarrow> ievent list \<Rightarrow> bool" where
  "before_BOSH possible conf t \<longleftrightarrow> (if \<not> possible then t = []
     else t = [ECheckOSBAPI ''2.15'' False] \<or> (\<exists>u. t = ECheckOSBAPI ''2.15'' True # LUpgradeStrategy ''CF'' # u \<and> within_limit conf u))"

text \<open>
  C17.  The command that upgrades all instances.  When it exits with the status 0, its configuration could be read; it
  went through Cloud Foundry only when there is a client, the plans have maintenance information and Cloud Foundry
  speaks version 2.15 of the protocol; and in any case it then went through BOSH, and this run dealt with every instance
  that the broker listed at its beginning.  In both runs there were never more operations in flight than configured.
\<close>

theorem upgrade_all_complete:
  assumes "upgrade_all E certError certPool fuel readFile unmarshalYaml configPath s = (Val 0, s')"
  shows "\<exists>conf t1 t2. loaded readFile unmarshalYaml configPath conf
    \<and> hist s' = hist s @ t1 @ LUpgradeStrategy ''BOSH'' # t2
    \<and> before_BOSH (ie_MaintenanceInfoPresent conf \<and> createCFClient certPool conf) (settings conf) t1
    \<and> complete_run E fuel (settings conf) UpgradeViaBOSH (hist s @ t1 @ [LUpgradeStrategy ''BOSH'']) t2"
proof -
  from assms obtain conf build where conf: "loaded readFile unmarshalYaml configPath conf"
    and build: "NewConfigurator E certError (settings conf) = Inr build"
    and rest: "seq (canUseCF E certPool conf) (upgradeInstances E fuel (settings conf)) s = (Val 0, s')"
    by (auto simp: upgrade_all_def withConfig_def withConfigFile_def loaded_def ret_def split: if_splits sum.splits)
  obtain viaCF s1 where first: "canUseCF E certPool conf s = (Val viaCF, s1)" and upgrade: "upgradeInstances E fuel (settings conf) viaCF s1 = (Val 0, s')"
    by (rule seq_result [OF rest])
  obtain s2 where cf: "(if viaCF then upgradeTo E fuel (settings conf) ''CF'' UpgradeViaCF else ret None) s1 = (Val None, s2)"
    and bosh: "upgradeTo E fuel (settings conf) ''BOSH'' UpgradeViaBOSH s2 = (Val None, s')"
    using upgrade unfolding upgradeInstances_def by (auto elim!: seq_result simp: ret_def split: if_splits)
  have "\<exists>t1. hist s2 = hist s @ t1 \<and> before_BOSH (ie_MaintenanceInfoPresent conf \<and> createCFClient certPool conf) (settings conf) t1"
  proof (cases viaCF)
    case True
    with cf upgradeTo_result [OF build, of fuel "''CF''" UpgradeViaCF s1 "Val None" s2] obtain u
      where "hist s2 = hist s1 @ LUpgradeStrategy ''CF'' # u" "within_limit (settings conf) u" by auto
    with True canUseCF_result [OF first] show ?thesis by (auto simp: before_BOSH_def split: if_splits)
  next
    case False
    with cf canUseCF_result [OF first] show ?thesis by (auto simp: ret_def before_BOSH_def split: if_splits)
  qed
  with upgradeTo_result [OF build bosh] conf show ?thesis by fastforce
qed

text \<open>The broker of the example, whose answers do not depend on the past\<close>

lemma example_later: "later h (example_ienv guids outcome) = example_ienv guids outcome"
  by (simp add: later_def example_ienv_def)

definition example_errand :: IteratorErrandConfig where
  "example_errand = InstanceIteratorConfig.extend (example_conf 0 [])
     \<lparr>ie_Bosh = basic_bosh, ie_CF = no_CF, ie_MaintenanceInfoPresent = True\<rparr>"

lemma example_settings [simp]: "settings example_errand = example_conf 0 []"
  "ie_CF example_errand = no_CF" "ie_MaintenanceInfoPresent example_errand = True" "ie_Bosh example_errand = basic_bosh"
  by (simp_all add: settings_def example_errand_def InstanceIteratorConfig.truncate_def InstanceIteratorConfig.extend_def example_conf_def)

lemma example_runIterator:
  assumes "Iterate (configured (example_ienv guids outcome) conf how) fuel (New_state (configured (example_ienv guids outcome) conf how)) = (r, st)"
  shows "runIterator (example_ienv guids outcome) fuel conf how s = (r, s\<lparr>hist := hist s @ hist st\<rparr>)"
  using assms by (simp add: runIterator_def part_def example_later)

lemma example_build: "\<exists>build. NewConfigurator (example_ienv guids outcome) (\<lambda>_. None) (example_conf 0 []) = Inr build"
  using example_iterator [of 0 "example_ienv guids outcome" "[]" UpgradeViaBOSH] by (auto simp: newIterator_def split: sum.splits)

lemma example_upgrade:
  "\<exists>s'. upgrade_all (example_ienv [''b''] ''succeeded'') (\<lambda>_. None) (Inr ()) 2 (\<lambda>_. Inr []) (\<lambda>_. Inr example_errand) ''config'' \<lparr>hist = []\<rparr>
     = (Val 0, s') \<and> enlisted (hist s') = [''b'']"
proof -
  let ?E = "example_ienv [''b''] ''succeeded''"
  obtain st where st: "Iterate (example_run [''b''] ''succeeded'' 0 UpgradeViaBOSH) 2 (New_state (example_run [''b''] ''succeeded'' 0 UpgradeViaBOSH))
     = (Val None, st)" "is_guids (it_state st) = [''b'']"
    using single_success by blast
  obtain build where build: "NewConfigurator ?E (\<lambda>_. None) (example_conf 0 []) = Inr build" using example_build by blast
  have "enlisted (hist st) = [''b'']" using run_lists [OF example_iterator st(1)] st(2) by simp
  moreover have "canUseCF ?E (Inr ()) example_errand \<lparr>hist = []\<rparr> = (Val False, \<lparr>hist = []\<rparr>)"
    by (simp add: canUseCF_def part_def CanUpgradeUsingCF_def createCFClient_def no_iteration_def ret_def)
  moreover have "runIterator ?E 2 (example_conf 0 []) UpgradeViaBOSH \<lparr>hist = [LUpgradeStrategy ''BOSH'']\<rparr>
      = (Val None, \<lparr>hist = LUpgradeStrategy ''BOSH'' # hist st\<rparr>)"
    using example_runIterator [OF st(1)] by simp
  ultimately show ?thesis
    by (simp add: upgrade_all_def withConfig_def withConfigFile_def build upgradeInstances_def upgradeTo_def seq_def emit_def ret_def)
qed

theorem upgrade_all_complete_witness:
  "\<exists>s' t2. upgrade_all (example_ienv [''b''] ''succeeded'') (\<lambda>_. None) (Inr ()) 2 (\<lambda>_. Inr []) (\<lambda>_. Inr example_errand) ''config'' \<lparr>hist = []\<rparr> = (Val 0, s')
     \<and> enlisted (hist s') = [''b''] \<and> hist s' = LUpgradeStrategy ''BOSH'' # t2
     \<and> complete_run (example_ienv [''b''] ''succeeded'') 2 (example_conf 0 []) UpgradeViaBOSH [LUpgradeStrategy ''BOSH''] t2"
proof -
  obtain s' where s': "upgrade_all (example_ienv [''b''] ''succeeded'') (\<lambda>_. None) (Inr ()) 2 (\<lambda>_. Inr []) (\<lambda>_. Inr example_errand) ''config'' \<lparr>hist = []\<rparr>
     = (Val 0, s')" "enlisted (hist s') = [''b'']" using example_upgrade by blast
  from upgrade_all_complete [OF s'(1)] s' show ?thesis
    by (auto simp: loaded_def before_BOSH_def createCFClient_def)
qed

section \<open>Recreating\<close>



section \<open>Commands that ask the broker\<close>

text \<open>The management API is reached, and its reply arrives.\<close>

definition delivers :: "ienv \<Rightarrow> HttpResponse \<Rightarrow> bool" where
  "delivers E resp \<longleftrightarrow> (\<forall>u. urlError E u = None) \<and> (\<forall>h. \<exists>auth. o_AuthHeader E h = Inr auth) \<and> (\<forall>h request. o_Do E h request = Inr resp)"

lemma decodeDeployments_names: "decodeDeployments (map (\<lambda>name. JObj [(''deployment_name'', JStr name)]) names) = Inr names"
  by (induction names) (simp_all add: key_is_def)

lemma listOrphanDeployments_cases:
  assumes "listOrphanDeployments b Eb sb = (Val rep, sb')"
  obtains err where "fst (OrphanDeployments b Eb sb) = Val (Inl err)" "rep = statusOnly 500"
  | names where "fst (OrphanDeployments b Eb sb) = Val (Inr names)" "rep = writeJson 200 (JArr (map (\<lambda>name. JObj [(''deployment_name'', JStr name)]) names))"
  using assms by (auto simp: listOrphanDeployments_def attempt_def seq_def ret_def split: prod.splits outcome.splits sum.splits)

lemma services_OrphanDeployments_delivered:
  assumes "delivers E resp"
  shows "fst (part E no_iteration (\<lambda>E. services_OrphanDeployments E url) s) = Val (OrphanDeploymentsFrom resp)"
proof -
  have urls: "urlError (later h E) u = None" for h u using assms by (simp add: delivers_def later_def)
  have "\<exists>auth. o_AuthHeader (later h E) t = Inr auth" and answered: "o_Do (later h E) t request = Inr resp" for h t request
    using assms by (simp_all add: delivers_def later_def)
  then obtain auth where "\<And>h t. o_AuthHeader (later h E) t = Inr (auth h t)" by metis
  with urls answered show ?thesis
    by (simp add: part_def Let_def services_OrphanDeployments_def doRequest_def attempt_def seq_def ext_call_def ret_def split: prod.splits)
qed

text \<open>
  C27.  The command that reports orphan deployments, together with the broker it asks.  When the reply of the management
  API arrives, the command prints exactly the deployments the broker found, and its status is 10 when there is one and 0
  when there is none; when the broker failed to find out, the status is 1 and nothing is printed.
\<close>

theorem orphan_command_reports:
  assumes "listOrphanDeployments b Eb sb = (Val rep, sb')" and "delivers E (respond statusLine bodyText rep)"
    and "configPath \<noteq> []" and "loaded readFile unmarshalYaml configPath url"
  shows "fst (orphan_deployments E (Inr ()) readFile unmarshalYaml configPath s) = Val (case fst (OrphanDeployments b Eb sb) of
      Val (Inr names) \<Rightarrow> (if names = [] then 0 else 10, DeploymentsPrinted names) | _ \<Rightarrow> (1, NothingPrinted))"
proof -
  from assms(3,4) have runs: "orphan_deployments E (Inr ()) readFile unmarshalYaml configPath
      = attempt (part E no_iteration (\<lambda>E. services_OrphanDeployments E url)) (\<lambda>err. ret (1, NothingPrinted)) (\<lambda>orphans.
          ret (if length orphans > 0 then OrphanDeploymentsDetectedExitCode else 0, DeploymentsPrinted orphans))"
    by (auto simp: orphan_deployments_def loaded_def)
  have answer: "fst (part E no_iteration (\<lambda>E. services_OrphanDeployments E url) s) = Val (OrphanDeploymentsFrom (respond statusLine bodyText rep))"
    by (rule services_OrphanDeployments_delivered [OF assms(2)])
  from assms(1) show ?thesis
  proof (cases rule: listOrphanDeployments_cases)
    case (1 err)
    then have "OrphanDeploymentsFrom (respond statusLine bodyText rep) = Inl (ErrorString (''HTTP response status: '' @ statusLine))"
      by (simp add: OrphanDeploymentsFrom_def decodeBodyInto_def respond_def statusOnly_def)
    with answer 1 show ?thesis unfolding runs by (auto simp: attempt_def seq_def ret_def split: prod.splits)
  next
    case (2 names)
    then have "OrphanDeploymentsFrom (respond statusLine bodyText rep) = Inr names"
      by (simp add: OrphanDeploymentsFrom_def decodeBodyInto_def respond_def writeJson_def decodeBody_def decodeDeployments_names)
    with answer 2 show ?thesis
      unfolding runs by (auto simp: attempt_def seq_def ret_def OrphanDeploymentsDetectedExitCode_def split: prod.splits)
  qed
qed

definition orphaned_env :: env where
  "orphaned_env = sample_env\<lparr>o_GetDeployments := \<lambda>h. Inr [''service-instance_gone'', ''other'']\<rparr>"

definition delivering :: "HttpResponse \<Rightarrow> ienv" where
  "delivering resp = (example_ienv [] [])\<lparr>o_Do := \<lambda>h request. Inr resp\<rparr>"

theorem orphan_command_reports_witness:
  "\<exists>rep sb'. listOrphanDeployments sample_broker orphaned_env sample_state = (Val rep, sb')
     \<and> fst (orphan_deployments (delivering (respond [] [] rep)) (Inr ()) (\<lambda>_. Inr []) (\<lambda>_. Inr ''b'') ''config'' no_events)
       = Val (10, DeploymentsPrinted [''service-instance_gone''])"
proof -
  have found: "fst (OrphanDeployments sample_broker orphaned_env sample_state) = Val (Inr [''service-instance_gone''])"
    by (simp add: OrphanDeployments_def Instances_def run client_defs orphaned_env_def sample_env_def sample_state_def
        InstancePrefix_def has_prefix_def)
  then obtain sb where "OrphanDeployments sample_broker orphaned_env sample_state = (Val (Inr [''service-instance_gone'']), sb)"
    by (metis prod.collapse)
  then obtain rep sb' where listed: "listOrphanDeployments sample_broker orphaned_env sample_state = (Val rep, sb')"
    by (auto simp: listOrphanDeployments_def attempt_def seq_def ret_def)
  moreover have "delivers (delivering (respond [] [] rep)) (respond [] [] rep)"
    by (simp add: delivers_def delivering_def example_ienv_def)
  ultimately show ?thesis
    using orphan_command_reports [OF listed, of "delivering (respond [] [] rep)" "[]" "[]" "''config''" "\<lambda>_. Inr []" "\<lambda>_. Inr ''b''" "''b''" no_events]
    by (simp add: loaded_def found)
qed

text \<open>The metrics: an error of the broker is hidden behind an empty list and the status 0.\<close>

lemma metrics_command_reports:
  assumes "metrics b Eb sb = (Val rep, sb')" and "delivers E (respond statusLine bodyText rep)"
  shows "fst (collect_metrics E (Inr ()) username password url s) = Val (case fst (CountInstancesOfPlans b Eb sb) of
      Val (Inl err) \<Rightarrow> (0, TextPrinted ''[]'')
    | Val (Inr counts) \<Rightarrow> if counts = [] then (10, NothingPrinted) else (0, TextPrinted bodyText)
    | _ \<Rightarrow> (1, NothingPrinted))"
proof -
  have "rep_Code rep = (case fst (CountInstancesOfPlans b Eb sb) of Val (Inl err) \<Rightarrow> 500
      | Val (Inr counts) \<Rightarrow> if counts = [] then 503 else 200 | _ \<Rightarrow> 0)" "\<exists>r. fst (CountInstancesOfPlans b Eb sb) = Val r"
    using assms(1) by (auto simp: metrics_def attempt_def seq_def ret_def statusOnly_def writeJson_def
        split: prod.splits outcome.splits sum.splits if_splits option.splits)
  with assms(2) show ?thesis
    by (auto simp: collect_metrics_def Let_def attempt_def seq_def ext_call_def ret_def delivers_def respond_def
        emptyListOfMetrics_def NotReadyYetExitCode_def split: sum.splits)
qed

text \<open>The check after the start succeeds only when the broker has served its catalog.\<close>

lemma untilReady_success:
  "ensures (\<lambda>r tr. case r of Val code \<Rightarrow> code = 1 \<or> code = 0 \<and> (\<exists>pre resp. tr = pre @ [EHttp request (Inr resp)] \<and> rs_StatusCode resp = 200)
     | _ \<Rightarrow> False) [] (untilReady E request left)"
proof (induction left)
  case 0
  then show ?case by (auto intro!: ens)
next
  case (Suc left)
  show ?case
    by (auto intro!: ens ens_sub [OF Suc] split: sum.splits outcome.splits if_splits)
qed

end
