(* ===== verification/ApiServer.thy ===== *)
theory ApiServer
  imports Mgmtapi ConfigCheck
begin

text \<open>
  The HTTP server of the broker (\<open>apiserver/apiserver.go\<close>): the chain of handlers, the two routers, and the start with the
  check of the certificate.

  The handler of the Open Service Broker API is a parameter, and so are the files that \<open>negroni\<close> serves from the
  directory \<open>public\<close>, SHA-256, and the decoding of a certificate.  Of the vendored \<open>negroni\<close> and \<open>gorilla/mux\<close> the order
  of the handlers is modelled, the recovery from a panic, the redirection to a clean path, and that a router applies its
  middleware to matched requests only.
\<close>

section \<open>Requests\<close>

text \<open>The path of the URL is decoded; its query is raw; the body is what a JSON decoder reads from it.\<close>

record WebRequest = HttpRequest +
  web_Path :: string
  web_RawQuery :: string
  web_Json :: wire

definition plainRequest :: "WebRequest \<Rightarrow> HttpRequest" where
  "plainRequest req = HttpRequest.truncate req"

text \<open>\<open>path.Clean\<close> of a rooted path, and the router's \<open>cleanPath\<close>\<close>

fun cleanSegments :: "string list \<Rightarrow> string list \<Rightarrow> string list" where
  "cleanSegments out [] = rev out"
| "cleanSegments out (s # ss) =
     (if s = [] \<or> s = ''.'' then cleanSegments out ss
      else if s = ''..'' then cleanSegments (tl out) ss else cleanSegments (s # out) ss)"

definition segments :: "string \<Rightarrow> string list" where
  "segments path = tl (splitOn (CHR ''/'') path)"

definition cleanPath :: "string \<Rightarrow> string" where
  "cleanPath p = (if p = [] then ''/''
     else let p' = (if hd p \<noteq> CHR ''/'' then CHR ''/'' # p else p);
              np = CHR ''/'' # join ''/'' (cleanSegments [] (segments p')) in
       if last p' = CHR ''/'' \<and> np \<noteq> ''/'' then np @ ''/'' else np)"

section \<open>The routers\<close>

text \<open>Whether a route of \<open>mgmtapi.AttachRoutes\<close> matches: only then the middleware runs.\<close>

definition managementMatch :: "string \<Rightarrow> string list \<Rightarrow> bool" where
  "managementMatch meth path \<longleftrightarrow>
     path \<in> {[''mgmt'', ''service_instances''], [''mgmt'', ''metrics''], [''mgmt'', ''orphan_deployments'']} \<and> meth = ''GET''
     \<or> length path = 3 \<and> take 2 path = [''mgmt'', ''service_instances''] \<and> path ! 2 \<noteq> [] \<and> meth = ''PATCH''"

definition managementHandler :: "Broker \<Rightarrow> env \<Rightarrow> WebRequest \<Rightarrow> reply broker_m" where
  "managementHandler b E req = AttachRoutes b E (rq_Method req) (segments (web_Path req)) (web_RawQuery req) (web_Json req)"

definition registerManagementAPI :: "(string \<Rightarrow> string) \<Rightarrow> BrokerSettings \<Rightarrow> Broker \<Rightarrow> env \<Rightarrow> WebRequest \<Rightarrow> reply broker_m" where
  "registerManagementAPI sha256 conf b E req =
     (if managementMatch (rq_Method req) (segments (web_Path req)) then
        Wrap sha256 (NewWrapper sha256 (set_Username conf) (set_Password conf)) (statusOnly 401) (\<lambda>_. managementHandler b E req) (plainRequest req)
      else managementHandler b E req)"

text \<open>\<open>registerOSBAPI\<close>: the vendored handler is made from the credentials.\<close>

definition registerOSBAPI :: "(string \<Rightarrow> string \<Rightarrow> WebRequest \<Rightarrow> reply broker_m) \<Rightarrow> BrokerSettings \<Rightarrow> WebRequest \<Rightarrow> reply broker_m" where
  "registerOSBAPI brokerapi_New conf = brokerapi_New (set_Username conf) (set_Password conf)"

text \<open>The handler of \<open>New\<close>: recovery, static files, and the router with its two prefixes\<close>

definition recovery :: "reply broker_m \<Rightarrow> reply broker_m" where
  "recovery m s = (case m s of (Panic p, s') \<Rightarrow> (Val \<lparr>rep_Code = 500, rep_Body = WMalformed p\<rparr>, s') | x \<Rightarrow> x)"

definition router :: "(string \<Rightarrow> string) \<Rightarrow> BrokerSettings \<Rightarrow> Broker \<Rightarrow> env \<Rightarrow> (string \<Rightarrow> string \<Rightarrow> WebRequest \<Rightarrow> reply broker_m) \<Rightarrow> WebRequest \<Rightarrow> reply broker_m" where
  "router sha256 conf b E brokerapi_New req =
     (if cleanPath (web_Path req) \<noteq> web_Path req then ret (statusOnly 301)
      else if has_prefix (web_Path req) ''/mgmt'' then registerManagementAPI sha256 conf b E req
      else if has_prefix (web_Path req) ''/v2'' then registerOSBAPI brokerapi_New conf req
      else ret (statusOnly 404))"

definition apiserver_New :: "(string \<Rightarrow> string) \<Rightarrow> (WebRequest \<Rightarrow> reply option) \<Rightarrow> (string \<Rightarrow> string \<Rightarrow> WebRequest \<Rightarrow> reply broker_m)
    \<Rightarrow> BrokerSettings
    \<Rightarrow> Broker \<Rightarrow> env \<Rightarrow> WebRequest \<Rightarrow> reply broker_m" where
  "apiserver_New sha256 publicFile brokerapi_New conf b E req = recovery
     (case publicFile req of Some rep \<Rightarrow> ret rep | None \<Rightarrow> router sha256 conf b E brokerapi_New req)"

section \<open>Starting and stopping\<close>

text \<open>Times are nanoseconds; a certificate is given by the time it expires.\<close>

definition CheckCertExpiry :: "(string \<Rightarrow> gerr + string) \<Rightarrow> (string \<Rightarrow> string option) \<Rightarrow> (string \<Rightarrow> gerr + int) \<Rightarrow> (string \<Rightarrow> string) \<Rightarrow> (int \<Rightarrow> string)
    \<Rightarrow> int \<Rightarrow> string \<Rightarrow> gerr option" where
  "CheckCertExpiry readFile pemDecode parseCertificate fmtq timeText now certFile = (case readFile certFile of
      Inl err \<Rightarrow> Some (errorf (''can'' @ [CHR 0x27] @ ''t read server certificate file '' @ certFile @ '': '') err)
    | Inr certBytes \<Rightarrow> (case pemDecode certBytes of
        None \<Rightarrow> Some (ErrorString (''failed to find any PEM data in certificate input from: '' @ fmtq certFile))
      | Some block \<Rightarrow> (case parseCertificate block of
          Inl err \<Rightarrow> Some (errorf (''can'' @ [CHR 0x27] @ ''t parse server certificate file '' @ certFile @ '': '') err)
        | Inr notAfter \<Rightarrow>
            if notAfter < now then Some (ErrorString (''server certificate expired on '' @ timeText notAfter)) else None)))"

text \<open>
  How listening ends: the server was shut down by the signal's handler, or it failed.  After a shutdown \<open>StartAndWait\<close>
  waits for the handler to end.
\<close>

datatype listening = ServerClosed | ServerFailed gerr

definition StartAndWait :: "(string \<Rightarrow> gerr option) \<Rightarrow> (bool \<Rightarrow> listening) \<Rightarrow> Config \<Rightarrow> gerr option" where
  "StartAndWait checkCert listenAndServe conf =
     (let serve = (\<lambda>tls. case listenAndServe tls of ServerClosed \<Rightarrow> None
            | ServerFailed err \<Rightarrow> Some (errorf ''error starting broker HTTP(s) server: '' err)) in
      if HasTLS conf then
        (case checkCert (tls_CertFile (set_TLS (conf_Broker conf))) of Some err \<Rightarrow> Some err | None \<Rightarrow> serve True)
      else serve False)"

section \<open>Who reaches the broker\<close>

lemma unmatched_reply:
  "\<not> managementMatch meth path \<Longrightarrow> AttachRoutes b E meth path rawQuery body = ret (statusOnly 404)
     \<or> AttachRoutes b E meth path rawQuery body = ret (statusOnly 405)"
  unfolding managementMatch_def AttachRoutes_def Let_def by (auto split: if_split)

lemma recovery_ret [simp]: "recovery (ret rep) = ret rep"
  by (simp add: recovery_def ret_def fun_eq_iff)

lemma recovery_no_panic: "recovery m s = (r, s') \<Longrightarrow> r \<noteq> Panic p"
  by (auto simp: recovery_def split: prod.splits outcome.splits)

text \<open>
  C40.  The management API is behind the broker's credentials.  A request below \<open>/mgmt\<close>, where no public file of the server
  has that path, whose header does not carry them
  leaves the broker and everything it calls untouched, whatever the path looks like, and is answered with a redirection, 401,
  404 or 405.  A request with them and with a clean path gets the management API's answer.  No request takes the server down.
\<close>

theorem management_guarded:
  assumes "publicFile req = None" and "has_prefix (web_Path req) ''/mgmt''"
    and "apiserver_New sha256 publicFile brokerapi_New conf b E req s = (r, s')"
  shows "(\<forall>p. r \<noteq> Panic p) \<and>
    (if authorized sha256 (NewWrapper sha256 (set_Username conf) (set_Password conf)) (plainRequest req)
     then cleanPath (web_Path req) = web_Path req \<longrightarrow> recovery (managementHandler b E req) s = (r, s')
     else s' = s \<and> (\<exists>code\<in>{301, 401, 404, 405}. r = Val (statusOnly code)))"
proof -
  have served: "recovery (router sha256 conf b E brokerapi_New req) s = (r, s')"
    using assms(1,3) by (simp add: apiserver_New_def)
  show ?thesis
  proof (cases "managementMatch (rq_Method req) (segments (web_Path req))")
    case True
    with served assms(2) recovery_no_panic [OF served] show ?thesis
      by (auto simp: router_def registerManagementAPI_def Wrap_def ret_def split: if_splits)
  next
    case False
    then have "managementHandler b E req = ret (statusOnly 404) \<or> managementHandler b E req = ret (statusOnly 405)"
      by (simp add: managementHandler_def unmatched_reply)
    with False served assms(2) recovery_no_panic [OF served] show ?thesis
      by (auto simp: router_def registerManagementAPI_def ret_def split: if_splits)
  qed
qed

definition orphans_request :: "(string \<times> string) list \<Rightarrow> WebRequest" where
  "orphans_request headers = \<lparr>rq_Method = ''GET'', rq_URL = ''/mgmt/orphan_deployments'', rq_Headers = headers, rq_Body = [],
     web_Path = ''/mgmt/orphan_deployments'', web_RawQuery = [], web_Json = WEmpty\<rparr>"

lemma orphans_path: "cleanPath ''/mgmt/orphan_deployments'' = ''/mgmt/orphan_deployments''"
  "segments ''/mgmt/orphan_deployments'' = [''mgmt'', ''orphan_deployments'']"
  by (simp_all add: cleanPath_def segments_def)

definition example_server :: "WebRequest \<Rightarrow> reply broker_m" where
  "example_server = apiserver_New id (\<lambda>_. None) (\<lambda>_ _ _. ret (statusOnly 200)) sample_settings sample_broker sample_env"

theorem management_guarded_witness:
  "(\<exists>code. example_server (orphans_request []) sample_state = (Val (statusOnly code), sample_state))
   \<and> example_server (orphans_request [(''Authorization'', basicAuthText (set_Username sample_settings) (set_Password sample_settings))]) sample_state
     = recovery (listOrphanDeployments sample_broker sample_env) sample_state"
proof
  have mgmt: "has_prefix (web_Path (orphans_request h)) ''/mgmt''" for h by (simp add: orphans_request_def has_prefix_def)
  have anonymous: "\<not> authorized id (NewWrapper id (set_Username sample_settings) (set_Password sample_settings)) (plainRequest (orphans_request []))"
    by (simp add: authorized_def BasicAuth_def plainRequest_def orphans_request_def HttpRequest.truncate_def)
  obtain r s' where "example_server (orphans_request []) sample_state = (r, s')" by fastforce
  with management_guarded [OF refl mgmt, of id "\<lambda>_ _ _. ret (statusOnly 200)" sample_settings sample_broker sample_env "[]" sample_state r s'] anonymous
  show "\<exists>code. example_server (orphans_request []) sample_state = (Val (statusOnly code), sample_state)"
    by (auto simp: example_server_def)
  let ?req = "orphans_request [(''Authorization'', basicAuthText (set_Username sample_settings) (set_Password sample_settings))]"
  have "basicAuthText u p \<noteq> []" for u p by (simp add: basicAuthText_def)
  then have known: "authorized id (NewWrapper id (set_Username sample_settings) (set_Password sample_settings)) (plainRequest ?req)"
    by (simp add: authorized_def BasicAuth_def plainRequest_def orphans_request_def HttpRequest.truncate_def parseBasicAuth_text
        NewWrapper_def isAuthorized_def sample_settings_def)
  have "managementHandler sample_broker sample_env ?req = listOrphanDeployments sample_broker sample_env" "cleanPath (web_Path ?req) = web_Path ?req"
    by (simp_all add: managementHandler_def orphans_request_def orphans_path AttachRoutes_def)
  moreover obtain r s' where "example_server ?req sample_state = (r, s')" by fastforce
  ultimately show "example_server ?req sample_state = recovery (listOrphanDeployments sample_broker sample_env) sample_state"
    using management_guarded [OF refl mgmt [of "[(''Authorization'', basicAuthText (set_Username sample_settings) (set_Password sample_settings))]"],
      of id "\<lambda>_ _ _. ret (statusOnly 200)" sample_settings sample_broker sample_env sample_state r s'] known
    by (simp add: example_server_def)
qed

end
