(* ===== verification/Spec2Isabelle.thy ===== *)
theory Spec2Isabelle
  imports LastOperation CredHubBroker ServiceAdapter Iteration Mgmtapi Registration Initiator UaaClient
    BoshLinks Lister Network Telemetry Commands ApiServer
begin

text \<open>
  A verification development for the on-demand service broker (Go sources under \<open>src/\<close>).

  \<^bold>\<open>The program.\<close>  The broker implements the Open Service Broker API on top of BOSH: a
  service instance is a BOSH deployment \<open>service-instance_<id>\<close>.  A request handler of
  \<open>broker/\<close> checks the request, takes the lock of the deployment, and starts a BOSH task; it hands
  the platform an operation datum (JSON) that the platform returns with every poll.  The poll
  handler \<open>LastOperation\<close> reads the task's state from BOSH, starts the next lifecycle errand when
  one is due, and cleans up after a deletion.  Separate processes (\<open>instanceiterator/\<close>) act on all
  service instances through the broker's management API or through Cloud Foundry.

  \<^bold>\<open>How code is modelled.\<close>  Go functions are state-passing functions to outcomes (\<open>Prelude\<close>): a
  value, a panic, or exhausted fuel.  A pair of result and error is a sum.  Every call that leaves
  the process (BOSH, Cloud Foundry, UAA, CredHub, service adapter, mutexes, random identifiers,
  HTTP) is an event of a history with the answer it got; the answer is given by an oracle that
  sees the whole history, so the theorems hold for every behaviour of the surroundings, also under
  interference by other clients.  Integers that BOSH or Go keep in 64 bits have the range written
  out.  Go maps are association lists without duplicate keys; ranging over a map visits it in the order
  of the list, which is arbitrary.

  \<^bold>\<open>Theories and sources.\<close>
  \<^item> \<open>Prelude\<close>: outcomes, histories, the judgements \<open>ensures\<close> and \<open>wp\<close>, decimal rendering.
  \<^item> \<open>Errors\<close>: \<open>broker/errors.go\<close>, \<open>brokercontext/brokercontext.go\<close>; \<open>Config\<close>: the service
    offering of \<open>config/config.go\<close>; \<open>Domain\<close>: operation data, tasks, requests; \<open>World\<close>: the
    collaborators' interfaces as oracles; \<open>Requests\<close>: \<open>broker/broker_helpers.go\<close>,
    \<open>broker/service_instance_client.go\<close>; \<open>Sample\<close>: concrete surroundings for witnesses.
  \<^item> \<open>Decider\<close>: \<open>broker/decider/decider.go\<close>; \<open>Quotas\<close>: \<open>broker/quotas.go\<close>; \<open>LifeCycle\<close>:
    \<open>broker/lifecycle_runner.go\<close>; \<open>Deployer\<close>: \<open>task/*.go\<close>, \<open>manifestsecrets/odb_secrets.go\<close>;
    \<open>Broker\<close>: \<open>broker/broker.go\<close>, \<open>instances.go\<close>, \<open>orphan_deployments.go\<close>, \<open>schema.go\<close>;
    \<open>Catalog\<close>: \<open>broker/catalog.go\<close>, \<open>hasher/map_hasher.go\<close>.
  \<^item> The handlers: \<open>Provision\<close>, \<open>Update\<close> (with \<open>upgrade.go\<close> and \<open>recreate.go\<close>), \<open>Deprovision\<close>,
    \<open>LastOperation\<close>, \<open>Binding\<close> (\<open>bind.go\<close>, \<open>unbind.go\<close>).
  \<^item> \<open>Services\<close>: the client of the management API (\<open>broker/services/\<close>); \<open>Triggerers\<close>:
    \<open>instanceiterator/bosh_triggerer.go\<close>, \<open>cf_triggerer.go\<close>, \<open>cf_querier.go\<close>; \<open>Iterator_State\<close>:
    \<open>iterator_state.go\<close>; \<open>Iterator\<close>: \<open>iterator.go\<close>, \<open>configurator.go\<close>.
  \<^item> \<open>Mgmtapi\<close>: the handlers of the management API (\<open>mgmtapi/api.go\<close>, \<open>mgmtapi/metrics.go\<close>), with the
    query strings and JSON replies that \<open>Services\<close> writes and reads.
  \<^item> \<open>CFClient\<close>: the Cloud Foundry client (\<open>cf/*.go\<close>); \<open>Deleter\<close>: \<open>deleter/deleter.go\<close>;
    \<open>Registration\<close>: \<open>purger/purger.go\<close>, \<open>registrar/*.go\<close>; \<open>CFListing\<close>: the listings of the client
    against an abstract catalogue; \<open>CFSample\<close>: a concrete Cloud Foundry for witnesses.
  \<^item> \<open>Semver\<close>: the vendored package \<open>blang/semver\<close> (parsing, rendering, precedence);
    \<open>StartupChecks\<close>: \<open>startupchecker/*.go\<close>, \<open>runtimechecker/*.go\<close>, \<open>boshdirector/info.go\<close>;
    \<open>Initiator\<close>: \<open>brokerinitiator/start.go\<close> up to the return of \<open>broker.New\<close>.
  \<^item> \<open>CredHub\<close>: \<open>credhub/credhubstore.go\<close>, \<open>manifestsecrets/manager.go\<close>,
    \<open>manifestsecrets/credhub_path_matcher.go\<close>; \<open>CredHubBroker\<close>: \<open>credhubbroker/credhubbroker.go\<close> around the
    broker of \<open>Binding\<close>.
  \<^item> \<open>AuthHeader\<close>: \<open>authorizationheader/*.go\<close> and the vendored \<open>brokerapi/auth\<close>, the two sides of a request's
    authorization; \<open>ConfigCheck\<close>: the settings of \<open>config/config.go\<close> and their validation; \<open>UaaClient\<close>:
    \<open>uaa/client.go\<close>.
  \<^item> \<open>BoshDirector\<close>: the client of BOSH (\<open>boshdirector/*.go\<close>); \<open>BoshLinks\<close>: \<open>boshdirector/http.go\<close>,
    \<open>boshdirector/links_api.go\<close>, \<open>boshlinks/retriever.go\<close>.  The handlers do not use these definitions: they call BOSH
    through the interface of \<open>World\<close>, and what the client behind it does is shown here.
  \<^item> \<open>Lister\<close>: the listers of instances (\<open>service/*.go\<close>) and \<open>noopservicescontroller/client.go\<close>; \<open>Network\<close>:
    \<open>network/waiter.go\<close>; \<open>Telemetry\<close>: \<open>telemetry/telemetry.go\<close>.
  \<^item> \<open>Commands\<close>: the commands of \<open>cmd/\<close>, from the configuration to the exit status, over the components they run;
    \<open>ApiServer\<close>: \<open>apiserver/apiserver.go\<close>, the chain of handlers in front of the broker and of \<open>Mgmtapi\<close>.
  \<^item> \<open>ServiceAdapter\<close>: \<open>serviceadapter/*.go\<close>, from the plan's properties to the command that is run, and
    from its output and exit code to the answer.

  \<^bold>\<open>What is shown.\<close>  Each handler has a contract over histories, proved with the rules of
  \<open>ensures\<close>: which changes of the world it can have made, under which lock, in which order and
  after which checks, for each of its outcomes, and what the operation datum it returns stands for.
  \<open>LifeCycle\<close> has an abstract plan (\<open>nextAction\<close>) which the code refines, and following the plan
  with a prompt BOSH runs every errand once and in order.  \<open>Decider\<close>, \<open>Quotas\<close>, \<open>Catalog\<close> and the
  operation data have functional characterisations, equivalences and round trips.  The errands that work
  through Cloud Foundry are described by the sequences of changes they make (\<open>performs\<close>, \<open>drained\<close>), and
  the listings by the collection that the pages hold (\<open>listed\<close>).

  Interfaces are locales.  \<open>broker_services\<close>, \<open>triggerer_interface\<close> and \<open>loud_triggerer\<close> are the
  contracts between the iterator and its collaborators; they are interpreted on the client of the
  management API and on the two triggerers, and the locale \<open>iteration\<close>, in which the runs of the
  iterator are analysed (\<open>Iterator_Safety\<close>, \<open>Iterator_Runs\<close>, and \<open>Iterator_Listing\<close> for the listing at the start), on every iterator that a
  configuration gives (\<open>Iteration\<close>).  \<open>deletion_client\<close> is what the deleter needs of a client of Cloud
  Foundry; it is interpreted on the client of \<open>CFClient\<close>.  \<open>wrapped_broker\<close> is what the CredHub wrapper
  relies on, interpreted on the handlers of \<open>Binding\<close>; \<open>precedence\<close> is a comparison that is a total
  preorder, interpreted on the parts of a prerelease and on versions; \<open>token_source\<close> is a way to obtain a token
  from UAA, interpreted on the two builders that have one; \<open>link_service\<close> is what a lookup of addresses needs of the
  director, interpreted on the retriever over the client of BOSH.

  \<^bold>\<open>Fuel.\<close>  The loop that triggers operations gets one unit more than there are instances, which is
  proved to be enough.  The loop that waits for running operations need not end (BOSH may never
  finish), so its fuel is a parameter: safety is shown for every fuel, the end of the loop for every
  fuel above the number of instances when checks are prompt and there is no canary limit, and a
  configuration with a canary limit is exhibited that exhausts every fuel.  A listing of Cloud Foundry
  gets fuel for its pages; as many units as there are pages are enough (\<open>listPages_listed\<close>).  The deleter
  waits for ever in the code; its properties hold for every fuel.

  \<^bold>\<open>Not modelled.\<close>  Sockets, TLS and the parsing of HTTP, the vendored handler of the Open Service Broker API between
  \<open>ApiServer\<close> and the broker's handlers, the composition of the parts that \<open>brokerinitiator\<close> starts after the broker exists, the parsing of flags, log lines other than those of
  telemetry; the libraries that talk to BOSH, UAA and CredHub, and the process of the service adapter, which appear as
  oracles; timing, except for the order of calls, the expiry of tokens and the pauses of \<open>Network\<close>; the interleaving of
  several requests in one broker process, except that the oracles may change their answers between any two calls.
  JSON-schema validation, JSON rendering where only its text matters, YAML and hashing are parameters.
\<close>

section \<open>From a request to its outcome\<close>

text \<open>
  C9.  Provision and LastOperation together: when Provision has accepted a request, and BOSH finishes
  its tasks, polling with the operation data that Provision returned runs the post-deploy errands
  of the plan, in order and each once, and the poll after that reports success.
\<close>

theorem provision_then_poll:
  assumes "Provision (b\<lparr>b_deployer := task_Deployer D E\<rparr>) E ctx iid details async s = (Val (Inr spec), s')"
    and "unmarshalOperationData (pss_OperationData spec) = Inr d" and "od_BoshTaskID d \<noteq> 0"
    and "od_BoshContextID d \<noteq> ''''" and "ctxTaskIDs (od_BoshContextID d) (hist s) = []"
    and "prompt_director E (deploymentName iid) (od_BoshContextID d)"
    and "poll = Broker_LastOperation b2 E ctx2 iid (pss_OperationData spec)"
    and "errands = PostDeployErrands (fst (FindPlanByID (b_serviceOffering b) (pd_PlanID details)))"
    and "s2 = polls (length errands) poll s'"
  shows "(\<exists>tr. hist s2 = hist s' @ tr \<and> effects tr = map errand_effect errands)
    \<and> (\<exists>lo tr. fst (poll s2) = Val (Inr lo) \<and> lo_State lo = Succeeded
       \<and> hist (snd (poll s2)) = hist s2 @ tr \<and> effects tr = [])"
  using assms by (rule provision_then_poll_lemma)

text \<open>An order for the plan with errands\<close>

definition order_env :: env where
  "order_env = prompt_env\<lparr>o_UUID := \<lambda>h. ''ctx''\<rparr>"

definition order :: ProvisionDetails where
  "order = \<lparr> pd_ServiceID = ''svc'', pd_PlanID = ''errands'', pd_OrganizationGUID = '''', pd_SpaceGUID = '''',
     pd_RawContext = WEmpty, pd_RawParameters = WEmpty, pd_MaintenanceInfo = None\<rparr>"

definition ordered :: OperationData where
  "ordered = zeroOperationData\<lparr>od_BoshTaskID := 7, od_BoshContextID := ''ctx'',
     od_OperationType := OperationTypeCreate, od_Errands := PostDeployErrands errand_plan\<rparr>"

abbreviation order_broker :: Broker where
  "order_broker \<equiv> sample_broker\<lparr>b_deployer := task_Deployer sample_deployer order_env\<rparr>"

lemma order_accepted:
  "case fst (Provision order_broker order_env background ''i1'' order True sample_state) of
     Val (Inr spec) \<Rightarrow> pss_OperationData spec = WJson (marshalOperationData ordered) | _ \<Rightarrow> False"
  by code_simp

lemma order_prompt: "prompt_director order_env dn ''ctx''"
  by (simp add: prompt_director_def order_env_def prompt_env_def sample_env_def)

theorem provision_then_poll_witness:
  "\<exists>spec s' lo. Provision order_broker order_env background ''i1'' order True sample_state = (Val (Inr spec), s')
     \<and> fst (Broker_LastOperation order_broker order_env background ''i1'' (pss_OperationData spec)
          (snd (Broker_LastOperation order_broker order_env background ''i1'' (pss_OperationData spec) s'))) = Val (Inr lo)
     \<and> lo_State lo = Succeeded"
proof -
  obtain spec s' where run: "Provision order_broker order_env background ''i1'' order True sample_state = (Val (Inr spec), s')"
    and data: "pss_OperationData spec = WJson (marshalOperationData ordered)"
    using order_accepted by (auto split: outcome.splits sum.splits prod.splits simp: prod_eq_iff)
  have decoded: "unmarshalOperationData (pss_OperationData spec) = Inr ordered"
    unfolding data by (rule operationData_decode)
      (simp_all add: ordered_def in_int64_def wf_operationType_def operationTypeOf_def)
  have errands: "PostDeployErrands (fst (FindPlanByID (b_serviceOffering sample_broker) (pd_PlanID order)))
      = PostDeployErrands errand_plan"
    by (simp add: FindPlanByID_def sample_broker_def sample_offering_def order_def sample_plan_def errand_plan_def)
  show ?thesis
    using provision_then_poll [OF run decoded _ _ _ _ refl refl refl, of order_broker background] run errands
    by (auto simp: ordered_def order_prompt sample_state_def errand_plan_def PostDeployErrands_def)
qed

end
